(* ===== verification/Prelude.thy ===== *)
theory Prelude
  imports Complex_Main "HOL-Library.Word" "HOL-Library.Char_ord" "HOL-Library.List_Lexorder"
begin

text \<open>
  Shared vocabulary of the development: the machine integers and result codes of
  src/utils/common/include/devicestatus_define.h, the little-endian byte images that a
  memory copy of an integer produces, ordered containers (std::set iterates in key order)
  and the theorem collections the component theories fill.
\<close>

section \<open>Theorem collections\<close>

named_theorems frame \<open>which fields an operation leaves alone\<close>
named_theorems keeps \<open>operations that keep an invariant\<close>
named_theorems buffer_simps \<open>effect of buffer operations on the abstract contents\<close>

section \<open>Machine integers and result codes\<close>

type_synonym i32 = "32 word"
type_synonym u32 = "32 word"
type_synonym u64 = "64 word"
type_synonym net_id = string

abbreviation (input) RET_OK :: i32 where "RET_OK \<equiv> 0"
abbreviation (input) RET_ERR :: i32 where "RET_ERR \<equiv> - 1"

text \<open>Comparisons of \<open>int32_t\<close> values are signed.\<close>

abbreviation lt32 :: "i32 \<Rightarrow> i32 \<Rightarrow> bool" where "lt32 a b \<equiv> sint a < sint b"
abbreviation le32 :: "i32 \<Rightarrow> i32 \<Rightarrow> bool" where "le32 a b \<equiv> sint a \<le> sint b"

lemma sint_eq_iff: "sint a = sint b \<longleftrightarrow> a = (b :: i32)"
  using signed_word_eqI by auto

lemma sint_image_insert: "sint ` A = insert (sint p) (sint ` B) \<longleftrightarrow> A = insert (p :: i32) B"
  by (metis image_insert inj_image_eq_iff inj_on_def sint_eq_iff)

lemma sint_image_remove: "sint ` A = sint ` B - {sint p} \<longleftrightarrow> A = B - {p :: i32}"
proof -
  have "sint ` B - {sint p} = sint ` (B - {p})"
    by (auto simp: sint_eq_iff)
  then show ?thesis
    by (metis inj_image_eq_iff inj_on_def sint_eq_iff)
qed

section \<open>Byte images of integers and strings\<close>

text \<open>
  A buffer of the program is an array of \<open>char\<close>; writing an integer copies its object
  representation, which on the targets of the project (and between two of them) is little
  endian.
\<close>

abbreviation NUL :: char where "NUL \<equiv> CHR 0x00"

definition i32_bytes :: "i32 \<Rightarrow> char list" where
  "i32_bytes w = (let n = unat w in
     [char_of n, char_of (n div 256), char_of (n div 65536), char_of (n div 16777216)])"

definition bytes_i32 :: "char list \<Rightarrow> i32" where
  "bytes_i32 cs = word_of_nat (foldr (\<lambda>c a. of_char c + 256 * a) cs 0)"

definition bool_bytes :: "bool \<Rightarrow> char list" where
  "bool_bytes b = [if b then CHR 0x01 else NUL]"

definition bytes_bool :: "char list \<Rightarrow> bool" where
  "bytes_bool cs = (hd cs \<noteq> NUL)"

definition str_bytes :: "string \<Rightarrow> char list" where
  "str_bytes s = s @ [NUL]"

lemma length_i32_bytes [simp]: "length (i32_bytes w) = 4"
  by (simp add: i32_bytes_def Let_def)

lemma length_bool_bytes [simp]: "length (bool_bytes b) = 1"
  by (simp add: bool_bytes_def)

lemma length_str_bytes [simp]: "length (str_bytes s) = Suc (length s)"
  by (simp add: str_bytes_def)

lemma i32_bytes_not_Nil [simp]: "i32_bytes w \<noteq> []"
  by (simp add: i32_bytes_def Let_def)

lemma bool_bytes_not_Nil [simp]: "bool_bytes b \<noteq> []"
  by (simp add: bool_bytes_def)

lemma str_bytes_not_Nil [simp]: "str_bytes s \<noteq> []"
  by (simp add: str_bytes_def)

lemma base256_digits:
  fixes n :: nat
  assumes "n < 4294967296"
  shows "n mod 256 + 256 * (n div 256 mod 256 + 256 * (n div 65536 mod 256
           + 256 * (n div 16777216 mod 256))) = n"
proof -
  have a: "n div 256 div 256 = n div 65536" and b: "n div 65536 div 256 = n div 16777216"
    by (simp_all add: div_mult2_eq [symmetric])
  have c: "n div 16777216 mod 256 = n div 16777216"
    using assms by (simp add: less_mult_imp_div_less)
  show ?thesis
    using mod_mult_div_eq [of n 256] mod_mult_div_eq [of "n div 256" 256]
      mod_mult_div_eq [of "n div 65536" 256] by (simp only: a b c)
qed

lemma bytes_i32_i32_bytes [simp]: "bytes_i32 (i32_bytes w) = w"
proof -
  have "unat w < 4294967296"
    using unsigned_less [of w, where ?'a = nat] by simp
  then have "foldr (\<lambda>c a. of_char c + 256 * a) (i32_bytes w) 0 = unat w"
    using base256_digits [of "unat w"] by (simp add: i32_bytes_def Let_def)
  then show ?thesis
    by (simp add: bytes_i32_def)
qed

text \<open>Eight-byte integers; a \<open>double\<close> that is only passed on is the word of its bits.\<close>

definition u64_bytes :: "u64 \<Rightarrow> char list" where
  "u64_bytes w = map (\<lambda>i. char_of (unat w div 256 ^ i)) [0..<8]"

definition bytes_u64 :: "char list \<Rightarrow> u64" where
  "bytes_u64 cs = word_of_nat (foldr (\<lambda>c a. of_char c + 256 * a) cs 0)"

lemma length_u64_bytes [simp]: "length (u64_bytes w) = 8"
  by (simp add: u64_bytes_def)

lemma u64_bytes_not_Nil [simp]: "u64_bytes w \<noteq> []" "[] \<noteq> u64_bytes w"
  by (simp_all add: u64_bytes_def)

lemma base256_sum: "foldr (\<lambda>c a. of_char c + 256 * a) (map (\<lambda>i. char_of (n div 256 ^ i)) [0..<k]) 0 = n mod (256 :: nat) ^ k"
proof (induction k arbitrary: n)
  case (Suc k)
  have "map (\<lambda>i. char_of (n div 256 ^ i) :: char) [0..<Suc k] = char_of n # map (\<lambda>i. char_of (n div 256 div 256 ^ i)) [0..<k]"
    by (simp add: upt_conv_Cons div_mult2_eq flip: map_Suc_upt del: upt_Suc)
  then show ?case
    using Suc [of "n div 256"] mod_mult2_eq [of n 256 "256 ^ k"] by simp
qed simp

lemma bytes_u64_u64_bytes [simp]: "bytes_u64 (u64_bytes w) = w"
proof -
  have "unat w < 256 ^ 8"
    using unsigned_less [of w, where ?'a = nat] by simp
  then show ?thesis
    using base256_sum [of "unat w" 8] by (simp add: bytes_u64_def u64_bytes_def)
qed

lemma bytes_bool_bool_bytes [simp]: "bytes_bool (bool_bytes b) = b"
  by (simp add: bytes_bool_def bool_bytes_def)

section \<open>Ordered sets\<close>

text \<open>
  \<open>std::set\<close> keeps its elements sorted by a key and does not replace an element whose key
  is present (\<open>insert\<close>/\<open>emplace\<close> then report \<open>false\<close>). The container is the sorted
  list of its elements, so that iterating over it gives the order the code sees.
\<close>

fun oset_insert :: "('a \<Rightarrow> 'k::linorder) \<Rightarrow> 'a \<Rightarrow> 'a list \<Rightarrow> 'a list" where
  "oset_insert k x [] = [x]"
| "oset_insert k x (y # ys) =
     (if k x < k y then x # y # ys
      else if k y < k x then y # oset_insert k x ys
      else y # ys)"

definition oset_erase :: "('a \<Rightarrow> 'k) \<Rightarrow> 'k \<Rightarrow> 'a list \<Rightarrow> 'a list" where
  "oset_erase k key xs = filter (\<lambda>y. k y \<noteq> key) xs"

definition oset_has :: "('a \<Rightarrow> 'k) \<Rightarrow> 'k \<Rightarrow> 'a list \<Rightarrow> bool" where
  "oset_has k key xs = list_ex (\<lambda>y. k y = key) xs"

definition oset_find :: "('a \<Rightarrow> 'k) \<Rightarrow> 'k \<Rightarrow> 'a list \<Rightarrow> 'a option" where
  "oset_find k key xs = List.find (\<lambda>y. k y = key) xs"

abbreviation oset_ok :: "('a \<Rightarrow> 'k::linorder) \<Rightarrow> 'a list \<Rightarrow> bool" where
  "oset_ok k xs \<equiv> sorted_wrt (\<lambda>a b. k a < k b) xs"

lemma oset_has_iff: "oset_has k key xs \<longleftrightarrow> key \<in> k ` set xs"
  by (auto simp: oset_has_def list_ex_iff)

lemma keys_oset_insert: "k ` set (oset_insert k x xs) = insert (k x) (k ` set xs)"
  by (induction xs) (auto simp: antisym_conv3)

lemma set_oset_insert_subset: "set (oset_insert k x xs) \<subseteq> insert x (set xs)"
  by (induction xs) auto

lemma oset_ok_insert [intro]: "oset_ok k xs \<Longrightarrow> oset_ok k (oset_insert k x xs)"
proof (induction xs)
  case Nil
  then show ?case by simp
next
  case (Cons y ys)
  then have ys: "oset_ok k (oset_insert k x ys)" and y: "\<forall>b \<in> set ys. k y < k b"
    by auto
  have "\<forall>b \<in> set (oset_insert k x ys). k y < k b" if "k y < k x"
    using y that set_oset_insert_subset [of k x ys] by blast
  moreover have "\<forall>b \<in> set (y # ys). k x < k b" if "k x < k y"
    using y that by (auto intro: order.strict_trans)
  ultimately show ?case
    using Cons.prems ys by auto
qed

lemma keys_oset_erase: "k ` set (oset_erase k key xs) = k ` set xs - {key}"
  by (auto simp: oset_erase_def)

lemma oset_ok_erase [intro]: "oset_ok k xs \<Longrightarrow> oset_ok k (oset_erase k key xs)"
  by (simp add: oset_erase_def sorted_wrt_filter)

lemma oset_ok_distinct: "oset_ok k xs \<Longrightarrow> distinct (map k xs)"
  by (induction xs) auto

lemma length_oset_insert_le: "length (oset_insert k x xs) \<le> Suc (length xs)"
  by (induction xs) auto

lemma oset_insert_id_set: "set (oset_insert id x xs) = insert x (set xs)"
  using keys_oset_insert [of id x xs] by simp

lemma oset_erase_id_set: "set (oset_erase id x xs) = set xs - {x}"
  by (auto simp: oset_erase_def)

lemma oset_find_None: "oset_find k key xs = None \<longleftrightarrow> key \<notin> k ` set xs"
  by (auto simp: oset_find_def find_None_iff)

lemma oset_find_SomeD: "oset_find k key xs = Some y \<Longrightarrow> y \<in> set xs \<and> k y = key"
  by (auto simp: oset_find_def find_Some_iff in_set_conv_nth)

section \<open>Association lists\<close>

text \<open>
  \<open>std::unordered_map\<close> iterates in an unspecified order; a map that the code iterates over
  is an association list with distinct keys, in the order of this run.
\<close>

fun al_put :: "'k \<Rightarrow> 'v \<Rightarrow> ('k \<times> 'v) list \<Rightarrow> ('k \<times> 'v) list" where
  "al_put k v [] = [(k, v)]"
| "al_put k v ((k', v') # m) = (if k = k' then (k, v) # m else (k', v') # al_put k v m)"

definition al_erase :: "'k \<Rightarrow> ('k \<times> 'v) list \<Rightarrow> ('k \<times> 'v) list" where
  "al_erase k m = filter (\<lambda>p. fst p \<noteq> k) m"

lemma map_of_al_put: "map_of (al_put k v m) = (map_of m)(k \<mapsto> v)"
  by (induction k v m rule: al_put.induct) (auto simp: fun_eq_iff)

lemma keys_al_put: "fst ` set (al_put k v m) = insert k (fst ` set m)"
  by (induction k v m rule: al_put.induct) auto

lemma distinct_al_put [intro]: "distinct (map fst m) \<Longrightarrow> distinct (map fst (al_put k v m))"
proof (induction k v m rule: al_put.induct)
  case (2 k v k' v' m)
  then show ?case
    using keys_al_put [of k v m] by auto
qed simp

lemma map_of_al_erase: "map_of (al_erase k m) = (map_of m)(k := None)"
  by (induction m) (auto simp: al_erase_def fun_eq_iff)

lemma distinct_al_erase [intro]: "distinct (map fst m) \<Longrightarrow> distinct (map fst (al_erase k m))"
  by (simp add: al_erase_def distinct_map_filter)

lemma keys_al_erase: "fst ` set (al_erase k m) = fst ` set m - {k}"
  by (auto simp: al_erase_def)

lemma set_al_erase: "set (al_erase k m) = {p \<in> set m. fst p \<noteq> k}"
  by (simp add: al_erase_def)

lemma set_al_put_subset: "set (al_put k v m) \<subseteq> insert (k, v) (set m)"
  by (induction k v m rule: al_put.induct) auto

section \<open>Lists\<close>

definition overwrite :: "nat \<Rightarrow> 'a list \<Rightarrow> 'a list \<Rightarrow> 'a list" where
  "overwrite i ys xs = take i xs @ ys @ drop (i + length ys) xs"

lemma length_overwrite [simp]:
  "i + length ys \<le> length xs \<Longrightarrow> length (overwrite i ys xs) = length xs"
  by (simp add: overwrite_def)

lemma take_overwrite [simp]:
  "i + length ys \<le> length xs \<Longrightarrow> take (i + length ys) (overwrite i ys xs) = take i xs @ ys"
  by (simp add: overwrite_def)

lemma drop_overwrite [simp]:
  "i + length ys \<le> length xs \<Longrightarrow>
     drop (i + length ys) (overwrite i ys xs) = drop (i + length ys) xs"
  by (simp add: overwrite_def)

lemma last_overwrite:
  "i + length ys < length xs \<Longrightarrow> last (overwrite i ys xs) = last xs"
  by (simp add: overwrite_def last_append)

lemma takeWhile_append_stop: "x \<notin> set xs \<Longrightarrow> takeWhile (\<lambda>c. c \<noteq> x) (xs @ x # ys) = xs"
  by (induction xs) auto

end
