(* ===== verification/Effects.thy ===== *)
theory Effects
  imports Prelude "HOL-Library.State_Monad"
begin

text \<open>
  How effects are written: an operation of the program is a state transformer, sequenced by
  \<open>do\<close>. This theory has the primitive operations, the two ways in which the component theories
  speak about operations (\<open>unchanged f m\<close>: the operation \<open>m\<close> leaves the view \<open>f\<close> of the state alone;
  \<open>triple P m Q\<close>: from \<open>P\<close> the operation \<open>m\<close> ends in \<open>Q\<close>), and their rules.
\<close>

section \<open>Primitive operations\<close>

definition modify :: "('s \<Rightarrow> 's) \<Rightarrow> ('s, unit) state" where
  "modify f = State (\<lambda>s. ((), f s))"

definition gets :: "('s \<Rightarrow> 'a) \<Rightarrow> ('s, 'a) state" where
  "gets f = State (\<lambda>s. (f s, s))"

definition skip :: "('s, unit) state" where
  "skip = State_Monad.return ()"

abbreviation pure :: "'a \<Rightarrow> ('s, 'a) state" where
  "pure \<equiv> State_Monad.return"

definition only_if :: "bool \<Rightarrow> ('s, unit) state \<Rightarrow> ('s, unit) state" where
  "only_if b m = (if b then m else skip)"

primrec for_each :: "'a list \<Rightarrow> ('a \<Rightarrow> ('s, unit) state) \<Rightarrow> ('s, unit) state" where
  "for_each [] f = skip"
| "for_each (x # xs) f = do { f x; for_each xs f }"

text \<open>The final state of an operation.\<close>

definition exec :: "('s, 'a) state \<Rightarrow> 's \<Rightarrow> 's" where
  "exec m s = snd (run_state m s)"

definition result_of :: "('s, 'a) state \<Rightarrow> 's \<Rightarrow> 'a" where
  "result_of m s = fst (run_state m s)"

lemma run_state_modify [simp]: "run_state (modify f) s = ((), f s)"
  by (simp add: modify_def)

lemma run_state_gets [simp]: "run_state (gets f) s = (f s, s)"
  by (simp add: gets_def)

lemma run_state_skip [simp]: "run_state skip s = ((), s)"
  by (simp add: skip_def)

lemma run_state_pair: "run_state m s = (result_of m s, exec m s)"
  by (simp add: exec_def result_of_def)

lemma exec_simps [simp]:
  "exec (State_Monad.return a) s = s"
  "exec skip s = s"
  "exec (modify f) s = f s"
  "exec (gets g) s = s"
  "exec (State_Monad.bind m k) s = exec (k (result_of m s)) (exec m s)"
  by (simp_all add: exec_def result_of_def split: prod.splits)

lemma result_of_simps [simp]:
  "result_of (State_Monad.return a) s = a"
  "result_of (gets g) s = g s"
  "result_of (State_Monad.bind m k) s = result_of (k (result_of m s)) (exec m s)"
  by (simp_all add: exec_def result_of_def split: prod.splits)

lemma exec_only_if [simp]: "exec (only_if b m) s = (if b then exec m s else s)"
  by (simp add: only_if_def)

lemma exec_if [simp]:
  "exec (if b then m else n) s = (if b then exec m s else exec n s)"
  "result_of (if b then p else q) s = (if b then result_of p s else result_of q s)"
  by simp_all

section \<open>Views that an operation leaves alone\<close>

definition unchanged :: "('s \<Rightarrow> 'v) \<Rightarrow> ('s, 'a) state \<Rightarrow> bool" where
  "unchanged f m \<longleftrightarrow> (\<forall>s. f (exec m s) = f s)"

lemma unchangedI: "(\<And>s. f (exec m s) = f s) \<Longrightarrow> unchanged f m"
  by (simp add: unchanged_def)

lemma unchangedD: "unchanged f m \<Longrightarrow> f (exec m s) = f s"
  by (simp add: unchanged_def)

lemma unchanged_return [frame]: "unchanged f (State_Monad.return a)"
  by (simp add: unchanged_def)

lemma unchanged_skip [frame]: "unchanged f skip"
  by (simp add: unchanged_def)

lemma unchanged_gets [frame]: "unchanged f (gets g)"
  by (simp add: unchanged_def)

lemma unchanged_modify [frame]: "(\<And>s. f (g s) = f s) \<Longrightarrow> unchanged f (modify g)"
  by (simp add: unchanged_def)

lemma unchanged_bind [frame]:
  "unchanged f m \<Longrightarrow> (\<And>a. unchanged f (k a)) \<Longrightarrow> unchanged f (State_Monad.bind m k)"
  by (simp add: unchanged_def)

lemma unchanged_if [frame]:
  "unchanged f m \<Longrightarrow> unchanged f n \<Longrightarrow> unchanged f (if b then m else n)"
  by simp

lemma unchanged_only_if [frame]: "unchanged f m \<Longrightarrow> unchanged f (only_if b m)"
  by (simp add: unchanged_def)

lemma unchanged_Let [frame]: "(\<And>x. unchanged f (k x)) \<Longrightarrow> unchanged f (Let v k)"
  by simp

lemma unchanged_case_option [frame]:
  "unchanged f m \<Longrightarrow> (\<And>x. unchanged f (k x)) \<Longrightarrow> unchanged f (case v of None \<Rightarrow> m | Some x \<Rightarrow> k x)"
  by (cases v) simp_all

lemma unchanged_case_prod [frame]:
  "(\<And>x y. unchanged f (k x y)) \<Longrightarrow> unchanged f (case v of (x, y) \<Rightarrow> k x y)"
  by (cases v) simp

lemma unchanged_for_each [frame]:
  assumes "\<And>x. unchanged f (k x)"
  shows "unchanged f (for_each xs k)"
  by (induction xs) (simp_all add: unchanged_skip unchanged_bind assms)

lemma unchanged_comp: "unchanged f m \<Longrightarrow> unchanged (\<lambda>s. g (f s)) m"
  by (simp add: unchanged_def)

lemma unchanged_pair:
  "unchanged f m \<Longrightarrow> unchanged g m \<Longrightarrow> unchanged (\<lambda>s. (f s, g s)) m"
  by (simp add: unchanged_def)

section \<open>Triples\<close>

definition triple :: "('s \<Rightarrow> bool) \<Rightarrow> ('s, 'a) state \<Rightarrow> ('a \<Rightarrow> 's \<Rightarrow> bool) \<Rightarrow> bool" where
  "triple P m Q \<longleftrightarrow> (\<forall>s. P s \<longrightarrow> Q (result_of m s) (exec m s))"

text \<open>\<open>keeps_inv I m\<close>: the operation keeps the invariant \<open>I\<close>.\<close>

definition keeps_inv :: "('s \<Rightarrow> bool) \<Rightarrow> ('s, 'a) state \<Rightarrow> bool" where
  "keeps_inv I m \<longleftrightarrow> (\<forall>s. I s \<longrightarrow> I (exec m s))"

lemma keeps_invI: "(\<And>s. I s \<Longrightarrow> I (exec m s)) \<Longrightarrow> keeps_inv I m"
  by (simp add: keeps_inv_def)

lemma keeps_invD: "keeps_inv I m \<Longrightarrow> I s \<Longrightarrow> I (exec m s)"
  by (simp add: keeps_inv_def)

lemma keeps_inv_unchanged: "unchanged I m \<Longrightarrow> keeps_inv I m"
  by (simp add: keeps_inv_def unchanged_def)

lemma keeps_inv_return [keeps]: "keeps_inv I (State_Monad.return a)"
  by (simp add: keeps_inv_def)

lemma keeps_inv_skip [keeps]: "keeps_inv I skip"
  by (simp add: keeps_inv_def)

lemma keeps_inv_gets [keeps]: "keeps_inv I (gets g)"
  by (simp add: keeps_inv_def)

lemma keeps_inv_modify [keeps]: "(\<And>s. I s \<Longrightarrow> I (g s)) \<Longrightarrow> keeps_inv I (modify g)"
  by (simp add: keeps_inv_def)

lemma keeps_inv_bind [keeps]:
  "keeps_inv I m \<Longrightarrow> (\<And>a. keeps_inv I (k a)) \<Longrightarrow> keeps_inv I (State_Monad.bind m k)"
  by (simp add: keeps_inv_def)

lemma keeps_inv_if [keeps]:
  "(b \<Longrightarrow> keeps_inv I m) \<Longrightarrow> (\<not> b \<Longrightarrow> keeps_inv I n) \<Longrightarrow> keeps_inv I (if b then m else n)"
  by simp

lemma keeps_inv_only_if [keeps]: "(b \<Longrightarrow> keeps_inv I m) \<Longrightarrow> keeps_inv I (only_if b m)"
  by (simp add: keeps_inv_def)

lemma keeps_inv_Let [keeps]: "(\<And>x. keeps_inv I (k x)) \<Longrightarrow> keeps_inv I (Let v k)"
  by simp

lemma keeps_inv_case_option [keeps]:
  "(v = None \<Longrightarrow> keeps_inv I m) \<Longrightarrow> (\<And>x. v = Some x \<Longrightarrow> keeps_inv I (k x)) \<Longrightarrow>
     keeps_inv I (case v of None \<Rightarrow> m | Some x \<Rightarrow> k x)"
  by (cases v) simp_all

lemma keeps_inv_case_prod [keeps]:
  "(\<And>x y. keeps_inv I (k x y)) \<Longrightarrow> keeps_inv I (case v of (x, y) \<Rightarrow> k x y)"
  by (cases v) simp

lemma keeps_inv_for_each [keeps]:
  assumes "\<And>x. x \<in> set xs \<Longrightarrow> keeps_inv I (k x)"
  shows "keeps_inv I (for_each xs k)"
  using assms by (induction xs) (auto intro!: keeps_inv_skip keeps_inv_bind)

lemma tripleI: "(\<And>s. P s \<Longrightarrow> Q (result_of m s) (exec m s)) \<Longrightarrow> triple P m Q"
  by (simp add: triple_def)

lemma tripleD: "triple P m Q \<Longrightarrow> P s \<Longrightarrow> Q (result_of m s) (exec m s)"
  by (simp add: triple_def)

lemma triple_weaken:
  "triple P' m Q' \<Longrightarrow> (\<And>s. P s \<Longrightarrow> P' s) \<Longrightarrow> (\<And>a s. Q' a s \<Longrightarrow> Q a s) \<Longrightarrow> triple P m Q"
  by (simp add: triple_def)

lemma triple_return: "triple (Q a) (State_Monad.return a) Q"
  by (simp add: triple_def)

lemma triple_skip: "triple (Q ()) skip Q"
  by (simp add: triple_def)

lemma triple_bind:
  "triple P m R \<Longrightarrow> (\<And>a. triple (R a) (k a) Q) \<Longrightarrow> triple P (State_Monad.bind m k) Q"
  by (simp add: triple_def)

lemma triple_if:
  "(b \<Longrightarrow> triple P m Q) \<Longrightarrow> (\<not> b \<Longrightarrow> triple P n Q) \<Longrightarrow> triple P (if b then m else n) Q"
  by simp

lemma triple_unchanged: "unchanged f m \<Longrightarrow> triple (\<lambda>s. R (f s)) m (\<lambda>_ s. R (f s))"
  by (simp add: triple_def unchanged_def)

end
