(* ===== verification/Stream_Buffer.thy ===== *)
theory Stream_Buffer
  imports Prelude "HOL-Library.Monad_Syntax"
begin

text \<open>
  src/utils/ipc: the fixed-size stream buffer (devicestatus_stream_buffer.cpp and its header),
  the circular variant (circle_stream_buffer.cpp), network packets (net_packet.cpp) and the
  packet framing of stream_socket.cpp. A buffer is the array itself with the read and write
  positions, so that reads past the written part are visible; an access outside the array,
  undefined in C++, is \<open>None\<close>.
\<close>

section \<open>State\<close>

definition MAX_STREAM_BUF_SIZE :: nat where "MAX_STREAM_BUF_SIZE = 2048"
definition ONCE_PROCESS_NETPACKET_LIMIT :: nat where "ONCE_PROCESS_NETPACKET_LIMIT = 100"

datatype error_status = ERROR_STATUS_OK | ERROR_STATUS_READ | ERROR_STATUS_WRITE

record stream_buffer =
  rwErrorStatus :: error_status
  rCount :: i32
  wCount :: i32
  rPos :: nat
  wPos :: nat
  szBuff :: "char list"

record net_packet = stream_buffer +
  msgId :: i32

definition new_stream_buffer :: stream_buffer where
  "new_stream_buffer = \<lparr>rwErrorStatus = ERROR_STATUS_OK, rCount = 0, wCount = 0,
     rPos = 0, wPos = 0, szBuff = replicate (Suc MAX_STREAM_BUF_SIZE) NUL\<rparr>"

definition NetPacket :: "i32 \<Rightarrow> net_packet" where
  "NetPacket mid = stream_buffer.extend new_stream_buffer \<lparr>msgId = mid\<rparr>"

section \<open>Operations of StreamBuffer\<close>

definition ChkRWError :: "'a stream_buffer_scheme \<Rightarrow> bool" where
  "ChkRWError b = (rwErrorStatus b \<noteq> ERROR_STATUS_OK)"

definition Reset :: "'a stream_buffer_scheme \<Rightarrow> 'a stream_buffer_scheme" where
  "Reset b = b\<lparr>wPos := 0, rPos := 0, wCount := 0, rCount := 0,
     rwErrorStatus := ERROR_STATUS_OK\<rparr>"

definition Clean :: "'a stream_buffer_scheme \<Rightarrow> 'a stream_buffer_scheme" where
  "Clean b = (Reset b)\<lparr>szBuff := replicate (Suc MAX_STREAM_BUF_SIZE) NUL\<rparr>"

definition SeekReadPos :: "int \<Rightarrow> 'a stream_buffer_scheme \<Rightarrow> bool \<times> 'a stream_buffer_scheme" where
  "SeekReadPos n b =
     (let pos = int (rPos b) + n in
      if pos < 0 \<or> int (wPos b) < pos then (False, b) else (True, b\<lparr>rPos := nat pos\<rparr>))"

definition sb_empty :: "'a stream_buffer_scheme \<Rightarrow> bool" where
  "sb_empty b = (rPos b = wPos b)"

definition sb_Size :: "'a stream_buffer_scheme \<Rightarrow> nat" where
  "sb_Size b = wPos b"

definition ResidualSize :: "'a stream_buffer_scheme \<Rightarrow> nat" where
  "ResidualSize b = (if wPos b \<le> rPos b then 0 else wPos b - rPos b)"

definition GetAvailableBufSize :: "'a stream_buffer_scheme \<Rightarrow> nat" where
  "GetAvailableBufSize b =
     (if MAX_STREAM_BUF_SIZE \<le> wPos b then 0 else MAX_STREAM_BUF_SIZE - wPos b)"

definition sb_Write :: "char list \<Rightarrow> 'a stream_buffer_scheme \<Rightarrow> bool \<times> 'a stream_buffer_scheme" where
  "sb_Write bs b =
     (if ChkRWError b then (False, b)
      else if bs = [] then (False, b\<lparr>rwErrorStatus := ERROR_STATUS_WRITE\<rparr>)
      else if MAX_STREAM_BUF_SIZE < wPos b + length bs
        then (False, b\<lparr>rwErrorStatus := ERROR_STATUS_WRITE\<rparr>)
      else (True, b\<lparr>szBuff := overwrite (wPos b) bs (szBuff b),
                    wPos := wPos b + length bs, wCount := wCount b + 1\<rparr>))"

definition sb_Read :: "nat \<Rightarrow> 'a stream_buffer_scheme \<Rightarrow> char list option \<times> 'a stream_buffer_scheme" where
  "sb_Read sz b =
     (if ChkRWError b then (None, b)
      else if sz = 0 then (None, b\<lparr>rwErrorStatus := ERROR_STATUS_READ\<rparr>)
      else if wPos b < rPos b + sz then (None, b\<lparr>rwErrorStatus := ERROR_STATUS_READ\<rparr>)
      else (Some (take sz (drop (rPos b) (szBuff b))),
            b\<lparr>rCount := rCount b + 1, rPos := rPos b + sz\<rparr>))"

text \<open>
  \<open>Read(std::string &)\<close> copies the C string at the read position: it looks for the next NUL
  in the array, wherever that is, and is \<open>None\<close> (undefined behaviour) when there is none
  before the end of the array. It does not look at the error status.
\<close>

definition sb_ReadString ::
    "string \<Rightarrow> 'a stream_buffer_scheme \<Rightarrow> (bool \<times> string \<times> 'a stream_buffer_scheme) option" where
  "sb_ReadString old b =
     (if rPos b = wPos b
        then Some (False, old, b\<lparr>rwErrorStatus := ERROR_STATUS_READ\<rparr>)
      else if NUL \<notin> set (drop (rPos b) (szBuff b)) then None
      else (let s = takeWhile (\<lambda>c. c \<noteq> NUL) (drop (rPos b) (szBuff b)) in
            Some (0 < length s, s, b\<lparr>rPos := rPos b + length s + 1\<rparr>)))"

definition sb_Clone :: "'b stream_buffer_scheme \<Rightarrow> 'a stream_buffer_scheme
    \<Rightarrow> bool \<times> 'a stream_buffer_scheme" where
  "sb_Clone src b = sb_Write (take (wPos src) (szBuff src)) (Clean b)"

section \<open>Stream operators\<close>

text \<open>
  \<open>packet << x\<close> drops the result of the write, \<open>packet >> x\<close> that of the read; a read that
  fails leaves \<open>x\<close> as it was. A chain of \<open><<\<close> is \<open>puts\<close> over the byte images.
\<close>

definition put :: "char list \<Rightarrow> 'a stream_buffer_scheme \<Rightarrow> 'a stream_buffer_scheme" where
  "put bs b = snd (sb_Write bs b)"

definition puts :: "char list list \<Rightarrow> 'a stream_buffer_scheme \<Rightarrow> 'a stream_buffer_scheme" where
  "puts bss b = fold put bss b"

definition get_i32 :: "i32 \<Rightarrow> 'a stream_buffer_scheme \<Rightarrow> (i32 \<times> 'a stream_buffer_scheme) option" where
  "get_i32 old b = (case sb_Read 4 b of
     (None, b') \<Rightarrow> Some (old, b') | (Some bs, b') \<Rightarrow> Some (bytes_i32 bs, b'))"

definition get_bool :: "bool \<Rightarrow> 'a stream_buffer_scheme \<Rightarrow> (bool \<times> 'a stream_buffer_scheme) option" where
  "get_bool old b = (case sb_Read 1 b of
     (None, b') \<Rightarrow> Some (old, b') | (Some bs, b') \<Rightarrow> Some (bytes_bool bs, b'))"

definition get_str :: "string \<Rightarrow> 'a stream_buffer_scheme \<Rightarrow> (string \<times> 'a stream_buffer_scheme) option" where
  "get_str old b = map_option (\<lambda>(_, s, b'). (s, b')) (sb_ReadString old b)"

text \<open>The idiom \<open>packet >> x; if (packet.ChkRWError()) { x = dflt; }\<close> of the decoders.\<close>

definition get_or :: "('x \<Rightarrow> 'a stream_buffer_scheme \<Rightarrow> ('x \<times> 'a stream_buffer_scheme) option)
    \<Rightarrow> 'x \<Rightarrow> 'x \<Rightarrow> 'a stream_buffer_scheme \<Rightarrow> ('x \<times> 'a stream_buffer_scheme) option" where
  "get_or get init dflt b = do {
     (x, b') \<leftarrow> get init b;
     Some (if ChkRWError b' then dflt else x, b') }"

section \<open>CircleStreamBuffer\<close>

definition CopyDataToBegin :: "'a stream_buffer_scheme \<Rightarrow> 'a stream_buffer_scheme" where
  "CopyDataToBegin b =
     (let residual = ResidualSize b;
          buff = (if 0 < residual \<and> 0 < rPos b
                  then overwrite 0 (take (Suc (wPos b) - rPos b) (drop (rPos b) (szBuff b))) (szBuff b)
                  else szBuff b)
      in b\<lparr>szBuff := buff, rPos := 0, wPos := residual\<rparr>)"

definition CheckWrite :: "nat \<Rightarrow> 'a stream_buffer_scheme \<Rightarrow> bool \<times> 'a stream_buffer_scheme" where
  "CheckWrite sz b =
     (if GetAvailableBufSize b < sz \<and> 0 < rPos b
      then let b' = CopyDataToBegin b in (sz \<le> GetAvailableBufSize b', b')
      else (sz \<le> GetAvailableBufSize b, b))"

definition circle_Write :: "char list \<Rightarrow> 'a stream_buffer_scheme \<Rightarrow> bool \<times> 'a stream_buffer_scheme" where
  "circle_Write bs b =
     (case CheckWrite (length bs) b of
        (False, b') \<Rightarrow> (False, b')
      | (True, b') \<Rightarrow> sb_Write bs b')"

section \<open>NetPacket and the framing of StreamSocket\<close>

definition pack_head :: "i32 \<Rightarrow> nat \<Rightarrow> char list" where
  "pack_head mid sz = i32_bytes mid @ i32_bytes (word_of_nat sz)"

definition MakeData :: "net_packet \<Rightarrow> 'a stream_buffer_scheme \<Rightarrow> bool \<times> 'a stream_buffer_scheme" where
  "MakeData p b =
     (let b' = put (pack_head (msgId p) (wPos p)) b in
      if 0 < wPos p then
        sb_Write (take (wPos p) (szBuff p)) b'
      else (True, b'))"

definition GetPacketLength :: "net_packet \<Rightarrow> int" where
  "GetPacketLength p = 8 + int (wPos p)"

definition headSize :: nat where "headSize = 8"

text \<open>
  \<open>OnReadPackets\<close>: at most \<open>n\<close> rounds; each parses a header at the read position and
  delivers the packet to the callback (here: returns it). The counter is the bounded loop of
  the source, started at \<open>ONCE_PROCESS_NETPACKET_LIMIT\<close>.
\<close>

fun read_packets :: "nat \<Rightarrow> stream_buffer \<Rightarrow> net_packet list \<times> stream_buffer" where
  "read_packets 0 b = ([], b)"
| "read_packets (Suc n) b =
     (if ResidualSize b < headSize then ([], b)
      else
        let dataSize = ResidualSize b - headSize;
            buf = drop (rPos b) (szBuff b);
            idMsg = bytes_i32 (take 4 buf);
            sz = sint (bytes_i32 (take 4 (drop 4 buf)))
        in
        if sz < 0 \<or> int MAX_STREAM_BUF_SIZE < sz then ([], Reset b)
        else if int dataSize < sz then ([], b)
        else
          let (written, pkt) =
                (if 0 < sz then sb_Write (take (nat sz) (drop headSize buf)) (NetPacket idMsg)
                 else (True, NetPacket idMsg))
          in
          if \<not> written then ([], b)
          else
            (case SeekReadPos (GetPacketLength pkt) b of
               (False, b') \<Rightarrow> ([], Reset b')
             | (True, b') \<Rightarrow>
                 if sb_empty b' then ([pkt], Reset b')
                 else let (ps, b'') = read_packets n b' in (pkt # ps, b'')))"

definition OnReadPackets :: "stream_buffer \<Rightarrow> net_packet list \<times> stream_buffer" where
  "OnReadPackets b = read_packets ONCE_PROCESS_NETPACKET_LIMIT b"

section \<open>Well-formed buffers and their abstract contents\<close>

text \<open>
  The array has \<open>MAX_STREAM_BUF_SIZE + 1\<close> cells, the last of which is never written and
  stays NUL, and the read position does not pass the write position. \<open>unread\<close> is the queue of
  bytes a well-formed buffer stands for: writes append to it, reads take from its front.
\<close>

definition wf_buf :: "'a stream_buffer_scheme \<Rightarrow> bool" where
  "wf_buf b \<longleftrightarrow> length (szBuff b) = Suc MAX_STREAM_BUF_SIZE \<and> last (szBuff b) = NUL
     \<and> wPos b \<le> MAX_STREAM_BUF_SIZE \<and> rPos b \<le> wPos b"

definition content :: "'a stream_buffer_scheme \<Rightarrow> char list" where
  "content b = take (wPos b) (szBuff b)"

definition unread :: "'a stream_buffer_scheme \<Rightarrow> char list" where
  "unread b = drop (rPos b) (content b)"

definition reads :: "'a stream_buffer_scheme \<Rightarrow> char list \<Rightarrow> bool" where
  "reads b bs \<longleftrightarrow> wf_buf b \<and> \<not> ChkRWError b \<and> unread b = bs"

definition exhausted :: "'a stream_buffer_scheme \<Rightarrow> bool" where
  "exhausted b \<longleftrightarrow> wf_buf b \<and> ChkRWError b \<and> rPos b = wPos b"

lemma wf_new [simp]: "wf_buf (NetPacket mid)" "wf_buf new_stream_buffer"
  by (simp_all add: wf_buf_def NetPacket_def new_stream_buffer_def stream_buffer.defs)

lemma new_simps [simp]:
  "rPos (NetPacket mid) = 0" "wPos (NetPacket mid) = 0" "content (NetPacket mid) = []"
  "unread (NetPacket mid) = []" "\<not> ChkRWError (NetPacket mid)" "msgId (NetPacket mid) = mid"
  "rPos new_stream_buffer = 0" "wPos new_stream_buffer = 0" "\<not> ChkRWError new_stream_buffer"
  "unread new_stream_buffer = []"
  by (simp_all add: NetPacket_def new_stream_buffer_def stream_buffer.defs content_def
      unread_def ChkRWError_def)

lemma length_content [buffer_simps]: "wf_buf b \<Longrightarrow> length (content b) = wPos b"
  by (auto simp: wf_buf_def content_def)

lemma length_unread [buffer_simps]: "wf_buf b \<Longrightarrow> length (unread b) = ResidualSize b"
  by (auto simp: unread_def length_content wf_buf_def ResidualSize_def)

lemma unread_prefix:
  assumes "wf_buf b"
  shows "drop (rPos b) (szBuff b) = unread b @ drop (wPos b) (szBuff b)"
proof -
  have "szBuff b = content b @ drop (wPos b) (szBuff b)"
    by (simp add: content_def)
  then have "drop (rPos b) (szBuff b) = drop (rPos b) (content b @ drop (wPos b) (szBuff b))"
    by simp
  then show ?thesis
    using assms length_content [OF assms] by (simp add: unread_def wf_buf_def)
qed

lemma tail_has_NUL: "wf_buf b \<Longrightarrow> NUL \<in> set (drop (wPos b) (szBuff b))"
  using last_in_set [of "drop (wPos b) (szBuff b)"] by (simp add: wf_buf_def)

lemma wf_Reset [keeps]: "wf_buf b \<Longrightarrow> wf_buf (Reset b)"
  by (simp add: wf_buf_def Reset_def)

lemma wf_Clean [keeps]: "wf_buf (Clean b)"
  by (simp add: wf_buf_def Clean_def Reset_def)

lemma unread_Reset [buffer_simps]: "unread (Reset b) = []"
  by (simp add: unread_def content_def Reset_def)

lemma SeekReadPos_wf [keeps]: "wf_buf b \<Longrightarrow> wf_buf (snd (SeekReadPos n b))"
  by (auto simp: wf_buf_def SeekReadPos_def Let_def)

section \<open>Writing\<close>

lemma sb_Write_wf [keeps]: "wf_buf b \<Longrightarrow> wf_buf (snd (sb_Write bs b))"
  by (auto simp: sb_Write_def wf_buf_def last_overwrite)

lemma put_wf [keeps]: "wf_buf b \<Longrightarrow> wf_buf (put bs b)"
  by (simp add: put_def sb_Write_wf)

lemma rPos_put [simp]: "rPos (put bs b) = rPos b"
  by (simp add: put_def sb_Write_def)

lemma msgId_put [simp]: "msgId (put bs p) = msgId p"
  by (simp add: put_def sb_Write_def)

lemma sb_Write_ok:
  assumes "wf_buf b" "\<not> ChkRWError b" "bs \<noteq> []" "wPos b + length bs \<le> MAX_STREAM_BUF_SIZE"
  shows "fst (sb_Write bs b)" "\<not> ChkRWError (snd (sb_Write bs b))"
    "wPos (snd (sb_Write bs b)) = wPos b + length bs"
    "content (snd (sb_Write bs b)) = content b @ bs"
    "unread (snd (sb_Write bs b)) = unread b @ bs"
proof -
  have len: "wPos b + length bs \<le> length (szBuff b)"
    using assms by (simp add: wf_buf_def)
  show "fst (sb_Write bs b)" "\<not> ChkRWError (snd (sb_Write bs b))"
    "wPos (snd (sb_Write bs b)) = wPos b + length bs"
    using assms by (simp_all add: sb_Write_def ChkRWError_def)
  show c: "content (snd (sb_Write bs b)) = content b @ bs"
    using assms len by (simp add: sb_Write_def content_def)
  have "rPos (snd (sb_Write bs b)) = rPos b"
    by (simp add: sb_Write_def)
  moreover have "rPos b \<le> length (content b)"
    using assms(1) by (simp add: length_content wf_buf_def)
  ultimately show "unread (snd (sb_Write bs b)) = unread b @ bs"
    using c by (simp add: unread_def)
qed

lemma put_sticky: "ChkRWError b \<Longrightarrow> put bs b = b"
  by (simp add: put_def sb_Write_def)

lemma puts_simps [simp]: "puts [] b = b" "puts (bs # bss) b = puts bss (put bs b)"
  by (simp_all add: puts_def)

lemma puts_sticky: "ChkRWError b \<Longrightarrow> puts bss b = b"
  by (induction bss) (simp_all add: put_sticky)

lemma puts_frame [simp]: "rPos (puts bss b) = rPos b" "msgId (puts bss p) = msgId p"
  by (induction bss arbitrary: b p) simp_all

lemma puts_wf [keeps]: "wf_buf b \<Longrightarrow> wf_buf (puts bss b)"
  by (induction bss arbitrary: b) (simp_all add: put_wf)

lemma puts_ok:
  assumes "wf_buf b" "\<not> ChkRWError b" "[] \<notin> set bss"
    and "wPos b + length (concat bss) \<le> MAX_STREAM_BUF_SIZE"
  shows "\<not> ChkRWError (puts bss b) \<and> content (puts bss b) = content b @ concat bss
    \<and> unread (puts bss b) = unread b @ concat bss
    \<and> wPos (puts bss b) = wPos b + length (concat bss)"
  using assms
proof (induction bss arbitrary: b)
  case Nil
  then show ?case by simp
next
  case (Cons bs bss)
  then have w: "wPos b + length bs \<le> MAX_STREAM_BUF_SIZE" "bs \<noteq> []"
    by auto
  note step = sb_Write_ok [OF Cons.prems(1,2) w(2,1), folded put_def]
  have "wf_buf (put bs b)"
    by (rule put_wf) (rule Cons.prems)
  from Cons.IH [OF this step(2)] Cons.prems step show ?case
    by simp
qed

lemma puts_overflow:
  assumes "wf_buf b" "[] \<notin> set bss"
    and "MAX_STREAM_BUF_SIZE < wPos b + length (concat bss)"
  shows "ChkRWError (puts bss b)"
  using assms
proof (induction bss arbitrary: b)
  case Nil
  then show ?case by (simp add: wf_buf_def)
next
  case (Cons bs bss)
  show ?case
  proof (cases "ChkRWError b \<or> MAX_STREAM_BUF_SIZE < wPos b + length bs")
    case True
    then have "ChkRWError (put bs b)"
      using Cons.prems by (auto simp: put_def sb_Write_def ChkRWError_def)
    then show ?thesis by (simp add: puts_sticky)
  next
    case False
    then have "wPos (put bs b) = wPos b + length bs"
      using Cons.prems by (auto simp: put_def sb_Write_def)
    then show ?thesis
      using Cons.IH [OF put_wf [OF Cons.prems(1)]] Cons.prems by simp
  qed
qed

section \<open>Reading\<close>

lemma sb_Read_ok:
  assumes "reads b (bs @ rest)" "bs \<noteq> []"
  obtains b' where "sb_Read (length bs) b = (Some bs, b')" "reads b' rest"
proof -
  let ?b' = "b\<lparr>rCount := rCount b + 1, rPos := rPos b + length bs\<rparr>"
  have wf: "wf_buf b" and ok: "\<not> ChkRWError b" and un: "unread b = bs @ rest"
    using assms(1) by (simp_all add: reads_def)
  have len: "rPos b + length bs + length rest = wPos b"
    using length_unread [OF wf] un wf by (auto simp: ResidualSize_def wf_buf_def split: if_splits)
  have "sb_Read (length bs) b = (Some bs, ?b')"
    using ok assms(2) len unread_prefix [OF wf] un by (simp add: sb_Read_def)
  moreover have "unread ?b' = drop (length bs) (unread b)"
    by (simp add: unread_def content_def add.commute)
  then have "reads ?b' rest"
    using wf ok un len by (simp add: reads_def wf_buf_def ChkRWError_def)
  ultimately show thesis
    by (rule that)
qed

lemma sb_Read_end:
  assumes "reads b []" "0 < n"
  shows "sb_Read n b = (None, b\<lparr>rwErrorStatus := ERROR_STATUS_READ\<rparr>)"
    and "exhausted (b\<lparr>rwErrorStatus := ERROR_STATUS_READ\<rparr>)"
proof -
  have "rPos b = wPos b"
    using assms(1) length_unread [of b]
    by (auto simp: reads_def ResidualSize_def wf_buf_def split: if_splits)
  with assms show "sb_Read n b = (None, b\<lparr>rwErrorStatus := ERROR_STATUS_READ\<rparr>)"
    "exhausted (b\<lparr>rwErrorStatus := ERROR_STATUS_READ\<rparr>)"
    by (simp_all add: sb_Read_def reads_def exhausted_def ChkRWError_def wf_buf_def)
qed

lemma sb_Read_exhausted: "exhausted b \<Longrightarrow> sb_Read n b = (None, b)"
  by (simp add: sb_Read_def exhausted_def)

lemma sb_ReadString_ok:
  assumes "reads b (str_bytes s @ rest)" "NUL \<notin> set s"
  obtains b' where "sb_ReadString old b = Some (s \<noteq> [], s, b')" "reads b' rest"
proof -
  let ?b' = "b\<lparr>rPos := rPos b + length s + 1\<rparr>"
  have wf: "wf_buf b" and ok: "\<not> ChkRWError b" and un: "unread b = s @ NUL # rest"
    using assms(1) by (simp_all add: reads_def str_bytes_def)
  have len: "rPos b + length s + 1 + length rest = wPos b"
    using length_unread [OF wf] un wf by (auto simp: ResidualSize_def wf_buf_def split: if_splits)
  have tail: "drop (rPos b) (szBuff b) = s @ NUL # (rest @ drop (wPos b) (szBuff b))"
    using unread_prefix [OF wf] un by simp
  have "sb_ReadString old b = Some (s \<noteq> [], s, ?b')"
    using assms(2) len by (simp add: sb_ReadString_def tail takeWhile_append_stop)
  moreover have "unread ?b' = drop (length s + 1) (unread b)"
    by (simp add: unread_def content_def add.commute add.left_commute)
  then have "reads ?b' rest"
    using wf ok un len by (simp add: reads_def wf_buf_def ChkRWError_def)
  ultimately show thesis
    by (rule that)
qed

lemma sb_ReadString_end:
  assumes "reads b [] \<or> exhausted b"
  obtains b' where "sb_ReadString old b = Some (False, old, b')" "exhausted b'"
proof -
  have "rPos b = wPos b"
    using assms length_unread [of b]
    by (auto simp: reads_def exhausted_def ResidualSize_def wf_buf_def split: if_splits)
  then show thesis
    using assms
    by (intro that [of "b\<lparr>rwErrorStatus := ERROR_STATUS_READ\<rparr>"])
      (auto simp: sb_ReadString_def reads_def exhausted_def ChkRWError_def wf_buf_def)
qed

section \<open>The interface of the decoders\<close>

text \<open>
  A decoder reads the fields of a packet one after the other. What it relies on is the same
  for integers, flags and strings: a field is read back as written, and a packet that ends
  before the field leaves the variable alone and the packet in the error state.
\<close>

locale wire_codec =
  fixes image :: "'x \<Rightarrow> char list"
    and get :: "'x \<Rightarrow> 'a stream_buffer_scheme \<Rightarrow> ('x \<times> 'a stream_buffer_scheme) option"
    and ok :: "'x \<Rightarrow> bool"
  assumes image_not_Nil: "image x \<noteq> []"
    and get_image: "reads b (image x @ rest) \<Longrightarrow> ok x \<Longrightarrow>
      \<exists>b'. get old b = Some (x, b') \<and> reads b' rest"
    and get_end: "reads b [] \<or> exhausted b \<Longrightarrow> \<exists>b'. get old b = Some (old, b') \<and> exhausted b'"
begin

lemma bind_image:
  assumes "reads b (image x @ rest)" "ok x" "\<And>b'. reads b' rest \<Longrightarrow> f (x, b') = r"
  shows "Option.bind (get old b) f = r"
  using get_image [OF assms(1,2), of old] assms(3) by auto

lemma bind_last:
  assumes "reads b (image x)" "ok x" "\<And>b'. reads b' [] \<Longrightarrow> f (x, b') = r"
  shows "Option.bind (get old b) f = r"
  using bind_image [of b x "[]" f r old] assms by simp

lemma bind_end:
  assumes "reads b [] \<or> exhausted b" "\<And>b'. exhausted b' \<Longrightarrow> f (old, b') = r"
  shows "Option.bind (get old b) f = r"
  using get_end [OF assms(1), of old] assms(2) by auto

lemma bind_or_image:
  assumes "reads b (image x @ rest)" "ok x" "\<And>b'. reads b' rest \<Longrightarrow> f (x, b') = r"
  shows "Option.bind (get_or get old dflt b) f = r"
  using get_image [OF assms(1,2), of old] assms(3) by (auto simp: get_or_def reads_def)

lemma bind_or_last:
  assumes "reads b (image x)" "ok x" "\<And>b'. reads b' [] \<Longrightarrow> f (x, b') = r"
  shows "Option.bind (get_or get old dflt b) f = r"
  using bind_or_image [of b x "[]" f r old dflt] assms by simp

lemma bind_or_end:
  assumes "reads b [] \<or> exhausted b" "\<And>b'. exhausted b' \<Longrightarrow> f (dflt, b') = r"
  shows "Option.bind (get_or get old dflt b) f = r"
  using get_end [OF assms(1), of old] assms(2) by (auto simp: get_or_def exhausted_def)

end

interpretation int_codec: wire_codec i32_bytes get_i32 "\<lambda>_. True"
proof unfold_locales
  fix b :: "'a stream_buffer_scheme" and x rest old
  assume "reads b (i32_bytes x @ rest)"
  then obtain b' where "sb_Read (length (i32_bytes x)) b = (Some (i32_bytes x), b')" "reads b' rest"
    by (rule sb_Read_ok) simp
  then show "\<exists>b'. get_i32 old b = Some (x, b') \<and> reads b' rest"
    by (simp add: get_i32_def)
next
  fix b :: "'a stream_buffer_scheme" and old
  assume "reads b [] \<or> exhausted b"
  then show "\<exists>b'. get_i32 old b = Some (old, b') \<and> exhausted b'"
    using sb_Read_end [of b 4] by (auto simp: get_i32_def sb_Read_exhausted)
qed simp

interpretation bool_codec: wire_codec bool_bytes get_bool "\<lambda>_. True"
proof unfold_locales
  fix b :: "'a stream_buffer_scheme" and x rest old
  assume "reads b (bool_bytes x @ rest)"
  then obtain b' where "sb_Read (length (bool_bytes x)) b = (Some (bool_bytes x), b')" "reads b' rest"
    by (rule sb_Read_ok) simp
  then show "\<exists>b'. get_bool old b = Some (x, b') \<and> reads b' rest"
    by (simp add: get_bool_def)
next
  fix b :: "'a stream_buffer_scheme" and old
  assume "reads b [] \<or> exhausted b"
  then show "\<exists>b'. get_bool old b = Some (old, b') \<and> exhausted b'"
    using sb_Read_end [of b 1] by (auto simp: get_bool_def sb_Read_exhausted)
qed simp

interpretation str_codec: wire_codec str_bytes get_str "\<lambda>s. NUL \<notin> set s"
proof unfold_locales
  fix b :: "'a stream_buffer_scheme" and s rest old
  assume "reads b (str_bytes s @ rest)" "NUL \<notin> set s"
  then obtain b' where "sb_ReadString old b = Some (s \<noteq> [], s, b')" "reads b' rest"
    by (rule sb_ReadString_ok)
  then show "\<exists>b'. get_str old b = Some (s, b') \<and> reads b' rest"
    by (simp add: get_str_def)
next
  fix b :: "'a stream_buffer_scheme" and old
  assume "reads b [] \<or> exhausted b"
  then obtain b' where "sb_ReadString old b = Some (False, old, b')" "exhausted b'"
    by (rule sb_ReadString_end)
  then show "\<exists>b'. get_str old b = Some (old, b') \<and> exhausted b'"
    by (simp add: get_str_def)
qed simp

section \<open>The circular buffer\<close>

lemma CopyDataToBegin_wf [keeps]: "wf_buf b \<Longrightarrow> wf_buf (CopyDataToBegin b)"
  by (auto simp: wf_buf_def CopyDataToBegin_def Let_def ResidualSize_def last_overwrite)

lemma CopyDataToBegin_unread [buffer_simps]:
  assumes "wf_buf b"
  shows "unread (CopyDataToBegin b) = unread b"
proof (cases "0 < ResidualSize b \<and> 0 < rPos b")
  case True
  let ?ys = "take (Suc (wPos b) - rPos b) (drop (rPos b) (szBuff b))"
  have le: "rPos b < wPos b" "wPos b < length (szBuff b)"
    using True assms by (auto simp: ResidualSize_def wf_buf_def split: if_splits)
  have "take (wPos b - rPos b) (overwrite 0 ?ys (szBuff b)) = take (wPos b - rPos b) ?ys"
    using le by (simp add: overwrite_def)
  also have "\<dots> = drop (rPos b) (take (wPos b) (szBuff b))"
    using le by (simp add: drop_take min_def)
  finally show ?thesis
    using True le by (simp add: CopyDataToBegin_def Let_def unread_def content_def ResidualSize_def)
next
  case False
  then show ?thesis
    using assms by (auto simp: CopyDataToBegin_def Let_def unread_def content_def
        ResidualSize_def wf_buf_def split: if_splits)
qed

lemma CopyDataToBegin_simps [simp]:
  "rPos (CopyDataToBegin b) = 0" "wPos (CopyDataToBegin b) = ResidualSize b"
  "ChkRWError (CopyDataToBegin b) = ChkRWError b"
  by (simp_all add: CopyDataToBegin_def Let_def ChkRWError_def)

lemma CheckWrite_wf [keeps]: "wf_buf b \<Longrightarrow> wf_buf (snd (CheckWrite n b))"
  by (simp add: CheckWrite_def Let_def CopyDataToBegin_wf)

lemma CheckWrite_spec:
  assumes "wf_buf b"
  shows "fst (CheckWrite n b) \<longleftrightarrow> ResidualSize b + n \<le> MAX_STREAM_BUF_SIZE"
    and "unread (snd (CheckWrite n b)) = unread b"
    and "ChkRWError (snd (CheckWrite n b)) = ChkRWError b"
    and "fst (CheckWrite n b) \<Longrightarrow> wPos (snd (CheckWrite n b)) + n \<le> MAX_STREAM_BUF_SIZE"
  using assms
  by (auto simp: CheckWrite_def Let_def CopyDataToBegin_unread GetAvailableBufSize_def
      ResidualSize_def wf_buf_def split: if_splits)

text \<open>
  Writing to the circular buffer succeeds exactly when the unread bytes and the new ones
  fit together, whatever has been read before; on success the new bytes are queued behind the
  unread ones, otherwise no unread byte is lost.
\<close>

theorem circle_Write_queue:
  assumes "wf_buf b" "\<not> ChkRWError b" "bs \<noteq> []"
  shows "wf_buf (snd (circle_Write bs b))
    \<and> \<not> ChkRWError (snd (circle_Write bs b))
    \<and> fst (circle_Write bs b) = (length (unread b) + length bs \<le> MAX_STREAM_BUF_SIZE)
    \<and> unread (snd (circle_Write bs b)) = unread b @ (if fst (circle_Write bs b) then bs else [])"
proof -
  note spec = CheckWrite_spec [OF assms(1), where n = "length bs"]
  obtain ok b' where c: "CheckWrite (length bs) b = (ok, b')"
    by fastforce
  have wf: "wf_buf b'" and un: "unread b' = unread b" and noerr: "\<not> ChkRWError b'"
    using CheckWrite_wf [OF assms(1), of "length bs"] spec(2,3) assms(2) c by simp_all
  have ok: "ok = (length (unread b) + length bs \<le> MAX_STREAM_BUF_SIZE)"
    using spec(1) c assms(1) by (simp add: length_unread)
  show ?thesis
  proof (cases ok)
    case True
    then have "wPos b' + length bs \<le> MAX_STREAM_BUF_SIZE"
      using spec(4) c by simp
    from sb_Write_ok [OF wf noerr assms(3) this] sb_Write_wf [OF wf, of bs] show ?thesis
      using True ok un c by (simp add: circle_Write_def)
  next
    case False
    then show ?thesis
      using ok un wf noerr c by (simp add: circle_Write_def)
  qed
qed

theorem circle_Write_queue_witness:
  "unread (snd (circle_Write ''ab'' (snd (circle_Write ''xy'' new_stream_buffer)))) = ''xyab''"
proof -
  let ?b = "snd (circle_Write ''xy'' new_stream_buffer)"
  note one = circle_Write_queue [of new_stream_buffer "''xy''"]
  note two = circle_Write_queue [of ?b "''ab''"]
  show ?thesis
    using one two by (simp add: MAX_STREAM_BUF_SIZE_def)
qed

section \<open>Framing\<close>

definition frame_bytes :: "net_packet \<Rightarrow> char list" where
  "frame_bytes p = pack_head (msgId p) (wPos p) @ content p"

definition view :: "net_packet \<Rightarrow> i32 \<times> char list" where
  "view p = (msgId p, content p)"

definition wf_packet :: "net_packet \<Rightarrow> bool" where
  "wf_packet p \<longleftrightarrow> wf_buf p \<and> \<not> ChkRWError p"

text \<open>Bytes that do not yet hold a whole frame.\<close>

definition partial_frame :: "char list \<Rightarrow> bool" where
  "partial_frame bs \<longleftrightarrow> length bs < headSize \<or>
     (let sz = sint (bytes_i32 (take 4 (drop 4 bs))) in
      0 \<le> sz \<and> sz \<le> int MAX_STREAM_BUF_SIZE \<and> int (length bs) - int headSize < sz)"

lemma length_pack_head [simp]: "length (pack_head mid n) = 8"
  by (simp add: pack_head_def)

lemma pack_head_not_Nil [simp]: "pack_head mid n \<noteq> []"
  using length_pack_head [of mid n] by force

lemma pack_head_take [simp]:
  "take 4 (pack_head mid n @ bs) = i32_bytes mid"
  "take 4 (drop 4 (pack_head mid n @ bs)) = i32_bytes (word_of_nat n)"
  "drop 8 (pack_head mid n @ bs) = bs"
  by (simp_all add: pack_head_def)

lemma sint_small: "n \<le> MAX_STREAM_BUF_SIZE \<Longrightarrow> sint (word_of_nat n :: i32) = int n"
  using int_word_sint [of "int n", where 'a = 32] by (simp add: MAX_STREAM_BUF_SIZE_def)

lemma MakeData_frame:
  assumes "wf_packet p" "wf_buf b" "\<not> ChkRWError b"
    and "wPos b + length (frame_bytes p) \<le> MAX_STREAM_BUF_SIZE"
  shows "fst (MakeData p b) \<and> wf_buf (snd (MakeData p b)) \<and> \<not> ChkRWError (snd (MakeData p b))
    \<and> unread (snd (MakeData p b)) = unread b @ frame_bytes p"
proof -
  let ?h = "pack_head (msgId p) (wPos p)"
  have len: "length (content p) = wPos p"
    using assms(1) by (simp add: wf_packet_def length_content)
  have h: "?h \<noteq> []"
    by simp
  have fit: "wPos b + length ?h \<le> MAX_STREAM_BUF_SIZE"
    using assms(4) by (simp add: frame_bytes_def)
  note head = sb_Write_ok [OF assms(2,3) h fit, folded put_def] put_wf [OF assms(2), of ?h]
  show ?thesis
  proof (cases "0 < wPos p")
    case True
    then have "content p \<noteq> []" "wPos (put ?h b) + length (content p) \<le> MAX_STREAM_BUF_SIZE"
      using len head(3) assms(4) by (auto simp: frame_bytes_def)
    from sb_Write_ok [OF head(6) head(2) this] sb_Write_wf [OF head(6), of "content p"] show ?thesis
      using True head(5) by (simp add: MakeData_def frame_bytes_def content_def Let_def)
  next
    case False
    then show ?thesis
      using head by (simp add: MakeData_def frame_bytes_def content_def Let_def)
  qed
qed

lemma read_packets_partial:
  assumes "reads b bs" "partial_frame bs"
  shows "read_packets n b = ([], b)"
proof (cases n)
  case (Suc m)
  have wf: "wf_buf b" and un: "unread b = bs"
    using assms(1) by (simp_all add: reads_def)
  have len: "ResidualSize b = length bs"
    using length_unread [OF wf] un by simp
  have tail: "drop (rPos b) (szBuff b) = bs @ drop (wPos b) (szBuff b)"
    using unread_prefix [OF wf] un by simp
  show ?thesis
  proof (cases "length bs < headSize")
    case True
    then show ?thesis
      by (simp add: Suc len)
  next
    case False
    then have "take 4 (drop 4 (bs @ drop (wPos b) (szBuff b))) = take 4 (drop 4 bs)"
      by (simp add: headSize_def)
    then show ?thesis
      using assms(2) False by (simp add: len tail partial_frame_def Let_def Suc del: drop_append take_append)
  qed
qed simp

text \<open>One round of the loop on a buffer that starts with a whole frame.\<close>

lemma read_packets_frame:
  assumes b: "reads b (frame_bytes p @ rest)" and p: "wf_packet p"
  obtains q b' where "view q = view p" "reads b' rest"
    "read_packets (Suc n) b = (if rest = [] then ([q], b')
       else (q # fst (read_packets n b'), snd (read_packets n b')))"
proof -
  have wf: "wf_buf b" and noerr: "\<not> ChkRWError b"
    and un: "unread b = frame_bytes p @ rest"
    using b by (simp_all add: reads_def)
  have wp: "wf_buf p" "wPos p \<le> MAX_STREAM_BUF_SIZE"
    using p by (simp_all add: wf_packet_def wf_buf_def)
  note lc = length_content [OF wp(1)]
  have res: "ResidualSize b = 8 + wPos p + length rest"
    using length_unread [OF wf] un lc by (simp add: frame_bytes_def)
  have pos: "rPos b + 8 + wPos p + length rest = wPos b"
    using res by (auto simp: ResidualSize_def split: if_splits)
  obtain tl where tail: "drop (rPos b) (szBuff b) = pack_head (msgId p) (wPos p) @ content p @ tl"
    using unread_prefix [OF wf] un by (simp add: frame_bytes_def)
  have content_Nil: "content p = [] \<longleftrightarrow> wPos p = 0"
    using lc by auto
  let ?w = "if 0 < wPos p then sb_Write (content p) (NetPacket (msgId p))
            else (True, NetPacket (msgId p))"
  define q where "q = snd ?w"
  have w: "fst ?w" "view q = view p" "wPos q = wPos p"
    using sb_Write_ok [of "NetPacket (msgId p)" "content p"] wp lc content_Nil
    by (auto simp: q_def view_def put_def [symmetric])
  define b1 where "b1 = b\<lparr>rPos := rPos b + 8 + wPos p\<rparr>"
  have seek: "SeekReadPos (GetPacketLength q) b = (True, b1)"
    using pos by (simp add: SeekReadPos_def GetPacketLength_def w b1_def nat_add_distrib)
  have "unread b1 = drop (8 + wPos p) (unread b)"
    by (simp add: b1_def unread_def content_def add.commute add.left_commute)
  then have r1: "reads b1 rest"
    using wf noerr un lc pos by (simp add: reads_def b1_def wf_buf_def ChkRWError_def frame_bytes_def)
  have emp: "sb_empty b1 \<longleftrightarrow> rest = []"
    using pos by (auto simp: sb_empty_def b1_def)
  have hd4: "bytes_i32 (take 4 (drop (rPos b) (szBuff b))) = msgId p"
    unfolding tail pack_head_take by simp
  have drop4: "sint (bytes_i32 (take 4 (drop 4 (drop (rPos b) (szBuff b))))) = int (wPos p)"
    unfolding tail pack_head_take using sint_small [OF wp(2)] by simp
  have body: "take (wPos p) (drop 8 (drop (rPos b) (szBuff b))) = content p"
    unfolding tail pack_head_take using lc by simp
  have pair: "(if 0 < wPos p then sb_Write (content p) (NetPacket (msgId p))
       else (True, NetPacket (msgId p))) = (True, q)"
    using w(1) by (simp add: q_def prod_eq_iff)
  have step: "read_packets (Suc n) b = (if sb_empty b1 then ([q], Reset b1)
       else let (ps, b'') = read_packets n b1 in (q # ps, b''))"
    using res seek wp(2) pair
    by (cases "0 < wPos p") (simp_all add: hd4 drop4 body headSize_def Let_def del: drop_drop)
  show thesis
  proof (cases "rest = []")
    case True
    have "reads (Reset b1) rest"
      using True r1 wf_Reset [of b1] unread_Reset [of b1]
      by (simp add: reads_def) (simp add: ChkRWError_def Reset_def)
    then show ?thesis
      using that [of q "Reset b1"] w(2) step emp True by simp
  next
    case False
    then show ?thesis
      using that [of q b1] w(2) r1 step emp by (simp add: case_prod_unfold Let_def)
  qed
qed

lemma read_packets_frames:
  assumes "reads b (concat (map frame_bytes ps) @ part)" "list_all wf_packet ps" "partial_frame part"
  shows "map view (fst (read_packets n b)) = map view (take n ps)
    \<and> reads (snd (read_packets n b)) (concat (map frame_bytes (drop n ps)) @ part)"
  using assms
proof (induction n arbitrary: b ps)
  case (Suc n)
  show ?case
  proof (cases ps)
    case Nil
    then show ?thesis
      using Suc.prems read_packets_partial [of b part "Suc n"] by simp
  next
    case (Cons p ps')
    let ?rest = "concat (map frame_bytes ps') @ part"
    have pre: "reads b (frame_bytes p @ ?rest)" "wf_packet p"
      using Suc.prems Cons by simp_all
    from read_packets_frame [OF this, of n] obtain q b' where q: "view q = view p" "reads b' ?rest"
      and step: "read_packets (Suc n) b = (if ?rest = [] then ([q], b')
         else (q # fst (read_packets n b'), snd (read_packets n b')))"
      by metis
    have "ps' = []" if "?rest = []"
      using that by (cases ps') (auto simp: frame_bytes_def)
    then show ?thesis
      using Suc.IH [OF q(2)] Suc.prems Cons q step
      by (cases "?rest = []") (auto simp del: read_packets.simps)
  qed
qed simp

text \<open>
  C31. Framing: from a circular buffer that holds any number of complete packets followed by an
  incomplete one, \<open>OnReadPackets\<close> delivers the first hundred of them, in order, each with the
  message id and the payload it was framed with, and leaves exactly the rest of the bytes
  unread for the next call.
\<close>

theorem OnReadPackets_delivers:
  assumes "reads b (concat (map frame_bytes ps) @ part)" "list_all wf_packet ps" "partial_frame part"
  shows "map view (fst (OnReadPackets b)) = map view (take 100 ps)
    \<and> unread (snd (OnReadPackets b)) = concat (map frame_bytes (drop 100 ps)) @ part"
  using read_packets_frames [OF assms, of 100]
  by (simp add: OnReadPackets_def ONCE_PROCESS_NETPACKET_LIMIT_def reads_def)

theorem OnReadPackets_delivers_witness:
  "map view (fst (OnReadPackets (snd (MakeData (put ''hi'' (NetPacket 7)) new_stream_buffer))))
     = [(7, ''hi'')]"
proof -
  let ?p = "put ''hi'' (NetPacket 7)"
  note w = sb_Write_ok [of "NetPacket 7" "''hi''", folded put_def]
  have p: "wf_packet ?p" "content ?p = ''hi''" "wPos ?p = 2"
    using w by (simp_all add: wf_packet_def put_wf MAX_STREAM_BUF_SIZE_def)
  from MakeData_frame [OF p(1), of new_stream_buffer] p
  have "reads (snd (MakeData ?p new_stream_buffer)) (concat (map frame_bytes [?p]) @ [])"
    by (simp add: reads_def frame_bytes_def MAX_STREAM_BUF_SIZE_def)
  from OnReadPackets_delivers [OF this] p show ?thesis
    by (simp add: partial_frame_def headSize_def view_def)
qed

text \<open>
  A chain of \<open><<\<close> on a fresh packet leaves it in the error state exactly when the fields do
  not fit into its 2048 bytes together, so that one check at the end of an encoder is enough;
  otherwise the packet holds the images of all fields, in order.
\<close>

theorem puts_checked_once:
  assumes "[] \<notin> set bss"
  shows "ChkRWError (puts bss (NetPacket mid)) = (2048 < length (concat bss))
    \<and> (\<not> ChkRWError (puts bss (NetPacket mid)) \<longrightarrow>
         reads (puts bss (NetPacket mid)) (concat bss))"
  using assms puts_ok [of "NetPacket mid" bss] puts_overflow [of "NetPacket mid" bss]
    puts_wf [of "NetPacket mid" bss]
  by (cases "2048 < length (concat bss)") (simp_all add: MAX_STREAM_BUF_SIZE_def reads_def)

theorem puts_checked_once_witness:
  "reads (puts [i32_bytes 5, ''x''] (NetPacket 1)) (i32_bytes 5 @ ''x'')"
  using puts_checked_once [of "[i32_bytes 5, ''x'']" 1] i32_bytes_not_Nil [of 5, symmetric] by simp

text \<open>
  Reading a string does not stop at the write position: on a well-formed packet whose
  unread bytes hold no NUL the read position moves past the write position, whatever the
  packet holds behind it.
\<close>

theorem ReadString_overruns:
  assumes "reads b bs" "NUL \<notin> set bs" "bs \<noteq> []"
  shows "\<exists>s b'. sb_ReadString old b = Some (True, s, b') \<and> wPos b' < rPos b' \<and> take (length bs) s = bs"
proof -
  have wf: "wf_buf b" and un: "unread b = bs"
    using assms(1) by (simp_all add: reads_def)
  have len: "rPos b + length bs = wPos b"
    using length_unread [OF wf] un wf by (auto simp: ResidualSize_def wf_buf_def split: if_splits)
  let ?t = "takeWhile (\<lambda>c. c \<noteq> NUL) (drop (wPos b) (szBuff b))"
  have "takeWhile (\<lambda>c. c \<noteq> NUL) (drop (rPos b) (szBuff b)) = bs @ ?t"
    using unread_prefix [OF wf] un assms(2) by (subst takeWhile_append2 [symmetric]) auto
  moreover have "NUL \<in> set (drop (rPos b) (szBuff b))"
    using unread_prefix [OF wf] tail_has_NUL [OF wf] by simp
  ultimately show ?thesis
    using assms(3) len by (auto simp: sb_ReadString_def)
qed

theorem ReadString_overruns_witness:
  "\<exists>s b'. sb_ReadString [] (put ''abc'' (NetPacket 15)) = Some (True, s, b') \<and> wPos b' < rPos b'"
  using ReadString_overruns [of "put ''abc'' (NetPacket 15)" "''abc''" "[]"]
    puts_ok [of "NetPacket 15" "[''abc'']"] put_wf [of "NetPacket 15" "''abc''"]
  by (auto simp: reads_def MAX_STREAM_BUF_SIZE_def)

end
