(* ===== verification/Channel.thy ===== *)
theory Channel
  imports Prelude
begin

text \<open>
  src/intention/common/channel/include/channel.h: the bounded queue between the threads that
  raise cooperate events and the worker that handles them. A receive on an empty queue waits
  on the condition variable; here it is \<open>None\<close>.
\<close>

section \<open>The queue\<close>

definition NO_ERROR :: i32 where "NO_ERROR = 0"
definition QUEUE_IS_FULL :: i32 where "QUEUE_IS_FULL = - 1"
definition NO_CHANNEL :: i32 where "NO_CHANNEL = - 2"
definition INACTIVE_CHANNEL :: i32 where "INACTIVE_CHANNEL = - 3"

definition QUEUE_CAPACITY :: nat where "QUEUE_CAPACITY = 1024"

record 'e channel =
  isActive :: bool
  queue :: "'e list"

definition OpenChannel :: "'e channel" where
  "OpenChannel = \<lparr>isActive = False, queue = []\<rparr>"

definition chan_Enable :: "'e channel \<Rightarrow> 'e channel" where
  "chan_Enable q = q\<lparr>isActive := True\<rparr>"

definition chan_Disable :: "'e channel \<Rightarrow> 'e channel" where
  "chan_Disable q = q\<lparr>isActive := False, queue := []\<rparr>"

definition chan_Send :: "'e \<Rightarrow> 'e channel \<Rightarrow> i32 \<times> 'e channel" where
  "chan_Send e q =
     (if \<not> isActive q then (INACTIVE_CHANNEL, q)
      else if QUEUE_CAPACITY \<le> length (queue q) then (QUEUE_IS_FULL, q)
      else (NO_ERROR, q\<lparr>queue := queue q @ [e]\<rparr>))"

definition chan_Peek :: "'e channel \<Rightarrow> 'e option" where
  "chan_Peek q = (case queue q of [] \<Rightarrow> None | e # _ \<Rightarrow> Some e)"

definition chan_Pop :: "'e channel \<Rightarrow> 'e channel option" where
  "chan_Pop q = (case queue q of [] \<Rightarrow> None | _ # es \<Rightarrow> Some (q\<lparr>queue := es\<rparr>))"

definition chan_Receive :: "'e channel \<Rightarrow> ('e \<times> 'e channel) option" where
  "chan_Receive q = (case queue q of [] \<Rightarrow> None | e # es \<Rightarrow> Some (e, q\<lparr>queue := es\<rparr>))"

lemmas chan_codes = NO_ERROR_def QUEUE_IS_FULL_def NO_CHANNEL_def INACTIVE_CHANNEL_def

section \<open>Runs of senders and the receiver\<close>

datatype 'e queue_op = SendOp 'e | ReceiveOp

text \<open>
  An interleaving of sends and receives, with the events that were accepted and those that
  were received; a receive that would wait is passed over.
\<close>

fun run_queue :: "('e \<Rightarrow> 'q \<Rightarrow> i32 \<times> 'q) \<Rightarrow> ('q \<Rightarrow> ('e \<times> 'q) option) \<Rightarrow> 'e queue_op list \<Rightarrow> 'q
    \<Rightarrow> 'e list \<times> 'e list \<times> 'q" where
  "run_queue snd_op rcv [] q = ([], [], q)"
| "run_queue snd_op rcv (SendOp e # ops) q =
     (let (code, q') = snd_op e q;
          (acc, got, r) = run_queue snd_op rcv ops q'
      in (if code = NO_ERROR then e # acc else acc, got, r))"
| "run_queue snd_op rcv (ReceiveOp # ops) q =
     (case rcv q of
        None \<Rightarrow> run_queue snd_op rcv ops q
      | Some (e, q') \<Rightarrow> let (acc, got, r) = run_queue snd_op rcv ops q' in (acc, e # got, r))"

section \<open>The interface of a bounded queue\<close>

locale bounded_queue =
  fixes contents :: "'q \<Rightarrow> 'e list"
    and room :: "'q \<Rightarrow> bool"
    and snd_op :: "'e \<Rightarrow> 'q \<Rightarrow> i32 \<times> 'q"
    and rcv :: "'q \<Rightarrow> ('e \<times> 'q) option"
    and capacity :: nat
  assumes room_bound: "room q \<Longrightarrow> length (contents q) < capacity"
    and send_accept: "room q \<Longrightarrow> fst (snd_op e q) = NO_ERROR
          \<and> contents (snd (snd_op e q)) = contents q @ [e]"
    and send_refuse: "\<not> room q \<Longrightarrow> fst (snd_op e q) \<noteq> NO_ERROR \<and> snd (snd_op e q) = q"
    and receive_empty: "contents q = [] \<Longrightarrow> rcv q = None"
    and receive_front: "contents q = e # es \<Longrightarrow> \<exists>q'. rcv q = Some (e, q') \<and> contents q' = es"
begin

lemma send_contents:
  "contents (snd (snd_op e q)) = contents q @ (if fst (snd_op e q) = NO_ERROR then [e] else [])"
  using send_accept [of q e] send_refuse [of q e] by (cases "room q") auto

lemma send_bound:
  "length (contents q) \<le> capacity \<Longrightarrow> length (contents (snd (snd_op e q))) \<le> capacity"
  using send_accept [of q e] send_refuse [of q e] room_bound [of q] by (cases "room q") auto

lemma receive_cases:
  obtains "contents q = []" "rcv q = None"
  | e es q' where "contents q = e # es" "rcv q = Some (e, q')" "contents q' = es"
  using receive_empty [of q] receive_front [of q] that by (cases "contents q") auto

lemma run_fifo:
  "run_queue snd_op rcv ops q = (acc, got, q') \<Longrightarrow> contents q @ acc = got @ contents q'"
proof (induction ops arbitrary: q acc got)
  case Nil
  then show ?case by simp
next
  case (Cons op ops)
  show ?case
  proof (cases op)
    case (SendOp e)
    obtain acc' where run: "run_queue snd_op rcv ops (snd (snd_op e q)) = (acc', got, q')"
      and acc: "acc = (if fst (snd_op e q) = NO_ERROR then e # acc' else acc')"
      using Cons.prems SendOp by (auto simp: Let_def split: prod.splits)
    from Cons.IH [OF run] show ?thesis
      using acc by (simp add: send_contents split: if_splits)
  next
    case ReceiveOp
    then show ?thesis
      using Cons.prems Cons.IH [of q] Cons.IH
      by (cases rule: receive_cases [of q]) (fastforce split: prod.splits)+
  qed
qed

lemma run_bound:
  "run_queue snd_op rcv ops q = (acc, got, q') \<Longrightarrow> length (contents q) \<le> capacity \<Longrightarrow>
     length (contents q') \<le> capacity"
proof (induction ops arbitrary: q acc got)
  case Nil
  then show ?case by simp
next
  case (Cons op ops)
  show ?case
  proof (cases op)
    case (SendOp e)
    then obtain acc' where "run_queue snd_op rcv ops (snd (snd_op e q)) = (acc', got, q')"
      using Cons.prems(1) by (auto simp: Let_def split: prod.splits)
    then show ?thesis
      using Cons.IH send_bound [OF Cons.prems(2)] by blast
  next
    case ReceiveOp
    then show ?thesis
      using Cons.prems Cons.IH
      by (cases rule: receive_cases [of q]) (auto split: prod.splits)
  qed
qed

end

interpretation chq: bounded_queue queue
  "\<lambda>q. isActive q \<and> length (queue q) < QUEUE_CAPACITY" chan_Send chan_Receive QUEUE_CAPACITY
  by unfold_locales (auto simp: chan_Send_def chan_Receive_def chan_codes)

text \<open>
  C28. Whatever the interleaving of senders with the receiver, the events come out in the order
  in which they were accepted, none is lost or repeated, and no more than 1024 ever wait.
\<close>

theorem channel_fifo:
  assumes "run_queue chan_Send chan_Receive ops q = (accepted, received, q')"
    and "length (queue q) \<le> 1024"
  shows "queue q @ accepted = received @ queue q' \<and> length (queue q') \<le> 1024"
  using chq.run_fifo [OF assms(1)] chq.run_bound [OF assms(1)] assms(2)
  by (simp add: QUEUE_CAPACITY_def)

theorem channel_fifo_witness:
  "run_queue chan_Send chan_Receive [SendOp (1::nat), SendOp 2, ReceiveOp, SendOp 3, ReceiveOp]
     (chan_Enable OpenChannel) = ([1, 2, 3], [1, 2], \<lparr>isActive = True, queue = [3]\<rparr>)
   \<and> ([] :: nat list) @ [1, 2, 3] = [1, 2] @ [3]"
proof -
  let ?ops = "[SendOp (1::nat), SendOp 2, ReceiveOp, SendOp 3, ReceiveOp]"
  have run: "run_queue chan_Send chan_Receive ?ops (chan_Enable OpenChannel)
      = ([1, 2, 3], [1, 2], \<lparr>isActive = True, queue = [3]\<rparr>)"
    by (simp add: chan_Send_def chan_Receive_def chan_Enable_def OpenChannel_def
        QUEUE_CAPACITY_def chan_codes)
  from channel_fifo [OF run] run show ?thesis
    by (simp add: chan_Enable_def OpenChannel_def)
qed

end
