(* ===== verification/Coop_Events.thy ===== *)
theory Coop_Events
  imports Stream_Buffer
begin

text \<open>
  src/intention/cooperate/plugin/include/cooperate_events.h, src/intention/prototype/include/
  i_cooperate.h and i_device.h, src/interfaces/innerkits/interaction/include/
  coordination_message.h: the data of the cooperate plugin. \<open>CooperateEvent\<close> pairs a type with
  one payload of a variant; every construction in the plugin pairs a type with its own payload,
  so the event is one datatype with a constructor per event type. A promise and an observer
  are the addresses of the objects (0 for the null pointer).
\<close>

section \<open>Enumerations and codes\<close>

datatype CooperateState = COOPERATE_STATE_FREE | COOPERATE_STATE_OUT | COOPERATE_STATE_IN

datatype DragState = DRAG_ERROR | DRAG_START | DRAG_STOP | DRAG_CANCEL | MOTION_DRAGGING

datatype CoordinationMessage =
    UNKNOW | PREPARE | UNPREPARE | ACTIVATE | ACTIVATE_SUCCESS | ACTIVATE_FAIL
  | DEACTIVATE_SUCCESS | DEACTIVATE_FAIL | SESSION_CLOSED | COORDINATION_SUCCESS
  | COORDINATION_STATUS_FREE | COORDINATION_STATUS_OUT | COORDINATION_STATUS_IN

fun message_code :: "CoordinationMessage \<Rightarrow> i32" where
  "message_code UNKNOW = - 1"
| "message_code PREPARE = 0"
| "message_code UNPREPARE = 1"
| "message_code ACTIVATE = 2"
| "message_code ACTIVATE_SUCCESS = 3"
| "message_code ACTIVATE_FAIL = 4"
| "message_code DEACTIVATE_SUCCESS = 5"
| "message_code DEACTIVATE_FAIL = 6"
| "message_code SESSION_CLOSED = 7"
| "message_code COORDINATION_SUCCESS = 8"
| "message_code COORDINATION_STATUS_FREE = 9"
| "message_code COORDINATION_STATUS_OUT = 10"
| "message_code COORDINATION_STATUS_IN = 11"

abbreviation (input) COORDINATION_OK :: i32 where "COORDINATION_OK \<equiv> 0"
abbreviation (input) OPEN_SESSION_FAILED :: i32 where "OPEN_SESSION_FAILED \<equiv> 1"
abbreviation (input) SEND_PACKET_FAILED :: i32 where "SEND_PACKET_FAILED \<equiv> 2"
abbreviation (input) UNEXPECTED_START_CALL :: i32 where "UNEXPECTED_START_CALL \<equiv> 3"
abbreviation (input) NOT_AOLLOW_COOPERATE_WHEN_MOTION_DRAGGING :: i32 where
  "NOT_AOLLOW_COOPERATE_WHEN_MOTION_DRAGGING \<equiv> 5"
abbreviation (input) COMMON_PERMISSION_CHECK_ERROR :: i32 where
  "COMMON_PERMISSION_CHECK_ERROR \<equiv> 201"
abbreviation (input) COMMON_NOT_ALLOWED_DISTRIBUTED :: i32 where
  "COMMON_NOT_ALLOWED_DISTRIBUTED \<equiv> 40101"

abbreviation (input) COOPERATE_FLAG_HIDE_CURSOR :: u32 where "COOPERATE_FLAG_HIDE_CURSOR \<equiv> 1"
abbreviation (input) COOPERATE_FLAG_FREEZE_CURSOR :: u32 where "COOPERATE_FLAG_FREEZE_CURSOR \<equiv> 2"
abbreviation (input) COOPERATE_WITH_CROSS_DRAGGING :: u32 where "COOPERATE_WITH_CROSS_DRAGGING \<equiv> 1"

abbreviation (input) DEFAULT_TIMEOUT :: i32 where "DEFAULT_TIMEOUT \<equiv> 5000"
abbreviation (input) REPEAT_ONCE :: i32 where "REPEAT_ONCE \<equiv> 1"
abbreviation (input) DEFAULT_COOLING_TIME :: i32 where "DEFAULT_COOLING_TIME \<equiv> 10"
abbreviation (input) POINTER_EVENT_TIMEOUT :: i32 where "POINTER_EVENT_TIMEOUT \<equiv> 10000"
abbreviation (input) SCREEN_LOCKED_TIMEOUT :: i32 where "SCREEN_LOCKED_TIMEOUT \<equiv> 600000"

text \<open>Message identifiers, by their position in \<open>MessageId\<close> of devicestatus_proto.h.\<close>

abbreviation (input) COORDINATION_ADD_LISTENER :: i32 where "COORDINATION_ADD_LISTENER \<equiv> 1"
abbreviation (input) COORDINATION_MESSAGE :: i32 where "COORDINATION_MESSAGE \<equiv> 2"
abbreviation (input) COORDINATION_GET_STATE :: i32 where "COORDINATION_GET_STATE \<equiv> 3"
abbreviation (input) HOT_AREA_ADD_LISTENER :: i32 where "HOT_AREA_ADD_LISTENER \<equiv> 4"
abbreviation (input) MOUSE_LOCATION_ADD_LISTENER :: i32 where "MOUSE_LOCATION_ADD_LISTENER \<equiv> 5"
abbreviation (input) DSOFTBUS_START_COOPERATE :: i32 where "DSOFTBUS_START_COOPERATE \<equiv> 6"
abbreviation (input) DSOFTBUS_STOP_COOPERATE :: i32 where "DSOFTBUS_STOP_COOPERATE \<equiv> 9"
abbreviation (input) DSOFTBUS_COME_BACK :: i32 where "DSOFTBUS_COME_BACK \<equiv> 10"
abbreviation (input) DSOFTBUS_RELAY_COOPERATE :: i32 where "DSOFTBUS_RELAY_COOPERATE \<equiv> 11"
abbreviation (input) DSOFTBUS_RELAY_COOPERATE_FINISHED :: i32 where
  "DSOFTBUS_RELAY_COOPERATE_FINISHED \<equiv> 12"
abbreviation (input) DSOFTBUS_INPUT_POINTER_EVENT :: i32 where "DSOFTBUS_INPUT_POINTER_EVENT \<equiv> 13"
abbreviation (input) DSOFTBUS_INPUT_KEY_EVENT :: i32 where "DSOFTBUS_INPUT_KEY_EVENT \<equiv> 14"
abbreviation (input) DSOFTBUS_SUBSCRIBE_MOUSE_LOCATION :: i32 where
  "DSOFTBUS_SUBSCRIBE_MOUSE_LOCATION \<equiv> 15"
abbreviation (input) DSOFTBUS_UNSUBSCRIBE_MOUSE_LOCATION :: i32 where
  "DSOFTBUS_UNSUBSCRIBE_MOUSE_LOCATION \<equiv> 16"
abbreviation (input) DSOFTBUS_REPLY_SUBSCRIBE_MOUSE_LOCATION :: i32 where
  "DSOFTBUS_REPLY_SUBSCRIBE_MOUSE_LOCATION \<equiv> 17"
abbreviation (input) DSOFTBUS_REPLY_UNSUBSCRIBE_MOUSE_LOCATION :: i32 where
  "DSOFTBUS_REPLY_UNSUBSCRIBE_MOUSE_LOCATION \<equiv> 18"
abbreviation (input) DSOFTBUS_MOUSE_LOCATION :: i32 where "DSOFTBUS_MOUSE_LOCATION \<equiv> 19"
abbreviation (input) DSOFTBUS_INPUT_DEV_HOT_PLUG :: i32 where "DSOFTBUS_INPUT_DEV_HOT_PLUG \<equiv> 24"
abbreviation (input) DSOFTBUS_INPUT_DEV_SYNC :: i32 where "DSOFTBUS_INPUT_DEV_SYNC \<equiv> 25"
abbreviation (input) DSOFTBUS_HEART_BEAT_PACKET :: i32 where "DSOFTBUS_HEART_BEAT_PACKET \<equiv> 26"
abbreviation (input) DSOFTBUS_COME_BACK_WITH_OPTIONS :: i32 where
  "DSOFTBUS_COME_BACK_WITH_OPTIONS \<equiv> 28"
abbreviation (input) DSOFTBUS_COOPERATE_WITH_OPTIONS :: i32 where
  "DSOFTBUS_COOPERATE_WITH_OPTIONS \<equiv> 29"
abbreviation (input) DSOFTBUS_RELAY_COOPERATE_WITHOPTIONS :: i32 where
  "DSOFTBUS_RELAY_COOPERATE_WITHOPTIONS \<equiv> 30"
abbreviation (input) DSOFTBUS_RELAY_COOPERATE_WITHOPTIONS_FINISHED :: i32 where
  "DSOFTBUS_RELAY_COOPERATE_WITHOPTIONS_FINISHED \<equiv> 31"

section \<open>Payloads\<close>

record Coordinate =
  cx :: i32
  cy :: i32

record StartCooperateData =
  sd_flag :: u32
  sd_priv :: u32

record CooperateOptions =
  displayX :: i32
  displayY :: i32
  displayId :: i32

record CooperateInfo =
  normalizedCoords :: Coordinate
  ci_options :: CooperateOptions

text \<open>The fields of \<open>Device\<close> that are exchanged between peers.\<close>

record IDevice =
  dev_id :: i32
  devPath :: string
  sysPath :: string
  dev_bus :: i32
  dev_vendor :: i32
  dev_product :: i32
  dev_version :: i32
  dev_name :: string
  dev_phys :: string
  dev_uniq :: string
  isPointerDevice :: bool
  dev_isKeyboard :: bool
  keyboardType :: i32

record RegisterListenerEvent =
  rl_pid :: i32
  rl_userData :: i32

record EnableCooperateEvent =
  en_tokenId :: i32
  en_pid :: i32
  en_userData :: i32

record StartCooperateEvent =
  st_pid :: i32
  st_userData :: i32
  st_remoteNetworkId :: net_id
  st_startDeviceId :: i32
  st_errCode :: nat
  st_uid :: i32
  st_userId :: i32
  st_accountId :: string
  st_needCheckSameAccount :: bool

record StopCooperateEvent =
  sp_pid :: i32
  sp_userData :: i32
  isUnchained :: bool
  sp_networkId :: net_id

record GetCooperateStateEvent =
  gs_pid :: i32
  gs_userData :: i32
  gs_networkId :: net_id

record RegisterEventListenerEvent =
  el_pid :: i32
  el_networkId :: net_id

record DDMBoardOnlineEvent =
  bo_networkId :: net_id
  bo_normal :: bool
  bo_errCode :: i32

record StatusChangeEvent =
  sc_id :: net_id
  sc_msg :: CoordinationMessage

abbreviation (input) HOTPLUG_PLUG :: i32 where "HOTPLUG_PLUG \<equiv> 0"
abbreviation (input) HOTPLUG_UNPLUG :: i32 where "HOTPLUG_UNPLUG \<equiv> 1"

record InputHotplugEvent =
  hp_deviceId :: i32
  hp_type :: i32
  hp_isKeyboard :: bool

record InputPointerEvent =
  pe_deviceId :: i32
  pe_pointerAction :: i32
  pe_sourceType :: i32
  pe_position :: Coordinate
  pe_currentDisplayId :: i32
  pe_pressedButtons :: "i32 list"

record DSoftbusStartCooperate =
  sc_networkId :: net_id
  sc_originNetworkId :: net_id
  sc_success :: bool
  sc_cursorPos :: Coordinate
  sc_extra :: StartCooperateData
  sc_errCode :: i32
  sc_pointerSpeed :: i32
  sc_touchPadSpeed :: i32
  sc_uid :: i32
  sc_userId :: i32
  sc_accountId :: string
  sc_needCheckSameAccount :: bool

record DSoftbusCooperateOptions =
  co_networkId :: net_id
  co_originNetworkId :: net_id
  co_success :: bool
  co_options :: CooperateOptions
  co_extra :: StartCooperateData
  co_errCode :: i32
  co_pointerSpeed :: i32
  co_touchPadSpeed :: i32
  co_userId :: i32
  co_accountId :: string
  co_needCheckSameAccount :: bool

record DSoftbusRelayCooperate =
  rc_networkId :: net_id
  rc_targetNetworkId :: net_id
  rc_normal :: bool
  rc_pointerSpeed :: i32
  rc_touchPadSpeed :: i32
  rc_uid :: i32
  rc_userId :: i32
  rc_accountId :: string
  rc_needCheckSameAccount :: bool

record DSoftbusSubscribeMouseLocation =
  sm_networkId :: net_id
  sm_remoteNetworkId :: net_id

record DSoftbusReplySubscribeMouseLocation =
  rs_networkId :: net_id
  rs_remoteNetworkId :: net_id
  rs_result :: bool

record LocationInfo =
  li_displayX :: i32
  li_displayY :: i32
  li_displayWidth :: i32
  li_displayHeight :: i32

record DSoftbusSyncMouseLocation =
  ml_networkId :: net_id
  ml_remoteNetworkId :: net_id
  mouseLocation :: LocationInfo

record DSoftbusSyncInputDevice =
  si_networkId :: net_id
  si_devices :: "IDevice list"

record DSoftbusHotPlugEvent =
  dh_networkId :: net_id
  dh_type :: i32
  dh_device :: IDevice

record NotAllowCooperateWhenMotionDragging =
  na_pid :: i32
  na_userData :: i32
  na_networkId :: net_id
  na_success :: bool
  na_errCode :: i32

record UpdateCooperateFlagEvent =
  uf_mask :: u32
  uf_flag :: u32

record StartWithOptionsEvent =
  so_pid :: i32
  so_userData :: i32
  so_remoteNetworkId :: net_id
  so_startDeviceId :: i32
  so_displayX :: i32
  so_displayY :: i32
  so_displayId :: i32
  so_errCode :: nat
  so_userId :: i32
  so_accountId :: string
  so_needCheckSameAccount :: bool

text \<open>Aggregates with the members that an initialiser leaves out (the in-class defaults).\<close>

definition no_data :: StartCooperateData where
  "no_data = \<lparr>sd_flag = 0, sd_priv = 0\<rparr>"

definition origin :: Coordinate where
  "origin = \<lparr>cx = 0, cy = 0\<rparr>"

definition no_options :: CooperateOptions where
  "no_options = \<lparr>displayX = - 1, displayY = - 1, displayId = - 1\<rparr>"

definition default_start :: DSoftbusStartCooperate where
  "default_start = \<lparr>sc_networkId = [], sc_originNetworkId = [], sc_success = False,
     sc_cursorPos = origin, sc_extra = no_data, sc_errCode = COORDINATION_OK,
     sc_pointerSpeed = - 1, sc_touchPadSpeed = - 1, sc_uid = 0, sc_userId = - 1,
     sc_accountId = [], sc_needCheckSameAccount = True\<rparr>"

definition default_options :: DSoftbusCooperateOptions where
  "default_options = \<lparr>co_networkId = [], co_originNetworkId = [], co_success = False,
     co_options = no_options, co_extra = no_data, co_errCode = COORDINATION_OK,
     co_pointerSpeed = - 1, co_touchPadSpeed = - 1, co_userId = - 1, co_accountId = [],
     co_needCheckSameAccount = True\<rparr>"

definition default_relay :: DSoftbusRelayCooperate where
  "default_relay = \<lparr>rc_networkId = [], rc_targetNetworkId = [], rc_normal = False,
     rc_pointerSpeed = - 1, rc_touchPadSpeed = - 1, rc_uid = 0, rc_userId = - 1,
     rc_accountId = [], rc_needCheckSameAccount = True\<rparr>"

definition board_event :: "net_id \<Rightarrow> DDMBoardOnlineEvent" where
  "board_event nid = \<lparr>bo_networkId = nid, bo_normal = False, bo_errCode = COORDINATION_OK\<rparr>"

definition stop_event :: "bool \<Rightarrow> StopCooperateEvent" where
  "stop_event unchained = \<lparr>sp_pid = 0, sp_userData = 0, isUnchained = unchained, sp_networkId = []\<rparr>"

definition default_with_options :: StartWithOptionsEvent where
  "default_with_options = \<lparr>so_pid = - 1, so_userData = 0, so_remoteNetworkId = [],
     so_startDeviceId = - 1, so_displayX = - 1, so_displayY = - 1, so_displayId = - 1,
     so_errCode = 0, so_userId = - 1, so_accountId = [], so_needCheckSameAccount = True\<rparr>"

section \<open>Events\<close>

datatype (plugins only: code size) CooperateEvent =
    NOOP
  | QUIT
  | ADD_OBSERVER nat
  | REMOVE_OBSERVER nat
  | REGISTER_LISTENER RegisterListenerEvent
  | UNREGISTER_LISTENER RegisterListenerEvent
  | REGISTER_HOTAREA_LISTENER RegisterListenerEvent
  | UNREGISTER_HOTAREA_LISTENER RegisterListenerEvent
  | ENABLE EnableCooperateEvent
  | DISABLE RegisterListenerEvent
  | START StartCooperateEvent
  | WITH_OPTIONS_START StartWithOptionsEvent
  | STOP StopCooperateEvent
  | GET_COOPERATE_STATE GetCooperateStateEvent
  | REGISTER_EVENT_LISTENER RegisterEventListenerEvent
  | UNREGISTER_EVENT_LISTENER RegisterEventListenerEvent
  | UPDATE_COOPERATE_FLAG UpdateCooperateFlagEvent
  | SET_DAMPLING_COEFFICIENT u32 rat
  | DUMP i32
  | APP_CLOSED i32
  | DDM_BOARD_ONLINE DDMBoardOnlineEvent
  | DDM_BOARD_OFFLINE DDMBoardOnlineEvent
  | DDP_COOPERATE_SWITCH_CHANGED DDMBoardOnlineEvent
  | INPUT_HOTPLUG_EVENT InputHotplugEvent
  | INPUT_POINTER_EVENT InputPointerEvent
  | SESSION_OPENED DDMBoardOnlineEvent
  | SESSION_CLOSED_EVENT DDMBoardOnlineEvent
  | REMOTE_START DSoftbusStartCooperate
  | COME_BACK DSoftbusStartCooperate
  | REMOTE_STOP DDMBoardOnlineEvent
  | RELAY DSoftbusRelayCooperate
  | RELAY_FINISHED DSoftbusRelayCooperate
  | SUBSCRIBE_MOUSE_LOCATION DSoftbusSubscribeMouseLocation
  | UNSUBSCRIBE_MOUSE_LOCATION DSoftbusSubscribeMouseLocation
  | REPLY_SUBSCRIBE_MOUSE_LOCATION DSoftbusReplySubscribeMouseLocation
  | REPLY_UNSUBSCRIBE_MOUSE_LOCATION DSoftbusReplySubscribeMouseLocation
  | MOUSE_LOCATION DSoftbusSyncMouseLocation
  | INPUT_DEV_SYNC DSoftbusSyncInputDevice
  | INPUT_DEV_HOT_PLUG DSoftbusHotPlugEvent
  | UPDATE_VIRTUAL_DEV_ID_MAP "(i32 \<times> i32) list"
  | COME_BACK_WITH_OPTIONS DSoftbusCooperateOptions
  | REMOTE_WITH_OPTIONS DSoftbusCooperateOptions
  | RELAY_WITHOPTIONS DSoftbusRelayCooperate
  | RELAY_WITHOPTIONS_FINISHED DSoftbusRelayCooperate
  | STOP_ABOUT_VIRTUALTRACKPAD StopCooperateEvent

end
