(* ===== verification/World.thy ===== *)
theory World
  imports Effects Stream_Buffer Channel Coop_Events
begin

text \<open>
  What is outside the plugin: the adapters it reaches through \<open>IContext\<close> (input, soft bus,
  device manager, drag manager, timers, sessions), the display manager, the Wi-Fi and
  application managers, and the registered observers. Their answers are the functions of the
  record \<open>env\<close>, which also depend on a clock that every question advances, so that two
  questions in a row may be answered differently; what the plugin tells them is the list of
  commands \<open>trace\<close>. The constants of the multimodal input service, which the sources only
  name, are fields of \<open>env\<close> too, and so are the methods of its event classes that do more than
  read or write a field.
\<close>

section \<open>Data of the input service\<close>

text \<open>
  The fields that the accessors of the event classes read and write; \<open>double\<close> and \<open>float\<close> values
  that are only passed on are words of their bits. Times are integers within the range of \<open>int64_t\<close>.
\<close>

record pointer_item =
  it_pointerId :: i32
  it_pressed :: bool
  it_displayX :: i32
  it_displayY :: i32
  it_windowX :: i32
  it_windowY :: i32
  it_displayXPos :: u64
  it_displayYPos :: u64
  it_windowXPos :: u64
  it_windowYPos :: u64
  it_width :: i32
  it_height :: i32
  it_tiltX :: u64
  it_tiltY :: u64
  it_toolDisplayX :: i32
  it_toolDisplayY :: i32
  it_toolWindowX :: i32
  it_toolWindowY :: i32
  it_toolWidth :: i32
  it_toolHeight :: i32
  it_pressure :: u64
  it_longAxis :: i32
  it_shortAxis :: i32
  it_deviceId :: i32
  it_downTime :: int
  it_toolType :: i32
  it_targetWindowId :: i32
  it_originPointerId :: i32
  it_rawDx :: i32
  it_rawDy :: i32

record pointer_event =
  p_eventType :: i32
  p_id :: i32
  p_eventAction :: i32
  p_sensorInputTime :: u64
  p_deviceId :: i32
  p_pointerId :: i32
  p_sourceType :: i32
  p_action :: i32
  p_originAction :: i32
  p_buttonId :: i32
  p_fingerCount :: i32
  p_zOrder :: u32
  p_axes :: u32
  p_axisValues :: "nat \<Rightarrow> u64"
  p_items :: "pointer_item list"
  p_pressedButtons :: "i32 list"
  p_pressedKeys :: "i32 list"
  p_buffer :: "char list"
  p_scrollRows :: i32
  p_flags :: u32
  p_targetDisplayId :: i32
  p_targetWindowId :: i32
  p_agentWindowId :: i32
  p_actionTime :: int
  p_actionStartTime :: int

record key_item =
  ki_keyCode :: i32
  ki_downTime :: int
  ki_deviceId :: i32
  ki_pressed :: bool
  ki_unicode :: u32

record key_event =
  k_eventType :: i32
  k_id :: i32
  k_eventAction :: i32
  k_sensorInputTime :: u64
  k_targetDisplayId :: i32
  k_targetWindowId :: i32
  k_agentWindowId :: i32
  k_deviceId :: i32
  k_keyCode :: i32
  k_action :: i32
  k_intention :: i32
  k_items :: "key_item list"
  k_pressedKeys :: "i32 list"
  k_numLock :: bool
  k_capsLock :: bool
  k_scrollLock :: bool
  k_flags :: u32
  k_actionTime :: int
  k_actionStartTime :: int

record input_device =
  ind_id :: i32
  ind_name :: string
  ind_bus :: i32
  ind_version :: i32
  ind_product :: i32
  ind_vendor :: i32
  ind_phys :: string
  ind_uniq :: string
  ind_keyboard :: bool
  ind_pointer :: bool

record display =
  d_width :: i32
  d_height :: i32
  d_id :: i32

datatype token_type = TOKEN_HAP | TOKEN_NATIVE | TOKEN_SHELL | TOKEN_OTHER

text \<open>\<open>GetPointerItem\<close> finds the item with the given pointer id.\<close>

definition GetPointerItem :: "pointer_event \<Rightarrow> i32 \<Rightarrow> pointer_item option" where
  "GetPointerItem p pid = List.find (\<lambda>it. it_pointerId it = pid) (p_items p)"

text \<open>Flags are bits.\<close>

definition add_flag :: "u32 \<Rightarrow> u32 \<Rightarrow> u32" where
  "add_flag f fs = or fs f"

definition has_flag :: "u32 \<Rightarrow> u32 \<Rightarrow> bool" where
  "has_flag f fs \<longleftrightarrow> and fs f \<noteq> 0"

section \<open>Commands\<close>

datatype (plugins only: code size) observer_notice =
    NotifyStop net_id
  | NotifyTransitionOut net_id CooperateInfo
  | NotifyTransitionIn net_id CooperateInfo
  | NotifyBack net_id CooperateInfo
  | NotifyRelay net_id CooperateInfo
  | NotifyReset
  | NotifyCloseFile net_id

datatype (plugins only: code size) cmd =
    SessionSend i32 net_packet
  | SoftbusSend net_id net_packet
  | SoftbusBroadcast net_packet
  | SoftbusOpen net_id
  | SoftbusClose net_id
  | SoftbusCloseAll
  | SoftbusHeartBeat net_id
  | SoftbusAddObserver
  | SoftbusRemoveObserver
  | SetPointerVisibility bool i32
  | SetPointerLocation i32 i32 i32
  | InputSetPointerSpeed i32
  | InputSetTouchPadSpeed i32
  | AddInterceptor
  | RemoveInterceptor i32
  | SimulatePointer pointer_event
  | SimulateKey key_event
  | AddVirtualDevice input_device
  | RemoveVirtualDevice i32
  | RegisterDevListener
  | UnregisterDevListener
  | InputAddMonitor
  | InputRemoveMonitor i32
  | InputAddPreMonitor
  | InputRemovePreMonitor i32
  | SetUpperScene i32
  | LatencyRequest i32
  | TimerAdd i32 i32 CooperateEvent
  | TimerAddAsync i32 i32
  | TimerRemove i32
  | TimerRemoveAsync i32
  | NotifyCrossDrag bool
  | PostTask nat observer_notice
  | SetPromise nat i32
  | RegisterAppObserver "string list" i32
  | UnregisterAppObserver
  | AddCommonEventObserver
  | RemoveCommonEventObserver
  | AddBoardObserver
  | RemoveBoardObserver
  | AddDeviceObserver
  | RemoveDeviceObserver
  | MotionDragEnable
  | MotionDragButtonDown
  | SetPencilAirMouse bool
  | RefreshActivity

section \<open>The environment\<close>

record env =
  SOURCE_TYPE_MOUSE :: i32
  POINTER_ACTION_CANCEL :: i32
  POINTER_ACTION_MOVE :: i32
  POINTER_ACTION_BUTTON_UP :: i32
  POINTER_ACTION_PULL_MOVE :: i32
  POINTER_ACTION_ENTER_WINDOW :: i32
  POINTER_ACTION_LEAVE_WINDOW :: i32
  POINTER_ACTION_PULL_IN_WINDOW :: i32
  POINTER_ACTION_PULL_OUT_WINDOW :: i32
  MOUSE_BUTTON_LEFT :: i32
  EVENT_FLAG_SIMULATE :: u32
  EVENT_FLAG_RAW_POINTER_MOVEMENT :: u32
  EVENT_FLAG_NO_INTERCEPT :: u32
  KEYCODE_BACK :: i32
  KEYCODE_POWER :: i32
  KEYCODE_KEY_PEN_AIR_MOUSE :: i32
  KEY_ACTION_DOWN :: i32
  KEY_ACTION_UP :: i32
  LocalNetworkId :: "nat \<Rightarrow> net_id"
  HasSession :: "nat \<Rightarrow> net_id \<Rightarrow> bool"
  OpenSession_ret :: "nat \<Rightarrow> net_id \<Rightarrow> i32"
  DeviceOnline_ret :: "nat \<Rightarrow> net_id \<Rightarrow> i32"
  SendPacket_ret :: "nat \<Rightarrow> net_id \<Rightarrow> net_packet \<Rightarrow> i32"
  Broadcast_ret :: "nat \<Rightarrow> net_packet \<Rightarrow> i32"
  SessionOfPid :: "nat \<Rightarrow> i32 \<Rightarrow> bool"
  SrcIsSameAccount :: "nat \<Rightarrow> net_id \<Rightarrow> bool"
  SinkIsSameAccount :: "nat \<Rightarrow> net_id \<Rightarrow> i32 \<Rightarrow> string \<Rightarrow> bool"
  SameAccountToLocal :: "nat \<Rightarrow> net_id \<Rightarrow> bool"
  UserId :: "nat \<Rightarrow> i32"
  AccountId :: "nat \<Rightarrow> string"
  DragStateOf :: "nat \<Rightarrow> DragState"
  CrossDragging :: "nat \<Rightarrow> bool"
  DevMgrHasLocalPointer :: "nat \<Rightarrow> bool"
  DevMgrHasKeyboard :: "nat \<Rightarrow> bool"
  DevMgrHasPencilAirMouse :: "nat \<Rightarrow> bool"
  DevMgrVirTrackPad :: "nat \<Rightarrow> IDevice list"
  DevMgrKeyboard :: "nat \<Rightarrow> IDevice list"
  DevMgrPointerDevice :: "nat \<Rightarrow> IDevice list"
  DevMgrDevice :: "nat \<Rightarrow> i32 \<Rightarrow> IDevice option"
  InputHasLocalPointer :: "nat \<Rightarrow> bool"
  InputDeviceName :: "nat \<Rightarrow> i32 \<Rightarrow> string option"
  PointerSpeed :: "nat \<Rightarrow> i32"
  TouchPadSpeed :: "nat \<Rightarrow> i32"
  AddInterceptor_ret :: "nat \<Rightarrow> i32"
  AddMonitor_ret :: "nat \<Rightarrow> i32"
  AddPreMonitor_ret :: "nat \<Rightarrow> i32"
  AddVirtual_ret :: "nat \<Rightarrow> input_device \<Rightarrow> i32 \<times> i32"
  RemoveVirtual_ret :: "nat \<Rightarrow> i32 \<Rightarrow> i32"
  DefaultDisplay :: "nat \<Rightarrow> display option"
  DisplayById :: "nat \<Rightarrow> i32 \<Rightarrow> display option"
  VisibleAreaDisplay :: "nat \<Rightarrow> i32 \<Rightarrow> display option"
  UpperScene_ret :: "nat \<Rightarrow> i32 \<Rightarrow> i32"
  AddTimer_ret :: "nat \<Rightarrow> i32"
  AddTimerAsync_ret :: "nat \<Rightarrow> i32"
  TimerExists :: "nat \<Rightarrow> i32 \<Rightarrow> bool"
  SysClock :: "nat \<Rightarrow> int"
  AppMgrPresent :: "nat \<Rightarrow> bool"
  RegisterApp_ret :: "nat \<Rightarrow> i32"
  TokenTypeOf :: "nat \<Rightarrow> i32 \<Rightarrow> token_type"
  HapBundle :: "nat \<Rightarrow> i32 \<Rightarrow> string option"
  NativeProcess :: "nat \<Rightarrow> i32 \<Rightarrow> string option"
  ObserverAllows :: "nat \<Rightarrow> nat \<Rightarrow> bool"
  ObserverOnStart :: "nat \<Rightarrow> nat \<Rightarrow> StartCooperateData \<Rightarrow> StartCooperateData"
  ObserverOnRemoteStart :: "nat \<Rightarrow> nat \<Rightarrow> StartCooperateData \<Rightarrow> StartCooperateData"
  RunnerCreated :: "nat \<Rightarrow> bool"
  MotionDragLoaded :: "nat \<Rightarrow> bool"
  PointerReset :: "pointer_event \<Rightarrow> pointer_event"
  KeyReset :: "key_event \<Rightarrow> key_event"
  AddReleasedKeyItems :: "i32 \<Rightarrow> key_event \<Rightarrow> key_event"
  PointerCreate :: pointer_event
  NewPointerItem :: pointer_item
  AddPointerItem :: "pointer_item \<Rightarrow> pointer_event \<Rightarrow> pointer_event"
  AddKeyItem :: "key_item \<Rightarrow> key_event \<Rightarrow> key_event"
  AXIS_TYPE_UNKNOWN :: nat
  AXIS_TYPE_MAX :: nat
  HasAxis :: "u32 \<Rightarrow> nat \<Rightarrow> bool"
  SetAxisValue :: "nat \<Rightarrow> u64 \<Rightarrow> pointer_event \<Rightarrow> pointer_event"
  MAX_BUFFER_SIZE :: nat
  StackByte :: "nat \<Rightarrow> nat \<Rightarrow> char"
  COMMON_EVENT_SCREEN_ON :: string
  COMMON_EVENT_SCREEN_UNLOCKED :: string
  COMMON_EVENT_SCREEN_OFF :: string
  COMMON_EVENT_SCREEN_LOCKED :: string

section \<open>The part of the state the world shares\<close>

record world =
  tick :: nat
  trace :: "cmd list"
  chan :: "CooperateEvent channel"

definition ask :: "(nat \<Rightarrow> 'a) \<Rightarrow> ('s world_scheme, 'a) state" where
  "ask q = do { t \<leftarrow> gets tick; modify (\<lambda>s. s\<lparr>tick := Suc t\<rparr>); pure (q t) }"

definition emit :: "cmd \<Rightarrow> ('s world_scheme, unit) state" where
  "emit c = modify (\<lambda>s. s\<lparr>trace := trace s @ [c]\<rparr>)"

definition Send :: "CooperateEvent \<Rightarrow> ('s world_scheme, i32) state" where
  "Send e = do {
     q \<leftarrow> gets chan;
     modify (\<lambda>s. s\<lparr>chan := snd (chan_Send e q)\<rparr>);
     pure (fst (chan_Send e q)) }"

text \<open>The answer to a caller that waits: the only command that ends a wait.\<close>

fun answers :: "cmd \<Rightarrow> bool" where
  "answers (SetPromise _ _) = True"
| "answers _ = False"

text \<open>
  A view that looks neither at the clock nor at the commands, the answers to waiting callers
  apart; a \<open>mailless\<close> view does not look at the channel either.
\<close>

definition quiet :: "('s world_scheme \<Rightarrow> 'v) \<Rightarrow> bool" where
  "quiet f \<longleftrightarrow> (\<forall>s x. f (s\<lparr>tick := x\<rparr>) = f s)
     \<and> (\<forall>s c. \<not> answers c \<longrightarrow> f (s\<lparr>trace := trace s @ [c]\<rparr>) = f s)"

definition mailless :: "('s world_scheme \<Rightarrow> 'v) \<Rightarrow> bool" where
  "mailless f \<longleftrightarrow> (\<forall>s x. f (s\<lparr>chan := x\<rparr>) = f s)"

lemma ask_frame [frame]: "quiet f \<Longrightarrow> unchanged f (ask q)"
  by (simp add: unchanged_def ask_def quiet_def)

lemma emit_frame [frame]: "quiet f \<Longrightarrow> \<not> answers c \<Longrightarrow> unchanged f (emit c)"
  by (simp add: unchanged_def emit_def quiet_def)

lemma silent [frame]:
  "\<not> answers (SessionSend a1 b1)" "\<not> answers (SoftbusSend a2 b2)"
  "\<not> answers (SoftbusBroadcast a3)" "\<not> answers (SoftbusOpen a4)"
  "\<not> answers (SoftbusClose a5)" "\<not> answers SoftbusCloseAll"
  "\<not> answers (SoftbusHeartBeat a6)" "\<not> answers SoftbusAddObserver"
  "\<not> answers SoftbusRemoveObserver" "\<not> answers (SetPointerVisibility a7 b7)"
  "\<not> answers (SetPointerLocation a8 b8 c8)" "\<not> answers (InputSetPointerSpeed a9)"
  "\<not> answers (InputSetTouchPadSpeed a10)" "\<not> answers AddInterceptor"
  "\<not> answers (RemoveInterceptor a11)" "\<not> answers (SimulatePointer a12)"
  "\<not> answers (SimulateKey a13)" "\<not> answers (AddVirtualDevice a14)"
  "\<not> answers (RemoveVirtualDevice a15)" "\<not> answers RegisterDevListener"
  "\<not> answers UnregisterDevListener" "\<not> answers InputAddMonitor"
  "\<not> answers (InputRemoveMonitor a16)" "\<not> answers InputAddPreMonitor"
  "\<not> answers (InputRemovePreMonitor a17)" "\<not> answers (SetUpperScene a18)"
  "\<not> answers (LatencyRequest a19)" "\<not> answers (TimerAdd a20 b20 c20)"
  "\<not> answers (TimerAddAsync a21 b21)" "\<not> answers (TimerRemove a22)"
  "\<not> answers (TimerRemoveAsync a23)" "\<not> answers (NotifyCrossDrag a24)"
  "\<not> answers (PostTask a25 b25)" "\<not> answers (RegisterAppObserver a26 b26)"
  "\<not> answers UnregisterAppObserver" "\<not> answers AddCommonEventObserver"
  "\<not> answers RemoveCommonEventObserver" "\<not> answers AddBoardObserver"
  "\<not> answers RemoveBoardObserver" "\<not> answers AddDeviceObserver"
  "\<not> answers RemoveDeviceObserver" "\<not> answers MotionDragEnable"
  "\<not> answers MotionDragButtonDown" "\<not> answers (SetPencilAirMouse a27)"
  "\<not> answers RefreshActivity"
  by simp_all

lemma Send_frame [frame]: "mailless f \<Longrightarrow> unchanged f (Send e)"
  by (simp add: unchanged_def Send_def mailless_def)

lemma ask_simps [simp]:
  "result_of (ask q) s = q (tick s)"
  "exec (ask q) s = s\<lparr>tick := Suc (tick s)\<rparr>"
  by (simp_all add: ask_def)

lemma emit_simps [simp]: "exec (emit c) s = s\<lparr>trace := trace s @ [c]\<rparr>"
  by (simp add: emit_def)

lemma Send_simps [simp]:
  "result_of (Send e) s = fst (chan_Send e (chan s))"
  "exec (Send e) s = s\<lparr>chan := snd (chan_Send e (chan s))\<rparr>"
  by (simp_all add: Send_def)

section \<open>Packets to clients and peers\<close>

text \<open>The two ways a packet leaves: to the socket session of a client, to a peer.\<close>

definition encode :: "i32 \<Rightarrow> char list list \<Rightarrow> net_packet" where
  "encode mid bss = puts bss (NetPacket mid)"

definition NotifySession :: "env \<Rightarrow> i32 \<Rightarrow> net_packet \<Rightarrow> ('s world_scheme, unit) state" where
  "NotifySession E pid pkt = do {
     session \<leftarrow> ask (\<lambda>t. SessionOfPid E t pid);
     only_if (session \<and> \<not> ChkRWError pkt) (emit (SessionSend pid pkt)) }"

definition SoftbusSendPacket :: "env \<Rightarrow> net_id \<Rightarrow> net_packet \<Rightarrow> ('s world_scheme, i32) state" where
  "SoftbusSendPacket E nid pkt = do {
     emit (SoftbusSend nid pkt);
     ask (\<lambda>t. SendPacket_ret E t nid pkt) }"

lemma NotifySession_frame [frame]: "quiet f \<Longrightarrow> unchanged f (NotifySession E pid pkt)"
  unfolding NotifySession_def by (intro frame)

lemma SoftbusSendPacket_frame [frame]: "quiet f \<Longrightarrow> unchanged f (SoftbusSendPacket E nid pkt)"
  unfolding SoftbusSendPacket_def by (intro frame)

lemma encode_error [simp]:
  "[] \<notin> set bss \<Longrightarrow> ChkRWError (encode mid bss) = (2048 < length (concat bss))"
  using puts_ok [of "NetPacket mid" bss] puts_overflow [of "NetPacket mid" bss]
  by (cases "2048 < length (concat bss)") (simp_all add: encode_def MAX_STREAM_BUF_SIZE_def)

lemma encode_reads:
  "[] \<notin> set bss \<Longrightarrow> length (concat bss) \<le> 2048 \<Longrightarrow> reads (encode mid bss) (concat bss)"
  using puts_ok [of "NetPacket mid" bss] puts_wf [of "NetPacket mid" bss]
  by (simp add: encode_def reads_def MAX_STREAM_BUF_SIZE_def)

lemma bytes_nonempty [simp]: "[] \<noteq> i32_bytes w" "[] \<noteq> bool_bytes b" "[] \<noteq> str_bytes s"
  by (simp_all add: i32_bytes_def bool_bytes_def str_bytes_def Let_def)

lemma NotifySession_trace [simp]:
  "trace (exec (NotifySession E pid pkt) s)
     = trace s @ (if SessionOfPid E (tick s) pid \<and> \<not> ChkRWError pkt then [SessionSend pid pkt] else [])"
  by (simp add: NotifySession_def)

text \<open>The packets a sequence of commands sends to one client.\<close>

fun sends_to :: "i32 \<Rightarrow> cmd list \<Rightarrow> net_packet list" where
  "sends_to p [] = []"
| "sends_to p (SessionSend q pkt # cs) = (if p = q then pkt # sends_to p cs else sends_to p cs)"
| "sends_to p (_ # cs) = sends_to p cs"

lemma sends_to_append [simp]: "sends_to p (cs @ ds) = sends_to p cs @ sends_to p ds"
  by (induction p cs rule: sends_to.induct) simp_all

text \<open>The commands an operation issues.\<close>

definition issued :: "('s world_scheme, 'a) state \<Rightarrow> 's world_scheme \<Rightarrow> cmd list" where
  "issued m s = drop (length (trace s)) (trace (exec m s))"

text \<open>
  An environment in which everything works: sessions open, accounts match, one display of
  1000 by 500 pixels, nothing is being dragged. The concrete runs use it.
\<close>

definition blank_item :: pointer_item where
  "blank_item = \<lparr>it_pointerId = 0, it_pressed = False, it_displayX = 0, it_displayY = 0,
     it_windowX = 0, it_windowY = 0, it_displayXPos = 0, it_displayYPos = 0, it_windowXPos = 0,
     it_windowYPos = 0, it_width = 0, it_height = 0, it_tiltX = 0, it_tiltY = 0, it_toolDisplayX =
     0, it_toolDisplayY = 0, it_toolWindowX = 0, it_toolWindowY = 0, it_toolWidth = 0, it_toolHeight
     = 0, it_pressure = 0, it_longAxis = 0, it_shortAxis = 0, it_deviceId = 0, it_downTime = 0,
     it_toolType = 0, it_targetWindowId = 0, it_originPointerId = 0, it_rawDx = 0, it_rawDy =
     0\<rparr>"

definition blank_pointer :: pointer_event where
  "blank_pointer = \<lparr>p_eventType = 0, p_id = 0, p_eventAction = 0, p_sensorInputTime = 0, p_deviceId = 0,
     p_pointerId = - 1, p_sourceType = 0, p_action = 0, p_originAction = 0, p_buttonId = - 1, p_fingerCount = 0,
     p_zOrder = 0, p_axes = 0, p_axisValues = (\<lambda>_. 0), p_items = [], p_pressedButtons = [], p_pressedKeys = [], p_buffer = [],
     p_scrollRows = 0, p_flags = 0, p_targetDisplayId = - 1, p_targetWindowId = - 1, p_agentWindowId = - 1,
     p_actionTime = 0, p_actionStartTime = 0\<rparr>"

definition blank_key :: key_event where
  "blank_key = \<lparr>k_eventType = 0, k_id = 0, k_eventAction = 0, k_sensorInputTime = 0, k_targetDisplayId = - 1,
     k_targetWindowId = - 1, k_agentWindowId = - 1, k_deviceId = 0, k_keyCode = 0, k_action = 0, k_intention = 0,
     k_items = [], k_pressedKeys = [], k_numLock = False, k_capsLock = False, k_scrollLock = False, k_flags = 0,
     k_actionTime = 0, k_actionStartTime = 0\<rparr>"

definition ideal_env :: env where
  "ideal_env = \<lparr>SOURCE_TYPE_MOUSE = 1,
     POINTER_ACTION_CANCEL = 2,
     POINTER_ACTION_MOVE = 3,
     POINTER_ACTION_BUTTON_UP = 4,
     POINTER_ACTION_PULL_MOVE = 5,
     POINTER_ACTION_ENTER_WINDOW = 6,
     POINTER_ACTION_LEAVE_WINDOW = 7,
     POINTER_ACTION_PULL_IN_WINDOW = 8,
     POINTER_ACTION_PULL_OUT_WINDOW = 9,
     MOUSE_BUTTON_LEFT = 10,
     EVENT_FLAG_SIMULATE = 2,
     EVENT_FLAG_RAW_POINTER_MOVEMENT = 4,
     EVENT_FLAG_NO_INTERCEPT = 1,
     KEYCODE_BACK = 14,
     KEYCODE_POWER = 15,
     KEYCODE_KEY_PEN_AIR_MOUSE = 16,
     KEY_ACTION_DOWN = 17,
     KEY_ACTION_UP = 18,
     LocalNetworkId = (\<lambda>_. ''local''),
     HasSession = (\<lambda>_ _. True),
     OpenSession_ret = (\<lambda>_ _. 0),
     DeviceOnline_ret = (\<lambda>_ _. 0),
     SendPacket_ret = (\<lambda>_ _ _. 0),
     Broadcast_ret = (\<lambda>_ _. 0),
     SessionOfPid = (\<lambda>_ _. True),
     SrcIsSameAccount = (\<lambda>_ _. True),
     SinkIsSameAccount = (\<lambda>_ _ _ _. True),
     SameAccountToLocal = (\<lambda>_ _. True),
     UserId = (\<lambda>_. 100),
     AccountId = (\<lambda>_. ''account''),
     DragStateOf = (\<lambda>_. DRAG_STOP),
     CrossDragging = (\<lambda>_. False),
     DevMgrHasLocalPointer = (\<lambda>_. True),
     DevMgrHasKeyboard = (\<lambda>_. True),
     DevMgrHasPencilAirMouse = (\<lambda>_. True),
     DevMgrVirTrackPad = (\<lambda>_. []),
     DevMgrKeyboard = (\<lambda>_. []),
     DevMgrPointerDevice = (\<lambda>_. []),
     DevMgrDevice = (\<lambda>_ _. None),
     InputHasLocalPointer = (\<lambda>_. True),
     InputDeviceName = (\<lambda>_ _. None),
     PointerSpeed = (\<lambda>_. 5),
     TouchPadSpeed = (\<lambda>_. 5),
     AddInterceptor_ret = (\<lambda>_. 5),
     AddMonitor_ret = (\<lambda>_. 3),
     AddPreMonitor_ret = (\<lambda>_. 4),
     AddVirtual_ret = (\<lambda>_ _. (0, 1000)),
     RemoveVirtual_ret = (\<lambda>_ _. 0),
     DefaultDisplay = (\<lambda>_. Some \<lparr>d_width = 1000, d_height = 500, d_id = 0\<rparr>),
     DisplayById = (\<lambda>_ _. Some \<lparr>d_width = 1000, d_height = 500, d_id = 0\<rparr>),
     VisibleAreaDisplay = (\<lambda>_ _. Some \<lparr>d_width = 1000, d_height = 500, d_id = 0\<rparr>),
     UpperScene_ret = (\<lambda>_ _. 0),
     AddTimer_ret = (\<lambda>_. 2),
     AddTimerAsync_ret = (\<lambda>_. 0),
     TimerExists = (\<lambda>_ _. True),
     SysClock = (\<lambda>_. 0),
     AppMgrPresent = (\<lambda>_. True),
     RegisterApp_ret = (\<lambda>_. 0),
     TokenTypeOf = (\<lambda>_ _. TOKEN_HAP),
     HapBundle = (\<lambda>_ _. Some ''bundle''),
     NativeProcess = (\<lambda>_ _. Some ''process''),
     ObserverAllows = (\<lambda>_ _. True),
     ObserverOnStart = (\<lambda>_ _ d. d),
     ObserverOnRemoteStart = (\<lambda>_ _ d. d),
     RunnerCreated = (\<lambda>_. True),
     MotionDragLoaded = (\<lambda>_. True),
     PointerReset = (\<lambda>p. blank_pointer\<lparr>p_eventType := p_eventType p\<rparr>),
     KeyReset = (\<lambda>k. blank_key\<lparr>k_eventType := k_eventType k\<rparr>),
     AddReleasedKeyItems = (\<lambda>c k. k\<lparr>k_pressedKeys := filter (\<lambda>x. x \<noteq> c) (k_pressedKeys k)\<rparr>),
     PointerCreate = blank_pointer,
     NewPointerItem = blank_item,
     AddPointerItem = (\<lambda>it p. p\<lparr>p_items := p_items p @ [it]\<rparr>),
     AddKeyItem = (\<lambda>it k. k\<lparr>k_items := k_items k @ [it],
       k_pressedKeys := (if ki_pressed it then k_pressedKeys k @ [ki_keyCode it] else k_pressedKeys k)\<rparr>),
     AXIS_TYPE_UNKNOWN = 0,
     AXIS_TYPE_MAX = 13,
     HasAxis = bit,
     SetAxisValue = (\<lambda>i v p. p\<lparr>p_axes := or (p_axes p) (2 ^ i), p_axisValues := (p_axisValues p)(i := v)\<rparr>),
     MAX_BUFFER_SIZE = 1024,
     StackByte = (\<lambda>_ _. NUL),
     COMMON_EVENT_SCREEN_ON = ''on'',
     COMMON_EVENT_SCREEN_UNLOCKED = ''unlocked'',
     COMMON_EVENT_SCREEN_OFF = ''off'',
     COMMON_EVENT_SCREEN_LOCKED = ''locked''\<rparr>"

definition sample_pointer :: "i32 \<Rightarrow> i32 \<Rightarrow> pointer_event" where
  "sample_pointer x y = blank_pointer\<lparr>p_deviceId := 1, p_pointerId := 0, p_sourceType := 1, p_action := 3,
     p_items := [blank_item\<lparr>it_displayX := x, it_displayY := y, it_rawDx := 5\<rparr>]\<rparr>"

lemma blank_simps [simp]:
  "it_pointerId blank_item = 0" "p_pressedButtons blank_pointer = []" "p_items blank_pointer = []"
  "p_flags blank_pointer = 0" "k_flags blank_key = 0" "k_pressedKeys blank_key = []" "k_items blank_key = []"
  by (simp_all add: blank_item_def blank_pointer_def blank_key_def)

end
