(* ===== verification/Registry.thy ===== *)
theory Registry
  imports Prelude
begin

text \<open>
  What the plugin promises to the clients that register for notifications, whichever container
  holds the registrations: EventManager (a list), HotArea and MouseLocation (ordered sets) give
  the three instances.
\<close>

section \<open>Histories of registrations\<close>

datatype registry_op = Register i32 | Unregister i32 | ClientDied i32

fun run_registry :: "(i32 \<Rightarrow> 'r \<Rightarrow> 'r) \<Rightarrow> (i32 \<Rightarrow> 'r \<Rightarrow> 'r) \<Rightarrow> (i32 \<Rightarrow> 'r \<Rightarrow> 'r) \<Rightarrow>
    registry_op list \<Rightarrow> 'r \<Rightarrow> 'r" where
  "run_registry reg unreg died [] r = r"
| "run_registry reg unreg died (Register p # ops) r = run_registry reg unreg died ops (reg p r)"
| "run_registry reg unreg died (Unregister p # ops) r = run_registry reg unreg died ops (unreg p r)"
| "run_registry reg unreg died (ClientDied p # ops) r = run_registry reg unreg died ops (died p r)"

text \<open>Whether a client is registered after a history, by the last operation that names it.\<close>

fun registered :: "i32 \<Rightarrow> registry_op list \<Rightarrow> bool \<Rightarrow> bool" where
  "registered p [] b = b"
| "registered p (Register q # ops) b = registered p ops (if p = q then True else b)"
| "registered p (Unregister q # ops) b = registered p ops (if p = q then False else b)"
| "registered p (ClientDied q # ops) b = registered p ops (if p = q then False else b)"

lemma distinct_count: "distinct xs \<Longrightarrow> count_list xs x = (if x \<in> set xs then 1 else 0)"
  by (induction xs) (auto simp: count_list_0_iff)

section \<open>The interface\<close>

locale listener_registry =
  fixes targets :: "'r \<Rightarrow> i32 list"
    and ok :: "'r \<Rightarrow> bool"
    and reg :: "i32 \<Rightarrow> 'r \<Rightarrow> 'r"
    and unreg :: "i32 \<Rightarrow> 'r \<Rightarrow> 'r"
    and died :: "i32 \<Rightarrow> 'r \<Rightarrow> 'r"
  assumes ok_distinct: "ok r \<Longrightarrow> distinct (targets r)"
    and reg_law: "ok r \<Longrightarrow> ok (reg p r) \<and> set (targets (reg p r)) = insert p (set (targets r))"
    and unreg_law: "ok r \<Longrightarrow> ok (unreg p r) \<and> set (targets (unreg p r)) = set (targets r) - {p}"
    and died_law: "ok r \<Longrightarrow> ok (died p r) \<and> set (targets (died p r)) = set (targets r) - {p}"
begin

lemma run_ok: "ok r \<Longrightarrow> ok (run_registry reg unreg died ops r)"
proof (induction ops arbitrary: r)
  case (Cons op ops)
  then show ?case
    by (cases op) (simp_all add: reg_law unreg_law died_law)
qed simp

lemma run_members:
  "ok r \<Longrightarrow> p \<in> set (targets (run_registry reg unreg died ops r))
     \<longleftrightarrow> registered p ops (p \<in> set (targets r))"
proof (induction ops arbitrary: r)
  case (Cons op ops)
  then show ?case
    by (cases op) (simp_all add: reg_law unreg_law died_law)
qed simp

lemma run_once:
  assumes "ok r"
  shows "count_list (targets (run_registry reg unreg died ops r)) p
    = (if registered p ops (p \<in> set (targets r)) then 1 else 0)"
  using distinct_count [OF ok_distinct [OF run_ok [OF assms, of ops]], of p]
    run_members [OF assms, of p ops] by simp

end

end
