(* ===== verification/Event_Mgr.thy ===== *)
theory Event_Mgr
  imports World Registry
begin

text \<open>
  src/intention/cooperate/plugin/src/event_manager.cpp: who listens to cooperation messages,
  which call waits for its result, and the packets that report both.
\<close>

section \<open>State\<close>

datatype EventType = EV_LISTENER | EV_ENABLE | EV_START | EV_STOP | EV_STATE

record EventInfo =
  ei_type :: EventType
  ei_msgId :: i32
  ei_pid :: i32
  ei_userData :: i32
  ei_networkId :: net_id

record CooperateNotice =
  cn_pid :: i32
  cn_msgId :: i32
  cn_userData :: i32
  cn_networkId :: net_id
  cn_msg :: CoordinationMessage
  cn_errCode :: i32

record CooperateStateNotice =
  cs_pid :: i32
  cs_msgId :: i32
  cs_userData :: i32
  cs_state :: bool
  cs_errCode :: i32

record event_mgr = world +
  em_listeners :: "EventInfo list"
  em_calls :: "EventType \<Rightarrow> EventInfo option"

section \<open>Packets\<close>

definition notice_packet :: "CooperateNotice \<Rightarrow> net_packet" where
  "notice_packet n = encode (cn_msgId n)
     [i32_bytes (cn_userData n), str_bytes (cn_networkId n), i32_bytes (message_code (cn_msg n)),
      i32_bytes (cn_errCode n)]"

definition NotifyCooperateMessage :: "env \<Rightarrow> CooperateNotice \<Rightarrow> ('s world_scheme, unit) state" where
  "NotifyCooperateMessage E n = NotifySession E (cn_pid n) (notice_packet n)"

definition NotifyCooperateState :: "env \<Rightarrow> CooperateStateNotice \<Rightarrow> ('s world_scheme, unit) state" where
  "NotifyCooperateState E n = NotifySession E (cs_pid n) (encode (cs_msgId n)
     [i32_bytes (cs_userData n), bool_bytes (cs_state n), i32_bytes (cs_errCode n)])"

definition OnCooperateMessage ::
    "env \<Rightarrow> CoordinationMessage \<Rightarrow> net_id \<Rightarrow> ('s event_mgr_scheme, unit) state" where
  "OnCooperateMessage E msg nid = do {
     ls \<leftarrow> gets em_listeners;
     for_each ls (\<lambda>l. NotifyCooperateMessage E
       \<lparr>cn_pid = ei_pid l, cn_msgId = ei_msgId l, cn_userData = ei_userData l,
        cn_networkId = nid, cn_msg = msg, cn_errCode = COORDINATION_OK\<rparr>) }"

section \<open>Listeners\<close>

fun put_listener :: "EventInfo \<Rightarrow> EventInfo list \<Rightarrow> EventInfo list" where
  "put_listener e [] = [e]"
| "put_listener e (l # ls) = (if ei_pid l = ei_pid e then e # ls else l # put_listener e ls)"

fun erase_first :: "i32 \<Rightarrow> EventInfo list \<Rightarrow> EventInfo list" where
  "erase_first p [] = []"
| "erase_first p (l # ls) = (if p = ei_pid l then ls else l # erase_first p ls)"

definition listener_info :: "i32 \<Rightarrow> EventInfo" where
  "listener_info p = \<lparr>ei_type = EV_LISTENER, ei_msgId = COORDINATION_ADD_LISTENER, ei_pid = p,
     ei_userData = - 1, ei_networkId = []\<rparr>"

definition em_RegisterListener :: "RegisterListenerEvent \<Rightarrow> ('s event_mgr_scheme, unit) state" where
  "em_RegisterListener ev =
     modify (\<lambda>s. s\<lparr>em_listeners := put_listener (listener_info (rl_pid ev)) (em_listeners s)\<rparr>)"

definition em_UnregisterListener :: "RegisterListenerEvent \<Rightarrow> ('s event_mgr_scheme, unit) state" where
  "em_UnregisterListener ev =
     modify (\<lambda>s. s\<lparr>em_listeners := filter (\<lambda>l. ei_pid l \<noteq> rl_pid ev) (em_listeners s)\<rparr>)"

definition em_OnClientDied :: "i32 \<Rightarrow> ('s event_mgr_scheme, unit) state" where
  "em_OnClientDied p = modify (\<lambda>s. s\<lparr>em_listeners := erase_first p (em_listeners s)\<rparr>)"

section \<open>Calls and their results\<close>

definition activate_result :: "bool \<Rightarrow> CoordinationMessage" where
  "activate_result success = (if success then ACTIVATE_SUCCESS else ACTIVATE_FAIL)"

definition em_EnableCooperate :: "env \<Rightarrow> EnableCooperateEvent \<Rightarrow> ('s event_mgr_scheme, unit) state" where
  "em_EnableCooperate E ev = NotifyCooperateMessage E
     \<lparr>cn_pid = en_pid ev, cn_msgId = COORDINATION_MESSAGE, cn_userData = en_userData ev,
      cn_networkId = [], cn_msg = PREPARE, cn_errCode = COORDINATION_OK\<rparr>"

definition em_DisableCooperate :: "env \<Rightarrow> RegisterListenerEvent \<Rightarrow> ('s event_mgr_scheme, unit) state" where
  "em_DisableCooperate E ev = NotifyCooperateMessage E
     \<lparr>cn_pid = rl_pid ev, cn_msgId = COORDINATION_MESSAGE, cn_userData = rl_userData ev,
      cn_networkId = [], cn_msg = UNPREPARE, cn_errCode = COORDINATION_OK\<rparr>"

definition start_info :: "i32 \<Rightarrow> i32 \<Rightarrow> net_id \<Rightarrow> EventInfo" where
  "start_info p u nid = \<lparr>ei_type = EV_START, ei_msgId = COORDINATION_MESSAGE, ei_pid = p,
     ei_userData = u, ei_networkId = nid\<rparr>"

definition set_call :: "EventType \<Rightarrow> EventInfo option \<Rightarrow> ('s event_mgr_scheme, unit) state" where
  "set_call ty c = modify (\<lambda>s. s\<lparr>em_calls := (em_calls s)(ty := c)\<rparr>)"

definition em_StartCooperate :: "StartCooperateEvent \<Rightarrow> ('s event_mgr_scheme, unit) state" where
  "em_StartCooperate ev = set_call EV_START
     (Some (start_info (st_pid ev) (st_userData ev) (st_remoteNetworkId ev)))"

definition em_StartCooperateWithOptions ::
    "StartWithOptionsEvent \<Rightarrow> ('s event_mgr_scheme, unit) state" where
  "em_StartCooperateWithOptions ev = set_call EV_START
     (Some (start_info (so_pid ev) (so_userData ev) (so_remoteNetworkId ev)))"

definition finish_start :: "env \<Rightarrow> bool \<Rightarrow> i32 \<Rightarrow> ('s event_mgr_scheme, unit) state" where
  "finish_start E success code = do {
     calls \<leftarrow> gets em_calls;
     case calls EV_START of
       None \<Rightarrow> skip
     | Some info \<Rightarrow> do {
         set_call EV_START None;
         NotifyCooperateMessage E
           \<lparr>cn_pid = ei_pid info, cn_msgId = ei_msgId info, cn_userData = ei_userData info,
            cn_networkId = ei_networkId info, cn_msg = activate_result success,
            cn_errCode = code\<rparr> } }"

definition em_StartCooperateFinish :: "env \<Rightarrow> DSoftbusStartCooperate \<Rightarrow> ('s event_mgr_scheme, unit) state" where
  "em_StartCooperateFinish E ev = finish_start E (sc_success ev) (sc_errCode ev)"

definition em_StartCooperateWithOptionsFinish ::
    "env \<Rightarrow> DSoftbusCooperateOptions \<Rightarrow> ('s event_mgr_scheme, unit) state" where
  "em_StartCooperateWithOptionsFinish E ev = finish_start E (co_success ev) (co_errCode ev)"

definition em_RemoteStart :: "env \<Rightarrow> DSoftbusStartCooperate \<Rightarrow> ('s event_mgr_scheme, unit) state" where
  "em_RemoteStart E ev = OnCooperateMessage E ACTIVATE (sc_networkId ev)"

definition em_RemoteStartFinish :: "env \<Rightarrow> DSoftbusStartCooperate \<Rightarrow> ('s event_mgr_scheme, unit) state" where
  "em_RemoteStartFinish E ev = OnCooperateMessage E (activate_result (sc_success ev)) (sc_networkId ev)"

definition em_RemoteStartWithOptions ::
    "env \<Rightarrow> DSoftbusCooperateOptions \<Rightarrow> ('s event_mgr_scheme, unit) state" where
  "em_RemoteStartWithOptions E ev = OnCooperateMessage E ACTIVATE (co_networkId ev)"

definition em_RemoteStartWithOptionsFinish ::
    "env \<Rightarrow> DSoftbusCooperateOptions \<Rightarrow> ('s event_mgr_scheme, unit) state" where
  "em_RemoteStartWithOptionsFinish E ev =
     OnCooperateMessage E (activate_result (co_success ev)) (co_networkId ev)"

definition em_OnUnchain :: "env \<Rightarrow> StopCooperateEvent \<Rightarrow> ('s event_mgr_scheme, unit) state" where
  "em_OnUnchain E ev = OnCooperateMessage E SESSION_CLOSED (sp_networkId ev)"

definition em_StopCooperate :: "StopCooperateEvent \<Rightarrow> ('s event_mgr_scheme, unit) state" where
  "em_StopCooperate ev = set_call EV_STOP (Some
     \<lparr>ei_type = EV_STOP, ei_msgId = COORDINATION_MESSAGE, ei_pid = sp_pid ev,
      ei_userData = sp_userData ev, ei_networkId = []\<rparr>)"

definition em_StopCooperateFinish :: "env \<Rightarrow> DDMBoardOnlineEvent \<Rightarrow> ('s event_mgr_scheme, unit) state" where
  "em_StopCooperateFinish E ev = do {
     calls \<leftarrow> gets em_calls;
     case calls EV_STOP of
       None \<Rightarrow> skip
     | Some info \<Rightarrow> do {
         NotifyCooperateMessage E
           \<lparr>cn_pid = ei_pid info, cn_msgId = ei_msgId info, cn_userData = ei_userData info,
            cn_networkId = ei_networkId info,
            cn_msg = (if bo_normal ev then DEACTIVATE_SUCCESS else DEACTIVATE_FAIL),
            cn_errCode = bo_errCode ev\<rparr>;
         set_call EV_STOP None } }"

definition em_RemoteStop :: "DDMBoardOnlineEvent \<Rightarrow> ('s event_mgr_scheme, unit) state" where
  "em_RemoteStop ev = skip"

definition em_RemoteStopFinish :: "DDMBoardOnlineEvent \<Rightarrow> ('s event_mgr_scheme, unit) state" where
  "em_RemoteStopFinish ev = skip"

definition em_OnProfileChanged :: "env \<Rightarrow> DDMBoardOnlineEvent \<Rightarrow> ('s event_mgr_scheme, unit) state" where
  "em_OnProfileChanged E ev =
     OnCooperateMessage E (if bo_normal ev then PREPARE else UNPREPARE) (bo_networkId ev)"

definition em_OnSoftbusSessionClosed :: "env \<Rightarrow> DDMBoardOnlineEvent \<Rightarrow> ('s event_mgr_scheme, unit) state" where
  "em_OnSoftbusSessionClosed E ev = OnCooperateMessage E SESSION_CLOSED (bo_networkId ev)"

definition em_OnStatusChanged :: "env \<Rightarrow> StatusChangeEvent \<Rightarrow> ('s event_mgr_scheme, unit) state" where
  "em_OnStatusChanged E ev = OnCooperateMessage E (sc_msg ev) (sc_id ev)"

definition em_GetCooperateState :: "env \<Rightarrow> CooperateStateNotice \<Rightarrow> ('s event_mgr_scheme, unit) state" where
  "em_GetCooperateState E n = NotifyCooperateState E n"

definition em_ErrorNotAllowed ::
    "env \<Rightarrow> NotAllowCooperateWhenMotionDragging \<Rightarrow> ('s event_mgr_scheme, unit) state" where
  "em_ErrorNotAllowed E ev = NotifyCooperateMessage E
     \<lparr>cn_pid = na_pid ev, cn_msgId = COORDINATION_MESSAGE, cn_userData = na_userData ev,
      cn_networkId = na_networkId ev, cn_msg = activate_result (na_success ev),
      cn_errCode = na_errCode ev\<rparr>"

section \<open>Frames\<close>

lemma NotifyCooperateMessage_frame [frame]: "quiet f \<Longrightarrow> unchanged f (NotifyCooperateMessage E n)"
  unfolding NotifyCooperateMessage_def by (intro frame)

lemma NotifyCooperateState_frame [frame]: "quiet f \<Longrightarrow> unchanged f (NotifyCooperateState E n)"
  unfolding NotifyCooperateState_def by (intro frame)

lemma OnCooperateMessage_frame [frame]: "quiet f \<Longrightarrow> unchanged f (OnCooperateMessage E msg nid)"
  unfolding OnCooperateMessage_def by (intro frame)

lemmas report_defs = em_EnableCooperate_def em_DisableCooperate_def em_RemoteStart_def
  em_RemoteStartFinish_def em_RemoteStartWithOptions_def em_RemoteStartWithOptionsFinish_def
  em_OnUnchain_def em_RemoteStop_def em_RemoteStopFinish_def em_OnProfileChanged_def
  em_OnSoftbusSessionClosed_def em_OnStatusChanged_def em_GetCooperateState_def
  em_ErrorNotAllowed_def

lemma report_frame [frame]:
  assumes "quiet f"
  shows "unchanged f (em_EnableCooperate E en)" "unchanged f (em_DisableCooperate E rl)"
    "unchanged f (em_RemoteStart E sc)" "unchanged f (em_RemoteStartFinish E sc)"
    "unchanged f (em_RemoteStartWithOptions E co)" "unchanged f (em_RemoteStartWithOptionsFinish E co)"
    "unchanged f (em_OnUnchain E sp)" "unchanged f (em_RemoteStop bo)"
    "unchanged f (em_RemoteStopFinish bo)" "unchanged f (em_OnProfileChanged E bo)"
    "unchanged f (em_OnSoftbusSessionClosed E bo)" "unchanged f (em_OnStatusChanged E st)"
    "unchanged f (em_GetCooperateState E cs)" "unchanged f (em_ErrorNotAllowed E na)"
  unfolding report_defs by (intro frame assms)+

text \<open>A view that does not look at the event manager either.\<close>

definition em_blind :: "('s event_mgr_scheme \<Rightarrow> 'v) \<Rightarrow> bool" where
  "em_blind f \<longleftrightarrow> quiet f \<and> (\<forall>s x. f (s\<lparr>em_listeners := x\<rparr>) = f s)
     \<and> (\<forall>s x. f (s\<lparr>em_calls := x\<rparr>) = f s)"

lemma em_blind_quiet: "em_blind f \<Longrightarrow> quiet f"
  by (simp add: em_blind_def)

lemma em_frame [frame]:
  assumes "em_blind f"
  shows "unchanged f (em_RegisterListener rl)" "unchanged f (em_UnregisterListener rl)"
    "unchanged f (em_OnClientDied p)" "unchanged f (set_call ty c)"
  using assms
  unfolding em_RegisterListener_def em_UnregisterListener_def em_OnClientDied_def set_call_def
  by (auto simp: unchanged_def em_blind_def)

lemma em_call_frame [frame]:
  assumes "em_blind f"
  shows "unchanged f (em_StartCooperate st)" "unchanged f (em_StartCooperateWithOptions so)"
    "unchanged f (finish_start E b code)" "unchanged f (em_StartCooperateFinish E sc)"
    "unchanged f (em_StartCooperateWithOptionsFinish E co)"
    "unchanged f (em_StopCooperate sp)" "unchanged f (em_StopCooperateFinish E bo)"
  unfolding em_StartCooperate_def em_StartCooperateWithOptions_def finish_start_def
    em_StartCooperateFinish_def em_StartCooperateWithOptionsFinish_def em_StopCooperate_def
    em_StopCooperateFinish_def
  by (intro frame assms em_blind_quiet)+

section \<open>The listeners are a registry\<close>

lemma pids_put_listener: "ei_pid ` set (put_listener e ls) = insert (ei_pid e) (ei_pid ` set ls)"
  by (induction e ls rule: put_listener.induct) auto

lemma distinct_put_listener:
  "distinct (map ei_pid ls) \<Longrightarrow> distinct (map ei_pid (put_listener e ls))"
proof (induction e ls rule: put_listener.induct)
  case (2 e l ls)
  then show ?case
    using pids_put_listener [of e ls] by auto
qed simp

lemma erase_first_filter:
  "distinct (map ei_pid ls) \<Longrightarrow> erase_first p ls = filter (\<lambda>l. ei_pid l \<noteq> p) ls"
  by (induction p ls rule: erase_first.induct)
    (auto simp: image_def intro!: sym [OF filter_True])

interpretation emr: listener_registry "map ei_pid" "\<lambda>ls. distinct (map ei_pid ls)"
  "\<lambda>p. put_listener (listener_info p)" "\<lambda>p. filter (\<lambda>l. ei_pid l \<noteq> p)" erase_first
  by unfold_locales
    (auto simp: distinct_put_listener pids_put_listener listener_info_def distinct_map_filter
      erase_first_filter)

text \<open>A history of registrations at the event manager.\<close>

primrec em_step :: "registry_op \<Rightarrow> ('s event_mgr_scheme, unit) state" where
  "em_step (Register p) = em_RegisterListener \<lparr>rl_pid = p, rl_userData = 0\<rparr>"
| "em_step (Unregister p) = em_UnregisterListener \<lparr>rl_pid = p, rl_userData = 0\<rparr>"
| "em_step (ClientDied p) = em_OnClientDied p"

lemma em_history:
  "em_listeners (exec (for_each ops em_step) s) = run_registry (\<lambda>p. put_listener (listener_info p))
     (\<lambda>p. filter (\<lambda>l. ei_pid l \<noteq> p)) erase_first ops (em_listeners s)"
proof (induction ops arbitrary: s)
  case (Cons op ops)
  then show ?case
    by (cases op) (simp_all add: em_RegisterListener_def em_UnregisterListener_def
        em_OnClientDied_def)
qed simp

lemma notice_packet_error [simp]:
  "ChkRWError (notice_packet n) = (2035 < length (cn_networkId n))"
  by (simp add: notice_packet_def)

lemma NotifyCooperateMessage_trace [simp]:
  "trace (exec (NotifyCooperateMessage E n) s) = trace s
     @ (if SessionOfPid E (tick s) (cn_pid n) \<and> length (cn_networkId n) \<le> 2035
        then [SessionSend (cn_pid n) (notice_packet n)] else [])"
  by (simp add: NotifyCooperateMessage_def not_less)

lemma for_each_notify_sends:
  assumes "\<forall>t. SessionOfPid E t p" "length nid \<le> 2035"
  shows "\<exists>cs. trace (exec (for_each ls (\<lambda>l. NotifyCooperateMessage E
       \<lparr>cn_pid = ei_pid l, cn_msgId = ei_msgId l, cn_userData = ei_userData l, cn_networkId = nid,
        cn_msg = msg, cn_errCode = code\<rparr>)) s) = trace s @ cs
    \<and> length (sends_to p cs) = count_list (map ei_pid ls) p"
proof (induction ls arbitrary: s)
  case (Cons l ls)
  let ?n = "\<lparr>cn_pid = ei_pid l, cn_msgId = ei_msgId l, cn_userData = ei_userData l,
    cn_networkId = nid, cn_msg = msg, cn_errCode = code\<rparr>"
  obtain cs where cs: "trace (exec (for_each ls (\<lambda>l. NotifyCooperateMessage E
       \<lparr>cn_pid = ei_pid l, cn_msgId = ei_msgId l, cn_userData = ei_userData l, cn_networkId = nid,
        cn_msg = msg, cn_errCode = code\<rparr>)) (exec (NotifyCooperateMessage E ?n) s))
      = trace (exec (NotifyCooperateMessage E ?n) s) @ cs"
    "length (sends_to p cs) = count_list (map ei_pid ls) p"
    using Cons.IH by blast
  then show ?case
    using assms by auto
qed simp

text \<open>
  C34. A client that is connected receives each cooperation message exactly once if its last
  registration call was \<open>RegisterListener\<close>, and not at all if it unregistered or died since or
  never registered, whatever calls came before and whoever else is registered.
\<close>

theorem cooperate_message_once:
  assumes "em_listeners s = []" "\<forall>t. SessionOfPid E t p" "length nid \<le> 2035"
  shows "length (sends_to p (issued (OnCooperateMessage E msg nid) (exec (for_each ops em_step) s)))
    = (if registered p ops False then 1 else 0)"
proof -
  let ?s = "exec (for_each ops em_step) s"
  obtain cs where cs: "trace (exec (OnCooperateMessage E msg nid) ?s) = trace ?s @ cs"
    "length (sends_to p cs) = count_list (map ei_pid (em_listeners ?s)) p"
    using for_each_notify_sends [OF assms(2,3), of "em_listeners ?s" msg COORDINATION_OK ?s]
    by (auto simp: OnCooperateMessage_def)
  then show ?thesis
    using emr.run_once [of "[]" ops p] assms(1) by (simp add: issued_def em_history)
qed

theorem cooperate_message_once_witness:
  "length (sends_to 7 (issued (OnCooperateMessage ideal_env ACTIVATE ''peer'')
     (exec (for_each [Register 7, Register 8, Register 7, Unregister 8] em_step)
       \<lparr>tick = 0, trace = [], chan = OpenChannel, em_listeners = [], em_calls = (\<lambda>_. None)\<rparr>))) = 1"
  using cooperate_message_once [of "\<lparr>tick = 0, trace = [], chan = OpenChannel, em_listeners = [],
      em_calls = (\<lambda>_. None)\<rparr>" ideal_env 7 "''peer''" ACTIVATE
      "[Register 7, Register 8, Register 7, Unregister 8]"]
  by (simp add: ideal_env_def)

text \<open>
  The caller of a start is answered exactly once: the first result after the call goes to
  its process, with its user data and the peer it named; a further result for the same call is
  dropped.
\<close>

theorem start_answered_once:
  assumes "\<forall>t. SessionOfPid E t (st_pid ev)" "length (st_remoteNetworkId ev) \<le> 2035"
  shows "trace (exec (do { em_StartCooperate ev; em_StartCooperateFinish E r; em_StartCooperateFinish E r';
           em_StartCooperateWithOptionsFinish E r'' }) s)
    = trace s @ [SessionSend (st_pid ev) (notice_packet
        \<lparr>cn_pid = st_pid ev, cn_msgId = COORDINATION_MESSAGE, cn_userData = st_userData ev,
         cn_networkId = st_remoteNetworkId ev,
         cn_msg = (if sc_success r then ACTIVATE_SUCCESS else ACTIVATE_FAIL),
         cn_errCode = sc_errCode r\<rparr>)]"
proof -
  let ?m = "\<lambda>n. NotifyCooperateMessage E n"
  have calls: "em_calls (exec (?m n) u) = em_calls u" for n and u :: "'a event_mgr_scheme"
    by (rule unchangedD [OF NotifyCooperateMessage_frame]) (simp add: quiet_def)
  show ?thesis
    using assms by (simp add: em_StartCooperate_def em_StartCooperateFinish_def
        em_StartCooperateWithOptionsFinish_def finish_start_def set_call_def start_info_def
        activate_result_def calls)
qed

theorem start_answered_once_witness:
  "length (trace (exec (do { em_StartCooperate \<lparr>st_pid = 7, st_userData = 1, st_remoteNetworkId = ''peer'',
         st_startDeviceId = 0, st_errCode = 1, st_uid = 0, st_userId = 0, st_accountId = [],
         st_needCheckSameAccount = True\<rparr>;
       em_StartCooperateFinish ideal_env default_start; em_StartCooperateFinish ideal_env default_start;
       em_StartCooperateWithOptionsFinish ideal_env default_options })
     \<lparr>tick = 0, trace = [], chan = OpenChannel, em_listeners = [], em_calls = (\<lambda>_. None)\<rparr>)) = 1"
  by (subst start_answered_once) (simp_all add: ideal_env_def)

end
