(* ===== verification/Hot_Area.thy ===== *)
theory Hot_Area
  imports Event_Mgr
begin

text \<open>
  src/intention/cooperate/plugin/src/hot_area.cpp: the areas along the edges of the screen
  from which the pointer may leave for another device, and the clients told about them.
\<close>

section \<open>State\<close>

datatype HotAreaType = AREA_LEFT | AREA_RIGHT | AREA_TOP | AREA_BOTTOM | AREA_NONE

fun area_code :: "HotAreaType \<Rightarrow> i32" where
  "area_code AREA_LEFT = 0"
| "area_code AREA_RIGHT = 1"
| "area_code AREA_TOP = 2"
| "area_code AREA_BOTTOM = 3"
| "area_code AREA_NONE = 4"

record HotAreaInfo =
  hi_pid :: i32
  hi_msgId :: i32

record hot_area = event_mgr +
  ha_width :: i32
  ha_height :: i32
  ha_displayX :: i32
  ha_displayY :: i32
  ha_deltaX :: i32
  ha_deltaY :: i32
  ha_isEdge :: bool
  ha_type :: HotAreaType
  ha_callbacks :: "HotAreaInfo list"

abbreviation (input) HOT_AREA_WIDTH :: i32 where "HOT_AREA_WIDTH \<equiv> 100"
abbreviation (input) HOT_AREA_MARGIN :: i32 where "HOT_AREA_MARGIN \<equiv> 200"

abbreviation hi_key :: "HotAreaInfo \<Rightarrow> int" where
  "hi_key i \<equiv> sint (hi_pid i)"

section \<open>Operations\<close>

definition put_callback :: "i32 \<Rightarrow> HotAreaInfo list \<Rightarrow> HotAreaInfo list" where
  "put_callback p cs =
     (let info = \<lparr>hi_pid = p, hi_msgId = HOT_AREA_ADD_LISTENER\<rparr> in
      if oset_has hi_key (sint p) cs
      then oset_insert hi_key info (oset_erase hi_key (sint p) cs)
      else oset_insert hi_key info cs)"

definition ha_AddListener :: "RegisterListenerEvent \<Rightarrow> ('s hot_area_scheme, unit) state" where
  "ha_AddListener ev = modify (\<lambda>s. s\<lparr>ha_callbacks := put_callback (rl_pid ev) (ha_callbacks s)\<rparr>)"

definition ha_RemoveListener :: "RegisterListenerEvent \<Rightarrow> ('s hot_area_scheme, unit) state" where
  "ha_RemoveListener ev =
     modify (\<lambda>s. s\<lparr>ha_callbacks := oset_erase hi_key (sint (rl_pid ev)) (ha_callbacks s)\<rparr>)"

definition ha_OnClientDied :: "i32 \<Rightarrow> ('s hot_area_scheme, unit) state" where
  "ha_OnClientDied p = modify (\<lambda>s. s\<lparr>ha_callbacks := oset_erase hi_key (sint p) (ha_callbacks s)\<rparr>)"

definition ha_EnableCooperate :: "env \<Rightarrow> ('s hot_area_scheme, unit) state" where
  "ha_EnableCooperate E = do {
     d \<leftarrow> ask (DefaultDisplay E);
     case d of
       None \<Rightarrow> skip
     | Some d \<Rightarrow> modify (\<lambda>s. s\<lparr>ha_width := d_width d, ha_height := d_height d\<rparr>) }"

definition area_of :: "i32 \<Rightarrow> i32 \<Rightarrow> i32 \<Rightarrow> i32 \<Rightarrow> HotAreaType" where
  "area_of w h x y =
     (if le32 x HOT_AREA_WIDTH \<and> le32 HOT_AREA_MARGIN y \<and> le32 y (h - HOT_AREA_MARGIN)
        then AREA_LEFT
      else if le32 (w - HOT_AREA_WIDTH) x \<and> le32 HOT_AREA_MARGIN y \<and> le32 y (h - HOT_AREA_MARGIN)
        then AREA_RIGHT
      else if le32 y HOT_AREA_WIDTH \<and> le32 HOT_AREA_MARGIN x \<and> le32 x (w - HOT_AREA_MARGIN)
        then AREA_TOP
      else if le32 (h - HOT_AREA_WIDTH) y \<and> le32 HOT_AREA_MARGIN x \<and> le32 x (w - HOT_AREA_MARGIN)
        then AREA_BOTTOM
      else AREA_NONE)"

definition edge_of :: "HotAreaType \<Rightarrow> i32 \<Rightarrow> i32 \<Rightarrow> i32 \<Rightarrow> i32 \<Rightarrow> i32 \<Rightarrow> i32 \<Rightarrow> bool" where
  "edge_of ty w h x y dx dy =
     (case ty of
        AREA_LEFT \<Rightarrow> le32 x 0 \<and> lt32 dx 0
      | AREA_RIGHT \<Rightarrow> le32 (w - 1) x \<and> lt32 0 dx
      | AREA_TOP \<Rightarrow> le32 y 0 \<and> lt32 dy 0
      | AREA_BOTTOM \<Rightarrow> le32 (h - 1) y \<and> lt32 0 dy
      | AREA_NONE \<Rightarrow> False)"

definition CheckInHotArea :: "('s hot_area_scheme, unit) state" where
  "CheckInHotArea = modify (\<lambda>s. s\<lparr>ha_type :=
     area_of (ha_width s) (ha_height s) (ha_displayX s) (ha_displayY s)\<rparr>)"

definition CheckPointerToEdge :: "('s hot_area_scheme, unit) state" where
  "CheckPointerToEdge = modify (\<lambda>s. s\<lparr>ha_isEdge := edge_of (ha_type s) (ha_width s) (ha_height s)
     (ha_displayX s) (ha_displayY s) (ha_deltaX s) (ha_deltaY s)\<rparr>)"

definition NotifyHotAreaMessage ::
    "env \<Rightarrow> i32 \<Rightarrow> i32 \<Rightarrow> HotAreaType \<Rightarrow> bool \<Rightarrow> ('s hot_area_scheme, unit) state" where
  "NotifyHotAreaMessage E p mid msg edge = do {
     x \<leftarrow> gets ha_displayX;
     y \<leftarrow> gets ha_displayY;
     NotifySession E p (encode mid
       [i32_bytes x, i32_bytes y, i32_bytes (area_code msg), bool_bytes edge]) }"

definition OnHotAreaMessage :: "env \<Rightarrow> HotAreaType \<Rightarrow> bool \<Rightarrow> ('s hot_area_scheme, unit) state" where
  "OnHotAreaMessage E msg edge = do {
     cs \<leftarrow> gets ha_callbacks;
     for_each cs (\<lambda>c. NotifyHotAreaMessage E (hi_pid c) (hi_msgId c) msg edge) }"

definition ha_ProcessData :: "env \<Rightarrow> pointer_event \<Rightarrow> ('s hot_area_scheme, i32) state" where
  "ha_ProcessData E p =
     (case GetPointerItem p (p_pointerId p) of
        None \<Rightarrow> pure RET_ERR
      | Some item \<Rightarrow> do {
          modify (\<lambda>s. s\<lparr>ha_displayX := it_displayX item, ha_displayY := it_displayY item,
            ha_deltaX := it_rawDx item, ha_deltaY := it_rawDy item\<rparr>);
          CheckInHotArea;
          CheckPointerToEdge;
          ty \<leftarrow> gets ha_type;
          edge \<leftarrow> gets ha_isEdge;
          OnHotAreaMessage E ty edge;
          pure RET_OK })"

section \<open>Frames\<close>

definition ha_blind :: "('s hot_area_scheme \<Rightarrow> 'v) \<Rightarrow> bool" where
  "ha_blind f \<longleftrightarrow> em_blind f \<and> (\<forall>s x. f (s\<lparr>ha_width := x\<rparr>) = f s)
     \<and> (\<forall>s x. f (s\<lparr>ha_height := x\<rparr>) = f s) \<and> (\<forall>s x. f (s\<lparr>ha_displayX := x\<rparr>) = f s)
     \<and> (\<forall>s x. f (s\<lparr>ha_displayY := x\<rparr>) = f s) \<and> (\<forall>s x. f (s\<lparr>ha_deltaX := x\<rparr>) = f s)
     \<and> (\<forall>s x. f (s\<lparr>ha_deltaY := x\<rparr>) = f s) \<and> (\<forall>s x. f (s\<lparr>ha_isEdge := x\<rparr>) = f s)
     \<and> (\<forall>s x. f (s\<lparr>ha_type := x\<rparr>) = f s) \<and> (\<forall>s x. f (s\<lparr>ha_callbacks := x\<rparr>) = f s)"

lemma ha_blind_em: "ha_blind f \<Longrightarrow> em_blind f"
  by (simp add: ha_blind_def)

lemmas ha_blind_quiet = em_blind_quiet [OF ha_blind_em]

lemma ha_notify_frame [frame]:
  assumes "quiet f"
  shows "unchanged f (NotifyHotAreaMessage E p mid msg edge)" "unchanged f (OnHotAreaMessage E msg edge)"
  unfolding NotifyHotAreaMessage_def OnHotAreaMessage_def by (intro frame assms)+

lemma ha_frame [frame]:
  assumes "ha_blind f"
  shows "unchanged f (ha_AddListener rl)" "unchanged f (ha_RemoveListener rl)"
    "unchanged f (ha_OnClientDied p)" "unchanged f (ha_EnableCooperate E)"
    "unchanged f CheckInHotArea" "unchanged f CheckPointerToEdge"
  unfolding ha_AddListener_def ha_RemoveListener_def ha_OnClientDied_def ha_EnableCooperate_def
    CheckInHotArea_def CheckPointerToEdge_def
  using assms by (intro frame ha_blind_quiet; simp add: ha_blind_def)+

lemma ha_ProcessData_frame [frame]:
  assumes "ha_blind f"
  shows "unchanged f (ha_ProcessData E p)"
  unfolding ha_ProcessData_def
  using assms by (intro frame ha_blind_quiet; simp add: ha_blind_def)

section \<open>The callbacks are a registry\<close>

lemma put_callback_ok: "oset_ok hi_key cs \<Longrightarrow> oset_ok hi_key (put_callback p cs)"
  by (simp add: put_callback_def Let_def oset_ok_insert oset_ok_erase)

lemma pids_put_callback: "hi_pid ` set (put_callback p cs) = insert p (hi_pid ` set cs)"
  using keys_oset_insert [of hi_key "\<lparr>hi_pid = p, hi_msgId = HOT_AREA_ADD_LISTENER\<rparr>"]
    keys_oset_erase [of hi_key "sint p" cs]
  by (simp add: put_callback_def Let_def image_image [of sint hi_pid, symmetric] sint_image_insert
      sint_image_remove oset_has_iff)

lemma pids_erase_callback: "hi_pid ` set (oset_erase hi_key (sint p) cs) = hi_pid ` set cs - {p}"
  using keys_oset_erase [of hi_key "sint p" cs]
  by (simp add: image_image [of sint hi_pid, symmetric] sint_image_remove)

lemma callbacks_distinct: "oset_ok hi_key cs \<Longrightarrow> distinct (map hi_pid cs)"
  using oset_ok_distinct [of hi_key cs] by (simp add: distinct_map inj_on_def sint_eq_iff)

interpretation har: listener_registry "map hi_pid" "oset_ok hi_key" put_callback
  "\<lambda>p. oset_erase hi_key (sint p)" "\<lambda>p. oset_erase hi_key (sint p)"
  by unfold_locales
    (simp_all add: callbacks_distinct put_callback_ok pids_put_callback pids_erase_callback
      oset_ok_erase)

section \<open>Properties\<close>

primrec ha_step :: "registry_op \<Rightarrow> ('s hot_area_scheme, unit) state" where
  "ha_step (Register p) = ha_AddListener \<lparr>rl_pid = p, rl_userData = 0\<rparr>"
| "ha_step (Unregister p) = ha_RemoveListener \<lparr>rl_pid = p, rl_userData = 0\<rparr>"
| "ha_step (ClientDied p) = ha_OnClientDied p"

lemma ha_history:
  "ha_callbacks (exec (for_each ops ha_step) s) = run_registry put_callback
     (\<lambda>p. oset_erase hi_key (sint p)) (\<lambda>p. oset_erase hi_key (sint p)) ops (ha_callbacks s)"
proof (induction ops arbitrary: s)
  case (Cons op ops)
  then show ?case
    by (cases op) (simp_all add: ha_AddListener_def ha_RemoveListener_def ha_OnClientDied_def)
qed simp

definition area_packet :: "i32 \<Rightarrow> i32 \<Rightarrow> i32 \<Rightarrow> HotAreaType \<Rightarrow> bool \<Rightarrow> net_packet" where
  "area_packet mid x y ty edge = encode mid
     [i32_bytes x, i32_bytes y, i32_bytes (area_code ty), bool_bytes edge]"

lemma area_packet_ok [simp]: "\<not> ChkRWError (area_packet mid x y ty edge)"
  by (simp add: area_packet_def)

lemma quiet_display [simp]: "quiet ha_displayX" "quiet ha_displayY"
  by (simp_all add: quiet_def)

lemma NotifyHotArea_simps [simp]:
  "trace (exec (NotifyHotAreaMessage E p mid ty edge) s) = trace s
     @ (if SessionOfPid E (tick s) p
        then [SessionSend p (area_packet mid (ha_displayX s) (ha_displayY s) ty edge)] else [])"
  "ha_displayX (exec (NotifyHotAreaMessage E p mid ty edge) s) = ha_displayX s"
  "ha_displayY (exec (NotifyHotAreaMessage E p mid ty edge) s) = ha_displayY s"
  by (simp add: NotifyHotAreaMessage_def area_packet_def [symmetric])
    (intro unchangedD ha_notify_frame quiet_display)+

lemma notify_areas_sends:
  assumes "\<forall>t. SessionOfPid E t p"
  shows "\<exists>cs. trace (exec (for_each is (\<lambda>c. NotifyHotAreaMessage E (hi_pid c) (hi_msgId c) ty edge)) s)
      = trace s @ cs
    \<and> sends_to p cs = map (\<lambda>c. area_packet (hi_msgId c) (ha_displayX s) (ha_displayY s) ty edge)
        (filter (\<lambda>c. hi_pid c = p) is)"
proof (induction "is" arbitrary: s)
  case (Cons c cs)
  let ?s = "exec (NotifyHotAreaMessage E (hi_pid c) (hi_msgId c) ty edge) s"
  obtain ds where
    "trace (exec (for_each cs (\<lambda>c. NotifyHotAreaMessage E (hi_pid c) (hi_msgId c) ty edge)) ?s)
       = trace ?s @ ds"
    "sends_to p ds = map (\<lambda>c. area_packet (hi_msgId c) (ha_displayX s) (ha_displayY s) ty edge)
        (filter (\<lambda>c. hi_pid c = p) cs)"
    using Cons.IH [of ?s] by auto
  then show ?case
    using assms by auto
qed simp

text \<open>
  On a screen of at least 400 by 400 pixels the four hot areas are disjoint bands, 100
  pixels deep, that leave the corners free: the classification does not depend on the order in
  which the code tests the sides.
\<close>

theorem hot_areas_disjoint:
  assumes "400 \<le> sint w" "400 \<le> sint h"
  shows "(area_of w h x y = AREA_LEFT
      \<longleftrightarrow> sint x \<le> 100 \<and> 200 \<le> sint y \<and> sint y \<le> sint h - 200)
    \<and> (area_of w h x y = AREA_RIGHT
      \<longleftrightarrow> sint w - 100 \<le> sint x \<and> 200 \<le> sint y \<and> sint y \<le> sint h - 200)
    \<and> (area_of w h x y = AREA_TOP
      \<longleftrightarrow> sint y \<le> 100 \<and> 200 \<le> sint x \<and> sint x \<le> sint w - 200)
    \<and> (area_of w h x y = AREA_BOTTOM
      \<longleftrightarrow> sint h - 100 \<le> sint y \<and> 200 \<le> sint x \<and> sint x \<le> sint w - 200)"
proof -
  have sub: "sint (v - 200) = sint v - 200 \<and> sint (v - 100) = sint v - 100"
    if "400 \<le> sint v" for v :: i32
    using that sint_lt [of v] by (simp add: sint_word_ariths signed_take_bit_int_eq_self)
  show ?thesis
    using assms sub [OF assms(1)] sub [OF assms(2)] by (auto simp: area_of_def)
qed

theorem hot_areas_disjoint_witness: "area_of 1920 1080 1900 540 = AREA_RIGHT"
  using hot_areas_disjoint [of 1920 1080 1900 540] by simp

text \<open>
  A pointer event reaches a connected client exactly once if its last registration call was
  \<open>AddListener\<close> and not at all otherwise; the message has the pointer's position, its area on
  the screen, and whether it is pushing against that edge.
\<close>

theorem hot_area_reported_once:
  assumes "ha_callbacks s = []" "\<forall>t. SessionOfPid E t p"
    and "GetPointerItem ev (p_pointerId ev) = Some item"
  shows "let u = exec (for_each ops ha_step) s;
             ty = area_of (ha_width u) (ha_height u) (it_displayX item) (it_displayY item);
             edge = edge_of ty (ha_width u) (ha_height u) (it_displayX item) (it_displayY item)
               (it_rawDx item) (it_rawDy item);
             pkts = sends_to p (issued (ha_ProcessData E ev) u)
         in length pkts = (if registered p ops False then 1 else 0)
           \<and> set pkts \<subseteq> range (\<lambda>mid. area_packet mid (it_displayX item) (it_displayY item) ty edge)"
proof -
  let ?u = "exec (for_each ops ha_step) s"
  let ?ty = "area_of (ha_width ?u) (ha_height ?u) (it_displayX item) (it_displayY item)"
  let ?edge = "edge_of ?ty (ha_width ?u) (ha_height ?u) (it_displayX item) (it_displayY item)
    (it_rawDx item) (it_rawDy item)"
  let ?v = "?u\<lparr>ha_displayX := it_displayX item, ha_displayY := it_displayY item,
    ha_deltaX := it_rawDx item, ha_deltaY := it_rawDy item, ha_type := ?ty, ha_isEdge := ?edge\<rparr>"
  have run: "exec (ha_ProcessData E ev) ?u = exec (OnHotAreaMessage E ?ty ?edge) ?v"
    using assms(3) by (simp add: ha_ProcessData_def CheckInHotArea_def CheckPointerToEdge_def)
  obtain cs where cs: "trace (exec (OnHotAreaMessage E ?ty ?edge) ?v) = trace ?u @ cs"
    "sends_to p cs = map (\<lambda>c. area_packet (hi_msgId c) (it_displayX item) (it_displayY item) ?ty ?edge)
        (filter (\<lambda>c. hi_pid c = p) (ha_callbacks ?u))"
    using notify_areas_sends [OF assms(2), of "ha_callbacks ?u" ?ty ?edge ?v]
    by (auto simp: OnHotAreaMessage_def)
  have "length (sends_to p cs) = count_list (map hi_pid (ha_callbacks ?u)) p"
    by (simp add: cs(2) count_list_eq_length_filter filter_map o_def eq_commute)
  then show ?thesis
    using har.run_once [of "[]" ops p] assms(1) cs
    by (auto simp: issued_def run ha_history Let_def)
qed

theorem hot_area_reported_once_witness:
  "length (sends_to 7 (issued (ha_ProcessData ideal_env (sample_pointer 999 250))
     (exec (for_each [Register 8, Register 7] ha_step)
       \<lparr>tick = 0, trace = [], chan = OpenChannel, em_listeners = [], em_calls = (\<lambda>_. None),
        ha_width = 1000, ha_height = 500, ha_displayX = 0, ha_displayY = 0, ha_deltaX = 0,
        ha_deltaY = 0, ha_isEdge = False, ha_type = AREA_NONE, ha_callbacks = []\<rparr>))) = 1"
  using hot_area_reported_once [of "\<lparr>tick = 0, trace = [], chan = OpenChannel, em_listeners = [],
       em_calls = (\<lambda>_. None), ha_width = 1000, ha_height = 500, ha_displayX = 0, ha_displayY = 0,
       ha_deltaX = 0, ha_deltaY = 0, ha_isEdge = False, ha_type = AREA_NONE, ha_callbacks = []\<rparr>"
      ideal_env 7 "sample_pointer 999 250" _ "[Register 8, Register 7]"]
  by (simp add: ideal_env_def sample_pointer_def GetPointerItem_def Let_def)

end
