(* ===== verification/Mouse_Location.thy ===== *)
theory Mouse_Location
  imports Hot_Area
begin

text \<open>
  src/intention/cooperate/plugin/src/mouse_location.cpp: local clients that follow the local
  pointer, local clients that follow the pointer of a peer (one subscription per peer), and
  peers that follow the local pointer.
\<close>

section \<open>State\<close>

record mouse_loc = hot_area +
  ml_localNetworkId :: net_id
  ml_localListeners :: "i32 list"
  ml_remoteSubscribers :: "net_id list"
  ml_listeners :: "(net_id \<times> i32 list) list"

abbreviation pid_insert :: "i32 \<Rightarrow> i32 list \<Rightarrow> i32 list" where
  "pid_insert \<equiv> oset_insert sint"

abbreviation pid_erase :: "i32 \<Rightarrow> i32 list \<Rightarrow> i32 list" where
  "pid_erase p \<equiv> oset_erase sint (sint p)"

section \<open>Packets\<close>

definition ml_SendPacket :: "env \<Rightarrow> net_id \<Rightarrow> net_packet \<Rightarrow> ('s world_scheme, i32) state" where
  "ml_SendPacket E nid pkt = do {
     existed \<leftarrow> ask (\<lambda>t. HasSession E t nid);
     if \<not> existed then pure RET_ERR
     else do {
       ret \<leftarrow> SoftbusSendPacket E nid pkt;
       pure (if ret \<noteq> RET_OK then RET_ERR else RET_OK) } }"

definition ml_post :: "env \<Rightarrow> net_id \<Rightarrow> net_packet \<Rightarrow> ('s world_scheme, i32) state" where
  "ml_post E nid pkt =
     (if ChkRWError pkt then pure RET_ERR
      else do {
        ret \<leftarrow> ml_SendPacket E nid pkt;
        pure (if ret \<noteq> RET_OK then RET_ERR else RET_OK) })"

definition reply_packet :: "i32 \<Rightarrow> DSoftbusReplySubscribeMouseLocation \<Rightarrow> net_packet" where
  "reply_packet mid ev = encode mid
     [str_bytes (rs_networkId ev), str_bytes (rs_remoteNetworkId ev), bool_bytes (rs_result ev)]"

definition subscribe_packet :: "i32 \<Rightarrow> DSoftbusSubscribeMouseLocation \<Rightarrow> net_packet" where
  "subscribe_packet mid ev = encode mid
     [str_bytes (sm_networkId ev), str_bytes (sm_remoteNetworkId ev)]"

definition ReplySubscribeMouseLocation ::
    "env \<Rightarrow> DSoftbusReplySubscribeMouseLocation \<Rightarrow> ('s world_scheme, i32) state" where
  "ReplySubscribeMouseLocation E ev =
     ml_post E (rs_remoteNetworkId ev) (reply_packet DSOFTBUS_REPLY_SUBSCRIBE_MOUSE_LOCATION ev)"

definition ReplyUnSubscribeMouseLocation ::
    "env \<Rightarrow> DSoftbusReplySubscribeMouseLocation \<Rightarrow> ('s world_scheme, i32) state" where
  "ReplyUnSubscribeMouseLocation E ev =
     ml_post E (rs_remoteNetworkId ev) (reply_packet DSOFTBUS_REPLY_UNSUBSCRIBE_MOUSE_LOCATION ev)"

definition SubscribeMouseLocation ::
    "env \<Rightarrow> DSoftbusSubscribeMouseLocation \<Rightarrow> ('s world_scheme, i32) state" where
  "SubscribeMouseLocation E ev =
     ml_post E (sm_remoteNetworkId ev) (subscribe_packet DSOFTBUS_SUBSCRIBE_MOUSE_LOCATION ev)"

definition UnSubscribeMouseLocation ::
    "env \<Rightarrow> DSoftbusSubscribeMouseLocation \<Rightarrow> ('s world_scheme, i32) state" where
  "UnSubscribeMouseLocation E ev =
     ml_post E (sm_remoteNetworkId ev) (subscribe_packet DSOFTBUS_UNSUBSCRIBE_MOUSE_LOCATION ev)"

definition location_fields :: "LocationInfo \<Rightarrow> char list list" where
  "location_fields l = [i32_bytes (li_displayX l), i32_bytes (li_displayY l),
     i32_bytes (li_displayWidth l), i32_bytes (li_displayHeight l)]"

definition SyncMouseLocation ::
    "env \<Rightarrow> DSoftbusSyncMouseLocation \<Rightarrow> ('s world_scheme, i32) state" where
  "SyncMouseLocation E ev = ml_post E (ml_remoteNetworkId ev)
     (encode DSOFTBUS_MOUSE_LOCATION ([str_bytes (ml_networkId ev), str_bytes (ml_remoteNetworkId ev)]
        @ location_fields (mouseLocation ev)))"

definition location_packet :: "net_id \<Rightarrow> LocationInfo \<Rightarrow> net_packet" where
  "location_packet nid l = encode MOUSE_LOCATION_ADD_LISTENER (str_bytes nid # location_fields l)"

definition ReportMouseLocationToListener ::
    "env \<Rightarrow> net_id \<Rightarrow> LocationInfo \<Rightarrow> i32 \<Rightarrow> ('s world_scheme, unit) state" where
  "ReportMouseLocationToListener E nid l p = NotifySession E p (location_packet nid l)"

section \<open>Operations\<close>

definition refresh_local_id :: "env \<Rightarrow> ('s mouse_loc_scheme, net_id) state" where
  "refresh_local_id E = do {
     nid \<leftarrow> ask (LocalNetworkId E);
     modify (\<lambda>s. s\<lparr>ml_localNetworkId := nid\<rparr>);
     pure nid }"

definition peer_listeners :: "net_id \<Rightarrow> (net_id \<times> i32 list) list \<Rightarrow> i32 list" where
  "peer_listeners nid m = (case map_of m nid of None \<Rightarrow> [] | Some ps \<Rightarrow> ps)"

definition ml_AddListener :: "env \<Rightarrow> RegisterEventListenerEvent \<Rightarrow> ('s mouse_loc_scheme, unit) state" where
  "ml_AddListener E ev = do {
     lid \<leftarrow> refresh_local_id E;
     if el_networkId ev = lid
     then modify (\<lambda>s. s\<lparr>ml_localListeners := pid_insert (el_pid ev) (ml_localListeners s)\<rparr>)
     else do {
       ret \<leftarrow> SubscribeMouseLocation E
         \<lparr>sm_networkId = lid, sm_remoteNetworkId = el_networkId ev\<rparr>;
       only_if (ret = RET_OK)
         (modify (\<lambda>s. s\<lparr>ml_listeners := al_put (el_networkId ev)
           (pid_insert (el_pid ev) (peer_listeners (el_networkId ev) (ml_listeners s)))
           (ml_listeners s)\<rparr>)) } }"

definition drop_listener :: "i32 \<Rightarrow> net_id \<Rightarrow> (net_id \<times> i32 list) list \<Rightarrow> (net_id \<times> i32 list) list" where
  "drop_listener p nid m =
     (case map_of m nid of
        None \<Rightarrow> m
      | Some ps \<Rightarrow>
          if pid_erase p ps = [] then al_erase nid m else al_put nid (pid_erase p ps) m)"

definition ml_RemoveListener :: "env \<Rightarrow> RegisterEventListenerEvent \<Rightarrow> ('s mouse_loc_scheme, unit) state" where
  "ml_RemoveListener E ev = do {
     lid \<leftarrow> refresh_local_id E;
     if el_networkId ev = lid
     then modify (\<lambda>s. s\<lparr>ml_localListeners := pid_erase (el_pid ev) (ml_localListeners s)\<rparr>)
     else do {
       UnSubscribeMouseLocation E \<lparr>sm_networkId = lid, sm_remoteNetworkId = el_networkId ev\<rparr>;
       modify (\<lambda>s. s\<lparr>ml_listeners := drop_listener (el_pid ev) (el_networkId ev) (ml_listeners s)\<rparr>) } }"

text \<open>The loop over \<open>listeners_\<close>: a peer that loses its last listener is unsubscribed from.\<close>

fun sweep_listeners :: "env \<Rightarrow> net_id \<Rightarrow> i32 \<Rightarrow> (net_id \<times> i32 list) list
    \<Rightarrow> ('s world_scheme, (net_id \<times> i32 list) list) state" where
  "sweep_listeners E lid p [] = pure []"
| "sweep_listeners E lid p ((nid, ps) # m) =
     (if pid_erase p ps = [] then do {
        UnSubscribeMouseLocation E \<lparr>sm_networkId = lid, sm_remoteNetworkId = nid\<rparr>;
        sweep_listeners E lid p m }
      else do {
        rest \<leftarrow> sweep_listeners E lid p m;
        pure ((nid, pid_erase p ps) # rest) })"

definition ml_OnClientDied :: "env \<Rightarrow> i32 \<Rightarrow> ('s mouse_loc_scheme, unit) state" where
  "ml_OnClientDied E p = do {
     lid \<leftarrow> refresh_local_id E;
     modify (\<lambda>s. s\<lparr>ml_localListeners := pid_erase p (ml_localListeners s)\<rparr>);
     m \<leftarrow> gets ml_listeners;
     m' \<leftarrow> sweep_listeners E lid p m;
     modify (\<lambda>s. s\<lparr>ml_listeners := m'\<rparr>) }"

definition ml_OnSoftbusSessionClosed :: "DDMBoardOnlineEvent \<Rightarrow> ('s mouse_loc_scheme, unit) state" where
  "ml_OnSoftbusSessionClosed ev = modify (\<lambda>s. s\<lparr>
     ml_remoteSubscribers := oset_erase id (bo_networkId ev) (ml_remoteSubscribers s),
     ml_listeners := al_erase (bo_networkId ev) (ml_listeners s)\<rparr>)"

definition OnSubscribeMouseLocation ::
    "env \<Rightarrow> DSoftbusSubscribeMouseLocation \<Rightarrow> ('s mouse_loc_scheme, unit) state" where
  "OnSubscribeMouseLocation E ev = do {
     modify (\<lambda>s. s\<lparr>ml_remoteSubscribers := oset_insert id (sm_networkId ev) (ml_remoteSubscribers s)\<rparr>);
     ReplySubscribeMouseLocation E \<lparr>rs_networkId = sm_remoteNetworkId ev,
       rs_remoteNetworkId = sm_networkId ev, rs_result = True\<rparr>;
     skip }"

definition OnUnSubscribeMouseLocation ::
    "env \<Rightarrow> DSoftbusSubscribeMouseLocation \<Rightarrow> ('s mouse_loc_scheme, unit) state" where
  "OnUnSubscribeMouseLocation E ev = do {
     refresh_local_id E;
     subs \<leftarrow> gets ml_remoteSubscribers;
     if \<not> oset_has id (sm_networkId ev) subs then skip
     else do {
       modify (\<lambda>s. s\<lparr>ml_remoteSubscribers := oset_erase id (sm_networkId ev) (ml_remoteSubscribers s)\<rparr>);
       ReplyUnSubscribeMouseLocation E \<lparr>rs_networkId = sm_remoteNetworkId ev,
         rs_remoteNetworkId = sm_networkId ev, rs_result = True\<rparr>;
       skip } }"

definition OnReplySubscribeMouseLocation ::
    "DSoftbusReplySubscribeMouseLocation \<Rightarrow> ('s mouse_loc_scheme, unit) state" where
  "OnReplySubscribeMouseLocation ev = skip"

definition OnReplyUnSubscribeMouseLocation ::
    "DSoftbusReplySubscribeMouseLocation \<Rightarrow> ('s mouse_loc_scheme, unit) state" where
  "OnReplyUnSubscribeMouseLocation ev = skip"

definition OnRemoteMouseLocation ::
    "env \<Rightarrow> DSoftbusSyncMouseLocation \<Rightarrow> ('s mouse_loc_scheme, unit) state" where
  "OnRemoteMouseLocation E ev = do {
     m \<leftarrow> gets ml_listeners;
     for_each (peer_listeners (ml_networkId ev) m)
       (ReportMouseLocationToListener E (ml_networkId ev) (mouseLocation ev)) }"

definition TransferToLocationInfo ::
    "env \<Rightarrow> pointer_event \<Rightarrow> LocationInfo \<Rightarrow> ('s world_scheme, LocationInfo) state" where
  "TransferToLocationInfo E p l =
     (case GetPointerItem p (p_pointerId p) of
        None \<Rightarrow> pure l
      | Some item \<Rightarrow> do {
          d \<leftarrow> ask (DefaultDisplay E);
          case d of
            None \<Rightarrow> pure l
          | Some d \<Rightarrow> pure \<lparr>li_displayX = it_displayX item, li_displayY = it_displayY item,
              li_displayWidth = d_width d, li_displayHeight = d_height d\<rparr> })"

definition SyncLocationToRemote :: "env \<Rightarrow> net_id \<Rightarrow> LocationInfo \<Rightarrow> ('s mouse_loc_scheme, unit) state" where
  "SyncLocationToRemote E nid l = do {
     lid \<leftarrow> gets ml_localNetworkId;
     SyncMouseLocation E \<lparr>ml_networkId = lid, ml_remoteNetworkId = nid, mouseLocation = l\<rparr>;
     skip }"

definition ml_ProcessData :: "env \<Rightarrow> pointer_event \<Rightarrow> ('s mouse_loc_scheme, unit) state" where
  "ml_ProcessData E p =
     (if p_sourceType p \<noteq> SOURCE_TYPE_MOUSE E then skip
      else do {
        l \<leftarrow> TransferToLocationInfo E p
          \<lparr>li_displayX = - 1, li_displayY = - 1, li_displayWidth = - 1, li_displayHeight = - 1\<rparr>;
        lid \<leftarrow> gets ml_localNetworkId;
        locals \<leftarrow> gets ml_localListeners;
        for_each locals (ReportMouseLocationToListener E lid l);
        subs \<leftarrow> gets ml_remoteSubscribers;
        for_each subs (\<lambda>nid. SyncLocationToRemote E nid l) })"

section \<open>Frames\<close>

lemma ml_post_frame [frame]:
  assumes "quiet f"
  shows "unchanged f (ml_SendPacket E nid pkt)" "unchanged f (ml_post E nid pkt)"
    "unchanged f (ReplySubscribeMouseLocation E rs)" "unchanged f (ReplyUnSubscribeMouseLocation E rs)"
    "unchanged f (SubscribeMouseLocation E sm)" "unchanged f (UnSubscribeMouseLocation E sm)"
    "unchanged f (SyncMouseLocation E sl)" "unchanged f (ReportMouseLocationToListener E nid l p)"
    "unchanged f (TransferToLocationInfo E pe l)"
  unfolding ReplySubscribeMouseLocation_def ReplyUnSubscribeMouseLocation_def
    SubscribeMouseLocation_def UnSubscribeMouseLocation_def SyncMouseLocation_def
    ReportMouseLocationToListener_def TransferToLocationInfo_def ml_post_def ml_SendPacket_def
  by (intro frame assms)+

lemma ml_quiet_frame [frame]:
  assumes "quiet f"
  shows "unchanged f (OnReplySubscribeMouseLocation rs)" "unchanged f (OnReplyUnSubscribeMouseLocation rs)"
    "unchanged f (OnRemoteMouseLocation E ev)" "unchanged f (SyncLocationToRemote E nid l)"
    "unchanged f (ml_ProcessData E p)"
  unfolding OnReplySubscribeMouseLocation_def OnReplyUnSubscribeMouseLocation_def
    OnRemoteMouseLocation_def SyncLocationToRemote_def ml_ProcessData_def
  by (intro frame assms)+

lemma sweep_frame [frame]: "quiet f \<Longrightarrow> unchanged f (sweep_listeners E lid p m)"
proof (induction E lid p m rule: sweep_listeners.induct)
  case (2 E lid p nid ps m)
  then show ?case
    by (auto intro!: frame)
qed (auto intro!: frame)

definition ml_blind :: "('s mouse_loc_scheme \<Rightarrow> 'v) \<Rightarrow> bool" where
  "ml_blind f \<longleftrightarrow> ha_blind f \<and> (\<forall>s x. f (s\<lparr>ml_localNetworkId := x\<rparr>) = f s)
     \<and> (\<forall>s x. f (s\<lparr>ml_localListeners := x\<rparr>) = f s) \<and> (\<forall>s x. f (s\<lparr>ml_remoteSubscribers := x\<rparr>) = f s)
     \<and> (\<forall>s x. f (s\<lparr>ml_listeners := x\<rparr>) = f s)"

lemma ml_blind_ha: "ml_blind f \<Longrightarrow> ha_blind f"
  by (simp add: ml_blind_def)

lemmas ml_blind_quiet = ha_blind_quiet [OF ml_blind_ha]

lemma ml_frame [frame]:
  assumes "ml_blind f"
  shows "unchanged f (refresh_local_id E)" "unchanged f (ml_AddListener E el)"
    "unchanged f (ml_RemoveListener E el)" "unchanged f (ml_OnClientDied E p)"
    "unchanged f (ml_OnSoftbusSessionClosed bo)" "unchanged f (OnSubscribeMouseLocation E sm)"
    "unchanged f (OnUnSubscribeMouseLocation E sm)"
  unfolding refresh_local_id_def ml_AddListener_def ml_RemoveListener_def ml_OnClientDied_def
    ml_OnSoftbusSessionClosed_def OnSubscribeMouseLocation_def OnUnSubscribeMouseLocation_def
  using assms by (intro frame ml_blind_quiet; simp add: ml_blind_def)+

section \<open>Well-formed tables\<close>

text \<open>
  Local listeners and subscribers are ordered sets; a peer in the table has at least one
  listener, and occurs once.
\<close>

definition ml_table_ok :: "(net_id \<times> i32 list) list \<Rightarrow> bool" where
  "ml_table_ok m \<longleftrightarrow> distinct (map fst m)
     \<and> list_all (\<lambda>(nid, ps). ps \<noteq> [] \<and> oset_ok sint ps) m"

definition ml_ok :: "'s mouse_loc_scheme \<Rightarrow> bool" where
  "ml_ok s \<longleftrightarrow> oset_ok sint (ml_localListeners s) \<and> oset_ok id (ml_remoteSubscribers s)
     \<and> ml_table_ok (ml_listeners s)"

lemma quiet_ml [simp]:
  "quiet ml_ok" "quiet ml_listeners" "quiet ml_localListeners" "quiet ml_remoteSubscribers"
  "quiet ml_localNetworkId"
  by (simp_all add: quiet_def ml_ok_def)

lemma pid_insert_not_Nil [simp]: "pid_insert p ps \<noteq> []"
  by (cases ps) auto

lemma set_pid_insert [simp]: "set (pid_insert p ps) = insert p (set ps)"
  using keys_oset_insert [of sint p ps] by (simp add: sint_image_insert)

lemma set_pid_erase [simp]: "set (pid_erase p ps) = set ps - {p}"
  using keys_oset_erase [of sint "sint p" ps] by (simp add: sint_image_remove)

lemma table_ok_erase: "ml_table_ok m \<Longrightarrow> ml_table_ok (al_erase nid m)"
  by (auto simp: ml_table_ok_def list_all_iff set_al_erase)

lemma table_ok_put:
  "ml_table_ok m \<Longrightarrow> ps \<noteq> [] \<Longrightarrow> oset_ok sint ps \<Longrightarrow> ml_table_ok (al_put nid ps m)"
  using set_al_put_subset [of nid ps m]
  by (auto simp: ml_table_ok_def list_all_iff)

lemma table_ok_lookup: "ml_table_ok m \<Longrightarrow> map_of m nid = Some ps \<Longrightarrow> ps \<noteq> [] \<and> oset_ok sint ps"
  by (drule map_of_SomeD) (auto simp: ml_table_ok_def list_all_iff)

lemma table_ok_drop: "ml_table_ok m \<Longrightarrow> ml_table_ok (drop_listener p nid m)"
  by (auto simp: drop_listener_def dest: table_ok_lookup split: option.splits
      intro!: table_ok_erase table_ok_put)

lemma table_ok_add:
  "ml_table_ok m \<Longrightarrow> ml_table_ok (al_put nid (pid_insert p (peer_listeners nid m)) m)"
  by (auto simp: peer_listeners_def dest: table_ok_lookup split: option.splits
      intro!: table_ok_put)

text \<open>What the loop over the table returns.\<close>

definition swept :: "i32 \<Rightarrow> (net_id \<times> i32 list) list \<Rightarrow> (net_id \<times> i32 list) list" where
  "swept p m = filter (\<lambda>(nid, ps). ps \<noteq> []) (map (\<lambda>(nid, ps). (nid, pid_erase p ps)) m)"

lemma sweep_result: "result_of (sweep_listeners E lid p m) s = swept p m"
  by (induction E lid p m arbitrary: s rule: sweep_listeners.induct) (auto simp: swept_def)

lemma keys_swept: "fst ` set (swept p m) \<subseteq> fst ` set m"
  by (force simp: swept_def)

lemma swept_Cons: "swept p ((nid, ps) # m)
     = (if pid_erase p ps = [] then swept p m else (nid, pid_erase p ps) # swept p m)"
  by (simp add: swept_def)

lemma table_ok_swept: "ml_table_ok m \<Longrightarrow> ml_table_ok (swept p m)"
proof (induction m)
  case (Cons x m)
  then show ?case
    using keys_swept [of p m] by (cases x) (auto simp: ml_table_ok_def swept_Cons)
qed (simp add: swept_def)

lemma swept_lookup:
  "distinct (map fst m) \<Longrightarrow>
     map_of (swept p m) nid = (case map_of m nid of None \<Rightarrow> None
       | Some ps \<Rightarrow> if pid_erase p ps = [] then None else Some (pid_erase p ps))"
proof (induction m)
  case (Cons x m)
  have "map_of (swept p m) (fst x) = None" if "fst x \<notin> fst ` set m"
    using that keys_swept [of p m] by (auto simp: map_of_eq_None_iff)
  with Cons show ?case
    by (cases x) (auto simp: swept_Cons split: option.splits)
qed (simp add: swept_def)

lemma quiet_exec:
  assumes "quiet f"
  shows "f (exec (SubscribeMouseLocation E sm) s) = f s" "f (exec (UnSubscribeMouseLocation E sm) s) = f s"
    "f (exec (ReplySubscribeMouseLocation E rs) s) = f s"
    "f (exec (ReplyUnSubscribeMouseLocation E rs) s) = f s"
    "f (exec (sweep_listeners E lid p m) s) = f s"
  by (intro unchangedD frame assms)+

lemmas ml_exec_simps = quiet_exec [OF quiet_ml(1)] quiet_exec [OF quiet_ml(2)]
  quiet_exec [OF quiet_ml(3)] quiet_exec [OF quiet_ml(4)]

text \<open>
  No operation on mouse locations breaks the tables: sets stay ordered and free of
  duplicates, and no peer stays in the table without a local listener.
\<close>

lemma mouse_tables_kept:
  "keeps_inv ml_ok (ml_AddListener E el)" "keeps_inv ml_ok (ml_RemoveListener E el)"
  "keeps_inv ml_ok (ml_OnClientDied E p)" "keeps_inv ml_ok (ml_OnSoftbusSessionClosed bo)"
  "keeps_inv ml_ok (OnSubscribeMouseLocation E sm)" "keeps_inv ml_ok (OnUnSubscribeMouseLocation E sm)"
  "keeps_inv ml_ok (OnRemoteMouseLocation E sl)" "keeps_inv ml_ok (ml_ProcessData E pe)"
proof -
  show "keeps_inv ml_ok (ml_AddListener E el)"
    by (rule keeps_invI) (simp add: ml_AddListener_def refresh_local_id_def ml_exec_simps ml_ok_def
        table_ok_add oset_ok_insert Let_def)
  show "keeps_inv ml_ok (ml_RemoveListener E el)"
    by (rule keeps_invI) (simp add: ml_RemoveListener_def refresh_local_id_def ml_exec_simps ml_ok_def
        table_ok_drop oset_ok_erase Let_def)
  show "keeps_inv ml_ok (ml_OnClientDied E p)"
    by (rule keeps_invI) (simp add: ml_OnClientDied_def refresh_local_id_def ml_exec_simps ml_ok_def
        sweep_result table_ok_swept oset_ok_erase)
  show "keeps_inv ml_ok (ml_OnSoftbusSessionClosed bo)"
    by (rule keeps_invI) (simp add: ml_OnSoftbusSessionClosed_def ml_ok_def table_ok_erase
        oset_ok_erase [of id, simplified] oset_ok_erase)
  show "keeps_inv ml_ok (OnSubscribeMouseLocation E sm)"
    by (rule keeps_invI) (simp add: OnSubscribeMouseLocation_def ml_exec_simps ml_ok_def
        oset_ok_insert [of id, simplified])
  show "keeps_inv ml_ok (OnUnSubscribeMouseLocation E sm)"
    by (rule keeps_invI) (simp add: OnUnSubscribeMouseLocation_def refresh_local_id_def ml_exec_simps
        ml_ok_def oset_ok_erase [of id, simplified])
  show "keeps_inv ml_ok (OnRemoteMouseLocation E sl)" "keeps_inv ml_ok (ml_ProcessData E pe)"
    by (intro keeps_inv_unchanged frame quiet_ml)+
qed

section \<open>Death of a client\<close>

lemma ml_post_trace:
  assumes "\<forall>t n. HasSession E t n" "\<not> ChkRWError pkt"
  shows "trace (exec (ml_post E nid pkt) s) = trace s @ [SoftbusSend nid pkt]"
  using assms by (simp add: ml_post_def ml_SendPacket_def SoftbusSendPacket_def)

lemma subscribe_packet_error [simp]:
  "ChkRWError (subscribe_packet mid ev)
     = (2046 < length (sm_networkId ev) + length (sm_remoteNetworkId ev))"
  by (auto simp: subscribe_packet_def)

lemma sweep_trace:
  assumes "\<forall>t n. HasSession E t n" "list_all (\<lambda>(nid, _). length lid + length nid \<le> 2046) m"
  shows "trace (exec (sweep_listeners E lid p m) s) = trace s
    @ map (\<lambda>(nid, _). SoftbusSend nid (subscribe_packet DSOFTBUS_UNSUBSCRIBE_MOUSE_LOCATION
          \<lparr>sm_networkId = lid, sm_remoteNetworkId = nid\<rparr>))
        (filter (\<lambda>(_, ps). pid_erase p ps = []) m)"
  using assms(2)
proof (induction m arbitrary: s)
  case (Cons x m)
  then show ?case
    using assms(1) by (cases x) (simp add: UnSubscribeMouseLocation_def ml_post_trace)
qed simp

text \<open>A quiet device: nobody but the given parties follows a pointer.\<close>

definition sample_mouse :: "i32 list \<Rightarrow> (net_id \<times> i32 list) list \<Rightarrow> net_id list \<Rightarrow> mouse_loc" where
  "sample_mouse locals peers subs = \<lparr>tick = 0, trace = [], chan = OpenChannel, em_listeners = [],
     em_calls = (\<lambda>_. None), ha_width = 1000, ha_height = 500, ha_displayX = 0, ha_displayY = 0,
     ha_deltaX = 0, ha_deltaY = 0, ha_isEdge = False, ha_type = AREA_NONE, ha_callbacks = [],
     ml_localNetworkId = [], ml_localListeners = locals, ml_remoteSubscribers = subs,
     ml_listeners = peers\<rparr>"

text \<open>
  When a client dies it is taken out of every table: it no longer follows the local
  pointer, a peer stays in the table exactly if somebody else still follows it, and each peer
  that only the dead client followed is sent one unsubscription.
\<close>

theorem client_death_unsubscribes:
  assumes "ml_ok s" "\<forall>t n. HasSession E t n" "length (LocalNetworkId E (tick s)) \<le> 1000"
    and "list_all (\<lambda>(nid, _). length nid \<le> 1000) (ml_listeners s)"
  shows "let s' = exec (ml_OnClientDied E p) s in
      p \<notin> set (ml_localListeners s')
    \<and> (\<forall>nid. map_of (ml_listeners s') nid = (case map_of (ml_listeners s) nid of
         None \<Rightarrow> None
       | Some ps \<Rightarrow> if set ps \<subseteq> {p} then None else Some (pid_erase p ps)))
    \<and> issued (ml_OnClientDied E p) s
        = map (\<lambda>(nid, _). SoftbusSend nid (subscribe_packet DSOFTBUS_UNSUBSCRIBE_MOUSE_LOCATION
              \<lparr>sm_networkId = LocalNetworkId E (tick s), sm_remoteNetworkId = nid\<rparr>))
            (filter (\<lambda>(_, ps). set ps \<subseteq> {p}) (ml_listeners s))"
proof -
  have nil: "pid_erase p ps = [] \<longleftrightarrow> set ps \<subseteq> {p}" for ps
    using set_pid_erase [of p ps] by (metis Diff_eq_empty_iff set_empty)
  have dist: "distinct (map fst (ml_listeners s))"
    using assms(1) by (simp add: ml_ok_def ml_table_ok_def)
  have short: "list_all (\<lambda>(nid, _). length (LocalNetworkId E (tick s)) + length nid \<le> 2046) (ml_listeners s)"
    using assms(3,4) by (force simp: list_all_iff)
  show ?thesis
    using swept_lookup [OF dist, of p, unfolded nil]
    by (simp add: ml_OnClientDied_def refresh_local_id_def ml_exec_simps sweep_result issued_def
        Let_def sweep_trace [OF assms(2) short] nil)
qed

theorem client_death_unsubscribes_witness:
  "length (issued (ml_OnClientDied ideal_env 7)
     (sample_mouse [7] [(''a'', [7]), (''b'', [7, 9])] [])) = 1"
  using client_death_unsubscribes [of "sample_mouse [7] [(''a'', [7]), (''b'', [7, 9])] []"
      ideal_env 7]
  by (simp add: ideal_env_def sample_mouse_def ml_ok_def ml_table_ok_def Let_def)

section \<open>A subscriber that is never told\<close>

lemma transfer_keeps:
  "trace (exec (TransferToLocationInfo E ev l) s) = trace s"
  "ml_localNetworkId (exec (TransferToLocationInfo E ev l) s) = ml_localNetworkId s"
  "ml_localListeners (exec (TransferToLocationInfo E ev l) s) = ml_localListeners s"
  "ml_remoteSubscribers (exec (TransferToLocationInfo E ev l) s) = ml_remoteSubscribers s"
  by (auto simp: TransferToLocationInfo_def split: option.splits)

text \<open>
  A device whose only interested party is a subscribed peer answers the subscription with
  success, but its location messages name the empty string as their device, because the local
  id is only looked up when a local client registers; and a receiver, which looks the device up
  among the peers it follows, reports such a message to nobody.
\<close>

theorem subscriber_never_told:
  assumes "ml_localNetworkId s = []" "ml_localListeners s = []" "ml_remoteSubscribers s = []"
    and "\<forall>t n. HasSession E t n" "p_sourceType ev = SOURCE_TYPE_MOUSE E"
    and "length (sm_networkId sub) \<le> 1000" "length (sm_remoteNetworkId sub) \<le> 1000"
  shows "(\<exists>l. issued (do { OnSubscribeMouseLocation E sub; ml_ProcessData E ev }) s =
        [SoftbusSend (sm_networkId sub) (reply_packet DSOFTBUS_REPLY_SUBSCRIBE_MOUSE_LOCATION
           \<lparr>rs_networkId = sm_remoteNetworkId sub, rs_remoteNetworkId = sm_networkId sub,
            rs_result = True\<rparr>),
         SoftbusSend (sm_networkId sub) (encode DSOFTBUS_MOUSE_LOCATION
           ([str_bytes [], str_bytes (sm_networkId sub)] @ location_fields l))])
    \<and> (\<forall>r l. ml_ok r \<longrightarrow> map_of (ml_listeners r) [] = None \<longrightarrow>
        issued (OnRemoteMouseLocation E
          \<lparr>ml_networkId = [], ml_remoteNetworkId = sm_networkId sub, mouseLocation = l\<rparr>) r = [])"
proof -
  let ?rs = "\<lparr>rs_networkId = sm_remoteNetworkId sub, rs_remoteNetworkId = sm_networkId sub,
    rs_result = True\<rparr>"
  let ?u = "exec (OnSubscribeMouseLocation E sub) s"
  have u: "ml_localNetworkId ?u = []" "ml_localListeners ?u = []"
    "ml_remoteSubscribers ?u = [sm_networkId sub]"
    using assms(1-3) by (simp_all add: OnSubscribeMouseLocation_def quiet_exec(3) [OF quiet_ml(3)]
        quiet_exec(3) [OF quiet_ml(4)] quiet_exec(3) [OF quiet_ml(5)])
  have tr: "trace ?u = trace s @ [SoftbusSend (sm_networkId sub)
      (reply_packet DSOFTBUS_REPLY_SUBSCRIBE_MOUSE_LOCATION ?rs)]"
    using assms(4,6,7) by (simp add: OnSubscribeMouseLocation_def ReplySubscribeMouseLocation_def
        ml_post_trace reply_packet_def)
  let ?T = "TransferToLocationInfo E ev
    \<lparr>li_displayX = - 1, li_displayY = - 1, li_displayWidth = - 1, li_displayHeight = - 1\<rparr>"
  let ?l = "result_of ?T ?u" and ?v = "exec ?T ?u"
  have v: "trace ?v = trace ?u" "ml_localNetworkId ?v = []"
    "exec (ml_ProcessData E ev) ?u = exec (SyncLocationToRemote E (sm_networkId sub) ?l) ?v"
    using u assms(5) by (simp_all add: ml_ProcessData_def transfer_keeps)
  then have "trace (exec (ml_ProcessData E ev) ?u) = trace ?u @ [SoftbusSend (sm_networkId sub)
      (encode DSOFTBUS_MOUSE_LOCATION ([str_bytes [], str_bytes (sm_networkId sub)] @ location_fields ?l))]"
    using assms(4,6) by (simp add: SyncLocationToRemote_def SyncMouseLocation_def ml_post_trace
        location_fields_def)
  with tr show ?thesis
    by (auto simp: issued_def OnRemoteMouseLocation_def peer_listeners_def)
qed

theorem subscriber_never_told_witness:
  "length (issued (do { OnSubscribeMouseLocation ideal_env
       \<lparr>sm_networkId = ''a'', sm_remoteNetworkId = ''local''\<rparr>;
     ml_ProcessData ideal_env (sample_pointer 999 250) }) (sample_mouse [] [] [])) = 2"
  using subscriber_never_told [of "sample_mouse [] [] []" ideal_env "sample_pointer 999 250"
      "\<lparr>sm_networkId = ''a'', sm_remoteNetworkId = ''local''\<rparr>"]
  by (auto simp: ideal_env_def sample_mouse_def sample_pointer_def)

end
