(* ===== verification/Mouse_Subscriptions.thy ===== *)
theory Mouse_Subscriptions
  imports Mouse_Location
begin

text \<open>
  The messages by which MouseLocation (src/intention/cooperate/plugin/src/mouse_location.cpp)
  subscribes at peers, against its table of local clients: what the peers have been told along
  a run, that no peer is left reporting to nobody, and that one is told to stop too early.
\<close>

section \<open>What peers have been told\<close>

text \<open>The peers at which this device is subscribed, as its messages tell them.\<close>

fun told_peer :: "cmd \<Rightarrow> net_id set \<Rightarrow> net_id set" where
  "told_peer (SoftbusSend nid pkt) S =
     (if msgId pkt = DSOFTBUS_SUBSCRIBE_MOUSE_LOCATION then insert nid S
      else if msgId pkt = DSOFTBUS_UNSUBSCRIBE_MOUSE_LOCATION then S - {nid}
      else S)"
| "told_peer _ S = S"

text \<open>What clients, peers, the soft bus and the pointer do.\<close>

datatype ml_event =
    ClientFollows RegisterEventListenerEvent
  | ClientLeaves RegisterEventListenerEvent
  | FollowerDies i32
  | SessionCloses DDMBoardOnlineEvent
  | PeerSubscribes DSoftbusSubscribeMouseLocation
  | PeerUnsubscribes DSoftbusSubscribeMouseLocation
  | PeerReports DSoftbusSyncMouseLocation
  | PointerMoves pointer_event

fun ml_step :: "env \<Rightarrow> ml_event \<Rightarrow> ('s mouse_loc_scheme, unit) state" where
  "ml_step E (ClientFollows el) = ml_AddListener E el"
| "ml_step E (ClientLeaves el) = ml_RemoveListener E el"
| "ml_step E (FollowerDies p) = ml_OnClientDied E p"
| "ml_step E (SessionCloses bo) = ml_OnSoftbusSessionClosed bo"
| "ml_step E (PeerSubscribes sm) = OnSubscribeMouseLocation E sm"
| "ml_step E (PeerUnsubscribes sm) = OnUnSubscribeMouseLocation E sm"
| "ml_step E (PeerReports sl) = OnRemoteMouseLocation E sl"
| "ml_step E (PointerMoves pe) = ml_ProcessData E pe"

text \<open>A peer forgets its subscribers with their session, as this device does.\<close>

definition subscribed_after :: "env \<Rightarrow> ml_event \<Rightarrow> 's mouse_loc_scheme \<Rightarrow> net_id set \<Rightarrow> net_id set" where
  "subscribed_after E e s S = fold told_peer (issued (ml_step E e) s) S
     - (case e of SessionCloses bo \<Rightarrow> {bo_networkId bo} | _ \<Rightarrow> {})"

primrec ml_run :: "env \<Rightarrow> ml_event list \<Rightarrow> 's mouse_loc_scheme \<times> net_id set \<Rightarrow> 's mouse_loc_scheme \<times> net_id set" where
  "ml_run E [] x = x"
| "ml_run E (e # es) x = ml_run E es (exec (ml_step E e) (fst x), subscribed_after E e (fst x) (snd x))"

lemma ml_run_append [simp]: "ml_run E (es @ fs) x = ml_run E fs (ml_run E es x)"
  by (induction es arbitrary: x) simp_all

text \<open>Sessions that exist and send, and an id of the device that stays.\<close>

definition links_work :: "net_id \<Rightarrow> env \<Rightarrow> bool" where
  "links_work lid E \<longleftrightarrow> (\<forall>t n. HasSession E t n) \<and> (\<forall>t n pkt. SendPacket_ret E t n pkt = RET_OK)
     \<and> (\<forall>t. LocalNetworkId E t = lid)"

section \<open>Silent operations\<close>

definition silent_since :: "cmd list \<Rightarrow> 's world_scheme \<Rightarrow> bool" where
  "silent_since tr s \<longleftrightarrow> (\<exists>cs. trace s = tr @ cs \<and> (\<forall>S. fold told_peer cs S = S))"

lemma silent_issued:
  assumes "keeps_inv (silent_since (trace s)) m"
  shows "fold told_peer (issued m s) S = S"
proof -
  have "silent_since (trace s) s"
    by (auto simp: silent_since_def intro: exI [of _ "[]"])
  then have "silent_since (trace s) (exec m s)"
    using assms by (rule keeps_invD [rotated])
  then show ?thesis
    by (auto simp: silent_since_def issued_def)
qed

lemma silent_emit: "(\<And>S. told_peer c S = S) \<Longrightarrow> keeps_inv (silent_since tr) (emit c)"
  by (rule keeps_invI) (auto simp: silent_since_def)

lemma silent_ask: "keeps_inv (silent_since tr) (ask q)"
  by (rule keeps_invI) (simp add: silent_since_def)

lemma silent_post:
  assumes "msgId pkt \<noteq> DSOFTBUS_SUBSCRIBE_MOUSE_LOCATION" "msgId pkt \<noteq> DSOFTBUS_UNSUBSCRIBE_MOUSE_LOCATION"
  shows "keeps_inv (silent_since tr) (ml_post E nid pkt)"
  unfolding ml_post_def ml_SendPacket_def SoftbusSendPacket_def
  using assms by (intro keeps silent_ask silent_emit) simp

lemma silent_report: "keeps_inv (silent_since tr) (ReportMouseLocationToListener E nid l p)"
  unfolding ReportMouseLocationToListener_def NotifySession_def by (intro keeps silent_ask silent_emit) simp

lemma silent_ops:
  "keeps_inv (silent_since tr) (OnSubscribeMouseLocation E sm)"
  "keeps_inv (silent_since tr) (OnUnSubscribeMouseLocation E sm)"
  "keeps_inv (silent_since tr) (OnRemoteMouseLocation E sl)"
  "keeps_inv (silent_since tr) (ml_ProcessData E pe)"
  "keeps_inv (silent_since tr) (ml_OnSoftbusSessionClosed bo)"
  unfolding OnSubscribeMouseLocation_def OnUnSubscribeMouseLocation_def OnRemoteMouseLocation_def ml_ProcessData_def
    ml_OnSoftbusSessionClosed_def ReplySubscribeMouseLocation_def ReplyUnSubscribeMouseLocation_def
    TransferToLocationInfo_def SyncLocationToRemote_def SyncMouseLocation_def refresh_local_id_def
  by (intro keeps silent_ask silent_post silent_report; simp add: silent_since_def reply_packet_def encode_def)+

section \<open>Operations that speak to peers\<close>

definition fits :: "net_id \<Rightarrow> net_id \<Rightarrow> bool" where
  "fits lid nid \<longleftrightarrow> length lid + length nid \<le> 2046"

lemma subscribe_packet_id [simp]: "msgId (subscribe_packet mid ev) = mid"
  by (simp add: subscribe_packet_def encode_def)

lemma post_works:
  assumes "links_work lid E"
  shows "result_of (ml_post E nid pkt) s = (if ChkRWError pkt then RET_ERR else RET_OK)"
    "trace (exec (ml_post E nid pkt) s) = trace s @ (if ChkRWError pkt then [] else [SoftbusSend nid pkt])"
  using assms by (simp_all add: links_work_def ml_post_def ml_SendPacket_def SoftbusSendPacket_def)

lemma follows:
  assumes "links_work lid E"
  shows "ml_listeners (exec (ml_AddListener E el) s) =
      (if el_networkId el \<noteq> lid \<and> fits lid (el_networkId el)
       then al_put (el_networkId el) (pid_insert (el_pid el) (peer_listeners (el_networkId el) (ml_listeners s))) (ml_listeners s)
       else ml_listeners s)"
    "fold told_peer (issued (ml_AddListener E el) s) S =
      (if el_networkId el \<noteq> lid \<and> fits lid (el_networkId el) then insert (el_networkId el) S else S)"
  using assms
  by (auto simp: ml_AddListener_def refresh_local_id_def links_work_def SubscribeMouseLocation_def post_works [OF assms]
    fits_def issued_def unchangedD [OF ml_post_frame(2) [OF quiet_ml(2)]])

lemma leaves:
  assumes "links_work lid E"
  shows "ml_listeners (exec (ml_RemoveListener E el) s) =
      (if el_networkId el \<noteq> lid then drop_listener (el_pid el) (el_networkId el) (ml_listeners s) else ml_listeners s)"
    "fold told_peer (issued (ml_RemoveListener E el) s) S =
      (if el_networkId el \<noteq> lid \<and> fits lid (el_networkId el) then S - {el_networkId el} else S)"
  using assms
  by (auto simp: ml_RemoveListener_def refresh_local_id_def links_work_def UnSubscribeMouseLocation_def post_works [OF assms]
    fits_def issued_def unchangedD [OF ml_post_frame(2) [OF quiet_ml(2)]])

lemma fold_told_sweep:
  "fold told_peer (map (\<lambda>(nid, _). SoftbusSend nid (subscribe_packet DSOFTBUS_UNSUBSCRIBE_MOUSE_LOCATION
      \<lparr>sm_networkId = lid, sm_remoteNetworkId = nid\<rparr>)) m) S = S - fst ` set m"
  by (induction m arbitrary: S) auto

lemma dies:
  assumes "links_work lid E" "list_all (\<lambda>(nid, _). fits lid nid) (ml_listeners s)"
  shows "ml_listeners (exec (ml_OnClientDied E p) s) = swept p (ml_listeners s)"
    "fold told_peer (issued (ml_OnClientDied E p) s) S =
       S - fst ` set (filter (\<lambda>(_, ps). pid_erase p ps = []) (ml_listeners s))"
proof -
  have id: "LocalNetworkId E t = lid" and session: "\<forall>t n. HasSession E t n" for t
    using assms(1) by (simp_all add: links_work_def)
  have short: "list_all (\<lambda>(nid, _). length lid + length nid \<le> 2046) (ml_listeners s)"
    using assms(2) by (simp add: fits_def)
  show "ml_listeners (exec (ml_OnClientDied E p) s) = swept p (ml_listeners s)"
    by (simp add: ml_OnClientDied_def refresh_local_id_def sweep_result ml_exec_simps)
  have "issued (ml_OnClientDied E p) s = map (\<lambda>(nid, _). SoftbusSend nid (subscribe_packet DSOFTBUS_UNSUBSCRIBE_MOUSE_LOCATION
      \<lparr>sm_networkId = lid, sm_remoteNetworkId = nid\<rparr>)) (filter (\<lambda>(_, ps). pid_erase p ps = []) (ml_listeners s))"
    by (simp add: ml_OnClientDied_def refresh_local_id_def issued_def id sweep_trace [OF session short])
  then show "fold told_peer (issued (ml_OnClientDied E p) s) S =
       S - fst ` set (filter (\<lambda>(_, ps). pid_erase p ps = []) (ml_listeners s))"
    by (simp add: fold_told_sweep)
qed

section \<open>No peer reports to nobody\<close>

text \<open>The peers subscribed at have local clients, and the ids in the table fit into messages.\<close>

definition follow_ok :: "net_id \<Rightarrow> 's mouse_loc_scheme \<times> net_id set \<Rightarrow> bool" where
  "follow_ok lid x \<longleftrightarrow> ml_ok (fst x) \<and> snd x \<subseteq> fst ` set (ml_listeners (fst x))
     \<and> (\<forall>nid \<in> fst ` set (ml_listeners (fst x)). fits lid nid)"

lemma keys_drop: "fst ` set (drop_listener p nid m) \<subseteq> fst ` set m" "fst ` set m - {nid} \<subseteq> fst ` set (drop_listener p nid m)"
  by (auto simp: drop_listener_def keys_al_put keys_al_erase dest!: map_of_SomeD split: option.splits if_splits
    intro: rev_image_eqI)

lemma keys_sweep: "fst ` set m - fst ` set (filter (\<lambda>(_, ps). pid_erase p ps = []) m) \<subseteq> fst ` set (swept p m)"
  by (force simp: swept_def)

lemma step_tables: "ml_ok s \<Longrightarrow> ml_ok (exec (ml_step E e) s)"
  by (cases e) (auto intro: mouse_tables_kept [THEN keeps_invD])

lemma other_listeners:
  "ml_listeners (exec (OnSubscribeMouseLocation E sm) s) = ml_listeners s"
  "ml_listeners (exec (OnUnSubscribeMouseLocation E sm) s) = ml_listeners s"
  "ml_listeners (exec (OnRemoteMouseLocation E sl) s) = ml_listeners s"
  "ml_listeners (exec (ml_ProcessData E pe) s) = ml_listeners s"
proof -
  show "ml_listeners (exec (OnSubscribeMouseLocation E sm) s) = ml_listeners s"
    "ml_listeners (exec (OnUnSubscribeMouseLocation E sm) s) = ml_listeners s"
    by (simp_all add: OnSubscribeMouseLocation_def OnUnSubscribeMouseLocation_def refresh_local_id_def ml_exec_simps)
  show "ml_listeners (exec (OnRemoteMouseLocation E sl) s) = ml_listeners s"
    "ml_listeners (exec (ml_ProcessData E pe) s) = ml_listeners s"
    by (rule unchangedD [OF ml_quiet_frame(3) [OF quiet_ml(2)]], rule unchangedD [OF ml_quiet_frame(5) [OF quiet_ml(2)]])
qed

lemma step_follow_ok:
  assumes "links_work lid E" "follow_ok lid (s, S)"
  shows "follow_ok lid (exec (ml_step E e) s, subscribed_after E e s S)"
proof -
  have ok: "ml_ok s" and sub: "S \<subseteq> fst ` set (ml_listeners s)" and fit: "\<forall>nid \<in> fst ` set (ml_listeners s). fits lid nid"
    using assms(2) by (simp_all add: follow_ok_def)
  have "subscribed_after E e s S \<subseteq> fst ` set (ml_listeners (exec (ml_step E e) s))
      \<and> (\<forall>nid \<in> fst ` set (ml_listeners (exec (ml_step E e) s)). fits lid nid)"
  proof (cases e)
    case (ClientFollows el)
    let ?c = "el_networkId el \<noteq> lid \<and> fits lid (el_networkId el)"
    have keys: "fst ` set (ml_listeners (exec (ml_AddListener E el) s))
        = (if ?c then insert (el_networkId el) (fst ` set (ml_listeners s)) else fst ` set (ml_listeners s))"
      by (simp add: follows [OF assms(1)] keys_al_put)
    note step = ClientFollows subscribed_after_def ml_step.simps ml_event.case follows(2) [OF assms(1)] keys
    show ?thesis
    proof (cases ?c)
      case True
      show ?thesis
        unfolding step if_P [OF True] using True sub fit by blast
    next
      case False
      show ?thesis
        unfolding step if_not_P [OF False] using sub fit by blast
    qed
  next
    case (ClientLeaves el)
    let ?n = "el_networkId el" and ?L = "ml_listeners s"
    have less: "S - {?n} \<subseteq> fst ` set (drop_listener (el_pid el) ?n ?L)"
      using sub keys_drop(2) [of ?L ?n "el_pid el"] by blast
    moreover have "S \<subseteq> fst ` set (drop_listener (el_pid el) ?n ?L)" if "\<not> fits lid ?n"
      using that less sub fit by blast
    moreover have "\<forall>nid \<in> fst ` set (drop_listener (el_pid el) ?n ?L). fits lid nid"
      using fit keys_drop(1) [of "el_pid el" ?n ?L] by blast
    ultimately show ?thesis
      using sub fit by (simp add: ClientLeaves subscribed_after_def leaves [OF assms(1)] del: Diff_insert0)
  next
    case (FollowerDies p)
    have short: "list_all (\<lambda>(nid, _). fits lid nid) (ml_listeners s)"
      using fit by (auto simp: list_all_iff)
    have "S - fst ` set (filter (\<lambda>(_, ps). pid_erase p ps = []) (ml_listeners s)) \<subseteq> fst ` set (swept p (ml_listeners s))"
      using Diff_mono [OF sub subset_refl] keys_sweep by (rule subset_trans)
    moreover have "\<forall>nid \<in> fst ` set (swept p (ml_listeners s)). fits lid nid"
      using fit keys_swept by (meson subsetD)
    ultimately show ?thesis
      unfolding FollowerDies subscribed_after_def ml_step.simps ml_event.case dies [OF assms(1) short] Diff_empty
      by (rule conjI)
  next
    case (SessionCloses bo)
    then show ?thesis
      using sub fit silent_issued [OF silent_ops(5), of bo s S]
      by (auto simp: subscribed_after_def ml_OnSoftbusSessionClosed_def keys_al_erase)
  qed (use sub fit in \<open>simp_all add: subscribed_after_def other_listeners silent_issued [OF silent_ops(1)]
    silent_issued [OF silent_ops(2)] silent_issued [OF silent_ops(3)] silent_issued [OF silent_ops(4)]\<close>)
  then show ?thesis
    using step_tables [OF ok] by (simp add: follow_ok_def)
qed

lemma run_follow_ok: "links_work lid E \<Longrightarrow> follow_ok lid x \<Longrightarrow> follow_ok lid (ml_run E es x)"
proof (induction es arbitrary: x)
  case (Cons e es)
  then show ?case
    using step_follow_ok [of lid E "fst x" "snd x" e] by simp
qed simp

text \<open>
  C33. Along any run of clients following and leaving, deaths, closing sessions and messages of
  peers, from a device that follows nobody, with links that work and an id that stays: every peer
  that its messages have subscribed it at, and not unsubscribed since, has a local client in the
  table, so no peer is left reporting to nobody; the tables stay ordered and free of duplicates.
  And a client that then follows a peer whose id fits into a message subscribes at the peer and is
  in the table.
\<close>

theorem no_peer_reports_to_nobody:
  fixes E lid es and s :: "'s mouse_loc_scheme"
  defines "x \<equiv> ml_run E es (s, {})"
  assumes "links_work lid E" "ml_ok s" "ml_listeners s = []"
  shows "ml_ok (fst x) \<and> (\<forall>nid. nid \<in> snd x \<longrightarrow> peer_listeners nid (ml_listeners (fst x)) \<noteq> [])
    \<and> (el_networkId el \<noteq> lid \<and> length lid + length (el_networkId el) \<le> 2046 \<longrightarrow>
         el_networkId el \<in> snd (ml_run E [ClientFollows el] x)
         \<and> el_pid el \<in> set (peer_listeners (el_networkId el) (ml_listeners (fst (ml_run E [ClientFollows el] x)))))"
proof (intro conjI allI impI)
  have "follow_ok lid (s, {})"
    using assms(3,4) by (simp add: follow_ok_def)
  then have ok: "follow_ok lid x"
    unfolding x_def by (rule run_follow_ok [OF assms(2)])
  then show "ml_ok (fst x)"
    by (simp add: follow_ok_def)
  show "peer_listeners nid (ml_listeners (fst x)) \<noteq> []" if "nid \<in> snd x" for nid
  proof -
    have "nid \<in> fst ` set (ml_listeners (fst x))"
      using that ok by (auto simp: follow_ok_def)
    then obtain ps where ps: "map_of (ml_listeners (fst x)) nid = Some ps"
      by (metis (no_types) map_of_eq_None_iff not_Some_eq)
    then show ?thesis
      using ok table_ok_lookup [OF _ ps] by (simp add: follow_ok_def ml_ok_def peer_listeners_def)
  qed
  assume el: "el_networkId el \<noteq> lid \<and> length lid + length (el_networkId el) \<le> 2046"
  then show "el_networkId el \<in> snd (ml_run E [ClientFollows el] x)"
    by (simp add: subscribed_after_def follows [OF assms(2)] fits_def)
  show "el_pid el \<in> set (peer_listeners (el_networkId el) (ml_listeners (fst (ml_run E [ClientFollows el] x))))"
    using el by (simp add: follows [OF assms(2)] fits_def peer_listeners_def map_of_al_put)
qed

text \<open>Two clients follow a peer, the second dies: the peer is still subscribed at, for the first.\<close>

theorem no_peer_reports_to_nobody_witness:
  "4 \<in> set (peer_listeners ''a'' (ml_listeners (fst (ml_run ideal_env
       [ClientFollows \<lparr>el_pid = 9, el_networkId = ''a''\<rparr>, ClientFollows \<lparr>el_pid = 4, el_networkId = ''a''\<rparr>]
       (sample_mouse [] [] [], {})))))"
proof -
  have "links_work ''local'' ideal_env"
    by (simp add: links_work_def ideal_env_def)
  moreover have "ml_ok (sample_mouse [] [] [])" "ml_listeners (sample_mouse [] [] []) = []"
    by (simp_all add: sample_mouse_def ml_ok_def ml_table_ok_def)
  ultimately show ?thesis
    using no_peer_reports_to_nobody [of "''local''" ideal_env "sample_mouse [] [] []"
        "[ClientFollows \<lparr>el_pid = 9, el_networkId = ''a''\<rparr>]" "\<lparr>el_pid = 4, el_networkId = ''a''\<rparr>"]
    by simp
qed

section \<open>Told to stop too early\<close>

text \<open>
  Of several clients that follow a peer, the first to leave has the peer told to stop, although
  the others stay in the table: \<open>RemoveListener\<close> unsubscribes whoever is left. The others hear
  nothing any more.
\<close>

theorem leaving_silences_others:
  assumes "links_work lid E" "el_networkId el \<noteq> lid" "length lid + length (el_networkId el) \<le> 2046"
    and "map_of (ml_listeners s) (el_networkId el) = Some ps" "q \<in> set ps" "q \<noteq> el_pid el"
  shows "let x = ml_run E [ClientLeaves el] (s, S) in
     q \<in> set (peer_listeners (el_networkId el) (ml_listeners (fst x))) \<and> el_networkId el \<notin> snd x"
proof -
  have "pid_erase (el_pid el) ps \<noteq> []"
    using assms(5,6) set_pid_erase [of "el_pid el" ps] by (metis Diff_iff empty_iff empty_set singletonD)
  then show ?thesis
    using assms by (simp add: Let_def subscribed_after_def leaves [OF assms(1)] fits_def drop_listener_def peer_listeners_def
      map_of_al_put)
qed

theorem leaving_silences_others_witness:
  "''a'' \<notin> snd (ml_run ideal_env [ClientLeaves \<lparr>el_pid = 7, el_networkId = ''a''\<rparr>]
     (sample_mouse [] [(''a'', [7, 9])] [], {''a''}))"
  using leaving_silences_others [of "''local''" ideal_env "\<lparr>el_pid = 7, el_networkId = ''a''\<rparr>"
      "sample_mouse [] [(''a'', [7, 9])] []" "[7, 9]" 9 "{''a''}"]
  by (simp add: links_work_def ideal_env_def sample_mouse_def Let_def)

end
