(* ===== verification/Input_Dev_Mgr.thy ===== *)
theory Input_Dev_Mgr
  imports Mouse_Location
begin

text \<open>
  src/intention/cooperate/plugin/src/input_device_mgr.cpp: the input devices that each peer
  announced, and the virtual devices that stand for them while the peer controls this device.
\<close>

section \<open>State\<close>

text \<open>
  \<open>remoteDevices_\<close> and \<open>remote2VirtualIds_\<close> are iterated over or copied and are association
  lists; a set of devices is ordered by the signed device id.
\<close>

record input_mgr = mouse_loc +
  idm_enable :: bool
  remoteDevices :: "(net_id \<times> IDevice list) list"
  virtualInputDevicesAdded :: "(net_id \<times> i32 list) list"
  remote2VirtualIds :: "(i32 \<times> i32) list"

definition MAX_INPUT_DEV_PER_DEVICE :: nat where
  "MAX_INPUT_DEV_PER_DEVICE = 10"

definition VIRTUAL_TRACK_PAD_NAME :: string where
  "VIRTUAL_TRACK_PAD_NAME = ''VirtualTrackpad''"

abbreviation dev_key :: "IDevice \<Rightarrow> int" where
  "dev_key d \<equiv> sint (dev_id d)"

text \<open>\<open>operator[]\<close> of a map inserts an empty set where there is none.\<close>

definition at_key :: "net_id \<Rightarrow> (net_id \<times> 'v list) list \<Rightarrow> 'v list" where
  "at_key nid m = (case map_of m nid of None \<Rightarrow> [] | Some xs \<Rightarrow> xs)"

definition set_key :: "net_id \<Rightarrow> ('v list \<Rightarrow> 'v list) \<Rightarrow> (net_id \<times> 'v list) list \<Rightarrow> (net_id \<times> 'v list) list" where
  "set_key nid f m = al_put nid (f (at_key nid m)) m"

section \<open>Serialisation\<close>

definition device_fields :: "IDevice \<Rightarrow> char list list" where
  "device_fields d = [i32_bytes (dev_id d), str_bytes (devPath d), str_bytes (sysPath d),
     i32_bytes (dev_bus d), i32_bytes (dev_vendor d), i32_bytes (dev_product d),
     i32_bytes (dev_version d), str_bytes (dev_name d), str_bytes (dev_phys d),
     str_bytes (dev_uniq d), bool_bytes (isPointerDevice d), bool_bytes (dev_isKeyboard d),
     i32_bytes (keyboardType d)]"

definition SerializeDevice :: "IDevice \<Rightarrow> net_packet \<Rightarrow> i32 \<times> net_packet" where
  "SerializeDevice d pkt = (let pkt' = puts (device_fields d) pkt in
     (if ChkRWError pkt' then RET_ERR else RET_OK, pkt'))"

fun serialize_all :: "IDevice list \<Rightarrow> net_packet \<Rightarrow> net_packet option" where
  "serialize_all [] pkt = Some pkt"
| "serialize_all (d # ds) pkt =
     (case SerializeDevice d pkt of (ret, pkt') \<Rightarrow>
        if ret \<noteq> RET_OK then None else serialize_all ds pkt')"

text \<open>\<open>std::to_string\<close>.\<close>

fun digits :: "nat \<Rightarrow> string" where
  "digits n = (if n < 10 then [char_of (48 + n)] else digits (n div 10) @ [char_of (48 + n mod 10)])"

definition to_string :: "int \<Rightarrow> string" where
  "to_string n = (if n < 0 then CHR ''-'' # digits (nat (- n)) else digits (nat n))"

definition Transform :: "IDevice \<Rightarrow> input_device" where
  "Transform d = \<lparr>ind_id = dev_id d, ind_name = dev_name d @ to_string (sint (dev_id d)),
     ind_bus = dev_bus d, ind_version = dev_version d, ind_product = dev_product d,
     ind_vendor = dev_vendor d, ind_phys = dev_phys d, ind_uniq = dev_uniq d,
     ind_keyboard = (dev_isKeyboard d \<or> dev_name d = VIRTUAL_TRACK_PAD_NAME),
     ind_pointer = (isPointerDevice d \<or> dev_name d = VIRTUAL_TRACK_PAD_NAME)\<rparr>"

section \<open>Operations\<close>

definition idm_Enable :: "('s input_mgr_scheme, unit) state" where
  "idm_Enable = modify (\<lambda>s. if idm_enable s then s else s\<lparr>idm_enable := True\<rparr>)"

definition idm_Disable :: "('s input_mgr_scheme, unit) state" where
  "idm_Disable = modify (\<lambda>s. if idm_enable s then s\<lparr>idm_enable := False\<rparr> else s)"

definition UpdateVirtualDeviceIdMap :: "('s input_mgr_scheme, unit) state" where
  "UpdateVirtualDeviceIdMap = do {
     m \<leftarrow> gets remote2VirtualIds;
     Send (UPDATE_VIRTUAL_DEV_ID_MAP m);
     skip }"

definition GetRemoteDeviceById :: "net_id \<Rightarrow> i32 \<Rightarrow> 's input_mgr_scheme \<Rightarrow> IDevice option" where
  "GetRemoteDeviceById nid rid s =
     (case map_of (remoteDevices s) nid of
        None \<Rightarrow> None
      | Some ds \<Rightarrow> oset_find dev_key (sint rid) ds)"

definition AddVirtualInputDeviceId :: "env \<Rightarrow> net_id \<Rightarrow> i32 \<Rightarrow> ('s input_mgr_scheme, unit) state" where
  "AddVirtualInputDeviceId E nid rid = do {
     m \<leftarrow> gets remote2VirtualIds;
     if map_of m rid \<noteq> None then skip
     else do {
       d \<leftarrow> gets (GetRemoteDeviceById nid rid);
       case d of
         None \<Rightarrow> skip
       | Some dev \<Rightarrow> do {
           r \<leftarrow> ask (\<lambda>t. AddVirtual_ret E t (Transform dev));
           emit (AddVirtualDevice (Transform dev));
           if fst r \<noteq> RET_OK then skip
           else do {
             modify (\<lambda>s. s\<lparr>virtualInputDevicesAdded :=
               set_key nid (oset_insert sint (snd r)) (virtualInputDevicesAdded s)\<rparr>);
             modify (\<lambda>s. s\<lparr>remote2VirtualIds := al_put rid (snd r) (remote2VirtualIds s)\<rparr>);
             UpdateVirtualDeviceIdMap } } } }"

definition RemoveVirtualInputDeviceId :: "env \<Rightarrow> net_id \<Rightarrow> i32 \<Rightarrow> ('s input_mgr_scheme, unit) state" where
  "RemoveVirtualInputDeviceId E nid rid = do {
     m \<leftarrow> gets remote2VirtualIds;
     case map_of m rid of
       None \<Rightarrow> skip
     | Some vid \<Rightarrow> do {
         ret \<leftarrow> ask (\<lambda>t. RemoveVirtual_ret E t vid);
         emit (RemoveVirtualDevice vid);
         if ret \<noteq> RET_OK then skip
         else do {
           modify (\<lambda>s. s\<lparr>virtualInputDevicesAdded :=
             set_key nid (oset_erase sint (sint vid)) (virtualInputDevicesAdded s)\<rparr>);
           modify (\<lambda>s. s\<lparr>remote2VirtualIds := al_erase rid (remote2VirtualIds s)\<rparr>);
           UpdateVirtualDeviceIdMap } } }"

text \<open>The loops over \<open>remoteDevices_[networkId]\<close>, which create the entry if there is none.\<close>

definition devices_of :: "net_id \<Rightarrow> ('s input_mgr_scheme, IDevice list) state" where
  "devices_of nid = do {
     modify (\<lambda>s. s\<lparr>remoteDevices := set_key nid (\<lambda>ds. ds) (remoteDevices s)\<rparr>);
     gets (\<lambda>s. at_key nid (remoteDevices s)) }"

definition AddVirtualInputDevice :: "env \<Rightarrow> net_id \<Rightarrow> ('s input_mgr_scheme, unit) state" where
  "AddVirtualInputDevice E nid = do {
     ds \<leftarrow> devices_of nid;
     for_each ds (\<lambda>d. AddVirtualInputDeviceId E nid (dev_id d)) }"

definition RemoveVirtualInputDevice :: "env \<Rightarrow> net_id \<Rightarrow> ('s input_mgr_scheme, unit) state" where
  "RemoveVirtualInputDevice E nid = do {
     ds \<leftarrow> devices_of nid;
     for_each ds (\<lambda>d. RemoveVirtualInputDeviceId E nid (dev_id d)) }"

definition RemoveAllVirtualInputDevice :: "env \<Rightarrow> ('s input_mgr_scheme, unit) state" where
  "RemoveAllVirtualInputDevice E = do {
     m \<leftarrow> gets remoteDevices;
     for_each m (\<lambda>(nid, ds). for_each ds (\<lambda>d. RemoveVirtualInputDeviceId E nid (dev_id d))) }"

definition HandleRemoteHotPlug :: "env \<Rightarrow> DSoftbusHotPlugEvent \<Rightarrow> ('s input_mgr_scheme, unit) state" where
  "HandleRemoteHotPlug E ev = do {
     m \<leftarrow> gets remote2VirtualIds;
     let rid = dev_id (dh_device ev);
     if dh_type ev = HOTPLUG_UNPLUG \<and> map_of m rid = None then skip
     else do {
       only_if (dh_type ev = HOTPLUG_UNPLUG) (RemoveVirtualInputDeviceId E (dh_networkId ev) rid);
       only_if (dh_type ev = HOTPLUG_PLUG) (AddVirtualInputDeviceId E (dh_networkId ev) rid) } }"

definition NotifyInputDeviceToRemote :: "env \<Rightarrow> net_id \<Rightarrow> ('s input_mgr_scheme, unit) state" where
  "NotifyInputDeviceToRemote E nid = do {
     pads \<leftarrow> ask (DevMgrVirTrackPad E);
     kb \<leftarrow> ask (DevMgrHasKeyboard E);
     lp \<leftarrow> ask (DevMgrHasLocalPointer E);
     if pads = [] \<and> \<not> kb \<and> \<not> lp then skip
     else do {
       keyboards \<leftarrow> ask (DevMgrKeyboard E);
       pointers \<leftarrow> ask (DevMgrPointerDevice E);
       let devs = keyboards @ pointers @ pads;
       case serialize_all devs
           (puts [i32_bytes (word_of_nat (length devs))] (NetPacket DSOFTBUS_INPUT_DEV_SYNC)) of
         None \<Rightarrow> skip
       | Some pkt \<Rightarrow> do { SoftbusSendPacket E nid pkt; skip } } }"

definition SoftbusBroadcastPacket :: "env \<Rightarrow> net_packet \<Rightarrow> ('s world_scheme, i32) state" where
  "SoftbusBroadcastPacket E pkt = do {
     emit (SoftbusBroadcast pkt);
     ask (\<lambda>t. Broadcast_ret E t pkt) }"

definition BroadcastHotPlugToRemote :: "env \<Rightarrow> InputHotplugEvent \<Rightarrow> ('s input_mgr_scheme, unit) state" where
  "BroadcastHotPlugToRemote E ev =
     (if \<not> hp_isKeyboard ev then skip
      else
        let pkt = puts [i32_bytes (hp_type ev)] (NetPacket DSOFTBUS_INPUT_DEV_HOT_PLUG) in
        if hp_type ev = HOTPLUG_PLUG then do {
          d \<leftarrow> ask (\<lambda>t. DevMgrDevice E t (hp_deviceId ev));
          case d of
            None \<Rightarrow> skip
          | Some dev \<Rightarrow>
              (case SerializeDevice dev pkt of (ret, pkt') \<Rightarrow>
                 if ret \<noteq> RET_OK then skip else do { SoftbusBroadcastPacket E pkt'; skip }) }
        else if hp_type ev = HOTPLUG_UNPLUG then
          (let pkt' = puts [i32_bytes (hp_deviceId ev)] pkt in
           if ChkRWError pkt' then skip else do { SoftbusBroadcastPacket E pkt'; skip })
        else do { SoftbusBroadcastPacket E pkt; skip })"

definition RemoveRemoteInputDevice :: "net_id \<Rightarrow> IDevice \<Rightarrow> ('s input_mgr_scheme, unit) state" where
  "RemoveRemoteInputDevice nid d = modify (\<lambda>s.
     if map_of (remoteDevices s) nid = None then s
     else s\<lparr>remoteDevices := set_key nid (oset_erase dev_key (dev_key d)) (remoteDevices s)\<rparr>)"

definition AddRemoteInputDevice :: "net_id \<Rightarrow> IDevice \<Rightarrow> ('s input_mgr_scheme, unit) state" where
  "AddRemoteInputDevice nid d = modify (\<lambda>s.
     if MAX_INPUT_DEV_PER_DEVICE \<le> length (at_key nid (remoteDevices s)) then s
     else s\<lparr>remoteDevices := set_key nid (oset_insert dev_key d) (remoteDevices s)\<rparr>)"

definition RemoveAllRemoteInputDevice :: "env \<Rightarrow> net_id \<Rightarrow> ('s input_mgr_scheme, unit) state" where
  "RemoveAllRemoteInputDevice E nid = do {
     added \<leftarrow> gets virtualInputDevicesAdded;
     only_if (map_of added nid \<noteq> None) (RemoveVirtualInputDevice E nid);
     modify (\<lambda>s. s\<lparr>remoteDevices := al_erase nid (remoteDevices s)\<rparr>) }"

definition idm_OnSoftbusSessionOpened :: "env \<Rightarrow> DDMBoardOnlineEvent \<Rightarrow> ('s input_mgr_scheme, unit) state" where
  "idm_OnSoftbusSessionOpened E ev = NotifyInputDeviceToRemote E (bo_networkId ev)"

definition idm_OnSoftbusSessionClosed :: "env \<Rightarrow> DDMBoardOnlineEvent \<Rightarrow> ('s input_mgr_scheme, unit) state" where
  "idm_OnSoftbusSessionClosed E ev = RemoveAllRemoteInputDevice E (bo_networkId ev)"

definition OnLocalHotPlug :: "env \<Rightarrow> InputHotplugEvent \<Rightarrow> ('s input_mgr_scheme, unit) state" where
  "OnLocalHotPlug E ev = BroadcastHotPlugToRemote E ev"

definition OnRemoteInputDevice :: "DSoftbusSyncInputDevice \<Rightarrow> ('s input_mgr_scheme, unit) state" where
  "OnRemoteInputDevice ev = for_each (si_devices ev) (AddRemoteInputDevice (si_networkId ev))"

definition OnRemoteHotPlug :: "DSoftbusHotPlugEvent \<Rightarrow> ('s input_mgr_scheme, unit) state" where
  "OnRemoteHotPlug ev = skip"

section \<open>Frames\<close>

definition idm_blind :: "('s input_mgr_scheme \<Rightarrow> 'v) \<Rightarrow> bool" where
  "idm_blind f \<longleftrightarrow> ml_blind f \<and> (\<forall>s x. f (s\<lparr>idm_enable := x\<rparr>) = f s)
     \<and> (\<forall>s x. f (s\<lparr>remoteDevices := x\<rparr>) = f s)
     \<and> (\<forall>s x. f (s\<lparr>virtualInputDevicesAdded := x\<rparr>) = f s)
     \<and> (\<forall>s x. f (s\<lparr>remote2VirtualIds := x\<rparr>) = f s)"

lemma idm_blind_ml: "idm_blind f \<Longrightarrow> ml_blind f"
  by (simp add: idm_blind_def)

lemmas idm_blind_quiet = ml_blind_quiet [OF idm_blind_ml]

lemma idm_post_frame [frame]:
  assumes "quiet f"
  shows "unchanged f (SoftbusBroadcastPacket E pkt)"
    "unchanged f (NotifyInputDeviceToRemote E nid)" "unchanged f (BroadcastHotPlugToRemote E ev)"
    "unchanged f (idm_OnSoftbusSessionOpened E bo)" "unchanged f (OnLocalHotPlug E ev)"
    "unchanged f (OnRemoteHotPlug dh)"
  unfolding SoftbusBroadcastPacket_def NotifyInputDeviceToRemote_def
    BroadcastHotPlugToRemote_def idm_OnSoftbusSessionOpened_def OnLocalHotPlug_def OnRemoteHotPlug_def
  by (intro frame assms)+

lemma idm_map_frame [frame]: "mailless f \<Longrightarrow> unchanged f UpdateVirtualDeviceIdMap"
  unfolding UpdateVirtualDeviceIdMap_def by (intro frame)

lemma idm_frame [frame]:
  assumes "idm_blind f"
  shows "unchanged f (devices_of nid)" "unchanged f (AddRemoteInputDevice nid d)"
    "unchanged f (RemoveRemoteInputDevice nid d)" "unchanged f (idm_Enable)" "unchanged f (idm_Disable)"
    "unchanged f (OnRemoteInputDevice si)"
proof -
  show a: "unchanged f (AddRemoteInputDevice nid d)" for nid d
    unfolding AddRemoteInputDevice_def
    using assms by (intro frame idm_blind_quiet; simp add: idm_blind_def)
  show "unchanged f (devices_of nid)" "unchanged f (RemoveRemoteInputDevice nid d)"
    "unchanged f (idm_Enable)" "unchanged f (idm_Disable)" "unchanged f (OnRemoteInputDevice si)"
    unfolding devices_of_def RemoveRemoteInputDevice_def idm_Enable_def idm_Disable_def OnRemoteInputDevice_def
    using assms by (intro frame a idm_blind_quiet; simp add: idm_blind_def)+
qed

text \<open>The operations that also send the new map to the worker.\<close>

lemma idm_id_frame [frame]:
  assumes "idm_blind f" "mailless f"
  shows "unchanged f (AddVirtualInputDeviceId E nid rid)" "unchanged f (RemoveVirtualInputDeviceId E nid rid)"
  unfolding AddVirtualInputDeviceId_def RemoveVirtualInputDeviceId_def
  using assms by (intro frame idm_blind_quiet; simp add: idm_blind_def)+

lemma idm_virtual_frame [frame]:
  assumes "idm_blind f" "mailless f"
  shows "unchanged f (AddVirtualInputDevice E nid)" "unchanged f (RemoveVirtualInputDevice E nid)"
    "unchanged f (RemoveAllVirtualInputDevice E)" "unchanged f (HandleRemoteHotPlug E dh)"
    "unchanged f (RemoveAllRemoteInputDevice E nid)" "unchanged f (idm_OnSoftbusSessionClosed E bo)"
  unfolding AddVirtualInputDevice_def RemoveVirtualInputDevice_def RemoveAllVirtualInputDevice_def
    HandleRemoteHotPlug_def RemoveAllRemoteInputDevice_def idm_OnSoftbusSessionClosed_def
  using assms by (intro frame idm_id_frame; simp add: idm_blind_def)+

section \<open>Well-formed tables\<close>

definition devices_ok :: "(net_id \<times> IDevice list) list \<Rightarrow> bool" where
  "devices_ok m \<longleftrightarrow> distinct (map fst m)
     \<and> list_all (\<lambda>(_, ds). oset_ok dev_key ds \<and> length ds \<le> MAX_INPUT_DEV_PER_DEVICE) m"

definition idm_ok :: "'s input_mgr_scheme \<Rightarrow> bool" where
  "idm_ok s \<longleftrightarrow> devices_ok (remoteDevices s) \<and> distinct (map fst (virtualInputDevicesAdded s))
     \<and> list_all (\<lambda>(_, vs). oset_ok sint vs) (virtualInputDevicesAdded s)
     \<and> distinct (map fst (remote2VirtualIds s))"

lemma quiet_idm [simp]:
  "quiet idm_ok" "quiet remoteDevices" "quiet virtualInputDevicesAdded" "quiet remote2VirtualIds"
  "mailless idm_ok" "mailless remoteDevices" "mailless virtualInputDevicesAdded" "mailless remote2VirtualIds"
  by (simp_all add: quiet_def mailless_def idm_ok_def)

lemma at_key_all:
  assumes "list_all (\<lambda>(_, xs). P xs) m" "P []"
  shows "P (at_key nid m)"
  using assms by (auto simp: at_key_def list_all_iff dest!: map_of_SomeD split: option.splits)

lemma set_key_all:
  assumes "list_all (\<lambda>(_, xs). P xs) m" "P (f (at_key nid m))"
  shows "list_all (\<lambda>(_, xs). P xs) (set_key nid f m)"
  using assms set_al_put_subset [of nid "f (at_key nid m)" m]
  by (auto simp: set_key_def list_all_iff)

lemma set_key_simps [simp]:
  "distinct (map fst m) \<Longrightarrow> distinct (map fst (set_key nid f m))"
  "at_key nid (set_key nid f m) = f (at_key nid m)"
  "map_of (set_key nid f m) nid = Some (f (at_key nid m))"
  by (simp_all add: set_key_def distinct_al_put at_key_def map_of_al_put)

lemma devices_ok_at_key:
  "devices_ok m \<Longrightarrow> oset_ok dev_key (at_key nid m) \<and> length (at_key nid m) \<le> MAX_INPUT_DEV_PER_DEVICE"
  unfolding devices_ok_def by (rule at_key_all) simp_all

lemma devices_ok_set_key:
  "devices_ok m \<Longrightarrow> oset_ok dev_key (f (at_key nid m)) \<Longrightarrow>
     length (f (at_key nid m)) \<le> MAX_INPUT_DEV_PER_DEVICE \<Longrightarrow> devices_ok (set_key nid f m)"
  unfolding devices_ok_def by (auto intro: set_key_all)

lemma devices_ok_insert:
  "devices_ok m \<Longrightarrow> length (at_key nid m) < MAX_INPUT_DEV_PER_DEVICE \<Longrightarrow>
     devices_ok (set_key nid (oset_insert dev_key d) m)"
  using devices_ok_at_key [of m nid] length_oset_insert_le [of dev_key d "at_key nid m"]
  by (intro devices_ok_set_key) auto

lemma devices_ok_remove:
  "devices_ok m \<Longrightarrow> devices_ok (set_key nid (oset_erase dev_key k) m)"
  using devices_ok_at_key [of m nid]
  by (intro devices_ok_set_key oset_ok_erase) (auto simp: oset_erase_def intro: le_trans [OF length_filter_le])

lemma devices_ok_touch: "devices_ok m \<Longrightarrow> devices_ok (set_key nid (\<lambda>ds. ds) m)"
  using devices_ok_at_key [of m nid] by (intro devices_ok_set_key) auto

lemma devices_ok_erase: "devices_ok m \<Longrightarrow> devices_ok (al_erase nid m)"
  by (auto simp: devices_ok_def list_all_iff set_al_erase)

lemma virtual_ok_set_key:
  assumes "list_all (\<lambda>(_, vs). oset_ok sint vs) m"
  shows "list_all (\<lambda>(_, vs). oset_ok sint vs) (set_key nid (oset_insert sint (v :: i32)) m)"
    "list_all (\<lambda>(_, vs). oset_ok sint vs) (set_key nid (oset_erase sint k) (m :: (_ \<times> i32 list) list))"
  by (intro set_key_all assms oset_ok_insert oset_ok_erase at_key_all [where P = "oset_ok sint"]; simp)+

lemma idm_keeps_id:
  "keeps_inv idm_ok (AddVirtualInputDeviceId E nid rid)"
  "keeps_inv idm_ok (RemoveVirtualInputDeviceId E nid rid)"
  "keeps_inv idm_ok (devices_of nid)" "keeps_inv idm_ok (AddRemoteInputDevice nid d)"
  "keeps_inv idm_ok (RemoveRemoteInputDevice nid d)"
  unfolding AddVirtualInputDeviceId_def RemoveVirtualInputDeviceId_def devices_of_def
    AddRemoteInputDevice_def RemoveRemoteInputDevice_def
  by (intro keeps keeps_inv_unchanged [OF ask_frame [OF quiet_idm(1)]]
      keeps_inv_unchanged [OF emit_frame [OF quiet_idm(1)]]
      keeps_inv_unchanged [OF idm_map_frame [OF quiet_idm(5)]];
    simp add: idm_ok_def virtual_ok_set_key devices_ok_touch devices_ok_insert devices_ok_remove
      distinct_al_put distinct_al_erase)+

lemma idm_keeps:
  "keeps_inv idm_ok (OnRemoteInputDevice si)" "keeps_inv idm_ok (AddVirtualInputDevice E nid)"
  "keeps_inv idm_ok (RemoveVirtualInputDevice E nid)" "keeps_inv idm_ok (RemoveAllVirtualInputDevice E)"
  "keeps_inv idm_ok (HandleRemoteHotPlug E dh)" "keeps_inv idm_ok (idm_OnSoftbusSessionClosed E bo)"
proof -
  show "keeps_inv idm_ok (AddVirtualInputDevice E nid)" for nid
    unfolding AddVirtualInputDevice_def by (intro keeps idm_keeps_id)
  show rem: "keeps_inv idm_ok (RemoveVirtualInputDevice E nid)" for nid
    unfolding RemoveVirtualInputDevice_def by (intro keeps idm_keeps_id)
  show "keeps_inv idm_ok (idm_OnSoftbusSessionClosed E bo)"
    unfolding idm_OnSoftbusSessionClosed_def RemoveAllRemoteInputDevice_def
    by (intro keeps rem) (simp add: idm_ok_def devices_ok_erase)
  show "keeps_inv idm_ok (OnRemoteInputDevice si)"
    unfolding OnRemoteInputDevice_def by (intro keeps idm_keeps_id)
  show "keeps_inv idm_ok (RemoveAllVirtualInputDevice E)"
    unfolding RemoveAllVirtualInputDevice_def by (intro keeps idm_keeps_id)
  show "keeps_inv idm_ok (HandleRemoteHotPlug E dh)"
    unfolding HandleRemoteHotPlug_def by (intro keeps idm_keeps_id)
qed

section \<open>The account of virtual devices\<close>

text \<open>The virtual devices asked for less those given back, and an input service that grants both.\<close>

fun virtual_balance :: "cmd list \<Rightarrow> int" where
  "virtual_balance [] = 0"
| "virtual_balance (AddVirtualDevice d # cs) = 1 + virtual_balance cs"
| "virtual_balance (RemoveVirtualDevice v # cs) = virtual_balance cs - 1"
| "virtual_balance (_ # cs) = virtual_balance cs"

lemma virtual_balance_append [simp]: "virtual_balance (cs @ ds) = virtual_balance cs + virtual_balance ds"
  by (induction cs rule: virtual_balance.induct) simp_all

definition virtual_works :: "env \<Rightarrow> bool" where
  "virtual_works E \<longleftrightarrow> (\<forall>t d. fst (AddVirtual_ret E t d) = RET_OK) \<and> (\<forall>t v. RemoveVirtual_ret E t v = RET_OK)"

definition counted_by :: "int \<Rightarrow> 's input_mgr_scheme \<Rightarrow> bool" where
  "counted_by c s \<longleftrightarrow> distinct (map fst (remote2VirtualIds s))
     \<and> virtual_balance (trace s) = c + int (length (remote2VirtualIds s))"

lemma length_al_put: "\<forall>v. (k, v) \<notin> set m \<Longrightarrow> length (al_put k v m) = Suc (length m)"
  by (induction k v m rule: al_put.induct) auto

lemma length_al_erase:
  "distinct (map fst m) \<Longrightarrow> map_of m k = Some v \<Longrightarrow> int (length (al_erase k m)) = int (length m) - 1"
proof (induction m)
  case (Cons p m)
  have "al_erase k m = m" if "k \<notin> fst ` set m"
    using that unfolding al_erase_def by (intro filter_True) auto
  then show ?case
    using Cons by (auto simp: al_erase_def split: if_splits)
qed simp

lemma counted_id:
  assumes "virtual_works E"
  shows "keeps_inv (counted_by c) (AddVirtualInputDeviceId E nid rid)"
    "keeps_inv (counted_by c) (RemoveVirtualInputDeviceId E nid rid)"
  using assms
  by (auto intro!: keeps_invI simp: AddVirtualInputDeviceId_def RemoveVirtualInputDeviceId_def UpdateVirtualDeviceIdMap_def
    virtual_works_def counted_by_def length_al_put length_al_erase distinct_al_put distinct_al_erase split: option.split)

lemma counted_tables:
  "keeps_inv (counted_by c) (devices_of nid)" "keeps_inv (counted_by c) (AddRemoteInputDevice nid d)"
  unfolding devices_of_def AddRemoteInputDevice_def by (intro keeps; simp add: counted_by_def)+

lemma counted_ops:
  assumes "virtual_works E"
  shows "keeps_inv (counted_by c) (OnRemoteInputDevice si)" "keeps_inv (counted_by c) (AddVirtualInputDevice E nid)"
    "keeps_inv (counted_by c) (RemoveVirtualInputDevice E nid)" "keeps_inv (counted_by c) (RemoveAllVirtualInputDevice E)"
    "keeps_inv (counted_by c) (HandleRemoteHotPlug E dh)" "keeps_inv (counted_by c) (idm_OnSoftbusSessionClosed E bo)"
proof -
  note step = counted_id [OF assms] counted_tables
  show "keeps_inv (counted_by c) (AddVirtualInputDevice E nid)"
    unfolding AddVirtualInputDevice_def by (intro keeps step)
  show rem: "keeps_inv (counted_by c) (RemoveVirtualInputDevice E nid)" for nid
    unfolding RemoveVirtualInputDevice_def by (intro keeps step)
  show "keeps_inv (counted_by c) (idm_OnSoftbusSessionClosed E bo)"
    unfolding idm_OnSoftbusSessionClosed_def RemoveAllRemoteInputDevice_def
    by (intro keeps rem) (simp add: counted_by_def)
  show "keeps_inv (counted_by c) (OnRemoteInputDevice si)"
    unfolding OnRemoteInputDevice_def by (intro keeps step)
  show "keeps_inv (counted_by c) (RemoveAllVirtualInputDevice E)"
    unfolding RemoveAllVirtualInputDevice_def by (intro keeps step)
  show "keeps_inv (counted_by c) (HandleRemoteHotPlug E dh)"
    unfolding HandleRemoteHotPlug_def by (intro keeps step)
qed

text \<open>What the state machine calls, in any order.\<close>

datatype idm_event =
    PeerAnnounces DSoftbusSyncInputDevice
  | PeerTakesOver net_id
  | PeerLetsGo net_id
  | AllLetGo
  | RemoteHotPlug DSoftbusHotPlugEvent
  | PeerLeaves DDMBoardOnlineEvent

fun idm_step :: "env \<Rightarrow> idm_event \<Rightarrow> ('s input_mgr_scheme, unit) state" where
  "idm_step E (PeerAnnounces si) = OnRemoteInputDevice si"
| "idm_step E (PeerTakesOver nid) = AddVirtualInputDevice E nid"
| "idm_step E (PeerLetsGo nid) = RemoveVirtualInputDevice E nid"
| "idm_step E AllLetGo = RemoveAllVirtualInputDevice E"
| "idm_step E (RemoteHotPlug dh) = HandleRemoteHotPlug E dh"
| "idm_step E (PeerLeaves bo) = idm_OnSoftbusSessionClosed E bo"

lemma idm_run_keeps:
  assumes "\<And>e. keeps_inv I (idm_step E e)" "I s"
  shows "I (exec (for_each es (idm_step E)) s)"
  using assms(2) by (rule keeps_invD [OF keeps_inv_for_each [OF assms(1)]])

text \<open>
  C32. Whatever peers announce and however devices are taken over, let go, plugged and unplugged, in
  any order, well-formed tables stay well formed: at most ten devices per peer, ordered by id
  without duplicates, and each remote id mapped at most once. When the input service grants
  what it is asked for, the account of virtual devices balances: the devices added and not yet
  removed grow by exactly as many as the mapped remote ids do, so that no mapped remote id is
  given a second virtual device and no virtual device drops out of the map without being removed.
\<close>

theorem remote_devices_bounded:
  fixes E es s
  defines "t \<equiv> exec (for_each es (idm_step E)) s"
  assumes "idm_ok s"
  shows "idm_ok t \<and> (virtual_works E \<longrightarrow>
     virtual_balance (trace t) - virtual_balance (trace s)
       = int (length (remote2VirtualIds t)) - int (length (remote2VirtualIds s)))"
proof (intro conjI impI)
  show "idm_ok t"
    unfolding t_def
  proof (rule idm_run_keeps [where I = idm_ok, OF _ assms(2)])
    show "keeps_inv idm_ok (idm_step E e)" for e
      by (cases e) (simp_all add: idm_keeps)
  qed
  assume works: "virtual_works E"
  define c where "c = virtual_balance (trace s) - int (length (remote2VirtualIds s))"
  have "counted_by c s"
    using assms(2) by (simp add: counted_by_def c_def idm_ok_def)
  moreover have "keeps_inv (counted_by c) (idm_step E e)" for e
    by (cases e) (simp_all add: counted_ops [OF works])
  ultimately have "counted_by c t"
    unfolding t_def by (rule idm_run_keeps [where I = "counted_by c", rotated])
  then show "virtual_balance (trace t) - virtual_balance (trace s)
       = int (length (remote2VirtualIds t)) - int (length (remote2VirtualIds s))"
    by (simp add: counted_by_def c_def)
qed

section \<open>Virtual devices come and go together\<close>

lemma oset_find_mem: "oset_ok k xs \<Longrightarrow> x \<in> set xs \<Longrightarrow> oset_find k (k x) xs = Some x"
  by (induction xs) (auto simp: oset_find_def)

lemma distinct_dev_id: "oset_ok dev_key ds \<Longrightarrow> distinct (map dev_id ds)"
  by (induction ds) (auto simp: image_iff)

lemma add_one:
  assumes "\<forall>t d. fst (AddVirtual_ret E t d) = RET_OK"
    and "GetRemoteDeviceById nid (dev_id d) s = Some d" "map_of (remote2VirtualIds s) (dev_id d) = None"
  shows "\<exists>v. remote2VirtualIds (exec (AddVirtualInputDeviceId E nid (dev_id d)) s)
        = al_put (dev_id d) v (remote2VirtualIds s)"
    "trace (exec (AddVirtualInputDeviceId E nid (dev_id d)) s) = trace s @ [AddVirtualDevice (Transform d)]"
    "remoteDevices (exec (AddVirtualInputDeviceId E nid (dev_id d)) s) = remoteDevices s"
  using assms by (auto simp: AddVirtualInputDeviceId_def UpdateVirtualDeviceIdMap_def)

lemma add_loop:
  assumes "\<forall>t d. fst (AddVirtual_ret E t d) = RET_OK" "distinct (map dev_id ds)"
    and "\<forall>d \<in> set ds. GetRemoteDeviceById nid (dev_id d) s = Some d"
    and "\<forall>d \<in> set ds. map_of (remote2VirtualIds s) (dev_id d) = None"
  shows "let s' = exec (for_each ds (\<lambda>d. AddVirtualInputDeviceId E nid (dev_id d))) s in
      (\<exists>m. map_of (remote2VirtualIds s') = map_of (remote2VirtualIds s) ++ m \<and> dom m = dev_id ` set ds)
    \<and> trace s' = trace s @ map (\<lambda>d. AddVirtualDevice (Transform d)) ds
    \<and> remoteDevices s' = remoteDevices s"
  using assms(2-4)
proof (induction ds arbitrary: s)
  case (Cons d ds)
  let ?s = "exec (AddVirtualInputDeviceId E nid (dev_id d)) s"
  have one: "trace ?s = trace s @ [AddVirtualDevice (Transform d)]" "remoteDevices ?s = remoteDevices s"
    using Cons.prems add_one(2,3) [OF assms(1)] by auto
  obtain v where v: "remote2VirtualIds ?s = al_put (dev_id d) v (remote2VirtualIds s)"
    using Cons.prems add_one(1) [OF assms(1), of nid d s] by auto
  have ne: "\<forall>e \<in> set ds. dev_id e \<noteq> dev_id d"
    using Cons.prems(1) by (metis distinct.simps(2) image_eqI list.set_map list.simps(9))
  have "let s' = exec (for_each ds (\<lambda>d. AddVirtualInputDeviceId E nid (dev_id d))) ?s in
      (\<exists>m. map_of (remote2VirtualIds s') = map_of (remote2VirtualIds ?s) ++ m \<and> dom m = dev_id ` set ds)
    \<and> trace s' = trace ?s @ map (\<lambda>d. AddVirtualDevice (Transform d)) ds
    \<and> remoteDevices s' = remoteDevices ?s"
    using Cons.prems one v ne
    by (intro Cons.IH) (auto simp: map_of_al_put GetRemoteDeviceById_def)
  then obtain m where m: "map_of (remote2VirtualIds (exec (for_each ds
        (\<lambda>d. AddVirtualInputDeviceId E nid (dev_id d))) ?s)) = (map_of (remote2VirtualIds s))(dev_id d \<mapsto> v) ++ m"
      "dom m = dev_id ` set ds"
    and rest: "trace (exec (for_each ds (\<lambda>d. AddVirtualInputDeviceId E nid (dev_id d))) ?s)
      = trace ?s @ map (\<lambda>d. AddVirtualDevice (Transform d)) ds"
      "remoteDevices (exec (for_each ds (\<lambda>d. AddVirtualInputDeviceId E nid (dev_id d))) ?s) = remoteDevices ?s"
    using v by (auto simp: Let_def map_of_al_put)
  have "(map_of (remote2VirtualIds s))(dev_id d \<mapsto> v) ++ m
      = map_of (remote2VirtualIds s) ++ [dev_id d \<mapsto> v] ++ m" "dom ([dev_id d \<mapsto> v] ++ m) = insert (dev_id d) (dev_id ` set ds)"
    using m(2) by auto
  then have "\<exists>m'. (map_of (remote2VirtualIds s))(dev_id d \<mapsto> v) ++ m = map_of (remote2VirtualIds s) ++ m'
      \<and> dom m' = insert (dev_id d) (dev_id ` set ds)"
    by (metis map_add_assoc)
  then show ?case
    using one rest m(1) by (simp add: Let_def)
qed (auto simp: Let_def intro: exI [of _ Map.empty])

lemma remove_loop:
  assumes "\<forall>t v. RemoveVirtual_ret E t v = RET_OK" "distinct (map dev_id ds)"
    and "dev_id ` set ds \<subseteq> dom (map_of (remote2VirtualIds s))"
  shows "let s' = exec (for_each ds (\<lambda>d. RemoveVirtualInputDeviceId E nid (dev_id d))) s in
      map_of (remote2VirtualIds s') = map_of (remote2VirtualIds s) |` (- dev_id ` set ds)
    \<and> trace s' = trace s
        @ map (\<lambda>d. RemoveVirtualDevice (the (map_of (remote2VirtualIds s) (dev_id d)))) ds"
  using assms(2,3)
proof (induction ds arbitrary: s)
  case (Cons d ds)
  let ?s = "exec (RemoveVirtualInputDeviceId E nid (dev_id d)) s"
  have one: "remote2VirtualIds ?s = al_erase (dev_id d) (remote2VirtualIds s)"
    "trace ?s = trace s @ [RemoveVirtualDevice (the (map_of (remote2VirtualIds s) (dev_id d)))]"
    using Cons.prems assms(1)
    by (auto simp: RemoveVirtualInputDeviceId_def UpdateVirtualDeviceIdMap_def)
  have ne: "\<forall>e \<in> set ds. dev_id e \<noteq> dev_id d"
    using Cons.prems(1) by (metis distinct.simps(2) image_eqI list.set_map list.simps(9))
  have eq: "map (\<lambda>e. RemoveVirtualDevice (the (map_of (remote2VirtualIds ?s) (dev_id e)))) ds
      = map (\<lambda>e. RemoveVirtualDevice (the (map_of (remote2VirtualIds s) (dev_id e)))) ds"
    using ne one by (auto simp: map_of_al_erase)
  have sub: "dev_id ` set ds \<subseteq> dom (map_of (remote2VirtualIds ?s))"
    using Cons.prems one ne by (auto simp: map_of_al_erase)
  have res: "map_of (remote2VirtualIds ?s) |` (- dev_id ` set ds)
      = map_of (remote2VirtualIds s) |` (- dev_id ` set (d # ds))"
    by (auto simp: one map_of_al_erase fun_eq_iff restrict_map_def)
  have "distinct (map dev_id ds)"
    using Cons.prems by simp
  from Cons.IH [OF this sub] show ?case
    by (simp add: Let_def eq res one(2) del: Compl_iff insert_iff)
qed (auto simp: Let_def restrict_map_def)

text \<open>A device that nobody has told anything, and two devices of a peer.\<close>

definition sample_device :: "i32 \<Rightarrow> string \<Rightarrow> IDevice" where
  "sample_device i nm = \<lparr>dev_id = i, devPath = ''/dev/input'', sysPath = [], dev_bus = 3, dev_vendor = 1,
     dev_product = 2, dev_version = 1, dev_name = nm, dev_phys = [], dev_uniq = [],
     isPointerDevice = True, dev_isKeyboard = False, keyboardType = 0\<rparr>"

definition sample_mgr :: "(net_id \<times> IDevice list) list \<Rightarrow> input_mgr" where
  "sample_mgr ds = mouse_loc.extend (sample_mouse [] [] [])
     \<lparr>idm_enable = True, remoteDevices = ds, virtualInputDevicesAdded = [], remote2VirtualIds = []\<rparr>"

text \<open>A peer takes over twice: its two devices are added once.\<close>

theorem remote_devices_bounded_witness:
  "virtual_balance (trace (exec (for_each [PeerTakesOver ''a'', PeerTakesOver ''a''] (idm_step ideal_env))
     (sample_mgr [(''a'', [sample_device 3 ''mouse'', sample_device 4 ''pad''])]))) = 2"
proof -
  let ?s = "sample_mgr [(''a'', [sample_device 3 ''mouse'', sample_device 4 ''pad''])]"
  let ?t = "exec (for_each [PeerTakesOver ''a'', PeerTakesOver ''a''] (idm_step ideal_env)) ?s"
  have "idm_ok ?s"
    by (simp add: sample_mgr_def sample_device_def mouse_loc.defs sample_mouse_def idm_ok_def devices_ok_def
      MAX_INPUT_DEV_PER_DEVICE_def)
  moreover have "virtual_works ideal_env"
    by (simp add: virtual_works_def ideal_env_def)
  moreover have "trace ?s = []" "remote2VirtualIds ?s = []"
    by (simp_all add: sample_mgr_def mouse_loc.defs sample_mouse_def)
  moreover have two: "length (remote2VirtualIds ?t) = 2"
    by (simp add: AddVirtualInputDevice_def devices_of_def AddVirtualInputDeviceId_def UpdateVirtualDeviceIdMap_def
      GetRemoteDeviceById_def ideal_env_def sample_mgr_def sample_device_def mouse_loc.defs sample_mouse_def at_key_def
      set_key_def oset_find_def)
  ultimately have "virtual_balance (trace ?t) - virtual_balance [] = int 2 - int (length ([] :: (i32 \<times> i32) list))"
    using remote_devices_bounded [of ?s "[PeerTakesOver ''a'', PeerTakesOver ''a'']" ideal_env] by metis
  then show ?thesis
    by simp
qed

text \<open>
  A peer's devices appear and disappear together: when the input service accepts them,
  \<open>AddVirtualInputDevice\<close> adds one virtual device for each device the peer announced, in order,
  and \<open>RemoveVirtualInputDevice\<close> removes exactly those and leaves the other peers' mapping as
  it was.
\<close>

theorem virtual_devices_roundtrip:
  assumes "idm_ok s" "\<forall>t d. fst (AddVirtual_ret E t d) = RET_OK" "\<forall>t v. RemoveVirtual_ret E t v = RET_OK"
    and "ds = at_key nid (remoteDevices s)"
    and "\<forall>d \<in> set ds. map_of (remote2VirtualIds s) (dev_id d) = None"
  shows "let u = exec (AddVirtualInputDevice E nid) s; v = exec (RemoveVirtualInputDevice E nid) u in
      dom (map_of (remote2VirtualIds u)) = dom (map_of (remote2VirtualIds s)) \<union> dev_id ` set ds
    \<and> map_of (remote2VirtualIds v) = map_of (remote2VirtualIds s)
    \<and> trace v = trace s @ map (\<lambda>d. AddVirtualDevice (Transform d)) ds
        @ map (\<lambda>d. RemoveVirtualDevice (the (map_of (remote2VirtualIds u) (dev_id d)))) ds"
proof -
  let ?s = "s\<lparr>remoteDevices := set_key nid (\<lambda>ds. ds) (remoteDevices s)\<rparr>"
  let ?u = "exec (for_each ds (\<lambda>d. AddVirtualInputDeviceId E nid (dev_id d))) ?s"
  let ?u' = "?u\<lparr>remoteDevices := set_key nid (\<lambda>ds. ds) (remoteDevices ?u)\<rparr>"
  have ok: "oset_ok dev_key ds"
    using assms(1,4) devices_ok_at_key by (auto simp: idm_ok_def)
  have ids: "distinct (map dev_id ds)"
    by (rule distinct_dev_id [OF ok])
  have get: "\<forall>d \<in> set ds. GetRemoteDeviceById nid (dev_id d) ?s = Some d"
    using assms(4) ok oset_find_mem [of dev_key ds] by (auto simp: GetRemoteDeviceById_def)
  obtain m where m: "map_of (remote2VirtualIds ?u) = map_of (remote2VirtualIds s) ++ m"
      "dom m = dev_id ` set ds" "trace ?u = trace s @ map (\<lambda>d. AddVirtualDevice (Transform d)) ds"
      "remoteDevices ?u = remoteDevices ?s"
    using add_loop [OF assms(2) ids get] assms(5) by (auto simp: Let_def)
  have u: "exec (AddVirtualInputDevice E nid) s = ?u"
    using assms(4) by (simp add: AddVirtualInputDevice_def devices_of_def)
  have v: "exec (RemoveVirtualInputDevice E nid) ?u
      = exec (for_each ds (\<lambda>d. RemoveVirtualInputDeviceId E nid (dev_id d))) ?u'"
    using assms(4) m(4) by (simp add: RemoveVirtualInputDevice_def devices_of_def)
  have sub: "dev_id ` set ds \<subseteq> dom (map_of (remote2VirtualIds ?u'))"
    using m(1,2) by auto
  have "(map_of (remote2VirtualIds s) ++ m) |` (- dev_id ` set ds) = map_of (remote2VirtualIds s)"
    using m(2) assms(5) by (auto simp: fun_eq_iff restrict_map_def map_add_def split: option.splits)
  then show ?thesis
    unfolding u Let_def v using remove_loop [OF assms(3) ids sub, of nid] m by (auto simp: Let_def)
qed

theorem virtual_devices_roundtrip_witness:
  "remote2VirtualIds (exec (AddVirtualInputDevice ideal_env ''a'')
       (sample_mgr [(''a'', [sample_device 3 ''mouse'', sample_device 4 ''pad''])])) \<noteq> []
   \<and> map_of (remote2VirtualIds (exec (RemoveVirtualInputDevice ideal_env ''a'')
       (exec (AddVirtualInputDevice ideal_env ''a'')
         (sample_mgr [(''a'', [sample_device 3 ''mouse'', sample_device 4 ''pad''])])))) 3 = None"
  using virtual_devices_roundtrip [of
      "sample_mgr [(''a'', [sample_device 3 ''mouse'', sample_device 4 ''pad''])]" ideal_env _ "''a''", OF _ _ _ refl]
  by (auto simp: ideal_env_def sample_mgr_def sample_mouse_def sample_device_def mouse_loc.defs
      idm_ok_def devices_ok_def MAX_INPUT_DEV_PER_DEVICE_def at_key_def Let_def)

end
