(* ===== verification/DSoftbus.thy ===== *)
theory DSoftbus
  imports Input_Dev_Mgr
begin

text \<open>
  src/intention/cooperate/plugin/src/dsoftbus_handler.cpp: the messages exchanged with peers.
  An operation writes the fields of an event into a packet and sends it; \<open>OnPacket\<close> reads the
  fields of an incoming packet back into an event and posts it to the plugin's channel. A
  decoder returns \<open>None\<close> where reading a string runs past the end of the buffer (undefined
  behaviour), \<open>Some None\<close> where the packet is dropped, \<open>Some (Some e)\<close> where \<open>e\<close> is posted.
\<close>

section \<open>Sessions\<close>

definition CheckDeviceOnline :: "env \<Rightarrow> net_id \<Rightarrow> ('s world_scheme, i32) state" where
  "CheckDeviceOnline E nid = ask (\<lambda>t. DeviceOnline_ret E t nid)"

definition OpenSession :: "env \<Rightarrow> net_id \<Rightarrow> ('s world_scheme, i32) state" where
  "OpenSession E nid = do {
     emit (SoftbusOpen nid);
     ret \<leftarrow> ask (\<lambda>t. OpenSession_ret E t nid);
     only_if (ret = RET_OK) (emit (SoftbusHeartBeat nid));
     pure ret }"

definition CloseSession :: "net_id \<Rightarrow> ('s world_scheme, unit) state" where
  "CloseSession nid = emit (SoftbusClose nid)"

definition CloseAllSessions :: "('s world_scheme, unit) state" where
  "CloseAllSessions = emit SoftbusCloseAll"

definition SendEvent :: "CooperateEvent \<Rightarrow> ('s world_scheme, unit) state" where
  "SendEvent e = do { Send e; skip }"

definition OnBind :: "net_id \<Rightarrow> ('s world_scheme, unit) state" where
  "OnBind nid = SendEvent (SESSION_OPENED (board_event nid))"

definition OnConnected :: "net_id \<Rightarrow> ('s world_scheme, unit) state" where
  "OnConnected nid = SendEvent (SESSION_OPENED (board_event nid))"

definition OnShutdown :: "net_id \<Rightarrow> ('s world_scheme, unit) state" where
  "OnShutdown nid = SendEvent (SESSION_CLOSED_EVENT (board_event nid))"

definition OnCommunicationFailure :: "net_id \<Rightarrow> ('s world_scheme, unit) state" where
  "OnCommunicationFailure nid = do {
     emit (SoftbusClose nid);
     SendEvent (SESSION_CLOSED_EVENT (board_event nid)) }"

section \<open>Outgoing messages\<close>

definition ds_send :: "env \<Rightarrow> net_id \<Rightarrow> net_packet \<Rightarrow> ('s world_scheme, i32) state" where
  "ds_send E nid pkt = do {
     ret \<leftarrow> SoftbusSendPacket E nid pkt;
     only_if (ret \<noteq> RET_OK) (OnCommunicationFailure nid);
     pure ret }"

definition ds_post :: "env \<Rightarrow> net_id \<Rightarrow> net_packet \<Rightarrow> ('s world_scheme, i32) state" where
  "ds_post E nid pkt = (if ChkRWError pkt then pure RET_ERR else ds_send E nid pkt)"

definition start_packet :: "DSoftbusStartCooperate \<Rightarrow> net_packet" where
  "start_packet ev = encode DSOFTBUS_START_COOPERATE
     [str_bytes (sc_originNetworkId ev), i32_bytes (cx (sc_cursorPos ev)), i32_bytes (cy (sc_cursorPos ev)),
      bool_bytes (sc_success ev), i32_bytes (sd_priv (sc_extra ev)), i32_bytes (sc_pointerSpeed ev),
      i32_bytes (sc_touchPadSpeed ev), i32_bytes (sc_uid ev), i32_bytes (sc_userId ev),
      str_bytes (sc_accountId ev), bool_bytes (sc_needCheckSameAccount ev)]"

definition options_packet :: "DSoftbusCooperateOptions \<Rightarrow> net_packet" where
  "options_packet ev = encode DSOFTBUS_COOPERATE_WITH_OPTIONS
     [str_bytes (co_originNetworkId ev), i32_bytes (displayX (co_options ev)),
      i32_bytes (displayY (co_options ev)), i32_bytes (displayId (co_options ev)),
      bool_bytes (co_success ev), i32_bytes (sd_priv (co_extra ev)), i32_bytes (co_pointerSpeed ev),
      i32_bytes (co_touchPadSpeed ev), i32_bytes (co_userId ev),
      str_bytes (co_accountId ev), bool_bytes (co_needCheckSameAccount ev)]"

definition come_back_packet :: "DSoftbusStartCooperate \<Rightarrow> net_packet" where
  "come_back_packet ev = encode DSOFTBUS_COME_BACK
     [str_bytes (sc_originNetworkId ev), i32_bytes (cx (sc_cursorPos ev)), i32_bytes (cy (sc_cursorPos ev)),
      i32_bytes (sd_priv (sc_extra ev)), i32_bytes (sc_uid ev)]"

definition come_back_options_packet :: "DSoftbusCooperateOptions \<Rightarrow> net_packet" where
  "come_back_options_packet ev = encode DSOFTBUS_COME_BACK_WITH_OPTIONS
     [str_bytes (co_originNetworkId ev), i32_bytes (displayX (co_options ev)),
      i32_bytes (displayY (co_options ev)), i32_bytes (displayId (co_options ev)),
      i32_bytes (sd_priv (co_extra ev))]"

definition relay_packet :: "DSoftbusRelayCooperate \<Rightarrow> net_packet" where
  "relay_packet ev = encode DSOFTBUS_RELAY_COOPERATE
     [str_bytes (rc_targetNetworkId ev), i32_bytes (rc_pointerSpeed ev), i32_bytes (rc_touchPadSpeed ev),
      i32_bytes (rc_uid ev), i32_bytes (rc_userId ev), str_bytes (rc_accountId ev),
      bool_bytes (rc_needCheckSameAccount ev)]"

definition relay_options_packet :: "DSoftbusRelayCooperate \<Rightarrow> net_packet" where
  "relay_options_packet ev = encode DSOFTBUS_RELAY_COOPERATE_WITHOPTIONS
     [str_bytes (rc_targetNetworkId ev), i32_bytes (rc_pointerSpeed ev), i32_bytes (rc_touchPadSpeed ev),
      i32_bytes (rc_userId ev), str_bytes (rc_accountId ev), bool_bytes (rc_needCheckSameAccount ev)]"

definition relay_finish_packet :: "DSoftbusRelayCooperate \<Rightarrow> net_packet" where
  "relay_finish_packet ev = encode DSOFTBUS_RELAY_COOPERATE_FINISHED
     [str_bytes (rc_targetNetworkId ev), bool_bytes (rc_normal ev), i32_bytes (rc_uid ev)]"

definition relay_options_finish_packet :: "DSoftbusRelayCooperate \<Rightarrow> net_packet" where
  "relay_options_finish_packet ev = encode DSOFTBUS_RELAY_COOPERATE_WITHOPTIONS_FINISHED
     [str_bytes (rc_targetNetworkId ev), bool_bytes (rc_normal ev)]"

definition ds_StartCooperate :: "env \<Rightarrow> net_id \<Rightarrow> DSoftbusStartCooperate \<Rightarrow> ('s world_scheme, i32) state" where
  "ds_StartCooperate E nid ev = ds_post E nid (start_packet ev)"

definition ds_StartCooperateWithOptions ::
    "env \<Rightarrow> net_id \<Rightarrow> DSoftbusCooperateOptions \<Rightarrow> ('s world_scheme, i32) state" where
  "ds_StartCooperateWithOptions E nid ev = ds_post E nid (options_packet ev)"

definition ds_StopCooperate :: "env \<Rightarrow> net_id \<Rightarrow> ('s world_scheme, i32) state" where
  "ds_StopCooperate E nid = ds_send E nid (NetPacket DSOFTBUS_STOP_COOPERATE)"

definition ds_ComeBack :: "env \<Rightarrow> net_id \<Rightarrow> DSoftbusStartCooperate \<Rightarrow> ('s world_scheme, i32) state" where
  "ds_ComeBack E nid ev = ds_post E nid (come_back_packet ev)"

definition ds_ComeBackWithOptions ::
    "env \<Rightarrow> net_id \<Rightarrow> DSoftbusCooperateOptions \<Rightarrow> ('s world_scheme, i32) state" where
  "ds_ComeBackWithOptions E nid ev = ds_post E nid (come_back_options_packet ev)"

definition ds_RelayCooperate :: "env \<Rightarrow> net_id \<Rightarrow> DSoftbusRelayCooperate \<Rightarrow> ('s world_scheme, i32) state" where
  "ds_RelayCooperate E nid ev = ds_post E nid (relay_packet ev)"

definition ds_RelayCooperateFinish ::
    "env \<Rightarrow> net_id \<Rightarrow> DSoftbusRelayCooperate \<Rightarrow> ('s world_scheme, i32) state" where
  "ds_RelayCooperateFinish E nid ev = ds_post E nid (relay_finish_packet ev)"

definition ds_RelayCooperateWithOptions ::
    "env \<Rightarrow> net_id \<Rightarrow> DSoftbusRelayCooperate \<Rightarrow> ('s world_scheme, i32) state" where
  "ds_RelayCooperateWithOptions E nid ev = ds_post E nid (relay_options_packet ev)"

definition ds_RelayCooperateWithOptionsFinish ::
    "env \<Rightarrow> net_id \<Rightarrow> DSoftbusRelayCooperate \<Rightarrow> ('s world_scheme, i32) state" where
  "ds_RelayCooperateWithOptionsFinish E nid ev = ds_post E nid (relay_options_finish_packet ev)"

section \<open>Decoders\<close>

definition decode_start :: "net_id \<Rightarrow> net_packet \<Rightarrow> CooperateEvent option option" where
  "decode_start nid p = do {
     (orig, p) \<leftarrow> get_str [] p;
     (x, p) \<leftarrow> get_i32 0 p;
     (y, p) \<leftarrow> get_i32 0 p;
     (success, p) \<leftarrow> get_bool False p;
     if ChkRWError p then Some None
     else do {
       (priv, p) \<leftarrow> get_or get_i32 0 0 p;
       (ps, p) \<leftarrow> get_or get_i32 (- 1) (- 1) p;
       (ts, p) \<leftarrow> get_or get_i32 (- 1) (- 1) p;
       (uid, p) \<leftarrow> get_or get_i32 0 0 p;
       (user, p) \<leftarrow> get_or get_i32 (- 1) (- 1) p;
       (acc, p) \<leftarrow> get_or get_str [] [] p;
       (check, p) \<leftarrow> get_or get_bool True False p;
       Some (Some (REMOTE_START (default_start
         \<lparr>sc_networkId := nid, sc_originNetworkId := orig, sc_success := success,
          sc_cursorPos := \<lparr>cx = x, cy = y\<rparr>, sc_extra := no_data\<lparr>sd_priv := priv\<rparr>,
          sc_pointerSpeed := ps, sc_touchPadSpeed := ts, sc_uid := uid, sc_userId := user,
          sc_accountId := acc, sc_needCheckSameAccount := check\<rparr>))) } }"

definition decode_options :: "net_id \<Rightarrow> net_packet \<Rightarrow> CooperateEvent option option" where
  "decode_options nid p = do {
     (orig, p) \<leftarrow> get_str [] p;
     (x, p) \<leftarrow> get_i32 (- 1) p;
     (y, p) \<leftarrow> get_i32 (- 1) p;
     (did, p) \<leftarrow> get_i32 (- 1) p;
     (success, p) \<leftarrow> get_bool False p;
     if ChkRWError p then Some None
     else do {
       (priv, p) \<leftarrow> get_or get_i32 0 0 p;
       (ps, p) \<leftarrow> get_or get_i32 (- 1) (- 1) p;
       (ts, p) \<leftarrow> get_or get_i32 (- 1) (- 1) p;
       (user, p) \<leftarrow> get_or get_i32 (- 1) (- 1) p;
       (acc, p) \<leftarrow> get_or get_str [] [] p;
       (check, p) \<leftarrow> get_or get_bool True False p;
       Some (Some (REMOTE_WITH_OPTIONS (default_options
         \<lparr>co_networkId := nid, co_originNetworkId := orig, co_success := success,
          co_options := \<lparr>displayX = x, displayY = y, displayId = did\<rparr>,
          co_extra := no_data\<lparr>sd_priv := priv\<rparr>, co_pointerSpeed := ps, co_touchPadSpeed := ts,
          co_userId := user, co_accountId := acc, co_needCheckSameAccount := check\<rparr>))) } }"

definition decode_come_back :: "net_id \<Rightarrow> net_packet \<Rightarrow> CooperateEvent option option" where
  "decode_come_back nid p = do {
     (orig, p) \<leftarrow> get_str [] p;
     (x, p) \<leftarrow> get_i32 0 p;
     (y, p) \<leftarrow> get_i32 0 p;
     if ChkRWError p then Some None
     else do {
       (priv, p) \<leftarrow> get_or get_i32 0 0 p;
       (uid, p) \<leftarrow> get_or get_i32 0 0 p;
       Some (Some (COME_BACK (default_start
         \<lparr>sc_networkId := nid, sc_originNetworkId := orig, sc_success := True,
          sc_cursorPos := \<lparr>cx = x, cy = y\<rparr>, sc_extra := no_data\<lparr>sd_priv := priv\<rparr>,
          sc_uid := uid\<rparr>))) } }"

definition decode_come_back_options :: "net_id \<Rightarrow> net_packet \<Rightarrow> CooperateEvent option option" where
  "decode_come_back_options nid p = do {
     (orig, p) \<leftarrow> get_str [] p;
     (x, p) \<leftarrow> get_i32 (- 1) p;
     (y, p) \<leftarrow> get_i32 (- 1) p;
     (did, p) \<leftarrow> get_i32 (- 1) p;
     if ChkRWError p then Some None
     else do {
       (priv, p) \<leftarrow> get_or get_i32 0 0 p;
       Some (Some (COME_BACK_WITH_OPTIONS (default_options
         \<lparr>co_networkId := nid, co_originNetworkId := orig, co_success := True,
          co_options := \<lparr>displayX = x, displayY = y, displayId = did\<rparr>,
          co_extra := no_data\<lparr>sd_priv := priv\<rparr>\<rparr>))) } }"

definition decode_relay :: "net_id \<Rightarrow> net_packet \<Rightarrow> CooperateEvent option option" where
  "decode_relay nid p = do {
     (target, p) \<leftarrow> get_str [] p;
     if ChkRWError p then Some None
     else do {
       (ps, p) \<leftarrow> get_or get_i32 (- 1) (- 1) p;
       (ts, p) \<leftarrow> get_or get_i32 (- 1) (- 1) p;
       (uid, p) \<leftarrow> get_or get_i32 0 0 p;
       (user, p) \<leftarrow> get_or get_i32 (- 1) (- 1) p;
       (acc, p) \<leftarrow> get_or get_str [] [] p;
       (check, p) \<leftarrow> get_or get_bool True False p;
       Some (Some (RELAY (default_relay
         \<lparr>rc_networkId := nid, rc_targetNetworkId := target, rc_normal := True,
          rc_pointerSpeed := ps, rc_touchPadSpeed := ts, rc_uid := uid, rc_userId := user,
          rc_accountId := acc, rc_needCheckSameAccount := check\<rparr>))) } }"

definition decode_relay_options :: "net_id \<Rightarrow> net_packet \<Rightarrow> CooperateEvent option option" where
  "decode_relay_options nid p = do {
     (target, p) \<leftarrow> get_str [] p;
     if ChkRWError p then Some None
     else do {
       (ps, p) \<leftarrow> get_or get_i32 (- 1) (- 1) p;
       (ts, p) \<leftarrow> get_or get_i32 (- 1) (- 1) p;
       (user, p) \<leftarrow> get_or get_i32 (- 1) (- 1) p;
       (acc, p) \<leftarrow> get_or get_str [] [] p;
       (check, p) \<leftarrow> get_or get_bool True False p;
       Some (Some (RELAY_WITHOPTIONS (default_relay
         \<lparr>rc_networkId := nid, rc_targetNetworkId := target, rc_normal := True,
          rc_pointerSpeed := ps, rc_touchPadSpeed := ts, rc_userId := user,
          rc_accountId := acc, rc_needCheckSameAccount := check\<rparr>))) } }"

definition decode_relay_finish :: "net_id \<Rightarrow> net_packet \<Rightarrow> CooperateEvent option option" where
  "decode_relay_finish nid p = do {
     (target, p) \<leftarrow> get_str [] p;
     (normal, p) \<leftarrow> get_bool False p;
     if ChkRWError p then Some None
     else do {
       (uid, p) \<leftarrow> get_or get_i32 0 0 p;
       Some (Some (RELAY_FINISHED (default_relay
         \<lparr>rc_networkId := nid, rc_targetNetworkId := target, rc_normal := normal, rc_uid := uid\<rparr>))) } }"

definition decode_relay_options_finish :: "net_id \<Rightarrow> net_packet \<Rightarrow> CooperateEvent option option" where
  "decode_relay_options_finish nid p = do {
     (target, p) \<leftarrow> get_str [] p;
     (normal, p) \<leftarrow> get_bool False p;
     if ChkRWError p then Some None
     else Some (Some (RELAY_WITHOPTIONS_FINISHED (default_relay
       \<lparr>rc_networkId := nid, rc_targetNetworkId := target, rc_normal := normal\<rparr>))) }"

definition decode_two_ids :: "net_packet \<Rightarrow> ((net_id \<times> net_id) option \<times> net_packet) option" where
  "decode_two_ids p = do {
     (nid, p) \<leftarrow> get_str [] p;
     (rid, p) \<leftarrow> get_str [] p;
     Some (if ChkRWError p then None else Some (nid, rid), p) }"

definition decode_subscribe :: "net_packet \<Rightarrow> CooperateEvent option option" where
  "decode_subscribe p = do {
     (ids, p) \<leftarrow> decode_two_ids p;
     Some (map_option (\<lambda>(nid, rid).
       SUBSCRIBE_MOUSE_LOCATION \<lparr>sm_networkId = nid, sm_remoteNetworkId = rid\<rparr>) ids) }"

definition decode_unsubscribe :: "net_packet \<Rightarrow> CooperateEvent option option" where
  "decode_unsubscribe p = do {
     (ids, p) \<leftarrow> decode_two_ids p;
     Some (map_option (\<lambda>(nid, rid).
       UNSUBSCRIBE_MOUSE_LOCATION \<lparr>sm_networkId = nid, sm_remoteNetworkId = rid\<rparr>) ids) }"

definition decode_reply :: "net_packet \<Rightarrow> DSoftbusReplySubscribeMouseLocation option option" where
  "decode_reply p = do {
     (nid, p) \<leftarrow> get_str [] p;
     (rid, p) \<leftarrow> get_str [] p;
     (res, p) \<leftarrow> get_bool False p;
     Some (if ChkRWError p then None
       else Some \<lparr>rs_networkId = nid, rs_remoteNetworkId = rid, rs_result = res\<rparr>) }"

definition decode_reply_subscribe :: "net_packet \<Rightarrow> CooperateEvent option option" where
  "decode_reply_subscribe p = map_option (map_option REPLY_SUBSCRIBE_MOUSE_LOCATION) (decode_reply p)"

definition decode_reply_unsubscribe :: "net_packet \<Rightarrow> CooperateEvent option option" where
  "decode_reply_unsubscribe p = map_option (map_option REPLY_UNSUBSCRIBE_MOUSE_LOCATION) (decode_reply p)"

definition decode_location :: "net_packet \<Rightarrow> CooperateEvent option option" where
  "decode_location p = do {
     (nid, p) \<leftarrow> get_str [] p;
     (rid, p) \<leftarrow> get_str [] p;
     (x, p) \<leftarrow> get_i32 (- 1) p;
     (y, p) \<leftarrow> get_i32 (- 1) p;
     (w, p) \<leftarrow> get_i32 (- 1) p;
     (h, p) \<leftarrow> get_i32 (- 1) p;
     Some (if ChkRWError p then None
       else Some (MOUSE_LOCATION \<lparr>ml_networkId = nid, ml_remoteNetworkId = rid, mouseLocation =
         \<lparr>li_displayX = x, li_displayY = y, li_displayWidth = w, li_displayHeight = h\<rparr>\<rparr>)) }"

text \<open>
  \<open>DeserializeDevice\<close> reuses its locals \<open>data\<close> and \<open>str\<close>, so a read that fails repeats the
  previous value; the error status then makes the caller drop the packet.
\<close>

definition DeserializeDevice :: "net_packet \<Rightarrow> (IDevice option \<times> net_packet) option" where
  "DeserializeDevice p = do {
     (did, p) \<leftarrow> get_i32 0 p;
     (path, p) \<leftarrow> get_str [] p;
     (sys, p) \<leftarrow> get_str path p;
     (bus, p) \<leftarrow> get_i32 did p;
     (vendor, p) \<leftarrow> get_i32 bus p;
     (product, p) \<leftarrow> get_i32 vendor p;
     (version, p) \<leftarrow> get_i32 product p;
     (name, p) \<leftarrow> get_str sys p;
     (phys, p) \<leftarrow> get_str name p;
     (uniq, p) \<leftarrow> get_str phys p;
     (pointer, p) \<leftarrow> get_bool False p;
     (keyboard, p) \<leftarrow> get_bool False p;
     (kind, p) \<leftarrow> get_i32 0 p;
     Some (if ChkRWError p then None
       else Some \<lparr>dev_id = did, devPath = path, sysPath = sys, dev_bus = bus, dev_vendor = vendor,
         dev_product = product, dev_version = version, dev_name = name, dev_phys = phys,
         dev_uniq = uniq, isPointerDevice = pointer, dev_isKeyboard = keyboard,
         keyboardType = kind\<rparr>, p) }"

fun deserialize_all :: "nat \<Rightarrow> net_packet \<Rightarrow> (IDevice list option \<times> net_packet) option" where
  "deserialize_all 0 p = Some (Some [], p)"
| "deserialize_all (Suc n) p = do {
     (d, p) \<leftarrow> DeserializeDevice p;
     case d of
       None \<Rightarrow> Some (None, p)
     | Some dev \<Rightarrow> do {
         (ds, p) \<leftarrow> deserialize_all n p;
         Some (map_option ((#) dev) ds, p) } }"

definition MAX_INPUT_DEV_NUM :: int where
  "MAX_INPUT_DEV_NUM = 100"

definition decode_devices :: "net_id \<Rightarrow> net_packet \<Rightarrow> CooperateEvent option option" where
  "decode_devices nid p = do {
     (n, p) \<leftarrow> get_i32 (- 1) p;
     if sint n \<le> 0 \<or> MAX_INPUT_DEV_NUM \<le> sint n then Some None
     else do {
       (ds, p) \<leftarrow> deserialize_all (nat (sint n)) p;
       Some (map_option (\<lambda>ds. INPUT_DEV_SYNC \<lparr>si_networkId = nid, si_devices = ds\<rparr>) ds) } }"

definition decode_hot_plug :: "net_packet \<Rightarrow> CooperateEvent option option" where
  "decode_hot_plug p = do {
     (ty, p) \<leftarrow> get_i32 0 p;
     (d, p) \<leftarrow> DeserializeDevice p;
     Some (map_option (\<lambda>dev. INPUT_DEV_HOT_PLUG
       \<lparr>dh_networkId = [], dh_type = ty, dh_device = dev\<rparr>) d) }"

section \<open>Dispatch\<close>

definition decode :: "net_id \<Rightarrow> net_packet \<Rightarrow> CooperateEvent option option option" where
  "decode nid p =
     (let mid = msgId p in
      if mid = DSOFTBUS_START_COOPERATE then Some (decode_start nid p)
      else if mid = DSOFTBUS_STOP_COOPERATE then
        Some (Some (Some (REMOTE_STOP ((board_event nid)\<lparr>bo_normal := True\<rparr>))))
      else if mid = DSOFTBUS_COME_BACK then Some (decode_come_back nid p)
      else if mid = DSOFTBUS_COME_BACK_WITH_OPTIONS then Some (decode_come_back_options nid p)
      else if mid = DSOFTBUS_RELAY_COOPERATE then Some (decode_relay nid p)
      else if mid = DSOFTBUS_RELAY_COOPERATE_FINISHED then Some (decode_relay_finish nid p)
      else if mid = DSOFTBUS_SUBSCRIBE_MOUSE_LOCATION then Some (decode_subscribe p)
      else if mid = DSOFTBUS_UNSUBSCRIBE_MOUSE_LOCATION then Some (decode_unsubscribe p)
      else if mid = DSOFTBUS_REPLY_SUBSCRIBE_MOUSE_LOCATION then Some (decode_reply_subscribe p)
      else if mid = DSOFTBUS_REPLY_UNSUBSCRIBE_MOUSE_LOCATION then Some (decode_reply_unsubscribe p)
      else if mid = DSOFTBUS_MOUSE_LOCATION then Some (decode_location p)
      else if mid = DSOFTBUS_INPUT_DEV_SYNC then Some (decode_devices nid p)
      else if mid = DSOFTBUS_INPUT_DEV_HOT_PLUG then Some (decode_hot_plug p)
      else if mid = DSOFTBUS_COOPERATE_WITH_OPTIONS then Some (decode_options nid p)
      else if mid = DSOFTBUS_RELAY_COOPERATE_WITHOPTIONS then Some (decode_relay_options nid p)
      else if mid = DSOFTBUS_RELAY_COOPERATE_WITHOPTIONS_FINISHED then Some (decode_relay_options_finish nid p)
      else None)"

definition RemoteStartCooperate :: "env \<Rightarrow> ('s world_scheme, unit) state" where
  "RemoteStartCooperate E = do {
     loaded \<leftarrow> ask (MotionDragLoaded E);
     only_if loaded (emit MotionDragButtonDown) }"

text \<open>
  \<open>OnPacket\<close>: \<open>Some handled\<close>, or \<open>None\<close> where the behaviour is undefined.
\<close>

definition OnPacket :: "env \<Rightarrow> net_id \<Rightarrow> net_packet \<Rightarrow> ('s world_scheme, bool option) state" where
  "OnPacket E nid p =
     (case decode nid p of
        None \<Rightarrow> pure (Some False)
      | Some None \<Rightarrow> pure None
      | Some (Some None) \<Rightarrow> pure (Some True)
      | Some (Some (Some e)) \<Rightarrow> do {
          SendEvent e;
          only_if (msgId p = DSOFTBUS_START_COOPERATE \<or> msgId p = DSOFTBUS_COOPERATE_WITH_OPTIONS)
            (RemoteStartCooperate E);
          pure (Some True) })"

section \<open>Frames\<close>

lemma ds_session_frame [frame]:
  assumes "quiet f"
  shows "unchanged f (CheckDeviceOnline E nid)" "unchanged f (OpenSession E nid)"
    "unchanged f (CloseSession nid)" "unchanged f CloseAllSessions" "unchanged f (RemoteStartCooperate E)"
  unfolding CheckDeviceOnline_def OpenSession_def CloseSession_def CloseAllSessions_def
    RemoteStartCooperate_def
  by (intro frame assms)+

text \<open>The operations that may report an event to the worker.\<close>

lemma ds_event_frame [frame]:
  assumes "quiet f" "mailless f"
  shows "unchanged f (SendEvent e)" "unchanged f (OnBind nid)" "unchanged f (OnConnected nid)"
    "unchanged f (OnShutdown nid)" "unchanged f (OnCommunicationFailure nid)"
    "unchanged f (ds_send E nid pkt)" "unchanged f (ds_post E nid pkt)" "unchanged f (OnPacket E nid p)"
  unfolding SendEvent_def OnBind_def OnConnected_def OnShutdown_def OnCommunicationFailure_def ds_send_def
    ds_post_def OnPacket_def
  by (intro frame assms)+

lemma ds_message_frame [frame]:
  assumes "quiet f" "mailless f"
  shows "unchanged f (ds_StartCooperate E nid sc)" "unchanged f (ds_StartCooperateWithOptions E nid co)"
    "unchanged f (ds_StopCooperate E nid)" "unchanged f (ds_ComeBack E nid sc)"
    "unchanged f (ds_ComeBackWithOptions E nid co)" "unchanged f (ds_RelayCooperate E nid rc)"
    "unchanged f (ds_RelayCooperateFinish E nid rc)" "unchanged f (ds_RelayCooperateWithOptions E nid rc)"
    "unchanged f (ds_RelayCooperateWithOptionsFinish E nid rc)"
  unfolding ds_StartCooperate_def ds_StartCooperateWithOptions_def ds_StopCooperate_def ds_ComeBack_def
    ds_ComeBackWithOptions_def ds_RelayCooperate_def ds_RelayCooperateFinish_def
    ds_RelayCooperateWithOptions_def ds_RelayCooperateWithOptionsFinish_def
  by (intro frame assms)+

section \<open>Reading back what was written\<close>

lemmas wire_steps =
  str_codec.bind_image [where f = "case_prod g" for g, unfolded prod.case]
  int_codec.bind_image [where f = "case_prod g" for g, unfolded prod.case]
  bool_codec.bind_image [where f = "case_prod g" for g, unfolded prod.case]
  str_codec.bind_last [where f = "case_prod g" for g, unfolded prod.case]
  int_codec.bind_last [where f = "case_prod g" for g, unfolded prod.case]
  bool_codec.bind_last [where f = "case_prod g" for g, unfolded prod.case]
  str_codec.bind_or_image [where f = "case_prod g" for g, unfolded prod.case]
  int_codec.bind_or_image [where f = "case_prod g" for g, unfolded prod.case]
  bool_codec.bind_or_image [where f = "case_prod g" for g, unfolded prod.case]
  str_codec.bind_or_last [where f = "case_prod g" for g, unfolded prod.case]
  int_codec.bind_or_last [where f = "case_prod g" for g, unfolded prod.case]
  bool_codec.bind_or_last [where f = "case_prod g" for g, unfolded prod.case]

lemmas wire_ends =
  str_codec.bind_end [where f = "case_prod g" for g, unfolded prod.case, OF disjI1]
  int_codec.bind_end [where f = "case_prod g" for g, unfolded prod.case, OF disjI1]
  bool_codec.bind_end [where f = "case_prod g" for g, unfolded prod.case, OF disjI1]
  str_codec.bind_or_end [where f = "case_prod g" for g, unfolded prod.case, OF disjI1]
  int_codec.bind_or_end [where f = "case_prod g" for g, unfolded prod.case, OF disjI1]
  bool_codec.bind_or_end [where f = "case_prod g" for g, unfolded prod.case, OF disjI1]
  str_codec.bind_end [where f = "case_prod g" for g, unfolded prod.case, OF disjI2]
  int_codec.bind_end [where f = "case_prod g" for g, unfolded prod.case, OF disjI2]
  bool_codec.bind_end [where f = "case_prod g" for g, unfolded prod.case, OF disjI2]
  str_codec.bind_or_end [where f = "case_prod g" for g, unfolded prod.case, OF disjI2]
  int_codec.bind_or_end [where f = "case_prod g" for g, unfolded prod.case, OF disjI2]
  bool_codec.bind_or_end [where f = "case_prod g" for g, unfolded prod.case, OF disjI2]

lemma reads_if: "reads b bs \<Longrightarrow> y = r \<Longrightarrow> (if ChkRWError b then x else y) = r"
  by (simp add: reads_def)

lemma exhausted_if: "exhausted b \<Longrightarrow> x = r \<Longrightarrow> (if ChkRWError b then x else y) = r"
  by (simp add: exhausted_def)

text \<open>A string that a packet can carry.\<close>

definition plain :: "string \<Rightarrow> bool" where
  "plain s \<longleftrightarrow> NUL \<notin> set s \<and> length s \<le> 1000"

lemma plainD: "plain s \<Longrightarrow> NUL \<notin> set s" "plain s \<Longrightarrow> length s \<le> 1000"
  by (simp_all add: plain_def)

lemma msgId_encode [simp]: "msgId (encode mid bss) = mid"
  by (simp add: encode_def)

text \<open>What a peer receives of an event: the sender is the session's, the rest the packet's.\<close>

definition received_start :: "net_id \<Rightarrow> DSoftbusStartCooperate \<Rightarrow> DSoftbusStartCooperate" where
  "received_start nid ev = ev\<lparr>sc_networkId := nid, sc_extra := \<lparr>sd_flag = 0, sd_priv = sd_priv (sc_extra ev)\<rparr>,
     sc_errCode := COORDINATION_OK\<rparr>"

definition received_options :: "net_id \<Rightarrow> DSoftbusCooperateOptions \<Rightarrow> DSoftbusCooperateOptions" where
  "received_options nid ev = ev\<lparr>co_networkId := nid, co_extra := \<lparr>sd_flag = 0, sd_priv = sd_priv (co_extra ev)\<rparr>,
     co_errCode := COORDINATION_OK\<rparr>"

lemma decode_start_packet:
  assumes "plain (sc_originNetworkId ev)" "plain (sc_accountId ev)"
  shows "decode_start nid (start_packet ev) = Some (Some (REMOTE_START (received_start nid ev)))"
proof -
  have r: "reads (start_packet ev) (concat
    [str_bytes (sc_originNetworkId ev), i32_bytes (cx (sc_cursorPos ev)), i32_bytes (cy (sc_cursorPos ev)),
      bool_bytes (sc_success ev), i32_bytes (sd_priv (sc_extra ev)), i32_bytes (sc_pointerSpeed ev),
      i32_bytes (sc_touchPadSpeed ev), i32_bytes (sc_uid ev), i32_bytes (sc_userId ev),
      str_bytes (sc_accountId ev), bool_bytes (sc_needCheckSameAccount ev)])"
    unfolding start_packet_def by (rule encode_reads) (use assms [THEN plainD(2)] in simp_all)
  note r = r [simplified]
  show ?thesis
    unfolding decode_start_def
    apply (insert r)
    apply ((rule wire_steps, assumption, (simp add: assms [THEN plainD(1)]; fail)) | (rule reads_if, assumption))+
    by (simp add: received_start_def default_start_def no_data_def)
qed

lemma decode_options_packet:
  assumes "plain (co_originNetworkId ev)" "plain (co_accountId ev)"
  shows "decode_options nid (options_packet ev) = Some (Some (REMOTE_WITH_OPTIONS (received_options nid ev)))"
proof -
  have r: "reads (options_packet ev) (concat
    [str_bytes (co_originNetworkId ev), i32_bytes (displayX (co_options ev)),
      i32_bytes (displayY (co_options ev)), i32_bytes (displayId (co_options ev)),
      bool_bytes (co_success ev), i32_bytes (sd_priv (co_extra ev)), i32_bytes (co_pointerSpeed ev),
      i32_bytes (co_touchPadSpeed ev), i32_bytes (co_userId ev),
      str_bytes (co_accountId ev), bool_bytes (co_needCheckSameAccount ev)])"
    unfolding options_packet_def by (rule encode_reads) (use assms [THEN plainD(2)] in simp_all)
  show ?thesis
    unfolding decode_options_def
    apply (insert r [simplified])
    apply ((rule wire_steps, assumption, (simp add: assms [THEN plainD(1)]; fail)) | (rule reads_if, assumption))+
    by (simp add: received_options_def default_options_def no_data_def)
qed

lemma decode_come_back_packet:
  assumes "plain (sc_originNetworkId ev)"
  shows "decode_come_back nid (come_back_packet ev) = Some (Some (COME_BACK (default_start
    \<lparr>sc_networkId := nid, sc_originNetworkId := sc_originNetworkId ev, sc_success := True,
     sc_cursorPos := sc_cursorPos ev, sc_extra := \<lparr>sd_flag = 0, sd_priv = sd_priv (sc_extra ev)\<rparr>,
     sc_uid := sc_uid ev\<rparr>)))"
proof -
  have r: "reads (come_back_packet ev) (concat
    [str_bytes (sc_originNetworkId ev), i32_bytes (cx (sc_cursorPos ev)), i32_bytes (cy (sc_cursorPos ev)),
      i32_bytes (sd_priv (sc_extra ev)), i32_bytes (sc_uid ev)])"
    unfolding come_back_packet_def by (rule encode_reads) (use assms [THEN plainD(2)] in simp_all)
  show ?thesis
    unfolding decode_come_back_def
    apply (insert r [simplified])
    apply ((rule wire_steps, assumption, (simp add: assms [THEN plainD(1)]; fail)) | (rule reads_if, assumption))+
    by (simp add: no_data_def)
qed

lemma decode_come_back_options_packet:
  assumes "plain (co_originNetworkId ev)"
  shows "decode_come_back_options nid (come_back_options_packet ev) = Some (Some (COME_BACK_WITH_OPTIONS
    (default_options \<lparr>co_networkId := nid, co_originNetworkId := co_originNetworkId ev, co_success := True,
     co_options := co_options ev, co_extra := \<lparr>sd_flag = 0, sd_priv = sd_priv (co_extra ev)\<rparr>\<rparr>)))"
proof -
  have r: "reads (come_back_options_packet ev) (concat
    [str_bytes (co_originNetworkId ev), i32_bytes (displayX (co_options ev)),
      i32_bytes (displayY (co_options ev)), i32_bytes (displayId (co_options ev)),
      i32_bytes (sd_priv (co_extra ev))])"
    unfolding come_back_options_packet_def by (rule encode_reads) (use assms [THEN plainD(2)] in simp_all)
  show ?thesis
    unfolding decode_come_back_options_def
    apply (insert r [simplified])
    apply ((rule wire_steps, assumption, (simp add: assms [THEN plainD(1)]; fail)) | (rule reads_if, assumption))+
    by (simp add: no_data_def)
qed

lemma decode_relay_packet:
  assumes "plain (rc_targetNetworkId ev)" "plain (rc_accountId ev)"
  shows "decode_relay nid (relay_packet ev)
    = Some (Some (RELAY (ev\<lparr>rc_networkId := nid, rc_normal := True\<rparr>)))"
proof -
  have r: "reads (relay_packet ev) (concat
    [str_bytes (rc_targetNetworkId ev), i32_bytes (rc_pointerSpeed ev), i32_bytes (rc_touchPadSpeed ev),
      i32_bytes (rc_uid ev), i32_bytes (rc_userId ev), str_bytes (rc_accountId ev),
      bool_bytes (rc_needCheckSameAccount ev)])"
    unfolding relay_packet_def by (rule encode_reads) (use assms [THEN plainD(2)] in simp_all)
  show ?thesis
    unfolding decode_relay_def
    apply (insert r [simplified])
    apply ((rule wire_steps, assumption, (simp add: assms [THEN plainD(1)]; fail)) | (rule reads_if, assumption))+
    by (simp add: default_relay_def)
qed

lemma decode_relay_options_packet:
  assumes "plain (rc_targetNetworkId ev)" "plain (rc_accountId ev)"
  shows "decode_relay_options nid (relay_options_packet ev)
    = Some (Some (RELAY_WITHOPTIONS (ev\<lparr>rc_networkId := nid, rc_normal := True, rc_uid := 0\<rparr>)))"
proof -
  have r: "reads (relay_options_packet ev) (concat
    [str_bytes (rc_targetNetworkId ev), i32_bytes (rc_pointerSpeed ev), i32_bytes (rc_touchPadSpeed ev),
      i32_bytes (rc_userId ev), str_bytes (rc_accountId ev), bool_bytes (rc_needCheckSameAccount ev)])"
    unfolding relay_options_packet_def by (rule encode_reads) (use assms [THEN plainD(2)] in simp_all)
  show ?thesis
    unfolding decode_relay_options_def
    apply (insert r [simplified])
    apply ((rule wire_steps, assumption, (simp add: assms [THEN plainD(1)]; fail)) | (rule reads_if, assumption))+
    by (simp add: default_relay_def)
qed

lemma decode_relay_finish_packets:
  assumes "plain (rc_targetNetworkId ev)"
  shows "decode_relay_finish nid (relay_finish_packet ev) = Some (Some (RELAY_FINISHED (default_relay
      \<lparr>rc_networkId := nid, rc_targetNetworkId := rc_targetNetworkId ev, rc_normal := rc_normal ev,
       rc_uid := rc_uid ev\<rparr>)))"
    "decode_relay_options_finish nid (relay_options_finish_packet ev)
      = Some (Some (RELAY_WITHOPTIONS_FINISHED (default_relay \<lparr>rc_networkId := nid,
          rc_targetNetworkId := rc_targetNetworkId ev, rc_normal := rc_normal ev\<rparr>)))"
proof -
  have r: "reads (relay_finish_packet ev) (concat
    [str_bytes (rc_targetNetworkId ev), bool_bytes (rc_normal ev), i32_bytes (rc_uid ev)])"
    unfolding relay_finish_packet_def by (rule encode_reads) (use assms [THEN plainD(2)] in simp_all)
  show "decode_relay_finish nid (relay_finish_packet ev) = Some (Some (RELAY_FINISHED (default_relay
      \<lparr>rc_networkId := nid, rc_targetNetworkId := rc_targetNetworkId ev, rc_normal := rc_normal ev,
       rc_uid := rc_uid ev\<rparr>)))"
    unfolding decode_relay_finish_def
    apply (insert r [simplified])
    apply ((rule wire_steps, assumption, (simp add: assms [THEN plainD(1)]; fail)) | (rule reads_if, assumption))+
    by simp
  have r: "reads (relay_options_finish_packet ev) (concat
    [str_bytes (rc_targetNetworkId ev), bool_bytes (rc_normal ev)])"
    unfolding relay_options_finish_packet_def
    by (rule encode_reads) (use assms [THEN plainD(2)] in simp_all)
  show "decode_relay_options_finish nid (relay_options_finish_packet ev)
      = Some (Some (RELAY_WITHOPTIONS_FINISHED (default_relay \<lparr>rc_networkId := nid,
          rc_targetNetworkId := rc_targetNetworkId ev, rc_normal := rc_normal ev\<rparr>)))"
    unfolding decode_relay_options_finish_def
    apply (insert r [simplified])
    apply ((rule wire_steps, assumption, (simp add: assms [THEN plainD(1)]; fail)) | (rule reads_if, assumption))+
    by simp
qed

lemma packet_ids [simp]:
  "msgId (start_packet sc) = DSOFTBUS_START_COOPERATE"
  "msgId (options_packet co) = DSOFTBUS_COOPERATE_WITH_OPTIONS"
  "msgId (come_back_packet sc) = DSOFTBUS_COME_BACK"
  "msgId (come_back_options_packet co) = DSOFTBUS_COME_BACK_WITH_OPTIONS"
  "msgId (relay_packet rc) = DSOFTBUS_RELAY_COOPERATE"
  "msgId (relay_options_packet rc) = DSOFTBUS_RELAY_COOPERATE_WITHOPTIONS"
  "msgId (relay_finish_packet rc) = DSOFTBUS_RELAY_COOPERATE_FINISHED"
  "msgId (relay_options_finish_packet rc) = DSOFTBUS_RELAY_COOPERATE_WITHOPTIONS_FINISHED"
  by (simp_all add: start_packet_def options_packet_def come_back_packet_def
      come_back_options_packet_def relay_packet_def relay_options_packet_def
      relay_finish_packet_def relay_options_finish_packet_def)

lemmas decode_packets = decode_start_packet decode_options_packet decode_come_back_packet
  decode_come_back_options_packet decode_relay_packet decode_relay_options_packet
  decode_relay_finish_packets

text \<open>
  C29. The eight messages that hand over control (start, come back, relay and its answer, each
  plainly and with options; of the sixteen of the protocol) are decoded by the peer to the event
  that was sent, as far as it is sent, if their ids and accounts are plain strings. The network id
  is always the session's. Start messages carry everything else but the flag and the error code,
  which are 0 and "no error". Come-back messages carry only the origin, the position and the private
  data, plainly also the uid: success is true, and speeds, user, account, the wish to have it checked,
  flag and error code have their defaults. A relay carries all but its outcome, which is true, and
  with options not the uid. The answer to a relay carries its target and its outcome, plainly also the
  uid, and the rest has its defaults.
\<close>

theorem control_messages_roundtrip:
  assumes "plain (sc_originNetworkId sc)" "plain (sc_accountId sc)"
    and "plain (co_originNetworkId co)" "plain (co_accountId co)"
    and "plain (rc_targetNetworkId rc)" "plain (rc_accountId rc)"
  shows "decode nid (start_packet sc) = Some (Some (Some (REMOTE_START (received_start nid sc))))
    \<and> decode nid (options_packet co) = Some (Some (Some (REMOTE_WITH_OPTIONS (received_options nid co))))
    \<and> decode nid (come_back_packet sc) = Some (Some (Some (COME_BACK (default_start
        \<lparr>sc_networkId := nid, sc_originNetworkId := sc_originNetworkId sc, sc_success := True,
         sc_cursorPos := sc_cursorPos sc, sc_extra := \<lparr>sd_flag = 0, sd_priv = sd_priv (sc_extra sc)\<rparr>,
         sc_uid := sc_uid sc\<rparr>))))
    \<and> decode nid (come_back_options_packet co) = Some (Some (Some (COME_BACK_WITH_OPTIONS (default_options
        \<lparr>co_networkId := nid, co_originNetworkId := co_originNetworkId co, co_success := True,
         co_options := co_options co, co_extra := \<lparr>sd_flag = 0, sd_priv = sd_priv (co_extra co)\<rparr>\<rparr>))))
    \<and> decode nid (relay_packet rc) = Some (Some (Some (RELAY (rc\<lparr>rc_networkId := nid, rc_normal := True\<rparr>))))
    \<and> decode nid (relay_options_packet rc)
        = Some (Some (Some (RELAY_WITHOPTIONS (rc\<lparr>rc_networkId := nid, rc_normal := True, rc_uid := 0\<rparr>))))
    \<and> decode nid (relay_finish_packet rc) = Some (Some (Some (RELAY_FINISHED (default_relay
        \<lparr>rc_networkId := nid, rc_targetNetworkId := rc_targetNetworkId rc, rc_normal := rc_normal rc,
         rc_uid := rc_uid rc\<rparr>))))
    \<and> decode nid (relay_options_finish_packet rc) = Some (Some (Some (RELAY_WITHOPTIONS_FINISHED
        (default_relay \<lparr>rc_networkId := nid, rc_targetNetworkId := rc_targetNetworkId rc,
          rc_normal := rc_normal rc\<rparr>))))"
  using assms by (simp add: decode_def decode_packets)

theorem control_messages_roundtrip_witness:
  "decode ''peer'' (start_packet (default_start \<lparr>sc_originNetworkId := ''a'', sc_accountId := ''b'',
       sc_success := True\<rparr>))
     = Some (Some (Some (REMOTE_START (default_start \<lparr>sc_networkId := ''peer'',
         sc_originNetworkId := ''a'', sc_accountId := ''b'', sc_success := True\<rparr>))))"
  using control_messages_roundtrip [of "default_start \<lparr>sc_originNetworkId := ''a'',
      sc_accountId := ''b'', sc_success := True\<rparr>" default_options default_relay "''peer''"]
  by (simp add: plain_def default_start_def default_options_def default_relay_def received_start_def
      no_data_def)

text \<open>
  A peer of an older version sends only the first fields. The rest then get fixed values,
  and these switch the account check off, whether or not the two devices share an account.
\<close>

theorem older_peer_defaults:
  assumes "plain orig"
  shows "decode nid (encode DSOFTBUS_START_COOPERATE
        [str_bytes orig, i32_bytes x, i32_bytes y, bool_bytes ok])
      = Some (Some (Some (REMOTE_START (default_start \<lparr>sc_networkId := nid, sc_originNetworkId := orig,
          sc_success := ok, sc_cursorPos := \<lparr>cx = x, cy = y\<rparr>, sc_needCheckSameAccount := False\<rparr>))))
    \<and> decode nid (encode DSOFTBUS_COOPERATE_WITH_OPTIONS
        [str_bytes orig, i32_bytes x, i32_bytes y, i32_bytes d, bool_bytes ok])
      = Some (Some (Some (REMOTE_WITH_OPTIONS (default_options \<lparr>co_networkId := nid,
          co_originNetworkId := orig, co_success := ok,
          co_options := \<lparr>displayX = x, displayY = y, displayId = d\<rparr>, co_needCheckSameAccount := False\<rparr>))))
    \<and> decode nid (encode DSOFTBUS_RELAY_COOPERATE [str_bytes orig])
      = Some (Some (Some (RELAY (default_relay \<lparr>rc_networkId := nid, rc_targetNetworkId := orig,
          rc_normal := True, rc_needCheckSameAccount := False\<rparr>))))"
proof (intro conjI)
  note plain = assms [THEN plainD(1)]
  let ?p = "encode DSOFTBUS_START_COOPERATE [str_bytes orig, i32_bytes x, i32_bytes y, bool_bytes ok]"
  have r: "reads ?p (concat [str_bytes orig, i32_bytes x, i32_bytes y, bool_bytes ok])"
    by (rule encode_reads) (use assms [THEN plainD(2)] in simp_all)
  have "decode_start nid ?p = Some (Some (REMOTE_START (default_start \<lparr>sc_networkId := nid,
      sc_originNetworkId := orig, sc_success := ok, sc_cursorPos := \<lparr>cx = x, cy = y\<rparr>,
      sc_needCheckSameAccount := False\<rparr>)))"
    unfolding decode_start_def
    apply (insert r [simplified])
    apply ((rule wire_steps, assumption, (simp add: plain; fail)) | (rule reads_if, assumption)
        | (rule wire_ends, assumption))+
    by (simp add: default_start_def no_data_def)
  then show "decode nid ?p = Some (Some (Some (REMOTE_START (default_start \<lparr>sc_networkId := nid,
      sc_originNetworkId := orig, sc_success := ok, sc_cursorPos := \<lparr>cx = x, cy = y\<rparr>,
      sc_needCheckSameAccount := False\<rparr>))))"
    by (simp add: decode_def)
  let ?q = "encode DSOFTBUS_COOPERATE_WITH_OPTIONS
    [str_bytes orig, i32_bytes x, i32_bytes y, i32_bytes d, bool_bytes ok]"
  have r: "reads ?q (concat [str_bytes orig, i32_bytes x, i32_bytes y, i32_bytes d, bool_bytes ok])"
    by (rule encode_reads) (use assms [THEN plainD(2)] in simp_all)
  have "decode_options nid ?q = Some (Some (REMOTE_WITH_OPTIONS (default_options \<lparr>co_networkId := nid,
      co_originNetworkId := orig, co_success := ok,
      co_options := \<lparr>displayX = x, displayY = y, displayId = d\<rparr>, co_needCheckSameAccount := False\<rparr>)))"
    unfolding decode_options_def
    apply (insert r [simplified])
    apply ((rule wire_steps, assumption, (simp add: plain; fail)) | (rule reads_if, assumption)
        | (rule wire_ends, assumption))+
    by (simp add: default_options_def no_data_def)
  then show "decode nid ?q = Some (Some (Some (REMOTE_WITH_OPTIONS (default_options \<lparr>co_networkId := nid,
      co_originNetworkId := orig, co_success := ok,
      co_options := \<lparr>displayX = x, displayY = y, displayId = d\<rparr>, co_needCheckSameAccount := False\<rparr>))))"
    by (simp add: decode_def)
  let ?r = "encode DSOFTBUS_RELAY_COOPERATE [str_bytes orig]"
  have r: "reads ?r (concat [str_bytes orig])"
    by (rule encode_reads) (use assms [THEN plainD(2)] in simp_all)
  have "decode_relay nid ?r = Some (Some (RELAY (default_relay \<lparr>rc_networkId := nid,
      rc_targetNetworkId := orig, rc_normal := True, rc_needCheckSameAccount := False\<rparr>)))"
    unfolding decode_relay_def
    apply (insert r [simplified])
    apply ((rule wire_steps, assumption, (simp add: plain; fail)) | (rule reads_if, assumption)
        | (rule wire_ends, assumption))+
    by (simp add: default_relay_def)
  then show "decode nid ?r = Some (Some (Some (RELAY (default_relay \<lparr>rc_networkId := nid,
      rc_targetNetworkId := orig, rc_normal := True, rc_needCheckSameAccount := False\<rparr>))))"
    by (simp add: decode_def)
qed

theorem older_peer_defaults_witness:
  "decode ''peer'' (encode DSOFTBUS_RELAY_COOPERATE [str_bytes ''a''])
     = Some (Some (Some (RELAY (default_relay \<lparr>rc_networkId := ''peer'', rc_targetNetworkId := ''a'',
         rc_normal := True, rc_needCheckSameAccount := False\<rparr>))))"
  using older_peer_defaults [of "''a''" "''peer''"] by (simp add: plain_def)

section \<open>Input devices on the wire\<close>

definition plain_device :: "IDevice \<Rightarrow> bool" where
  "plain_device d \<longleftrightarrow> NUL \<notin> set (devPath d) \<and> NUL \<notin> set (sysPath d) \<and> NUL \<notin> set (dev_name d)
     \<and> NUL \<notin> set (dev_phys d) \<and> NUL \<notin> set (dev_uniq d)"

definition device_image :: "IDevice \<Rightarrow> char list" where
  "device_image d = concat (device_fields d)"

lemma device_image_not_Nil [simp]: "device_image d \<noteq> []"
  by (simp add: device_image_def device_fields_def)

lemma device_fields_no_Nil [simp]: "[] \<notin> set (device_fields d)"
  by (simp add: device_fields_def)

lemma wire_str:
  assumes "reads b (str_bytes x @ rest)" "NUL \<notin> set x" "\<And>b'. reads b' rest \<Longrightarrow> P (g x b')"
  shows "P (Option.bind (get_str old b) (case_prod g))"
  using str_codec.get_image [OF assms(1,2), of old] assms(3) by auto

lemma wire_int:
  assumes "reads b (i32_bytes x @ rest)" "\<And>b'. reads b' rest \<Longrightarrow> P (g x b')"
  shows "P (Option.bind (get_i32 old b) (case_prod g))"
  using int_codec.get_image [OF assms(1), of old] assms(2) by auto

lemma wire_bool:
  assumes "reads b (bool_bytes x @ rest)" "\<And>b'. reads b' rest \<Longrightarrow> P (g x b')"
  shows "P (Option.bind (get_bool old b) (case_prod g))"
  using bool_codec.get_image [OF assms(1), of old] assms(2) by auto

lemma wire_end_str:
  assumes "reads b [] \<or> exhausted b" "\<And>b'. exhausted b' \<Longrightarrow> P (g s b')"
  shows "P (Option.bind (get_str s b) (case_prod g))"
  using str_codec.get_end [OF assms(1), of s] assms(2) by auto

lemma wire_end_int:
  assumes "reads b [] \<or> exhausted b" "\<And>b'. exhausted b' \<Longrightarrow> P (g s b')"
  shows "P (Option.bind (get_i32 s b) (case_prod g))"
  using int_codec.get_end [OF assms(1), of s] assms(2) by auto

lemma wire_end_bool:
  assumes "reads b [] \<or> exhausted b" "\<And>b'. exhausted b' \<Longrightarrow> P (g s b')"
  shows "P (Option.bind (get_bool s b) (case_prod g))"
  using bool_codec.get_end [OF assms(1), of s] assms(2) by auto

lemma DeserializeDevice_image:
  assumes "reads b (device_image d @ rest)" "plain_device d"
  shows "\<exists>b'. DeserializeDevice b = Some (Some d, b') \<and> reads b' rest"
proof -
  let ?P = "\<lambda>m. \<exists>b'. m = Some (Some d, b') \<and> reads b' rest"
  show ?thesis
    unfolding DeserializeDevice_def
    apply (insert assms(1) [unfolded device_image_def device_fields_def, simplified])
    apply ((rule wire_int [where P = ?P], assumption)
      | (rule wire_bool [where P = ?P], assumption)
      | (rule wire_str [where P = ?P], assumption,
          (insert assms(2), simp add: plain_device_def; fail)))+
    by (simp add: reads_def)
qed

lemma DeserializeDevice_short:
  assumes "reads b (i32_bytes x)"
  shows "\<exists>b'. DeserializeDevice b = Some (None, b')"
proof -
  let ?P = "\<lambda>m. \<exists>b'. m = Some (None :: IDevice option, b' :: net_packet)"
  have "reads b (i32_bytes x @ [])"
    using assms by simp
  then show ?thesis
    unfolding DeserializeDevice_def
    apply (rule wire_int [where P = ?P])
    apply (rule wire_end_str [where P = ?P], (rule disjI1, assumption))
    apply ((rule wire_end_str [where P = ?P], rule disjI2, assumption)
      | (rule wire_end_int [where P = ?P], rule disjI2, assumption)
      | (rule wire_end_bool [where P = ?P], rule disjI2, assumption))+
    by (simp add: exhausted_def)
qed

lemma deserialize_all_image:
  assumes "reads b (concat (map device_image ds) @ rest)" "list_all plain_device ds"
  shows "\<exists>b'. deserialize_all (length ds) b = Some (Some ds, b') \<and> reads b' rest"
  using assms
proof (induction ds arbitrary: b)
  case (Cons d ds)
  then obtain b' where b': "DeserializeDevice b = Some (Some d, b')"
    "reads b' (concat (map device_image ds) @ rest)"
    using DeserializeDevice_image [of b d "concat (map device_image ds) @ rest"] by auto
  obtain b'' where "deserialize_all (length ds) b' = Some (Some ds, b'')" "reads b'' rest"
    using Cons.IH [OF b'(2)] Cons.prems(2) by auto
  with b'(1) show ?case
    by simp
qed simp

lemma serialize_all_puts:
  assumes "\<not> ChkRWError (puts (concat (map device_fields ds)) pkt)"
  shows "serialize_all ds pkt = Some (puts (concat (map device_fields ds)) pkt)"
  using assms
proof (induction ds arbitrary: pkt)
  case (Cons d ds)
  have app: "puts (device_fields d @ concat (map device_fields ds)) pkt
      = puts (concat (map device_fields ds)) (puts (device_fields d) pkt)"
    by (simp add: puts_def)
  then have "\<not> ChkRWError (puts (device_fields d) pkt)"
    using Cons.prems puts_sticky by fastforce
  then show ?case
    using Cons app by (simp add: SerializeDevice_def Let_def)
qed simp

lemma concat_device_images: "concat (concat (map device_fields ds)) = concat (map device_image ds)"
  by (induction ds) (simp_all add: device_image_def)

text \<open>
  The list of input devices survives the wire: between 1 and 99 devices that fit into one
  packet are received as they were sent, in order, under the sender's network id.
\<close>

theorem device_list_roundtrip:
  assumes "ds \<noteq> []" "length ds < 100" "list_all plain_device ds"
    and "length (concat (map device_image ds)) \<le> 2044"
  shows "\<exists>pkt. serialize_all ds (puts [i32_bytes (word_of_nat (length ds))] (NetPacket DSOFTBUS_INPUT_DEV_SYNC))
      = Some pkt
    \<and> decode nid pkt = Some (Some (Some (INPUT_DEV_SYNC \<lparr>si_networkId = nid, si_devices = ds\<rparr>)))"
proof -
  let ?w = "word_of_nat (length ds) :: i32"
  let ?pkt = "encode DSOFTBUS_INPUT_DEV_SYNC (i32_bytes ?w # concat (map device_fields ds))"
  have no_Nil: "[] \<notin> set (i32_bytes ?w # concat (map device_fields ds))"
    by auto
  have eq: "?pkt = puts (concat (map device_fields ds))
      (puts [i32_bytes ?w] (NetPacket DSOFTBUS_INPUT_DEV_SYNC))"
    by (simp add: encode_def)
  have len: "length (concat (i32_bytes ?w # concat (map device_fields ds))) \<le> 2048"
    using assms(4) by (simp add: concat_device_images)
  have ok: "\<not> ChkRWError ?pkt"
    using encode_error [OF no_Nil] len by simp
  have sint: "sint ?w = int (length ds)"
    using assms(2) by (simp add: sint_uint unsigned_of_nat take_bit_nat_eq_self signed_take_bit_int_eq_self)
  have r: "reads ?pkt (i32_bytes ?w @ concat (map device_image ds))"
    using encode_reads [OF no_Nil len] by (simp add: concat_device_images)
  obtain b where b: "get_i32 (- 1) ?pkt = Some (?w, b)" "reads b (concat (map device_image ds))"
    using int_codec.get_image [OF r, of "- 1"] by auto
  then obtain b' where "deserialize_all (length ds) b = Some (Some ds, b')"
    using deserialize_all_image [of b ds "[]"] assms(3) by auto
  with b have "decode_devices nid ?pkt = Some (Some (INPUT_DEV_SYNC \<lparr>si_networkId = nid, si_devices = ds\<rparr>))"
    using assms(1,2) by (simp add: decode_devices_def sint MAX_INPUT_DEV_NUM_def)
  then have "decode nid ?pkt = Some (Some (Some (INPUT_DEV_SYNC \<lparr>si_networkId = nid, si_devices = ds\<rparr>)))"
    by (simp add: decode_def)
  then show ?thesis
    using serialize_all_puts ok unfolding eq by blast
qed

theorem device_list_roundtrip_witness:
  "\<exists>pkt. serialize_all [sample_device 3 ''mouse'', sample_device 4 ''pad'']
        (puts [i32_bytes 2] (NetPacket DSOFTBUS_INPUT_DEV_SYNC)) = Some pkt
    \<and> decode ''a'' pkt = Some (Some (Some (INPUT_DEV_SYNC
        \<lparr>si_networkId = ''a'', si_devices = [sample_device 3 ''mouse'', sample_device 4 ''pad'']\<rparr>)))"
  using device_list_roundtrip [of "[sample_device 3 ''mouse'', sample_device 4 ''pad'']" "''a''"]
  by (simp add: plain_device_def sample_device_def device_image_def device_fields_def)

text \<open>
  Unplugging a keyboard is broadcast to the peers, but no peer acts on it: the message
  holds the device id only, while the receiver reads a whole device and drops the packet.
\<close>

theorem unplug_message_dropped:
  assumes "hp_isKeyboard ev" "hp_type ev = HOTPLUG_UNPLUG"
  shows "\<exists>pkt. issued (OnLocalHotPlug E ev) s = [SoftbusBroadcast pkt]
    \<and> decode nid pkt = Some (Some None)"
proof -
  let ?pkt = "encode DSOFTBUS_INPUT_DEV_HOT_PLUG [i32_bytes HOTPLUG_UNPLUG, i32_bytes (hp_deviceId ev)]"
  have ok: "\<not> ChkRWError ?pkt"
    by simp
  have "issued (OnLocalHotPlug E ev) s = [SoftbusBroadcast ?pkt]"
    using assms ok by (simp add: OnLocalHotPlug_def BroadcastHotPlugToRemote_def Let_def issued_def
        SoftbusBroadcastPacket_def encode_def)
  moreover have r: "reads ?pkt (concat [i32_bytes HOTPLUG_UNPLUG, i32_bytes (hp_deviceId ev)])"
    by (rule encode_reads) simp_all
  obtain b where b: "get_i32 0 ?pkt = Some (HOTPLUG_UNPLUG, b)" "reads b (i32_bytes (hp_deviceId ev))"
    using int_codec.get_image [of ?pkt HOTPLUG_UNPLUG "i32_bytes (hp_deviceId ev)" 0] r by auto
  obtain b' where "DeserializeDevice b = Some (None, b')"
    using DeserializeDevice_short [OF b(2)] by blast
  with b(1) have "decode_hot_plug ?pkt = Some None"
    by (simp add: decode_hot_plug_def)
  then have "decode nid ?pkt = Some (Some None)"
    by (simp add: decode_def)
  ultimately show ?thesis
    by blast
qed

theorem unplug_message_dropped_witness:
  "\<exists>pkt. issued (OnLocalHotPlug ideal_env \<lparr>hp_deviceId = 3, hp_type = 1, hp_isKeyboard = True\<rparr>)
       (sample_mgr []) = [SoftbusBroadcast pkt] \<and> decode ''a'' pkt = Some (Some None)"
  using unplug_message_dropped [of "\<lparr>hp_deviceId = 3, hp_type = 1, hp_isKeyboard = True\<rparr>"
      ideal_env "sample_mgr []" "''a''"] by simp

section \<open>Reading past the end of the buffer\<close>

text \<open>
  A peer can make the receiver read outside the packet buffer: a subscription message
  whose payload is the maximal 2048 bytes, none of them NUL, is a packet the framing accepts,
  the first string takes the NUL behind the payload, and the second string is read from behind
  the array.
\<close>

theorem full_packet_read_out_of_bounds:
  assumes "wf_buf p" "rPos p = 0" "wPos p = 2048" "NUL \<notin> set (content p)"
    and "msgId p = DSOFTBUS_SUBSCRIBE_MOUSE_LOCATION \<or> msgId p = DSOFTBUS_UNSUBSCRIBE_MOUSE_LOCATION
      \<or> msgId p = DSOFTBUS_MOUSE_LOCATION"
  shows "decode nid p = Some None"
proof -
  have len: "length (szBuff p) = 2049" "last (szBuff p) = NUL"
    using assms(1) by (simp_all add: wf_buf_def MAX_STREAM_BUF_SIZE_def)
  then have ne: "szBuff p \<noteq> []" and bl: "butlast (szBuff p) = content p"
    using assms(3) by (auto simp: content_def butlast_conv_take)
  have buf: "szBuff p = content p @ [NUL]"
    using append_butlast_last_id [OF ne] len(2) bl by simp
  have tw: "takeWhile (\<lambda>c. c \<noteq> NUL) (szBuff p) = content p"
    unfolding buf using assms(4) by (rule takeWhile_append_stop)
  have "length (content p) = 2048"
    using len(1) assms(3) by (simp add: content_def)
  moreover have "NUL \<in> set (szBuff p)"
    by (simp add: buf)
  ultimately have "get_str [] p = Some (content p, p\<lparr>rPos := 2049\<rparr>)"
    using assms(2,3) by (simp add: get_str_def sb_ReadString_def tw Let_def)
  moreover have "get_str [] (p\<lparr>rPos := 2049\<rparr>) = None"
    using assms(3) len(1) by (simp add: get_str_def sb_ReadString_def)
  ultimately have "decode_two_ids p = None" "decode_location p = None"
    by (simp_all add: decode_two_ids_def decode_location_def)
  then show ?thesis
    using assms(5) by (auto simp: decode_def decode_subscribe_def decode_unsubscribe_def Let_def)
qed

theorem full_packet_read_out_of_bounds_witness:
  "decode ''a'' (puts [replicate 2048 CHR ''x''] (NetPacket DSOFTBUS_SUBSCRIBE_MOUSE_LOCATION)) = Some None"
proof -
  let ?p = "puts [replicate 2048 CHR ''x''] (NetPacket DSOFTBUS_SUBSCRIBE_MOUSE_LOCATION)"
  have one: "[] \<notin> set [replicate 2048 CHR ''x'']"
    by (simp only: set_simps) (simp add: numeral_eq_Suc)
  have "content ?p = replicate 2048 CHR ''x''" "wPos ?p = 2048"
    using puts_ok [of "NetPacket DSOFTBUS_SUBSCRIBE_MOUSE_LOCATION" "[replicate 2048 CHR ''x'']", OF _ _ one]
    by (simp_all add: MAX_STREAM_BUF_SIZE_def del: puts_simps)
  then show ?thesis
    using full_packet_read_out_of_bounds [of ?p "''a''"] puts_wf [of "NetPacket DSOFTBUS_SUBSCRIBE_MOUSE_LOCATION"]
    by (simp add: set_replicate_conv_if del: puts_simps)
qed

end
