(* ===== verification/Doubles.thy ===== *)
theory Doubles
  imports Prelude "HOL-Library.Log_Nat"
begin

text \<open>
  \<open>double\<close> arithmetic of the plugin. A finite double is a rational; an operation computes the
  exact result and rounds it to 53 significant bits, to nearest, ties to even. Exponents stay
  far from their limits in the program (coordinates, percentages, coefficients), so overflow
  and subnormal numbers do not occur.
\<close>

section \<open>Rounding\<close>

definition round_even :: "rat \<Rightarrow> int" where
  "round_even x = (let f = \<lfloor>x\<rfloor>; r = x - of_int f in
     if r < 1 / 2 \<or> (r = 1 / 2 \<and> even f) then f else f + 1)"

text \<open>The exponent of the leading bit of a positive rational.\<close>

definition log2_floor :: "rat \<Rightarrow> int" where
  "log2_floor q = (case quotient_of q of (n, d) \<Rightarrow>
     let k = bitlen n - bitlen d in if 2 powi k \<le> q then k else k - 1)"

definition fl53 :: "rat \<Rightarrow> rat" where
  "fl53 q = (if q = 0 then 0
     else let u = 2 powi (log2_floor \<bar>q\<bar> - 52) in of_int (round_even (q / u)) * u)"

text \<open>\<open>static_cast<int32_t>\<close> of a double truncates.\<close>

definition trunc :: "rat \<Rightarrow> int" where
  "trunc q = (if q < 0 then - \<lfloor>- q\<rfloor> else \<lfloor>q\<rfloor>)"

section \<open>Rounding to an integer\<close>

lemma round_even_int [simp]: "round_even (of_int n) = n"
  by (simp add: round_even_def)

lemma round_even_le: "x \<le> of_int m \<Longrightarrow> round_even x \<le> m"
proof -
  assume le: "x \<le> of_int m"
  then have "\<lfloor>x\<rfloor> \<le> m"
    by linarith
  moreover have "x = of_int m" if "\<lfloor>x\<rfloor> = m"
    using that le by linarith
  ultimately show ?thesis
    by (cases "\<lfloor>x\<rfloor> = m") (auto simp: round_even_def Let_def)
qed

lemma round_even_ge: "of_int m \<le> x \<Longrightarrow> m \<le> round_even x"
  using le_floor_iff [of m x] by (auto simp: round_even_def Let_def)

section \<open>The leading bit\<close>

lemma powi_less_iff [simp]: "(2 :: rat) powi i < 2 powi j \<longleftrightarrow> i < j"
  by (metis linorder_neqE one_less_numeral_iff order_less_asym power_int_strict_increasing
      semiring_norm(76))

lemma powi_le_iff [simp]: "(2 :: rat) powi i \<le> 2 powi j \<longleftrightarrow> i \<le> j"
  by (simp only: linorder_not_less [symmetric] powi_less_iff)

lemma powi_pos [simp]: "0 < (2 :: rat) powi i"
  by simp

lemma powi_int: "0 \<le> e \<Longrightarrow> \<exists>c. (2 :: rat) powi e = of_int c"
  by (intro exI [of _ "2 ^ nat e"]) (simp add: power_int_def)

lemma bitlen_rat:
  assumes "0 < (n :: int)"
  shows "2 powi (bitlen n - 1) \<le> (of_int n :: rat)" "(of_int n :: rat) < 2 powi bitlen n"
proof -
  have b: "2 ^ nat (bitlen n - 1) \<le> n \<and> n < 2 ^ nat (bitlen n)"
    using bitlen_bounds [OF assms] .
  have pos: "1 \<le> bitlen n"
    using assms by (simp add: bitlen_def floorlog_def)
  have "(2 :: rat) powi (bitlen n - 1) = of_int (2 ^ nat (bitlen n - 1))"
    "(2 :: rat) powi bitlen n = of_int (2 ^ nat (bitlen n))"
    using pos by (simp_all add: power_int_def)
  then show "2 powi (bitlen n - 1) \<le> (of_int n :: rat)" "(of_int n :: rat) < 2 powi bitlen n"
    using b by (simp_all only: of_int_le_iff of_int_less_iff)
qed

lemma log2_floor_bounds:
  assumes "0 < q"
  shows "2 powi log2_floor q \<le> q" "q < 2 powi (log2_floor q + 1)"
proof -
  obtain n d where nd: "quotient_of q = (n, d)"
    by fastforce
  have d: "0 < d" and q: "q = of_int n / of_int d"
    using quotient_of_denom_pos [OF nd] quotient_of_div [OF nd] by auto
  then have n: "0 < n"
    using assms by (simp add: zero_less_divide_iff)
  let ?k = "bitlen n - bitlen d"
  have "(2 :: rat) powi (bitlen n - 1) / 2 powi bitlen d \<le> q"
    unfolding q using bitlen_rat [OF n] bitlen_rat [OF d] d n by (intro frac_le) auto
  then have lo: "2 powi (?k - 1) \<le> q"
    by (simp add: power_int_diff power_int_add add.commute mult.commute)
  have "q < (2 :: rat) powi bitlen n / 2 powi (bitlen d - 1)"
    unfolding q using bitlen_rat [OF n] bitlen_rat [OF d] n by (intro frac_less) auto
  then have hi: "q < 2 powi (?k + 1)"
    by (simp add: power_int_diff power_int_add)
  show "2 powi log2_floor q \<le> q" "q < 2 powi (log2_floor q + 1)"
    using lo hi by (auto simp: log2_floor_def nd Let_def)
qed

section \<open>What rounding keeps\<close>

text \<open>A number of at most 53 bits is a double.\<close>

lemma fl53_exact:
  assumes "\<bar>m\<bar> < 2 ^ 53"
  shows "fl53 (of_int m * 2 powi e) = of_int m * 2 powi e"
proof (cases "m = 0")
  case False
  let ?q = "of_int m * 2 powi e :: rat" and ?k = "log2_floor \<bar>of_int m * 2 powi e\<bar>"
  have "2 powi ?k \<le> \<bar>?q\<bar>"
    using False by (intro log2_floor_bounds) simp
  also have "\<bar>?q\<bar> = of_int \<bar>m\<bar> * 2 powi e"
    by (simp add: abs_mult)
  also have "\<dots> < of_int (2 ^ 53) * 2 powi e"
    using assms by (intro mult_strict_right_mono) (simp_all only: of_int_less_iff powi_pos)
  also have "\<dots> = 2 powi (53 + e)"
    by (simp add: power_int_add)
  finally have "?k < 53 + e"
    by simp
  then obtain c where c: "(2 :: rat) powi (e - (?k - 52)) = of_int c"
    using powi_int [of "e - (?k - 52)"] by auto
  have "?q / 2 powi (?k - 52) = of_int (m * c)"
    by (simp only: of_int_mult c [symmetric]) (simp add: power_int_diff)
  then have "of_int (round_even (?q / 2 powi (?k - 52))) * 2 powi (?k - 52) = ?q"
    by (metis powi_pos less_numeral_extra(3) nonzero_eq_divide_eq round_even_int)
  then show ?thesis
    using False by (simp add: fl53_def Let_def)
qed (simp add: fl53_def)

lemma fl53_int: "\<bar>m\<bar> < 2 ^ 53 \<Longrightarrow> fl53 (of_int m) = of_int m"
  using fl53_exact [of m 0] by simp

text \<open>Rounding does not cross an integer of moderate size.\<close>

lemma fl53_le_int:
  assumes "q \<le> of_int n" "0 \<le> q" "n < 2 ^ 53"
  shows "fl53 q \<le> of_int n"
proof (cases "q = 0")
  case False
  let ?k = "log2_floor q"
  have q: "0 < q"
    using False assms(2) by simp
  have "2 powi ?k \<le> q"
    by (rule log2_floor_bounds [OF q])
  also have "q < of_int (2 ^ 53)"
    using assms(1,3) by (meson le_less_trans of_int_less_iff)
  also have "(of_int (2 ^ 53) :: rat) = 2 powi 53"
    by simp
  finally have "?k < 53"
    by (simp only: powi_less_iff)
  then obtain c where c: "(2 :: rat) powi (- (?k - 52)) = of_int c"
    using powi_int [of "- (?k - 52)"] by auto
  have inv: "x / 2 powi (?k - 52) = x * of_int c" for x :: rat
    by (simp only: c [symmetric] power_int_minus divide_inverse)
  have "q / 2 powi (?k - 52) \<le> of_int n / 2 powi (?k - 52)"
    using assms(1) by (intro divide_right_mono) simp_all
  also have "\<dots> = of_int (n * c)"
    by (simp add: inv)
  finally have "round_even (q / 2 powi (?k - 52)) \<le> n * c"
    by (rule round_even_le)
  then have "of_int (round_even (q / 2 powi (?k - 52))) * 2 powi (?k - 52)
      \<le> (of_int (n * c) :: rat) * 2 powi (?k - 52)"
    by (intro mult_right_mono) (simp_all only: of_int_le_iff powi_pos less_imp_le)
  also have "\<dots> = of_int n"
    using inv [of "of_int n"] by (simp add: field_simps)
  finally show ?thesis
    using q by (simp add: fl53_def Let_def)
qed (use assms in \<open>simp add: fl53_def\<close>)

lemma fl53_nonneg: "0 \<le> q \<Longrightarrow> 0 \<le> fl53 q"
  using round_even_ge [of 0 "q / 2 powi (log2_floor \<bar>q\<bar> - 52)"] by (simp add: fl53_def Let_def)

lemma trunc_int [simp]: "trunc (of_int n) = n"
  by (simp add: trunc_def)

lemma trunc_bounds: "0 \<le> q \<Longrightarrow> q \<le> of_int n \<Longrightarrow> 0 \<le> trunc q \<and> trunc q \<le> n"
  by (simp add: trunc_def floor_le_iff)

text \<open>What is left of a double after truncation is a double.\<close>

lemma fl53_is_dyadic: "\<exists>m e. \<bar>m\<bar> < 2 ^ 53 \<and> fl53 q = of_int m * 2 powi e"
proof (cases "q = 0")
  case False
  let ?u = "2 powi (log2_floor \<bar>q\<bar> - 52) :: rat"
  have "\<bar>q\<bar> < 2 powi (log2_floor \<bar>q\<bar> + 1)"
    using False by (intro log2_floor_bounds) simp
  also have "\<dots> = of_int (2 ^ 53) * ?u"
    by (simp add: power_int_diff power_int_add)
  finally have "\<bar>q / ?u\<bar> < of_int (2 ^ 53)"
    by (simp add: divide_less_eq)
  then have "q / ?u \<le> of_int (2 ^ 53)" "of_int (- (2 ^ 53)) \<le> q / ?u"
    by (simp_all only: of_int_minus)
  then have r: "\<bar>round_even (q / ?u)\<bar> \<le> 2 ^ 53"
    using round_even_le [of "q / ?u" "2 ^ 53"] round_even_ge [of "- (2 ^ 53)" "q / ?u"]
    unfolding abs_le_iff by linarith
  have fl: "fl53 q = of_int (round_even (q / ?u)) * ?u"
    using False by (simp add: fl53_def Let_def)
  show ?thesis
  proof (cases "\<bar>round_even (q / ?u)\<bar> = 2 ^ 53")
    case True
    then obtain c where c: "\<bar>c\<bar> = 2 ^ 52" "round_even (q / ?u) = 2 * c"
      by (cases "0 \<le> round_even (q / ?u)") (force intro: that [of "2 ^ 52"] that [of "- (2 ^ 52)"])+
    have "(2 :: rat) powi (log2_floor \<bar>q\<bar> - 51) = 2 * ?u"
      by (simp add: power_int_diff)
    then have "fl53 q = of_int c * 2 powi (log2_floor \<bar>q\<bar> - 51)"
      by (simp add: fl c(2))
    moreover have "\<bar>c\<bar> < 2 ^ 53"
      using c(1) by simp
    ultimately show ?thesis by blast
  next
    case False
    then show ?thesis using r fl by (metis order_le_neq_trans)
  qed
qed (auto simp: fl53_def intro!: exI [of _ 0])

lemma split_quotient: "x = d * b + r \<Longrightarrow> b \<noteq> 0 \<Longrightarrow> x * (1 / b) - d = r * (1 / b)" for x :: rat
  by (simp add: field_simps)

lemma frac_dyadic_exact:
  assumes "0 \<le> m" "m < 2 ^ 53"
  shows "fl53 (of_int m * 2 powi e - of_int \<lfloor>of_int m * 2 powi e :: rat\<rfloor>)
    = of_int m * 2 powi e - of_int \<lfloor>of_int m * 2 powi e :: rat\<rfloor>"
proof (cases "0 \<le> e")
  case True
  then obtain c where c: "(2 :: rat) powi e = of_int c"
    using powi_int by blast
  have "of_int m * 2 powi e = (of_int (m * c) :: rat)"
    by (simp add: c)
  then show ?thesis
    by (simp only: floor_of_int) (simp add: fl53_def)
next
  case False
  let ?b = "2 ^ nat (- e) :: int"
  have b: "(2 :: rat) powi e = 1 / of_int ?b" "0 < ?b"
    using False by (simp_all add: power_int_def inverse_eq_divide power_divide)
  have fl: "\<lfloor>of_int m * 2 powi e :: rat\<rfloor> = m div ?b"
    by (simp add: b(1) floor_divide_of_int_eq del: of_int_power)
  have "(of_int m :: rat) = of_int (m div ?b) * of_int ?b + of_int (m mod ?b)"
    by (metis div_mult_mod_eq of_int_add of_int_mult)
  then have eq: "of_int m * 2 powi e - of_int \<lfloor>of_int m * 2 powi e :: rat\<rfloor>
      = (of_int (m mod ?b) * 2 powi e :: rat)"
    unfolding fl unfolding b(1) using b(2) by (intro split_quotient) (simp_all only: of_int_eq_0_iff)
  have "\<bar>m mod ?b\<bar> < 2 ^ 53"
    using zmod_le_nonneg_dividend [OF assms(1), of ?b] pos_mod_sign [OF b(2), of m] assms(2) by linarith
  then show ?thesis
    unfolding eq by (rule fl53_exact)
qed

end
