(* ===== verification/Coop_Context.thy ===== *)
theory Coop_Context
  imports DSoftbus Doubles
begin

text \<open>
  src/intention/cooperate/plugin/src/cooperate_context.cpp and include/cooperate_context.h: the
  data that outlives a single event (peer, flags, cursor, speeds), the observers of the plugin,
  and the observers it installs itself.
\<close>

unbundle bit_operations_syntax

section \<open>State\<close>

record coop_context = input_mgr +
  ctx_remoteNetworkId :: net_id
  ctx_startDeviceId :: i32
  ctx_flag :: u32
  ctx_priv :: u32
  ctx_cursorPos :: Coordinate
  ctx_options :: CooperateOptions
  ctx_currentDisplayId :: i32
  ctx_peerPointerSpeed :: i32
  ctx_originPointerSpeed :: i32
  ctx_peerTouchPadSpeed :: i32
  ctx_originTouchPadSpeed :: i32
  ctx_VirtualTrackpadDeviceId :: i32
  ctx_eventHandler :: bool
  ctx_observers :: "nat list"

definition MAX_MOUSE_SPEED :: i32 where
  "MAX_MOUSE_SPEED = 20"

section \<open>Observers that the plugin installs\<close>

definition OnBoardOnline :: "net_id \<Rightarrow> ('s world_scheme, unit) state" where
  "OnBoardOnline nid = do { Send (DDM_BOARD_ONLINE (board_event nid)); skip }"

definition OnBoardOffline :: "net_id \<Rightarrow> ('s world_scheme, unit) state" where
  "OnBoardOffline nid = do { Send (DDM_BOARD_OFFLINE (board_event nid)); skip }"

definition OnDeviceAdded :: "IDevice \<Rightarrow> ('s world_scheme, unit) state" where
  "OnDeviceAdded d = do { Send (INPUT_HOTPLUG_EVENT
     \<lparr>hp_deviceId = dev_id d, hp_type = HOTPLUG_PLUG, hp_isKeyboard = dev_isKeyboard d\<rparr>); skip }"

definition OnDeviceRemoved :: "IDevice \<Rightarrow> ('s world_scheme, unit) state" where
  "OnDeviceRemoved d = do { Send (INPUT_HOTPLUG_EVENT
     \<lparr>hp_deviceId = dev_id d, hp_type = HOTPLUG_UNPLUG, hp_isKeyboard = dev_isKeyboard d\<rparr>); skip }"

section \<open>Queries\<close>

definition Local :: "env \<Rightarrow> ('s world_scheme, net_id) state" where
  "Local E = ask (LocalNetworkId E)"

definition IsLocal :: "env \<Rightarrow> net_id \<Rightarrow> ('s world_scheme, bool) state" where
  "IsLocal E nid = do { l \<leftarrow> Local E; pure (nid = l) }"

definition Peer :: "('s coop_context_scheme, net_id) state" where
  "Peer = gets ctx_remoteNetworkId"

definition IsPeer :: "net_id \<Rightarrow> 's coop_context_scheme \<Rightarrow> bool" where
  "IsPeer nid s = (nid = ctx_remoteNetworkId s)"

definition NeedHideCursor :: "'s coop_context_scheme \<Rightarrow> bool" where
  "NeedHideCursor s = (ctx_flag s AND COOPERATE_FLAG_HIDE_CURSOR \<noteq> 0)"

definition NeedFreezeCursor :: "'s coop_context_scheme \<Rightarrow> bool" where
  "NeedFreezeCursor s = (ctx_flag s AND COOPERATE_FLAG_FREEZE_CURSOR \<noteq> 0)"

definition IsCooperateWithCrossDrag :: "'s coop_context_scheme \<Rightarrow> bool" where
  "IsCooperateWithCrossDrag s = (ctx_priv s AND COOPERATE_WITH_CROSS_DRAGGING \<noteq> 0)"

section \<open>The cursor\<close>

definition normalize :: "i32 \<Rightarrow> i32 \<Rightarrow> i32" where
  "normalize p extent =
     word_of_int (trunc (fl53 (fl53 (of_int (sint (p + 1)) * 100) / of_int (sint extent))))"

definition NormalizedCursorPosition :: "env \<Rightarrow> ('s coop_context_scheme, Coordinate) state" where
  "NormalizedCursorPosition E = do {
     did \<leftarrow> gets ctx_currentDisplayId;
     d \<leftarrow> ask (\<lambda>t. DisplayById E t did);
     pos \<leftarrow> gets ctx_cursorPos;
     pure (case d of
       None \<Rightarrow> origin
     | Some d \<Rightarrow>
         if le32 (d_width d) 0 \<or> le32 (d_height d) 0 then origin
         else \<lparr>cx = normalize (cx pos) (d_width d), cy = normalize (cy pos) (d_height d)\<rparr>) }"

definition clamp :: "int \<Rightarrow> int \<Rightarrow> int \<Rightarrow> int" where
  "clamp v lo hi = (if v < lo then lo else if hi < v then hi else v)"

definition scale :: "int \<Rightarrow> i32 \<Rightarrow> i32" where
  "scale percent extent = word_of_int (trunc (fl53 (fl53 (of_int percent / 100) * of_int (sint extent))))"

definition cursor_on :: "display \<Rightarrow> Coordinate \<Rightarrow> Coordinate" where
  "cursor_on d pos = \<lparr>cx = scale (100 - clamp (sint (cx pos)) 0 100) (d_width d),
     cy = scale (clamp (sint (cy pos)) 0 100) (d_height d)\<rparr>"

definition GetCursorPos :: "env \<Rightarrow> Coordinate \<Rightarrow> ('s coop_context_scheme, Coordinate) state" where
  "GetCursorPos E pos = do {
     d \<leftarrow> ask (DefaultDisplay E);
     old \<leftarrow> gets ctx_cursorPos;
     pure (case d of None \<Rightarrow> old | Some d \<Rightarrow> cursor_on d pos) }"

definition SetCursorPosition :: "env \<Rightarrow> Coordinate \<Rightarrow> ('s coop_context_scheme, unit) state" where
  "SetCursorPosition E pos = do {
     d \<leftarrow> ask (DefaultDisplay E);
     if d = None then skip
     else do {
       cursor \<leftarrow> GetCursorPos E pos;
       modify (\<lambda>s. s\<lparr>ctx_cursorPos := cursor\<rparr>);
       emit (SetPointerLocation (cx cursor) (cy cursor) (- 1)) } }"

definition StopCooperateSetCursorPosition :: "env \<Rightarrow> Coordinate \<Rightarrow> ('s coop_context_scheme, unit) state" where
  "StopCooperateSetCursorPosition E pos = do {
     d \<leftarrow> ask (DefaultDisplay E);
     case d of
       None \<Rightarrow> skip
     | Some d \<Rightarrow> do {
         cursor \<leftarrow> GetCursorPos E pos;
         emit (SetPointerLocation (cx cursor) (cy cursor) (if lt32 (d_id d) 0 then 0 else d_id d)) } }"

definition ResetCursorPosition :: "env \<Rightarrow> ('s coop_context_scheme, unit) state" where
  "ResetCursorPosition E = StopCooperateSetCursorPosition E \<lparr>cx = 50, cy = 50\<rparr>"

definition UpdateCursorPosition :: "('s coop_context_scheme, unit) state" where
  "UpdateCursorPosition = do {
     pos \<leftarrow> gets ctx_cursorPos;
     emit (SetPointerLocation (cx pos) (cy pos) (- 1)) }"

definition adjust :: "i32 \<Rightarrow> i32 \<Rightarrow> i32" where
  "adjust p extent = (let p = (if le32 p 0 then 0 else p) in if le32 extent p then extent - 1 else p)"

definition AdjustPointerPos :: "env \<Rightarrow> DSoftbusCooperateOptions \<Rightarrow> ('s world_scheme, DSoftbusCooperateOptions) state" where
  "AdjustPointerPos E ev = do {
     let opts = co_options ev;
     d \<leftarrow> ask (\<lambda>t. VisibleAreaDisplay E t (displayId opts));
     pure (case d of
       None \<Rightarrow> ev
     | Some d \<Rightarrow> ev\<lparr>co_options := opts\<lparr>displayX := adjust (displayX opts) (d_width d),
                                    displayY := adjust (displayY opts) (d_height d)\<rparr>\<rparr>) }"

section \<open>Pointer and touch pad speed\<close>

definition GetPointerSpeed :: "env \<Rightarrow> ('s world_scheme, i32) state" where
  "GetPointerSpeed E = ask (PointerSpeed E)"

definition GetTouchPadSpeed :: "env \<Rightarrow> ('s world_scheme, i32) state" where
  "GetTouchPadSpeed E = ask (TouchPadSpeed E)"

definition SetPointerSpeed :: "i32 \<Rightarrow> ('s world_scheme, unit) state" where
  "SetPointerSpeed v = emit (InputSetPointerSpeed v)"

definition SetTouchPadSpeed :: "i32 \<Rightarrow> ('s world_scheme, unit) state" where
  "SetTouchPadSpeed v = (if lt32 MAX_MOUSE_SPEED v then skip else emit (InputSetTouchPadSpeed v))"

definition StorePeerPointerSpeed :: "i32 \<Rightarrow> ('s coop_context_scheme, unit) state" where
  "StorePeerPointerSpeed v = modify (\<lambda>s. s\<lparr>ctx_peerPointerSpeed := v\<rparr>)"

definition ClearPeerPointerSpeed :: "('s coop_context_scheme, unit) state" where
  "ClearPeerPointerSpeed = modify (\<lambda>s. s\<lparr>ctx_peerPointerSpeed := - 1\<rparr>)"

definition StorePeerTouchPadSpeed :: "i32 \<Rightarrow> ('s coop_context_scheme, unit) state" where
  "StorePeerTouchPadSpeed v = modify (\<lambda>s. s\<lparr>ctx_peerTouchPadSpeed := v\<rparr>)"

definition ClearPeerTouchPadSpeed :: "('s coop_context_scheme, unit) state" where
  "ClearPeerTouchPadSpeed = modify (\<lambda>s. s\<lparr>ctx_peerTouchPadSpeed := - 1\<rparr>)"

definition StoreOriginPointerSpeed :: "env \<Rightarrow> ('s coop_context_scheme, unit) state" where
  "StoreOriginPointerSpeed E = do {
     v \<leftarrow> GetPointerSpeed E;
     modify (\<lambda>s. s\<lparr>ctx_originPointerSpeed := v\<rparr>) }"

definition StoreOriginTouchPadSpeed :: "env \<Rightarrow> ('s coop_context_scheme, unit) state" where
  "StoreOriginTouchPadSpeed E = do {
     v \<leftarrow> GetTouchPadSpeed E;
     modify (\<lambda>s. s\<lparr>ctx_originTouchPadSpeed := v\<rparr>) }"

definition ResetPointerAndTouchPadSpeed :: "('s coop_context_scheme, unit) state" where
  "ResetPointerAndTouchPadSpeed = do {
     v \<leftarrow> gets ctx_originPointerSpeed;
     SetPointerSpeed v;
     ClearPeerPointerSpeed;
     w \<leftarrow> gets ctx_originTouchPadSpeed;
     SetTouchPadSpeed w;
     ClearPeerTouchPadSpeed }"

section \<open>Life cycle\<close>

definition StartEventHandler :: "env \<Rightarrow> ('s coop_context_scheme, i32) state" where
  "StartEventHandler E = do {
     ok \<leftarrow> ask (RunnerCreated E);
     if \<not> ok then pure RET_ERR
     else do { modify (\<lambda>s. s\<lparr>ctx_eventHandler := True\<rparr>); pure RET_OK } }"

definition StopEventHandler :: "('s coop_context_scheme, unit) state" where
  "StopEventHandler = modify (\<lambda>s. s\<lparr>ctx_eventHandler := False\<rparr>)"

definition ctx_Enable :: "env \<Rightarrow> ('s coop_context_scheme, unit) state" where
  "ctx_Enable E = do {
     StartEventHandler E;
     emit AddBoardObserver;
     emit AddDeviceObserver;
     idm_Enable }"

definition ctx_Disable :: "('s coop_context_scheme, unit) state" where
  "ctx_Disable = do {
     emit RemoveDeviceObserver;
     emit RemoveBoardObserver;
     idm_Disable;
     StopEventHandler }"

section \<open>Events that update the context\<close>

definition ctx_DisableCooperate :: "('s coop_context_scheme, unit) state" where
  "ctx_DisableCooperate = modify (\<lambda>s. s\<lparr>ctx_priv := 0\<rparr>)"

definition ResetPriv :: "('s coop_context_scheme, unit) state" where
  "ResetPriv = modify (\<lambda>s. s\<lparr>ctx_priv := 0\<rparr>)"

definition ctx_StartCooperate :: "StartCooperateEvent \<Rightarrow> ('s coop_context_scheme, unit) state" where
  "ctx_StartCooperate ev = modify (\<lambda>s. s\<lparr>ctx_remoteNetworkId := st_remoteNetworkId ev,
     ctx_startDeviceId := st_startDeviceId ev, ctx_priv := 0\<rparr>)"

definition ctx_OnPointerEvent :: "env \<Rightarrow> InputPointerEvent \<Rightarrow> ('s coop_context_scheme, unit) state" where
  "ctx_OnPointerEvent E ev =
     only_if (pe_sourceType ev = SOURCE_TYPE_MOUSE E \<and>
         (pe_pointerAction ev = POINTER_ACTION_MOVE E \<or> pe_pointerAction ev = POINTER_ACTION_PULL_MOVE E))
       (modify (\<lambda>s. s\<lparr>ctx_cursorPos := pe_position ev,
          ctx_currentDisplayId := (if pe_currentDisplayId ev = - 1 then 0 else pe_currentDisplayId ev)\<rparr>))"

definition RemoteStartSuccess :: "env \<Rightarrow> DSoftbusStartCooperate \<Rightarrow> ('s coop_context_scheme, unit) state" where
  "RemoteStartSuccess E ev = do {
     modify (\<lambda>s. s\<lparr>ctx_remoteNetworkId := sc_originNetworkId ev,
       ctx_flag := sd_flag (sc_extra ev), ctx_priv := sd_priv (sc_extra ev)\<rparr>);
     SetCursorPosition E (sc_cursorPos ev) }"

definition ctx_StartCooperateWithOptions :: "StartWithOptionsEvent \<Rightarrow> ('s coop_context_scheme, unit) state" where
  "ctx_StartCooperateWithOptions ev = modify (\<lambda>s. s\<lparr>ctx_remoteNetworkId := so_remoteNetworkId ev,
     ctx_startDeviceId := so_startDeviceId ev, ctx_priv := 0,
     ctx_options := \<lparr>displayX = so_displayX ev, displayY = so_displayY ev, displayId = so_displayId ev\<rparr>\<rparr>)"

definition UpdateCooperateOptions :: "StartWithOptionsEvent \<Rightarrow> ('s coop_context_scheme, unit) state" where
  "UpdateCooperateOptions ev = modify (\<lambda>s. s\<lparr>ctx_options :=
     \<lparr>displayX = so_displayX ev, displayY = so_displayY ev, displayId = so_displayId ev\<rparr>\<rparr>)"

definition ctx_OnRemoteStart :: "DSoftbusCooperateOptions \<Rightarrow> ('s coop_context_scheme, unit) state" where
  "ctx_OnRemoteStart ev = do {
     modify (\<lambda>s. s\<lparr>ctx_remoteNetworkId := co_originNetworkId ev,
       ctx_flag := sd_flag (co_extra ev), ctx_priv := sd_priv (co_extra ev)\<rparr>);
     emit (SetPointerLocation (displayX (co_options ev)) (displayY (co_options ev)) (displayId (co_options ev)));
     modify (\<lambda>s. s\<lparr>ctx_options := co_options ev\<rparr>) }"

definition ctx_RelayCooperate :: "DSoftbusRelayCooperate \<Rightarrow> ('s coop_context_scheme, unit) state" where
  "ctx_RelayCooperate ev = modify (\<lambda>s. s\<lparr>ctx_remoteNetworkId := rc_targetNetworkId ev\<rparr>)"

definition UpdateCooperateFlag :: "UpdateCooperateFlagEvent \<Rightarrow> ('s coop_context_scheme, unit) state" where
  "UpdateCooperateFlag ev = modify (\<lambda>s. s\<lparr>ctx_flag :=
     (ctx_flag s AND NOT (uf_mask ev)) OR (uf_flag ev AND uf_mask ev)\<rparr>)"

definition SetVirtualTrackpadDeviceId :: "i32 \<Rightarrow> ('s coop_context_scheme, unit) state" where
  "SetVirtualTrackpadDeviceId i = modify (\<lambda>s. s\<lparr>ctx_VirtualTrackpadDeviceId := i\<rparr>)"

definition ResetVirtualTrackpadDeviceId :: "('s coop_context_scheme, unit) state" where
  "ResetVirtualTrackpadDeviceId = modify (\<lambda>s. s\<lparr>ctx_VirtualTrackpadDeviceId := - 1\<rparr>)"

section \<open>Observers of the plugin\<close>

definition AddObserver :: "nat \<Rightarrow> ('s coop_context_scheme, unit) state" where
  "AddObserver obs = (if obs = 0 then skip
     else modify (\<lambda>s. s\<lparr>ctx_observers := oset_insert id obs (ctx_observers s)\<rparr>))"

definition RemoveObserver :: "nat \<Rightarrow> ('s coop_context_scheme, unit) state" where
  "RemoveObserver obs = modify (\<lambda>s. s\<lparr>ctx_observers := oset_erase id obs (ctx_observers s)\<rparr>)"

fun all_allow :: "env \<Rightarrow> nat list \<Rightarrow> ('s world_scheme, bool) state" where
  "all_allow E [] = pure True"
| "all_allow E (obs # os) = do {
     ok \<leftarrow> ask (\<lambda>t. ObserverAllows E t obs);
     if \<not> ok then pure False else all_allow E os }"

definition IsAllowCooperate :: "env \<Rightarrow> ('s coop_context_scheme, bool) state" where
  "IsAllowCooperate E = do { os \<leftarrow> gets ctx_observers; all_allow E os }"

fun thread_data :: "(nat \<Rightarrow> nat \<Rightarrow> 'd \<Rightarrow> 'd) \<Rightarrow> nat list \<Rightarrow> 'd \<Rightarrow> ('s world_scheme, 'd) state" where
  "thread_data f [] d = pure d"
| "thread_data f (obs # os) d = do {
     d' \<leftarrow> ask (\<lambda>t. f t obs d);
     thread_data f os d' }"

definition OnStartCooperate :: "env \<Rightarrow> StartCooperateData \<Rightarrow> ('s coop_context_scheme, StartCooperateData) state" where
  "OnStartCooperate E d = do { os \<leftarrow> gets ctx_observers; thread_data (ObserverOnStart E) os d }"

definition OnRemoteStartCooperate ::
    "env \<Rightarrow> StartCooperateData \<Rightarrow> ('s coop_context_scheme, StartCooperateData) state" where
  "OnRemoteStartCooperate E d = do { os \<leftarrow> gets ctx_observers; thread_data (ObserverOnRemoteStart E) os d }"

definition post_all :: "observer_notice \<Rightarrow> ('s coop_context_scheme, unit) state" where
  "post_all n = do {
     os \<leftarrow> gets ctx_observers;
     for_each os (\<lambda>obs. emit (PostTask obs n)) }"

text \<open>\<open>CHKPV(eventHandler_)\<close>, then one task per observer.\<close>

definition with_info :: "env \<Rightarrow> (CooperateInfo \<Rightarrow> net_id \<Rightarrow> observer_notice) \<Rightarrow> ('s coop_context_scheme, unit) state" where
  "with_info E n = do {
     h \<leftarrow> gets ctx_eventHandler;
     if \<not> h then skip
     else do {
       pos \<leftarrow> NormalizedCursorPosition E;
       opts \<leftarrow> gets ctx_options;
       peer \<leftarrow> Peer;
       post_all (n \<lparr>normalizedCoords = pos, ci_options = opts\<rparr> peer) } }"

definition OnStopCooperate :: "('s coop_context_scheme, unit) state" where
  "OnStopCooperate = do {
     h \<leftarrow> gets ctx_eventHandler;
     if \<not> h then skip
     else do { peer \<leftarrow> Peer; post_all (NotifyStop peer) } }"

definition OnTransitionOut :: "env \<Rightarrow> ('s coop_context_scheme, unit) state" where
  "OnTransitionOut E = do {
     StoreOriginPointerSpeed E;
     StoreOriginTouchPadSpeed E;
     with_info E (\<lambda>info peer. NotifyTransitionOut peer info) }"

definition OnTransitionIn :: "env \<Rightarrow> ('s coop_context_scheme, unit) state" where
  "OnTransitionIn E = do {
     StoreOriginPointerSpeed E;
     v \<leftarrow> gets ctx_peerPointerSpeed;
     SetPointerSpeed v;
     StoreOriginTouchPadSpeed E;
     w \<leftarrow> gets ctx_peerTouchPadSpeed;
     SetTouchPadSpeed w;
     with_info E (\<lambda>info peer. NotifyTransitionIn peer info) }"

definition OnBack :: "env \<Rightarrow> ('s coop_context_scheme, unit) state" where
  "OnBack E = do {
     ResetPointerAndTouchPadSpeed;
     with_info E (\<lambda>info peer. NotifyBack peer info) }"

definition OnRelayCooperation :: "env \<Rightarrow> net_id \<Rightarrow> ('s coop_context_scheme, unit) state" where
  "OnRelayCooperation E nid = with_info E (\<lambda>info _. NotifyRelay nid info)"

definition CloseDistributedFileConnection :: "net_id \<Rightarrow> ('s coop_context_scheme, unit) state" where
  "CloseDistributedFileConnection nid = do {
     h \<leftarrow> gets ctx_eventHandler;
     if \<not> h then skip else post_all (NotifyCloseFile nid) }"

definition OnResetCooperation :: "('s coop_context_scheme, unit) state" where
  "OnResetCooperation = do {
     ResetPointerAndTouchPadSpeed;
     modify (\<lambda>s. s\<lparr>ctx_priv := 0\<rparr>);
     h \<leftarrow> gets ctx_eventHandler;
     if \<not> h then skip else post_all NotifyReset }"

section \<open>Frames\<close>

definition ctx_blind :: "('s coop_context_scheme \<Rightarrow> 'v) \<Rightarrow> bool" where
  "ctx_blind f \<longleftrightarrow> idm_blind f
     \<and> (\<forall>s x. f (s\<lparr>ctx_remoteNetworkId := x\<rparr>) = f s) \<and> (\<forall>s x. f (s\<lparr>ctx_startDeviceId := x\<rparr>) = f s)
     \<and> (\<forall>s x. f (s\<lparr>ctx_flag := x\<rparr>) = f s) \<and> (\<forall>s x. f (s\<lparr>ctx_priv := x\<rparr>) = f s)
     \<and> (\<forall>s x. f (s\<lparr>ctx_cursorPos := x\<rparr>) = f s) \<and> (\<forall>s x. f (s\<lparr>ctx_options := x\<rparr>) = f s)
     \<and> (\<forall>s x. f (s\<lparr>ctx_currentDisplayId := x\<rparr>) = f s)
     \<and> (\<forall>s x. f (s\<lparr>ctx_peerPointerSpeed := x\<rparr>) = f s) \<and> (\<forall>s x. f (s\<lparr>ctx_originPointerSpeed := x\<rparr>) = f s)
     \<and> (\<forall>s x. f (s\<lparr>ctx_peerTouchPadSpeed := x\<rparr>) = f s) \<and> (\<forall>s x. f (s\<lparr>ctx_originTouchPadSpeed := x\<rparr>) = f s)
     \<and> (\<forall>s x. f (s\<lparr>ctx_VirtualTrackpadDeviceId := x\<rparr>) = f s)
     \<and> (\<forall>s x. f (s\<lparr>ctx_eventHandler := x\<rparr>) = f s) \<and> (\<forall>s x. f (s\<lparr>ctx_observers := x\<rparr>) = f s)"

lemma ctx_blind_idm: "ctx_blind f \<Longrightarrow> idm_blind f"
  by (simp add: ctx_blind_def)

lemmas ctx_blind_quiet = idm_blind_quiet [OF ctx_blind_idm]

lemma ctx_observer_frame [frame]:
  assumes "mailless f"
  shows "unchanged f (OnBoardOnline nid)" "unchanged f (OnBoardOffline nid)" "unchanged f (OnDeviceAdded d)"
    "unchanged f (OnDeviceRemoved d)"
  unfolding OnBoardOnline_def OnBoardOffline_def OnDeviceAdded_def OnDeviceRemoved_def
  by (intro frame assms)+

lemma ctx_quiet_frame [frame]:
  assumes "quiet f"
  shows "unchanged f (Local E)" "unchanged f (IsLocal E nid)"
    "unchanged f Peer" "unchanged f (NormalizedCursorPosition E)" "unchanged f (GetCursorPos E pos)"
    "unchanged f (StopCooperateSetCursorPosition E pos)" "unchanged f (ResetCursorPosition E)"
    "unchanged f UpdateCursorPosition" "unchanged f (AdjustPointerPos E co)"
    "unchanged f (GetPointerSpeed E)" "unchanged f (GetTouchPadSpeed E)"
    "unchanged f (SetPointerSpeed v)" "unchanged f (SetTouchPadSpeed v)"
  unfolding Local_def IsLocal_def Peer_def NormalizedCursorPosition_def GetCursorPos_def StopCooperateSetCursorPosition_def
    ResetCursorPosition_def UpdateCursorPosition_def AdjustPointerPos_def GetPointerSpeed_def
    GetTouchPadSpeed_def SetPointerSpeed_def SetTouchPadSpeed_def
  by (intro frame assms)+

lemma observer_frame [frame]:
  assumes "quiet f"
  shows "unchanged f (all_allow E os)" "unchanged f (thread_data g os d)"
    "unchanged f (IsAllowCooperate E)" "unchanged f (OnStartCooperate E sd)"
    "unchanged f (OnRemoteStartCooperate E sd)" "unchanged f (post_all n)" "unchanged f (with_info E h)"
    "unchanged f (OnRelayCooperation E nid)" "unchanged f (CloseDistributedFileConnection nid)"
    "unchanged f OnStopCooperate"
proof -
  have a: "unchanged f (all_allow E os)" for os
    by (induction E os rule: all_allow.induct) (auto intro!: frame assms)
  have t: "unchanged f (thread_data g os d)" for g :: "nat \<Rightarrow> nat \<Rightarrow> 'z \<Rightarrow> 'z" and os d
    by (induction g os d rule: thread_data.induct) (auto intro!: frame assms)
  show "unchanged f (all_allow E os)" "unchanged f (thread_data g os d)"
    by (rule a, rule t)
  show "unchanged f (IsAllowCooperate E)" "unchanged f (OnStartCooperate E sd)"
    "unchanged f (OnRemoteStartCooperate E sd)" "unchanged f (post_all n)" "unchanged f (with_info E h)"
    "unchanged f (OnRelayCooperation E nid)" "unchanged f (CloseDistributedFileConnection nid)"
    "unchanged f OnStopCooperate"
    unfolding IsAllowCooperate_def OnStartCooperate_def OnRemoteStartCooperate_def post_all_def with_info_def
      OnRelayCooperation_def CloseDistributedFileConnection_def OnStopCooperate_def
    by (intro frame a t assms)+
qed

lemma ctx_frame [frame]:
  assumes "ctx_blind f"
  shows "unchanged f (SetCursorPosition E pos)" "unchanged f (StorePeerPointerSpeed v)"
    "unchanged f ClearPeerPointerSpeed" "unchanged f (StorePeerTouchPadSpeed v)"
    "unchanged f ClearPeerTouchPadSpeed" "unchanged f (StoreOriginPointerSpeed E)"
    "unchanged f (StoreOriginTouchPadSpeed E)" "unchanged f ResetPointerAndTouchPadSpeed"
    "unchanged f (StartEventHandler E)" "unchanged f StopEventHandler" "unchanged f (ctx_Enable E)"
    "unchanged f ctx_Disable" "unchanged f ctx_DisableCooperate" "unchanged f ResetPriv"
    "unchanged f (ctx_StartCooperate st)" "unchanged f (ctx_OnPointerEvent E pe)"
    "unchanged f (RemoteStartSuccess E sc)" "unchanged f (ctx_StartCooperateWithOptions so)"
    "unchanged f (UpdateCooperateOptions so)" "unchanged f (ctx_OnRemoteStart co)"
    "unchanged f (ctx_RelayCooperate rc)" "unchanged f (UpdateCooperateFlag uf)"
    "unchanged f (SetVirtualTrackpadDeviceId i)" "unchanged f ResetVirtualTrackpadDeviceId"
    "unchanged f (AddObserver obs)" "unchanged f (RemoveObserver obs)" "unchanged f (OnTransitionOut E)"
    "unchanged f (OnTransitionIn E)" "unchanged f (OnBack E)" "unchanged f OnResetCooperation"
  unfolding SetCursorPosition_def StorePeerPointerSpeed_def ClearPeerPointerSpeed_def
    StorePeerTouchPadSpeed_def ClearPeerTouchPadSpeed_def StoreOriginPointerSpeed_def
    StoreOriginTouchPadSpeed_def ResetPointerAndTouchPadSpeed_def StartEventHandler_def
    StopEventHandler_def ctx_Enable_def ctx_Disable_def ctx_DisableCooperate_def ResetPriv_def
    ctx_StartCooperate_def ctx_OnPointerEvent_def RemoteStartSuccess_def ctx_StartCooperateWithOptions_def
    UpdateCooperateOptions_def ctx_OnRemoteStart_def ctx_RelayCooperate_def UpdateCooperateFlag_def
    SetVirtualTrackpadDeviceId_def ResetVirtualTrackpadDeviceId_def AddObserver_def RemoveObserver_def
    OnTransitionOut_def OnTransitionIn_def OnBack_def OnResetCooperation_def
  using assms by (intro frame ctx_blind_quiet ctx_blind_idm; simp add: ctx_blind_def)+

section \<open>Positions stay on the screen\<close>

lemma word_of_int_range:
  assumes "0 \<le> v" "v \<le> sint (w :: i32)"
  shows "sint (word_of_int v :: i32) = v"
proof -
  have "sint w < 2 ^ 31"
    using sint_lt [of w] by simp
  then show ?thesis
    using assms by (simp add: sint_sbintrunc' signed_take_bit_int_eq_self)
qed

lemma clamp_bounds: "lo \<le> hi \<Longrightarrow> lo \<le> clamp v lo hi \<and> clamp v lo hi \<le> hi"
  by (simp add: clamp_def)

lemma scale_int:
  assumes "0 \<le> p" "p \<le> 100" "0 < W" "W < 2 ^ 53"
  shows "0 \<le> trunc (fl53 (fl53 (of_int p / 100) * of_int W))
    \<and> trunc (fl53 (fl53 (of_int p / 100) * of_int W)) \<le> W"
proof -
  have "(of_int p / 100 :: rat) \<le> of_int 1"
    using assms(2) by simp
  then have q: "0 \<le> fl53 (of_int p / 100)" "fl53 (of_int p / 100) \<le> of_int 1"
    using assms(1) by (intro fl53_nonneg fl53_le_int; simp)+
  let ?x = "fl53 (of_int p / 100) * of_int W"
  have x: "0 \<le> ?x" "?x \<le> of_int W"
    using q assms(3) by (simp_all add: mult_left_le_one_le)
  show ?thesis
    by (intro trunc_bounds fl53_nonneg fl53_le_int x assms)
qed

lemma scale_ends:
  assumes "0 < W" "W < 2 ^ 53"
  shows "trunc (fl53 (fl53 (of_int 0 / 100) * of_int W)) = 0"
    "trunc (fl53 (fl53 (of_int 100 / 100) * of_int W)) = W"
  using fl53_int [of W] fl53_int [of 1] assms by (simp_all add: fl53_def [of 0] trunc_def)

lemma sint_range: "sint (w :: i32) < 2 ^ 31"
  using sint_lt [of w] by simp

lemma scale_bounds:
  assumes "0 \<le> p" "p \<le> 100" "0 < sint w"
  shows "0 \<le> sint (scale p w) \<and> sint (scale p w) \<le> sint w" "scale 0 w = 0" "scale 100 w = w"
proof -
  have w: "sint w < 2 ^ 53"
    using sint_range [of w] by simp
  show "0 \<le> sint (scale p w) \<and> sint (scale p w) \<le> sint w"
    using scale_int [OF assms w] word_of_int_range [of _ w] unfolding scale_def by simp
  show "scale 0 w = 0" "scale 100 w = w"
    unfolding scale_def scale_ends [OF assms(3) w] by simp_all
qed

lemma adjust_bounds:
  assumes "0 < sint w"
  shows "0 \<le> sint (adjust p w) \<and> sint (adjust p w) < sint w"
    and "0 \<le> sint p \<Longrightarrow> sint p < sint w \<Longrightarrow> adjust p w = p"
proof -
  have "sint (w - 1) = sint w - 1"
    using assms sint_lt [of w] by (simp add: sint_word_ariths signed_take_bit_int_eq_self)
  then show "0 \<le> sint (adjust p w) \<and> sint (adjust p w) < sint w"
    using assms by (auto simp: adjust_def Let_def)
  show "0 \<le> sint p \<Longrightarrow> sint p < sint w \<Longrightarrow> adjust p w = p"
    using sint_eq_iff [of p 0] by (auto simp: adjust_def Let_def)
qed

lemma normalize_int:
  assumes "0 \<le> p" "p < W" "W < 2 ^ 31"
  shows "0 \<le> trunc (fl53 (fl53 (of_int (p + 1) * 100) / of_int W))
    \<and> trunc (fl53 (fl53 (of_int (p + 1) * 100) / of_int W)) \<le> 100"
proof -
  have e: "fl53 (of_int (p + 1) * 100) = of_int ((p + 1) * 100)"
    using fl53_int [of "(p + 1) * 100"] assms by simp
  let ?x = "of_int ((p + 1) * 100) / of_int W :: rat"
  have "of_int ((p + 1) * 100) \<le> (of_int (100 * W) :: rat)"
    using assms(2) by (intro of_int_le_iff [THEN iffD2]) simp
  then have x: "0 \<le> ?x" "?x \<le> of_int 100"
    using assms by (simp_all add: divide_le_eq)
  show ?thesis
    unfolding e by (intro trunc_bounds fl53_nonneg fl53_le_int x) simp
qed

lemma normalize_bounds:
  assumes "0 \<le> sint p" "sint p < sint w"
  shows "0 \<le> sint (normalize p w) \<and> sint (normalize p w) \<le> 100"
proof -
  have "sint (p + 1) = sint p + 1"
    using assms sint_range [of w] by (simp add: sint_word_ariths signed_take_bit_int_eq_self)
  then show ?thesis
    using normalize_int [OF assms sint_range] word_of_int_range [of _ 100] unfolding normalize_def
    by simp
qed

text \<open>
  C35. Where the pointer is put. A relative position, in percent, becomes a point between 0 and
  the display's extent, mirrored horizontally; the extent itself, one behind the last pixel, is
  reached for 0 percent. A position given by a client is moved onto the display, and left
  alone if it is there already. A point on the display is reported as 0 to 100 percent.
\<close>

theorem pointer_positions_on_screen:
  assumes "0 < sint (d_width d)" "0 < sint (d_height d)"
  shows "0 \<le> sint (cx (cursor_on d pos)) \<and> sint (cx (cursor_on d pos)) \<le> sint (d_width d)
    \<and> 0 \<le> sint (cy (cursor_on d pos)) \<and> sint (cy (cursor_on d pos)) \<le> sint (d_height d)
    \<and> (sint (cx pos) \<le> 0 \<longrightarrow> cx (cursor_on d pos) = d_width d)
    \<and> (100 \<le> sint (cx pos) \<longrightarrow> cx (cursor_on d pos) = 0)
    \<and> 0 \<le> sint (adjust x (d_width d)) \<and> sint (adjust x (d_width d)) < sint (d_width d)
    \<and> (0 \<le> sint x \<and> sint x < sint (d_width d) \<longrightarrow> adjust x (d_width d) = x
        \<and> 0 \<le> sint (normalize x (d_width d)) \<and> sint (normalize x (d_width d)) \<le> 100)"
proof -
  have c: "0 \<le> clamp v 0 100 \<and> clamp v 0 100 \<le> 100" for v
    by (rule clamp_bounds) simp
  have "sint (cx pos) \<le> 0 \<Longrightarrow> clamp (sint (cx pos)) 0 100 = 0"
    "100 \<le> sint (cx pos) \<Longrightarrow> clamp (sint (cx pos)) 0 100 = 100"
    by (auto simp: clamp_def)
  then show ?thesis
    using scale_bounds [of "100 - clamp (sint (cx pos)) 0 100" "d_width d"]
      scale_bounds [of "clamp (sint (cy pos)) 0 100" "d_height d"] assms c
      adjust_bounds normalize_bounds
    by (auto simp: cursor_on_def)
qed

theorem pointer_positions_on_screen_witness:
  "cx (cursor_on \<lparr>d_width = 1920, d_height = 1080, d_id = 0\<rparr> \<lparr>cx = 0, cy = 30\<rparr>) = 1920
   \<and> adjust 5 1920 = 5"
  using pointer_positions_on_screen [of "\<lparr>d_width = 1920, d_height = 1080, d_id = 0\<rparr>"
      "\<lparr>cx = 0, cy = 30\<rparr>" 5] by simp

section \<open>Flags\<close>

lemma masked_bit:
  "bit ((a AND NOT m) OR (b AND m)) n \<longleftrightarrow> (if bit m n then bit b n else bit (a :: u32) n)"
  by (auto simp: bit_simps dest: bit_imp_le_length)

lemma flag_test:
  "a AND 1 \<noteq> 0 \<longleftrightarrow> bit (a :: u32) 0" "a AND 2 \<noteq> 0 \<longleftrightarrow> bit a 1"
proof -
  show "a AND 1 \<noteq> 0 \<longleftrightarrow> bit a 0"
    by (simp add: and_one_eq bit_0 odd_iff_mod_2_eq_one)
  have "bit (a AND 2) n \<longleftrightarrow> n = 1 \<and> bit a 1" for n
    by (auto simp: bit_simps)
  then show "a AND 2 \<noteq> 0 \<longleftrightarrow> bit a 1"
    by (metis bit_0_eq bit_eqI bot_apply bot_bool_def)
qed

text \<open>
  Updating the cooperate flags changes exactly the flags of the mask; applying the same
  update again changes nothing.
\<close>

theorem cooperate_flags_update:
  "let s' = exec (UpdateCooperateFlag ev) s in
     (\<forall>n. bit (ctx_flag s') n = (if bit (uf_mask ev) n then bit (uf_flag ev) n else bit (ctx_flag s) n))
   \<and> NeedHideCursor s' = (if bit (uf_mask ev) 0 then bit (uf_flag ev) 0 else NeedHideCursor s)
   \<and> NeedFreezeCursor s' = (if bit (uf_mask ev) 1 then bit (uf_flag ev) 1 else NeedFreezeCursor s)
   \<and> exec (UpdateCooperateFlag ev) s' = s'"
proof -
  let ?s = "exec (UpdateCooperateFlag ev) s"
  have "(ctx_flag ?s AND NOT (uf_mask ev)) OR (uf_flag ev AND uf_mask ev) = ctx_flag ?s"
    by (rule bit_eqI) (simp add: UpdateCooperateFlag_def masked_bit)
  then have "exec (UpdateCooperateFlag ev) ?s = ?s"
    by (simp add: UpdateCooperateFlag_def)
  then show ?thesis
    by (auto simp: Let_def UpdateCooperateFlag_def masked_bit NeedHideCursor_def NeedFreezeCursor_def flag_test)
qed

section \<open>Speeds are borrowed and returned\<close>

lemma set_touch_trace:
  "trace (exec (SetTouchPadSpeed v) s) = trace s @ (if sint v \<le> 20 then [InputSetTouchPadSpeed v] else [])"
  by (simp add: SetTouchPadSpeed_def MAX_MOUSE_SPEED_def)

text \<open>The notices to observers, in a system where the event handler runs.\<close>

lemma post_all_trace:
  "trace (exec (post_all n) s) = trace s @ map (\<lambda>obs. PostTask obs n) (ctx_observers s)"
proof -
  have "trace (exec (for_each os (\<lambda>obs. emit (PostTask obs n))) s)
      = trace s @ map (\<lambda>obs. PostTask obs n) os" for os and s :: "'a coop_context_scheme"
    by (induction os arbitrary: s) simp_all
  then show ?thesis
    by (simp add: post_all_def)
qed

text \<open>
  While this device is controlled it uses the peer's pointer and touch pad speed; when it
  comes back, the speeds it had before are set again, the peer's are forgotten, and every
  observer is told of both changes.
\<close>

theorem speeds_borrowed_and_returned:
  assumes "\<forall>t. PointerSpeed E t = v" "\<forall>t. TouchPadSpeed E t = w" "sint w \<le> 20"
    and "sint (ctx_peerTouchPadSpeed s) \<le> 20" "ctx_eventHandler s" "ctx_observers s = [obs]"
  shows "\<exists>info info'. issued (do { OnTransitionIn E; OnBack E }) s =
      [InputSetPointerSpeed (ctx_peerPointerSpeed s), InputSetTouchPadSpeed (ctx_peerTouchPadSpeed s),
       PostTask obs (NotifyTransitionIn (ctx_remoteNetworkId s) info),
       InputSetPointerSpeed v, InputSetTouchPadSpeed w,
       PostTask obs (NotifyBack (ctx_remoteNetworkId s) info')]
    \<and> ctx_peerPointerSpeed (exec (do { OnTransitionIn E; OnBack E }) s) = - 1
    \<and> ctx_peerTouchPadSpeed (exec (do { OnTransitionIn E; OnBack E }) s) = - 1"
  using assms
  by (simp add: issued_def OnTransitionIn_def OnBack_def StoreOriginPointerSpeed_def
      StoreOriginTouchPadSpeed_def SetPointerSpeed_def SetTouchPadSpeed_def MAX_MOUSE_SPEED_def
      GetPointerSpeed_def GetTouchPadSpeed_def ResetPointerAndTouchPadSpeed_def with_info_def
      NormalizedCursorPosition_def Peer_def post_all_def ClearPeerPointerSpeed_def
      ClearPeerTouchPadSpeed_def)

text \<open>A context in which nothing has happened yet, with one observer.\<close>

definition sample_context :: "nat list \<Rightarrow> coop_context" where
  "sample_context os = input_mgr.extend (sample_mgr [])
     \<lparr>ctx_remoteNetworkId = [], ctx_startDeviceId = - 1, ctx_flag = 0, ctx_priv = 0, ctx_cursorPos = origin,
      ctx_options = no_options, ctx_currentDisplayId = 0, ctx_peerPointerSpeed = - 1,
      ctx_originPointerSpeed = - 1, ctx_peerTouchPadSpeed = - 1, ctx_originTouchPadSpeed = - 1,
      ctx_VirtualTrackpadDeviceId = - 1, ctx_eventHandler = True, ctx_observers = os\<rparr>"

lemma sample_context_simps [simp]:
  "ctx_remoteNetworkId (sample_context os) = []" "ctx_peerPointerSpeed (sample_context os) = - 1"
  "ctx_peerTouchPadSpeed (sample_context os) = - 1" "ctx_eventHandler (sample_context os)"
  "ctx_observers (sample_context os) = os" "trace (sample_context os) = []" "tick (sample_context os) = 0"
  by (simp_all add: sample_context_def sample_mgr_def sample_mouse_def input_mgr.defs mouse_loc.defs)

theorem speeds_borrowed_and_returned_witness:
  "\<exists>info info'. issued (do { OnTransitionIn ideal_env; OnBack ideal_env }) (sample_context [9])
     = [InputSetPointerSpeed (- 1), InputSetTouchPadSpeed (- 1), PostTask 9 (NotifyTransitionIn [] info),
        InputSetPointerSpeed 5, InputSetTouchPadSpeed 5, PostTask 9 (NotifyBack [] info')]"
  using speeds_borrowed_and_returned [of ideal_env 5 5 "sample_context [9]" 9]
  by (auto simp: ideal_env_def)

end
