(* ===== verification/Input_Serialization.thy ===== *)
theory Input_Serialization
  imports World
begin

text \<open>
  src/intention/cooperate/plugin/src/input_event_transmission/input_event_serialization.cpp and
  inner_pointer_item.cpp: how input events are written into packets and read from them. The
  layout of \<open>InnerPointerItem\<close> and the size of \<open>size_type\<close> are those of the 64-bit targets. What
  a variable holds that the code does not initialise is an argument, \<open>junk\<close>: the bytes on the stack.
  The enhance data of the security component, behind a build flag, are left out.
\<close>

section \<open>Readers\<close>

text \<open>
  A reader works on an event and the packet that it is read from. \<open>rd n dec old\<close> is \<open>pkt >> x\<close> for a
  variable of \<open>n\<close> bytes that holds \<open>old\<close>.
\<close>

type_synonym ('e, 'x) reader = "('e \<times> net_packet, 'x) state"

definition rd :: "nat \<Rightarrow> (char list \<Rightarrow> 'x) \<Rightarrow> 'x \<Rightarrow> ('e, 'x) reader" where
  "rd n dec old = State (\<lambda>(e, p). case sb_Read n p of
     (None, p') \<Rightarrow> (old, e, p') | (Some bs, p') \<Rightarrow> (dec bs, e, p'))"

definition bytes_i64 :: "char list \<Rightarrow> int" where
  "bytes_i64 bs = sint (bytes_u64 bs)"

definition i64_bytes :: "int \<Rightarrow> char list" where
  "i64_bytes n = u64_bytes (word_of_int n)"

abbreviation rd_i32 :: "i32 \<Rightarrow> ('e, i32) reader" where "rd_i32 \<equiv> rd 4 bytes_i32"
abbreviation rd_u64 :: "u64 \<Rightarrow> ('e, u64) reader" where "rd_u64 \<equiv> rd 8 bytes_u64"
abbreviation rd_i64 :: "int \<Rightarrow> ('e, int) reader" where "rd_i64 \<equiv> rd 8 bytes_i64"
abbreviation rd_bool :: "bool \<Rightarrow> ('e, bool) reader" where "rd_bool \<equiv> rd 1 bytes_bool"
abbreviation rd_byte :: "char \<Rightarrow> ('e, char) reader" where "rd_byte \<equiv> rd 1 hd"

definition upd :: "('e \<Rightarrow> 'e) \<Rightarrow> ('e, unit) reader" where
  "upd f = modify (map_prod f id)"

definition bad :: "('e, bool) reader" where
  "bad = gets (\<lambda>(e, p). ChkRWError p)"

text \<open>A part that works on the base class of the event, and a call whose failure ends the caller.\<close>

definition via :: "('e \<Rightarrow> 'b) \<Rightarrow> ('b \<Rightarrow> 'e \<Rightarrow> 'e) \<Rightarrow> ('b, 'x) reader \<Rightarrow> ('e, 'x) reader" where
  "via base with_base m = State (\<lambda>(e, p).
     case run_state m (base e, p) of (x, b, p') \<Rightarrow> (x, with_base b e, p'))"

definition fails_to :: "'x \<Rightarrow> ('e, i32) reader \<Rightarrow> ('e, 'x) reader \<Rightarrow> ('e, 'x) reader" where
  "fails_to x m k = do { ret \<leftarrow> m; if ret \<noteq> RET_OK then pure x else k }"

definition checked :: "net_packet \<Rightarrow> i32 \<times> net_packet" where
  "checked p = (if ChkRWError p then RET_ERR else RET_OK, p)"

definition and_then :: "i32 \<times> net_packet \<Rightarrow> (net_packet \<Rightarrow> i32 \<times> net_packet) \<Rightarrow> i32 \<times> net_packet" where
  "and_then r k = (if fst r \<noteq> RET_OK then (RET_ERR, snd r) else k (snd r))"

section \<open>The base class\<close>

record InputEvent =
  ev_eventType :: i32
  ev_id :: i32
  ev_actionTime :: int
  ev_action :: i32
  ev_actionStartTime :: int
  ev_sensorInputTime :: u64
  ev_deviceId :: i32
  ev_targetDisplayId :: i32
  ev_targetWindowId :: i32
  ev_agentWindowId :: i32
  ev_flag :: u32

definition pointer_base :: "pointer_event \<Rightarrow> InputEvent" where
  "pointer_base p = \<lparr>ev_eventType = p_eventType p, ev_id = p_id p, ev_actionTime = p_actionTime p,
     ev_action = p_eventAction p, ev_actionStartTime = p_actionStartTime p,
     ev_sensorInputTime = p_sensorInputTime p, ev_deviceId = p_deviceId p,
     ev_targetDisplayId = p_targetDisplayId p, ev_targetWindowId = p_targetWindowId p,
     ev_agentWindowId = p_agentWindowId p, ev_flag = p_flags p\<rparr>"

definition with_pointer_base :: "InputEvent \<Rightarrow> pointer_event \<Rightarrow> pointer_event" where
  "with_pointer_base b p = p\<lparr>p_eventType := ev_eventType b, p_id := ev_id b, p_actionTime := ev_actionTime b,
     p_eventAction := ev_action b, p_actionStartTime := ev_actionStartTime b,
     p_sensorInputTime := ev_sensorInputTime b, p_deviceId := ev_deviceId b,
     p_targetDisplayId := ev_targetDisplayId b, p_targetWindowId := ev_targetWindowId b,
     p_agentWindowId := ev_agentWindowId b, p_flags := ev_flag b\<rparr>"

definition key_base :: "key_event \<Rightarrow> InputEvent" where
  "key_base k = \<lparr>ev_eventType = k_eventType k, ev_id = k_id k, ev_actionTime = k_actionTime k,
     ev_action = k_eventAction k, ev_actionStartTime = k_actionStartTime k,
     ev_sensorInputTime = k_sensorInputTime k, ev_deviceId = k_deviceId k,
     ev_targetDisplayId = k_targetDisplayId k, ev_targetWindowId = k_targetWindowId k,
     ev_agentWindowId = k_agentWindowId k, ev_flag = k_flags k\<rparr>"

definition with_key_base :: "InputEvent \<Rightarrow> key_event \<Rightarrow> key_event" where
  "with_key_base b k = k\<lparr>k_eventType := ev_eventType b, k_id := ev_id b, k_actionTime := ev_actionTime b,
     k_eventAction := ev_action b, k_actionStartTime := ev_actionStartTime b,
     k_sensorInputTime := ev_sensorInputTime b, k_deviceId := ev_deviceId b,
     k_targetDisplayId := ev_targetDisplayId b, k_targetWindowId := ev_targetWindowId b,
     k_agentWindowId := ev_agentWindowId b, k_flags := ev_flag b\<rparr>"

record switch_event =
  sw_base :: InputEvent
  sw_value :: i32
  sw_mask :: i32

definition with_switch_base :: "InputEvent \<Rightarrow> switch_event \<Rightarrow> switch_event" where
  "with_switch_base b w = w\<lparr>sw_base := b\<rparr>"

definition base_fields :: "InputEvent \<Rightarrow> char list list" where
  "base_fields e = [i32_bytes (ev_eventType e), i32_bytes (ev_id e), i64_bytes (ev_actionTime e),
     i32_bytes (ev_action e), i64_bytes (ev_actionStartTime e), u64_bytes (ev_sensorInputTime e),
     i32_bytes (ev_deviceId e), i32_bytes (ev_targetDisplayId e), i32_bytes (ev_targetWindowId e),
     i32_bytes (ev_agentWindowId e), i32_bytes (ev_flag e)]"

definition SerializeInputEvent :: "InputEvent \<Rightarrow> net_packet \<Rightarrow> i32 \<times> net_packet" where
  "SerializeInputEvent e p = checked (puts (base_fields e) p)"

definition DeserializeInputEvent :: "(nat \<Rightarrow> char) \<Rightarrow> (InputEvent, i32) reader" where
  "DeserializeInputEvent junk = do {
     t \<leftarrow> rd_i32 0;
     t \<leftarrow> rd_i32 t; upd (\<lambda>e. e\<lparr>ev_id := t\<rparr>);
     r \<leftarrow> rd_i64 0; upd (\<lambda>e. e\<lparr>ev_actionTime := r\<rparr>);
     t \<leftarrow> rd_i32 t; upd (\<lambda>e. e\<lparr>ev_action := t\<rparr>);
     r \<leftarrow> rd_i64 r; upd (\<lambda>e. e\<lparr>ev_actionStartTime := r\<rparr>);
     u \<leftarrow> rd_u64 (bytes_u64 (map junk [0..<8])); upd (\<lambda>e. e\<lparr>ev_sensorInputTime := u\<rparr>);
     t \<leftarrow> rd_i32 t; upd (\<lambda>e. e\<lparr>ev_deviceId := t\<rparr>);
     t \<leftarrow> rd_i32 t; upd (\<lambda>e. e\<lparr>ev_targetDisplayId := t\<rparr>);
     t \<leftarrow> rd_i32 t; upd (\<lambda>e. e\<lparr>ev_targetWindowId := t\<rparr>);
     t \<leftarrow> rd_i32 t; upd (\<lambda>e. e\<lparr>ev_agentWindowId := t\<rparr>);
     f \<leftarrow> rd_i32 0;
     failed \<leftarrow> bad;
     if failed then pure RET_ERR
     else do { upd (\<lambda>e. e\<lparr>ev_flag := add_flag f (ev_flag e)\<rparr>); pure RET_OK } }"

section \<open>InnerPointerItem\<close>

text \<open>
  The object is written as it lies in memory, the gaps between its members included: \<open>pad\<close> is
  what the stack holds there.
\<close>

definition item_image :: "(nat \<Rightarrow> char) \<Rightarrow> pointer_item \<Rightarrow> char list" where
  "item_image pad it = i32_bytes (it_pointerId it)
     @ (bool_bytes (it_pressed it) @ [pad 0, pad 1, pad 2])
     @ i32_bytes (it_displayX it) @ i32_bytes (it_displayY it) @ i32_bytes (it_windowX it) @ i32_bytes (it_windowY it)
     @ u64_bytes (it_displayXPos it) @ u64_bytes (it_displayYPos it)
     @ u64_bytes (it_windowXPos it) @ u64_bytes (it_windowYPos it)
     @ i32_bytes (it_width it) @ i32_bytes (it_height it)
     @ u64_bytes (it_tiltX it) @ u64_bytes (it_tiltY it)
     @ i32_bytes (it_toolDisplayX it) @ i32_bytes (it_toolDisplayY it)
     @ i32_bytes (it_toolWindowX it) @ i32_bytes (it_toolWindowY it)
     @ i32_bytes (it_toolWidth it) @ i32_bytes (it_toolHeight it)
     @ u64_bytes (it_pressure it)
     @ i32_bytes (it_longAxis it) @ i32_bytes (it_shortAxis it)
     @ i32_bytes (it_deviceId it) @ [pad 3, pad 4, pad 5, pad 6]
     @ i64_bytes (it_downTime it)
     @ i32_bytes (it_toolType it) @ i32_bytes (it_targetWindowId it) @ i32_bytes (it_originPointerId it)
     @ i32_bytes (it_rawDx it) @ i32_bytes (it_rawDy it) @ [pad 7, pad 8, pad 9, pad 10]"

definition i32_at :: "nat \<Rightarrow> char list \<Rightarrow> i32" where "i32_at k bs = bytes_i32 (take 4 (drop k bs))"
definition u64_at :: "nat \<Rightarrow> char list \<Rightarrow> u64" where "u64_at k bs = bytes_u64 (take 8 (drop k bs))"

definition item_of :: "char list \<Rightarrow> pointer_item" where
  "item_of bs = \<lparr>it_pointerId = i32_at 0 bs, it_pressed = bytes_bool (take 1 (drop 4 bs)),
     it_displayX = i32_at 8 bs, it_displayY = i32_at 12 bs, it_windowX = i32_at 16 bs, it_windowY = i32_at 20 bs,
     it_displayXPos = u64_at 24 bs, it_displayYPos = u64_at 32 bs, it_windowXPos = u64_at 40 bs,
     it_windowYPos = u64_at 48 bs, it_width = i32_at 56 bs, it_height = i32_at 60 bs,
     it_tiltX = u64_at 64 bs, it_tiltY = u64_at 72 bs, it_toolDisplayX = i32_at 80 bs, it_toolDisplayY = i32_at 84 bs,
     it_toolWindowX = i32_at 88 bs, it_toolWindowY = i32_at 92 bs, it_toolWidth = i32_at 96 bs,
     it_toolHeight = i32_at 100 bs, it_pressure = u64_at 104 bs, it_longAxis = i32_at 112 bs,
     it_shortAxis = i32_at 116 bs, it_deviceId = i32_at 120 bs, it_downTime = sint (u64_at 128 bs),
     it_toolType = i32_at 136 bs, it_targetWindowId = i32_at 140 bs, it_originPointerId = i32_at 144 bs,
     it_rawDx = i32_at 148 bs, it_rawDy = i32_at 152 bs\<rparr>"

definition no_item :: pointer_item where
  "no_item = \<lparr>it_pointerId = - 1, it_pressed = False, it_displayX = - 1, it_displayY = - 1, it_windowX = - 1,
     it_windowY = - 1, it_displayXPos = 0, it_displayYPos = 0, it_windowXPos = 0, it_windowYPos = 0, it_width = - 1,
     it_height = - 1, it_tiltX = 0, it_tiltY = 0, it_toolDisplayX = - 1, it_toolDisplayY = - 1, it_toolWindowX = - 1,
     it_toolWindowY = - 1, it_toolWidth = - 1, it_toolHeight = - 1, it_pressure = 0, it_longAxis = - 1,
     it_shortAxis = - 1, it_deviceId = - 1, it_downTime = - 1, it_toolType = - 1, it_targetWindowId = - 1,
     it_originPointerId = - 1, it_rawDx = - 1, it_rawDy = - 1\<rparr>"

section \<open>Pointer events\<close>

definition MAX_N_PRESSED_BUTTONS :: nat where "MAX_N_PRESSED_BUTTONS = 10"
definition MAX_N_PRESSED_KEYS :: nat where "MAX_N_PRESSED_KEYS = 10"
definition MAX_N_POINTER_ITEMS :: nat where "MAX_N_POINTER_ITEMS = 10"
definition MAX_KEY_SIZE :: int where "MAX_KEY_SIZE = 395"

definition size_bytes :: "'x list \<Rightarrow> char list" where
  "size_bytes xs = u64_bytes (word_of_nat (length xs))"

definition SerializeBaseInfo :: "pointer_event \<Rightarrow> net_packet \<Rightarrow> i32 \<times> net_packet" where
  "SerializeBaseInfo e p = checked (puts [i32_bytes (p_action e), i32_bytes (p_pointerId e),
     i32_bytes (p_sourceType e), i32_bytes (p_buttonId e), i32_bytes (p_fingerCount e), i32_bytes (p_zOrder e)] p)"

definition DeserializeBaseInfo :: "(pointer_event, i32) reader" where
  "DeserializeBaseInfo = do {
     pointerAction \<leftarrow> rd_i32 0;
     pointerId \<leftarrow> rd_i32 0;
     sourceType \<leftarrow> rd_i32 0;
     btnId \<leftarrow> rd_i32 0;
     fingerCnt \<leftarrow> rd_i32 0;
     zOrder \<leftarrow> rd_i32 0;
     failed \<leftarrow> bad;
     if failed then pure RET_ERR
     else do {
       upd (\<lambda>e. e\<lparr>p_action := pointerAction, p_pointerId := pointerId, p_sourceType := sourceType,
         p_buttonId := btnId, p_fingerCount := fingerCnt, p_zOrder := zOrder\<rparr>);
       pure RET_OK } }"

definition axis_types :: "env \<Rightarrow> nat list" where
  "axis_types E = [AXIS_TYPE_UNKNOWN E..<AXIS_TYPE_MAX E]"

definition SerializeAxes :: "env \<Rightarrow> pointer_event \<Rightarrow> net_packet \<Rightarrow> i32 \<times> net_packet" where
  "SerializeAxes E e p = checked (puts (i32_bytes (p_axes e)
     # map (\<lambda>i. u64_bytes (p_axisValues e i)) (filter (HasAxis E (p_axes e)) (axis_types E))) p)"

primrec read_axes :: "env \<Rightarrow> u32 \<Rightarrow> nat list \<Rightarrow> u64 \<Rightarrow> (pointer_event, unit) reader" where
  "read_axes E axes [] v = skip"
| "read_axes E axes (i # is) v =
     (if HasAxis E axes i then do {
        v \<leftarrow> rd_u64 v;
        upd (SetAxisValue E i v);
        read_axes E axes is v }
      else read_axes E axes is v)"

definition DeserializeAxes :: "env \<Rightarrow> (pointer_event, i32) reader" where
  "DeserializeAxes E = do {
     axes \<leftarrow> rd_i32 0;
     read_axes E axes (axis_types E) 0;
     failed \<leftarrow> bad;
     pure (if failed then RET_ERR else RET_OK) }"

definition SerializePressedButtons :: "pointer_event \<Rightarrow> net_packet \<Rightarrow> i32 \<times> net_packet" where
  "SerializePressedButtons e p =
     (if MAX_N_PRESSED_BUTTONS < length (p_pressedButtons e) then (RET_ERR, p)
      else checked (puts (size_bytes (p_pressedButtons e) # map i32_bytes (p_pressedButtons e)) p))"

definition SetButtonPressed :: "i32 \<Rightarrow> pointer_event \<Rightarrow> pointer_event" where
  "SetButtonPressed b e = e\<lparr>p_pressedButtons := oset_insert sint b (p_pressedButtons e)\<rparr>"

primrec read_buttons :: "nat \<Rightarrow> i32 \<Rightarrow> (pointer_event, unit) reader" where
  "read_buttons 0 b = skip"
| "read_buttons (Suc n) b = do { b \<leftarrow> rd_i32 b; upd (SetButtonPressed b); read_buttons n b }"

definition DeserializePressedButtons :: "(nat \<Rightarrow> char) \<Rightarrow> (pointer_event, i32) reader" where
  "DeserializePressedButtons junk = do {
     nPressed \<leftarrow> rd_u64 (bytes_u64 (map junk [8..<16]));
     if MAX_N_PRESSED_BUTTONS < unat nPressed then pure RET_ERR
     else do {
       read_buttons (unat nPressed) 0;
       failed \<leftarrow> bad;
       pure (if failed then RET_ERR else RET_OK) } }"

definition SerializePointerItem :: "(nat \<Rightarrow> char) \<Rightarrow> pointer_item \<Rightarrow> net_packet \<Rightarrow> i32 \<times> net_packet" where
  "SerializePointerItem pad it p = checked (put (item_image pad it) p)"

definition DeserializePointerItem :: "('e, i32 \<times> pointer_item) reader" where
  "DeserializePointerItem = do {
     it \<leftarrow> rd 160 item_of no_item;
     failed \<leftarrow> bad;
     pure (if failed then RET_ERR else RET_OK, it) }"

text \<open>\<open>GetPointerIds\<close> lists the ids of the items; each is looked up again.\<close>

definition GetPointerIds :: "pointer_event \<Rightarrow> i32 list" where
  "GetPointerIds e = map it_pointerId (p_items e)"

primrec write_items :: "(nat \<Rightarrow> char) \<Rightarrow> pointer_event \<Rightarrow> i32 list \<Rightarrow> net_packet \<Rightarrow> i32 \<times> net_packet" where
  "write_items pad e [] p = checked p"
| "write_items pad e (pid # pids) p =
     (case GetPointerItem e pid of
        None \<Rightarrow> (RET_ERR, p)
      | Some it \<Rightarrow> and_then (SerializePointerItem pad it p) (write_items (\<lambda>i. pad (i + 11)) e pids))"

definition SerializePointers :: "(nat \<Rightarrow> char) \<Rightarrow> pointer_event \<Rightarrow> net_packet \<Rightarrow> i32 \<times> net_packet" where
  "SerializePointers pad e p = write_items pad e (GetPointerIds e) (put (size_bytes (GetPointerIds e)) p)"

primrec read_items :: "env \<Rightarrow> nat \<Rightarrow> (pointer_event, i32) reader" where
  "read_items E 0 = do { failed \<leftarrow> bad; pure (if failed then RET_ERR else RET_OK) }"
| "read_items E (Suc n) = do {
     (ret, it) \<leftarrow> DeserializePointerItem;
     if ret \<noteq> RET_OK then pure RET_ERR
     else do { upd (AddPointerItem E it); read_items E n } }"

definition DeserializePointers :: "env \<Rightarrow> (nat \<Rightarrow> char) \<Rightarrow> (pointer_event, i32) reader" where
  "DeserializePointers E junk = do {
     nPointers \<leftarrow> rd_u64 (bytes_u64 (map junk [16..<24]));
     if MAX_N_POINTER_ITEMS < unat nPointers then pure RET_ERR
     else read_items E (unat nPointers) }"

definition SerializePressedKeys :: "pointer_event \<Rightarrow> net_packet \<Rightarrow> i32 \<times> net_packet" where
  "SerializePressedKeys e p = checked (puts (size_bytes (p_pressedKeys e) # map i32_bytes (p_pressedKeys e)) p)"

primrec read_list :: "('x \<Rightarrow> ('e, 'x) reader) \<Rightarrow> nat \<Rightarrow> 'x \<Rightarrow> 'x list \<Rightarrow> ('e, 'x list) reader" where
  "read_list get 0 x xs = pure xs"
| "read_list get (Suc n) x xs = do { x \<leftarrow> get x; read_list get n x (xs @ [x]) }"

definition DeserializePressedKeys :: "(pointer_event, i32) reader" where
  "DeserializePressedKeys = do {
     nPressed \<leftarrow> rd_u64 0;
     if MAX_N_PRESSED_KEYS < unat nPressed then pure RET_ERR
     else do {
       pressedKeys \<leftarrow> read_list rd_i32 (unat nPressed) 0 [];
       failed \<leftarrow> bad;
       if failed then pure RET_ERR
       else do { upd (\<lambda>e. e\<lparr>p_pressedKeys := pressedKeys\<rparr>); pure RET_OK } } }"

definition SerializeBuffer :: "env \<Rightarrow> pointer_event \<Rightarrow> net_packet \<Rightarrow> i32 \<times> net_packet" where
  "SerializeBuffer E e p =
     (if MAX_BUFFER_SIZE E < length (p_buffer e) then (RET_ERR, p)
      else checked (puts (size_bytes (p_buffer e) # map (\<lambda>c. [c]) (p_buffer e)) p))"

definition DeserializeBuffer :: "env \<Rightarrow> (pointer_event, i32) reader" where
  "DeserializeBuffer E = do {
     bufSize \<leftarrow> rd_u64 0;
     if MAX_BUFFER_SIZE E < unat bufSize then pure RET_ERR
     else do {
       buffer \<leftarrow> read_list rd_byte (unat bufSize) NUL [];
       failed \<leftarrow> bad;
       if failed then pure RET_ERR
       else do { upd (\<lambda>e. e\<lparr>p_buffer := buffer\<rparr>); pure RET_OK } } }"

definition SerializeInterceptorTime :: "int \<Rightarrow> net_packet \<Rightarrow> i32 \<times> net_packet" where
  "SerializeInterceptorTime interceptorTime p = checked (put (i64_bytes interceptorTime) p)"

definition DeserializeInterceptorTime :: "int \<Rightarrow> ('e, i32 \<times> int) reader" where
  "DeserializeInterceptorTime interceptorTime = do {
     t \<leftarrow> rd_i64 interceptorTime;
     failed \<leftarrow> bad;
     pure (if failed then (RET_ERR, - 1) else (RET_OK, t)) }"

definition SerializeScrollRows :: "pointer_event \<Rightarrow> net_packet \<Rightarrow> i32 \<times> net_packet" where
  "SerializeScrollRows e p = checked (put (i32_bytes (p_scrollRows e)) p)"

definition DeserializeScrollRows :: "(pointer_event, i32) reader" where
  "DeserializeScrollRows = do {
     scrollRows \<leftarrow> rd_i32 (- 1);
     failed \<leftarrow> bad;
     if failed then pure RET_ERR
     else do { upd (\<lambda>e. e\<lparr>p_scrollRows := scrollRows\<rparr>); pure RET_OK } }"

definition Marshalling :: "env \<Rightarrow> (nat \<Rightarrow> char) \<Rightarrow> pointer_event \<Rightarrow> int \<Rightarrow> net_packet \<Rightarrow> i32 \<times> net_packet" where
  "Marshalling E pad e interceptorTime p =
     and_then (SerializeInputEvent (pointer_base e) p) (\<lambda>p.
     and_then (SerializeBaseInfo e p) (\<lambda>p.
     and_then (SerializeAxes E e p) (\<lambda>p.
     and_then (SerializePressedButtons e p) (\<lambda>p.
     and_then (SerializePointers pad e p) (\<lambda>p.
     and_then (SerializePressedKeys e p) (\<lambda>p.
     and_then (SerializeBuffer E e p) (\<lambda>p.
     and_then (SerializeInterceptorTime interceptorTime p) (\<lambda>p.
     and_then (SerializeScrollRows e p) (\<lambda>p. (RET_OK, p))))))))))"

text \<open>What \<open>Unmarshalling\<close> returns, and the interceptor time it writes.\<close>

definition Unmarshalling :: "env \<Rightarrow> (nat \<Rightarrow> char) \<Rightarrow> int \<Rightarrow> (pointer_event, i32 \<times> int) reader" where
  "Unmarshalling E junk interceptorTime =
     fails_to (RET_ERR, interceptorTime) (via pointer_base with_pointer_base (DeserializeInputEvent junk))
     (fails_to (RET_ERR, interceptorTime) DeserializeBaseInfo
     (fails_to (RET_ERR, interceptorTime) (DeserializeAxes E)
     (fails_to (RET_ERR, interceptorTime) (DeserializePressedButtons junk)
     (fails_to (RET_ERR, interceptorTime) (DeserializePointers E junk)
     (fails_to (RET_ERR, interceptorTime) DeserializePressedKeys
     (fails_to (RET_ERR, interceptorTime) (DeserializeBuffer E)
     (do {
        (ret, t) \<leftarrow> DeserializeInterceptorTime interceptorTime;
        DeserializeScrollRows;
        pure (RET_OK, t) })))))))"

section \<open>Key events and switch events\<close>

definition key_item_fields :: "key_item \<Rightarrow> char list list" where
  "key_item_fields it = [i32_bytes (ki_keyCode it), i64_bytes (ki_downTime it), i32_bytes (ki_deviceId it),
     bool_bytes (ki_pressed it), i32_bytes (ki_unicode it)]"

definition KeyEventToNetPacket :: "key_event \<Rightarrow> net_packet \<Rightarrow> i32 \<times> net_packet" where
  "KeyEventToNetPacket k p = and_then (SerializeInputEvent (key_base k) p) (\<lambda>p.
     let p = puts [i32_bytes (k_keyCode k), i32_bytes (k_action k), i32_bytes (k_intention k)] p;
         size = sint (word_of_nat (length (k_items k)) :: i32)
     in if MAX_KEY_SIZE < size then (RET_ERR, p)
     else checked (puts (i32_bytes (word_of_nat (length (k_items k))) # concat (map key_item_fields (k_items k))
       @ [bool_bytes (k_numLock k), bool_bytes (k_capsLock k), bool_bytes (k_scrollLock k)]) p))"

definition ReadFunctionKeys :: "(key_event, unit) reader" where
  "ReadFunctionKeys = do {
     b \<leftarrow> rd_bool False; upd (\<lambda>k. k\<lparr>k_numLock := b\<rparr>);
     b \<leftarrow> rd_bool b; upd (\<lambda>k. k\<lparr>k_capsLock := b\<rparr>);
     b \<leftarrow> rd_bool b; upd (\<lambda>k. k\<lparr>k_scrollLock := b\<rparr>) }"

primrec read_key_items :: "env \<Rightarrow> (nat \<Rightarrow> char) \<Rightarrow> nat \<Rightarrow> i32 \<Rightarrow> bool \<Rightarrow> (key_event, i32) reader" where
  "read_key_items E junk 0 d b = do { ReadFunctionKeys; pure RET_OK }"
| "read_key_items E junk (Suc n) d b = do {
     code \<leftarrow> rd_i32 d;
     t \<leftarrow> rd_i64 0;
     dev \<leftarrow> rd_i32 code;
     b \<leftarrow> rd_bool b;
     failed \<leftarrow> bad;
     if failed then pure RET_ERR
     else do {
       u \<leftarrow> rd_i32 (bytes_i32 (map junk [24..<28]));
       upd (AddKeyItem E \<lparr>ki_keyCode = code, ki_downTime = t, ki_deviceId = dev, ki_pressed = b, ki_unicode = u\<rparr>);
       read_key_items E junk n dev b } }"

definition NetPacketToKeyEvent :: "env \<Rightarrow> (nat \<Rightarrow> char) \<Rightarrow> (key_event, i32) reader" where
  "NetPacketToKeyEvent E junk = fails_to RET_ERR (via key_base with_key_base (DeserializeInputEvent junk)) (do {
     d \<leftarrow> rd_i32 0; upd (\<lambda>k. k\<lparr>k_keyCode := d\<rparr>);
     d \<leftarrow> rd_i32 d; upd (\<lambda>k. k\<lparr>k_action := d\<rparr>);
     d \<leftarrow> rd_i32 d; upd (\<lambda>k. k\<lparr>k_intention := d\<rparr>);
     size \<leftarrow> rd_i32 0;
     if MAX_KEY_SIZE < sint size then pure RET_ERR
     else do {
       failed \<leftarrow> bad;
       if failed then pure RET_ERR
       else read_key_items E junk (nat (sint size)) d False } })"

definition SwitchEventToNetPacket :: "switch_event \<Rightarrow> net_packet \<Rightarrow> i32 \<times> net_packet" where
  "SwitchEventToNetPacket w p = and_then (SerializeInputEvent (sw_base w) p)
     (\<lambda>p. checked (puts [i32_bytes (sw_value w), i32_bytes (sw_mask w)] p))"

definition NetPacketToSwitchEvent :: "(nat \<Rightarrow> char) \<Rightarrow> (switch_event, i32) reader" where
  "NetPacketToSwitchEvent junk = fails_to RET_ERR (via sw_base with_switch_base (DeserializeInputEvent junk)) (do {
     d \<leftarrow> rd_i32 0; upd (\<lambda>w. w\<lparr>sw_value := d\<rparr>);
     d \<leftarrow> rd_i32 d; upd (\<lambda>w. w\<lparr>sw_mask := d\<rparr>);
     pure RET_OK })"

section \<open>Reading back what was written\<close>

text \<open>
  \<open>yields m e bs x e'\<close>: when the packet goes on with \<open>bs\<close>, the reader \<open>m\<close> consumes exactly these bytes,
  returns \<open>x\<close> and turns the event \<open>e\<close> into \<open>e'\<close>.
\<close>

definition yields :: "('e, 'x) reader \<Rightarrow> 'e \<Rightarrow> char list \<Rightarrow> 'x \<Rightarrow> 'e \<Rightarrow> bool" where
  "yields m e bs x e' \<longleftrightarrow> (\<forall>p rest. reads p (bs @ rest)
     \<longrightarrow> (\<exists>p'. run_state m (e, p) = (x, e', p') \<and> reads p' rest))"

named_theorems yielding \<open>rules that follow a reader along the bytes it consumes\<close>

lemma yieldsD: "yields m e bs x e' \<Longrightarrow> reads p (bs @ rest) \<Longrightarrow> \<exists>p'. run_state m (e, p) = (x, e', p') \<and> reads p' rest"
  by (simp add: yields_def)

lemma yields_pure [yielding]: "x = x' \<Longrightarrow> e = e' \<Longrightarrow> yields (State_Monad.return x) e [] x' e'"
  by (simp add: yields_def)

lemma yields_skip [yielding]: "yields skip e [] () e"
  by (simp add: yields_def)

lemma yields_bind:
  assumes "yields m e bs x e1" "yields (k x) e1 bs' y e2"
  shows "yields (State_Monad.bind m k) e (bs @ bs') y e2"
  unfolding yields_def
proof (intro allI impI)
  fix p :: net_packet and rest
  assume "reads p ((bs @ bs') @ rest)"
  then obtain p1 where "run_state m (e, p) = (x, e1, p1)" "reads p1 (bs' @ rest)"
    using yieldsD [OF assms(1), of p "bs' @ rest"] by auto
  then show "\<exists>p'. run_state (State_Monad.bind m k) (e, p) = (y, e2, p') \<and> reads p' rest"
    using yieldsD [OF assms(2), of p1 rest] by auto
qed

lemma yields_silent: "yields m e [] x e1 \<Longrightarrow> yields (k x) e1 bs y e2 \<Longrightarrow> yields (State_Monad.bind m k) e bs y e2"
  using yields_bind [of m e "[]" x e1 k bs y e2] by simp

lemma yields_last: "yields m e bs x e1 \<Longrightarrow> yields (k x) e1 [] y e2 \<Longrightarrow> yields (State_Monad.bind m k) e bs y e2"
  using yields_bind [of m e bs x e1 k "[]" y e2] by simp

lemma yields_upd [yielding]: "yields (k ()) (f e) bs y e' \<Longrightarrow> yields (State_Monad.bind (upd f) k) e bs y e'"
  by (rule yields_silent [of _ _ "()" "f e"]) (simp_all add: yields_def upd_def)

lemma yields_bad [yielding]: "yields (k False) e bs y e' \<Longrightarrow> yields (State_Monad.bind bad k) e bs y e'"
  by (rule yields_silent [of _ _ False e]) (simp_all add: yields_def bad_def reads_def)

lemma yields_False [yielding]: "\<not> c \<Longrightarrow> yields n e bs x e' \<Longrightarrow> yields (if c then m else n) e bs x e'"
  by simp

lemma yields_via:
  assumes "yields m (base e) bs x b"
  shows "yields (via base put_base m) e bs x (put_base b e)"
  unfolding yields_def
proof (intro allI impI)
  fix p :: net_packet and rest
  assume "reads p (bs @ rest)"
  then obtain p' where "run_state m (base e, p) = (x, b, p')" "reads p' rest"
    using yieldsD [OF assms] by blast
  then show "\<exists>p'. run_state (via base put_base m) (e, p) = (x, put_base b e, p') \<and> reads p' rest"
    by (simp add: via_def)
qed

lemma yields_fails_to:
  "yields m e bs RET_OK e1 \<Longrightarrow> yields k e1 bs' y e2 \<Longrightarrow> yields (fails_to x m k) e (bs @ bs') y e2"
  unfolding fails_to_def by (rule yields_bind, assumption) simp

text \<open>A kind of field: its image in a packet, of fixed length, and what is made of these bytes.\<close>

locale field =
  fixes image :: "'x \<Rightarrow> char list" and dec :: "char list \<Rightarrow> 'x" and n :: nat and ok :: "'x \<Rightarrow> bool"
  assumes length_image: "length (image x) = n" and n_pos: "0 < n"
    and dec_image: "ok x \<Longrightarrow> dec (image x) = x"
begin

lemma yields_image: "ok x \<Longrightarrow> yields (rd n dec old) e (image x) x e"
  unfolding yields_def
proof (intro allI impI)
  fix p :: net_packet and rest
  assume "ok x" and r: "reads p (image x @ rest)"
  moreover have "image x \<noteq> []"
    using length_image [of x] n_pos by auto
  then obtain p' where "sb_Read n p = (Some (image x), p')" "reads p' rest"
    using sb_Read_ok [OF r] length_image [of x] by metis
  ultimately show "\<exists>p'. run_state (rd n dec old) (e, p) = (x, e, p') \<and> reads p' rest"
    by (simp add: rd_def dec_image)
qed

lemma yields_next: "ok x \<Longrightarrow> yields (k x) e bs y e' \<Longrightarrow> yields (State_Monad.bind (rd n dec old) k) e (image x @ bs) y e'"
  by (rule yields_bind [OF yields_image])

lemma yields_list:
  "\<forall>y \<in> set ys. ok y \<Longrightarrow> yields (read_list (rd n dec) (length ys) x xs) e (concat (map image ys)) (xs @ ys) e"
proof (induction ys arbitrary: x xs)
  case (Cons y ys)
  show ?case
    using Cons.prems Cons.IH [of y "xs @ [y]"] by (auto intro!: yields_next)
qed (simp add: yields_pure)

end

interpretation i32_field: field i32_bytes bytes_i32 4 "\<lambda>_. True"
  by unfold_locales simp_all

interpretation u64_field: field u64_bytes bytes_u64 8 "\<lambda>_. True"
  by unfold_locales simp_all

definition fits64 :: "int \<Rightarrow> bool" where
  "fits64 n \<longleftrightarrow> - 9223372036854775808 \<le> n \<and> n \<le> 9223372036854775807"

lemma sint_fits64: "fits64 n \<Longrightarrow> sint (word_of_int n :: u64) = n"
  by (simp add: fits64_def sint_sbintrunc' signed_take_bit_int_eq_self)

interpretation i64_field: field i64_bytes bytes_i64 8 fits64
  by unfold_locales (simp_all add: i64_bytes_def bytes_i64_def sint_fits64)

interpretation bool_field: field bool_bytes bytes_bool 1 "\<lambda>_. True"
  by unfold_locales simp_all

interpretation byte_field: field "\<lambda>c. [c]" hd 1 "\<lambda>_. True"
  by unfold_locales simp_all

lemmas [yielding] = i32_field.yields_next [OF TrueI] u64_field.yields_next [OF TrueI]
  i64_field.yields_next bool_field.yields_next [OF TrueI] byte_field.yields_next [OF TrueI]

lemma item_of_image: "fits64 (it_downTime it) \<Longrightarrow> item_of (item_image pad it) = it"
  by (simp add: item_of_def item_image_def i32_at_def u64_at_def i64_bytes_def sint_fits64)

lemma length_item_image [simp]: "length (item_image pad it) = 160"
  by (simp add: item_image_def i64_bytes_def)

interpretation item_field: field "item_image pad" item_of 160 "\<lambda>it. fits64 (it_downTime it)" for pad
  by unfold_locales (simp_all add: item_of_image)

section \<open>The parts of an event\<close>

definition wf_base :: "InputEvent \<Rightarrow> bool" where
  "wf_base b \<longleftrightarrow> fits64 (ev_actionTime b) \<and> fits64 (ev_actionStartTime b)"

definition received_base :: "InputEvent \<Rightarrow> InputEvent \<Rightarrow> InputEvent" where
  "received_base b e = b\<lparr>ev_eventType := ev_eventType e, ev_flag := add_flag (ev_flag b) (ev_flag e)\<rparr>"

lemma InputEvent_yields:
  "wf_base b \<Longrightarrow> yields (DeserializeInputEvent junk) e (concat (base_fields b)) RET_OK (received_base b e)"
  unfolding DeserializeInputEvent_def base_fields_def concat.simps wf_base_def received_base_def
  by (intro yielding) simp_all

lemma BaseInfo_yields:
  "yields DeserializeBaseInfo e (concat [i32_bytes a, i32_bytes b, i32_bytes c, i32_bytes d, i32_bytes f, i32_bytes z])
     RET_OK (e\<lparr>p_action := a, p_pointerId := b, p_sourceType := c, p_buttonId := d, p_fingerCount := f, p_zOrder := z\<rparr>)"
  unfolding DeserializeBaseInfo_def concat.simps
  by (intro yielding) simp_all

lemma read_axes_yields:
  "yields (read_axes E axes is old) e (concat (map (\<lambda>i. u64_bytes (v i)) (filter (HasAxis E axes) is))) ()
     (fold (\<lambda>i. SetAxisValue E i (v i)) (filter (HasAxis E axes) is) e)"
proof (induction "is" arbitrary: old e)
  case (Cons i "is")
  then show ?case by (auto intro!: yielding)
qed (simp add: yields_skip)

lemma Axes_yields:
  "yields (DeserializeAxes E) e
     (concat (i32_bytes axes # map (\<lambda>i. u64_bytes (v i)) (filter (HasAxis E axes) (axis_types E)))) RET_OK
     (fold (\<lambda>i. SetAxisValue E i (v i)) (filter (HasAxis E axes) (axis_types E)) e)"
  unfolding DeserializeAxes_def concat.simps
  by (rule i32_field.yields_next [OF TrueI]) (rule yields_last [OF read_axes_yields], intro yielding, simp_all)

lemma read_buttons_yields:
  "yields (read_buttons (length bs) old) e (concat (map i32_bytes bs)) () (fold SetButtonPressed bs e)"
proof (induction bs arbitrary: old e)
  case (Cons b bs)
  then show ?case by (auto intro!: yielding)
qed (simp add: yields_skip)

lemma unat_of_length: "n \<le> 2048 \<Longrightarrow> unat (word_of_nat n :: u64) = n"
  by (simp add: unat_of_nat take_bit_nat_eq_self)

lemma PressedButtons_yields:
  assumes "length bs \<le> MAX_N_PRESSED_BUTTONS"
  shows "yields (DeserializePressedButtons junk) e (concat (size_bytes bs # map i32_bytes bs)) RET_OK
     (fold SetButtonPressed bs e)"
proof -
  have "length bs \<le> 2048" "length bs \<le> 10"
    using assms by (simp_all add: MAX_N_PRESSED_BUTTONS_def)
  note n = unat_of_length [OF this(1)] this(2)
  show ?thesis
    unfolding DeserializePressedButtons_def size_bytes_def concat.simps
    by (intro u64_field.yields_next TrueI yields_False; unfold n(1))
      (use n in \<open>simp add: MAX_N_PRESSED_BUTTONS_def\<close>, rule yields_last [OF read_buttons_yields], intro yielding, simp_all)
qed

primrec item_images :: "(nat \<Rightarrow> char) \<Rightarrow> pointer_item list \<Rightarrow> char list list" where
  "item_images pad [] = []"
| "item_images pad (it # its) = item_image pad it # item_images (\<lambda>i. pad (i + 11)) its"

lemma read_items_yields:
  "\<forall>it \<in> set its. fits64 (it_downTime it)
   \<Longrightarrow> yields (read_items E (length its)) e (concat (item_images pad its)) RET_OK (fold (AddPointerItem E) its e)"
proof (induction its arbitrary: pad e)
  case Nil
  show ?case by (simp, intro yielding, simp_all)
next
  case (Cons it its)
  have "yields DeserializePointerItem e (item_image pad it) (RET_OK, it) e"
    unfolding DeserializePointerItem_def
    by (rule yields_last, rule item_field.yields_image) (use Cons.prems in \<open>simp; intro yielding; simp\<close>)+
  then show ?case
    using Cons by (auto intro!: yields_bind yielding)
qed

lemma Pointers_yields:
  assumes "length its \<le> MAX_N_POINTER_ITEMS" "\<forall>it \<in> set its. fits64 (it_downTime it)"
  shows "yields (DeserializePointers E junk) e (concat (size_bytes its # item_images pad its)) RET_OK
     (fold (AddPointerItem E) its e)"
proof -
  have "length its \<le> 2048" "length its \<le> 10"
    using assms(1) by (simp_all add: MAX_N_POINTER_ITEMS_def)
  note n = unat_of_length [OF this(1)] this(2)
  show ?thesis
    unfolding DeserializePointers_def size_bytes_def concat.simps
    by (intro u64_field.yields_next TrueI yields_False; unfold n(1))
      (use n in \<open>simp add: MAX_N_POINTER_ITEMS_def\<close>, rule read_items_yields [OF assms(2)])
qed

lemma PressedKeys_yields:
  assumes "length ks \<le> MAX_N_PRESSED_KEYS"
  shows "yields DeserializePressedKeys e (concat (size_bytes ks # map i32_bytes ks)) RET_OK (e\<lparr>p_pressedKeys := ks\<rparr>)"
proof -
  have "length ks \<le> 2048" "length ks \<le> 10"
    using assms(1) by (simp_all add: MAX_N_PRESSED_KEYS_def)
  note n = unat_of_length [OF this(1)] this(2)
  show ?thesis
    unfolding DeserializePressedKeys_def size_bytes_def concat.simps
    by (intro u64_field.yields_next TrueI yields_False; unfold n(1))
      (use n in \<open>simp add: MAX_N_PRESSED_KEYS_def\<close>,
        rule yields_last [OF i32_field.yields_list [of ks _ "[]"]], simp, intro yielding, simp_all)
qed

lemma Buffer_yields:
  assumes "length cs \<le> MAX_BUFFER_SIZE E" "length cs \<le> 2048"
  shows "yields (DeserializeBuffer E) e (concat (size_bytes cs # map (\<lambda>c. [c]) cs)) RET_OK (e\<lparr>p_buffer := cs\<rparr>)"
proof -
  note n = unat_of_length [OF assms(2)]
  show ?thesis
    unfolding DeserializeBuffer_def size_bytes_def concat.simps
    by (intro u64_field.yields_next TrueI yields_False; unfold n)
      (use assms in simp, rule yields_last [OF byte_field.yields_list [of cs _ "[]"]], simp, intro yielding, simp_all)
qed

lemma tail_yields:
  assumes "fits64 t"
  shows "yields (do { (ret, t) \<leftarrow> DeserializeInterceptorTime old; DeserializeScrollRows; pure (RET_OK, t) }) e
     (i64_bytes t @ i32_bytes rows) (RET_OK, t) (e\<lparr>p_scrollRows := rows\<rparr>)"
proof -
  have time: "yields (DeserializeInterceptorTime old) e (i64_bytes t) (RET_OK, t) e"
    unfolding DeserializeInterceptorTime_def
    by (rule yields_last [OF i64_field.yields_image [OF assms]]) (intro yielding, simp_all)
  have rows: "yields DeserializeScrollRows e (i32_bytes rows) RET_OK (e\<lparr>p_scrollRows := rows\<rparr>)"
    unfolding DeserializeScrollRows_def
    by (rule yields_last [OF i32_field.yields_image]) (simp, intro yielding, simp_all)
  show ?thesis
    by (rule yields_bind [OF time]) (simp, rule yields_last [OF rows], intro yielding, simp_all)
qed

section \<open>Writing an event\<close>

text \<open>\<open>writes f bss\<close>: when they fit, the writer \<open>f\<close> appends the bytes \<open>bss\<close> to the packet and succeeds.\<close>

definition writes :: "(net_packet \<Rightarrow> i32 \<times> net_packet) \<Rightarrow> char list list \<Rightarrow> bool" where
  "writes f bss \<longleftrightarrow> [] \<notin> set bss \<and> (\<forall>p. wf_buf p \<and> \<not> ChkRWError p
     \<and> wPos p + length (concat bss) \<le> MAX_STREAM_BUF_SIZE \<longrightarrow> f p = (RET_OK, puts bss p))"

lemma writes_checked: "[] \<notin> set bss \<Longrightarrow> writes (\<lambda>p. checked (puts bss p)) bss"
  by (simp add: writes_def checked_def puts_ok)

lemma puts_append: "puts (as @ bs) p = puts bs (puts as p)"
  by (simp add: puts_def)

lemma writes_and_then:
  assumes "writes f as" "writes g bs"
  shows "writes (\<lambda>p. and_then (f p) g) (as @ bs)"
proof -
  have "and_then (f p) g = (RET_OK, puts (as @ bs) p)"
    if "wf_buf p" "\<not> ChkRWError p" "wPos p + length (concat (as @ bs)) \<le> MAX_STREAM_BUF_SIZE" for p
  proof -
    have f: "f p = (RET_OK, puts as p)"
      using assms(1) that by (simp add: writes_def)
    have "\<not> ChkRWError (puts as p)" "wPos (puts as p) = wPos p + length (concat as)" "wf_buf (puts as p)"
      using assms(1) that puts_ok [of p as] puts_wf [of p as] by (simp_all add: writes_def)
    then have "g (puts as p) = (RET_OK, puts bs (puts as p))"
      using assms(2) that by (simp add: writes_def)
    then show ?thesis
      by (simp add: and_then_def f puts_append)
  qed
  then show ?thesis
    using assms by (simp add: writes_def)
qed

lemma writes_end: "writes (\<lambda>p. (RET_OK, p)) []"
  by (simp add: writes_def)

lemma writes_put:
  assumes "bs \<noteq> []" "writes f bss"
  shows "writes (\<lambda>p. f (put bs p)) (bs # bss)"
proof -
  have "f (put bs p) = (RET_OK, puts bss (put bs p))"
    if "wf_buf p" "\<not> ChkRWError p" "wPos p + length (concat (bs # bss)) \<le> MAX_STREAM_BUF_SIZE" for p
    using assms that puts_ok [of p "[bs]"] put_wf [of p bs] by (simp add: writes_def)
  then show ?thesis
    using assms by (simp add: writes_def)
qed

lemma bytes_not_Nil [simp]:
  "i64_bytes n \<noteq> []" "[] \<noteq> i64_bytes n" "size_bytes xs \<noteq> []" "[] \<noteq> size_bytes xs"
  "item_image pad it \<noteq> []" "[] \<noteq> item_image pad it"
  by (simp_all add: i64_bytes_def size_bytes_def item_image_def)

lemma items_not_Nil [simp]: "[] \<notin> set (item_images pad its)"
  by (induction its arbitrary: pad) simp_all

lemma write_items_writes:
  "\<forall>it \<in> set its. GetPointerItem e (it_pointerId it) = Some it
   \<Longrightarrow> writes (write_items pad e (map it_pointerId its)) (item_images pad its)"
proof (induction its arbitrary: pad)
  case Nil
  show ?case using writes_checked [of "[]"] by simp
next
  case (Cons it its)
  have "writes (SerializePointerItem pad it) [item_image pad it]"
    using writes_checked [of "[item_image pad it]"] unfolding SerializePointerItem_def by simp
  from writes_and_then [OF this Cons.IH [of "\<lambda>i. pad (i + 11)"]] Cons.prems show ?case
    by simp
qed

definition pointer_fields :: "env \<Rightarrow> (nat \<Rightarrow> char) \<Rightarrow> pointer_event \<Rightarrow> int \<Rightarrow> char list list" where
  "pointer_fields E pad e t = base_fields (pointer_base e)
     @ [i32_bytes (p_action e), i32_bytes (p_pointerId e), i32_bytes (p_sourceType e), i32_bytes (p_buttonId e),
        i32_bytes (p_fingerCount e), i32_bytes (p_zOrder e)]
     @ (i32_bytes (p_axes e) # map (\<lambda>i. u64_bytes (p_axisValues e i)) (filter (HasAxis E (p_axes e)) (axis_types E)))
     @ (size_bytes (p_pressedButtons e) # map i32_bytes (p_pressedButtons e))
     @ (size_bytes (p_items e) # item_images pad (p_items e))
     @ (size_bytes (p_pressedKeys e) # map i32_bytes (p_pressedKeys e))
     @ (size_bytes (p_buffer e) # map (\<lambda>c. [c]) (p_buffer e))
     @ [i64_bytes t, i32_bytes (p_scrollRows e)]"

lemma found_items:
  "distinct (GetPointerIds e) \<Longrightarrow> \<forall>it \<in> set (p_items e). GetPointerItem e (it_pointerId it) = Some it"
proof -
  have "distinct (map it_pointerId its) \<Longrightarrow> it \<in> set its \<Longrightarrow> List.find (\<lambda>x. it_pointerId x = it_pointerId it) its = Some it"
    for its and it :: pointer_item
    by (induction its) (auto simp: image_iff)
  then show "distinct (GetPointerIds e) \<Longrightarrow> \<forall>it \<in> set (p_items e). GetPointerItem e (it_pointerId it) = Some it"
    by (simp add: GetPointerIds_def GetPointerItem_def)
qed

lemma Marshalling_writes:
  assumes "length (p_pressedButtons e) \<le> MAX_N_PRESSED_BUTTONS" "length (p_buffer e) \<le> MAX_BUFFER_SIZE E"
    and "distinct (GetPointerIds e)"
  shows "writes (Marshalling E pad e t) (pointer_fields E pad e t)"
proof -
  have "SerializePressedButtons e = (\<lambda>p. checked (puts (size_bytes (p_pressedButtons e) # map i32_bytes (p_pressedButtons e)) p))"
    using assms(1) by (auto simp: SerializePressedButtons_def)
  then have buttons: "writes (SerializePressedButtons e) (size_bytes (p_pressedButtons e) # map i32_bytes (p_pressedButtons e))"
    by (simp only:) (rule writes_checked, auto)
  have "SerializeBuffer E e = (\<lambda>p. checked (puts (size_bytes (p_buffer e) # map (\<lambda>c. [c]) (p_buffer e)) p))"
    using assms(2) by (auto simp: SerializeBuffer_def)
  then have buffer: "writes (SerializeBuffer E e) (size_bytes (p_buffer e) # map (\<lambda>c. [c]) (p_buffer e))"
    by (simp only:) (rule writes_checked, auto)
  have "size_bytes (GetPointerIds e) = size_bytes (p_items e)"
    by (simp add: size_bytes_def GetPointerIds_def)
  then have items: "writes (SerializePointers pad e) (size_bytes (p_items e) # item_images pad (p_items e))"
    using writes_put [OF _ write_items_writes [OF found_items [OF assms(3)]], of "size_bytes (p_items e)" pad]
    unfolding SerializePointers_def [abs_def] GetPointerIds_def by simp
  have last: "writes (\<lambda>p. and_then (SerializeScrollRows e p) (\<lambda>p. (RET_OK, p))) [i32_bytes (p_scrollRows e)]"
    using writes_and_then [OF writes_checked [of "[i32_bytes (p_scrollRows e)]"] writes_end]
    unfolding SerializeScrollRows_def by simp
  have time: "writes (\<lambda>p. and_then (SerializeInterceptorTime t p) (\<lambda>p. and_then (SerializeScrollRows e p) (\<lambda>p. (RET_OK, p))))
      [i64_bytes t, i32_bytes (p_scrollRows e)]"
    using writes_and_then [OF writes_checked [of "[i64_bytes t]"] last]
    unfolding SerializeInterceptorTime_def by simp
  show ?thesis
    unfolding Marshalling_def [abs_def] pointer_fields_def
    by (intro writes_and_then time items buttons buffer;
        unfold SerializeInputEvent_def SerializeBaseInfo_def SerializeAxes_def SerializePressedKeys_def;
        intro writes_checked; auto simp: base_fields_def)
qed

section \<open>A pointer event crosses\<close>

text \<open>
  What the input service documents of three methods: items are appended, and the axes that have
  a value are the bits of a mask.
\<close>

definition appends_items :: "env \<Rightarrow> bool" where
  "appends_items E \<longleftrightarrow> (\<forall>it p. length (p_items p) < 10 \<and> it_pointerId it \<notin> set (GetPointerIds p)
     \<longrightarrow> AddPointerItem E it p = p\<lparr>p_items := p_items p @ [it]\<rparr>)"

definition axis_bits :: "env \<Rightarrow> bool" where
  "axis_bits E \<longleftrightarrow> (\<forall>a i. HasAxis E a i = bit a i) \<and> (\<forall>i v p. SetAxisValue E i v p
     = p\<lparr>p_axes := set_bit i (p_axes p), p_axisValues := (p_axisValues p)(i := v)\<rparr>)"

text \<open>The events that the receiver accepts as a whole, and a receiver's event after its reset.\<close>

definition sendable :: "env \<Rightarrow> pointer_event \<Rightarrow> bool" where
  "sendable E e \<longleftrightarrow> length (p_pressedButtons e) \<le> MAX_N_PRESSED_BUTTONS \<and> oset_ok sint (p_pressedButtons e)
     \<and> length (p_items e) \<le> MAX_N_POINTER_ITEMS \<and> distinct (GetPointerIds e)
     \<and> length (p_pressedKeys e) \<le> MAX_N_PRESSED_KEYS \<and> length (p_buffer e) \<le> MAX_BUFFER_SIZE E
     \<and> wf_base (pointer_base e) \<and> (\<forall>it \<in> set (p_items e). fits64 (it_downTime it))
     \<and> (\<forall>i. if bit (p_axes e) i then i \<in> set (axis_types E) else p_axisValues e i = 0)"

definition fresh :: "pointer_event \<Rightarrow> bool" where
  "fresh e \<longleftrightarrow> p_items e = [] \<and> p_pressedButtons e = [] \<and> p_flags e = 0 \<and> p_axes e = 0 \<and> p_axisValues e = (\<lambda>_. 0)"

text \<open>The bytes of an event.\<close>

definition pointer_size :: "env \<Rightarrow> pointer_event \<Rightarrow> nat" where
  "pointer_size E e = 128 + 8 * length (filter (HasAxis E (p_axes e)) (axis_types E))
     + 4 * length (p_pressedButtons e) + 160 * length (p_items e) + 4 * length (p_pressedKeys e) + length (p_buffer e)"

lemma length_concat_same: "(\<And>x. length (f x) = n) \<Longrightarrow> length (concat (map f xs)) = n * length xs"
  by (induction xs) simp_all

lemma length_item_images: "length (concat (item_images pad its)) = 160 * length its"
  by (induction its arbitrary: pad) simp_all

lemma length_pointer_fields: "length (concat (pointer_fields E pad e t)) = pointer_size E e"
  by (simp add: pointer_fields_def base_fields_def pointer_size_def i64_bytes_def size_bytes_def
      length_concat_same length_item_images)

lemma fold_axes:
  assumes "axis_bits E"
  shows "fold (\<lambda>i. SetAxisValue E i (v i)) is e = e\<lparr>p_axes := fold set_bit is (p_axes e),
     p_axisValues := override_on (p_axisValues e) v (set is)\<rparr>"
proof (induction "is" arbitrary: e)
  case (Cons i "is")
  have "override_on ((p_axisValues e)(i := v i)) v (set is) = override_on (p_axisValues e) v (set (i # is))"
    by (auto simp: override_on_def)
  then show ?case
    using Cons assms by (simp add: axis_bits_def fun_upd_def)
qed simp

lemma bit_fold_set_bit: "bit (fold set_bit is (a :: u32)) i \<longleftrightarrow> bit a i \<or> i < 32 \<and> i \<in> set is"
  by (induction "is" arbitrary: a) (auto simp: bit_set_bit_iff)

lemma oset_insert_greatest: "\<forall>y \<in> set ys. k y < k x \<Longrightarrow> oset_insert k x ys = ys @ [x]"
  by (induction ys) auto

lemma fold_buttons: "oset_ok sint (p_pressedButtons e @ bs)
   \<Longrightarrow> fold SetButtonPressed bs e = e\<lparr>p_pressedButtons := p_pressedButtons e @ bs\<rparr>"
proof (induction bs arbitrary: e)
  case (Cons b bs)
  have "SetButtonPressed b e = e\<lparr>p_pressedButtons := p_pressedButtons e @ [b]\<rparr>"
    using Cons.prems by (simp add: SetButtonPressed_def sorted_wrt_append oset_insert_greatest)
  with Cons show ?case by simp
qed simp

lemma fold_items:
  assumes "appends_items E"
  shows "length (p_items e @ its) \<le> 10 \<Longrightarrow> distinct (map it_pointerId (p_items e @ its))
   \<Longrightarrow> fold (AddPointerItem E) its e = e\<lparr>p_items := p_items e @ its\<rparr>"
proof (induction its arbitrary: e)
  case (Cons it its)
  then have "AddPointerItem E it e = e\<lparr>p_items := p_items e @ [it]\<rparr>"
    using assms by (auto simp: appends_items_def GetPointerIds_def)
  with Cons show ?case by simp
qed simp

lemma Unmarshalling_yields:
  assumes "appends_items E" "axis_bits E" "sendable E e" "fits64 t" "length (p_buffer e) \<le> 2048" "fresh e0"
  shows "yields (Unmarshalling E junk old) e0 (concat (pointer_fields E pad e t)) (RET_OK, t)
     (e\<lparr>p_eventType := p_eventType e0, p_originAction := p_originAction e0\<rparr>)"
proof -
  let ?b = "received_base (pointer_base e) (pointer_base e0)"
  let ?is = "filter (HasAxis E (p_axes e)) (axis_types E)"
  have axes: "fold set_bit ?is 0 = p_axes e" "override_on (\<lambda>_. 0) (p_axisValues e) (set ?is) = p_axisValues e"
  proof -
    have "bit (p_axes e) i \<Longrightarrow> i < 32" for i
      using bit_imp_le_length [of "p_axes e" i] by simp
    then show "fold set_bit ?is 0 = p_axes e"
      using assms(2,3) by (intro bit_eqI) (auto simp: bit_fold_set_bit axis_bits_def sendable_def)
    show "override_on (\<lambda>_. 0) (p_axisValues e) (set ?is) = p_axisValues e"
    proof
      fix i
      have "if bit (p_axes e) i then i \<in> set (axis_types E) else p_axisValues e i = 0"
        using assms(3) by (simp add: sendable_def)
      then show "override_on (\<lambda>_. 0) (p_axisValues e) (set ?is) i = p_axisValues e i"
        using assms(2) by (simp add: axis_bits_def override_on_def split: if_splits)
    qed
  qed
  let ?e1 = "with_pointer_base ?b e0"
  let ?e2 = "?e1\<lparr>p_action := p_action e, p_pointerId := p_pointerId e, p_sourceType := p_sourceType e,
      p_buttonId := p_buttonId e, p_fingerCount := p_fingerCount e, p_zOrder := p_zOrder e\<rparr>"
  let ?e3 = "fold (\<lambda>i. SetAxisValue E i (p_axisValues e i)) ?is ?e2"
  let ?e4 = "fold SetButtonPressed (p_pressedButtons e) ?e3"
  let ?e5 = "fold (AddPointerItem E) (p_items e) ?e4"
  have "yields (Unmarshalling E junk old) e0 (concat (pointer_fields E pad e t)) (RET_OK, t)
     (?e5\<lparr>p_pressedKeys := p_pressedKeys e, p_buffer := p_buffer e, p_scrollRows := p_scrollRows e\<rparr>)"
  proof -
    have tail: "concat [i64_bytes t, i32_bytes (p_scrollRows e)] = i64_bytes t @ i32_bytes (p_scrollRows e)"
      by simp
    show ?thesis
      unfolding Unmarshalling_def pointer_fields_def concat_append tail
      apply (rule yields_fails_to [OF yields_via [OF InputEvent_yields]])
      subgoal using assms(3) by (simp add: sendable_def)
      apply (rule yields_fails_to [OF BaseInfo_yields])
      apply (rule yields_fails_to [OF Axes_yields])
      apply (rule yields_fails_to [OF PressedButtons_yields])
      subgoal using assms(3) by (simp add: sendable_def)
      apply (rule yields_fails_to [OF Pointers_yields])
      subgoal using assms(3) by (simp add: sendable_def)
      subgoal using assms(3) by (simp add: sendable_def)
      apply (rule yields_fails_to [OF PressedKeys_yields])
      subgoal using assms(3) by (simp add: sendable_def)
      apply (rule yields_fails_to [OF Buffer_yields])
      subgoal using assms(3) by (simp add: sendable_def)
      subgoal using assms(5) .
      apply (rule tail_yields [OF assms(4)])
      done
  qed
  moreover have "?e3 = ?e2\<lparr>p_axes := p_axes e, p_axisValues := p_axisValues e\<rparr>"
    using assms(6) axes by (simp add: fold_axes [OF assms(2)] fresh_def with_pointer_base_def)
  moreover from this have "?e4 = ?e3\<lparr>p_pressedButtons := p_pressedButtons e\<rparr>"
    using assms(3,6) by (simp add: fold_buttons fresh_def sendable_def with_pointer_base_def)
  moreover from calculation have "?e5 = ?e4\<lparr>p_items := p_items e\<rparr>"
    using assms(3,6) by (simp add: fold_items [OF assms(1)] fresh_def sendable_def with_pointer_base_def
        MAX_N_POINTER_ITEMS_def GetPointerIds_def)
  moreover have "?e2\<lparr>p_axes := p_axes e, p_axisValues := p_axisValues e, p_pressedButtons := p_pressedButtons e,
      p_items := p_items e, p_pressedKeys := p_pressedKeys e, p_buffer := p_buffer e, p_scrollRows := p_scrollRows e\<rparr>
      = e\<lparr>p_eventType := p_eventType e0, p_originAction := p_originAction e0\<rparr>"
    using assms(6) by (simp add: with_pointer_base_def received_base_def pointer_base_def fresh_def add_flag_def)
  ultimately show ?thesis
    by simp
qed

lemma Marshalling_encodes:
  assumes "sendable E e" "pointer_size E e \<le> 2048"
  shows "Marshalling E pad e t (NetPacket mid) = (RET_OK, encode mid (pointer_fields E pad e t))"
    "reads (encode mid (pointer_fields E pad e t)) (concat (pointer_fields E pad e t))"
    "msgId (encode mid (pointer_fields E pad e t)) = mid"
proof -
  have "writes (Marshalling E pad e t) (pointer_fields E pad e t)"
    using assms(1) by (intro Marshalling_writes) (simp_all add: sendable_def)
  then show "Marshalling E pad e t (NetPacket mid) = (RET_OK, encode mid (pointer_fields E pad e t))"
    "reads (encode mid (pointer_fields E pad e t)) (concat (pointer_fields E pad e t))"
    using assms(2) by (simp_all add: writes_def encode_def encode_reads [unfolded encode_def]
        length_pointer_fields MAX_STREAM_BUF_SIZE_def)
  show "msgId (encode mid (pointer_fields E pad e t)) = mid"
    by (simp add: encode_def)
qed

lemma pointer_crosses:
  assumes "appends_items E" "axis_bits E" "sendable E e" "fits64 t" "pointer_size E e \<le> 2048" "fresh e0"
  shows "let r = Marshalling E pad e t (NetPacket mid) in
     fst r = RET_OK \<and> (\<exists>p'. run_state (Unmarshalling E junk old) (e0, snd r)
       = ((RET_OK, t), e\<lparr>p_eventType := p_eventType e0, p_originAction := p_originAction e0\<rparr>, p'))"
proof -
  note enc = Marshalling_encodes [OF assms(3,5), where pad = pad and t = t and mid = mid]
  have r: "reads (encode mid (pointer_fields E pad e t)) (concat (pointer_fields E pad e t) @ [])"
    using enc(2) by simp
  have "length (p_buffer e) \<le> 2048"
    using assms(5) by (simp add: pointer_size_def)
  from yieldsD [OF Unmarshalling_yields [OF assms(1-4) this assms(6), where junk = junk and old = old and pad = pad] r]
  show ?thesis
    by (auto simp: Let_def enc(1))
qed

text \<open>
  C30. A pointer event survives the way through a packet. Every event within the receiver's limits
  that fits into a packet is written without an error, and the receiver reads back the same
  event, with its interceptor time; only the event type and the original action, which are not
  sent, are the receiver's own. What lies on either stack does not matter.
\<close>

theorem pointer_event_read_back:
  assumes "appends_items E" "axis_bits E" "sendable E e" "fits64 t" "pointer_size E e \<le> 2048" "fresh e0"
  shows "let r = Marshalling E pad e t (NetPacket mid) in
     fst r = RET_OK \<and> (\<exists>p'. run_state (Unmarshalling E junk old) (e0, snd r)
       = ((RET_OK, t), e\<lparr>p_eventType := p_eventType e0, p_originAction := p_originAction e0\<rparr>, p'))"
  using assms by (rule pointer_crosses)

lemma ideal_laws: "appends_items ideal_env" "axis_bits ideal_env"
  by (simp_all add: appends_items_def axis_bits_def ideal_env_def set_bit_eq_or)

lemma sample_sendable: "sendable ideal_env (sample_pointer 3 4)"
  by (simp add: sendable_def ideal_env_def sample_pointer_def blank_pointer_def blank_item_def wf_base_def
      pointer_base_def fits64_def GetPointerIds_def axis_types_def MAX_N_POINTER_ITEMS_def)

lemma fresh_blank: "fresh blank_pointer"
  by (simp add: fresh_def blank_pointer_def)

lemma sample_size: "pointer_size ideal_env (sample_pointer 3 4) = 288"
  by (simp add: pointer_size_def sample_pointer_def blank_pointer_def ideal_env_def)

theorem pointer_event_read_back_witness:
  "fst (run_state (Unmarshalling ideal_env (\<lambda>_. NUL) (- 1))
     (blank_pointer, snd (Marshalling ideal_env (\<lambda>_. CHR ''x'') (sample_pointer 3 4) 77 (NetPacket 5)))) = (RET_OK, 77)"
  using pointer_event_read_back [OF ideal_laws sample_sendable, of 77 blank_pointer "\<lambda>_. CHR ''x''" 5 "\<lambda>_. NUL" "- 1"]
  by (auto simp: Let_def sample_size fits64_def fresh_blank)

section \<open>A key event crosses\<close>

text \<open>Key items are appended; which keys count as pressed is then up to the input service.\<close>

definition collects_items :: "env \<Rightarrow> bool" where
  "collects_items E \<longleftrightarrow> (\<forall>it k. \<exists>ks. AddKeyItem E it k = k\<lparr>k_items := k_items k @ [it], k_pressedKeys := ks\<rparr>)"

definition key_size :: "key_event \<Rightarrow> nat" where
  "key_size k = 75 + 21 * length (k_items k)"

definition key_fields :: "key_event \<Rightarrow> char list list" where
  "key_fields k = base_fields (key_base k) @ [i32_bytes (k_keyCode k), i32_bytes (k_action k), i32_bytes (k_intention k)]
     @ i32_bytes (word_of_nat (length (k_items k))) # concat (map key_item_fields (k_items k))
     @ [bool_bytes (k_numLock k), bool_bytes (k_capsLock k), bool_bytes (k_scrollLock k)]"

lemma ReadFunctionKeys_yields:
  "yields ReadFunctionKeys e (concat [bool_bytes a, bool_bytes b, bool_bytes c]) ()
     (e\<lparr>k_numLock := a, k_capsLock := b, k_scrollLock := c\<rparr>)"
  unfolding ReadFunctionKeys_def concat.simps
  by (intro yielding) (simp add: yields_def upd_def)

lemma read_key_items_yields:
  assumes "collects_items E"
  shows "\<forall>it \<in> set its. fits64 (ki_downTime it) \<Longrightarrow> \<exists>ks. yields (read_key_items E junk (length its) d b) e
     (concat (concat (map key_item_fields its) @ [bool_bytes x, bool_bytes y, bool_bytes z])) RET_OK
     (e\<lparr>k_items := k_items e @ its, k_pressedKeys := ks, k_numLock := x, k_capsLock := y, k_scrollLock := z\<rparr>)"
proof (induction its arbitrary: d b e)
  case Nil
  have "yields (read_key_items E junk 0 d b) e (concat [bool_bytes x, bool_bytes y, bool_bytes z]) RET_OK
      (e\<lparr>k_numLock := x, k_capsLock := y, k_scrollLock := z\<rparr>)"
    unfolding read_key_items.simps
    by (rule yields_last [OF ReadFunctionKeys_yields]) (intro yielding refl)
  then show ?case
    by (intro exI [of _ "k_pressedKeys e"]) simp
next
  case (Cons it its)
  let ?e = "AddKeyItem E it e"
  obtain ks0 where e: "?e = e\<lparr>k_items := k_items e @ [it], k_pressedKeys := ks0\<rparr>"
    using assms unfolding collects_items_def by blast
  obtain ks where rest: "yields (read_key_items E junk (length its) (ki_deviceId it) (ki_pressed it)) ?e
     (concat (concat (map key_item_fields its) @ [bool_bytes x, bool_bytes y, bool_bytes z])) RET_OK
     (?e\<lparr>k_items := k_items ?e @ its, k_pressedKeys := ks, k_numLock := x, k_capsLock := y, k_scrollLock := z\<rparr>)"
    using Cons.IH [of "ki_deviceId it" "ki_pressed it" ?e] Cons.prems by auto
  have item: "\<lparr>ki_keyCode = ki_keyCode it, ki_downTime = ki_downTime it, ki_deviceId = ki_deviceId it,
      ki_pressed = ki_pressed it, ki_unicode = ki_unicode it\<rparr> = it"
    by simp
  have t: "fits64 (ki_downTime it)"
    using Cons.prems by simp
  have step: "yields (read_key_items E junk (length (it # its)) d b) e (concat (key_item_fields it) @ bs) RET_OK e'"
    if "yields (read_key_items E junk (length its) (ki_deviceId it) (ki_pressed it)) ?e bs RET_OK e'" for bs e'
    unfolding key_item_fields_def list.size read_key_items.simps concat.simps append_assoc append_Nil
      add_Suc_right add_0_right
    using that by (intro yielding t) (simp_all add: item)
  from step [OF rest] show ?case
    by (intro exI [of _ ks]) (simp add: e)
qed

lemma length_key_fields: "length (concat (key_fields k)) = key_size k"
proof -
  have "length (concat (concat (map key_item_fields its))) = 21 * length its" for its
    by (induction its) (simp_all add: key_item_fields_def i64_bytes_def)
  then show ?thesis
    by (simp add: key_fields_def base_fields_def key_size_def i64_bytes_def)
qed

lemma key_fields_not_Nil: "[] \<notin> set (key_fields k)"
  by (auto simp: key_fields_def base_fields_def key_item_fields_def)

lemma sint_small_length: "n \<le> 2048 \<Longrightarrow> sint (word_of_nat n :: i32) = int n"
  by (simp add: signed_of_nat signed_take_bit_int_eq_self)

lemma KeyEventToNetPacket_writes:
  assumes "key_size k \<le> 2048"
  shows "writes (KeyEventToNetPacket k) (key_fields k)"
proof -
  let ?tail = "i32_bytes (word_of_nat (length (k_items k))) # concat (map key_item_fields (k_items k))
       @ [bool_bytes (k_numLock k), bool_bytes (k_capsLock k), bool_bytes (k_scrollLock k)]"
  let ?mid = "[i32_bytes (k_keyCode k), i32_bytes (k_action k), i32_bytes (k_intention k)]"
  have "length (k_items k) \<le> 93"
    using assms by (simp add: key_size_def)
  then have "KeyEventToNetPacket k = (\<lambda>p. and_then (SerializeInputEvent (key_base k) p) (\<lambda>p. checked (puts (?mid @ ?tail) p)))"
    by (simp add: KeyEventToNetPacket_def fun_eq_iff Let_def MAX_KEY_SIZE_def sint_small_length puts_append)
  moreover have mid: "[] \<notin> set (?mid @ ?tail)" and base: "[] \<notin> set (base_fields (key_base k))"
    by (auto simp: key_item_fields_def base_fields_def)
  ultimately show ?thesis
    using writes_and_then [OF writes_checked [OF base] writes_checked [OF mid]]
    by (simp only: SerializeInputEvent_def key_fields_def append_assoc)
qed

lemma NetPacketToKeyEvent_yields:
  assumes "collects_items E" "wf_base (key_base k)" "\<forall>it \<in> set (k_items k). fits64 (ki_downTime it)"
    and "key_size k \<le> 2048" "k_flags k0 = 0" "k_items k0 = []"
  shows "\<exists>ks. yields (NetPacketToKeyEvent E junk) k0 (concat (key_fields k)) RET_OK
     (k\<lparr>k_eventType := k_eventType k0, k_pressedKeys := ks\<rparr>)"
proof -
  let ?k1 = "with_key_base (received_base (key_base k) (key_base k0)) k0"
  let ?k2 = "?k1\<lparr>k_keyCode := k_keyCode k, k_action := k_action k, k_intention := k_intention k\<rparr>"
  obtain ks where items: "yields (read_key_items E junk (length (k_items k)) (k_intention k) False) ?k2
     (concat (concat (map key_item_fields (k_items k)) @ [bool_bytes (k_numLock k), bool_bytes (k_capsLock k), bool_bytes (k_scrollLock k)]))
     RET_OK (?k2\<lparr>k_items := k_items ?k2 @ k_items k, k_pressedKeys := ks, k_numLock := k_numLock k,
       k_capsLock := k_capsLock k, k_scrollLock := k_scrollLock k\<rparr>)"
    using read_key_items_yields [OF assms(1,3)] by blast
  have "length (k_items k) \<le> 93"
    using assms(4) by (simp add: key_size_def)
  then have n: "sint (word_of_nat (length (k_items k)) :: i32) = int (length (k_items k))"
    "\<not> MAX_KEY_SIZE < int (length (k_items k))"
    by (simp_all add: sint_small_length MAX_KEY_SIZE_def)
  have "?k2\<lparr>k_items := k_items ?k2 @ k_items k, k_pressedKeys := ks, k_numLock := k_numLock k,
       k_capsLock := k_capsLock k, k_scrollLock := k_scrollLock k\<rparr> = k\<lparr>k_eventType := k_eventType k0, k_pressedKeys := ks\<rparr>"
    using assms(5,6) by (simp add: with_key_base_def received_base_def key_base_def add_flag_def)
  note items = items [unfolded this]
  have "yields (NetPacketToKeyEvent E junk) k0 (concat (key_fields k)) RET_OK (k\<lparr>k_eventType := k_eventType k0, k_pressedKeys := ks\<rparr>)"
    unfolding NetPacketToKeyEvent_def key_fields_def concat_append [of "base_fields _"]
  proof (rule yields_fails_to [OF yields_via [OF InputEvent_yields [OF assms(2)]]])
    show "yields (do {
         d \<leftarrow> rd_i32 0; upd (\<lambda>k. k\<lparr>k_keyCode := d\<rparr>);
         d \<leftarrow> rd_i32 d; upd (\<lambda>k. k\<lparr>k_action := d\<rparr>);
         d \<leftarrow> rd_i32 d; upd (\<lambda>k. k\<lparr>k_intention := d\<rparr>);
         size \<leftarrow> rd_i32 0;
         if MAX_KEY_SIZE < sint size then pure RET_ERR
         else do { failed \<leftarrow> bad; if failed then pure RET_ERR else read_key_items E junk (nat (sint size)) d False } })
       ?k1 (concat ([i32_bytes (k_keyCode k), i32_bytes (k_action k), i32_bytes (k_intention k)]
         @ i32_bytes (word_of_nat (length (k_items k))) # concat (map key_item_fields (k_items k))
         @ [bool_bytes (k_numLock k), bool_bytes (k_capsLock k), bool_bytes (k_scrollLock k)]))
       RET_OK (k\<lparr>k_eventType := k_eventType k0, k_pressedKeys := ks\<rparr>)"
      unfolding append_Cons append_Nil concat.simps(2)
      by (intro yielding) (simp_all only: n items nat_int not_False_eq_True)
  qed
  then show ?thesis ..
qed

text \<open>
  A key event survives the way through a packet: written without an error if it has at most
  93 keys, it is read back with its code, action, intention, keys and lock states. Which keys
  the receiver counts as pressed follows from the keys it is given; the event type is its own.
\<close>

theorem key_event_read_back:
  assumes "collects_items E" "wf_base (key_base k)" "\<forall>it \<in> set (k_items k). fits64 (ki_downTime it)"
    and "length (k_items k) \<le> 93" "k_flags k0 = 0" "k_items k0 = []"
  shows "let r = KeyEventToNetPacket k (NetPacket mid) in
     fst r = RET_OK \<and> (\<exists>ks p'. run_state (NetPacketToKeyEvent E junk) (k0, snd r)
       = (RET_OK, k\<lparr>k_eventType := k_eventType k0, k_pressedKeys := ks\<rparr>, p'))"
proof -
  have size: "key_size k \<le> 2048"
    using assms(4) by (simp add: key_size_def)
  then have w: "KeyEventToNetPacket k (NetPacket mid) = (RET_OK, encode mid (key_fields k))"
    using KeyEventToNetPacket_writes [OF size]
    by (simp add: writes_def encode_def length_key_fields MAX_STREAM_BUF_SIZE_def)
  have r: "reads (encode mid (key_fields k)) (concat (key_fields k) @ [])"
    using size by (simp add: encode_reads length_key_fields key_fields_not_Nil)
  show ?thesis
    using NetPacketToKeyEvent_yields [OF assms(1-3) size assms(5,6)] yieldsD [OF _ r]
    by (fastforce simp: Let_def w)
qed

theorem key_event_read_back_witness:
  "fst (run_state (NetPacketToKeyEvent ideal_env (\<lambda>_. NUL))
     (blank_key, snd (KeyEventToNetPacket (blank_key\<lparr>k_items := [\<lparr>ki_keyCode = 2001, ki_downTime = 5, ki_deviceId = 3,
        ki_pressed = True, ki_unicode = 97\<rparr>], k_capsLock := True\<rparr>) (NetPacket 6)))) = RET_OK"
proof -
  have "collects_items ideal_env"
    unfolding collects_items_def ideal_env_def env.simps by blast
  then show ?thesis
    using key_event_read_back [of ideal_env "blank_key\<lparr>k_items := [\<lparr>ki_keyCode = 2001, ki_downTime = 5, ki_deviceId = 3,
        ki_pressed = True, ki_unicode = 97\<rparr>], k_capsLock := True\<rparr>" blank_key 6 "\<lambda>_. NUL"]
    by (auto simp: Let_def wf_base_def key_base_def fits64_def blank_key_def)
qed

section \<open>An event that is sent and not accepted\<close>

lemma yields_fails: "yields m e bs r e1 \<Longrightarrow> r \<noteq> RET_OK \<Longrightarrow> yields (fails_to x m k) e bs x e1"
  unfolding fails_to_def by (rule yields_last, assumption) (simp add: yields_pure)

lemma too_many_keys_yields:
  assumes "MAX_N_PRESSED_KEYS < length ks" "length ks \<le> 2048"
  shows "yields DeserializePressedKeys e (size_bytes ks) RET_ERR e"
  unfolding DeserializePressedKeys_def size_bytes_def
  by (rule yields_last [OF u64_field.yields_image [OF TrueI]])
    (use assms in \<open>simp add: unat_of_length MAX_N_PRESSED_KEYS_def yields_pure\<close>)

text \<open>
  The sender does not count the pressed keys of a pointer event, the receiver does: an event
  with more than ten of them that fits into a packet is written without an error, and refused by
  every receiver.
\<close>

theorem uncounted_keys_refused:
  assumes "MAX_N_PRESSED_KEYS < length (p_pressedKeys e)" "sendable E (e\<lparr>p_pressedKeys := []\<rparr>)"
    and "pointer_size E e \<le> 2048"
  shows "let r = Marshalling E pad e t (NetPacket mid) in
     fst r = RET_OK \<and> fst (run_state (Unmarshalling E junk old) (e0, snd r)) = (RET_ERR, old)"
proof -
  let ?bss = "pointer_fields E pad e t"
  have s: "length (p_pressedButtons e) \<le> MAX_N_PRESSED_BUTTONS" "length (p_items e) \<le> MAX_N_POINTER_ITEMS"
    "length (p_buffer e) \<le> MAX_BUFFER_SIZE E" "distinct (GetPointerIds e)" "wf_base (pointer_base e)"
    "\<forall>it \<in> set (p_items e). fits64 (it_downTime it)" "length (p_pressedKeys e) \<le> 2048"
    using assms(2,3) by (simp_all add: sendable_def GetPointerIds_def pointer_base_def pointer_size_def)
  have w: "Marshalling E pad e t (NetPacket mid) = (RET_OK, encode mid ?bss)" and ne: "[] \<notin> set ?bss"
    using Marshalling_writes [OF s(1,3,4)] assms(3)
    by (simp_all add: writes_def encode_def length_pointer_fields MAX_STREAM_BUF_SIZE_def)
  obtain pre rest where split: "concat ?bss = pre @ rest"
    and y: "\<exists>e'. yields (Unmarshalling E junk old) e0 pre (RET_ERR, old) e'"
  proof (rule that)
    show "concat ?bss = (concat (base_fields (pointer_base e)) @ concat [i32_bytes (p_action e),
          i32_bytes (p_pointerId e), i32_bytes (p_sourceType e), i32_bytes (p_buttonId e), i32_bytes (p_fingerCount e), i32_bytes (p_zOrder e)]
        @ concat (i32_bytes (p_axes e) # map (\<lambda>i. u64_bytes (p_axisValues e i)) (filter (HasAxis E (p_axes e)) (axis_types E)))
        @ concat (size_bytes (p_pressedButtons e) # map i32_bytes (p_pressedButtons e))
        @ concat (size_bytes (p_items e) # item_images pad (p_items e)) @ size_bytes (p_pressedKeys e))
      @ concat (map i32_bytes (p_pressedKeys e) @ (size_bytes (p_buffer e) # map (\<lambda>c. [c]) (p_buffer e))
          @ [i64_bytes t, i32_bytes (p_scrollRows e)])"
      by (simp add: pointer_fields_def)
    show "\<exists>e'. yields (Unmarshalling E junk old) e0 (concat (base_fields (pointer_base e)) @ concat [i32_bytes (p_action e),
          i32_bytes (p_pointerId e), i32_bytes (p_sourceType e), i32_bytes (p_buttonId e), i32_bytes (p_fingerCount e), i32_bytes (p_zOrder e)]
        @ concat (i32_bytes (p_axes e) # map (\<lambda>i. u64_bytes (p_axisValues e i)) (filter (HasAxis E (p_axes e)) (axis_types E)))
        @ concat (size_bytes (p_pressedButtons e) # map i32_bytes (p_pressedButtons e))
        @ concat (size_bytes (p_items e) # item_images pad (p_items e)) @ size_bytes (p_pressedKeys e)) (RET_ERR, old) e'"
      unfolding Unmarshalling_def
      apply (rule exI)
      apply (rule yields_fails_to [OF yields_via [OF InputEvent_yields [OF s(5)]]])
      apply (rule yields_fails_to [OF BaseInfo_yields])
      apply (rule yields_fails_to [OF Axes_yields])
      apply (rule yields_fails_to [OF PressedButtons_yields [OF s(1)]])
      apply (rule yields_fails_to [OF Pointers_yields [OF s(2,6)]])
      apply (rule yields_fails [OF too_many_keys_yields [OF assms(1) s(7)]])
      apply simp
      done
  qed
  have "reads (encode mid ?bss) (pre @ rest)"
    using assms(3) ne split by (simp add: encode_reads length_pointer_fields flip: split)
  then show ?thesis
    using y yieldsD by (fastforce simp: Let_def w)
qed

theorem uncounted_keys_refused_witness:
  "fst (run_state (Unmarshalling ideal_env (\<lambda>_. NUL) (- 1)) (blank_pointer,
     snd (Marshalling ideal_env (\<lambda>_. NUL) ((sample_pointer 3 4)\<lparr>p_pressedKeys := replicate 11 7\<rparr>) 77 (NetPacket 5)))) = (RET_ERR, - 1)"
proof -
  have "sendable ideal_env ((sample_pointer 3 4)\<lparr>p_pressedKeys := []\<rparr>)"
    using sample_sendable by (simp add: sample_pointer_def blank_pointer_def)
  then show ?thesis
    using uncounted_keys_refused [of "(sample_pointer 3 4)\<lparr>p_pressedKeys := replicate 11 7\<rparr>" ideal_env "\<lambda>_. NUL" 77 5 "\<lambda>_. NUL" "- 1" blank_pointer]
      sample_size by (simp add: pointer_size_def Let_def MAX_N_PRESSED_KEYS_def)
qed

end
