(* ===== verification/Input_Transmission.thy ===== *)
theory Input_Transmission
  imports Coop_Context Input_Serialization
begin

text \<open>
  src/intention/cooperate/plugin/src/input_event_transmission/input_event_builder.cpp (remote
  input events become local ones) and input_event_interceptor.cpp (local input events go to the
  peer). Coefficients are finite doubles.
\<close>

section \<open>State\<close>

record input_trans = coop_context +
  ib_enable :: bool
  ib_freezing :: bool
  ib_xDir :: i32
  ib_movement :: i32
  ib_nDropped :: nat
  ib_scanState :: bool
  ib_pointerEventTimer :: i32
  ib_rawDxRightRemainder :: rat
  ib_rawDxLeftRemainder :: rat
  ib_preDriveEventTime :: int
  ib_preInterceptorTime :: int
  ib_preCrossPlatformTime :: int
  ib_pointerSpeed :: i32
  ib_touchPadSpeed :: i32
  ib_remoteNetworkId :: net_id
  ib_localNetworkId :: net_id
  ib_isStopByScreenOffOrLock :: bool
  ib_damplingCoefficients :: "rat list"
  ib_pointerEvent :: pointer_event
  ib_keyEvent :: key_event
  ib_remote2VirtualIds :: "(i32 \<times> i32) list"
  ii_interceptorId :: i32
  ii_scanState :: bool
  ii_pointerEventTimer :: i32
  ii_remoteNetworkId :: net_id

definition DEFAULT_SCREEN_WIDTH :: int where "DEFAULT_SCREEN_WIDTH = 512"
definition MIN_DAMPLING_COEFFICENT :: rat where "MIN_DAMPLING_COEFFICENT = fl53 (5 / 100)"
definition MAX_DAMPLING_COEFFICENT :: rat where "MAX_DAMPLING_COEFFICENT = 3 / 2"
definition DEFAULT_DAMPLING_COEFFICIENT :: rat where "DEFAULT_DAMPLING_COEFFICIENT = 1"

abbreviation (input) RESTORE_SCENE :: i32 where "RESTORE_SCENE \<equiv> 0"
abbreviation (input) FORBIDDEN_SCENE :: i32 where "FORBIDDEN_SCENE \<equiv> 1"
abbreviation (input) MODE_ENABLE :: i32 where "MODE_ENABLE \<equiv> 0"
abbreviation (input) MODE_DISABLE :: i32 where "MODE_DISABLE \<equiv> 1"

definition SetWifiScene :: "env \<Rightarrow> i32 \<Rightarrow> ('s world_scheme, i32) state" where
  "SetWifiScene E scene = do {
     emit (SetUpperScene scene);
     ret \<leftarrow> ask (\<lambda>t. UpperScene_ret E t scene);
     pure (if ret \<noteq> RET_OK then RET_ERR else RET_OK) }"

section \<open>InputEventBuilder: life cycle\<close>

definition ib_TurnOffChannelScan :: "env \<Rightarrow> ('s input_trans_scheme, unit) state" where
  "ib_TurnOffChannelScan E = do {
     modify (\<lambda>s. s\<lparr>ib_scanState := False\<rparr>);
     ret \<leftarrow> SetWifiScene E FORBIDDEN_SCENE;
     only_if (ret \<noteq> RET_OK) (modify (\<lambda>s. s\<lparr>ib_scanState := True\<rparr>)) }"

definition ib_TurnOnChannelScan :: "env \<Rightarrow> ('s input_trans_scheme, unit) state" where
  "ib_TurnOnChannelScan E = do {
     modify (\<lambda>s. s\<lparr>ib_scanState := True\<rparr>);
     ret \<leftarrow> SetWifiScene E RESTORE_SCENE;
     only_if (ret \<noteq> RET_OK) (modify (\<lambda>s. s\<lparr>ib_scanState := False\<rparr>)) }"

definition ExecuteInner :: "('s world_scheme, unit) state" where
  "ExecuteInner = emit (LatencyRequest MODE_ENABLE)"

definition HandleStopTimer :: "('s world_scheme, unit) state" where
  "HandleStopTimer = emit (LatencyRequest MODE_DISABLE)"

definition ib_Enable :: "env \<Rightarrow> ('s input_trans_scheme, unit) state" where
  "ib_Enable E = do {
     on \<leftarrow> gets ib_enable;
     if on then skip
     else do {
       modify (\<lambda>s. s\<lparr>ib_enable := True, ib_xDir := 0, ib_movement := 0,
         ib_freezing := (ctx_flag s AND COOPERATE_FLAG_FREEZE_CURSOR \<noteq> 0),
         ib_remoteNetworkId := ctx_remoteNetworkId s\<rparr>);
       l \<leftarrow> Local E;
       modify (\<lambda>s. s\<lparr>ib_localNetworkId := l\<rparr>);
       v \<leftarrow> GetPointerSpeed E;
       modify (\<lambda>s. s\<lparr>ib_pointerSpeed := v\<rparr>);
       w \<leftarrow> GetTouchPadSpeed E;
       modify (\<lambda>s. s\<lparr>ib_touchPadSpeed := w\<rparr>);
       emit SoftbusAddObserver;
       ib_TurnOffChannelScan E;
       modify (\<lambda>s. s\<lparr>ib_isStopByScreenOffOrLock := False\<rparr>);
       ExecuteInner } }"

definition release_button :: "env \<Rightarrow> bool \<Rightarrow> i32 \<Rightarrow> ('s input_trans_scheme, unit) state" where
  "release_button E dragging b = (if dragging then skip else do {
     modify (\<lambda>s. s\<lparr>ib_pointerEvent := (ib_pointerEvent s)\<lparr>p_buttonId := b,
       p_action := (if ib_isStopByScreenOffOrLock s then POINTER_ACTION_CANCEL E
                    else POINTER_ACTION_BUTTON_UP E)\<rparr>\<rparr>);
     p \<leftarrow> gets ib_pointerEvent;
     emit (SimulatePointer p) })"

definition release_key :: "env \<Rightarrow> i32 \<Rightarrow> ('s input_trans_scheme, unit) state" where
  "release_key E c = do {
     modify (\<lambda>s. s\<lparr>ib_keyEvent := AddReleasedKeyItems E c
       ((ib_keyEvent s)\<lparr>k_keyCode := c, k_action := KEY_ACTION_UP E\<rparr>)\<rparr>);
     k \<leftarrow> gets ib_keyEvent;
     emit (SimulateKey k) }"

definition ResetPressedEvents :: "env \<Rightarrow> ('s input_trans_scheme, unit) state" where
  "ResetPressedEvents E = do {
     buttons \<leftarrow> gets (\<lambda>s. p_pressedButtons (ib_pointerEvent s));
     only_if (buttons \<noteq> []) (do {
       d \<leftarrow> ask (DragStateOf E);
       for_each buttons (release_button E (d = DRAG_START \<or> d = MOTION_DRAGGING));
       modify (\<lambda>s. s\<lparr>ib_pointerEvent := PointerReset E (ib_pointerEvent s)\<rparr>) });
     keys \<leftarrow> gets (\<lambda>s. k_pressedKeys (ib_keyEvent s));
     only_if (keys \<noteq> []) (do {
       for_each keys (release_key E);
       modify (\<lambda>s. s\<lparr>ib_keyEvent := KeyReset E (ib_keyEvent s)\<rparr>) }) }"

definition ib_drop_timer :: "('s input_trans_scheme, unit) state" where
  "ib_drop_timer = do {
     tm \<leftarrow> gets ib_pointerEventTimer;
     only_if (le32 0 tm) (do {
       emit (TimerRemoveAsync tm);
       modify (\<lambda>s. s\<lparr>ib_pointerEventTimer := - 1\<rparr>) }) }"

definition ib_Disable :: "env \<Rightarrow> ('s input_trans_scheme, unit) state" where
  "ib_Disable E = do {
     on \<leftarrow> gets ib_enable;
     only_if on (do {
       modify (\<lambda>s. s\<lparr>ib_enable := False\<rparr>);
       emit SoftbusRemoveObserver;
       ib_TurnOnChannelScan E;
       ResetPressedEvents E;
       modify (\<lambda>s. s\<lparr>ib_isStopByScreenOffOrLock := False\<rparr>) });
     ib_drop_timer;
     HandleStopTimer }"

definition ib_Update :: "('s input_trans_scheme, unit) state" where
  "ib_Update = modify (\<lambda>s. s\<lparr>ib_remoteNetworkId := ctx_remoteNetworkId s\<rparr>)"

definition ib_Freeze :: "('s input_trans_scheme, unit) state" where
  "ib_Freeze = modify (\<lambda>s. if \<not> ib_enable s then s
     else s\<lparr>ib_xDir := 0, ib_movement := 0, ib_freezing := True\<rparr>)"

definition ib_Thaw :: "('s input_trans_scheme, unit) state" where
  "ib_Thaw = modify (\<lambda>s. if \<not> ib_enable s then s else s\<lparr>ib_freezing := False\<rparr>)"

definition SetStopByScreenOffOrLock :: "bool \<Rightarrow> ('s input_trans_scheme, unit) state" where
  "SetStopByScreenOffOrLock b = modify (\<lambda>s. s\<lparr>ib_isStopByScreenOffOrLock := b\<rparr>)"

definition ib_UpdateVirtualDeviceIdMap :: "(i32 \<times> i32) list \<Rightarrow> ('s input_trans_scheme, unit) state" where
  "ib_UpdateVirtualDeviceIdMap m = modify (\<lambda>s. s\<lparr>ib_remote2VirtualIds := m\<rparr>)"

section \<open>InputEventBuilder: damping\<close>

definition dampled :: "u32 \<Rightarrow> rat \<Rightarrow> rat list \<Rightarrow> rat list" where
  "dampled dir coefficient cs =
     (let c = min (max coefficient MIN_DAMPLING_COEFFICENT) MAX_DAMPLING_COEFFICENT;
          put = (\<lambda>flag i cs. if dir AND flag = flag then cs[i := c] else cs)
      in put 8 3 (put 4 2 (put 2 1 (put 1 0 cs))))"

definition SetDamplingCoefficient :: "u32 \<Rightarrow> rat \<Rightarrow> ('s input_trans_scheme, unit) state" where
  "SetDamplingCoefficient dir c =
     modify (\<lambda>s. s\<lparr>ib_damplingCoefficients := dampled dir c (ib_damplingCoefficients s)\<rparr>)"

text \<open>
  Scaling one raw motion: the scaled motion plus what was left over before, cut to an integer,
  and what is left over now.
\<close>

definition damp :: "rat \<Rightarrow> rat \<Rightarrow> i32 \<Rightarrow> i32 \<times> rat" where
  "damp rest coefficient dx =
     (let v = fl53 (rest + fl53 (of_int (sint dx) * coefficient));
          n = word_of_int (trunc v) :: i32
      in (n, fl53 (v - of_int (sint n))))"

definition set_item :: "i32 \<Rightarrow> pointer_item \<Rightarrow> pointer_event \<Rightarrow> pointer_event" where
  "set_item pid item p =
     p\<lparr>p_items := map (\<lambda>it. if it_pointerId it = pid then item else it) (p_items p)\<rparr>"

definition DampPointerMotion :: "('s input_trans_scheme, bool) state" where
  "DampPointerMotion = do {
     p \<leftarrow> gets ib_pointerEvent;
     case GetPointerItem p (p_pointerId p) of
       None \<Rightarrow> pure False
     | Some item \<Rightarrow> do {
         cs \<leftarrow> gets ib_damplingCoefficients;
         right \<leftarrow> gets ib_rawDxRightRemainder;
         left \<leftarrow> gets ib_rawDxLeftRemainder;
         let dx = it_rawDx item;
         let dy = it_rawDy item;
         let (dx', right', left') =
           (if lt32 0 dx then (fst (damp right (cs ! 3) dx), snd (damp right (cs ! 3) dx), left)
            else if lt32 dx 0 then (fst (damp left (cs ! 2) dx), right, snd (damp left (cs ! 2) dx))
            else (dx, right, left));
         let dy' = word_of_int (trunc (fl53 (of_int (sint dy) * (if le32 0 dy then cs ! 1 else cs ! 0))));
         modify (\<lambda>s. s\<lparr>ib_rawDxRightRemainder := right', ib_rawDxLeftRemainder := left',
           ib_pointerEvent := set_item (p_pointerId p) (item\<lparr>it_rawDx := dx', it_rawDy := dy'\<rparr>) p\<rparr>);
         pure True } }"

section \<open>InputEventBuilder: events\<close>

definition tag_device :: "(i32 \<times> i32) list \<Rightarrow> i32 \<Rightarrow> i32" where
  "tag_device m d = (case map_of m d of Some v \<Rightarrow> v | None \<Rightarrow> if le32 0 d then - (d + 1) else d)"

definition TagRemoteEvent :: "('s input_trans_scheme, unit) state" where
  "TagRemoteEvent = modify (\<lambda>s. s\<lparr>ib_pointerEvent := (ib_pointerEvent s)
     \<lparr>p_deviceId := tag_device (ib_remote2VirtualIds s) (p_deviceId (ib_pointerEvent s))\<rparr>\<rparr>)"

definition TagRemoteKey :: "('s input_trans_scheme, unit) state" where
  "TagRemoteKey = modify (\<lambda>s. s\<lparr>ib_keyEvent := (ib_keyEvent s)
     \<lparr>k_deviceId := tag_device (ib_remote2VirtualIds s) (k_deviceId (ib_keyEvent s))\<rparr>\<rparr>)"

definition OnNotifyCrossDrag :: "env \<Rightarrow> pointer_event \<Rightarrow> ('s world_scheme, unit) state" where
  "OnNotifyCrossDrag E p =
     (if p_action p = POINTER_ACTION_PULL_IN_WINDOW E \<or> p_action p = POINTER_ACTION_PULL_OUT_WINDOW E
      then skip else emit (NotifyCrossDrag (MOUSE_BUTTON_LEFT E \<in> set (p_pressedButtons p))))"

definition is_motion :: "env \<Rightarrow> pointer_event \<Rightarrow> bool" where
  "is_motion E p \<longleftrightarrow> p_sourceType p = SOURCE_TYPE_MOUSE E
     \<and> (p_action p = POINTER_ACTION_MOVE E \<or> p_action p = POINTER_ACTION_PULL_MOVE E)"

text \<open>One motion under the freeze: the direction of the first motion and the way gone so far.\<close>

definition freeze_step :: "i32 \<Rightarrow> i32 \<times> i32 \<Rightarrow> i32 \<times> i32" where
  "freeze_step dx st = (case st of (xDir, movement) \<Rightarrow>
     let movement' = word_of_int (clamp (sint (movement + dx)) (- DEFAULT_SCREEN_WIDTH) DEFAULT_SCREEN_WIDTH)
     in (if xDir = 0 then movement' else xDir, movement'))"

definition thawed :: "i32 \<times> i32 \<Rightarrow> bool" where
  "thawed st = (case st of (xDir, movement) \<Rightarrow>
     (lt32 0 xDir \<and> le32 movement 0) \<or> (lt32 xDir 0 \<and> le32 0 movement))"

definition IsActive :: "env \<Rightarrow> pointer_event \<Rightarrow> ('s input_trans_scheme, bool) state" where
  "IsActive E p = do {
     freezing \<leftarrow> gets ib_freezing;
     if \<not> freezing \<or> \<not> is_motion E p then pure True
     else case GetPointerItem p (p_pointerId p) of
       None \<Rightarrow> pure False
     | Some item \<Rightarrow> do {
         st \<leftarrow> gets (\<lambda>s. freeze_step (it_rawDx item) (ib_xDir s, ib_movement s));
         modify (\<lambda>s. s\<lparr>ib_xDir := fst st, ib_movement := snd st\<rparr>);
         if thawed st then pure True
         else do {
           modify (\<lambda>s. s\<lparr>ib_nDropped := Suc (ib_nDropped s)\<rparr>);
           pure False } } }"

text \<open>The times that \<open>CheckLatency\<close> keeps; what it reports to the radar is not modelled.\<close>

definition CheckLatency :: "env \<Rightarrow> int \<Rightarrow> int \<Rightarrow> pointer_event \<Rightarrow> ('s input_trans_scheme, unit) state" where
  "CheckLatency E interceptorTime now p =
     (if p_action p \<noteq> POINTER_ACTION_MOVE E \<or> interceptorTime = - 1
      then modify (\<lambda>s. s\<lparr>ib_preDriveEventTime := - 1\<rparr>)
      else modify (\<lambda>s. s\<lparr>ib_preDriveEventTime := p_actionTime p,
        ib_preInterceptorTime := interceptorTime, ib_preCrossPlatformTime := now\<rparr>))"

definition UpdatePointerEvent :: "env \<Rightarrow> ('s input_trans_scheme, bool) state" where
  "UpdatePointerEvent E = do {
     p \<leftarrow> gets ib_pointerEvent;
     if p_sourceType p \<noteq> SOURCE_TYPE_MOUSE E then pure True
     else do {
       ok \<leftarrow> DampPointerMotion;
       if \<not> ok then pure False
       else do {
         now \<leftarrow> ask (SysClock E);
         modify (\<lambda>s. s\<lparr>ib_pointerEvent := (ib_pointerEvent s)
           \<lparr>p_flags := add_flag (EVENT_FLAG_RAW_POINTER_MOVEMENT E) (p_flags (ib_pointerEvent s)),
            p_actionTime := now, p_actionStartTime := now, p_targetDisplayId := - 1,
            p_targetWindowId := - 1, p_agentWindowId := - 1\<rparr>\<rparr>);
         pure True } } }"

definition ib_start_timer :: "env \<Rightarrow> ('s input_trans_scheme, unit) state" where
  "ib_start_timer E = do {
     emit (TimerAddAsync POINTER_EVENT_TIMEOUT REPEAT_ONCE);
     tm \<leftarrow> ask (AddTimerAsync_ret E);
     modify (\<lambda>s. s\<lparr>ib_pointerEventTimer := tm\<rparr>) }"

text \<open>The callback of that timer.\<close>

definition ib_timer_fired :: "env \<Rightarrow> ('s input_trans_scheme, unit) state" where
  "ib_timer_fired E = do {
     ib_TurnOnChannelScan E;
     modify (\<lambda>s. s\<lparr>ib_pointerEventTimer := - 1\<rparr>) }"

definition ib_OnPointerEvent :: "env \<Rightarrow> net_packet \<Rightarrow> ('s input_trans_scheme, unit) state" where
  "ib_OnPointerEvent E pkt = do {
     now \<leftarrow> ask (SysClock E);
     scan \<leftarrow> gets ib_scanState;
     only_if scan (ib_TurnOffChannelScan E);
     ib_drop_timer;
     modify (\<lambda>s. s\<lparr>ib_pointerEvent := PointerReset E (ib_pointerEvent s)\<rparr>);
     junk \<leftarrow> ask (StackByte E);
     (res, p, _) \<leftarrow> gets (\<lambda>s. run_state (Unmarshalling E junk (- 1)) (ib_pointerEvent s, pkt));
     let (ret, interceptorTime) = res;
     modify (\<lambda>s. s\<lparr>ib_pointerEvent := p\<rparr>);
     if ret \<noteq> RET_OK then skip
     else do {
       TagRemoteEvent;
       p \<leftarrow> gets ib_pointerEvent;
       OnNotifyCrossDrag E p;
       active \<leftarrow> IsActive E p;
       if \<not> active then ib_start_timer E
       else do {
         CheckLatency E interceptorTime now p;
         ok \<leftarrow> UpdatePointerEvent E;
         if \<not> ok then skip
         else do {
           p \<leftarrow> gets ib_pointerEvent;
           emit (SimulatePointer p);
           ib_start_timer E } } } }"

definition UpdateKeyEvent :: "env \<Rightarrow> ('s input_trans_scheme, unit) state" where
  "UpdateKeyEvent E = do {
     now \<leftarrow> ask (SysClock E);
     modify (\<lambda>s. s\<lparr>ib_keyEvent := (ib_keyEvent s)\<lparr>k_actionTime := now, k_actionStartTime := now\<rparr>\<rparr>) }"

definition ib_OnKeyEvent :: "env \<Rightarrow> net_packet \<Rightarrow> ('s input_trans_scheme, unit) state" where
  "ib_OnKeyEvent E pkt = do {
     modify (\<lambda>s. s\<lparr>ib_keyEvent := KeyReset E (ib_keyEvent s)\<rparr>);
     junk \<leftarrow> ask (StackByte E);
     (ret, k, _) \<leftarrow> gets (\<lambda>s. run_state (NetPacketToKeyEvent E junk) (ib_keyEvent s, pkt));
     modify (\<lambda>s. s\<lparr>ib_keyEvent := k\<rparr>);
     if ret \<noteq> RET_OK then skip
     else do {
       UpdateKeyEvent E;
       TagRemoteKey;
       modify (\<lambda>s. s\<lparr>ib_keyEvent := (ib_keyEvent s)
         \<lparr>k_flags := add_flag (EVENT_FLAG_SIMULATE E) (k_flags (ib_keyEvent s))\<rparr>\<rparr>);
       k \<leftarrow> gets ib_keyEvent;
       emit (SimulateKey k) } }"

definition ib_OnPacket :: "env \<Rightarrow> net_id \<Rightarrow> net_packet \<Rightarrow> ('s input_trans_scheme, bool) state" where
  "ib_OnPacket E nid pkt = do {
     peer \<leftarrow> gets ib_remoteNetworkId;
     if nid \<noteq> peer then pure False
     else if msgId pkt = DSOFTBUS_INPUT_POINTER_EVENT then do { ib_OnPointerEvent E pkt; pure True }
     else if msgId pkt = DSOFTBUS_INPUT_KEY_EVENT then do { ib_OnKeyEvent E pkt; pure True }
     else if msgId pkt = DSOFTBUS_HEART_BEAT_PACKET then pure True
     else pure False }"

section \<open>InputEventInterceptor\<close>

definition ii_TurnOffChannelScan :: "env \<Rightarrow> ('s input_trans_scheme, unit) state" where
  "ii_TurnOffChannelScan E = do {
     modify (\<lambda>s. s\<lparr>ii_scanState := False\<rparr>);
     ret \<leftarrow> SetWifiScene E FORBIDDEN_SCENE;
     only_if (ret \<noteq> RET_OK) (modify (\<lambda>s. s\<lparr>ii_scanState := True\<rparr>)) }"

definition ii_TurnOnChannelScan :: "env \<Rightarrow> ('s input_trans_scheme, unit) state" where
  "ii_TurnOnChannelScan E = do {
     modify (\<lambda>s. s\<lparr>ii_scanState := True\<rparr>);
     ret \<leftarrow> SetWifiScene E RESTORE_SCENE;
     only_if (ret \<noteq> RET_OK) (modify (\<lambda>s. s\<lparr>ii_scanState := False\<rparr>)) }"

definition ii_Enable :: "env \<Rightarrow> ('s input_trans_scheme, i32) state" where
  "ii_Enable E = do {
     old \<leftarrow> gets ii_interceptorId;
     if lt32 0 old then pure RET_OK
     else do {
       modify (\<lambda>s. s\<lparr>ii_remoteNetworkId := ctx_remoteNetworkId s\<rparr>);
       emit AddInterceptor;
       new \<leftarrow> ask (AddInterceptor_ret E);
       modify (\<lambda>s. s\<lparr>ii_interceptorId := new\<rparr>);
       if lt32 new 0 then pure RET_ERR
       else do {
         ii_TurnOffChannelScan E;
         ExecuteInner;
         pure RET_OK } } }"

definition ii_drop_timer :: "('s input_trans_scheme, unit) state" where
  "ii_drop_timer = do {
     tm \<leftarrow> gets ii_pointerEventTimer;
     only_if (le32 0 tm) (do {
       emit (TimerRemoveAsync tm);
       modify (\<lambda>s. s\<lparr>ii_pointerEventTimer := - 1\<rparr>) }) }"

definition ii_Disable :: "env \<Rightarrow> ('s input_trans_scheme, unit) state" where
  "ii_Disable E = do {
     ii_TurnOnChannelScan E;
     old \<leftarrow> gets ii_interceptorId;
     only_if (lt32 0 old) (do {
       emit (RemoveInterceptor old);
       modify (\<lambda>s. s\<lparr>ii_interceptorId := - 1\<rparr>) });
     ii_drop_timer }"

definition ii_Update :: "('s input_trans_scheme, unit) state" where
  "ii_Update = modify (\<lambda>s. s\<lparr>ii_remoteNetworkId := ctx_remoteNetworkId s\<rparr>)"

definition filterPointers :: "env \<Rightarrow> i32 list" where
  "filterPointers E = [POINTER_ACTION_ENTER_WINDOW E, POINTER_ACTION_LEAVE_WINDOW E,
     POINTER_ACTION_PULL_IN_WINDOW E, POINTER_ACTION_PULL_OUT_WINDOW E]"

definition filterKeys :: "env \<Rightarrow> i32 list" where
  "filterKeys E = [KEYCODE_BACK E, KEYCODE_POWER E]"

definition ii_start_timer :: "env \<Rightarrow> ('s input_trans_scheme, unit) state" where
  "ii_start_timer E = do {
     emit (TimerAddAsync POINTER_EVENT_TIMEOUT REPEAT_ONCE);
     tm \<leftarrow> ask (AddTimerAsync_ret E);
     modify (\<lambda>s. s\<lparr>ii_pointerEventTimer := tm\<rparr>) }"

definition ii_timer_fired :: "env \<Rightarrow> ('s input_trans_scheme, unit) state" where
  "ii_timer_fired E = do {
     ii_TurnOnChannelScan E;
     modify (\<lambda>s. s\<lparr>ii_pointerEventTimer := - 1\<rparr>) }"

definition ii_OnPointerEvent :: "env \<Rightarrow> pointer_event \<Rightarrow> ('s input_trans_scheme, unit) state" where
  "ii_OnPointerEvent E p = do {
     now \<leftarrow> ask (SysClock E);
     scan \<leftarrow> gets ii_scanState;
     only_if scan (ii_TurnOffChannelScan E);
     emit RefreshActivity;
     ii_drop_timer;
     if p_action p \<in> set (filterPointers E) then skip
     else do {
       let p = (if p_action p = POINTER_ACTION_CANCEL E then p\<lparr>p_action := p_originAction p\<rparr> else p);
       OnNotifyCrossDrag E p;
       pad \<leftarrow> ask (StackByte E);
       let (ret, pkt) = Marshalling E pad p now (NetPacket DSOFTBUS_INPUT_POINTER_EVENT);
       if ret \<noteq> RET_OK then skip
       else do {
         peer \<leftarrow> gets ii_remoteNetworkId;
         SoftbusSendPacket E peer pkt;
         ii_start_timer E } } }"

definition ii_OnKeyEvent :: "env \<Rightarrow> key_event \<Rightarrow> ('s input_trans_scheme, unit) state" where
  "ii_OnKeyEvent E k = do {
     emit RefreshActivity;
     if k_keyCode k \<in> set (filterKeys E)
     then emit (SimulateKey (k\<lparr>k_flags := add_flag (EVENT_FLAG_NO_INTERCEPT E) (k_flags k)\<rparr>))
     else do {
       let (ret, pkt) = KeyEventToNetPacket k (NetPacket DSOFTBUS_INPUT_KEY_EVENT);
       if ret \<noteq> RET_OK then skip
       else do {
         peer \<leftarrow> gets ii_remoteNetworkId;
         SoftbusSendPacket E peer pkt;
         skip } } }"

definition ReportPointerEvent :: "pointer_event \<Rightarrow> ('s world_scheme, unit) state" where
  "ReportPointerEvent p =
     (case GetPointerItem p (p_pointerId p) of
        None \<Rightarrow> skip
      | Some item \<Rightarrow> do {
          Send (INPUT_POINTER_EVENT \<lparr>pe_deviceId = p_deviceId p, pe_pointerAction = p_action p,
            pe_sourceType = p_sourceType p,
            pe_position = \<lparr>cx = it_displayX item, cy = it_displayY item\<rparr>,
            pe_currentDisplayId = 0, pe_pressedButtons = []\<rparr>);
          skip })"

section \<open>Frames\<close>

text \<open>
  A view that looks at most at whether the builder is enabled and at the interceptor's id: only
  the operations that enable or disable one of the two change it.
\<close>

definition tr_blind :: "('s input_trans_scheme \<Rightarrow> 'v) \<Rightarrow> bool" where
  "tr_blind f \<longleftrightarrow> ctx_blind f
     \<and> (\<forall>s x. f (s\<lparr>ib_freezing := x\<rparr>) = f s)
     \<and> (\<forall>s x. f (s\<lparr>ib_xDir := x\<rparr>) = f s)
     \<and> (\<forall>s x. f (s\<lparr>ib_movement := x\<rparr>) = f s)
     \<and> (\<forall>s x. f (s\<lparr>ib_nDropped := x\<rparr>) = f s)
     \<and> (\<forall>s x. f (s\<lparr>ib_scanState := x\<rparr>) = f s)
     \<and> (\<forall>s x. f (s\<lparr>ib_pointerEventTimer := x\<rparr>) = f s)
     \<and> (\<forall>s x. f (s\<lparr>ib_rawDxRightRemainder := x\<rparr>) = f s)
     \<and> (\<forall>s x. f (s\<lparr>ib_rawDxLeftRemainder := x\<rparr>) = f s)
     \<and> (\<forall>s x. f (s\<lparr>ib_preDriveEventTime := x\<rparr>) = f s)
     \<and> (\<forall>s x. f (s\<lparr>ib_preInterceptorTime := x\<rparr>) = f s)
     \<and> (\<forall>s x. f (s\<lparr>ib_preCrossPlatformTime := x\<rparr>) = f s)
     \<and> (\<forall>s x. f (s\<lparr>ib_pointerSpeed := x\<rparr>) = f s)
     \<and> (\<forall>s x. f (s\<lparr>ib_touchPadSpeed := x\<rparr>) = f s)
     \<and> (\<forall>s x. f (s\<lparr>ib_remoteNetworkId := x\<rparr>) = f s)
     \<and> (\<forall>s x. f (s\<lparr>ib_localNetworkId := x\<rparr>) = f s)
     \<and> (\<forall>s x. f (s\<lparr>ib_isStopByScreenOffOrLock := x\<rparr>) = f s)
     \<and> (\<forall>s x. f (s\<lparr>ib_damplingCoefficients := x\<rparr>) = f s)
     \<and> (\<forall>s x. f (s\<lparr>ib_pointerEvent := x\<rparr>) = f s)
     \<and> (\<forall>s x. f (s\<lparr>ib_keyEvent := x\<rparr>) = f s)
     \<and> (\<forall>s x. f (s\<lparr>ib_remote2VirtualIds := x\<rparr>) = f s)
     \<and> (\<forall>s x. f (s\<lparr>ii_scanState := x\<rparr>) = f s)
     \<and> (\<forall>s x. f (s\<lparr>ii_pointerEventTimer := x\<rparr>) = f s)
     \<and> (\<forall>s x. f (s\<lparr>ii_remoteNetworkId := x\<rparr>) = f s)"

lemma tr_blind_ctx: "tr_blind f \<Longrightarrow> ctx_blind f"
  by (simp add: tr_blind_def)

lemmas tr_blind_quiet = ctx_blind_quiet [OF tr_blind_ctx]

lemma tr_blind_updates:
  assumes "tr_blind f"
  shows "f (s\<lparr>ib_freezing := x_0\<rparr>) = f s"
    "f (s\<lparr>ib_xDir := x_1\<rparr>) = f s"
    "f (s\<lparr>ib_movement := x_2\<rparr>) = f s"
    "f (s\<lparr>ib_nDropped := x_3\<rparr>) = f s"
    "f (s\<lparr>ib_scanState := x_4\<rparr>) = f s"
    "f (s\<lparr>ib_pointerEventTimer := x_5\<rparr>) = f s"
    "f (s\<lparr>ib_rawDxRightRemainder := x_6\<rparr>) = f s"
    "f (s\<lparr>ib_rawDxLeftRemainder := x_7\<rparr>) = f s"
    "f (s\<lparr>ib_preDriveEventTime := x_8\<rparr>) = f s"
    "f (s\<lparr>ib_preInterceptorTime := x_9\<rparr>) = f s"
    "f (s\<lparr>ib_preCrossPlatformTime := x_10\<rparr>) = f s"
    "f (s\<lparr>ib_pointerSpeed := x_11\<rparr>) = f s"
    "f (s\<lparr>ib_touchPadSpeed := x_12\<rparr>) = f s"
    "f (s\<lparr>ib_remoteNetworkId := x_13\<rparr>) = f s"
    "f (s\<lparr>ib_localNetworkId := x_14\<rparr>) = f s"
    "f (s\<lparr>ib_isStopByScreenOffOrLock := x_15\<rparr>) = f s"
    "f (s\<lparr>ib_damplingCoefficients := x_16\<rparr>) = f s"
    "f (s\<lparr>ib_pointerEvent := x_17\<rparr>) = f s"
    "f (s\<lparr>ib_keyEvent := x_18\<rparr>) = f s"
    "f (s\<lparr>ib_remote2VirtualIds := x_19\<rparr>) = f s"
    "f (s\<lparr>ii_scanState := x_20\<rparr>) = f s"
    "f (s\<lparr>ii_pointerEventTimer := x_21\<rparr>) = f s"
    "f (s\<lparr>ii_remoteNetworkId := x_22\<rparr>) = f s"
  using assms by (simp_all add: tr_blind_def)

lemma tr_quiet_frame [frame]:
  assumes "quiet f"
  shows "unchanged f (SetWifiScene E scene)" "unchanged f ExecuteInner" "unchanged f HandleStopTimer"
    "unchanged f (OnNotifyCrossDrag E p)"
  unfolding SetWifiScene_def ExecuteInner_def HandleStopTimer_def OnNotifyCrossDrag_def
  by (intro frame assms)+

lemma ReportPointerEvent_frame [frame]: "mailless f \<Longrightarrow> unchanged f (ReportPointerEvent p)"
  unfolding ReportPointerEvent_def by (intro frame)

lemma tr_frame [frame]:
  assumes "tr_blind f"
  shows "unchanged f (ib_TurnOffChannelScan E)" "unchanged f (ib_TurnOnChannelScan E)"
    "unchanged f (release_button E d b)" "unchanged f (release_key E c)" "unchanged f ib_drop_timer"
    "unchanged f ib_Update" "unchanged f ib_Freeze" "unchanged f ib_Thaw"
    "unchanged f (SetStopByScreenOffOrLock sb)" "unchanged f (ib_UpdateVirtualDeviceIdMap m)"
    "unchanged f (SetDamplingCoefficient dir coef)" "unchanged f DampPointerMotion"
    "unchanged f TagRemoteEvent" "unchanged f TagRemoteKey" "unchanged f (IsActive E p)"
    "unchanged f (CheckLatency E it now p)" "unchanged f (ib_start_timer E)" "unchanged f (UpdateKeyEvent E)"
    "unchanged f (ii_TurnOffChannelScan E)" "unchanged f (ii_TurnOnChannelScan E)"
    "unchanged f ii_drop_timer" "unchanged f ii_Update" "unchanged f (ii_start_timer E)"
  unfolding ib_TurnOffChannelScan_def ib_TurnOnChannelScan_def release_button_def release_key_def
    ib_drop_timer_def ib_Update_def ib_Freeze_def ib_Thaw_def SetStopByScreenOffOrLock_def
    ib_UpdateVirtualDeviceIdMap_def SetDamplingCoefficient_def DampPointerMotion_def TagRemoteEvent_def
    TagRemoteKey_def IsActive_def CheckLatency_def ib_start_timer_def UpdateKeyEvent_def
    ii_TurnOffChannelScan_def ii_TurnOnChannelScan_def ii_drop_timer_def ii_Update_def ii_start_timer_def
  using assms
  by (intro frame tr_blind_quiet; simp add: tr_blind_updates)+

lemma tr_event_frame [frame]:
  assumes "tr_blind f"
  shows "unchanged f (ResetPressedEvents E)" "unchanged f (UpdatePointerEvent E)"
    "unchanged f (ib_timer_fired E)" "unchanged f (ii_timer_fired E)"
    "unchanged f (ib_OnPointerEvent E pkt)" "unchanged f (ib_OnKeyEvent E pkt)"
    "unchanged f (ib_OnPacket E nid pkt)" "unchanged f (ii_OnPointerEvent E p)"
    "unchanged f (ii_OnKeyEvent E k)"
proof -
  show a: "unchanged f (UpdatePointerEvent E)"
    unfolding UpdatePointerEvent_def
    using assms by (intro frame tr_blind_quiet; simp add: tr_blind_updates)
  show b: "unchanged f (ib_OnPointerEvent E pkt)" "unchanged f (ib_OnKeyEvent E pkt)"
    unfolding ib_OnPointerEvent_def ib_OnKeyEvent_def
    using assms by (intro frame a tr_blind_quiet; simp add: tr_blind_updates)+
  show "unchanged f (ResetPressedEvents E)" "unchanged f (ib_timer_fired E)" "unchanged f (ii_timer_fired E)"
    "unchanged f (ib_OnPacket E nid pkt)" "unchanged f (ii_OnPointerEvent E p)"
    "unchanged f (ii_OnKeyEvent E k)"
    unfolding ResetPressedEvents_def ib_timer_fired_def ii_timer_fired_def ib_OnPacket_def
      ii_OnPointerEvent_def ii_OnKeyEvent_def
    using assms by (intro frame b tr_blind_quiet; simp add: tr_blind_updates)+
qed

text \<open>Enabling and disabling: a view that does not look at the switch they turn.\<close>

lemma tr_switch_frame [frame]:
  assumes "tr_blind f"
  shows "(\<And>s x. f (s\<lparr>ib_enable := x\<rparr>) = f s) \<Longrightarrow> unchanged f (ib_Enable E)"
    "(\<And>s x. f (s\<lparr>ib_enable := x\<rparr>) = f s) \<Longrightarrow> unchanged f (ib_Disable E)"
    "(\<And>s x. f (s\<lparr>ii_interceptorId := x\<rparr>) = f s) \<Longrightarrow> unchanged f (ii_Enable E)"
    "(\<And>s x. f (s\<lparr>ii_interceptorId := x\<rparr>) = f s) \<Longrightarrow> unchanged f (ii_Disable E)"
  unfolding ib_Enable_def ib_Disable_def ii_Enable_def ii_Disable_def
  using assms by (intro frame tr_blind_quiet; simp add: tr_blind_updates)+

section \<open>No button stays down\<close>

text \<open>The input events that a sequence of commands injects.\<close>

fun injected :: "cmd list \<Rightarrow> cmd list" where
  "injected [] = []"
| "injected (SimulatePointer p # cs) = SimulatePointer p # injected cs"
| "injected (SimulateKey k # cs) = SimulateKey k # injected cs"
| "injected (_ # cs) = injected cs"

lemma injected_append [simp]: "injected (cs @ ds) = injected cs @ injected ds"
  by (induction cs rule: injected.induct) simp_all

lemma injected_pointers [simp]: "injected (map (\<lambda>x. SimulatePointer (f x)) xs) = map (\<lambda>x. SimulatePointer (f x)) xs"
  by (induction xs) simp_all

lemma release_buttons:
  "let s' = exec (for_each bs (release_button E False)) s;
       act = (if ib_isStopByScreenOffOrLock s then POINTER_ACTION_CANCEL E else POINTER_ACTION_BUTTON_UP E)
   in trace s' = trace s @ map (\<lambda>b. SimulatePointer ((ib_pointerEvent s)\<lparr>p_buttonId := b, p_action := act\<rparr>)) bs
    \<and> ib_keyEvent s' = ib_keyEvent s"
proof (induction bs arbitrary: s)
  case (Cons b bs)
  let ?s = "exec (release_button E False b) s"
  have "trace ?s = trace s @ [SimulatePointer ((ib_pointerEvent s)\<lparr>p_buttonId := b, p_action :=
        (if ib_isStopByScreenOffOrLock s then POINTER_ACTION_CANCEL E else POINTER_ACTION_BUTTON_UP E)\<rparr>)]"
    "(ib_pointerEvent ?s)\<lparr>p_buttonId := c, p_action := a\<rparr> = (ib_pointerEvent s)\<lparr>p_buttonId := c, p_action := a\<rparr>"
    "ib_keyEvent ?s = ib_keyEvent s" "ib_isStopByScreenOffOrLock ?s = ib_isStopByScreenOffOrLock s" for c a
    by (simp_all add: release_button_def)
  then show ?case
    using Cons.IH [of ?s] by (simp add: Let_def)
qed simp

lemma scan_on_keeps:
  "ib_pointerEvent (exec (ib_TurnOnChannelScan E) s) = ib_pointerEvent s"
  "ib_keyEvent (exec (ib_TurnOnChannelScan E) s) = ib_keyEvent s"
  "ib_isStopByScreenOffOrLock (exec (ib_TurnOnChannelScan E) s) = ib_isStopByScreenOffOrLock s"
  "trace (exec (ib_TurnOnChannelScan E) s) = trace s @ [SetUpperScene RESTORE_SCENE]"
  by (simp_all add: ib_TurnOnChannelScan_def SetWifiScene_def)

lemma drop_timer_keeps:
  "ib_pointerEvent (exec ib_drop_timer s) = ib_pointerEvent s"
  "\<exists>cs. trace (exec ib_drop_timer s) = trace s @ cs \<and> injected cs = []"
  by (simp_all add: ib_drop_timer_def)

text \<open>
  When the builder is disabled while the peer holds mouse buttons down, and nothing is
  being dragged, each of them is released exactly once, in order (cancelled, if the screen was
  locked), and none is pressed afterwards.
\<close>

theorem buttons_released_on_disable:
  assumes "ib_enable s" "\<forall>t. DragStateOf E t \<noteq> DRAG_START \<and> DragStateOf E t \<noteq> MOTION_DRAGGING"
    and "\<forall>p. p_pressedButtons (PointerReset E p) = []" "k_pressedKeys (ib_keyEvent s) = []"
  shows "let act = (if ib_isStopByScreenOffOrLock s then POINTER_ACTION_CANCEL E else POINTER_ACTION_BUTTON_UP E)
     in injected (issued (ib_Disable E) s)
        = map (\<lambda>b. SimulatePointer ((ib_pointerEvent s)\<lparr>p_buttonId := b, p_action := act\<rparr>))
            (p_pressedButtons (ib_pointerEvent s))
      \<and> p_pressedButtons (ib_pointerEvent (exec (ib_Disable E) s)) = []"
proof -
  let ?act = "if ib_isStopByScreenOffOrLock s then POINTER_ACTION_CANCEL E else POINTER_ACTION_BUTTON_UP E"
  let ?b = "p_pressedButtons (ib_pointerEvent s)"
  let ?s = "exec (ib_TurnOnChannelScan E) (s\<lparr>ib_enable := False, trace := trace s @ [SoftbusRemoveObserver]\<rparr>)"
  let ?u = "(exec (ResetPressedEvents E) ?s)\<lparr>ib_isStopByScreenOffOrLock := False\<rparr>"
  have "trace (exec (ResetPressedEvents E) ?s) = trace s @ [SoftbusRemoveObserver, SetUpperScene RESTORE_SCENE]
        @ map (\<lambda>b. SimulatePointer ((ib_pointerEvent s)\<lparr>p_buttonId := b, p_action := ?act\<rparr>)) ?b
    \<and> p_pressedButtons (ib_pointerEvent (exec (ResetPressedEvents E) ?s)) = []"
    using release_buttons [of ?b E "?s\<lparr>tick := Suc (tick ?s)\<rparr>"] assms(2-4)
    by (simp add: ResetPressedEvents_def scan_on_keeps Let_def)
  then have u: "trace ?u = trace s @ [SoftbusRemoveObserver, SetUpperScene RESTORE_SCENE]
        @ map (\<lambda>b. SimulatePointer ((ib_pointerEvent s)\<lparr>p_buttonId := b, p_action := ?act\<rparr>)) ?b"
    "p_pressedButtons (ib_pointerEvent ?u) = []"
    by simp_all
  obtain cs where cs: "trace (exec ib_drop_timer ?u) = trace ?u @ cs" "injected cs = []"
    using drop_timer_keeps(2) by blast
  have run: "exec (ib_Disable E) s = exec HandleStopTimer (exec ib_drop_timer ?u)"
    using assms(1) by (simp add: ib_Disable_def)
  show ?thesis
    using u cs by (simp add: Let_def issued_def run HandleStopTimer_def drop_timer_keeps(1))
qed

text \<open>An idle machine, and one in which the peer holds a button.\<close>

definition sample_key :: key_event where
  "sample_key = blank_key"

definition sample_trans :: "nat list \<Rightarrow> bool \<Rightarrow> pointer_event \<Rightarrow> i32 \<Rightarrow> input_trans" where
  "sample_trans os on p icpt = coop_context.extend (sample_context os)
     \<lparr>ib_enable = on, ib_freezing = False, ib_xDir = 0, ib_movement = 0, ib_nDropped = 0,
      ib_scanState = True, ib_pointerEventTimer = - 1, ib_rawDxRightRemainder = 0,
      ib_rawDxLeftRemainder = 0, ib_preDriveEventTime = - 1, ib_preInterceptorTime = - 1,
      ib_preCrossPlatformTime = - 1, ib_pointerSpeed = - 1, ib_touchPadSpeed = - 1,
      ib_remoteNetworkId = [], ib_localNetworkId = [], ib_isStopByScreenOffOrLock = False,
      ib_damplingCoefficients = [1, 1, 1, 1], ib_pointerEvent = p, ib_keyEvent = sample_key,
      ib_remote2VirtualIds = [], ii_interceptorId = icpt, ii_scanState = True,
      ii_pointerEventTimer = - 1, ii_remoteNetworkId = []\<rparr>"

theorem buttons_released_on_disable_witness:
  "length (injected (issued (ib_Disable ideal_env)
     (sample_trans [] True ((sample_pointer 1 1)\<lparr>p_pressedButtons := [10, 12]\<rparr>) (- 1)))) = 2"
  using buttons_released_on_disable [of
      "sample_trans [] True ((sample_pointer 1 1)\<lparr>p_pressedButtons := [10, 12]\<rparr>) (- 1)" ideal_env]
  by (simp add: ideal_env_def sample_trans_def sample_key_def coop_context.defs Let_def)

section \<open>The frozen cursor\<close>

definition freeze_run :: "i32 list \<Rightarrow> i32 \<times> i32" where
  "freeze_run dxs = fold freeze_step dxs (0, 0)"

lemma freeze_run_snoc: "freeze_run (dxs @ [d]) = freeze_step d (freeze_run dxs)"
  by (simp add: freeze_run_def)

lemma sint_add_small:
  "\<bar>sint a\<bar> \<le> 512 \<Longrightarrow> \<bar>sint (d :: i32)\<bar> < 2 ^ 30 \<Longrightarrow> sint (a + d) = sint a + sint (d :: i32)"
  by (simp add: sint_word_ariths signed_take_bit_int_eq_self)

lemma sint_clamped:
  "sint (word_of_int (clamp v (- 512) 512) :: i32) = clamp v (- 512) 512"
  by (simp add: sint_sbintrunc' clamp_def signed_take_bit_int_eq_self)

lemma freeze_step_sint:
  assumes "\<bar>sint m\<bar> \<le> 512" "\<bar>sint d\<bar> < 2 ^ 30"
  shows "sint (snd (freeze_step d (x, m))) = clamp (sint m + sint d) (- 512) 512"
  using sint_clamped [of "sint m + sint d"]
  by (simp add: freeze_step_def Let_def DEFAULT_SCREEN_WIDTH_def sint_add_small [OF assms])

lemma freeze_forward:
  assumes "\<forall>d \<in> set dxs. 0 < sint d \<and> sint d < 2 ^ 30"
  shows "(if dxs = [] then freeze_run dxs = (0, 0)
     else 0 < sint (fst (freeze_run dxs)) \<and> 0 < sint (snd (freeze_run dxs)) \<and> sint (snd (freeze_run dxs)) \<le> 512)"
  using assms
proof (induction dxs rule: rev_induct)
  case Nil
  then show ?case by (simp add: freeze_run_def)
next
  case (snoc d dxs)
  obtain x m where run: "freeze_run dxs = (x, m)"
    by fastforce
  have m: "0 \<le> sint m" "sint m \<le> 512" and x: "x = 0 \<or> 0 < sint x"
    using snoc run by (auto split: if_splits)
  have "sint (snd (freeze_step d (x, m))) = clamp (sint m + sint d) (- 512) 512"
    using m snoc.prems by (intro freeze_step_sint) auto
  then have s: "0 < sint (snd (freeze_step d (x, m)))" "sint (snd (freeze_step d (x, m))) \<le> 512"
    using m snoc.prems by (auto simp: clamp_def)
  moreover have "fst (freeze_step d (x, m)) = (if x = 0 then snd (freeze_step d (x, m)) else x)"
    by (simp add: freeze_step_def Let_def)
  ultimately show ?case
    using x by (auto simp: freeze_run_snoc run)
qed

text \<open>
  The frozen cursor. As long as the remote mouse keeps moving the way it moved first, no
  motion gets through, however far it goes; and turning back by the width of the strip, 512,
  always thaws it, however far it went before.
\<close>

theorem freeze_holds_and_ends:
  assumes "dxs \<noteq> []" "\<forall>d \<in> set dxs. 0 < sint d \<and> sint d < 2 ^ 30"
    and "sint back \<le> - 512" "- (2 ^ 30) < sint back"
  shows "\<not> thawed (freeze_run dxs) \<and> thawed (freeze_run (dxs @ [back]))"
proof -
  obtain x m where run: "freeze_run dxs = (x, m)"
    by fastforce
  have xm: "0 < sint x" "0 < sint m" "sint m \<le> 512"
    using freeze_forward [OF assms(2)] assms(1) run by auto
  have "sint (snd (freeze_step back (x, m))) = clamp (sint m + sint back) (- 512) 512"
    using xm assms(3,4) by (intro freeze_step_sint) auto
  then have "sint (snd (freeze_step back (x, m))) \<le> 0"
    using xm assms(3) by (simp add: clamp_def)
  moreover have "fst (freeze_step back (x, m)) = x"
    using xm by (auto simp: freeze_step_def Let_def)
  ultimately have "thawed (freeze_step back (x, m))"
    using xm by (cases "freeze_step back (x, m)") (simp add: thawed_def)
  then show ?thesis
    using xm by (simp add: run freeze_run_snoc thawed_def)
qed

theorem freeze_holds_and_ends_witness:
  "\<not> thawed (freeze_run [700, 3]) \<and> thawed (freeze_run [700, 3, - 600])"
  using freeze_holds_and_ends [of "[700, 3]" "- 600"] by simp

section \<open>Damping\<close>

lemma damp_word: "0 \<le> n \<Longrightarrow> n < 2 ^ 31 \<Longrightarrow> sint (word_of_int n :: i32) = n"
  by (simp add: sint_sbintrunc' signed_take_bit_int_eq_self)

lemma floor_fl53_exact:
  assumes "0 \<le> q"
  shows "fl53 (fl53 q - of_int \<lfloor>fl53 q\<rfloor>) = fl53 q - of_int \<lfloor>fl53 q\<rfloor>"
proof -
  obtain m e where m: "\<bar>m\<bar> < 2 ^ 53" "fl53 q = of_int m * 2 powi e"
    using fl53_is_dyadic by blast
  have "0 \<le> (of_int m * 2 powi e :: rat)"
    using fl53_nonneg [OF assms] m(2) by simp
  then have "0 \<le> m"
    by (metis mult_neg_pos not_less of_int_less_0_iff powi_pos)
  then show ?thesis
    using frac_dyadic_exact [of m e] m by simp
qed

lemma damp_parts:
  assumes "0 \<le> rest" "rest < 1" "0 \<le> c" "c \<le> 3 / 2" "0 < dx" "dx < 2 ^ 29"
  defines "v \<equiv> fl53 (rest + fl53 (of_int dx * c))"
  shows "0 \<le> v" "v \<le> of_int (2 * dx + 1)" "0 \<le> rest + fl53 (of_int dx * c)"
proof -
  have p: "0 \<le> of_int dx * c" "of_int dx * c \<le> of_int (2 * dx)"
    using assms(3-5) mult_left_mono [of c 2 "of_int dx"] by simp_all
  then have q: "0 \<le> fl53 (of_int dx * c)" "fl53 (of_int dx * c) \<le> of_int (2 * dx)"
    using assms(6) by (intro fl53_nonneg fl53_le_int; simp)+
  then have r: "0 \<le> rest + fl53 (of_int dx * c)" "rest + fl53 (of_int dx * c) \<le> of_int (2 * dx + 1)"
    using assms(1,2) by simp_all
  show "0 \<le> v" "v \<le> of_int (2 * dx + 1)"
    unfolding v_def using assms(6) by (intro fl53_nonneg fl53_le_int r; simp)+
  show "0 \<le> rest + fl53 (of_int dx * c)"
    by (rule r(1))
qed

text \<open>
  Damping of rightward motion. With the default coefficient a motion passes unchanged. With
  any coefficient the plugin accepts, what is emitted is not negative and at most twice the
  motion plus one, and the part cut off, always below one unit, is carried to the next motion
  without a rounding error: emitted part and rest add up to the value before the cut.
\<close>

theorem damping_loses_nothing:
  assumes "0 < sint dx" "sint dx < 2 ^ 29" "0 \<le> rest" "rest < 1"
    and "MIN_DAMPLING_COEFFICENT \<le> c" "c \<le> MAX_DAMPLING_COEFFICENT"
  shows "damp 0 DEFAULT_DAMPLING_COEFFICIENT dx = (dx, 0)
    \<and> 0 \<le> sint (fst (damp rest c dx)) \<and> sint (fst (damp rest c dx)) \<le> 2 * sint dx + 1
    \<and> 0 \<le> snd (damp rest c dx) \<and> snd (damp rest c dx) < 1
    \<and> of_int (sint (fst (damp rest c dx))) + snd (damp rest c dx)
        = fl53 (rest + fl53 (of_int (sint dx) * c))"
proof -
  let ?v = "fl53 (rest + fl53 (of_int (sint dx) * c))"
  have c: "0 \<le> c" "c \<le> 3 / 2"
    using assms(5,6) fl53_nonneg [of "5 / 100"]
    by (auto simp: MIN_DAMPLING_COEFFICENT_def MAX_DAMPLING_COEFFICENT_def)
  have v: "0 \<le> ?v" "?v \<le> of_int (2 * sint dx + 1)"
    by (rule damp_parts [OF assms(3,4) c assms(1,2)])+
  have t: "trunc ?v = \<lfloor>?v\<rfloor>" "0 \<le> \<lfloor>?v\<rfloor>" "\<lfloor>?v\<rfloor> \<le> 2 * sint dx + 1"
    using v trunc_bounds [OF v] by (simp_all add: trunc_def)
  have w: "sint (word_of_int \<lfloor>?v\<rfloor> :: i32) = \<lfloor>?v\<rfloor>"
    by (intro damp_word t(2) le_less_trans [OF t(3)]) (use assms(2) in simp)
  have "0 \<le> rest + fl53 (of_int (sint dx) * c)"
    by (rule damp_parts(3) [OF assms(3,4) c assms(1,2)])
  then have e: "fl53 (?v - of_int \<lfloor>?v\<rfloor>) = ?v - of_int \<lfloor>?v\<rfloor>"
    by (rule floor_fl53_exact)
  have d: "sint (fst (damp rest c dx)) = \<lfloor>?v\<rfloor>" "snd (damp rest c dx) = ?v - of_int \<lfloor>?v\<rfloor>"
    unfolding damp_def Let_def fst_conv snd_conv t(1) w by (rule refl, rule e)
  have "\<bar>sint dx\<bar> < 2 ^ 53"
    using assms(1,2) by simp
  note dx = fl53_int [OF this]
  have "damp 0 1 dx = (dx, 0)"
    unfolding damp_def Let_def mult_1_right add_0 dx trunc_int
    using dx by (simp add: fl53_def [of 0])
  then show ?thesis
    using d t floor_correct [of ?v] unfolding DEFAULT_DAMPLING_COEFFICIENT_def by simp
qed

theorem damping_loses_nothing_witness:
  "damp 0 DEFAULT_DAMPLING_COEFFICIENT 17 = (17, 0) \<and> snd (damp (1 / 4) (3 / 2) 17) < 1"
proof -
  have "fl53 (5 / 100) \<le> of_int 1"
    by (rule fl53_le_int) simp_all
  then show ?thesis
    using damping_loses_nothing [of 17 "1 / 4" "3 / 2"]
    by (simp add: MIN_DAMPLING_COEFFICENT_def MAX_DAMPLING_COEFFICENT_def)
qed

section \<open>Device ids of remote events\<close>

text \<open>
  A remote event never carries the id of a local device by accident: its device id is the
  one of the virtual device made for it, or else negative, and devices that the peer numbers
  differently stay different.
\<close>

theorem remote_ids_never_local:
  assumes "map_of m d = None" "map_of m d' = None" "0 \<le> sint d" "0 \<le> sint d'"
  shows "sint (tag_device m d) = - sint d - 1 \<and> sint (tag_device m d) < 0
    \<and> (tag_device m d = tag_device m d' \<longrightarrow> d = d')
    \<and> map_of ((d, v) # m) d = Some v \<and> tag_device ((d, v) # m) d = v"
proof -
  have s: "sint (- (d + 1)) = - sint d - 1" if "0 \<le> sint d" for d :: i32
    using that sint_range [of d] by (simp add: sint_word_ariths signed_take_bit_int_eq_self)
  show ?thesis
    using assms s [of d] s [of d'] by (auto simp: tag_device_def)
qed

theorem remote_ids_never_local_witness: "sint (tag_device [(4, 1000)] 3) = - 4"
  using remote_ids_never_local [of "[(4, 1000)]" 3 5 1001] by simp

end
