(* ===== verification/Input_Crossing.thy ===== *)
theory Input_Crossing
  imports Input_Transmission
begin

text \<open>
  Interceptor and builder together: what the user does on one device is what the input service
  of the other is told.
\<close>

section \<open>The sender\<close>

fun posted :: "cmd list \<Rightarrow> (net_id \<times> net_packet) list" where
  "posted [] = []"
| "posted (SoftbusSend nid pkt # cs) = (nid, pkt) # posted cs"
| "posted (_ # cs) = posted cs"

lemma posted_append [simp]: "posted (cs @ ds) = posted cs @ posted ds"
  by (induction cs rule: posted.induct) simp_all

lemma scan_off_sends_nothing:
  "trace (exec (ii_TurnOffChannelScan E) s) = trace s @ [SetUpperScene FORBIDDEN_SCENE]"
  "ii_remoteNetworkId (exec (ii_TurnOffChannelScan E) s) = ii_remoteNetworkId s"
  "trace (exec (ib_TurnOffChannelScan E) r) = trace r @ [SetUpperScene FORBIDDEN_SCENE]"
  by (simp_all add: ii_TurnOffChannelScan_def ib_TurnOffChannelScan_def SetWifiScene_def)

lemma sender_posts:
  assumes "p_action p \<notin> set (filterPointers E)" "p_action p \<noteq> POINTER_ACTION_CANCEL E"
    and "\<And>pad t. \<exists>pkt. Marshalling E pad p (SysClock E t) (NetPacket DSOFTBUS_INPUT_POINTER_EVENT) = (RET_OK, pkt)"
  shows "\<exists>pad t. posted (issued (ii_OnPointerEvent E p) s)
     = [(ii_remoteNetworkId s, snd (Marshalling E pad p (SysClock E t) (NetPacket DSOFTBUS_INPUT_POINTER_EVENT)))]"
proof -
  let ?s1 = "s\<lparr>tick := Suc (tick s)\<rparr>"
  let ?s2 = "if ii_scanState s then exec (ii_TurnOffChannelScan E) ?s1 else ?s1"
  let ?s3 = "exec ii_drop_timer (?s2\<lparr>trace := trace ?s2 @ [RefreshActivity]\<rparr>)"
  let ?s4 = "exec (OnNotifyCrossDrag E p) ?s3"
  let ?pad = "StackByte E (tick ?s4)" and ?t = "tick s"
  obtain pkt where pkt: "Marshalling E ?pad p (SysClock E ?t) (NetPacket DSOFTBUS_INPUT_POINTER_EVENT) = (RET_OK, pkt)"
    using assms(3) by blast
  have "\<exists>cs. trace ?s4 = trace s @ cs \<and> posted cs = [] \<and> ii_remoteNetworkId ?s4 = ii_remoteNetworkId s"
    by (simp add: ii_drop_timer_def OnNotifyCrossDrag_def scan_off_sends_nothing)
  then obtain cs where cs: "trace ?s4 = trace s @ cs" "posted cs = []" "ii_remoteNetworkId ?s4 = ii_remoteNetworkId s"
    by blast
  have "trace (exec (ii_OnPointerEvent E p) s)
      = trace ?s4 @ [SoftbusSend (ii_remoteNetworkId s) pkt, TimerAddAsync POINTER_EVENT_TIMEOUT REPEAT_ONCE]"
    using assms(1,2) pkt cs(3)
    by (simp add: ii_OnPointerEvent_def SoftbusSendPacket_def ii_start_timer_def only_if_def split: if_splits)
  then show ?thesis
    using cs pkt by (intro exI [of _ ?pad] exI [of _ ?t]) (simp add: issued_def)
qed

section \<open>The receiver\<close>

text \<open>A mouse motion under the default coefficients and without rests comes out as it went in.\<close>

definition undamped :: "'s input_trans_scheme \<Rightarrow> bool" where
  "undamped s \<longleftrightarrow> ib_damplingCoefficients s = [1, 1, 1, 1] \<and> ib_rawDxRightRemainder s = 0 \<and> ib_rawDxLeftRemainder s = 0"

lemma fl53_i32: "fl53 (of_int (sint (d :: i32))) = of_int (sint d)"
proof -
  have "\<bar>sint d\<bar> < 2 ^ 53"
    using sint_range [of d] sint_ge [of d] by simp
  then show ?thesis by (rule fl53_int)
qed

lemma damp_undamped: "damp 0 1 d = (d, 0)"
  unfolding damp_def Let_def mult_1_right add_0 fl53_i32 trunc_int
  by (simp add: fl53_def [of 0])

lemma set_item_same:
  assumes "distinct (GetPointerIds p)" "GetPointerItem p pid = Some it"
  shows "set_item pid it p = p"
proof -
  have "map (\<lambda>x. if it_pointerId x = pid then it else x) its = its"
    if "distinct (map it_pointerId its)" "List.find (\<lambda>x. it_pointerId x = pid) its = Some it" for its
    using that
  proof (induction its)
    case (Cons a its)
    show ?case
    proof (cases "it_pointerId a = pid")
      case True
      then have "map (\<lambda>x. if it_pointerId x = pid then it else x) its = its"
        using Cons.prems by (intro map_idI) (auto simp: image_iff)
      then show ?thesis using True Cons.prems by simp
    qed (use Cons in simp)
  qed simp
  then show ?thesis
    using assms by (simp add: set_item_def GetPointerIds_def GetPointerItem_def)
qed

lemma DampPointerMotion_undamped:
  assumes "undamped s" "distinct (GetPointerIds (ib_pointerEvent s))"
    and "p_pointerId (ib_pointerEvent s) \<in> set (GetPointerIds (ib_pointerEvent s))"
  shows "run_state DampPointerMotion s = (True, s)"
proof -
  let ?p = "ib_pointerEvent s"
  obtain it where it: "GetPointerItem ?p (p_pointerId ?p) = Some it"
    using assms(3) by (cases "GetPointerItem ?p (p_pointerId ?p)")
      (auto simp: GetPointerItem_def GetPointerIds_def find_None_iff)
  have dy: "word_of_int (trunc (fl53 (of_int (sint d) * 1))) = d" for d :: i32
    unfolding mult_1_right fl53_i32 trunc_int by simp
  have "it\<lparr>it_rawDx := it_rawDx it, it_rawDy := it_rawDy it\<rparr> = it"
    by simp
  moreover have "s\<lparr>ib_rawDxRightRemainder := 0, ib_rawDxLeftRemainder := 0, ib_pointerEvent := ?p\<rparr> = s"
    using assms(1) by (intro input_trans.equality) (simp_all add: undamped_def)
  ultimately show ?thesis
    using assms(1) it set_item_same [OF assms(2) it]
    unfolding DampPointerMotion_def undamped_def
    by (simp add: Let_def damp_undamped dy [unfolded mult_1_right] del: of_int_sint)
qed

lemma UpdatePointerEvent_undamped:
  assumes "undamped s" "distinct (GetPointerIds (ib_pointerEvent s))"
    and "p_pointerId (ib_pointerEvent s) \<in> set (GetPointerIds (ib_pointerEvent s))"
  shows "result_of (UpdatePointerEvent E) s" "trace (exec (UpdatePointerEvent E) s) = trace s"
    "ib_pointerEvent (exec (UpdatePointerEvent E) s) = (if p_sourceType (ib_pointerEvent s) \<noteq> SOURCE_TYPE_MOUSE E
       then ib_pointerEvent s
       else (ib_pointerEvent s)\<lparr>p_flags := add_flag (EVENT_FLAG_RAW_POINTER_MOVEMENT E) (p_flags (ib_pointerEvent s)),
         p_actionTime := SysClock E (tick s), p_actionStartTime := SysClock E (tick s),
         p_targetDisplayId := - 1, p_targetWindowId := - 1, p_agentWindowId := - 1\<rparr>)"
proof -
  have "result_of DampPointerMotion s" "exec DampPointerMotion s = s"
    using DampPointerMotion_undamped [OF assms] by (simp_all add: result_of_def exec_def)
  then show "result_of (UpdatePointerEvent E) s" "trace (exec (UpdatePointerEvent E) s) = trace s"
    "ib_pointerEvent (exec (UpdatePointerEvent E) s) = (if p_sourceType (ib_pointerEvent s) \<noteq> SOURCE_TYPE_MOUSE E
       then ib_pointerEvent s
       else (ib_pointerEvent s)\<lparr>p_flags := add_flag (EVENT_FLAG_RAW_POINTER_MOVEMENT E) (p_flags (ib_pointerEvent s)),
         p_actionTime := SysClock E (tick s), p_actionStartTime := SysClock E (tick s),
         p_targetDisplayId := - 1, p_targetWindowId := - 1, p_agentWindowId := - 1\<rparr>)"
    by (simp_all add: UpdatePointerEvent_def)
qed

lemma IsActive_thawed:
  "\<not> ib_freezing s \<Longrightarrow> result_of (IsActive E p) s" "\<not> ib_freezing s \<Longrightarrow> exec (IsActive E p) s = s"
  by (simp_all add: IsActive_def)

text \<open>What the peer's input service is told of an event.\<close>

definition arrived :: "env \<Rightarrow> (i32 \<times> i32) list \<Rightarrow> pointer_event \<Rightarrow> int \<Rightarrow> pointer_event \<Rightarrow> pointer_event" where
  "arrived E ids e0 now p =
     (let q = p\<lparr>p_eventType := p_eventType e0, p_originAction := p_originAction e0,
                p_deviceId := tag_device ids (p_deviceId p)\<rparr> in
      if p_sourceType p \<noteq> SOURCE_TYPE_MOUSE E then q
      else q\<lparr>p_flags := add_flag (EVENT_FLAG_RAW_POINTER_MOVEMENT E) (p_flags q), p_actionTime := now,
             p_actionStartTime := now, p_targetDisplayId := - 1, p_targetWindowId := - 1, p_agentWindowId := - 1\<rparr>)"

lemma receiver_prelude:
  fixes r :: "'s input_trans_scheme" and E :: env
  defines "r2 \<equiv> exec (only_if (ib_scanState r) (ib_TurnOffChannelScan E)) (r\<lparr>tick := Suc (tick r)\<rparr>)"
  shows "\<exists>cs. trace (exec ib_drop_timer r2) = trace r @ cs \<and> injected cs = []"
    "ib_pointerEvent (exec ib_drop_timer r2) = ib_pointerEvent r" "ib_freezing (exec ib_drop_timer r2) = ib_freezing r"
    "ib_remote2VirtualIds (exec ib_drop_timer r2) = ib_remote2VirtualIds r" "undamped (exec ib_drop_timer r2) = undamped r"
  by (simp_all add: r2_def ib_drop_timer_def ib_TurnOffChannelScan_def SetWifiScene_def undamped_def)

lemma receiver_injects:
  fixes r :: "'s input_trans_scheme"
  assumes "\<not> ib_freezing r" "undamped r" "\<And>q. fresh (PointerReset E q)"
    and "distinct (GetPointerIds p)" "p_pointerId p \<in> set (GetPointerIds p)"
    and read: "\<And>junk e0. fresh e0 \<Longrightarrow> \<exists>pkt'. run_state (Unmarshalling E junk (- 1)) (e0, pkt)
      = ((RET_OK, t), p\<lparr>p_eventType := p_eventType e0, p_originAction := p_originAction e0\<rparr>, pkt')"
  shows "\<exists>now. injected (issued (ib_OnPointerEvent E pkt) r)
    = [SimulatePointer (arrived E (ib_remote2VirtualIds r) (PointerReset E (ib_pointerEvent r)) now p)]"
proof -
  let ?r1 = "r\<lparr>tick := Suc (tick r)\<rparr>"
  let ?r3 = "exec ib_drop_timer (exec (only_if (ib_scanState r) (ib_TurnOffChannelScan E)) ?r1)"
  let ?e0 = "PointerReset E (ib_pointerEvent r)"
  let ?q = "p\<lparr>p_eventType := p_eventType ?e0, p_originAction := p_originAction ?e0\<rparr>"
  let ?q2 = "?q\<lparr>p_deviceId := tag_device (ib_remote2VirtualIds r) (p_deviceId p)\<rparr>"
  note pre = receiver_prelude [of r E]
  obtain cs where cs: "trace ?r3 = trace r @ cs" "injected cs = []"
    using pre(1) by blast
  obtain pkt' where pkt': "run_state (Unmarshalling E (StackByte E (tick ?r3)) (- 1)) (?e0, pkt) = ((RET_OK, t), ?q, pkt')"
    using read [OF assms(3)] by blast
  let ?r4 = "?r3\<lparr>tick := Suc (tick ?r3), ib_pointerEvent := ?q2\<rparr>"
  let ?r5 = "exec (CheckLatency E t (SysClock E (tick r)) ?q2) (exec (OnNotifyCrossDrag E ?q2) ?r4)"
  have r5: "\<exists>ds. trace ?r5 = trace r @ ds \<and> injected ds = []" "ib_pointerEvent ?r5 = ?q2" "undamped ?r5"
    using cs assms(2) pre(5) by (simp_all add: CheckLatency_def OnNotifyCrossDrag_def undamped_def)
  then obtain ds where ds: "trace ?r5 = trace r @ ds" "injected ds = []"
    by blast
  have ids: "distinct (GetPointerIds ?q2)" "p_pointerId ?q2 \<in> set (GetPointerIds ?q2)"
    using assms(4,5) by (simp_all add: GetPointerIds_def)
  let ?out = "arrived E (ib_remote2VirtualIds r) ?e0 (SysClock E (tick ?r5)) p"
  have "undamped ?r5" "distinct (GetPointerIds (ib_pointerEvent ?r5))"
    "p_pointerId (ib_pointerEvent ?r5) \<in> set (GetPointerIds (ib_pointerEvent ?r5))"
    using r5 ids by simp_all
  note upd = UpdatePointerEvent_undamped [OF this, of E]
  have out: "ib_pointerEvent (exec (UpdatePointerEvent E) ?r5) = ?out"
    unfolding upd(3) r5(2) by (simp add: arrived_def Let_def)
  have "\<not> ib_freezing (exec (OnNotifyCrossDrag E ?q2) ?r4)"
    using assms(1) pre(3) by (simp add: OnNotifyCrossDrag_def)
  note active = IsActive_thawed [OF this, of E ?q2]
  have "trace (exec (ib_OnPointerEvent E pkt) r) = trace ?r5 @ [SimulatePointer ?out, TimerAddAsync POINTER_EVENT_TIMEOUT REPEAT_ONCE]"
    using pkt' upd(1,2) out pre(2,4) active
    by (simp add: ib_OnPointerEvent_def ib_start_timer_def TagRemoteEvent_def del: exec_only_if)
  then show ?thesis
    using ds by (intro exI [of _ "SysClock E (tick ?r5)"]) (simp add: issued_def)
qed

text \<open>
  C7. The mouse of one device moves the pointer of the other. Take a local pointer event that the
  interceptor does not filter and that is no cancellation, whose pointer is among its items, that keeps within the limits
  of the receiver (ten items, ten pressed keys, its number of buttons and size of buffer, ordered
  and distinct, axes as the input service knows them) and whose bytes fit into a packet. It is sent to
  the peer as one packet; the peer's builder, not frozen and undamped, hands exactly one event to its
  input service, and it is the same event: action, buttons, coordinates, axes and keys are those of the
  sender, the device is the virtual device that stands for the sender's, and a mouse event is marked
  as raw motion at the receiver's time.
\<close>

theorem input_crosses_devices:
  assumes laws: "appends_items E" "axis_bits E" "\<forall>q. fresh (PointerReset E q)" "\<forall>t. fits64 (SysClock E t)"
    and event: "sendable E p" "pointer_size E p \<le> 2048" "p_pointerId p \<in> set (GetPointerIds p)"
      "p_action p \<notin> set (filterPointers E)" "p_action p \<noteq> POINTER_ACTION_CANCEL E"
    and receiver: "\<not> ib_freezing r" "undamped r" "ib_remoteNetworkId r = nid"
  shows "\<exists>pkt now. posted (issued (ii_OnPointerEvent E p) s) = [(ii_remoteNetworkId s, pkt)]
     \<and> injected (issued (ib_OnPacket E nid pkt) r)
       = [SimulatePointer (arrived E (ib_remote2VirtualIds r) (PointerReset E (ib_pointerEvent r)) now p)]"
proof -
  note crosses = pointer_crosses [OF laws(1,2) event(1) _ event(2), where mid = DSOFTBUS_INPUT_POINTER_EVENT, unfolded Let_def]
  have fits: "fits64 (SysClock E t)" for t
    using laws(4) by simp
  have fresh: "fresh (PointerReset E (ib_pointerEvent r))"
    using laws(3) by simp
  have "\<exists>pkt. Marshalling E pad p (SysClock E t) (NetPacket DSOFTBUS_INPUT_POINTER_EVENT) = (RET_OK, pkt)" for pad t
    using crosses [OF fits fresh, of pad t] by (metis prod.collapse)
  from sender_posts [OF event(4,5) this] obtain pad t where
    sent: "posted (issued (ii_OnPointerEvent E p) s)
      = [(ii_remoteNetworkId s, snd (Marshalling E pad p (SysClock E t) (NetPacket DSOFTBUS_INPUT_POINTER_EVENT)))]"
    by blast
  let ?pkt = "snd (Marshalling E pad p (SysClock E t) (NetPacket DSOFTBUS_INPUT_POINTER_EVENT))"
  have read: "\<exists>pkt'. run_state (Unmarshalling E junk (- 1)) (e0, ?pkt)
      = ((RET_OK, SysClock E t), p\<lparr>p_eventType := p_eventType e0, p_originAction := p_originAction e0\<rparr>, pkt')"
    if "fresh e0" for junk e0
    using crosses [OF fits that] by blast
  have "distinct (GetPointerIds p)"
    using event(1) by (simp add: sendable_def)
  from receiver_injects [OF receiver(1,2) spec [OF laws(3)] this event(3) read]
  obtain now where "injected (issued (ib_OnPointerEvent E ?pkt) r)
      = [SimulatePointer (arrived E (ib_remote2VirtualIds r) (PointerReset E (ib_pointerEvent r)) now p)]"
    by blast
  moreover have "msgId ?pkt = DSOFTBUS_INPUT_POINTER_EVENT"
    by (simp add: Marshalling_encodes [OF event(1,2)])
  then have "issued (ib_OnPacket E nid ?pkt) r = issued (ib_OnPointerEvent E ?pkt) r"
    using receiver(3) by (simp add: ib_OnPacket_def issued_def)
  ultimately show ?thesis
    using sent by auto
qed

theorem input_crosses_devices_witness:
  "\<exists>pkt now. posted (issued (ii_OnPointerEvent ideal_env (sample_pointer 3 4)) (sample_trans [] False blank_pointer 5)) = [([], pkt)]
     \<and> injected (issued (ib_OnPacket ideal_env [] pkt) (sample_trans [] True blank_pointer (- 1)))
       = [SimulatePointer (arrived ideal_env [] blank_pointer now (sample_pointer 3 4))]"
proof -
  have "\<forall>q. fresh (PointerReset ideal_env q)" "\<forall>t. fits64 (SysClock ideal_env t)"
    "sendable ideal_env (sample_pointer 3 4)" "pointer_size ideal_env (sample_pointer 3 4) \<le> 2048"
    "p_pointerId (sample_pointer 3 4) \<in> set (GetPointerIds (sample_pointer 3 4))"
    "p_action (sample_pointer 3 4) \<notin> set (filterPointers ideal_env)"
    "p_action (sample_pointer 3 4) \<noteq> POINTER_ACTION_CANCEL ideal_env"
    using sample_sendable sample_size
    by (simp_all add: ideal_env_def fresh_def fits64_def sample_pointer_def GetPointerIds_def filterPointers_def blank_pointer_def)
  from input_crosses_devices [OF ideal_laws this, of "sample_trans [] True blank_pointer (- 1)" "[]" "sample_trans [] False blank_pointer 5"]
  show ?thesis
    by (simp add: sample_trans_def undamped_def ideal_env_def blank_pointer_def coop_context.defs)
qed

end
