(* ===== verification/Coop_Machine.thy ===== *)
theory Coop_Machine
  imports Input_Transmission
begin

text \<open>
  src/intention/cooperate/plugin/src/i_cooperate_state.cpp and the parts of state_machine.cpp,
  cooperate_free.cpp, cooperate_out.cpp and cooperate_in.cpp that the three states share: the
  state of the machine, what entering and leaving a state does, and the transition between two
  states. The second half is the control part of the state (\<open>core\<close>) and the calculus in which
  the handlers are verified against it.
\<close>

section \<open>State\<close>

text \<open>The step of \<open>CooperateIn\<close> that handles events: \<open>Initial\<close> or \<open>RelayConfirmation\<close>.\<close>

datatype InStep = InInitial | InRelay

record machine = input_trans +
  sm_current :: CooperateState
  in_step :: InStep
  in_processPeer :: net_id
  in_processDevice :: i32
  relay_timerId :: i32
  relay_options :: StartWithOptionsEvent
  out_pressedButtons :: "i32 list"
  onlineBoards :: "net_id list"
  monitorId :: i32
  preMonitorId :: i32
  screenEventTimer :: i32
  clientBundleNames :: "string list"
  appStateObserver :: "i32 option"
  isCooperateEnable :: bool

definition PRIORITY :: i32 where
  "PRIORITY = 1"

definition MIN_MMI_VIRTUAL_DEVICE_ID :: i32 where
  "MIN_MMI_VIRTUAL_DEVICE_ID = 1000"

definition IsLocalEvent :: "InputPointerEvent \<Rightarrow> bool" where
  "IsLocalEvent ev = (le32 0 (pe_deviceId ev) \<and> lt32 (pe_deviceId ev) MIN_MMI_VIRTUAL_DEVICE_ID)"

section \<open>Shared operations of the states\<close>

definition HasLocalPointerDevice :: "env \<Rightarrow> ('s world_scheme, bool) state" where
  "HasLocalPointerDevice E = do {
     a \<leftarrow> ask (DevMgrHasLocalPointer E);
     if a then pure True
     else do {
       b \<leftarrow> ask (InputHasLocalPointer E);
       if b then pure True else ask (DevMgrHasPencilAirMouse E) } }"

definition SetPointerVisible :: "env \<Rightarrow> ('s coop_context_scheme, unit) state" where
  "SetPointerVisible E = do {
     has \<leftarrow> HasLocalPointerDevice E;
     hide \<leftarrow> gets NeedHideCursor;
     emit (SetPointerVisibility (\<not> hide \<and> has) PRIORITY) }"

definition in_SetPointerVisible :: "env \<Rightarrow> ('s world_scheme, unit) state" where
  "in_SetPointerVisible E = do {
     has \<leftarrow> HasLocalPointerDevice E;
     emit (SetPointerVisibility has PRIORITY) }"

definition UnchainConnections :: "env \<Rightarrow> StopCooperateEvent \<Rightarrow> ('s event_mgr_scheme, unit) state" where
  "UnchainConnections E ev = (if isUnchained ev then do { CloseAllSessions; em_OnUnchain E ev } else skip)"

text \<open>A motion by nothing, which makes the input service draw the pointer.\<close>

definition show_event :: "env \<Rightarrow> i32 list \<Rightarrow> pointer_event" where
  "show_event E buttons =
     (let p = (PointerCreate E)
        \<lparr>p_action := POINTER_ACTION_MOVE E,
         p_flags := add_flag (EVENT_FLAG_RAW_POINTER_MOVEMENT E) (p_flags (PointerCreate E)),
         p_pointerId := 0, p_sourceType := SOURCE_TYPE_MOUSE E\<rparr>;
         item = (NewPointerItem E)\<lparr>it_pointerId := 0, it_rawDx := 0, it_rawDy := 0\<rparr>;
         q = AddPointerItem E item p
      in q\<lparr>p_pressedButtons := fold (oset_insert sint) buttons (p_pressedButtons q)\<rparr>)"

definition free_SimulateShowPointerEvent :: "env \<Rightarrow> ('s input_trans_scheme, unit) state" where
  "free_SimulateShowPointerEvent E = do {
     buttons \<leftarrow> gets (\<lambda>s. p_pressedButtons (ib_pointerEvent s));
     emit (SimulatePointer (show_event E buttons)) }"

definition out_SimulateShowPointerEvent :: "env \<Rightarrow> ('s machine_scheme, unit) state" where
  "out_SimulateShowPointerEvent E = do {
     buttons \<leftarrow> gets out_pressedButtons;
     emit (SimulatePointer (show_event E buttons)) }"

section \<open>Entering and leaving a state\<close>

definition free_OnEnterState :: "('s machine_scheme, unit) state" where
  "free_OnEnterState = skip"

definition free_OnLeaveState :: "('s machine_scheme, unit) state" where
  "free_OnLeaveState = UpdateCooperateFlag \<lparr>uf_mask = COOPERATE_FLAG_HIDE_CURSOR, uf_flag = 0\<rparr>"

definition out_OnEnterState :: "('s machine_scheme, unit) state" where
  "out_OnEnterState = emit (SetPointerVisibility False 0)"

definition out_OnLeaveState :: "env \<Rightarrow> ('s machine_scheme, unit) state" where
  "out_OnLeaveState E = SetPointerVisible E"

definition in_OnEnterState :: "('s machine_scheme, unit) state" where
  "in_OnEnterState = do {
     hide \<leftarrow> gets NeedHideCursor;
     emit (SetPointerVisibility (\<not> hide) PRIORITY) }"

definition in_OnLeaveState :: "('s machine_scheme, unit) state" where
  "in_OnLeaveState = do {
     UpdateCooperateFlag \<lparr>uf_mask = COOPERATE_FLAG_HIDE_CURSOR, uf_flag = COOPERATE_FLAG_HIDE_CURSOR\<rparr>;
     emit (SetPointerVisibility False 0) }"

fun OnLeaveState :: "env \<Rightarrow> CooperateState \<Rightarrow> ('s machine_scheme, unit) state" where
  "OnLeaveState E COOPERATE_STATE_FREE = free_OnLeaveState"
| "OnLeaveState E COOPERATE_STATE_OUT = out_OnLeaveState E"
| "OnLeaveState E COOPERATE_STATE_IN = in_OnLeaveState"

fun OnEnterState :: "CooperateState \<Rightarrow> ('s machine_scheme, unit) state" where
  "OnEnterState COOPERATE_STATE_FREE = free_OnEnterState"
| "OnEnterState COOPERATE_STATE_OUT = out_OnEnterState"
| "OnEnterState COOPERATE_STATE_IN = in_OnEnterState"

fun status_message :: "CooperateState \<Rightarrow> CoordinationMessage" where
  "status_message COOPERATE_STATE_FREE = COORDINATION_STATUS_FREE"
| "status_message COOPERATE_STATE_OUT = COORDINATION_STATUS_OUT"
| "status_message COOPERATE_STATE_IN = COORDINATION_STATUS_IN"

definition TransiteTo :: "env \<Rightarrow> CooperateState \<Rightarrow> ('s machine_scheme, unit) state" where
  "TransiteTo E c = do {
     old \<leftarrow> gets sm_current;
     if c = old then skip
     else do {
       OnLeaveState E old;
       modify (\<lambda>s. s\<lparr>sm_current := c\<rparr>);
       OnEnterState c;
       l \<leftarrow> Local E;
       em_OnStatusChanged E \<lparr>sc_id = l, sc_msg = status_message c\<rparr> } }"

text \<open>\<open>ICooperateState::Process\<close>, of \<open>CooperateIn\<close>.\<close>

definition process_StartCooperate :: "StartCooperateEvent \<Rightarrow> ('s machine_scheme, unit) state" where
  "process_StartCooperate ev = modify (\<lambda>s. s\<lparr>in_processPeer := st_remoteNetworkId ev,
     in_processDevice := st_startDeviceId ev\<rparr>)"

definition process_StartCooperateWithOptions :: "StartWithOptionsEvent \<Rightarrow> ('s machine_scheme, unit) state" where
  "process_StartCooperateWithOptions ev = modify (\<lambda>s. s\<lparr>in_processPeer := so_remoteNetworkId ev,
     in_processDevice := so_startDeviceId ev\<rparr>)"

definition process_IsPeer :: "net_id \<Rightarrow> 's machine_scheme \<Rightarrow> bool" where
  "process_IsPeer nid s = (nid = in_processPeer s)"

definition Switch :: "InStep \<Rightarrow> ('s machine_scheme, unit) state" where
  "Switch st = modify (\<lambda>s. s\<lparr>in_step := st\<rparr>)"

section \<open>The control part of the state\<close>

record core =
  k_state :: CooperateState
  k_step :: InStep
  k_intercepting :: bool
  k_building :: bool
  k_enabled :: bool
  k_monitoring :: bool
  k_preMonitoring :: bool

definition core :: "'s machine_scheme \<Rightarrow> core" where
  "core s = \<lparr>k_state = sm_current s, k_step = in_step s, k_intercepting = lt32 0 (ii_interceptorId s),
     k_building = ib_enable s, k_enabled = isCooperateEnable s, k_monitoring = le32 0 (monitorId s),
     k_preMonitoring = le32 0 (preMonitorId s)\<rparr>"

lemma core_fields:
  "core s = k \<Longrightarrow> sm_current s = k_state k \<and> in_step s = k_step k \<and> isCooperateEnable s = k_enabled k"
  by (auto simp: core_def)

lemma core_blind: "tr_blind core"
  unfolding tr_blind_def ctx_blind_def idm_blind_def ml_blind_def ha_blind_def em_blind_def quiet_def
  by (simp add: core_def)

lemmas core_ctx = tr_blind_ctx [OF core_blind]
lemmas core_idm = ctx_blind_idm [OF core_ctx]
lemmas core_ml = idm_blind_ml [OF core_idm]
lemmas core_ha = ml_blind_ha [OF core_ml]
lemmas core_em = ha_blind_em [OF core_ha]
lemmas core_quiet = em_blind_quiet [OF core_em]

lemma core_mailless: "mailless core"
  by (simp add: mailless_def core_def)

text \<open>
  \<open>flow k m B\<close>: run from a state whose control part is \<open>k\<close>, the operation \<open>m\<close> ends with a
  result and a control part that satisfy \<open>B\<close>. An operation that leaves the control part alone
  is passed over; the few others have rules of their own.
\<close>

definition flow :: "core \<Rightarrow> ('s machine_scheme, 'a) state \<Rightarrow> ('a \<Rightarrow> core \<Rightarrow> bool) \<Rightarrow> bool" where
  "flow k m B \<longleftrightarrow> (\<forall>s. core s = k \<longrightarrow> B (result_of m s) (core (exec m s)))"

lemma flowD: "flow k m B \<Longrightarrow> core s = k \<Longrightarrow> B (result_of m s) (core (exec m s))"
  by (simp add: flow_def)

lemma flow_weaken: "flow k m C \<Longrightarrow> (\<And>a k'. C a k' \<Longrightarrow> B a k') \<Longrightarrow> flow k m B"
  by (simp add: flow_def)

named_theorems flows \<open>rules of the control-flow calculus\<close>

lemma flow_return [flows]: "B a k \<Longrightarrow> flow k (State_Monad.return a) B"
  by (simp add: flow_def)

lemma flow_skip [flows]: "B () k \<Longrightarrow> flow k skip B"
  by (auto simp: flow_def)

lemma flow_if [flows]:
  "(b \<Longrightarrow> flow k m B) \<Longrightarrow> (\<not> b \<Longrightarrow> flow k n B) \<Longrightarrow> flow k (if b then m else n) B"
  by simp

lemma flow_Let [flows]: "flow k (m v) B \<Longrightarrow> flow k (Let v m) B"
  by simp

lemma flow_case_option [flows]:
  "flow k m B \<Longrightarrow> (\<And>x. flow k (n x) B) \<Longrightarrow> flow k (case v of None \<Rightarrow> m | Some x \<Rightarrow> n x) B"
  by (cases v) simp_all

lemma flow_bind:
  assumes "flow k m R" "\<And>a k'. R a k' \<Longrightarrow> flow k' (f a) B"
  shows "flow k (State_Monad.bind m f) B"
  unfolding flow_def
proof (intro allI impI)
  fix s :: "'a machine_scheme"
  assume "core s = k"
  then have "R (result_of m s) (core (exec m s))"
    by (rule flowD [OF assms(1)])
  then show "B (result_of (State_Monad.bind m f) s) (core (exec (State_Monad.bind m f) s))"
    using flowD [OF assms(2) refl] by simp
qed

lemma flow_bind_quiet:
  "unchanged core m \<Longrightarrow> (\<And>a. flow k (f a) B) \<Longrightarrow> flow k (State_Monad.bind m f) B"
  by (auto simp: flow_def unchanged_def)

lemma flow_quiet:
  "unchanged core m \<Longrightarrow> (\<And>a. B a k) \<Longrightarrow> flow k m B"
  by (auto simp: flow_def unchanged_def)

text \<open>A read of the state whose value the control part determines.\<close>

lemma flow_gets:
  assumes "\<And>s. core s = k \<Longrightarrow> g s = v" "flow k (f v) B"
  shows "flow k (State_Monad.bind (gets g) f) B"
  unfolding flow_def
proof (intro allI impI)
  fix s :: "'a machine_scheme"
  assume k: "core s = k"
  show "B (result_of (State_Monad.bind (gets g) f) s) (core (exec (State_Monad.bind (gets g) f) s))"
    using flowD [OF assms(2) k] by (simp add: assms(1) [OF k])
qed

lemma flow_only_if [flows]:
  "(b \<Longrightarrow> flow k m B) \<Longrightarrow> (\<not> b \<Longrightarrow> B () k) \<Longrightarrow> flow k (only_if b m) B"
  by (auto simp: only_if_def flow_def)

lemma flow_bind_only_if [flows]:
  "(b \<Longrightarrow> flow k (State_Monad.bind m (\<lambda>_. f ())) B) \<Longrightarrow> (\<not> b \<Longrightarrow> flow k (f ()) B) \<Longrightarrow>
     flow k (State_Monad.bind (only_if b m) f) B"
  by (auto simp: only_if_def flow_def)

lemma enter_leave_core: "unchanged core (OnLeaveState E c)" "unchanged core (OnEnterState c)"
proof -
  note defs = free_OnLeaveState_def out_OnLeaveState_def in_OnLeaveState_def free_OnEnterState_def
    out_OnEnterState_def in_OnEnterState_def SetPointerVisible_def HasLocalPointerDevice_def
  show "unchanged core (OnLeaveState E c)"
    by (cases c; simp only: OnLeaveState.simps defs; intro frame core_quiet core_ctx)
  show "unchanged core (OnEnterState c)"
    by (cases c; simp only: OnEnterState.simps defs; intro frame core_quiet core_ctx)
qed

lemma TransiteTo_core: "core (exec (TransiteTo E c) s) = (core s)\<lparr>k_state := c\<rparr>"
proof (cases "c = sm_current s")
  case True
  then show ?thesis
    by (simp add: TransiteTo_def core_def)
next
  case False
  let ?s = "(exec (OnLeaveState E (sm_current s)) s)\<lparr>sm_current := c\<rparr>"
  have "core (exec (TransiteTo E c) s) = core ?s"
    using False
    by (simp add: TransiteTo_def enter_leave_core(2) [THEN unchangedD]
      report_frame(12) [OF core_quiet, THEN unchangedD] ctx_quiet_frame(1) [OF core_quiet, THEN unchangedD])
  also have "\<dots> = (core (exec (OnLeaveState E (sm_current s)) s))\<lparr>k_state := c\<rparr>"
    by (simp add: core_def)
  finally show ?thesis
    by (simp add: enter_leave_core(1) [THEN unchangedD])
qed

section \<open>The operations that change the control part\<close>

lemma switch_views_blind:
  "tr_blind (\<lambda>s. (core s)\<lparr>k_building := False\<rparr>)" "tr_blind (\<lambda>s. (core s)\<lparr>k_intercepting := False\<rparr>)"
  "tr_blind ib_enable" "tr_blind ii_interceptorId" "tr_blind (\<lambda>s. \<not> ib_enable s)"
  "tr_blind (\<lambda>s. \<not> lt32 0 (ii_interceptorId s))"
  unfolding tr_blind_def ctx_blind_def idm_blind_def ml_blind_def ha_blind_def em_blind_def quiet_def
  by (simp_all add: core_def)

lemma core_building_eq:
  "c\<lparr>k_building := False\<rparr> = d\<lparr>k_building := False\<rparr> \<Longrightarrow> k_building c = b \<Longrightarrow> c = d\<lparr>k_building := b\<rparr>"
  by (cases c; cases d) simp

lemma core_intercepting_eq:
  "c\<lparr>k_intercepting := False\<rparr> = d\<lparr>k_intercepting := False\<rparr> \<Longrightarrow> k_intercepting c = b \<Longrightarrow>
     c = d\<lparr>k_intercepting := b\<rparr>"
  by (cases c; cases d) simp

text \<open>A fact that an operation establishes and the rest of the sequence keeps.\<close>

lemma after_bind: "(\<And>a s. Q (exec (k a) s)) \<Longrightarrow> Q (exec (State_Monad.bind m k) s)"
  by simp

lemma after_modify:
  "(\<And>s. Q (g s)) \<Longrightarrow> unchanged Q m \<Longrightarrow> Q (exec (State_Monad.bind (modify g) (\<lambda>_. m)) s)"
  by (simp add: unchanged_def)

lemma after_only_if:
  assumes "\<And>s. \<not> c (b s) \<Longrightarrow> Q s" "\<And>x s. Q (exec (m x) s)" "unchanged Q n"
  shows "Q (exec (State_Monad.bind (gets b) (\<lambda>x. State_Monad.bind (only_if (c x) (m x)) (\<lambda>_. n))) s)"
  using assms by (simp add: unchanged_def)

lemma after_unless:
  "(\<And>s. b s \<Longrightarrow> Q s) \<Longrightarrow> (\<And>s. Q (exec m s)) \<Longrightarrow>
     Q (exec (State_Monad.bind (gets b) (\<lambda>x. if x then skip else m)) s)"
  by simp

lemma ib_enable_after: "ib_enable (exec (ib_Enable E) s)" "\<not> ib_enable (exec (ib_Disable E) s)"
proof -
  note blind = switch_views_blind(3,5) tr_blind_quiet [OF switch_views_blind(3)]
    tr_blind_quiet [OF switch_views_blind(5)]
  show "ib_enable (exec (ib_Enable E) s)"
    unfolding ib_Enable_def
    by (rule after_unless, assumption, rule after_modify, simp, (intro frame blind; simp))
  show "\<not> ib_enable (exec (ib_Disable E) s)"
    unfolding ib_Disable_def
    by (rule after_only_if, assumption, rule after_modify, simp, (intro frame blind; simp), (intro frame blind))
qed

lemma ib_Enable_core: "core (exec (ib_Enable E) s) = (core s)\<lparr>k_building := True\<rparr>"
proof (rule core_building_eq)
  show "(core (exec (ib_Enable E) s))\<lparr>k_building := False\<rparr> = (core s)\<lparr>k_building := False\<rparr>"
    by (rule tr_switch_frame(1) [OF switch_views_blind(1), THEN unchangedD]) (simp add: core_def)
  show "k_building (core (exec (ib_Enable E) s)) = True"
    by (simp add: core_def ib_enable_after)
qed

lemma ib_Disable_core: "core (exec (ib_Disable E) s) = (core s)\<lparr>k_building := False\<rparr>"
proof (rule core_building_eq)
  show "(core (exec (ib_Disable E) s))\<lparr>k_building := False\<rparr> = (core s)\<lparr>k_building := False\<rparr>"
    by (rule tr_switch_frame(2) [OF switch_views_blind(1), THEN unchangedD]) (simp add: core_def)
  show "k_building (core (exec (ib_Disable E) s)) = False"
    by (simp add: core_def ib_enable_after)
qed

lemma ii_after:
  "\<not> lt32 0 (ii_interceptorId (exec (ii_Disable E) s))"
  "result_of (ii_Enable E) s \<noteq> RET_OK \<Longrightarrow> \<not> lt32 0 (ii_interceptorId (exec (ii_Enable E) s))"
proof -
  show "\<not> lt32 0 (ii_interceptorId (exec (ii_Disable E) s))"
    unfolding ii_Disable_def
    by (rule after_bind, rule after_only_if, assumption, simp, (intro frame switch_views_blind(6)))
  show "result_of (ii_Enable E) s \<noteq> RET_OK \<Longrightarrow> \<not> lt32 0 (ii_interceptorId (exec (ii_Enable E) s))"
    by (auto simp: ii_Enable_def split: if_splits)
qed

lemma ii_Enable_core:
  "\<exists>b. core (exec (ii_Enable E) s) = (core s)\<lparr>k_intercepting := b\<rparr> \<and> (result_of (ii_Enable E) s \<noteq> RET_OK \<longrightarrow> \<not> b)"
proof -
  let ?b = "k_intercepting (core (exec (ii_Enable E) s))"
  have "core (exec (ii_Enable E) s) = (core s)\<lparr>k_intercepting := ?b\<rparr>"
    by (rule core_intercepting_eq, rule tr_switch_frame(3) [OF switch_views_blind(2), THEN unchangedD])
      (simp_all add: core_def)
  moreover have "result_of (ii_Enable E) s \<noteq> RET_OK \<longrightarrow> \<not> ?b"
    using ii_after(2) [of E s] by (simp add: core_def)
  ultimately show ?thesis
    by blast
qed

lemma ii_Disable_core: "core (exec (ii_Disable E) s) = (core s)\<lparr>k_intercepting := False\<rparr>"
proof (rule core_intercepting_eq)
  show "(core (exec (ii_Disable E) s))\<lparr>k_intercepting := False\<rparr> = (core s)\<lparr>k_intercepting := False\<rparr>"
    by (rule tr_switch_frame(4) [OF switch_views_blind(2), THEN unchangedD]) (simp add: core_def)
  show "k_intercepting (core (exec (ii_Disable E) s)) = False"
    using ii_after(1) [of E s] by (simp add: core_def)
qed

lemma Switch_core: "core (exec (Switch st) s) = (core s)\<lparr>k_step := st\<rparr>"
  by (simp add: Switch_def core_def)

lemma flow_bind_to:
  assumes "\<And>s. core (exec m s) = g (core s)" "\<And>a. flow (g k) (f a) B"
  shows "flow k (State_Monad.bind m f) B"
  using assms by (auto simp: flow_def)

lemma flow_to:
  assumes "\<And>s. core (exec m s) = g (core s)" "\<And>a. B a (g k)"
  shows "flow k m B"
  using assms by (auto simp: flow_def)

lemmas control_flows [flows] =
  flow_bind_to [OF TransiteTo_core] flow_bind_to [OF ib_Enable_core] flow_bind_to [OF ib_Disable_core]
  flow_bind_to [OF ii_Disable_core] flow_bind_to [OF Switch_core]
  flow_to [OF TransiteTo_core] flow_to [OF ib_Enable_core] flow_to [OF ib_Disable_core]
  flow_to [OF ii_Disable_core] flow_to [OF Switch_core]

lemma flow_bind_ii_Enable [flows]:
  assumes "\<And>r b. (r \<noteq> RET_OK \<Longrightarrow> \<not> b) \<Longrightarrow> flow (k\<lparr>k_intercepting := b\<rparr>) (f r) B"
  shows "flow k (State_Monad.bind (ii_Enable E) f) B"
  unfolding flow_def
proof (intro allI impI)
  fix s :: "'a machine_scheme"
  assume k: "core s = k"
  obtain b where b: "core (exec (ii_Enable E) s) = (core s)\<lparr>k_intercepting := b\<rparr>"
    "result_of (ii_Enable E) s \<noteq> RET_OK \<longrightarrow> \<not> b"
    using ii_Enable_core by blast
  have "flow (k\<lparr>k_intercepting := b\<rparr>) (f (result_of (ii_Enable E) s)) B"
    using b(2) by (intro assms) blast
  then show "B (result_of (State_Monad.bind (ii_Enable E) f) s) (core (exec (State_Monad.bind (ii_Enable E) f) s))"
    using b(1) k by (simp add: flow_def)
qed

text \<open>The frames of all components, for the control part.\<close>

lemma machine_quiet_frame:
  assumes "quiet f"
  shows "unchanged f (HasLocalPointerDevice E)" "unchanged f (SetPointerVisible E)"
    "unchanged f (in_SetPointerVisible E)" "unchanged f (UnchainConnections E sp)"
    "unchanged f (free_SimulateShowPointerEvent E)" "unchanged f (out_SimulateShowPointerEvent E)"
  unfolding HasLocalPointerDevice_def SetPointerVisible_def in_SetPointerVisible_def UnchainConnections_def
    free_SimulateShowPointerEvent_def out_SimulateShowPointerEvent_def
  by (intro frame assms)+

lemma process_core:
  "unchanged core (process_StartCooperate st)" "unchanged core (process_StartCooperateWithOptions so)"
  unfolding process_StartCooperate_def process_StartCooperateWithOptions_def
  by (simp_all add: unchanged_def core_def)

lemmas core_frame = frame core_blind core_ctx core_idm core_ml core_ha core_em core_quiet core_mailless
  machine_quiet_frame process_core

end
