(* ===== verification/Coop_Free.thy ===== *)
theory Coop_Free
  imports Coop_Machine
begin

text \<open>
  src/intention/cooperate/plugin/src/cooperate_free.cpp: no cooperation is under way. A start by
  a client opens a session, tells the peer and takes the local input over; a start by a peer
  lets its input in.
\<close>

section \<open>Starts by a client\<close>

text \<open>The refusal while something is being dragged, in all three states.\<close>

definition refuse_dragging :: "env \<Rightarrow> i32 \<Rightarrow> i32 \<Rightarrow> net_id \<Rightarrow> ('s event_mgr_scheme, unit) state" where
  "refuse_dragging E pid userData nid = em_ErrorNotAllowed E
     \<lparr>na_pid = pid, na_userData = userData, na_networkId = nid, na_success = False,
      na_errCode = NOT_AOLLOW_COOPERATE_WHEN_MOTION_DRAGGING\<rparr>"

definition InitiatorPointerVisible :: "bool \<Rightarrow> ('s world_scheme, unit) state" where
  "InitiatorPointerVisible visible = emit (SetPointerVisibility visible 0)"

definition open_error :: "i32 \<Rightarrow> i32" where
  "open_error ret = (if ret = RET_ERR then OPEN_SESSION_FAILED else ret)"

definition CooperateFail :: "env \<Rightarrow> i32 \<Rightarrow> ('s event_mgr_scheme, unit) state" where
  "CooperateFail E ret = (if ret \<noteq> RET_OK
     then em_StartCooperateFinish E (default_start\<lparr>sc_success := False, sc_errCode := open_error ret\<rparr>)
     else skip)"

text \<open>The packet to the peer, filled in the order of the initialiser.\<close>

definition start_notice :: "env \<Rightarrow> i32 \<Rightarrow> bool \<Rightarrow> ('s coop_context_scheme, DSoftbusStartCooperate) state" where
  "start_notice E uid check = do {
     l \<leftarrow> Local E;
     pos \<leftarrow> NormalizedCursorPosition E;
     ps \<leftarrow> GetPointerSpeed E;
     ts \<leftarrow> GetTouchPadSpeed E;
     user \<leftarrow> ask (UserId E);
     acc \<leftarrow> ask (AccountId E);
     extra \<leftarrow> OnStartCooperate E no_data;
     pure (default_start\<lparr>sc_originNetworkId := l, sc_success := True, sc_cursorPos := pos,
       sc_extra := extra, sc_pointerSpeed := ps, sc_touchPadSpeed := ts, sc_uid := uid,
       sc_userId := user, sc_accountId := acc, sc_needCheckSameAccount := check\<rparr>) }"

definition start_establish :: "env \<Rightarrow> DSoftbusStartCooperate \<Rightarrow> ('s machine_scheme, unit) state" where
  "start_establish E notice = do {
     peer \<leftarrow> Peer;
     ret \<leftarrow> ds_StartCooperate E peer notice;
     if ret \<noteq> RET_OK then InitiatorPointerVisible True
     else do {
       ret \<leftarrow> ii_Enable E;
       if ret \<noteq> RET_OK then InitiatorPointerVisible True
       else do {
         em_StartCooperateFinish E notice;
         TransiteTo E COOPERATE_STATE_OUT;
         OnTransitionOut E } } }"

definition free_OnStart :: "env \<Rightarrow> StartCooperateEvent \<Rightarrow> ('s machine_scheme, unit) state" where
  "free_OnStart E ev = do {
     ctx_StartCooperate ev;
     em_StartCooperate ev;
     d \<leftarrow> ask (DragStateOf E);
     if d = MOTION_DRAGGING then refuse_dragging E (st_pid ev) (st_userData ev) (st_remoteNetworkId ev)
     else do {
       peer \<leftarrow> Peer;
       existed \<leftarrow> ask (\<lambda>t. HasSession E t peer);
       ret \<leftarrow> OpenSession E peer;
       if ret \<noteq> RET_OK then CooperateFail E ret
       else do {
         InitiatorPointerVisible False;
         ret \<leftarrow> CheckDeviceOnline E peer;
         if ret \<noteq> RET_OK then InitiatorPointerVisible True
         else do {
           notice \<leftarrow> start_notice E (st_uid ev) (\<not> existed);
           start_establish E notice } } } }"

definition options_notice ::
    "env \<Rightarrow> StartWithOptionsEvent \<Rightarrow> bool \<Rightarrow> ('s coop_context_scheme, DSoftbusCooperateOptions) state" where
  "options_notice E ev check = do {
     l \<leftarrow> Local E;
     ps \<leftarrow> GetPointerSpeed E;
     ts \<leftarrow> GetTouchPadSpeed E;
     user \<leftarrow> ask (UserId E);
     acc \<leftarrow> ask (AccountId E);
     extra \<leftarrow> OnStartCooperate E no_data;
     pure (default_options\<lparr>co_originNetworkId := l, co_success := True,
       co_options := \<lparr>displayX = so_displayX ev, displayY = so_displayY ev, displayId = so_displayId ev\<rparr>,
       co_extra := extra, co_pointerSpeed := ps, co_touchPadSpeed := ts,
       co_userId := user, co_accountId := acc, co_needCheckSameAccount := check\<rparr>) }"

definition free_OnStartWithOptions :: "env \<Rightarrow> StartWithOptionsEvent \<Rightarrow> ('s machine_scheme, unit) state" where
  "free_OnStartWithOptions E ev = do {
     ctx_StartCooperateWithOptions ev;
     em_StartCooperateWithOptions ev;
     d \<leftarrow> ask (DragStateOf E);
     if d = MOTION_DRAGGING then refuse_dragging E (so_pid ev) (so_userData ev) (so_remoteNetworkId ev)
     else do {
       peer \<leftarrow> Peer;
       existed \<leftarrow> ask (\<lambda>t. HasSession E t peer);
       ret \<leftarrow> OpenSession E peer;
       if ret \<noteq> RET_OK
       then em_StartCooperateFinish E (default_start\<lparr>sc_success := False, sc_errCode := open_error ret\<rparr>)
       else do {
         notice \<leftarrow> options_notice E ev (\<not> existed);
         ds_StartCooperateWithOptions E peer notice;
         ii_Enable E;
         em_StartCooperateWithOptionsFinish E notice;
         TransiteTo E COOPERATE_STATE_OUT;
         OnTransitionOut E } } }"

section \<open>Starts by a peer\<close>

definition free_OnRemoteStart :: "env \<Rightarrow> DSoftbusStartCooperate \<Rightarrow> ('s machine_scheme, unit) state" where
  "free_OnRemoteStart E notice = do {
     StorePeerPointerSpeed (sc_pointerSpeed notice);
     StorePeerTouchPadSpeed (sc_touchPadSpeed notice);
     extra \<leftarrow> OnRemoteStartCooperate E (sc_extra notice);
     let notice = notice\<lparr>sc_extra := extra\<rparr>;
     em_RemoteStart E notice;
     RemoteStartSuccess E notice;
     ib_Enable E;
     em_RemoteStartFinish E notice;
     peer \<leftarrow> Peer;
     AddVirtualInputDevice E peer;
     TransiteTo E COOPERATE_STATE_IN;
     OnTransitionIn E;
     freeze \<leftarrow> gets NeedFreezeCursor;
     only_if (\<not> freeze) (free_SimulateShowPointerEvent E) }"

definition free_OnRemoteStartWithOptions :: "env \<Rightarrow> DSoftbusCooperateOptions \<Rightarrow> ('s machine_scheme, unit) state" where
  "free_OnRemoteStartWithOptions E notice = do {
     StorePeerPointerSpeed (co_pointerSpeed notice);
     StorePeerTouchPadSpeed (co_touchPadSpeed notice);
     extra \<leftarrow> OnRemoteStartCooperate E (co_extra notice);
     let notice = notice\<lparr>co_extra := extra\<rparr>;
     em_RemoteStartWithOptions E notice;
     notice \<leftarrow> AdjustPointerPos E notice;
     ctx_OnRemoteStart notice;
     ib_Enable E;
     em_RemoteStartWithOptionsFinish E notice;
     peer \<leftarrow> Peer;
     AddVirtualInputDevice E peer;
     TransiteTo E COOPERATE_STATE_IN;
     OnTransitionIn E;
     freeze \<leftarrow> gets NeedFreezeCursor;
     only_if (\<not> freeze) (free_SimulateShowPointerEvent E) }"

section \<open>Other events\<close>

text \<open>The answer to a stop: the pending call is reported, then everything is unchained.\<close>

definition finish_stop :: "env \<Rightarrow> StopCooperateEvent \<Rightarrow> ('s coop_context_scheme, unit) state" where
  "finish_stop E ev = do {
     peer \<leftarrow> Peer;
     em_StopCooperateFinish E ((board_event peer)\<lparr>bo_normal := True\<rparr>);
     UnchainConnections E (ev\<lparr>sp_networkId := peer\<rparr>) }"

definition free_OnStop :: "env \<Rightarrow> StopCooperateEvent \<Rightarrow> ('s machine_scheme, unit) state" where
  "free_OnStop E ev = do { em_StopCooperate ev; finish_stop E ev }"

definition free_OnDisable :: "env \<Rightarrow> ('s machine_scheme, unit) state" where
  "free_OnDisable E = do {
     d \<leftarrow> ask (DragStateOf E);
     if d = DRAG_START
     then do {
       cross \<leftarrow> ask (CrossDragging E);
       if cross then do { OnResetCooperation; in_SetPointerVisible E } else skip }
     else in_SetPointerVisible E }"

definition free_OnAppClosed :: "env \<Rightarrow> ('s machine_scheme, unit) state" where
  "free_OnAppClosed E = do {
     peer \<leftarrow> Peer;
     RemoveVirtualInputDevice E peer;
     CloseAllSessions }"

definition free_OnPointerEvent :: "env \<Rightarrow> InputPointerEvent \<Rightarrow> ('s machine_scheme, unit) state" where
  "free_OnPointerEvent E ev = do {
     hide \<leftarrow> gets NeedHideCursor;
     cross \<leftarrow> gets IsCooperateWithCrossDrag;
     if hide \<and> cross then skip
     else do {
       d \<leftarrow> ask (DragStateOf E);
       if d = DRAG_START then skip
       else if IsLocalEvent ev \<and> hide
       then do {
         UpdateCooperateFlag \<lparr>uf_mask = COOPERATE_FLAG_HIDE_CURSOR, uf_flag = 0\<rparr>;
         SetPointerVisible E }
       else skip } }"

section \<open>Dispatch\<close>

fun free_OnEvent :: "env \<Rightarrow> CooperateEvent \<Rightarrow> ('s machine_scheme, unit) state" where
  "free_OnEvent E (START ev) = free_OnStart E ev"
| "free_OnEvent E (WITH_OPTIONS_START ev) = free_OnStartWithOptions E ev"
| "free_OnEvent E (STOP ev) = free_OnStop E ev"
| "free_OnEvent E (DISABLE _) = free_OnDisable E"
| "free_OnEvent E (APP_CLOSED _) = free_OnAppClosed E"
| "free_OnEvent E (REMOTE_START ev) = free_OnRemoteStart E ev"
| "free_OnEvent E (INPUT_POINTER_EVENT ev) = free_OnPointerEvent E ev"
| "free_OnEvent E (UPDATE_COOPERATE_FLAG ev) = UpdateCooperateFlag ev"
| "free_OnEvent E (REMOTE_WITH_OPTIONS ev) = free_OnRemoteStartWithOptions E ev"
| "free_OnEvent E _ = skip"

section \<open>Control flow\<close>

lemma free_helpers_core:
  "unchanged core (refuse_dragging E p u nid)" "unchanged core (InitiatorPointerVisible v)"
  "unchanged core (CooperateFail E ret)" "unchanged core (start_notice E uid c)"
  "unchanged core (options_notice E so c)" "unchanged core (finish_stop E sp)"
  unfolding refuse_dragging_def InitiatorPointerVisible_def CooperateFail_def start_notice_def
    options_notice_def finish_stop_def
  by (intro core_frame)+

lemma free_others_core:
  "unchanged core (free_OnStop E sp)" "unchanged core (free_OnDisable E)" "unchanged core (free_OnAppClosed E)"
  "unchanged core (free_OnPointerEvent E pe)"
  unfolding free_OnStop_def free_OnDisable_def free_OnAppClosed_def free_OnPointerEvent_def
  by (intro core_frame free_helpers_core)+

text \<open>The state \<open>free\<close>: nothing is intercepted, nothing is let in.\<close>

definition idle :: "bool \<Rightarrow> bool \<Rightarrow> bool \<Rightarrow> core" where
  "idle on mon pre = \<lparr>k_state = COOPERATE_STATE_FREE, k_step = InInitial, k_intercepting = False,
     k_building = False, k_enabled = on, k_monitoring = mon, k_preMonitoring = pre\<rparr>"

definition controlling :: "bool \<Rightarrow> bool \<Rightarrow> bool \<Rightarrow> bool \<Rightarrow> core" where
  "controlling icpt on mon pre = (idle on mon pre)\<lparr>k_state := COOPERATE_STATE_OUT, k_intercepting := icpt\<rparr>"

definition controlled :: "InStep \<Rightarrow> bool \<Rightarrow> bool \<Rightarrow> bool \<Rightarrow> core" where
  "controlled st on mon pre = (idle on mon pre)\<lparr>k_state := COOPERATE_STATE_IN, k_step := st, k_building := True\<rparr>"

lemmas phase_defs = idle_def controlling_def controlled_def

lemma free_start_flow:
  "flow (idle on mon pre) (free_OnStart E st)
     (\<lambda>_ k. k = idle on mon pre \<or> (\<exists>icpt. k = controlling icpt on mon pre))"
  "flow (idle on mon pre) (free_OnStartWithOptions E so)
     (\<lambda>_ k. k = idle on mon pre \<or> (\<exists>icpt. k = controlling icpt on mon pre))"
  unfolding free_OnStart_def free_OnStartWithOptions_def start_establish_def
  by (intro flows flow_bind_quiet flow_quiet core_frame free_helpers_core; simp add: phase_defs)+

lemma free_remote_flow:
  "flow (idle on mon pre) (free_OnRemoteStart E sc) (\<lambda>_ k. k = controlled InInitial on mon pre)"
  "flow (idle on mon pre) (free_OnRemoteStartWithOptions E co) (\<lambda>_ k. k = controlled InInitial on mon pre)"
  unfolding free_OnRemoteStart_def free_OnRemoteStartWithOptions_def
  by (intro flows flow_bind_quiet flow_quiet core_frame free_helpers_core; simp add: phase_defs)+

end
