(* ===== verification/Coop_Out.thy ===== *)
theory Coop_Out
  imports Coop_Free
begin

text \<open>
  src/intention/cooperate/plugin/src/cooperate_out.cpp: this device controls a peer. Local input
  is intercepted and sent there, until either side stops, the peer comes back, or a third device
  takes over.
\<close>

section \<open>Operations\<close>

definition out_StopCooperate :: "env \<Rightarrow> ('s machine_scheme, unit) state" where
  "out_StopCooperate E = do {
     ii_Disable E;
     peer \<leftarrow> Peer;
     ds_StopCooperate E peer;
     ResetCursorPosition E;
     TransiteTo E COOPERATE_STATE_FREE;
     OnResetCooperation }"

definition out_OnPointerEvent :: "InputPointerEvent \<Rightarrow> ('s machine_scheme, unit) state" where
  "out_OnPointerEvent ev = modify (\<lambda>s. s\<lparr>out_pressedButtons := pe_pressedButtons ev\<rparr>)"

definition out_OnStart :: "env \<Rightarrow> StartCooperateEvent \<Rightarrow> ('s machine_scheme, unit) state" where
  "out_OnStart E ev = do {
     d \<leftarrow> ask (DragStateOf E);
     if d = MOTION_DRAGGING then refuse_dragging E (st_pid ev) (st_userData ev) (st_remoteNetworkId ev)
     else do {
       em_StartCooperate ev;
       em_StartCooperateFinish E (default_start\<lparr>sc_success := False, sc_errCode := UNEXPECTED_START_CALL\<rparr>) } }"

definition out_OnStartWithOptions :: "env \<Rightarrow> StartWithOptionsEvent \<Rightarrow> ('s machine_scheme, unit) state" where
  "out_OnStartWithOptions E ev = do {
     d \<leftarrow> ask (DragStateOf E);
     if d = MOTION_DRAGGING then refuse_dragging E (so_pid ev) (so_userData ev) (so_remoteNetworkId ev)
     else do {
       em_StartCooperateWithOptions ev;
       em_StartCooperateWithOptionsFinish E
         (default_options\<lparr>co_success := False, co_errCode := UNEXPECTED_START_CALL\<rparr>) } }"

definition out_OnStop :: "env \<Rightarrow> StopCooperateEvent \<Rightarrow> ('s machine_scheme, unit) state" where
  "out_OnStop E ev = do {
     em_StopCooperate ev;
     out_StopCooperate E;
     finish_stop E ev }"

definition out_OnComeBack :: "env \<Rightarrow> DSoftbusStartCooperate \<Rightarrow> ('s machine_scheme, unit) state" where
  "out_OnComeBack E notice = do {
     peer \<leftarrow> gets (IsPeer (sc_networkId notice));
     if \<not> peer then skip
     else do {
       extra \<leftarrow> OnRemoteStartCooperate E (sc_extra notice);
       let notice = notice\<lparr>sc_extra := extra\<rparr>;
       em_RemoteStart E (default_start\<lparr>sc_networkId := sc_networkId notice\<rparr>);
       ii_Disable E;
       RemoteStartSuccess E notice;
       em_RemoteStartFinish E notice;
       TransiteTo E COOPERATE_STATE_FREE;
       OnBack E;
       hide \<leftarrow> gets NeedHideCursor;
       only_if (\<not> hide) (out_SimulateShowPointerEvent E) } }"

definition out_OnComeBackWithOptions :: "env \<Rightarrow> DSoftbusCooperateOptions \<Rightarrow> ('s machine_scheme, unit) state" where
  "out_OnComeBackWithOptions E notice = do {
     peer \<leftarrow> gets (IsPeer (co_networkId notice));
     if \<not> peer then skip
     else do {
       extra \<leftarrow> OnRemoteStartCooperate E (co_extra notice);
       let notice = notice\<lparr>co_extra := extra\<rparr>;
       em_RemoteStart E (default_start\<lparr>sc_networkId := co_networkId notice\<rparr>);
       ii_Disable E;
       ctx_OnRemoteStart notice;
       em_RemoteStartWithOptionsFinish E notice;
       TransiteTo E COOPERATE_STATE_FREE;
       OnBack E;
       hide \<leftarrow> gets NeedHideCursor;
       only_if (\<not> hide) (out_SimulateShowPointerEvent E) } }"

text \<open>Another device takes this one over while it controls its peer: the peer is stopped.\<close>

definition out_OnRemoteStart :: "env \<Rightarrow> DSoftbusStartCooperate \<Rightarrow> ('s machine_scheme, unit) state" where
  "out_OnRemoteStart E notice = do {
     here \<leftarrow> IsLocal E (sc_networkId notice);
     if here then skip
     else do {
       from_peer \<leftarrow> gets (IsPeer (sc_networkId notice));
       if from_peer then out_StopCooperate E
       else do {
         OnResetCooperation;
         extra \<leftarrow> OnRemoteStartCooperate E (sc_extra notice);
         let notice = notice\<lparr>sc_extra := extra\<rparr>;
         em_RemoteStart E notice;
         ii_Disable E;
         peer \<leftarrow> Peer;
         ds_StopCooperate E peer;
         RemoteStartSuccess E notice;
         ib_Enable E;
         em_RemoteStartFinish E notice;
         TransiteTo E COOPERATE_STATE_IN;
         OnTransitionIn E } } }"

definition out_OnRemoteStartWithOptions :: "env \<Rightarrow> DSoftbusCooperateOptions \<Rightarrow> ('s machine_scheme, unit) state" where
  "out_OnRemoteStartWithOptions E notice = do {
     here \<leftarrow> IsLocal E (co_networkId notice);
     if here then skip
     else do {
       from_peer \<leftarrow> gets (IsPeer (co_networkId notice));
       if from_peer then out_StopCooperate E
       else do {
         OnResetCooperation;
         extra \<leftarrow> OnRemoteStartCooperate E (co_extra notice);
         let notice = notice\<lparr>co_extra := extra\<rparr>;
         em_RemoteStartWithOptions E notice;
         ii_Disable E;
         peer \<leftarrow> Peer;
         ds_StopCooperate E peer;
         ctx_OnRemoteStart notice;
         ib_Enable E;
         em_RemoteStartWithOptionsFinish E notice;
         TransiteTo E COOPERATE_STATE_IN;
         OnTransitionIn E } } }"

definition out_OnRemoteStop :: "env \<Rightarrow> DDMBoardOnlineEvent \<Rightarrow> ('s machine_scheme, unit) state" where
  "out_OnRemoteStop E notice = do {
     peer \<leftarrow> gets (IsPeer (bo_networkId notice));
     if \<not> peer then skip
     else do {
       em_RemoteStop notice;
       ii_Disable E;
       ResetCursorPosition E;
       em_RemoteStopFinish notice;
       TransiteTo E COOPERATE_STATE_FREE;
       OnResetCooperation } }"

text \<open>The peer hands its control over to a third device: this device now controls that one.\<close>

definition out_OnRelay :: "env \<Rightarrow> DSoftbusRelayCooperate \<Rightarrow> ('s machine_scheme, unit) state" where
  "out_OnRelay E notice = do {
     peer \<leftarrow> gets (IsPeer (rc_networkId notice));
     if \<not> peer then skip
     else do {
       let resp = default_relay\<lparr>rc_targetNetworkId := rc_targetNetworkId notice, rc_uid := rc_uid notice\<rparr>;
       ret \<leftarrow> OpenSession E (rc_targetNetworkId notice);
       if ret \<noteq> RET_OK
       then do { ds_RelayCooperateFinish E (rc_networkId notice) (resp\<lparr>rc_normal := False\<rparr>); skip }
       else do {
         ds_RelayCooperateFinish E (rc_networkId notice) (resp\<lparr>rc_normal := True\<rparr>);
         ctx_RelayCooperate notice;
         ii_Update;
         peer \<leftarrow> Peer;
         OnRelayCooperation E peer } } }"

definition out_OnRelayWithOptions :: "env \<Rightarrow> DSoftbusRelayCooperate \<Rightarrow> ('s machine_scheme, unit) state" where
  "out_OnRelayWithOptions E notice = do {
     peer \<leftarrow> gets (IsPeer (rc_networkId notice));
     if \<not> peer then skip
     else do {
       let resp = default_relay\<lparr>rc_targetNetworkId := rc_targetNetworkId notice, rc_uid := rc_uid notice\<rparr>;
       ret \<leftarrow> OpenSession E (rc_targetNetworkId notice);
       if ret \<noteq> RET_OK
       then do { ds_RelayCooperateWithOptionsFinish E (rc_networkId notice) (resp\<lparr>rc_normal := False\<rparr>); skip }
       else do {
         ds_RelayCooperateWithOptionsFinish E (rc_networkId notice) (resp\<lparr>rc_normal := True\<rparr>);
         ctx_RelayCooperate notice;
         ii_Update;
         peer \<leftarrow> Peer;
         OnRelayCooperation E peer } } }"

text \<open>
  The branch for a missing pointer device stops the cooperation and goes on to the common stop
  below it.
\<close>

definition out_OnHotplug :: "env \<Rightarrow> InputHotplugEvent \<Rightarrow> ('s machine_scheme, unit) state" where
  "out_OnHotplug E notice = do {
     trackpad \<leftarrow> gets ctx_VirtualTrackpadDeviceId;
     if lt32 0 trackpad then skip
     else do {
       has \<leftarrow> ask (DevMgrHasLocalPointer E);
       if \<not> has then do { out_StopCooperate E; out_StopCooperate E }
       else do {
         dev \<leftarrow> gets ctx_startDeviceId;
         if hp_deviceId notice \<noteq> dev then skip else out_StopCooperate E } } }"

definition out_OnAppClosed :: "env \<Rightarrow> ('s machine_scheme, unit) state" where
  "out_OnAppClosed E = do { CloseAllSessions; out_StopCooperate E }"

definition out_OnBoardOffline :: "env \<Rightarrow> DDMBoardOnlineEvent \<Rightarrow> ('s machine_scheme, unit) state" where
  "out_OnBoardOffline E notice = do {
     peer \<leftarrow> gets (IsPeer (bo_networkId notice));
     if \<not> peer then skip else out_StopCooperate E }"

definition out_OnSwitchChanged :: "env \<Rightarrow> DDMBoardOnlineEvent \<Rightarrow> ('s machine_scheme, unit) state" where
  "out_OnSwitchChanged E notice = do {
     peer \<leftarrow> gets (IsPeer (bo_networkId notice));
     if \<not> peer \<or> bo_normal notice then skip else out_StopCooperate E }"

definition out_OnSoftbusSessionClosed :: "env \<Rightarrow> DDMBoardOnlineEvent \<Rightarrow> ('s machine_scheme, unit) state" where
  "out_OnSoftbusSessionClosed E notice = do {
     peer \<leftarrow> gets (IsPeer (bo_networkId notice));
     if \<not> peer then skip else out_StopCooperate E }"

definition out_OnStopAboutVirtualTrackpad :: "env \<Rightarrow> ('s machine_scheme, unit) state" where
  "out_OnStopAboutVirtualTrackpad E = do {
     has \<leftarrow> ask (DevMgrHasLocalPointer E);
     only_if (\<not> has) (out_StopCooperate E) }"

section \<open>Dispatch\<close>

fun out_OnEvent :: "env \<Rightarrow> CooperateEvent \<Rightarrow> ('s machine_scheme, unit) state" where
  "out_OnEvent E (DISABLE _) = out_StopCooperate E"
| "out_OnEvent E (START ev) = out_OnStart E ev"
| "out_OnEvent E (WITH_OPTIONS_START ev) = out_OnStartWithOptions E ev"
| "out_OnEvent E (STOP ev) = out_OnStop E ev"
| "out_OnEvent E (APP_CLOSED _) = out_OnAppClosed E"
| "out_OnEvent E (INPUT_HOTPLUG_EVENT ev) = out_OnHotplug E ev"
| "out_OnEvent E (DDM_BOARD_OFFLINE ev) = out_OnBoardOffline E ev"
| "out_OnEvent E (DDP_COOPERATE_SWITCH_CHANGED ev) = out_OnSwitchChanged E ev"
| "out_OnEvent E (SESSION_CLOSED_EVENT ev) = out_OnSoftbusSessionClosed E ev"
| "out_OnEvent E (COME_BACK ev) = out_OnComeBack E ev"
| "out_OnEvent E (REMOTE_START ev) = out_OnRemoteStart E ev"
| "out_OnEvent E (REMOTE_STOP ev) = out_OnRemoteStop E ev"
| "out_OnEvent E (RELAY ev) = out_OnRelay E ev"
| "out_OnEvent E (REMOTE_WITH_OPTIONS ev) = out_OnRemoteStartWithOptions E ev"
| "out_OnEvent E (COME_BACK_WITH_OPTIONS ev) = out_OnComeBackWithOptions E ev"
| "out_OnEvent E (RELAY_WITHOPTIONS ev) = out_OnRelayWithOptions E ev"
| "out_OnEvent E (STOP_ABOUT_VIRTUALTRACKPAD _) = out_OnStopAboutVirtualTrackpad E"
| "out_OnEvent E (INPUT_POINTER_EVENT ev) = out_OnPointerEvent ev"
| "out_OnEvent E _ = skip"

section \<open>Control flow\<close>

lemma out_others_core:
  "unchanged core (out_OnPointerEvent pe)" "unchanged core (out_OnStart E st)"
  "unchanged core (out_OnStartWithOptions E so)" "unchanged core (out_OnRelay E rc)"
  "unchanged core (out_OnRelayWithOptions E rc)"
  unfolding out_OnPointerEvent_def out_OnStart_def out_OnStartWithOptions_def out_OnRelay_def
    out_OnRelayWithOptions_def
  by (intro core_frame free_helpers_core; simp add: core_def)+

lemma out_StopCooperate_core:
  "core (exec (out_StopCooperate E) s) = (core s)\<lparr>k_state := COOPERATE_STATE_FREE, k_intercepting := False\<rparr>"
proof -
  have "flow k (out_StopCooperate E)
      (\<lambda>_ k'. k' = k\<lparr>k_state := COOPERATE_STATE_FREE, k_intercepting := False\<rparr>)" for k
    unfolding out_StopCooperate_def
    by (intro flows flow_bind_quiet flow_quiet core_frame) simp
  from flowD [OF this refl] show ?thesis .
qed

lemmas out_stop_flows = flow_bind_to [OF out_StopCooperate_core] flow_to [OF out_StopCooperate_core]

lemma out_stop_flow:
  "flow (controlling icpt on mon pre) (out_StopCooperate E) (\<lambda>_ k. k = idle on mon pre)"
  "flow (controlling icpt on mon pre) (out_OnStop E sp) (\<lambda>_ k. k = idle on mon pre)"
  "flow (controlling icpt on mon pre) (out_OnAppClosed E) (\<lambda>_ k. k = idle on mon pre)"
  unfolding out_OnStop_def out_OnAppClosed_def
  by (intro out_stop_flows flows flow_bind_quiet flow_quiet core_frame free_helpers_core;
      simp add: phase_defs)+

text \<open>Everything else either leaves the state \<open>out\<close> alone or ends the cooperation.\<close>

lemma out_may_stop_flow:
  "flow (controlling icpt on mon pre) (out_OnHotplug E hp)
     (\<lambda>_ k. k = idle on mon pre \<or> k = controlling icpt on mon pre)"
  "flow (controlling icpt on mon pre) (out_OnBoardOffline E bo)
     (\<lambda>_ k. k = idle on mon pre \<or> k = controlling icpt on mon pre)"
  "flow (controlling icpt on mon pre) (out_OnSwitchChanged E bo)
     (\<lambda>_ k. k = idle on mon pre \<or> k = controlling icpt on mon pre)"
  "flow (controlling icpt on mon pre) (out_OnSoftbusSessionClosed E bo)
     (\<lambda>_ k. k = idle on mon pre \<or> k = controlling icpt on mon pre)"
  "flow (controlling icpt on mon pre) (out_OnStopAboutVirtualTrackpad E)
     (\<lambda>_ k. k = idle on mon pre \<or> k = controlling icpt on mon pre)"
  "flow (controlling icpt on mon pre) (out_OnComeBack E sc)
     (\<lambda>_ k. k = idle on mon pre \<or> k = controlling icpt on mon pre)"
  "flow (controlling icpt on mon pre) (out_OnComeBackWithOptions E co)
     (\<lambda>_ k. k = idle on mon pre \<or> k = controlling icpt on mon pre)"
  "flow (controlling icpt on mon pre) (out_OnRemoteStop E bo)
     (\<lambda>_ k. k = idle on mon pre \<or> k = controlling icpt on mon pre)"
  unfolding out_OnHotplug_def out_OnBoardOffline_def out_OnSwitchChanged_def out_OnSoftbusSessionClosed_def
    out_OnStopAboutVirtualTrackpad_def out_OnComeBack_def out_OnComeBackWithOptions_def out_OnRemoteStop_def
  by (intro out_stop_flows flows flow_bind_quiet flow_quiet core_frame free_helpers_core;
      simp add: phase_defs)+

lemma out_remote_flow:
  "flow (controlling icpt on mon pre) (out_OnRemoteStart E sc)
     (\<lambda>_ k. k = idle on mon pre \<or> k = controlling icpt on mon pre \<or> k = controlled InInitial on mon pre)"
  "flow (controlling icpt on mon pre) (out_OnRemoteStartWithOptions E co)
     (\<lambda>_ k. k = idle on mon pre \<or> k = controlling icpt on mon pre \<or> k = controlled InInitial on mon pre)"
  unfolding out_OnRemoteStart_def out_OnRemoteStartWithOptions_def
  by (intro out_stop_flows flows flow_bind_quiet flow_quiet core_frame free_helpers_core;
      simp add: phase_defs)+

end
