(* ===== verification/Coop_In.thy ===== *)
theory Coop_In
  imports Coop_Out
begin

text \<open>
  src/intention/cooperate/plugin/src/cooperate_in.cpp: a peer controls this device. In the step
  \<open>Initial\<close> a client may send the control back to the peer or relay it to a third device; the
  step \<open>RelayConfirmation\<close> waits for the peer's answer to the relay.
\<close>

section \<open>Operations of both steps\<close>

definition in_StopCooperate :: "env \<Rightarrow> ('s machine_scheme, unit) state" where
  "in_StopCooperate E = do {
     ib_Disable E;
     UpdateCursorPosition;
     peer \<leftarrow> Peer;
     ds_StopCooperate E peer;
     TransiteTo E COOPERATE_STATE_FREE;
     OnResetCooperation;
     in_SetPointerVisible E }"

definition AddTimer :: "env \<Rightarrow> i32 \<Rightarrow> i32 \<Rightarrow> CooperateEvent \<Rightarrow> ('s world_scheme, i32) state" where
  "AddTimer E delay repeat ev = do { emit (TimerAdd delay repeat ev); ask (AddTimer_ret E) }"

definition Resend :: "CooperateEvent \<Rightarrow> ('s world_scheme, unit) state" where
  "Resend ev = do { Send ev; skip }"

section \<open>The relay: waiting for the peer's answer\<close>

definition relay_OnReset :: "('s machine_scheme, unit) state" where
  "relay_OnReset = Switch InInitial"

definition relay_OnResetWithNotifyMessage :: "env \<Rightarrow> ('s machine_scheme, unit) state" where
  "relay_OnResetWithNotifyMessage E = do {
     em_StartCooperateFinish E (default_start\<lparr>sc_success := False\<rparr>);
     Switch InInitial }"

definition relay_OnResetWithOptionsNotifyMessage :: "env \<Rightarrow> ('s machine_scheme, unit) state" where
  "relay_OnResetWithOptionsNotifyMessage E = do {
     em_StartCooperateWithOptionsFinish E (default_options\<lparr>co_success := False\<rparr>);
     Switch InInitial }"

definition relay_Proceed :: "('s machine_scheme, unit) state" where
  "relay_Proceed = Switch InInitial"

definition relay_OnProgress :: "env \<Rightarrow> StartCooperateEvent \<Rightarrow> ('s machine_scheme, unit) state" where
  "relay_OnProgress E ev = do {
     target \<leftarrow> gets in_processPeer;
     peer \<leftarrow> Peer;
     existed \<leftarrow> ask (\<lambda>t. HasSession E t peer);
     ret \<leftarrow> OpenSession E target;
     if ret \<noteq> RET_OK then relay_OnResetWithNotifyMessage E
     else do {
       ps \<leftarrow> GetPointerSpeed E;
       ts \<leftarrow> GetTouchPadSpeed E;
       user \<leftarrow> ask (UserId E);
       acc \<leftarrow> ask (AccountId E);
       ds_RelayCooperate E peer (default_relay\<lparr>rc_targetNetworkId := target, rc_pointerSpeed := ps,
         rc_touchPadSpeed := ts, rc_uid := st_uid ev, rc_userId := user, rc_accountId := acc,
         rc_needCheckSameAccount := \<not> existed\<rparr>);
       tm \<leftarrow> AddTimer E DEFAULT_TIMEOUT REPEAT_ONCE
         (RELAY_FINISHED (default_relay\<lparr>rc_networkId := peer, rc_normal := False\<rparr>));
       modify (\<lambda>s. s\<lparr>relay_timerId := tm\<rparr>) } }"

definition relay_OnProgressWithOptions :: "env \<Rightarrow> StartWithOptionsEvent \<Rightarrow> ('s machine_scheme, unit) state" where
  "relay_OnProgressWithOptions E ev = do {
     target \<leftarrow> gets in_processPeer;
     peer \<leftarrow> Peer;
     existed \<leftarrow> ask (\<lambda>t. HasSession E t peer);
     ret \<leftarrow> OpenSession E target;
     if ret \<noteq> RET_OK then relay_OnResetWithOptionsNotifyMessage E
     else do {
       ps \<leftarrow> GetPointerSpeed E;
       ts \<leftarrow> GetTouchPadSpeed E;
       user \<leftarrow> ask (UserId E);
       acc \<leftarrow> ask (AccountId E);
       ds_RelayCooperate E peer (default_relay\<lparr>rc_targetNetworkId := target, rc_pointerSpeed := ps,
         rc_touchPadSpeed := ts, rc_userId := user, rc_accountId := acc,
         rc_needCheckSameAccount := \<not> existed\<rparr>);
       modify (\<lambda>s. s\<lparr>relay_options := ev\<rparr>);
       tm \<leftarrow> AddTimer E DEFAULT_TIMEOUT REPEAT_ONCE
         (RELAY_WITHOPTIONS_FINISHED (default_relay\<lparr>rc_networkId := peer, rc_normal := False\<rparr>));
       modify (\<lambda>s. s\<lparr>relay_timerId := tm\<rparr>) } }"

definition relay_OnNormal :: "env \<Rightarrow> DSoftbusRelayCooperate \<Rightarrow> ('s machine_scheme, unit) state" where
  "relay_OnNormal E resp = do {
     ib_Disable E;
     peer \<leftarrow> Peer;
     pos \<leftarrow> NormalizedCursorPosition E;
     ps \<leftarrow> GetPointerSpeed E;
     ts \<leftarrow> GetTouchPadSpeed E;
     extra \<leftarrow> OnStartCooperate E no_data;
     let notice = default_start\<lparr>sc_originNetworkId := peer, sc_success := True, sc_cursorPos := pos,
       sc_extra := extra, sc_uid := rc_uid resp, sc_pointerSpeed := ps, sc_touchPadSpeed := ts\<rparr>;
     target \<leftarrow> gets in_processPeer;
     ds_StartCooperate E target notice;
     em_StartCooperateFinish E notice;
     TransiteTo E COOPERATE_STATE_FREE;
     ResetPointerAndTouchPadSpeed;
     OnRelayCooperation E target }"

definition relay_OnNormalWithOptions :: "env \<Rightarrow> ('s machine_scheme, unit) state" where
  "relay_OnNormalWithOptions E = do {
     ib_Disable E;
     peer \<leftarrow> Peer;
     ev \<leftarrow> gets relay_options;
     ps \<leftarrow> GetPointerSpeed E;
     ts \<leftarrow> GetTouchPadSpeed E;
     extra \<leftarrow> OnStartCooperate E no_data;
     let notice = default_options\<lparr>co_originNetworkId := peer, co_success := True,
       co_options := \<lparr>displayX = so_displayX ev, displayY = so_displayY ev, displayId = so_displayId ev\<rparr>,
       co_extra := extra, co_pointerSpeed := ps, co_touchPadSpeed := ts\<rparr>;
     target \<leftarrow> gets in_processPeer;
     ds_StartCooperateWithOptions E target notice;
     em_StartCooperateWithOptionsFinish E notice;
     TransiteTo E COOPERATE_STATE_FREE;
     ResetPointerAndTouchPadSpeed;
     OnRelayCooperation E target }"

definition relay_OnResponse :: "env \<Rightarrow> DSoftbusRelayCooperate \<Rightarrow> ('s machine_scheme, unit) state" where
  "relay_OnResponse E notice = do {
     peer \<leftarrow> gets (IsPeer (rc_networkId notice));
     if \<not> peer then skip
     else do {
       tm \<leftarrow> gets relay_timerId;
       emit (TimerRemove tm);
       if rc_normal notice
       then do { relay_OnNormal E notice; relay_Proceed }
       else do { relay_OnResetWithNotifyMessage E; in_StopCooperate E } } }"

definition relay_OnResponseWithOptions :: "env \<Rightarrow> DSoftbusRelayCooperate \<Rightarrow> ('s machine_scheme, unit) state" where
  "relay_OnResponseWithOptions E notice = do {
     peer \<leftarrow> gets (IsPeer (rc_networkId notice));
     if \<not> peer then skip
     else do {
       tm \<leftarrow> gets relay_timerId;
       emit (TimerRemove tm);
       if rc_normal notice
       then do { relay_OnNormalWithOptions E; relay_Proceed }
       else do { relay_OnResetWithOptionsNotifyMessage E; in_StopCooperate E } } }"

definition relay_OnDisable :: "env \<Rightarrow> ('s machine_scheme, unit) state" where
  "relay_OnDisable E = do { in_StopCooperate E; relay_OnReset }"

definition relay_OnStop :: "env \<Rightarrow> StopCooperateEvent \<Rightarrow> ('s machine_scheme, unit) state" where
  "relay_OnStop E ev = do {
     in_StopCooperate E;
     relay_OnReset;
     UnchainConnections E ev }"

definition relay_OnRemoteStart :: "env \<Rightarrow> DSoftbusStartCooperate \<Rightarrow> ('s machine_scheme, unit) state" where
  "relay_OnRemoteStart E notice = do {
     StorePeerPointerSpeed (sc_pointerSpeed notice);
     StorePeerTouchPadSpeed (sc_touchPadSpeed notice);
     from_peer \<leftarrow> gets (IsPeer (sc_networkId notice));
     here \<leftarrow> (if from_peer then pure True else IsLocal E (sc_networkId notice));
     if here then skip
     else do {
       from_target \<leftarrow> gets (process_IsPeer (sc_networkId notice));
       if from_target then do { Resend (REMOTE_START notice); relay_OnResetWithNotifyMessage E }
       else do { AddTimer E DEFAULT_COOLING_TIME REPEAT_ONCE (REMOTE_START notice); skip } } }"

definition relay_OnRemoteStartWithOptions ::
    "env \<Rightarrow> DSoftbusCooperateOptions \<Rightarrow> ('s machine_scheme, unit) state" where
  "relay_OnRemoteStartWithOptions E notice = do {
     StorePeerPointerSpeed (co_pointerSpeed notice);
     StorePeerTouchPadSpeed (co_touchPadSpeed notice);
     from_peer \<leftarrow> gets (IsPeer (co_networkId notice));
     here \<leftarrow> (if from_peer then pure True else IsLocal E (co_networkId notice));
     if here then skip
     else do {
       from_target \<leftarrow> gets (process_IsPeer (co_networkId notice));
       if from_target then do { Resend (REMOTE_WITH_OPTIONS notice); relay_OnReset }
       else do { AddTimer E DEFAULT_COOLING_TIME REPEAT_ONCE (REMOTE_WITH_OPTIONS notice); skip } } }"

definition relay_OnRemoteStop :: "DDMBoardOnlineEvent \<Rightarrow> ('s machine_scheme, unit) state" where
  "relay_OnRemoteStop notice = do {
     peer \<leftarrow> gets (IsPeer (bo_networkId notice));
     if \<not> peer then skip
     else do { Resend (REMOTE_STOP notice); relay_OnReset } }"

definition relay_OnAppClosed :: "env \<Rightarrow> ('s machine_scheme, unit) state" where
  "relay_OnAppClosed E = do {
     CloseAllSessions;
     in_StopCooperate E;
     relay_OnResetWithNotifyMessage E }"

definition relay_OnPointerEvent :: "env \<Rightarrow> InputPointerEvent \<Rightarrow> ('s machine_scheme, unit) state" where
  "relay_OnPointerEvent E ev =
     (if pe_sourceType ev \<noteq> SOURCE_TYPE_MOUSE E \<or> \<not> IsLocalEvent ev then skip
      else do { ctx_OnPointerEvent E ev; in_StopCooperate E; relay_OnReset })"

text \<open>The peer or the target is gone.\<close>

definition relay_lost :: "env \<Rightarrow> net_id \<Rightarrow> ('s machine_scheme, unit) state" where
  "relay_lost E nid = do {
     from_peer \<leftarrow> gets (IsPeer nid);
     from_target \<leftarrow> gets (process_IsPeer nid);
     if \<not> from_peer \<and> \<not> from_target then skip
     else do {
       only_if from_peer (in_StopCooperate E);
       relay_OnResetWithNotifyMessage E } }"

definition relay_OnBoardOffline :: "env \<Rightarrow> DDMBoardOnlineEvent \<Rightarrow> ('s machine_scheme, unit) state" where
  "relay_OnBoardOffline E notice = relay_lost E (bo_networkId notice)"

definition relay_OnSwitchChanged :: "env \<Rightarrow> DDMBoardOnlineEvent \<Rightarrow> ('s machine_scheme, unit) state" where
  "relay_OnSwitchChanged E notice = (if bo_normal notice then skip else relay_lost E (bo_networkId notice))"

definition relay_OnSoftbusSessionClosed :: "env \<Rightarrow> DDMBoardOnlineEvent \<Rightarrow> ('s machine_scheme, unit) state" where
  "relay_OnSoftbusSessionClosed E notice = relay_lost E (bo_networkId notice)"

fun relay_OnEvent :: "env \<Rightarrow> CooperateEvent \<Rightarrow> ('s machine_scheme, unit) state" where
  "relay_OnEvent E (DISABLE _) = relay_OnDisable E"
| "relay_OnEvent E (STOP ev) = relay_OnStop E ev"
| "relay_OnEvent E (APP_CLOSED _) = relay_OnAppClosed E"
| "relay_OnEvent E (INPUT_POINTER_EVENT ev) = relay_OnPointerEvent E ev"
| "relay_OnEvent E (DDM_BOARD_OFFLINE ev) = relay_OnBoardOffline E ev"
| "relay_OnEvent E (DDP_COOPERATE_SWITCH_CHANGED ev) = relay_OnSwitchChanged E ev"
| "relay_OnEvent E (SESSION_CLOSED_EVENT ev) = relay_OnSoftbusSessionClosed E ev"
| "relay_OnEvent E (RELAY_FINISHED ev) = relay_OnResponse E ev"
| "relay_OnEvent E (REMOTE_START ev) = relay_OnRemoteStart E ev"
| "relay_OnEvent E (REMOTE_STOP ev) = relay_OnRemoteStop ev"
| "relay_OnEvent E (REMOTE_WITH_OPTIONS ev) = relay_OnRemoteStartWithOptions E ev"
| "relay_OnEvent E (RELAY_WITHOPTIONS_FINISHED ev) = relay_OnResponseWithOptions E ev"
| "relay_OnEvent E _ = skip"

section \<open>The initial step\<close>

definition in_OnComeBack :: "env \<Rightarrow> StartCooperateEvent \<Rightarrow> ('s machine_scheme, unit) state" where
  "in_OnComeBack E ev = do {
     ib_Disable E;
     l \<leftarrow> Local E;
     pos \<leftarrow> NormalizedCursorPosition E;
     extra \<leftarrow> OnStartCooperate E no_data;
     let notice = default_start\<lparr>sc_originNetworkId := l, sc_success := True, sc_cursorPos := pos,
       sc_extra := extra, sc_uid := st_uid ev\<rparr>;
     peer \<leftarrow> Peer;
     ret \<leftarrow> ds_ComeBack E peer notice;
     em_StartCooperateFinish E (if ret \<noteq> RET_OK
       then notice\<lparr>sc_success := False, sc_errCode := SEND_PACKET_FAILED\<rparr> else notice);
     TransiteTo E COOPERATE_STATE_FREE;
     OnBack E }"

definition in_OnRelay :: "env \<Rightarrow> StartCooperateEvent \<Rightarrow> ('s machine_scheme, unit) state" where
  "in_OnRelay E ev = do {
     process_StartCooperate ev;
     Switch InRelay;
     relay_OnProgress E ev }"

definition in_OnStart :: "env \<Rightarrow> StartCooperateEvent \<Rightarrow> ('s machine_scheme, unit) state" where
  "in_OnStart E ev = do {
     ResetPriv;
     d \<leftarrow> ask (DragStateOf E);
     if d = MOTION_DRAGGING then refuse_dragging E (st_pid ev) (st_userData ev) (st_remoteNetworkId ev)
     else do {
       here \<leftarrow> IsLocal E (st_remoteNetworkId ev);
       if here
       then em_StartCooperateFinish E (default_start\<lparr>sc_success := False, sc_errCode := UNEXPECTED_START_CALL\<rparr>)
       else do {
         em_StartCooperate ev;
         to_peer \<leftarrow> gets (IsPeer (st_remoteNetworkId ev));
         if to_peer then in_OnComeBack E ev else in_OnRelay E ev } } }"

definition in_OnComeBackWithOptions :: "env \<Rightarrow> StartWithOptionsEvent \<Rightarrow> ('s machine_scheme, unit) state" where
  "in_OnComeBackWithOptions E ev = do {
     ib_Disable E;
     l \<leftarrow> Local E;
     extra \<leftarrow> OnStartCooperate E no_data;
     let notice = default_options\<lparr>co_originNetworkId := l, co_success := True,
       co_options := \<lparr>displayX = so_displayX ev, displayY = so_displayY ev, displayId = so_displayId ev\<rparr>,
       co_extra := extra\<rparr>;
     peer \<leftarrow> Peer;
     ret \<leftarrow> ds_ComeBackWithOptions E peer notice;
     em_StartCooperateWithOptionsFinish E (if ret \<noteq> RET_OK
       then notice\<lparr>co_success := False, co_errCode := SEND_PACKET_FAILED\<rparr> else notice);
     peer \<leftarrow> Peer;
     RemoveVirtualInputDevice E peer;
     TransiteTo E COOPERATE_STATE_FREE;
     OnBack E }"

definition in_OnRelayWithOptions :: "env \<Rightarrow> StartWithOptionsEvent \<Rightarrow> ('s machine_scheme, unit) state" where
  "in_OnRelayWithOptions E ev = do {
     process_StartCooperateWithOptions ev;
     Switch InRelay;
     relay_OnProgressWithOptions E ev }"

definition in_OnStartWithOptions :: "env \<Rightarrow> StartWithOptionsEvent \<Rightarrow> ('s machine_scheme, unit) state" where
  "in_OnStartWithOptions E ev = do {
     ResetPriv;
     UpdateCooperateOptions ev;
     d \<leftarrow> ask (DragStateOf E);
     if d = MOTION_DRAGGING then refuse_dragging E (so_pid ev) (so_userData ev) (so_remoteNetworkId ev)
     else do {
       here \<leftarrow> IsLocal E (so_remoteNetworkId ev);
       if here
       then em_StartCooperateWithOptionsFinish E
         (default_options\<lparr>co_success := False, co_errCode := UNEXPECTED_START_CALL\<rparr>)
       else do {
         em_StartCooperateWithOptions ev;
         to_peer \<leftarrow> gets (IsPeer (so_remoteNetworkId ev));
         if to_peer then in_OnComeBackWithOptions E ev else in_OnRelayWithOptions E ev } } }"

definition in_OnStop :: "env \<Rightarrow> StopCooperateEvent \<Rightarrow> ('s machine_scheme, unit) state" where
  "in_OnStop E ev = do {
     em_StopCooperate ev;
     in_StopCooperate E;
     finish_stop E ev }"

definition in_OnRemoteStart :: "env \<Rightarrow> DSoftbusStartCooperate \<Rightarrow> ('s machine_scheme, unit) state" where
  "in_OnRemoteStart E notice = do {
     StorePeerPointerSpeed (sc_pointerSpeed notice);
     StorePeerTouchPadSpeed (sc_touchPadSpeed notice);
     from_peer \<leftarrow> gets (IsPeer (sc_networkId notice));
     here \<leftarrow> (if from_peer then pure True else IsLocal E (sc_networkId notice));
     if here then skip
     else do {
       OnResetCooperation;
       extra \<leftarrow> OnRemoteStartCooperate E (sc_extra notice);
       let notice = notice\<lparr>sc_extra := extra\<rparr>;
       em_RemoteStart E notice;
       peer \<leftarrow> Peer;
       ds_StopCooperate E peer;
       RemoteStartSuccess E notice;
       ib_Update;
       em_RemoteStartFinish E notice;
       OnTransitionIn E } }"

definition in_OnRemoteStartWithOptions :: "env \<Rightarrow> DSoftbusCooperateOptions \<Rightarrow> ('s machine_scheme, unit) state" where
  "in_OnRemoteStartWithOptions E notice = do {
     StorePeerPointerSpeed (co_pointerSpeed notice);
     StorePeerTouchPadSpeed (co_touchPadSpeed notice);
     from_peer \<leftarrow> gets (IsPeer (co_networkId notice));
     here \<leftarrow> (if from_peer then pure True else IsLocal E (co_networkId notice));
     if here then skip
     else do {
       OnResetCooperation;
       extra \<leftarrow> OnRemoteStartCooperate E (co_extra notice);
       let notice = notice\<lparr>co_extra := extra\<rparr>;
       em_RemoteStartWithOptions E notice;
       peer \<leftarrow> Peer;
       ds_StopCooperate E peer;
       notice \<leftarrow> AdjustPointerPos E notice;
       ctx_OnRemoteStart notice;
       ib_Update;
       em_RemoteStartWithOptionsFinish E notice;
       OnTransitionIn E } }"

definition in_OnRemoteStop :: "env \<Rightarrow> DDMBoardOnlineEvent \<Rightarrow> ('s machine_scheme, unit) state" where
  "in_OnRemoteStop E notice = do {
     peer \<leftarrow> gets (IsPeer (bo_networkId notice));
     if \<not> peer then skip
     else do {
       em_RemoteStop notice;
       ib_Disable E;
       em_RemoteStopFinish notice;
       peer \<leftarrow> Peer;
       RemoveVirtualInputDevice E peer;
       TransiteTo E COOPERATE_STATE_FREE;
       OnResetCooperation } }"

definition in_OnAppClosed :: "env \<Rightarrow> ('s machine_scheme, unit) state" where
  "in_OnAppClosed E = do { CloseAllSessions; in_StopCooperate E }"

text \<open>The user of this device moves its own mouse: the device is taken back.\<close>

definition in_OnPointerEvent :: "env \<Rightarrow> InputPointerEvent \<Rightarrow> ('s machine_scheme, unit) state" where
  "in_OnPointerEvent E ev =
     (if pe_sourceType ev \<noteq> SOURCE_TYPE_MOUSE E \<or> pe_pointerAction ev \<in> set (filterPointers E)
         \<or> \<not> IsLocalEvent ev then skip
      else do { ctx_OnPointerEvent E ev; in_StopCooperate E })"

definition in_OnBoardOffline :: "env \<Rightarrow> DDMBoardOnlineEvent \<Rightarrow> ('s machine_scheme, unit) state" where
  "in_OnBoardOffline E notice = do {
     peer \<leftarrow> gets (IsPeer (bo_networkId notice));
     if \<not> peer then skip else in_StopCooperate E }"

definition in_OnSwitchChanged :: "env \<Rightarrow> DDMBoardOnlineEvent \<Rightarrow> ('s machine_scheme, unit) state" where
  "in_OnSwitchChanged E notice = do {
     peer \<leftarrow> gets (IsPeer (bo_networkId notice));
     if \<not> peer \<or> bo_normal notice then skip else in_StopCooperate E }"

definition in_OnSoftbusSessionClosed :: "env \<Rightarrow> DDMBoardOnlineEvent \<Rightarrow> ('s machine_scheme, unit) state" where
  "in_OnSoftbusSessionClosed E notice = do {
     peer \<leftarrow> gets (IsPeer (bo_networkId notice));
     if \<not> peer then skip
     else do { in_StopCooperate E; em_OnSoftbusSessionClosed E notice } }"

definition in_OnRemoteInputDevice :: "env \<Rightarrow> DSoftbusSyncInputDevice \<Rightarrow> ('s machine_scheme, unit) state" where
  "in_OnRemoteInputDevice E notice = do {
     peer \<leftarrow> gets (IsPeer (si_networkId notice));
     if \<not> peer then skip else AddVirtualInputDevice E (si_networkId notice) }"

definition in_OnUpdateCooperateFlag :: "UpdateCooperateFlagEvent \<Rightarrow> ('s machine_scheme, unit) state" where
  "in_OnUpdateCooperateFlag notice = do {
     changed \<leftarrow> gets (\<lambda>s. uf_mask notice AND (ctx_flag s XOR uf_flag notice));
     UpdateCooperateFlag notice;
     only_if (changed AND COOPERATE_FLAG_FREEZE_CURSOR \<noteq> 0)
       (if uf_flag notice AND COOPERATE_FLAG_FREEZE_CURSOR \<noteq> 0 then ib_Freeze else ib_Thaw) }"

fun initial_OnEvent :: "env \<Rightarrow> CooperateEvent \<Rightarrow> ('s machine_scheme, unit) state" where
  "initial_OnEvent E (DISABLE _) = in_StopCooperate E"
| "initial_OnEvent E (START ev) = in_OnStart E ev"
| "initial_OnEvent E (STOP ev) = in_OnStop E ev"
| "initial_OnEvent E (APP_CLOSED _) = in_OnAppClosed E"
| "initial_OnEvent E (INPUT_POINTER_EVENT ev) = in_OnPointerEvent E ev"
| "initial_OnEvent E (DDM_BOARD_OFFLINE ev) = in_OnBoardOffline E ev"
| "initial_OnEvent E (DDP_COOPERATE_SWITCH_CHANGED ev) = in_OnSwitchChanged E ev"
| "initial_OnEvent E (SESSION_CLOSED_EVENT ev) = in_OnSoftbusSessionClosed E ev"
| "initial_OnEvent E (REMOTE_START ev) = in_OnRemoteStart E ev"
| "initial_OnEvent E (REMOTE_STOP ev) = in_OnRemoteStop E ev"
| "initial_OnEvent E (UPDATE_COOPERATE_FLAG ev) = in_OnUpdateCooperateFlag ev"
| "initial_OnEvent E (INPUT_DEV_SYNC ev) = in_OnRemoteInputDevice E ev"
| "initial_OnEvent E (WITH_OPTIONS_START ev) = in_OnStartWithOptions E ev"
| "initial_OnEvent E (REMOTE_WITH_OPTIONS ev) = in_OnRemoteStartWithOptions E ev"
| "initial_OnEvent E _ = skip"

definition in_OnEvent :: "env \<Rightarrow> CooperateEvent \<Rightarrow> ('s machine_scheme, unit) state" where
  "in_OnEvent E ev = do {
     st \<leftarrow> gets in_step;
     case st of InInitial \<Rightarrow> initial_OnEvent E ev | InRelay \<Rightarrow> relay_OnEvent E ev }"

section \<open>Control flow\<close>

lemma in_others_core:
  "unchanged core (in_OnRemoteStart E sc)" "unchanged core (in_OnRemoteStartWithOptions E co)"
  "unchanged core (in_OnRemoteInputDevice E si)" "unchanged core (in_OnUpdateCooperateFlag uf)"
  unfolding in_OnRemoteStart_def in_OnRemoteStartWithOptions_def in_OnRemoteInputDevice_def
    in_OnUpdateCooperateFlag_def
  by (intro core_frame free_helpers_core)+

lemma relay_helpers_core:
  "unchanged core (AddTimer E d r ev)" "unchanged core (Resend ev)"
  unfolding AddTimer_def Resend_def by (intro core_frame)+

lemma in_StopCooperate_core:
  "core (exec (in_StopCooperate E) s) = (core s)\<lparr>k_state := COOPERATE_STATE_FREE, k_building := False\<rparr>"
proof -
  have "flow k (in_StopCooperate E) (\<lambda>_ k'. k' = k\<lparr>k_state := COOPERATE_STATE_FREE, k_building := False\<rparr>)" for k
    unfolding in_StopCooperate_def
    by (intro flows flow_bind_quiet flow_quiet core_frame) simp
  from flowD [OF this refl] show ?thesis .
qed

lemma relay_reset_core:
  "core (exec relay_OnReset s) = (core s)\<lparr>k_step := InInitial\<rparr>"
  "core (exec relay_Proceed s) = (core s)\<lparr>k_step := InInitial\<rparr>"
  "core (exec (relay_OnResetWithNotifyMessage E) s) = (core s)\<lparr>k_step := InInitial\<rparr>"
  "core (exec (relay_OnResetWithOptionsNotifyMessage E) s) = (core s)\<lparr>k_step := InInitial\<rparr>"
  unfolding relay_OnReset_def relay_Proceed_def relay_OnResetWithNotifyMessage_def
    relay_OnResetWithOptionsNotifyMessage_def
  by (simp_all add: Switch_core em_call_frame [OF core_em, THEN unchangedD])

lemma relay_normal_flow:
  "flow k (relay_OnNormal E rc) (\<lambda>_ k'. k' = k\<lparr>k_state := COOPERATE_STATE_FREE, k_building := False\<rparr>)"
  "flow k (relay_OnNormalWithOptions E) (\<lambda>_ k'. k' = k\<lparr>k_state := COOPERATE_STATE_FREE, k_building := False\<rparr>)"
  unfolding relay_OnNormal_def relay_OnNormalWithOptions_def
  by (intro flows flow_bind_quiet flow_quiet core_frame; simp)+

lemmas relay_normal_core = relay_normal_flow [THEN flowD, OF refl]

lemmas in_flows = flow_bind_to [OF in_StopCooperate_core] flow_to [OF in_StopCooperate_core]
  relay_reset_core [THEN flow_bind_to] relay_reset_core [THEN flow_to]
  relay_normal_core [THEN flow_bind_to] relay_normal_core [THEN flow_to]

lemmas in_rules = in_flows flows flow_bind_quiet flow_quiet core_frame free_helpers_core relay_helpers_core

text \<open>While relaying, every answer and every loss ends the waiting.\<close>

lemma relay_flow:
  "flow (controlled InRelay on mon pre) (relay_OnDisable E) (\<lambda>_ k. k = idle on mon pre)"
  "flow (controlled InRelay on mon pre) (relay_OnStop E sp) (\<lambda>_ k. k = idle on mon pre)"
  "flow (controlled InRelay on mon pre) (relay_OnAppClosed E) (\<lambda>_ k. k = idle on mon pre)"
  "flow (controlled InRelay on mon pre) (relay_OnPointerEvent E pe)
     (\<lambda>_ k. k = idle on mon pre \<or> k = controlled InRelay on mon pre)"
  "flow (controlled InRelay on mon pre) (relay_OnResponse E rc)
     (\<lambda>_ k. k = idle on mon pre \<or> k = controlled InRelay on mon pre)"
  "flow (controlled InRelay on mon pre) (relay_OnResponseWithOptions E rc)
     (\<lambda>_ k. k = idle on mon pre \<or> k = controlled InRelay on mon pre)"
  "flow (controlled InRelay on mon pre) (relay_lost E nid)
     (\<lambda>_ k. k = idle on mon pre \<or> (\<exists>st. k = controlled st on mon pre))"
  "flow (controlled InRelay on mon pre) (relay_OnRemoteStart E sc) (\<lambda>_ k. \<exists>st. k = controlled st on mon pre)"
  "flow (controlled InRelay on mon pre) (relay_OnRemoteStartWithOptions E co)
     (\<lambda>_ k. \<exists>st. k = controlled st on mon pre)"
  "flow (controlled InRelay on mon pre) (relay_OnRemoteStop bo) (\<lambda>_ k. \<exists>st. k = controlled st on mon pre)"
  unfolding relay_OnDisable_def relay_OnStop_def relay_OnAppClosed_def relay_OnPointerEvent_def
    relay_OnResponse_def relay_OnResponseWithOptions_def relay_lost_def relay_OnRemoteStart_def
    relay_OnRemoteStartWithOptions_def relay_OnRemoteStop_def
  by (intro in_rules; simp add: phase_defs)+

lemma relay_progress_flow:
  "flow (controlled InRelay on mon pre) (relay_OnProgress E st) (\<lambda>_ k. \<exists>st. k = controlled st on mon pre)"
  "flow (controlled InRelay on mon pre) (relay_OnProgressWithOptions E so) (\<lambda>_ k. \<exists>st. k = controlled st on mon pre)"
  unfolding relay_OnProgress_def relay_OnProgressWithOptions_def
  by (intro in_rules; simp add: phase_defs core_def)+

text \<open>In the initial step a stop ends the cooperation; a start ends it or begins a relay.\<close>

lemma in_stop_flow:
  "flow (controlled InInitial on mon pre) (in_StopCooperate E) (\<lambda>_ k. k = idle on mon pre)"
  "flow (controlled InInitial on mon pre) (in_OnStop E sp) (\<lambda>_ k. k = idle on mon pre)"
  "flow (controlled InInitial on mon pre) (in_OnAppClosed E) (\<lambda>_ k. k = idle on mon pre)"
  "flow (controlled InInitial on mon pre) (in_OnComeBack E st) (\<lambda>_ k. k = idle on mon pre)"
  "flow (controlled InInitial on mon pre) (in_OnComeBackWithOptions E so) (\<lambda>_ k. k = idle on mon pre)"
  unfolding in_OnStop_def in_OnAppClosed_def in_OnComeBack_def in_OnComeBackWithOptions_def
  by (intro in_rules; simp add: phase_defs)+

lemma in_relay_flow:
  "flow (controlled InInitial on mon pre) (in_OnRelay E st) (\<lambda>_ k. \<exists>st. k = controlled st on mon pre)"
  "flow (controlled InInitial on mon pre) (in_OnRelayWithOptions E so) (\<lambda>_ k. \<exists>st. k = controlled st on mon pre)"
proof -
  have k: "(controlled InInitial on mon pre)\<lparr>k_step := InRelay\<rparr> = controlled InRelay on mon pre"
    by (simp add: phase_defs)
  show "flow (controlled InInitial on mon pre) (in_OnRelay E st) (\<lambda>_ k. \<exists>st. k = controlled st on mon pre)"
    "flow (controlled InInitial on mon pre) (in_OnRelayWithOptions E so) (\<lambda>_ k. \<exists>st. k = controlled st on mon pre)"
    unfolding in_OnRelay_def in_OnRelayWithOptions_def
    by (rule flow_bind_quiet, rule process_core, rule flow_bind_to [OF Switch_core], unfold k,
        rule relay_progress_flow)+
qed

lemma in_start_flow:
  "flow (controlled InInitial on mon pre) (in_OnStart E st)
     (\<lambda>_ k. k = idle on mon pre \<or> (\<exists>st. k = controlled st on mon pre))"
  "flow (controlled InInitial on mon pre) (in_OnStartWithOptions E so)
     (\<lambda>_ k. k = idle on mon pre \<or> (\<exists>st. k = controlled st on mon pre))"
  unfolding in_OnStart_def in_OnStartWithOptions_def
  by (intro in_stop_flow(4,5) [THEN flow_weaken] in_relay_flow [THEN flow_weaken] in_rules; blast?)+

lemma in_may_stop_flow:
  "flow (controlled InInitial on mon pre) (in_OnPointerEvent E pe)
     (\<lambda>_ k. k = idle on mon pre \<or> k = controlled InInitial on mon pre)"
  "flow (controlled InInitial on mon pre) (in_OnBoardOffline E bo)
     (\<lambda>_ k. k = idle on mon pre \<or> k = controlled InInitial on mon pre)"
  "flow (controlled InInitial on mon pre) (in_OnSwitchChanged E bo)
     (\<lambda>_ k. k = idle on mon pre \<or> k = controlled InInitial on mon pre)"
  "flow (controlled InInitial on mon pre) (in_OnSoftbusSessionClosed E bo)
     (\<lambda>_ k. k = idle on mon pre \<or> k = controlled InInitial on mon pre)"
  "flow (controlled InInitial on mon pre) (in_OnRemoteStop E bo)
     (\<lambda>_ k. k = idle on mon pre \<or> k = controlled InInitial on mon pre)"
  unfolding in_OnPointerEvent_def in_OnBoardOffline_def in_OnSwitchChanged_def
    in_OnSoftbusSessionClosed_def in_OnRemoteStop_def
  by (intro in_rules; simp add: phase_defs)+

end
