(* ===== verification/State_Machine.thy ===== *)
theory State_Machine
  imports Coop_In
begin

text \<open>
  src/intention/cooperate/plugin/src/state_machine.cpp: the events that concern the whole
  plugin, the checks before a start, the watches (input monitors, device listeners, screen
  events, application state), and the transfer of everything else to the current state.
\<close>

section \<open>Watches\<close>

definition GetPackageName :: "env \<Rightarrow> i32 \<Rightarrow> ('s world_scheme, string) state" where
  "GetPackageName E tokenId = do {
     ty \<leftarrow> ask (\<lambda>t. TokenTypeOf E t tokenId);
     case ty of
       TOKEN_HAP \<Rightarrow> do {
         b \<leftarrow> ask (\<lambda>t. HapBundle E t tokenId);
         pure (case b of None \<Rightarrow> ''Default'' | Some n \<Rightarrow> n) }
     | TOKEN_OTHER \<Rightarrow> pure ''Default''
     | _ \<Rightarrow> do {
         b \<leftarrow> ask (\<lambda>t. NativeProcess E t tokenId);
         pure (case b of None \<Rightarrow> ''Default'' | Some n \<Rightarrow> n) } }"

definition RegisterApplicationStateObserver :: "env \<Rightarrow> EnableCooperateEvent \<Rightarrow> ('s machine_scheme, i32) state" where
  "RegisterApplicationStateObserver E ev = do {
     b \<leftarrow> GetPackageName E (en_tokenId ev);
     modify (\<lambda>s. s\<lparr>clientBundleNames := clientBundleNames s @ [b]\<rparr>);
     present \<leftarrow> ask (AppMgrPresent E);
     if \<not> present then pure RET_ERR
     else do {
       modify (\<lambda>s. s\<lparr>appStateObserver := Some (en_pid ev)\<rparr>);
       names \<leftarrow> gets clientBundleNames;
       emit (RegisterAppObserver names (en_pid ev));
       err \<leftarrow> ask (RegisterApp_ret E);
       if err \<noteq> RET_OK
       then do { modify (\<lambda>s. s\<lparr>appStateObserver := None\<rparr>); pure RET_ERR }
       else pure RET_OK } }"

definition UnregisterApplicationStateObserver :: "env \<Rightarrow> ('s machine_scheme, unit) state" where
  "UnregisterApplicationStateObserver E = do {
     obs \<leftarrow> gets appStateObserver;
     if obs = None then skip
     else do {
       present \<leftarrow> ask (AppMgrPresent E);
       if \<not> present then skip
       else do {
         emit UnregisterAppObserver;
         modify (\<lambda>s. s\<lparr>appStateObserver := None\<rparr>) } } }"

definition UpdateApplicationStateObserver :: "i32 \<Rightarrow> ('s machine_scheme, unit) state" where
  "UpdateApplicationStateObserver pid =
     modify (\<lambda>s. s\<lparr>appStateObserver := map_option (\<lambda>_. pid) (appStateObserver s)\<rparr>)"

text \<open>\<open>AppStateObserver::OnProcessDied\<close>.\<close>

definition OnProcessDied :: "i32 \<Rightarrow> ('s machine_scheme, unit) state" where
  "OnProcessDied pid = do {
     obs \<leftarrow> gets appStateObserver;
     if obs = Some pid then do { Send (APP_CLOSED pid); skip } else skip }"

definition AddMonitor :: "env \<Rightarrow> ('s machine_scheme, unit) state" where
  "AddMonitor E = do {
     old \<leftarrow> gets monitorId;
     if le32 0 old then skip
     else do {
       emit InputAddMonitor;
       new \<leftarrow> ask (AddMonitor_ret E);
       modify (\<lambda>s. s\<lparr>monitorId := new\<rparr>) } }"

definition AddPreMonitor :: "env \<Rightarrow> ('s machine_scheme, unit) state" where
  "AddPreMonitor E = do {
     old \<leftarrow> gets preMonitorId;
     if le32 0 old then skip
     else do {
       emit InputAddPreMonitor;
       new \<leftarrow> ask (AddPreMonitor_ret E);
       modify (\<lambda>s. s\<lparr>preMonitorId := new\<rparr>) } }"

definition RemoveMonitor :: "('s machine_scheme, unit) state" where
  "RemoveMonitor = do {
     old \<leftarrow> gets monitorId;
     if lt32 old 0 then skip
     else do {
       emit (InputRemoveMonitor old);
       modify (\<lambda>s. s\<lparr>monitorId := - 1\<rparr>) } }"

definition RemovePreMonitor :: "('s machine_scheme, unit) state" where
  "RemovePreMonitor = do {
     old \<leftarrow> gets preMonitorId;
     if lt32 old 0 then skip
     else do {
       emit (InputRemovePreMonitor old);
       modify (\<lambda>s. s\<lparr>preMonitorId := - 1\<rparr>) } }"

text \<open>The callback of the monitor: every local pointer event, as it happens.\<close>

definition monitor_OnPointerEvent :: "env \<Rightarrow> pointer_event \<Rightarrow> ('s machine_scheme, unit) state" where
  "monitor_OnPointerEvent E p = do {
     ha_ProcessData E p;
     ml_ProcessData E p;
     case GetPointerItem p (p_pointerId p) of
       None \<Rightarrow> skip
     | Some item \<Rightarrow>
         if has_flag (EVENT_FLAG_SIMULATE E) (p_flags p)
            \<and> (p_action p = POINTER_ACTION_PULL_IN_WINDOW E \<or> p_action p = POINTER_ACTION_PULL_OUT_WINDOW E)
         then skip
         else do {
           Send (INPUT_POINTER_EVENT \<lparr>pe_deviceId = p_deviceId p, pe_pointerAction = p_action p,
             pe_sourceType = p_sourceType p,
             pe_position = \<lparr>cx = it_displayX item, cy = it_displayY item\<rparr>,
             pe_currentDisplayId = p_targetDisplayId p, pe_pressedButtons = p_pressedButtons p\<rparr>);
           skip } }"

definition preMonitor_OnKeyEvent :: "env \<Rightarrow> key_event \<Rightarrow> ('s world_scheme, unit) state" where
  "preMonitor_OnKeyEvent E k =
     (if k_keyCode k = KEYCODE_KEY_PEN_AIR_MOUSE E
      then emit (SetPencilAirMouse (k_action k = KEY_ACTION_DOWN E)) else skip)"

definition CheckIsVirtualTrackpad :: "env \<Rightarrow> i32 \<Rightarrow> ('s world_scheme, bool) state" where
  "CheckIsVirtualTrackpad E deviceId = do {
     name \<leftarrow> ask (\<lambda>t. InputDeviceName E t deviceId);
     pure (name = Some VIRTUAL_TRACK_PAD_NAME) }"

definition ResetCooperate :: "('s world_scheme, unit) state" where
  "ResetCooperate = do { Send (STOP_ABOUT_VIRTUALTRACKPAD (stop_event False)); skip }"

definition devAddedCallback :: "env \<Rightarrow> i32 \<Rightarrow> ('s coop_context_scheme, unit) state" where
  "devAddedCallback E deviceId = do {
     virtual \<leftarrow> CheckIsVirtualTrackpad E deviceId;
     only_if virtual (SetVirtualTrackpadDeviceId deviceId) }"

definition devRemovedCallback :: "i32 \<Rightarrow> ('s coop_context_scheme, unit) state" where
  "devRemovedCallback deviceId = do {
     trackpad \<leftarrow> gets ctx_VirtualTrackpadDeviceId;
     only_if (deviceId = trackpad) (do { ResetCooperate; ResetVirtualTrackpadDeviceId }) }"

definition OnCommonEvent :: "env \<Rightarrow> string \<Rightarrow> ('s machine_scheme, unit) state" where
  "OnCommonEvent E commonEvent = do {
     only_if (commonEvent = COMMON_EVENT_SCREEN_ON E \<or> commonEvent = COMMON_EVENT_SCREEN_UNLOCKED E) (do {
       tm \<leftarrow> gets screenEventTimer;
       only_if (le32 0 tm) (do {
         exists \<leftarrow> ask (\<lambda>t. TimerExists E t tm);
         only_if exists (do {
           emit (TimerRemove tm);
           modify (\<lambda>s. s\<lparr>screenEventTimer := - 1\<rparr>) }) }) });
     only_if (commonEvent = COMMON_EVENT_SCREEN_OFF E \<or> commonEvent = COMMON_EVENT_SCREEN_LOCKED E) (do {
       SetStopByScreenOffOrLock True;
       Send (STOP (stop_event False));
       tm \<leftarrow> AddTimer E SCREEN_LOCKED_TIMEOUT REPEAT_ONCE (STOP (stop_event True));
       modify (\<lambda>s. s\<lparr>screenEventTimer := tm\<rparr>) }) }"

text \<open>The callback of that timer.\<close>

definition screen_timer_fired :: "('s machine_scheme, unit) state" where
  "screen_timer_fired = do {
     Send (STOP (stop_event True));
     modify (\<lambda>s. s\<lparr>screenEventTimer := - 1\<rparr>) }"

section \<open>Events of the whole plugin\<close>

definition Transfer :: "env \<Rightarrow> CooperateEvent \<Rightarrow> ('s machine_scheme, unit) state" where
  "Transfer E ev = do {
     c \<leftarrow> gets sm_current;
     case c of
       COOPERATE_STATE_FREE \<Rightarrow> free_OnEvent E ev
     | COOPERATE_STATE_OUT \<Rightarrow> out_OnEvent E ev
     | COOPERATE_STATE_IN \<Rightarrow> in_OnEvent E ev }"

definition sm_EnableCooperate :: "env \<Rightarrow> EnableCooperateEvent \<Rightarrow> ('s machine_scheme, unit) state" where
  "sm_EnableCooperate E ev = do {
     em_EnableCooperate E ev;
     ha_EnableCooperate E;
     emit AddCommonEventObserver;
     RegisterApplicationStateObserver E ev;
     AddMonitor E;
     AddPreMonitor E;
     emit RegisterDevListener;
     modify (\<lambda>s. s\<lparr>isCooperateEnable := True\<rparr>);
     Transfer E (ENABLE ev) }"

definition sm_DisableCooperate :: "env \<Rightarrow> RegisterListenerEvent \<Rightarrow> ('s machine_scheme, unit) state" where
  "sm_DisableCooperate E ev = do {
     ctx_DisableCooperate;
     em_DisableCooperate E ev;
     emit RemoveCommonEventObserver;
     RemoveAllVirtualInputDevice E;
     UnregisterApplicationStateObserver E;
     RemoveMonitor;
     RemovePreMonitor;
     emit UnregisterDevListener;
     ResetVirtualTrackpadDeviceId;
     modify (\<lambda>s. s\<lparr>isCooperateEnable := False\<rparr>);
     Transfer E (DISABLE ev) }"

text \<open>
  The checks before a start; the caller waits for the promise, which is set in every case.
\<close>

definition admit ::
    "env \<Rightarrow> net_id \<Rightarrow> i32 \<Rightarrow> nat \<Rightarrow> CooperateEvent \<Rightarrow> ('s machine_scheme, unit) state" where
  "admit E nid pid promise ev = do {
     same \<leftarrow> ask (\<lambda>t. SrcIsSameAccount E t nid);
     if \<not> same then emit (SetPromise promise COMMON_PERMISSION_CHECK_ERROR)
     else do {
       UpdateApplicationStateObserver pid;
       allow \<leftarrow> IsAllowCooperate E;
       if \<not> allow then emit (SetPromise promise COMMON_NOT_ALLOWED_DISTRIBUTED)
       else do {
         emit (SetPromise promise RET_OK);
         Transfer E ev } } }"

definition sm_StartCooperate :: "env \<Rightarrow> StartCooperateEvent \<Rightarrow> ('s machine_scheme, unit) state" where
  "sm_StartCooperate E ev = admit E (st_remoteNetworkId ev) (st_pid ev) (st_errCode ev) (START ev)"

definition sm_StartCooperateWithOptions :: "env \<Rightarrow> StartWithOptionsEvent \<Rightarrow> ('s machine_scheme, unit) state" where
  "sm_StartCooperateWithOptions E ev =
     admit E (so_remoteNetworkId ev) (so_pid ev) (so_errCode ev) (WITH_OPTIONS_START ev)"

definition sm_StopCooperate :: "env \<Rightarrow> StopCooperateEvent \<Rightarrow> ('s machine_scheme, unit) state" where
  "sm_StopCooperate E ev = do {
     peer \<leftarrow> Peer;
     CloseDistributedFileConnection peer;
     OnStopCooperate;
     RemoveAllVirtualInputDevice E;
     Transfer E (STOP ev) }"

definition sm_GetCooperateState :: "env \<Rightarrow> GetCooperateStateEvent \<Rightarrow> ('s machine_scheme, unit) state" where
  "sm_GetCooperateState E ev = do {
     UpdateApplicationStateObserver (gs_pid ev);
     on \<leftarrow> gets isCooperateEnable;
     em_GetCooperateState E \<lparr>cs_pid = gs_pid ev, cs_msgId = COORDINATION_GET_STATE,
       cs_userData = gs_userData ev, cs_state = on, cs_errCode = COORDINATION_OK\<rparr> }"

definition OnProcessClientDied :: "env \<Rightarrow> i32 \<Rightarrow> ('s machine_scheme, unit) state" where
  "OnProcessClientDied E pid = do {
     em_OnClientDied pid;
     ha_OnClientDied pid;
     ml_OnClientDied E pid;
     Transfer E (APP_CLOSED pid) }"

definition sm_OnBoardOnline :: "env \<Rightarrow> DDMBoardOnlineEvent \<Rightarrow> ('s machine_scheme, unit) state" where
  "sm_OnBoardOnline E ev = do {
     known \<leftarrow> gets (\<lambda>s. oset_has id (bo_networkId ev) (onlineBoards s));
     if known then skip
     else do {
       modify (\<lambda>s. s\<lparr>onlineBoards := oset_insert id (bo_networkId ev) (onlineBoards s)\<rparr>);
       Transfer E (DDM_BOARD_ONLINE ev) } }"

definition sm_OnBoardOffline :: "env \<Rightarrow> DDMBoardOnlineEvent \<Rightarrow> ('s machine_scheme, unit) state" where
  "sm_OnBoardOffline E ev = do {
     known \<leftarrow> gets (\<lambda>s. oset_has id (bo_networkId ev) (onlineBoards s));
     if \<not> known then skip
     else do {
       modify (\<lambda>s. s\<lparr>onlineBoards := oset_erase id (bo_networkId ev) (onlineBoards s)\<rparr>);
       CloseDistributedFileConnection (bo_networkId ev);
       Transfer E (DDM_BOARD_OFFLINE ev) } }"

definition sm_OnProfileChanged :: "env \<Rightarrow> DDMBoardOnlineEvent \<Rightarrow> ('s machine_scheme, unit) state" where
  "sm_OnProfileChanged E ev = do {
     em_OnProfileChanged E ev;
     Transfer E (DDP_COOPERATE_SWITCH_CHANGED ev) }"

text \<open>The current state sees the position before this motion.\<close>

definition sm_OnPointerEvent :: "env \<Rightarrow> InputPointerEvent \<Rightarrow> ('s machine_scheme, unit) state" where
  "sm_OnPointerEvent E ev = do {
     pos \<leftarrow> gets ctx_cursorPos;
     ctx_OnPointerEvent E ev;
     Transfer E (INPUT_POINTER_EVENT (ev\<lparr>pe_position := pos\<rparr>)) }"

definition sm_OnSoftbusSessionClosed :: "env \<Rightarrow> DDMBoardOnlineEvent \<Rightarrow> ('s machine_scheme, unit) state" where
  "sm_OnSoftbusSessionClosed E ev = do {
     em_OnSoftbusSessionClosed E ev;
     idm_OnSoftbusSessionClosed E ev;
     ml_OnSoftbusSessionClosed ev;
     CloseDistributedFileConnection (bo_networkId ev);
     Transfer E (SESSION_CLOSED_EVENT ev) }"

definition sm_OnSoftbusSessionOpened :: "env \<Rightarrow> DDMBoardOnlineEvent \<Rightarrow> ('s machine_scheme, unit) state" where
  "sm_OnSoftbusSessionOpened E ev = do {
     idm_OnSoftbusSessionOpened E ev;
     emit (SoftbusHeartBeat (bo_networkId ev));
     Transfer E (SESSION_OPENED ev) }"

definition OnHotPlugEvent :: "env \<Rightarrow> InputHotplugEvent \<Rightarrow> ('s machine_scheme, unit) state" where
  "OnHotPlugEvent E ev = do {
     OnLocalHotPlug E ev;
     Transfer E (INPUT_HOTPLUG_EVENT ev) }"

definition sm_OnRemoteInputDevice :: "env \<Rightarrow> DSoftbusSyncInputDevice \<Rightarrow> ('s machine_scheme, unit) state" where
  "sm_OnRemoteInputDevice E ev = do {
     OnRemoteInputDevice ev;
     Transfer E (INPUT_DEV_SYNC ev) }"

definition sm_OnRemoteHotPlug :: "env \<Rightarrow> DSoftbusHotPlugEvent \<Rightarrow> ('s machine_scheme, unit) state" where
  "sm_OnRemoteHotPlug E ev = do {
     OnRemoteHotPlug ev;
     Transfer E (INPUT_DEV_HOT_PLUG ev) }"

text \<open>A start by a peer: of the same account, and only while cooperation is switched on.\<close>

definition CheckSameAccount :: "env \<Rightarrow> net_id \<Rightarrow> i32 \<Rightarrow> string \<Rightarrow> ('s world_scheme, bool) state" where
  "CheckSameAccount E nid userId accountId =
     (if lt32 0 userId then ask (\<lambda>t. SinkIsSameAccount E t nid userId accountId)
      else ask (\<lambda>t. SameAccountToLocal E t nid))"

definition sm_OnRemoteStart :: "env \<Rightarrow> DSoftbusStartCooperate \<Rightarrow> ('s machine_scheme, unit) state" where
  "sm_OnRemoteStart E ev = do {
     same \<leftarrow> CheckSameAccount E (sc_originNetworkId ev) (sc_userId ev) (sc_accountId ev);
     on \<leftarrow> gets isCooperateEnable;
     if \<not> same \<or> \<not> on then Transfer E (STOP (stop_event True))
     else Transfer E (REMOTE_START ev) }"

definition sm_OnRemoteStartWithOptions :: "env \<Rightarrow> DSoftbusCooperateOptions \<Rightarrow> ('s machine_scheme, unit) state" where
  "sm_OnRemoteStartWithOptions E ev = do {
     same \<leftarrow> CheckSameAccount E (co_originNetworkId ev) (co_userId ev) (co_accountId ev);
     on \<leftarrow> gets isCooperateEnable;
     if \<not> same \<or> \<not> on then Transfer E (STOP (stop_event True))
     else Transfer E (REMOTE_WITH_OPTIONS ev) }"

definition OnQuit :: "('s machine_scheme, unit) state" where
  "OnQuit = do {
     modify (\<lambda>s. s\<lparr>onlineBoards := []\<rparr>);
     RemoveMonitor }"

section \<open>Dispatch\<close>

fun OnEvent :: "env \<Rightarrow> CooperateEvent \<Rightarrow> ('s machine_scheme, unit) state" where
  "OnEvent E (ADD_OBSERVER obs) = AddObserver obs"
| "OnEvent E (REMOVE_OBSERVER obs) = RemoveObserver obs"
| "OnEvent E (REGISTER_LISTENER ev) = em_RegisterListener ev"
| "OnEvent E (UNREGISTER_LISTENER ev) = em_UnregisterListener ev"
| "OnEvent E (REGISTER_HOTAREA_LISTENER ev) = ha_AddListener ev"
| "OnEvent E (UNREGISTER_HOTAREA_LISTENER ev) = ha_RemoveListener ev"
| "OnEvent E (ENABLE ev) = sm_EnableCooperate E ev"
| "OnEvent E (DISABLE ev) = sm_DisableCooperate E ev"
| "OnEvent E (START ev) = sm_StartCooperate E ev"
| "OnEvent E (STOP ev) = sm_StopCooperate E ev"
| "OnEvent E (WITH_OPTIONS_START ev) = sm_StartCooperateWithOptions E ev"
| "OnEvent E (GET_COOPERATE_STATE ev) = sm_GetCooperateState E ev"
| "OnEvent E (REGISTER_EVENT_LISTENER ev) = ml_AddListener E ev"
| "OnEvent E (UNREGISTER_EVENT_LISTENER ev) = ml_RemoveListener E ev"
| "OnEvent E (DDM_BOARD_ONLINE ev) = sm_OnBoardOnline E ev"
| "OnEvent E (DDM_BOARD_OFFLINE ev) = sm_OnBoardOffline E ev"
| "OnEvent E (DDP_COOPERATE_SWITCH_CHANGED ev) = sm_OnProfileChanged E ev"
| "OnEvent E (INPUT_POINTER_EVENT ev) = sm_OnPointerEvent E ev"
| "OnEvent E (APP_CLOSED pid) = OnProcessClientDied E pid"
| "OnEvent E (SESSION_OPENED ev) = sm_OnSoftbusSessionOpened E ev"
| "OnEvent E (SESSION_CLOSED_EVENT ev) = sm_OnSoftbusSessionClosed E ev"
| "OnEvent E (SUBSCRIBE_MOUSE_LOCATION ev) = OnSubscribeMouseLocation E ev"
| "OnEvent E (UNSUBSCRIBE_MOUSE_LOCATION ev) = OnUnSubscribeMouseLocation E ev"
| "OnEvent E (REPLY_SUBSCRIBE_MOUSE_LOCATION ev) = OnReplySubscribeMouseLocation ev"
| "OnEvent E (REPLY_UNSUBSCRIBE_MOUSE_LOCATION ev) = OnReplyUnSubscribeMouseLocation ev"
| "OnEvent E (MOUSE_LOCATION ev) = OnRemoteMouseLocation E ev"
| "OnEvent E (REMOTE_START ev) = sm_OnRemoteStart E ev"
| "OnEvent E (INPUT_HOTPLUG_EVENT ev) = OnHotPlugEvent E ev"
| "OnEvent E (INPUT_DEV_HOT_PLUG ev) = sm_OnRemoteHotPlug E ev"
| "OnEvent E (INPUT_DEV_SYNC ev) = sm_OnRemoteInputDevice E ev"
| "OnEvent E (UPDATE_VIRTUAL_DEV_ID_MAP m) = ib_UpdateVirtualDeviceIdMap m"
| "OnEvent E (REMOTE_WITH_OPTIONS ev) = sm_OnRemoteStartWithOptions E ev"
| "OnEvent E ev = Transfer E ev"

end
