(* ===== verification/Machine_Control.thy ===== *)
theory Machine_Control
  imports State_Machine
begin

text \<open>
  What the state machine promises: a specification with four phases and the transitions between
  them, that the machine refines it, and the invariant that ties the phase to what the plugin
  does to the input of the device.
\<close>

section \<open>The abstract machine\<close>

datatype phase = Idle | Controlling | Controlled | Relaying

fun is_start :: "CooperateEvent \<Rightarrow> bool" where
  "is_start (START _) = True"
| "is_start (WITH_OPTIONS_START _) = True"
| "is_start _ = False"

fun is_remote_start :: "CooperateEvent \<Rightarrow> bool" where
  "is_remote_start (REMOTE_START _) = True"
| "is_remote_start (REMOTE_WITH_OPTIONS _) = True"
| "is_remote_start _ = False"

fun is_answer :: "CooperateEvent \<Rightarrow> bool" where
  "is_answer (RELAY_FINISHED _) = True"
| "is_answer (RELAY_WITHOPTIONS_FINISHED _) = True"
| "is_answer _ = False"

text \<open>Events that end every cooperation.\<close>

fun must_stop :: "CooperateEvent \<Rightarrow> bool" where
  "must_stop (STOP _) = True"
| "must_stop (DISABLE _) = True"
| "must_stop (APP_CLOSED _) = True"
| "must_stop _ = False"

text \<open>News of a peer that is gone.\<close>

fun is_loss :: "CooperateEvent \<Rightarrow> bool" where
  "is_loss (DDM_BOARD_OFFLINE _) = True"
| "is_loss (DDP_COOPERATE_SWITCH_CHANGED _) = True"
| "is_loss (SESSION_CLOSED_EVENT _) = True"
| "is_loss _ = False"

fun is_remote_stop :: "CooperateEvent \<Rightarrow> bool" where
  "is_remote_stop (REMOTE_STOP _) = True"
| "is_remote_stop _ = False"

text \<open>What ends the control of a peer, what ends being controlled.\<close>

fun ends_control :: "CooperateEvent \<Rightarrow> bool" where
  "ends_control (COME_BACK _) = True"
| "ends_control (COME_BACK_WITH_OPTIONS _) = True"
| "ends_control (INPUT_HOTPLUG_EVENT _) = True"
| "ends_control (STOP_ABOUT_VIRTUALTRACKPAD _) = True"
| "ends_control e = (is_loss e \<or> is_remote_stop e)"

fun is_pointer :: "CooperateEvent \<Rightarrow> bool" where
  "is_pointer (INPUT_POINTER_EVENT _) = True"
| "is_pointer _ = False"

inductive phase_step :: "phase \<Rightarrow> CooperateEvent \<Rightarrow> phase \<Rightarrow> bool" where
  stay: "\<not> must_stop e \<Longrightarrow> phase_step p e p"
| established: "is_start e \<Longrightarrow> phase_step Idle e Controlling"
| taken: "is_remote_start e \<Longrightarrow> p = Idle \<or> p = Controlling \<Longrightarrow> phase_step p e Controlled"
| came_back: "is_start e \<Longrightarrow> phase_step Controlled e Idle"
| relaying: "is_start e \<Longrightarrow> phase_step Controlled e Relaying"
| answered: "is_answer e \<Longrightarrow> phase_step Relaying e Idle"
| stopped: "must_stop e \<Longrightarrow> phase_step p e Idle"
| refused: "is_remote_start e \<Longrightarrow> phase_step p e Idle"
| control_ended: "ends_control e \<Longrightarrow> phase_step Controlling e Idle"
| peer_lost: "is_loss e \<or> is_pointer e \<Longrightarrow> p = Controlled \<or> p = Relaying \<Longrightarrow> phase_step p e Idle"
| peer_stopped: "is_remote_stop e \<Longrightarrow> phase_step Controlled e Idle"
| given_up: "is_loss e \<or> is_remote_stop e \<or> is_remote_start e \<Longrightarrow> phase_step Relaying e Controlled"

inductive_cases phase_stepE: "phase_step p e q"

text \<open>The control part of the machine in a phase; the three switches are the caller's.\<close>

definition in_phase :: "phase \<Rightarrow> bool \<Rightarrow> bool \<Rightarrow> bool \<Rightarrow> core \<Rightarrow> bool" where
  "in_phase p on mon pre k = (case p of
     Idle \<Rightarrow> k = idle on mon pre
   | Controlling \<Rightarrow> (\<exists>icpt. k = controlling icpt on mon pre)
   | Controlled \<Rightarrow> k = controlled InInitial on mon pre
   | Relaying \<Rightarrow> k = controlled InRelay on mon pre)"

lemma in_phase_simps:
  "in_phase Idle on mon pre k \<longleftrightarrow> k = idle on mon pre"
  "in_phase Controlling on mon pre k \<longleftrightarrow> (\<exists>icpt. k = controlling icpt on mon pre)"
  "in_phase Controlled on mon pre k \<longleftrightarrow> k = controlled InInitial on mon pre"
  "in_phase Relaying on mon pre k \<longleftrightarrow> k = controlled InRelay on mon pre"
  by (simp_all add: in_phase_def)

lemma in_phase_controlled:
  "(\<exists>st. k = controlled st on mon pre) \<Longrightarrow> in_phase Controlled on mon pre k \<or> in_phase Relaying on mon pre k"
  by (metis InStep.exhaust in_phase_simps(3,4))

section \<open>The states refine the abstract machine\<close>

abbreviation goes :: "phase \<Rightarrow> bool \<Rightarrow> bool \<Rightarrow> bool \<Rightarrow> CooperateEvent \<Rightarrow> core \<Rightarrow> bool" where
  "goes p on mon pre e k \<equiv> \<exists>q. phase_step p e q \<and> in_phase q on mon pre k"

lemma goes_stay: "\<not> must_stop e \<Longrightarrow> in_phase p on mon pre k \<Longrightarrow> goes p on mon pre e k"
  by (blast intro: phase_step.stay)

lemma goes_idle: "phase_step p e Idle \<Longrightarrow> k = idle on mon pre \<Longrightarrow> goes p on mon pre e k"
  by (auto simp: in_phase_simps)

lemma free_quiet:
  "\<not> is_start e \<Longrightarrow> \<not> is_remote_start e \<Longrightarrow> unchanged core (free_OnEvent E e)"
  by (cases e) (simp_all add: free_others_core unchanged_skip ctx_frame [OF core_ctx])

lemma free_flow:
  "flow (idle on mon pre) (free_OnEvent E e) (\<lambda>_. goes Idle on mon pre e)"
proof -
  have here: "goes Idle on mon pre e (idle on mon pre)"
    by (rule goes_idle) (auto intro: phase_step.stay phase_step.stopped)
  have s: "flow (idle on mon pre) (free_OnEvent E e) (\<lambda>_. goes Idle on mon pre e)" if st: "is_start e"
  proof (rule flow_weaken)
    show "flow (idle on mon pre) (free_OnEvent E e)
        (\<lambda>_ k. k = idle on mon pre \<or> (\<exists>icpt. k = controlling icpt on mon pre))"
      using st by (cases e) (simp_all add: free_start_flow)
  qed (use st here in_phase_simps(2) phase_step.established in blast)
  have r: "flow (idle on mon pre) (free_OnEvent E e) (\<lambda>_. goes Idle on mon pre e)" if st: "is_remote_start e"
  proof (rule flow_weaken)
    show "flow (idle on mon pre) (free_OnEvent E e) (\<lambda>_ k. k = controlled InInitial on mon pre)"
      using st by (cases e) (simp_all add: free_remote_flow)
  qed (use st in_phase_simps(3) phase_step.taken in blast)
  show ?thesis
  proof (cases "is_start e \<or> is_remote_start e")
    case True
    then show ?thesis using s r by blast
  next
    case False
    then show ?thesis
      using here by (intro flow_quiet free_quiet) auto
  qed
qed

lemma out_quiet:
  "\<not> is_remote_start e \<Longrightarrow> \<not> must_stop e \<Longrightarrow> \<not> ends_control e \<Longrightarrow> unchanged core (out_OnEvent E e)"
  by (cases e) (simp_all add: out_others_core unchanged_skip)

lemma out_ends_flow:
  assumes "ends_control e"
  shows "flow (controlling icpt on mon pre) (out_OnEvent E e)
    (\<lambda>_ k. k = idle on mon pre \<or> k = controlling icpt on mon pre)"
  using assms by (cases e) (simp_all add: out_may_stop_flow)

lemma out_flow:
  "flow (controlling icpt on mon pre) (out_OnEvent E e) (\<lambda>_. goes Controlling on mon pre e)"
proof -
  have here: "goes Controlling on mon pre e (controlling icpt on mon pre)" if "\<not> must_stop e"
    using that by (intro goes_stay) (auto simp: in_phase_simps)
  consider "is_remote_start e" | "must_stop e" | "ends_control e"
    | "\<not> is_remote_start e" "\<not> must_stop e" "\<not> ends_control e"
    by blast
  then show ?thesis
  proof cases
    case 1
    then have f: "flow (controlling icpt on mon pre) (out_OnEvent E e)
      (\<lambda>_ k. k = idle on mon pre \<or> k = controlling icpt on mon pre \<or> k = controlled InInitial on mon pre)"
      by (cases e) (simp_all add: out_remote_flow)
    have "\<not> must_stop e"
      using 1 by (cases e) simp_all
    then show ?thesis
      using 1 here by (intro flow_weaken [OF f])
        (auto simp: in_phase_simps(1,3) intro: phase_step.refused phase_step.taken)
  next
    case 2
    then have f: "flow (controlling icpt on mon pre) (out_OnEvent E e) (\<lambda>_ k. k = idle on mon pre)"
      by (cases e) (simp_all add: out_stop_flow)
    show ?thesis
      using 2 by (intro flow_weaken [OF f]) (auto simp: in_phase_simps intro: phase_step.stopped)
  next
    case 3
    have "\<not> must_stop e"
      using 3 by (cases e) simp_all
    then show ?thesis
      using 3 here by (intro flow_weaken [OF out_ends_flow [OF 3]]) (auto simp: in_phase_simps(1) intro: phase_step.control_ended)
  next
    case 4
    then show ?thesis
      using here by (intro flow_quiet out_quiet) auto
  qed
qed

lemma in_OnEvent_flow:
  fixes B :: "unit \<Rightarrow> core \<Rightarrow> bool"
  assumes "k_step k = st"
    and "flow k (case st of InInitial \<Rightarrow> initial_OnEvent E e | InRelay \<Rightarrow>
      (relay_OnEvent E e :: ('s machine_scheme, unit) state)) B"
  shows "flow k (in_OnEvent E e :: ('s machine_scheme, unit) state) B"
  unfolding in_OnEvent_def
  by (rule flow_gets [where v = st], use assms(1) core_fields in blast, rule assms(2))

lemma initial_quiet:
  "\<not> is_start e \<Longrightarrow> \<not> must_stop e \<Longrightarrow> \<not> is_loss e \<Longrightarrow> \<not> is_pointer e \<Longrightarrow> \<not> is_remote_stop e \<Longrightarrow>
     unchanged core (initial_OnEvent E e)"
  by (cases e) (simp_all add: in_others_core unchanged_skip)

lemma initial_ends_flow:
  assumes "is_loss e \<or> is_pointer e \<or> is_remote_stop e"
  shows "flow (controlled InInitial on mon pre) (initial_OnEvent E e)
    (\<lambda>_ k. k = idle on mon pre \<or> k = controlled InInitial on mon pre)"
  using assms by (cases e) (simp_all add: in_may_stop_flow)

lemma initial_stop_flow:
  assumes "must_stop e"
  shows "flow (controlled InInitial on mon pre) (initial_OnEvent E e) (\<lambda>_ k. k = idle on mon pre)"
  using assms by (cases e) (simp_all add: in_stop_flow)

lemma not_must_stop:
  "is_start e \<or> is_remote_start e \<or> is_loss e \<or> is_pointer e \<or> is_remote_stop e \<or> is_answer e \<or> ends_control e \<Longrightarrow>
     \<not> must_stop e"
  by (cases e) simp_all

lemma initial_flow:
  "flow (controlled InInitial on mon pre) (initial_OnEvent E e) (\<lambda>_. goes Controlled on mon pre e)"
proof -
  have here: "goes Controlled on mon pre e (controlled InInitial on mon pre)" if "\<not> must_stop e"
    using that by (intro goes_stay) (auto simp: in_phase_simps)
  consider "is_start e" | "must_stop e" | "is_loss e \<or> is_pointer e \<or> is_remote_stop e"
    | "\<not> is_start e" "\<not> must_stop e" "\<not> is_loss e" "\<not> is_pointer e" "\<not> is_remote_stop e"
    by blast
  then show ?thesis
  proof cases
    case 1
    have f: "flow (controlled InInitial on mon pre) (initial_OnEvent E e)
        (\<lambda>_ k. k = idle on mon pre \<or> (\<exists>st. k = controlled st on mon pre))"
      using 1 by (cases e) (simp_all add: in_start_flow)
    show ?thesis
    proof (rule flow_weaken [OF f])
      fix k assume "k = idle on mon pre \<or> (\<exists>st. k = controlled st on mon pre)"
      then show "goes Controlled on mon pre e k"
        using 1 not_must_stop [of e] in_phase_controlled [of k on mon pre] in_phase_simps(1)
          phase_step.stay phase_step.relaying phase_step.came_back by metis
    qed
  next
    case 2
    then show ?thesis
      by (intro flow_weaken [OF initial_stop_flow]) (auto intro: goes_idle phase_step.stopped)
  next
    case 3
    then show ?thesis
      using here not_must_stop [of e]
      by (intro flow_weaken [OF initial_ends_flow [OF 3]])
        (auto intro: goes_idle phase_step.peer_lost phase_step.peer_stopped)
  next
    case 4
    then show ?thesis
      using here by (intro flow_quiet initial_quiet) auto
  qed
qed

lemma relay_quiet:
  "\<not> is_remote_start e \<Longrightarrow> \<not> must_stop e \<Longrightarrow> \<not> is_loss e \<Longrightarrow> \<not> is_pointer e \<Longrightarrow> \<not> is_remote_stop e \<Longrightarrow>
     \<not> is_answer e \<Longrightarrow> unchanged core (relay_OnEvent E e)"
  by (cases e) (simp_all add: unchanged_skip)

lemma relay_switch_flow:
  "flow (controlled InRelay on mon pre) (relay_OnSwitchChanged E bo)
     (\<lambda>_ k. k = idle on mon pre \<or> (\<exists>st. k = controlled st on mon pre))"
  unfolding relay_OnSwitchChanged_def
  by (intro flow_if flow_skip relay_flow) blast

lemma relay_ends_flow:
  assumes "is_loss e \<or> is_pointer e \<or> is_answer e \<or> is_remote_stop e \<or> is_remote_start e"
  shows "flow (controlled InRelay on mon pre) (relay_OnEvent E e)
    (\<lambda>_ k. (if is_loss e then k = idle on mon pre \<or> (\<exists>st. k = controlled st on mon pre)
            else if is_pointer e \<or> is_answer e then k = idle on mon pre \<or> k = controlled InRelay on mon pre
            else \<exists>st. k = controlled st on mon pre))"
  using assms
  by (cases e) (simp_all add: relay_flow relay_switch_flow relay_OnBoardOffline_def
      relay_OnSoftbusSessionClosed_def)

lemma relay_stop_flow:
  assumes "must_stop e"
  shows "flow (controlled InRelay on mon pre) (relay_OnEvent E e) (\<lambda>_ k. k = idle on mon pre)"
  using assms by (cases e) (simp_all add: relay_flow)

lemma relaying_flow:
  "flow (controlled InRelay on mon pre) (relay_OnEvent E e) (\<lambda>_. goes Relaying on mon pre e)"
proof -
  have here: "goes Relaying on mon pre e (controlled InRelay on mon pre)" if "\<not> must_stop e"
    using that by (intro goes_stay) (auto simp: in_phase_simps)
  have up: "goes Relaying on mon pre e k"
    if "\<exists>st. k = controlled st on mon pre" "is_loss e \<or> is_remote_stop e \<or> is_remote_start e" for k
    using that not_must_stop [of e] in_phase_controlled [of k on mon pre]
      phase_step.stay phase_step.given_up by metis
  consider "is_loss e \<or> is_pointer e \<or> is_answer e \<or> is_remote_stop e \<or> is_remote_start e" | "must_stop e"
    | "\<not> is_remote_start e" "\<not> must_stop e" "\<not> is_loss e" "\<not> is_pointer e" "\<not> is_remote_stop e" "\<not> is_answer e"
    by blast
  then show ?thesis
  proof cases
    case 1
    have n: "\<not> must_stop e"
      using 1 not_must_stop [of e] by blast
    have i: "phase_step Relaying e Idle" if "is_loss e \<or> is_pointer e \<or> is_answer e"
      using that phase_step.peer_lost phase_step.answered by blast
    show ?thesis
      by (rule flow_weaken [OF relay_ends_flow [OF 1]])
        (use 1 n i here up goes_idle in \<open>auto split: if_splits\<close>)
  next
    case 2
    then show ?thesis
      by (intro flow_weaken [OF relay_stop_flow]) (auto intro: goes_idle phase_step.stopped)
  next
    case 3
    then show ?thesis
      using here by (intro flow_quiet relay_quiet) auto
  qed
qed

section \<open>The machine refines the abstract machine\<close>

lemma Transfer_flow:
  assumes "in_phase p on mon pre k"
  shows "flow k (Transfer E e :: ('s machine_scheme, unit) state) (\<lambda>_. goes p on mon pre e)"
proof -
  have t: "flow k (Transfer E e :: ('s machine_scheme, unit) state) B" if "flow k (case c of COOPERATE_STATE_FREE \<Rightarrow> free_OnEvent E e
      | COOPERATE_STATE_OUT \<Rightarrow> out_OnEvent E e | COOPERATE_STATE_IN \<Rightarrow>
      (in_OnEvent E e :: ('s machine_scheme, unit) state)) B"
    and "k_state k = c" for c k and B :: "unit \<Rightarrow> core \<Rightarrow> bool"
    unfolding Transfer_def
    by (rule flow_gets [where v = c], use that(2) core_fields in blast, rule that(1))
  show ?thesis
  proof (cases p)
    case Idle
    then show ?thesis
      using assms free_flow by (intro t [of _ COOPERATE_STATE_FREE]) (auto simp: in_phase_simps phase_defs)
  next
    case Controlling
    then show ?thesis
      using assms out_flow by (intro t [of _ COOPERATE_STATE_OUT]) (auto simp: in_phase_simps phase_defs)
  next
    case Controlled
    then show ?thesis
      using assms initial_flow
      by (intro t [of _ COOPERATE_STATE_IN]) (auto simp: in_phase_simps phase_defs intro!: in_OnEvent_flow)
  next
    case Relaying
    then show ?thesis
      using assms relaying_flow
      by (intro t [of _ COOPERATE_STATE_IN]) (auto simp: in_phase_simps phase_defs intro!: in_OnEvent_flow)
  qed
qed

section \<open>The events of the whole plugin\<close>

lemma package_core: "unchanged core (GetPackageName E tok)"
  unfolding GetPackageName_def
  by (rule unchanged_bind, intro core_frame)
    (simp split: token_type.split, intro conjI impI core_frame)

lemma update_observer_core: "unchanged core (UpdateApplicationStateObserver pid)"
  unfolding UpdateApplicationStateObserver_def by (intro frame) (simp add: core_def)

lemma watch_core:
  "unchanged core (RegisterApplicationStateObserver E en)" "unchanged core (UnregisterApplicationStateObserver E)"
  "unchanged core (sm_GetCooperateState E gs)" "unchanged core (CheckSameAccount E nid uid acc)"
  unfolding RegisterApplicationStateObserver_def UnregisterApplicationStateObserver_def
    sm_GetCooperateState_def CheckSameAccount_def
  by (intro package_core update_observer_core core_frame; simp add: core_def)+

lemma flow_bind_some:
  assumes "\<And>s. \<exists>b. core (exec m s) = g b (core s)" "\<And>a b. flow (g b k) (f a) B"
  shows "flow k (State_Monad.bind m f) B"
  unfolding flow_def
proof (intro allI impI)
  fix s :: "'a machine_scheme"
  assume k: "core s = k"
  obtain b where "core (exec m s) = g b k"
    using assms(1) [of s] k by auto
  with flowD [OF assms(2) [of b "result_of m s"] this]
  show "B (result_of (State_Monad.bind m f) s) (core (exec (State_Monad.bind m f) s))"
    by simp
qed

lemma monitor_core:
  "\<exists>b. core (exec (AddMonitor E) s) = (core s)\<lparr>k_monitoring := b\<rparr>"
  "\<exists>b. core (exec (AddPreMonitor E) s) = (core s)\<lparr>k_preMonitoring := b\<rparr>"
  "core (exec RemoveMonitor s) = (core s)\<lparr>k_monitoring := False\<rparr>"
  "core (exec RemovePreMonitor s) = (core s)\<lparr>k_preMonitoring := False\<rparr>"
  by (auto simp: AddMonitor_def AddPreMonitor_def RemoveMonitor_def RemovePreMonitor_def core_def
      intro: exI [of _ True])

lemma enabled_core:
  "core (exec (modify (\<lambda>s. s\<lparr>isCooperateEnable := b\<rparr>)) s) = (core s)\<lparr>k_enabled := b\<rparr>"
  by (simp add: core_def)

lemma in_phase_switches:
  "in_phase p on mon pre k \<Longrightarrow> in_phase p b mon pre (k\<lparr>k_enabled := b\<rparr>)"
  "in_phase p on mon pre k \<Longrightarrow> in_phase p on b pre (k\<lparr>k_monitoring := b\<rparr>)"
  "in_phase p on mon pre k \<Longrightarrow> in_phase p on mon b (k\<lparr>k_preMonitoring := b\<rparr>)"
  by (cases p; auto simp: in_phase_simps phase_defs)+

lemma goes_enable: "goes p on mon pre (ENABLE en) k \<Longrightarrow> in_phase p on mon pre k"
  by (auto elim: phase_stepE)

lemma enable_flow:
  assumes "in_phase p on mon pre k"
  shows "flow k (sm_EnableCooperate E en) (\<lambda>_ k'. \<exists>mon pre. in_phase p True mon pre k')"
proof -
  have k: "in_phase p True m q (k\<lparr>k_monitoring := m, k_preMonitoring := q, k_enabled := True\<rparr>)" for m q
    by (rule in_phase_switches)+ (rule assms)
  show ?thesis
    unfolding sm_EnableCooperate_def
    apply (rule flow_bind_quiet, intro core_frame watch_core)
    apply (rule flow_bind_quiet, intro core_frame watch_core)
    apply (rule flow_bind_quiet, intro core_frame watch_core)
    apply (rule flow_bind_quiet, rule watch_core)
    apply (rule flow_bind_some [where g = "\<lambda>b c. c\<lparr>k_monitoring := b\<rparr>", OF monitor_core(1)])
    apply (rule flow_bind_some [where g = "\<lambda>b c. c\<lparr>k_preMonitoring := b\<rparr>", OF monitor_core(2)])
    apply (rule flow_bind_quiet, intro core_frame)
    apply (rule flow_bind_to [OF enabled_core])
    apply (rule flow_weaken [OF Transfer_flow [OF k]])
    apply (intro exI, erule goes_enable)
    done
qed

lemma disable_flow:
  assumes "in_phase p on mon pre k"
  shows "flow k (sm_DisableCooperate E rl) (\<lambda>_ k'. k' = idle False False False)"
proof -
  have k: "in_phase p False False False
      (k\<lparr>k_monitoring := False, k_preMonitoring := False, k_enabled := False\<rparr>)"
    by (rule in_phase_switches)+ (rule assms)
  have e: "phase_step p (DISABLE rl) q \<Longrightarrow> q = Idle" for q
    by (auto elim: phase_stepE)
  show ?thesis
    unfolding sm_DisableCooperate_def
    by (intro flow_bind_to [OF monitor_core(3)] flow_bind_to [OF monitor_core(4)]
        flow_bind_to [OF enabled_core] flow_bind_quiet core_frame watch_core flow_weaken [OF Transfer_flow [OF k]])
      (use e in_phase_simps(1) in blast)
qed

end
