(* ===== verification/Machine_Refinement.thy ===== *)
theory Machine_Refinement
  imports Machine_Control
begin

text \<open>
  The plugin as a whole refines the abstract machine of Machine_Control: every event moves the
  phase along \<open>phase_step\<close>, and the invariant ties the phase to the builder, the interceptor and
  the switch. Both follow for every history of events.
\<close>

section \<open>The switches\<close>

fun switches :: "CooperateEvent \<Rightarrow> core \<Rightarrow> core \<Rightarrow> bool" where
  "switches (ENABLE _) k k' = k_enabled k'"
| "switches (DISABLE _) k k' = (\<not> k_enabled k' \<and> \<not> k_monitoring k' \<and> \<not> k_preMonitoring k')"
| "switches _ k k' = (k_enabled k' = k_enabled k \<and> k_monitoring k' = k_monitoring k
     \<and> k_preMonitoring k' = k_preMonitoring k)"

definition advances :: "phase \<Rightarrow> CooperateEvent \<Rightarrow> core \<Rightarrow> core \<Rightarrow> bool" where
  "advances p e k k' = (switches e k k' \<and> (\<exists>q. phase_step p e q
     \<and> in_phase q (k_enabled k') (k_monitoring k') (k_preMonitoring k') k'
     \<and> (q = Controlled \<and> p \<noteq> Controlled \<and> p \<noteq> Relaying \<longrightarrow> k_enabled k)))"

lemma in_phase_fields:
  "in_phase p on mon pre k \<Longrightarrow> k_enabled k = on \<and> k_monitoring k = mon \<and> k_preMonitoring k = pre"
  by (cases p) (auto simp: in_phase_simps phase_defs)

lemma goes_advances:
  assumes "in_phase p on mon pre k" "goes p on mon pre e k'" "is_remote_start e \<longrightarrow> on"
    and "(\<forall>en. e \<noteq> ENABLE en) \<and> (\<forall>rl. e \<noteq> DISABLE rl)"
  shows "advances p e k k'"
proof -
  obtain q where q: "phase_step p e q" "in_phase q on mon pre k'"
    using assms(2) by blast
  have taken: "q = Controlled \<longrightarrow> p = Controlled \<or> p = Relaying \<or> is_remote_start e"
    using q(1) by (auto elim: phase_stepE)
  note f = in_phase_fields [OF assms(1)] in_phase_fields [OF q(2)]
  have "switches e k k'"
    using f assms(4) by (cases e) simp_all
  moreover have "in_phase q (k_enabled k') (k_monitoring k') (k_preMonitoring k') k'"
    using f q(2) by simp
  ultimately show ?thesis
    using q(1) taken assms(3) f unfolding advances_def by blast
qed

lemma stay_advances:
  assumes "in_phase p on mon pre k" "\<not> must_stop e" "\<forall>en. e \<noteq> ENABLE en"
  shows "advances p e k k"
proof -
  have "switches e k k"
    using assms(2,3) by (cases e) auto
  then show ?thesis
    using assms in_phase_fields [OF assms(1)] unfolding advances_def
    by (blast intro: phase_step.stay)
qed

lemma Transfer_advances:
  fixes e :: CooperateEvent
  assumes "in_phase p on mon pre k" "is_remote_start e \<longrightarrow> on"
    and "(\<forall>en. e \<noteq> ENABLE en) \<and> (\<forall>rl. e \<noteq> DISABLE rl)"
  shows "flow k (Transfer E e :: ('s machine_scheme, unit) state) (\<lambda>_. advances p e k)"
  by (rule flow_weaken [OF Transfer_flow [OF assms(1)]]) (rule goes_advances [OF assms(1) _ assms(2,3)])

lemma stop_advances:
  assumes "in_phase p on mon pre k" "is_remote_start e"
  shows "flow k (Transfer E (STOP sp) :: ('s machine_scheme, unit) state) (\<lambda>_. advances p e k)"
proof (rule flow_weaken [OF Transfer_flow [OF assms(1)]])
  fix k'
  assume "goes p on mon pre (STOP sp) k'"
  then have i: "in_phase Idle on mon pre k'"
    by (auto elim: phase_stepE)
  have "switches e k k'"
    using assms(2) in_phase_fields [OF assms(1)] in_phase_fields [OF i] by (cases e) simp_all
  then show "advances p e k k'"
    using i in_phase_fields [OF i] phase_step.refused [OF assms(2)] unfolding advances_def by blast
qed

section \<open>The handlers\<close>

lemma registration_core:
  "unchanged core (AddObserver obs)" "unchanged core (RemoveObserver obs)"
  "unchanged core (em_RegisterListener rl)" "unchanged core (em_UnregisterListener rl)"
  "unchanged core (ha_AddListener rl)" "unchanged core (ha_RemoveListener rl)"
  "unchanged core (ml_AddListener E el)" "unchanged core (ml_RemoveListener E el)"
  "unchanged core (OnSubscribeMouseLocation E sm)" "unchanged core (OnUnSubscribeMouseLocation E sm)"
  "unchanged core (OnReplySubscribeMouseLocation rs)" "unchanged core (OnReplyUnSubscribeMouseLocation ru)"
  "unchanged core (OnRemoteMouseLocation E sl)" "unchanged core (ib_UpdateVirtualDeviceIdMap m)"
  by (intro core_frame)+

lemma flow_answer:
  "(\<And>a. B a k) \<Longrightarrow> flow k (emit c) B"
  "flow k (f ()) B \<Longrightarrow> flow k (State_Monad.bind (emit c) f) B"
  by (simp_all add: flow_def core_def)

lemma admit_flow:
  assumes "in_phase p on mon pre k" "is_start e"
  shows "flow k (admit E nid pid pr e) (\<lambda>_. advances p e k)"
proof -
  have n: "\<not> must_stop e \<and> (\<forall>en. e \<noteq> ENABLE en) \<and> (\<forall>rl. e \<noteq> DISABLE rl) \<and> \<not> is_remote_start e"
    using assms(2) by (cases e) simp_all
  have here: "advances p e k k"
    using n by (intro stay_advances [OF assms(1)]) blast+
  have go: "flow k (Transfer E e) (\<lambda>_. advances p e k)"
    using n by (intro Transfer_advances [OF assms(1)]) blast+
  show ?thesis
    unfolding admit_def
    by (rule flow_bind_quiet, intro core_frame, rule flow_if, rule flow_answer(1), rule here,
        rule flow_bind_quiet, rule update_observer_core, rule flow_bind_quiet, intro core_frame,
        rule flow_if, rule flow_answer(1), rule here, rule flow_answer(2), rule go)
qed

lemma remote_start_flow:
  assumes "in_phase p on mon pre k"
  shows "flow k (sm_OnRemoteStart E sc) (\<lambda>_. advances p (REMOTE_START sc) k)"
    and "flow k (sm_OnRemoteStartWithOptions E co) (\<lambda>_. advances p (REMOTE_WITH_OPTIONS co) k)"
proof -
  have on: "k_enabled k = on"
    using in_phase_fields [OF assms] by simp
  show "flow k (sm_OnRemoteStart E sc) (\<lambda>_. advances p (REMOTE_START sc) k)"
    unfolding sm_OnRemoteStart_def
    by (rule flow_bind_quiet, rule watch_core, rule flow_gets [where v = on],
        use on core_fields in blast, rule flow_if, rule stop_advances [OF assms], simp,
        rule Transfer_advances [OF assms], simp_all)
  show "flow k (sm_OnRemoteStartWithOptions E co) (\<lambda>_. advances p (REMOTE_WITH_OPTIONS co) k)"
    unfolding sm_OnRemoteStartWithOptions_def
    by (rule flow_bind_quiet, rule watch_core, rule flow_gets [where v = on],
        use on core_fields in blast, rule flow_if, rule stop_advances [OF assms], simp,
        rule Transfer_advances [OF assms], simp_all)
qed

lemma news_flow:
  assumes "in_phase p on mon pre k"
  shows "flow k (OnProcessClientDied E pid) (\<lambda>_. advances p (APP_CLOSED pid) k)"
    and "flow k (sm_OnProfileChanged E bo) (\<lambda>_. advances p (DDP_COOPERATE_SWITCH_CHANGED bo) k)"
    and "flow k (sm_OnSoftbusSessionClosed E bo) (\<lambda>_. advances p (SESSION_CLOSED_EVENT bo) k)"
    and "flow k (sm_OnSoftbusSessionOpened E bo) (\<lambda>_. advances p (SESSION_OPENED bo) k)"
    and "flow k (OnHotPlugEvent E hp) (\<lambda>_. advances p (INPUT_HOTPLUG_EVENT hp) k)"
    and "flow k (sm_OnRemoteInputDevice E si) (\<lambda>_. advances p (INPUT_DEV_SYNC si) k)"
    and "flow k (sm_OnRemoteHotPlug E dh) (\<lambda>_. advances p (INPUT_DEV_HOT_PLUG dh) k)"
    and "flow k (sm_StopCooperate E sp) (\<lambda>_. advances p (STOP sp) k)"
  unfolding OnProcessClientDied_def sm_OnProfileChanged_def sm_OnSoftbusSessionClosed_def
    sm_OnSoftbusSessionOpened_def OnHotPlugEvent_def sm_OnRemoteInputDevice_def sm_OnRemoteHotPlug_def
    sm_StopCooperate_def
  by (intro flow_bind_quiet core_frame Transfer_advances [OF assms]; simp)+

lemma phase_step_pointer:
  "phase_step p (INPUT_POINTER_EVENT a) q \<Longrightarrow> phase_step p (INPUT_POINTER_EVENT b) q"
  by (erule phase_stepE) (auto intro: phase_step.stay phase_step.peer_lost)

lemma pointer_flow:
  assumes "in_phase p on mon pre k"
  shows "flow k (sm_OnPointerEvent E pe) (\<lambda>_. advances p (INPUT_POINTER_EVENT pe) k)"
proof -
  have a: "advances p (INPUT_POINTER_EVENT pe) k k'" if "advances p (INPUT_POINTER_EVENT x) k k'" for x k'
  proof -
    obtain q where "phase_step p (INPUT_POINTER_EVENT x) q"
        "in_phase q (k_enabled k') (k_monitoring k') (k_preMonitoring k') k'"
        "q = Controlled \<and> p \<noteq> Controlled \<and> p \<noteq> Relaying \<longrightarrow> k_enabled k"
      using \<open>advances p (INPUT_POINTER_EVENT x) k k'\<close> unfolding advances_def by blast
    moreover have "switches (INPUT_POINTER_EVENT pe) k k'"
      using \<open>advances p (INPUT_POINTER_EVENT x) k k'\<close> by (simp add: advances_def)
    ultimately show ?thesis
      unfolding advances_def using phase_step_pointer by blast
  qed
  show ?thesis
    unfolding sm_OnPointerEvent_def
    by (rule flow_bind_quiet, intro core_frame, rule flow_bind_quiet, intro core_frame,
        rule flow_weaken, rule Transfer_advances [OF assms], simp, simp, rule a)
qed

lemma board_flow:
  assumes "in_phase p on mon pre k"
  shows "flow k (sm_OnBoardOnline E bo) (\<lambda>_. advances p (DDM_BOARD_ONLINE bo) k)"
    and "flow k (sm_OnBoardOffline E bo) (\<lambda>_. advances p (DDM_BOARD_OFFLINE bo) k)"
  unfolding sm_OnBoardOnline_def sm_OnBoardOffline_def
  by (intro flow_bind_quiet flow_if flow_skip core_frame Transfer_advances [OF assms] stay_advances [OF assms];
      simp add: core_def)+

lemma switch_flow:
  assumes "in_phase p on mon pre k"
  shows "flow k (sm_EnableCooperate E en) (\<lambda>_. advances p (ENABLE en) k)"
    and "flow k (sm_DisableCooperate E rl) (\<lambda>_. advances p (DISABLE rl) k)"
proof -
  have en: "advances p (ENABLE en) k k'" if "\<exists>mon pre. in_phase p True mon pre k'" for k'
  proof -
    from that obtain m q where i: "in_phase p True m q k'"
      by blast
    show ?thesis
      using i in_phase_fields [OF i] phase_step.stay [of "ENABLE en" p] unfolding advances_def by auto
  qed
  show "flow k (sm_EnableCooperate E en) (\<lambda>_. advances p (ENABLE en) k)"
    by (rule flow_weaken [OF enable_flow [OF assms]]) (rule en)
  have i: "in_phase Idle False False False (idle False False False)"
    by (simp add: in_phase_simps)
  have "advances p (DISABLE rl) k (idle False False False)"
    using i in_phase_fields [OF i] phase_step.stopped [of "DISABLE rl" p] unfolding advances_def by auto
  then show "flow k (sm_DisableCooperate E rl) (\<lambda>_. advances p (DISABLE rl) k)"
    by (intro flow_weaken [OF disable_flow [OF assms]]) blast
qed

lemmas handler_flows = switch_flow admit_flow remote_start_flow news_flow pointer_flow board_flow

lemma OnEvent_flow:
  assumes "in_phase p on mon pre k"
  shows "flow k (OnEvent E e) (\<lambda>_. advances p e k)"
proof -
  show ?thesis
    by (cases e) (simp_all add: handler_flows [OF assms] sm_StartCooperate_def sm_StartCooperateWithOptions_def
      Transfer_advances [OF assms] flow_quiet registration_core watch_core stay_advances [OF assms])
qed

section \<open>The invariant\<close>

definition phase_of :: "'s machine_scheme \<Rightarrow> phase" where
  "phase_of s = (case sm_current s of
     COOPERATE_STATE_FREE \<Rightarrow> Idle
   | COOPERATE_STATE_OUT \<Rightarrow> Controlling
   | COOPERATE_STATE_IN \<Rightarrow> (case in_step s of InInitial \<Rightarrow> Controlled | InRelay \<Rightarrow> Relaying))"

text \<open>
  Input of a peer is let in exactly in the state \<open>IN\<close>, local input is taken away at most in the
  state \<open>OUT\<close>, the relay step exists only in \<open>IN\<close>, a device can only be controlled while
  cooperation is switched on, and the input monitors are gone while it is switched off.
\<close>

definition machine_ok :: "'s machine_scheme \<Rightarrow> bool" where
  "machine_ok s \<longleftrightarrow>
     ib_enable s = (sm_current s = COOPERATE_STATE_IN)
   \<and> (lt32 0 (ii_interceptorId s) \<longrightarrow> sm_current s = COOPERATE_STATE_OUT)
   \<and> (in_step s = InRelay \<longrightarrow> sm_current s = COOPERATE_STATE_IN)
   \<and> (sm_current s = COOPERATE_STATE_IN \<longrightarrow> isCooperateEnable s)
   \<and> (\<not> isCooperateEnable s \<longrightarrow> \<not> le32 0 (monitorId s) \<and> \<not> le32 0 (preMonitorId s))"

lemma machine_ok_phase:
  "machine_ok s \<longleftrightarrow>
     in_phase (phase_of s) (isCooperateEnable s) (le32 0 (monitorId s)) (le32 0 (preMonitorId s)) (core s)
   \<and> (phase_of s = Controlled \<or> phase_of s = Relaying \<longrightarrow> isCooperateEnable s)
   \<and> (\<not> isCooperateEnable s \<longrightarrow> \<not> le32 0 (monitorId s) \<and> \<not> le32 0 (preMonitorId s))"
  by (cases "sm_current s"; cases "in_step s")
    (auto simp: machine_ok_def phase_of_def in_phase_simps phase_defs core_def)

lemma phase_of_unique:
  "in_phase p on mon pre (core s) \<Longrightarrow> phase_of s = p"
  by (cases p) (auto simp: phase_of_def in_phase_simps phase_defs core_def)

lemma OnEvent_step:
  fixes s :: "'s machine_scheme"
  assumes "machine_ok s" "s' = exec (OnEvent E e) s"
  shows "phase_step (phase_of s) e (phase_of s')" "machine_ok s'" "switches e (core s) (core s')"
proof -
  have i: "in_phase (phase_of s) (isCooperateEnable s) (le32 0 (monitorId s)) (le32 0 (preMonitorId s)) (core s)"
    using assms(1) by (simp add: machine_ok_phase)
  have adv: "advances (phase_of s) e (core s) (core s')"
    using flowD [OF OnEvent_flow [OF i, of E e] refl] by (simp add: assms(2))
  then show sw: "switches e (core s) (core s')"
    by (simp add: advances_def)
  obtain q where q: "phase_step (phase_of s) e q"
      "in_phase q (isCooperateEnable s') (le32 0 (monitorId s')) (le32 0 (preMonitorId s')) (core s')"
      "q = Controlled \<and> phase_of s \<noteq> Controlled \<and> phase_of s \<noteq> Relaying \<longrightarrow> isCooperateEnable s"
    using adv by (auto simp: advances_def core_def)
  have ph: "phase_of s' = q"
    by (rule phase_of_unique [OF q(2)])
  then show "phase_step (phase_of s) e (phase_of s')"
    using q(1) by simp
  have relay: "q = Relaying \<longrightarrow> phase_of s = Controlled \<or> phase_of s = Relaying"
    using q(1) by (auto elim: phase_stepE)
  have off: "isCooperateEnable s' = isCooperateEnable s \<or> isCooperateEnable s' \<or> q = Idle"
    using sw q(1) by (cases e) (auto simp: core_def elim: phase_stepE)
  have mon: "\<not> isCooperateEnable s' \<longrightarrow> \<not> le32 0 (monitorId s') \<and> \<not> le32 0 (preMonitorId s')"
    using sw assms(1) by (cases e) (auto simp: core_def machine_ok_def)
  show "machine_ok s'"
    using q(2,3) ph relay off mon assms(1) unfolding machine_ok_phase by auto
qed

end
