(* ===== verification/Handler_Effects.thy ===== *)
theory Handler_Effects
  imports Machine_Refinement
begin

text \<open>
  What the handling of an event does to the rest of the plugin: it only appends to the channel,
  and no caller that waits in \<open>Cooperate::Start\<close> is answered but by the checks before a start.
\<close>

section \<open>Orderly operations\<close>

definition answers_of :: "'s world_scheme \<Rightarrow> cmd list" where
  "answers_of s = filter answers (trace s)"

definition dealings :: "'s world_scheme \<Rightarrow> cmd list \<times> CooperateEvent channel" where
  "dealings s = (answers_of s, chan s)"

text \<open>
  The events with which a caller asks for an answer; an event that neither asks nor ends the
  worker is harmless.
\<close>

fun asked :: "CooperateEvent \<Rightarrow> nat list" where
  "asked (START st) = [st_errCode st]"
| "asked (WITH_OPTIONS_START so) = [so_errCode so]"
| "asked _ = []"

definition harmless :: "CooperateEvent \<Rightarrow> bool" where
  "harmless e \<longleftrightarrow> e \<noteq> QUIT \<and> asked e = []"

text \<open>
  An orderly operation answers nobody, and all it may do to the channel is to send harmless
  events.
\<close>

definition orderly :: "('s world_scheme, 'a) state \<Rightarrow> bool" where
  "orderly m \<longleftrightarrow> (\<forall>s. answers_of (exec m s) = answers_of s
     \<and> isActive (chan (exec m s)) = isActive (chan s)
     \<and> (\<exists>es. queue (chan (exec m s)) = queue (chan s) @ es \<and> list_all harmless es))"

named_theorems tidy \<open>rules that show an operation orderly\<close>

lemma orderly_quiet: "unchanged dealings m \<Longrightarrow> orderly m"
  by (simp add: unchanged_def dealings_def orderly_def)

lemma orderly_return [tidy]: "orderly (State_Monad.return a)"
  by (simp add: orderly_def)

lemma orderly_skip [tidy]: "orderly skip"
  by (simp add: orderly_def)

lemma orderly_gets [tidy]: "orderly (gets g)"
  by (simp add: orderly_def)

lemma orderly_ask [tidy]: "orderly (ask q)"
  by (simp add: orderly_def answers_of_def)

lemma orderly_emit [tidy]: "\<not> answers c \<Longrightarrow> orderly (emit c)"
  by (simp add: orderly_def answers_of_def)

lemma orderly_Send [tidy]: "harmless e \<Longrightarrow> orderly (Send e)"
  by (simp add: orderly_def answers_of_def chan_Send_def)

lemma harmless_simps [simp]:
  "harmless (SESSION_CLOSED_EVENT bo)" "harmless (UPDATE_VIRTUAL_DEV_ID_MAP m)"
  "harmless (REMOTE_START sc)" "harmless (REMOTE_WITH_OPTIONS co)" "harmless (REMOTE_STOP bo)"
  by (simp_all add: harmless_def)

lemma orderly_modify [tidy]: "(\<And>s. dealings (g s) = dealings s) \<Longrightarrow> orderly (modify g)"
  by (simp add: orderly_def dealings_def)

lemma orderly_bind [tidy]:
  assumes "orderly m" "\<And>a. orderly (k a)"
  shows "orderly (State_Monad.bind m k)"
  unfolding orderly_def
proof (intro allI conjI)
  fix s :: "'a world_scheme"
  let ?t = "exec m s" and ?u = "exec (State_Monad.bind m k) s"
  have m: "answers_of ?t = answers_of s" "isActive (chan ?t) = isActive (chan s)"
    "\<exists>es. queue (chan ?t) = queue (chan s) @ es \<and> list_all harmless es"
    using assms(1) by (auto simp: orderly_def)
  have k: "answers_of ?u = answers_of ?t" "isActive (chan ?u) = isActive (chan ?t)"
    "\<exists>es. queue (chan ?u) = queue (chan ?t) @ es \<and> list_all harmless es"
    using assms(2) [of "result_of m s"] by (auto simp: orderly_def)
  show "answers_of ?u = answers_of s" "isActive (chan ?u) = isActive (chan s)"
    using m k by simp_all
  show "\<exists>es. queue (chan ?u) = queue (chan s) @ es \<and> list_all harmless es"
    using m(3) k(3) by fastforce
qed

lemma orderly_if [tidy]: "orderly m \<Longrightarrow> orderly n \<Longrightarrow> orderly (if b then m else n)"
  by simp

lemma orderly_only_if [tidy]: "orderly m \<Longrightarrow> orderly (only_if b m)"
  by (simp add: only_if_def orderly_skip)

lemma orderly_Let [tidy]: "(\<And>x. orderly (k x)) \<Longrightarrow> orderly (Let v k)"
  by simp

lemma orderly_case_option [tidy]:
  "orderly m \<Longrightarrow> (\<And>x. orderly (k x)) \<Longrightarrow> orderly (case v of None \<Rightarrow> m | Some x \<Rightarrow> k x)"
  by (cases v) simp_all

lemma orderly_case_prod [tidy]: "(\<And>x y. orderly (k x y)) \<Longrightarrow> orderly (case v of (x, y) \<Rightarrow> k x y)"
  by (cases v) simp

lemma orderly_for_each [tidy]: "(\<And>x. orderly (k x)) \<Longrightarrow> orderly (for_each xs k)"
  by (induction xs) (auto intro: tidy)

section \<open>The operations of the components\<close>

lemma dealings_blind:
  "quiet dealings" "em_blind dealings" "ha_blind dealings" "ml_blind dealings"
  "idm_blind dealings" "ctx_blind dealings" "tr_blind dealings"
  unfolding tr_blind_def ctx_blind_def idm_blind_def ml_blind_def ha_blind_def em_blind_def quiet_def
  by (simp_all add: dealings_def answers_of_def)

lemmas component_tidy =
  report_frame [OF dealings_blind(1), THEN orderly_quiet] em_frame [OF dealings_blind(2), THEN orderly_quiet]
  em_call_frame [OF dealings_blind(2), THEN orderly_quiet]
  ha_frame [OF dealings_blind(3), THEN orderly_quiet] ml_post_frame [OF dealings_blind(1), THEN orderly_quiet]
  ml_quiet_frame [OF dealings_blind(1), THEN orderly_quiet] ml_frame [OF dealings_blind(4), THEN orderly_quiet]
  idm_post_frame [OF dealings_blind(1), THEN orderly_quiet] idm_frame [OF dealings_blind(5), THEN orderly_quiet]
  ds_session_frame [OF dealings_blind(1), THEN orderly_quiet]
  ctx_quiet_frame [OF dealings_blind(1), THEN orderly_quiet] observer_frame [OF dealings_blind(1), THEN orderly_quiet]
  ctx_frame [OF dealings_blind(6), THEN orderly_quiet] tr_frame [OF dealings_blind(7), THEN orderly_quiet]
  tr_event_frame [OF dealings_blind(7), THEN orderly_quiet]

lemma switch_tidy:
  "orderly (ib_Enable E)" "orderly (ib_Disable E)" "orderly (ii_Enable E)" "orderly (ii_Disable E)"
  by (intro orderly_quiet frame dealings_blind; simp add: dealings_def answers_of_def)+

lemma sending_tidy:
  "orderly (ds_StartCooperate E nid sc)" "orderly (ds_StartCooperateWithOptions E nid co)"
  "orderly (ds_StopCooperate E nid)" "orderly (ds_ComeBack E nid sc)"
  "orderly (ds_ComeBackWithOptions E nid co)" "orderly (ds_RelayCooperate E nid rc)"
  "orderly (ds_RelayCooperateFinish E nid rc)" "orderly (ds_RelayCooperateWithOptionsFinish E nid rc)"
  unfolding ds_StartCooperate_def ds_StartCooperateWithOptions_def ds_StopCooperate_def ds_ComeBack_def
    ds_ComeBackWithOptions_def ds_RelayCooperate_def ds_RelayCooperateFinish_def
    ds_RelayCooperateWithOptionsFinish_def ds_post_def ds_send_def
    OnCommunicationFailure_def SendEvent_def SoftbusSendPacket_def
  by (intro tidy silent; simp)+

lemma map_tidy:
  "orderly UpdateVirtualDeviceIdMap" "orderly (AddVirtualInputDeviceId E nid rid)"
  "orderly (RemoveVirtualInputDeviceId E nid rid)"
proof -
  show u: "orderly UpdateVirtualDeviceIdMap"
    unfolding UpdateVirtualDeviceIdMap_def by (intro tidy) simp
  show "orderly (AddVirtualInputDeviceId E nid rid)" "orderly (RemoveVirtualInputDeviceId E nid rid)"
    unfolding AddVirtualInputDeviceId_def RemoveVirtualInputDeviceId_def
    by (intro tidy silent u; simp add: dealings_def answers_of_def)+
qed

lemma virtual_tidy:
  "orderly (AddVirtualInputDevice E nid)" "orderly (RemoveVirtualInputDevice E nid)"
  "orderly (RemoveAllVirtualInputDevice E)" "orderly (HandleRemoteHotPlug E dh)"
  "orderly (idm_OnSoftbusSessionClosed E bo)"
proof -
  show r: "orderly (RemoveVirtualInputDevice E nid)" for nid
    unfolding RemoveVirtualInputDevice_def by (intro tidy component_tidy map_tidy)
  show "orderly (AddVirtualInputDevice E nid)" "orderly (RemoveAllVirtualInputDevice E)"
    "orderly (HandleRemoteHotPlug E dh)" "orderly (idm_OnSoftbusSessionClosed E bo)"
    unfolding AddVirtualInputDevice_def RemoveAllVirtualInputDevice_def HandleRemoteHotPlug_def
      idm_OnSoftbusSessionClosed_def RemoveAllRemoteInputDevice_def
    by (intro tidy r component_tidy map_tidy; simp add: dealings_def answers_of_def)+
qed

lemmas pointer_tidy = machine_quiet_frame [OF dealings_blind(1), THEN orderly_quiet]

lemma transition_tidy:
  "orderly (Switch st)" "orderly (TransiteTo E c)"
  "orderly (process_StartCooperate sc)" "orderly (process_StartCooperateWithOptions so)"
proof -
  show s: "orderly (Switch st)" "orderly (process_StartCooperate sc)"
    "orderly (process_StartCooperateWithOptions so)"
    unfolding Switch_def process_StartCooperate_def process_StartCooperateWithOptions_def
    by (intro tidy; simp add: dealings_def answers_of_def)+
  have sides: "orderly (OnLeaveState E c)" "orderly (OnEnterState c)" for c
    by (cases c; simp only: OnLeaveState.simps OnEnterState.simps free_OnLeaveState_def out_OnLeaveState_def
        in_OnLeaveState_def free_OnEnterState_def out_OnEnterState_def in_OnEnterState_def;
        intro tidy silent component_tidy pointer_tidy; simp add: dealings_def answers_of_def)+
  show "orderly (TransiteTo E c)"
    unfolding TransiteTo_def
    by (intro tidy sides component_tidy; simp add: dealings_def answers_of_def)
qed

lemmas step_tidy = tidy silent component_tidy switch_tidy sending_tidy virtual_tidy pointer_tidy transition_tidy

lemma shared_tidy:
  "orderly (start_notice E u n)" "orderly (options_notice E so n)"
  "orderly (refuse_dragging E pid ud nid)" "orderly (finish_stop E sp :: ('s machine_scheme, unit) state)"
  unfolding start_notice_def options_notice_def refuse_dragging_def finish_stop_def
  by (intro step_tidy)+

lemmas handler_tidy = step_tidy shared_tidy

section \<open>The states\<close>

lemma free_tidy: "orderly (free_OnEvent E e)"
  by (cases e; simp only: free_OnEvent.simps free_OnStart_def free_OnStartWithOptions_def
      free_OnRemoteStart_def free_OnRemoteStartWithOptions_def free_OnStop_def free_OnDisable_def
      free_OnAppClosed_def free_OnPointerEvent_def
      InitiatorPointerVisible_def CooperateFail_def start_establish_def;
      intro handler_tidy; simp add: dealings_def answers_of_def)

lemma out_tidy: "orderly (out_OnEvent E e)"
  by (cases e; simp only: out_OnEvent.simps out_StopCooperate_def out_OnPointerEvent_def out_OnStart_def
      out_OnStartWithOptions_def out_OnStop_def out_OnComeBack_def out_OnComeBackWithOptions_def
      out_OnRemoteStart_def out_OnRemoteStartWithOptions_def out_OnRemoteStop_def out_OnRelay_def
      out_OnRelayWithOptions_def out_OnHotplug_def out_OnAppClosed_def out_OnBoardOffline_def
      out_OnSwitchChanged_def out_OnSoftbusSessionClosed_def out_OnStopAboutVirtualTrackpad_def;
      intro handler_tidy; simp add: dealings_def answers_of_def)

lemma relay_tidy: "orderly (relay_OnEvent E e)"
  by (cases e; simp only: relay_OnEvent.simps
      relay_OnReset_def relay_OnResetWithNotifyMessage_def
      relay_OnResetWithOptionsNotifyMessage_def relay_Proceed_def relay_OnProgress_def
      relay_OnProgressWithOptions_def relay_OnNormal_def relay_OnNormalWithOptions_def
      relay_OnResponse_def relay_OnResponseWithOptions_def relay_OnDisable_def relay_OnStop_def
      relay_OnRemoteStart_def relay_OnRemoteStartWithOptions_def relay_OnRemoteStop_def
      relay_OnAppClosed_def relay_OnPointerEvent_def relay_lost_def relay_OnBoardOffline_def
      relay_OnSwitchChanged_def relay_OnSoftbusSessionClosed_def in_StopCooperate_def
      AddTimer_def Resend_def;
      intro handler_tidy; simp add: dealings_def answers_of_def)

lemma initial_tidy: "orderly (initial_OnEvent E e)"
  by (cases e; simp only: initial_OnEvent.simps
      in_OnComeBack_def in_OnRelay_def in_OnStart_def in_OnComeBackWithOptions_def
      in_OnRelayWithOptions_def in_OnStartWithOptions_def in_OnStop_def in_OnRemoteStart_def
      in_OnRemoteStartWithOptions_def in_OnRemoteStop_def in_OnAppClosed_def
      in_OnPointerEvent_def in_OnBoardOffline_def in_OnSwitchChanged_def
      in_OnSoftbusSessionClosed_def in_OnRemoteInputDevice_def in_OnUpdateCooperateFlag_def
      in_StopCooperate_def relay_OnProgress_def relay_OnProgressWithOptions_def
      relay_OnResetWithNotifyMessage_def relay_OnResetWithOptionsNotifyMessage_def AddTimer_def
      Resend_def;
      intro handler_tidy; simp add: dealings_def answers_of_def)

section \<open>The events of the whole plugin\<close>

lemma in_tidy: "orderly (in_OnEvent E e)"
  unfolding in_OnEvent_def
  by (rule orderly_bind, intro handler_tidy) (simp split: InStep.split add: relay_tidy initial_tidy)

lemma Transfer_tidy: "orderly (Transfer E e)"
  unfolding Transfer_def
  by (rule orderly_bind, intro handler_tidy)
    (simp split: CooperateState.split add: free_tidy out_tidy in_tidy)

lemma package_tidy: "orderly (GetPackageName E tok)"
  unfolding GetPackageName_def
  by (rule orderly_bind, intro handler_tidy) (simp split: token_type.split, intro conjI impI step_tidy)

lemma watch_tidy:
  "orderly (UpdateApplicationStateObserver pid)"
  "orderly (RegisterApplicationStateObserver E en)"
  "orderly (UnregisterApplicationStateObserver E)" "orderly (AddMonitor E)"
  "orderly (AddPreMonitor E)" "orderly RemoveMonitor"
  "orderly RemovePreMonitor" "orderly (CheckSameAccount E nid uid acc)"
  unfolding UpdateApplicationStateObserver_def RegisterApplicationStateObserver_def
    UnregisterApplicationStateObserver_def AddMonitor_def AddPreMonitor_def RemoveMonitor_def
    RemovePreMonitor_def CheckSameAccount_def
  by (intro handler_tidy package_tidy; simp add: dealings_def answers_of_def)+

lemma other_tidy:
  assumes "\<not> is_start e"
  shows "orderly (OnEvent E e)"
  using assms
  by (cases e; simp only: OnEvent.simps is_start.simps not_True_eq_False
      sm_EnableCooperate_def sm_DisableCooperate_def sm_StopCooperate_def sm_GetCooperateState_def
      OnProcessClientDied_def sm_OnBoardOnline_def sm_OnBoardOffline_def sm_OnProfileChanged_def
      sm_OnPointerEvent_def sm_OnSoftbusSessionClosed_def sm_OnSoftbusSessionOpened_def OnHotPlugEvent_def
      sm_OnRemoteInputDevice_def sm_OnRemoteHotPlug_def sm_OnRemoteStart_def sm_OnRemoteStartWithOptions_def;
      (intro handler_tidy Transfer_tidy watch_tidy; simp add: dealings_def answers_of_def)?)

lemma orderlyD:
  assumes "orderly m"
  shows "answers_of (exec m s) = answers_of s" "isActive (chan (exec m s)) = isActive (chan s)"
    "\<exists>es. queue (chan (exec m s)) = queue (chan s) @ es \<and> list_all harmless es"
  using assms by (auto simp: orderly_def)

text \<open>
  The first check of \<open>admit\<close> is the account, the second one the observers. In every case the
  promise is set once, and only an agreement lets the event through.
\<close>

lemma admit_answer:
  fixes s :: "'s machine_scheme"
  assumes "s' = exec (admit E nid pid pr e) s"
  shows "\<exists>r. answers_of s' = answers_of s @ [SetPromise pr r]
      \<and> r \<in> {RET_OK, COMMON_PERMISSION_CHECK_ERROR, COMMON_NOT_ALLOWED_DISTRIBUTED}
      \<and> (r = COMMON_PERMISSION_CHECK_ERROR \<longleftrightarrow> \<not> SrcIsSameAccount E (tick s) nid)
      \<and> (r \<noteq> RET_OK \<longrightarrow> core s' = core s)" (is ?answer)
    and "isActive (chan s') = isActive (chan s)" (is ?active)
    and "\<exists>es. queue (chan s') = queue (chan s) @ es \<and> list_all harmless es" (is ?queue)
proof -
  let ?s1 = "exec (UpdateApplicationStateObserver pid) (s\<lparr>tick := Suc (tick s)\<rparr>)"
  let ?s2 = "exec (IsAllowCooperate E) ?s1"
  let ?m = "do { UpdateApplicationStateObserver pid; IsAllowCooperate E }"
  have "orderly ?m"
    by (intro step_tidy watch_tidy)
  from orderlyD [OF this, of "s\<lparr>tick := Suc (tick s)\<rparr>"]
  have a: "answers_of ?s2 = answers_of s" "isActive (chan ?s2) = isActive (chan s)"
    "\<exists>es. queue (chan ?s2) = queue (chan s) @ es \<and> list_all harmless es"
    by (simp_all add: answers_of_def)
  have c: "core ?s2 = core s"
    by (simp only: observer_frame(3) [OF core_quiet, THEN unchangedD] update_observer_core [THEN unchangedD])
      (simp add: core_def)
  note t = orderlyD [OF Transfer_tidy]
  have e: "answers_of (u\<lparr>trace := trace u @ [SetPromise pr r]\<rparr>) = answers_of u @ [SetPromise pr r]"
    "core (u\<lparr>trace := trace u @ [SetPromise pr r]\<rparr>) = core u" for u :: "'s machine_scheme" and r
    by (simp_all add: answers_of_def core_def)
  show ?answer
    using assms
    by (cases "SrcIsSameAccount E (tick s) nid"; cases "result_of (IsAllowCooperate E) ?s1")
      (simp_all add: admit_def t(1) e a(1) c, simp_all add: answers_of_def core_def)
  show ?active
    using assms
    by (cases "SrcIsSameAccount E (tick s) nid"; cases "result_of (IsAllowCooperate E) ?s1")
      (simp_all add: admit_def t(2) a(2))
  obtain es where es: "queue (chan ?s2) = queue (chan s) @ es" "list_all harmless es"
    using a(3) by blast
  obtain fs where fs: "queue (chan (exec (Transfer E e) (?s2\<lparr>trace := trace ?s2 @ [SetPromise pr RET_OK]\<rparr>)))
      = queue (chan ?s2) @ fs" "list_all harmless fs"
    using t(3) [of E e "?s2\<lparr>trace := trace ?s2 @ [SetPromise pr RET_OK]\<rparr>"] by auto
  show ?queue
    using assms es fs
    by (cases "SrcIsSameAccount E (tick s) nid"; cases "result_of (IsAllowCooperate E) ?s1")
      (simp_all add: admit_def)
qed

end
