(* ===== verification/Cooperate.thy ===== *)
theory Cooperate
  imports Handler_Effects
begin

text \<open>
  src/intention/cooperate/plugin/src/cooperate.cpp: the interface of the plugin, whose calls
  send an event and return, and the worker thread that handles the events one by one. Calls,
  callbacks and the worker interleave at the channel; a run of the plugin is a list of such
  steps.
\<close>

section \<open>State\<close>

record plugin = machine +
  workerStarted :: bool

section \<open>The calls\<close>

text \<open>Most calls send one event and report success whatever became of it.\<close>

definition post :: "CooperateEvent \<Rightarrow> ('s world_scheme, i32) state" where
  "post e = do { Send e; pure RET_OK }"

definition coop_AddObserver :: "nat \<Rightarrow> ('s world_scheme, unit) state" where
  "coop_AddObserver obs = do { Send (ADD_OBSERVER obs); skip }"

definition coop_RemoveObserver :: "nat \<Rightarrow> ('s world_scheme, unit) state" where
  "coop_RemoveObserver obs = do { Send (REMOVE_OBSERVER obs); skip }"

definition coop_RegisterListener :: "i32 \<Rightarrow> ('s world_scheme, i32) state" where
  "coop_RegisterListener pid = post (REGISTER_LISTENER \<lparr>rl_pid = pid, rl_userData = 0\<rparr>)"

definition coop_UnregisterListener :: "i32 \<Rightarrow> ('s world_scheme, i32) state" where
  "coop_UnregisterListener pid = post (UNREGISTER_LISTENER \<lparr>rl_pid = pid, rl_userData = 0\<rparr>)"

definition coop_RegisterHotAreaListener :: "i32 \<Rightarrow> ('s world_scheme, i32) state" where
  "coop_RegisterHotAreaListener pid = post (REGISTER_HOTAREA_LISTENER \<lparr>rl_pid = pid, rl_userData = 0\<rparr>)"

definition coop_UnregisterHotAreaListener :: "i32 \<Rightarrow> ('s world_scheme, i32) state" where
  "coop_UnregisterHotAreaListener pid = post (UNREGISTER_HOTAREA_LISTENER \<lparr>rl_pid = pid, rl_userData = 0\<rparr>)"

definition coop_Enable :: "i32 \<Rightarrow> i32 \<Rightarrow> i32 \<Rightarrow> ('s world_scheme, i32) state" where
  "coop_Enable tok pid ud = post (ENABLE \<lparr>en_tokenId = tok, en_pid = pid, en_userData = ud\<rparr>)"

definition coop_Disable :: "i32 \<Rightarrow> i32 \<Rightarrow> ('s world_scheme, i32) state" where
  "coop_Disable pid ud = post (DISABLE \<lparr>rl_pid = pid, rl_userData = ud\<rparr>)"

definition coop_Stop :: "i32 \<Rightarrow> i32 \<Rightarrow> bool \<Rightarrow> ('s world_scheme, i32) state" where
  "coop_Stop pid ud unchained = post (STOP
     \<lparr>sp_pid = pid, sp_userData = ud, isUnchained = unchained, sp_networkId = []\<rparr>)"

definition coop_GetCooperateState :: "i32 \<Rightarrow> i32 \<Rightarrow> net_id \<Rightarrow> ('s world_scheme, i32) state" where
  "coop_GetCooperateState pid ud nid =
     post (GET_COOPERATE_STATE \<lparr>gs_pid = pid, gs_userData = ud, gs_networkId = nid\<rparr>)"

definition coop_RegisterEventListener :: "i32 \<Rightarrow> net_id \<Rightarrow> ('s world_scheme, i32) state" where
  "coop_RegisterEventListener pid nid = post (REGISTER_EVENT_LISTENER \<lparr>el_pid = pid, el_networkId = nid\<rparr>)"

definition coop_UnregisterEventListener :: "i32 \<Rightarrow> net_id \<Rightarrow> ('s world_scheme, i32) state" where
  "coop_UnregisterEventListener pid nid = post (UNREGISTER_EVENT_LISTENER \<lparr>el_pid = pid, el_networkId = nid\<rparr>)"

text \<open>The query by device id reads the switch at once, without the worker.\<close>

definition coop_IsCooperateEnable :: "('s machine_scheme, i32 \<times> bool) state" where
  "coop_IsCooperateEnable = do { on \<leftarrow> gets isCooperateEnable; pure (RET_OK, on) }"

definition coop_Update :: "u32 \<Rightarrow> u32 \<Rightarrow> ('s world_scheme, i32) state" where
  "coop_Update msk flg = post (UPDATE_COOPERATE_FLAG \<lparr>uf_mask = msk, uf_flag = flg\<rparr>)"

definition coop_SetDamplingCoefficient :: "u32 \<Rightarrow> rat \<Rightarrow> ('s world_scheme, i32) state" where
  "coop_SetDamplingCoefficient dir c = post (SET_DAMPLING_COEFFICIENT dir c)"

definition coop_Dump :: "i32 \<Rightarrow> ('s world_scheme, unit) state" where
  "coop_Dump fd = do { Send (DUMP fd); skip }"

text \<open>
  The two starts send the event together with a fresh promise \<open>pr\<close> and wait for its value. The
  call ends when \<open>awaited pr\<close> of the commands issued so far is a value, whatever \<open>Send\<close> returned.
\<close>

definition coop_Start :: "i32 \<Rightarrow> i32 \<Rightarrow> net_id \<Rightarrow> i32 \<Rightarrow> i32 \<Rightarrow> nat \<Rightarrow> ('s world_scheme, i32) state" where
  "coop_Start pid ud nid dev uid pr = Send (START
     \<lparr>st_pid = pid, st_userData = ud, st_remoteNetworkId = nid, st_startDeviceId = dev,
      st_errCode = pr, st_uid = uid, st_userId = - 1, st_accountId = [], st_needCheckSameAccount = True\<rparr>)"

definition coop_StartWithOptions ::
    "i32 \<Rightarrow> i32 \<Rightarrow> net_id \<Rightarrow> i32 \<Rightarrow> CooperateOptions \<Rightarrow> nat \<Rightarrow> ('s world_scheme, i32) state" where
  "coop_StartWithOptions pid ud nid dev opts pr = Send (WITH_OPTIONS_START
     (default_with_options\<lparr>so_pid := pid, so_userData := ud, so_remoteNetworkId := nid, so_startDeviceId := dev,
      so_displayX := displayX opts, so_displayY := displayY opts, so_displayId := displayId opts,
      so_errCode := pr\<rparr>))"

fun awaited :: "nat \<Rightarrow> cmd list \<Rightarrow> i32 option" where
  "awaited pr [] = None"
| "awaited pr (SetPromise q r # cs) = (if q = pr then Some r else awaited pr cs)"
| "awaited pr (_ # cs) = awaited pr cs"

section \<open>The worker\<close>

text \<open>Handling one event; the result is the local variable \<open>running\<close> of the loop.\<close>

fun Handle :: "env \<Rightarrow> CooperateEvent \<Rightarrow> ('s machine_scheme, bool) state" where
  "Handle E NOOP = pure True"
| "Handle E QUIT = pure False"
| "Handle E (SET_DAMPLING_COEFFICIENT dir c) = do { SetDamplingCoefficient dir c; pure True }"
| "Handle E e = do { OnEvent E e; pure True }"

text \<open>One turn of the loop; on an empty channel the worker waits.\<close>

definition work :: "env \<Rightarrow> ('s machine_scheme, bool) state" where
  "work E = do {
     q \<leftarrow> gets chan;
     case chan_Receive q of
       None \<Rightarrow> pure True
     | Some (e, q') \<Rightarrow> do { modify (\<lambda>s. s\<lparr>chan := q'\<rparr>); Handle E e } }"

text \<open>The loop, for at most \<open>n\<close> turns; the result tells whether it is still running.\<close>

primrec Loop :: "env \<Rightarrow> nat \<Rightarrow> ('s machine_scheme, bool) state" where
  "Loop E 0 = pure True"
| "Loop E (Suc n) = do { running \<leftarrow> work E; if running then Loop E n else pure False }"

definition LoadMotionDrag :: "env \<Rightarrow> ('s world_scheme, unit) state" where
  "LoadMotionDrag E = do {
     loaded \<leftarrow> ask (MotionDragLoaded E);
     only_if loaded (emit MotionDragEnable) }"

definition StartWorker :: "env \<Rightarrow> ('s plugin_scheme, unit) state" where
  "StartWorker E = do {
     started \<leftarrow> gets workerStarted;
     only_if (\<not> started) (do {
       modify (\<lambda>s. s\<lparr>workerStarted := True\<rparr>);
       LoadMotionDrag E }) }"

text \<open>
  \<open>join\<close> waits until the worker has left its loop; the result tells whether it did so within
  \<open>n\<close> turns.
\<close>

definition StopWorker :: "env \<Rightarrow> nat \<Rightarrow> ('s plugin_scheme, bool) state" where
  "StopWorker E n = do {
     started \<leftarrow> gets workerStarted;
     if \<not> started then pure True
     else do {
       Send QUIT;
       running \<leftarrow> Loop E n;
       if running then pure False
       else do { modify (\<lambda>s. s\<lparr>workerStarted := False\<rparr>); pure True } } }"

definition coop_create :: "env \<Rightarrow> ('s plugin_scheme, unit) state" where
  "coop_create E = do {
     modify (\<lambda>s. s\<lparr>chan := chan_Enable OpenChannel\<rparr>);
     ctx_Enable E;
     StartWorker E }"

text \<open>
  A plugin before its constructor has run: the initial values of all members, with the pointer
  and key events that \<open>PointerEvent::Create\<close> and \<open>KeyEvent::Create\<close> return.
\<close>

definition new_plugin :: "pointer_event \<Rightarrow> key_event \<Rightarrow> plugin" where
  "new_plugin p k =
     \<lparr>tick = 0, trace = [], chan = OpenChannel, em_listeners = [], em_calls = (\<lambda>_. None),
      ha_width = 720, ha_height = 1280, ha_displayX = 0, ha_displayY = 0, ha_deltaX = 0, ha_deltaY = 0,
      ha_isEdge = False, ha_type = AREA_NONE, ha_callbacks = [], ml_localNetworkId = [],
      ml_localListeners = [], ml_remoteSubscribers = [], ml_listeners = [], idm_enable = False,
      remoteDevices = [], virtualInputDevicesAdded = [], remote2VirtualIds = [],
      ctx_remoteNetworkId = [], ctx_startDeviceId = - 1, ctx_flag = 0, ctx_priv = 0,
      ctx_cursorPos = origin, ctx_options = no_options, ctx_currentDisplayId = 0,
      ctx_peerPointerSpeed = - 1, ctx_originPointerSpeed = - 1, ctx_peerTouchPadSpeed = - 1,
      ctx_originTouchPadSpeed = - 1, ctx_VirtualTrackpadDeviceId = - 1, ctx_eventHandler = False,
      ctx_observers = [], ib_enable = False, ib_freezing = False, ib_xDir = 0, ib_movement = 0,
      ib_nDropped = 0, ib_scanState = True, ib_pointerEventTimer = - 1, ib_rawDxRightRemainder = 0,
      ib_rawDxLeftRemainder = 0, ib_preDriveEventTime = - 1, ib_preInterceptorTime = - 1,
      ib_preCrossPlatformTime = - 1, ib_pointerSpeed = - 1, ib_touchPadSpeed = - 1,
      ib_remoteNetworkId = [], ib_localNetworkId = [], ib_isStopByScreenOffOrLock = False,
      ib_damplingCoefficients = replicate 4 DEFAULT_DAMPLING_COEFFICIENT, ib_pointerEvent = p,
      ib_keyEvent = k, ib_remote2VirtualIds = [], ii_interceptorId = - 1, ii_scanState = True,
      ii_pointerEventTimer = - 1, ii_remoteNetworkId = [], sm_current = COOPERATE_STATE_FREE,
      in_step = InInitial, in_processPeer = [], in_processDevice = - 1, relay_timerId = - 1,
      relay_options = default_with_options, out_pressedButtons = [], onlineBoards = [],
      monitorId = - 1, preMonitorId = - 1, screenEventTimer = - 1, clientBundleNames = [],
      appStateObserver = None, isCooperateEnable = False, workerStarted = False\<rparr>"

definition coop_destroy :: "env \<Rightarrow> nat \<Rightarrow> ('s plugin_scheme, bool) state" where
  "coop_destroy E n = do {
     joined \<leftarrow> StopWorker E n;
     if joined then do { ctx_Disable; pure True } else pure False }"

section \<open>What the worker does for the callers\<close>

text \<open>Answers as \<open>admit\<close> gives them, and the promise each of them sets.\<close>

fun promise_of :: "cmd \<Rightarrow> nat" where
  "promise_of (SetPromise p _) = p"
| "promise_of _ = 0"

fun verdict :: "cmd \<Rightarrow> bool" where
  "verdict (SetPromise _ r) = (r \<in> {RET_OK, COMMON_PERMISSION_CHECK_ERROR, COMMON_NOT_ALLOWED_DISTRIBUTED})"
| "verdict _ = False"

text \<open>
  From \<open>s\<close> to \<open>s'\<close> the callers of \<open>ps\<close> were answered, in this order and each once, and the
  channel went from \<open>q\<close> to \<open>q\<close> with some harmless events behind.
\<close>

definition deals :: "nat list \<Rightarrow> CooperateEvent list \<Rightarrow> 's machine_scheme \<Rightarrow> 's machine_scheme \<Rightarrow> bool" where
  "deals ps q s s' \<longleftrightarrow> (\<exists>rs. answers_of s' = answers_of s @ rs \<and> map promise_of rs = ps \<and> list_all verdict rs)
     \<and> isActive (chan s') = isActive (chan s)
     \<and> (\<exists>es. queue (chan s') = q @ es \<and> list_all harmless es)"

lemma deals_orderly: "orderly m \<Longrightarrow> deals [] (queue (chan s)) s (exec m s)"
  using orderlyD [of m s] by (simp add: deals_def)

lemma deals_admit: "deals [pr] (queue (chan s)) s (exec (admit E nid pid pr e) s)"
proof -
  obtain r where r: "answers_of (exec (admit E nid pid pr e) s) = answers_of s @ [SetPromise pr r]"
    "r \<in> {RET_OK, COMMON_PERMISSION_CHECK_ERROR, COMMON_NOT_ALLOWED_DISTRIBUTED}"
    using admit_answer(1) [OF refl, of E nid pid pr e s] by blast
  have "\<exists>rs. answers_of (exec (admit E nid pid pr e) s) = answers_of s @ rs \<and> map promise_of rs = [pr]
      \<and> list_all verdict rs"
    using r by (intro exI [of _ "[SetPromise pr r]"]) simp
  then show ?thesis
    using admit_answer(2,3) [OF refl, of E nid pid pr e s] by (simp add: deals_def)
qed

lemma OnEvent_deals: "deals (asked e) (queue (chan s)) s (exec (OnEvent E e) s)"
proof (cases "is_start e")
  case True
  then show ?thesis
    by (cases e) (simp_all add: sm_StartCooperate_def sm_StartCooperateWithOptions_def deals_admit)
next
  case False
  then have "asked e = []"
    by (cases e) simp_all
  then show ?thesis
    using deals_orderly [OF other_tidy [OF False]] by simp
qed

lemma damping_tidy: "orderly (SetDamplingCoefficient dir c)"
  by (intro step_tidy)

lemma Handle_deals:
  "deals (asked e) (queue (chan s)) s (exec (Handle E e) s)" "result_of (Handle E e) s = (e \<noteq> QUIT)"
proof -
  have quiet: "deals [] (queue (chan s)) s s"
    by (simp add: deals_def)
  show "deals (asked e) (queue (chan s)) s (exec (Handle E e) s)"
    using OnEvent_deals [of e s E] deals_orderly [OF damping_tidy, of s] quiet
    by (cases e) (simp_all del: OnEvent.simps)
  show "result_of (Handle E e) s = (e \<noteq> QUIT)"
    by (cases e) simp_all
qed

lemma deals_trans:
  assumes "deals ps (q @ r) s t" "\<And>es. queue (chan t) = q @ r @ es \<Longrightarrow> list_all harmless es \<Longrightarrow> deals ps' (r @ es) t u"
  shows "deals (ps @ ps') r s u"
proof -
  obtain es where es: "queue (chan t) = q @ r @ es" "list_all harmless es"
    using assms(1) by (auto simp: deals_def)
  note d = assms(2) [OF this]
  obtain rs rs' where a: "answers_of t = answers_of s @ rs" "map promise_of rs = ps" "list_all verdict rs"
      "answers_of u = answers_of t @ rs'" "map promise_of rs' = ps'" "list_all verdict rs'"
    using assms(1) d by (auto simp: deals_def)
  have "answers_of u = answers_of s @ (rs @ rs')" "map promise_of (rs @ rs') = ps @ ps'"
    "list_all verdict (rs @ rs')"
    using a by simp_all
  moreover have "isActive (chan u) = isActive (chan s)"
    using assms(1) d by (simp add: deals_def)
  moreover have "\<exists>es. queue (chan u) = r @ es \<and> list_all harmless es"
    using d es(2) by (auto simp: deals_def)
  ultimately show ?thesis
    unfolding deals_def by blast
qed

lemma work_deals:
  assumes "queue (chan s) = e # q"
  shows "deals (asked e) q s (exec (work E) s)" "result_of (work E) s = (e \<noteq> QUIT)"
proof -
  let ?s = "s\<lparr>chan := (chan s)\<lparr>queue := q\<rparr>\<rparr>"
  have w: "exec (work E) s = exec (Handle E e) ?s" "result_of (work E) s = result_of (Handle E e) ?s"
    using assms by (simp_all add: work_def chan_Receive_def)
  show "deals (asked e) q s (exec (work E) s)"
    using Handle_deals(1) [of e ?s E] by (simp add: w deals_def answers_of_def)
  show "result_of (work E) s = (e \<noteq> QUIT)"
    by (simp add: w Handle_deals(2))
qed

text \<open>The first \<open>length es\<close> turns handle \<open>es\<close>, in order.\<close>

lemma Loop_deals:
  assumes "queue (chan s) = es @ q" "QUIT \<notin> set es"
  shows "deals (concat (map asked es)) q s (exec (Loop E (length es)) s) \<and> result_of (Loop E (length es)) s"
  using assms
proof (induction es arbitrary: s q)
  case Nil
  then show ?case by (simp add: deals_def)
next
  case (Cons e es)
  let ?t = "exec (work E) s"
  note w = work_deals [of s e "es @ q" E]
  have d: "deals (asked e) (es @ q) s ?t" and on: "result_of (work E) s"
    using w Cons.prems by auto
  have rest: "deals (concat (map asked es)) (q @ new) ?t (exec (Loop E (length es)) ?t)
      \<and> result_of (Loop E (length es)) ?t" if "queue (chan ?t) = es @ q @ new" for new
    using Cons.IH [OF that] Cons.prems(2) by simp
  obtain new where new: "queue (chan ?t) = es @ q @ new"
    using d by (auto simp: deals_def)
  have "deals (asked e @ concat (map asked es)) q s (exec (Loop E (length es)) ?t)"
    by (rule deals_trans [OF d]) (use rest in blast)
  then show ?case
    using on rest [OF new] by simp
qed

lemma Loop_add:
  "exec (Loop E (m + n)) s = (if result_of (Loop E m) s then exec (Loop E n) (exec (Loop E m) s)
     else exec (Loop E m) s)"
  "result_of (Loop E (m + n)) s = (result_of (Loop E m) s \<and> result_of (Loop E n) (exec (Loop E m) s))"
  by (induction m arbitrary: s) auto

text \<open>However long it runs, the worker answers only callers whose event is in the channel.\<close>

lemma Loop_any:
  assumes "QUIT \<notin> set (queue (chan s))"
  shows "result_of (Loop E n) s
    \<and> (\<exists>rs. answers_of (exec (Loop E n) s) = answers_of s @ rs
         \<and> promise_of ` set rs \<subseteq> set (concat (map asked (queue (chan s)))))"
  using assms
proof (induction n arbitrary: s)
  case 0
  then show ?case by simp
next
  case (Suc n)
  show ?case
  proof (cases "queue (chan s)")
    case Nil
    then have "exec (work E) s = s" "result_of (work E) s"
      by (simp_all add: work_def chan_Receive_def)
    then show ?thesis
      using Suc by simp
  next
    case (Cons e q)
    let ?t = "exec (work E) s"
    note w = work_deals [OF Cons, of E]
    obtain rs es where t: "answers_of ?t = answers_of s @ rs" "map promise_of rs = asked e"
        "queue (chan ?t) = q @ es" "list_all harmless es"
      using w(1) by (auto simp: deals_def)
    have quiet: "QUIT \<notin> set es" "concat (map asked es) = []"
      using t(4) by (auto simp: harmless_def list_all_iff)
    then have "QUIT \<notin> set (queue (chan ?t))"
      using Suc.prems Cons t(3) by auto
    from Suc.IH [OF this] obtain rs' where u: "result_of (Loop E n) ?t"
        "answers_of (exec (Loop E n) ?t) = answers_of ?t @ rs'"
        "promise_of ` set rs' \<subseteq> set (concat (map asked (queue (chan ?t))))"
      by blast
    have "promise_of ` set rs = set (asked e)"
      using t(2) by (metis list.set_map)
    then have "promise_of ` set (rs @ rs') \<subseteq> set (concat (map asked (queue (chan s))))"
      using u(3) t(3) quiet(2) Cons by auto
    then show ?thesis
      using w(2) u(1,2) t(1) Suc.prems Cons by (auto intro!: exI [of _ "rs @ rs'"])
  qed
qed

section \<open>Waiting for an answer\<close>

text \<open>A plugin that runs, with some events waiting.\<close>

definition open_plugin :: "CooperateEvent list \<Rightarrow> plugin" where
  "open_plugin es = (new_plugin (PointerCreate ideal_env) sample_key)
     \<lparr>chan := \<lparr>isActive = True, queue = es\<rparr>, workerStarted := True\<rparr>"

lemma awaited_answers: "awaited pr (trace s) = awaited pr (answers_of s)"
proof -
  have "awaited pr (filter answers cs) = awaited pr cs" for cs
    by (induction pr cs rule: awaited.induct) simp_all
  then show ?thesis
    by (simp add: answers_of_def)
qed

lemma awaited_append:
  "awaited pr (as @ bs) = (case awaited pr as of None \<Rightarrow> awaited pr bs | Some r \<Rightarrow> Some r)"
  by (induction pr as rule: awaited.induct) simp_all

lemma awaited_None: "pr \<notin> promise_of ` set rs \<Longrightarrow> awaited pr rs = None"
  by (induction pr rs rule: awaited.induct) auto

lemma coop_Start_deals:
  assumes "isActive (chan s)" "length (queue (chan s)) < QUEUE_CAPACITY"
  shows "\<exists>st. st_errCode st = pr \<and> queue (chan (exec (coop_Start pid ud nid dev uid pr) s)) = queue (chan s) @ [START st]
    \<and> answers_of (exec (coop_Start pid ud nid dev uid pr) s) = answers_of s"
  using assms by (auto simp: coop_Start_def chan_Send_def answers_of_def)

text \<open>
  C4. A call of \<open>Start\<close> whose event the channel accepts comes back: when the worker has handled
  the events before it and the event itself, and no request to quit was among them, the promise
  of the call has exactly one value, success or one of the two refusals.
\<close>

theorem start_call_returns:
  assumes "isActive (chan s)" "length (queue (chan s)) < 1024" "QUIT \<notin> set (queue (chan s))"
    and "pr \<notin> set (concat (map asked (queue (chan s))))" "awaited pr (trace s) = None"
    and "u = exec (do { coop_Start pid ud nid dev uid pr; Loop E (Suc (length (queue (chan s)))) }) s"
  shows "\<exists>rs r. awaited pr (trace u) = Some r
      \<and> r \<in> {RET_OK, COMMON_PERMISSION_CHECK_ERROR, COMMON_NOT_ALLOWED_DISTRIBUTED}
      \<and> answers_of u = answers_of s @ rs @ [SetPromise pr r] \<and> pr \<notin> promise_of ` set rs"
proof -
  let ?t = "exec (coop_Start pid ud nid dev uid pr) s" and ?q = "queue (chan s)"
  obtain st where st: "st_errCode st = pr" "queue (chan ?t) = ?q @ [START st]" "answers_of ?t = answers_of s"
    using coop_Start_deals [of s pr pid ud nid dev uid] assms(1,2) unfolding QUEUE_CAPACITY_def by blast
  have "deals (concat (map asked (?q @ [START st]))) [] ?t u"
    using Loop_deals [of ?t "?q @ [START st]" "[]" E] st(2) assms(3,6) by simp
  then obtain ws where ws: "answers_of u = answers_of s @ ws" "map promise_of ws = concat (map asked ?q) @ [pr]"
      "list_all verdict ws"
    using st(1,3) by (auto simp: deals_def)
  obtain rs c where c: "ws = rs @ [c]" "map promise_of rs = concat (map asked ?q)" "promise_of c = pr"
    using ws(2) by (auto simp: map_eq_append_conv)
  obtain r where r: "c = SetPromise pr r"
      "r \<in> {RET_OK, COMMON_PERMISSION_CHECK_ERROR, COMMON_NOT_ALLOWED_DISTRIBUTED}"
    using ws(3) c(1,3) by (cases c) auto
  have new: "pr \<notin> promise_of ` set rs"
    using assms(4) c(2) by (metis list.set_map)
  have "awaited pr (trace u) = Some r"
    using ws(1) c(1) r(1) new awaited_None [OF new] assms(5)
    by (simp add: awaited_answers awaited_append)
  then show ?thesis
    using ws(1) c(1) r new by auto
qed

theorem start_call_returns_witness:
  "\<exists>rs r. awaited 7 (trace (exec (do { coop_Start 1 2 ''peer'' 3 0 7; Loop ideal_env (Suc 0) })
       (open_plugin []))) = Some r
     \<and> r \<in> {RET_OK, COMMON_PERMISSION_CHECK_ERROR, COMMON_NOT_ALLOWED_DISTRIBUTED}
     \<and> answers_of (exec (do { coop_Start 1 2 ''peer'' 3 0 7; Loop ideal_env (Suc 0) }) (open_plugin []))
         = answers_of (open_plugin []) @ rs @ [SetPromise 7 r] \<and> 7 \<notin> promise_of ` set rs"
  by (rule start_call_returns [of "open_plugin []"]) (simp_all add: open_plugin_def new_plugin_def)

text \<open>
  C27. Destroying the plugin ends: while the channel has room for the request to quit, the
  worker leaves its loop after at most as many turns as events are waiting and one more, and
  unless another request to quit was waiting already, every caller whose event was waiting has
  got its answer before, in order.
\<close>

theorem stop_worker_joins:
  assumes "workerStarted s" "isActive (chan s)" "length (queue (chan s)) < 1024"
  shows "\<exists>n \<le> Suc (length (queue (chan s))). result_of (StopWorker E n) s
      \<and> \<not> workerStarted (exec (StopWorker E n) s)
      \<and> (QUIT \<notin> set (queue (chan s)) \<longrightarrow>
           (\<exists>rs. answers_of (exec (StopWorker E n) s) = answers_of s @ rs
              \<and> map promise_of rs = concat (map asked (queue (chan s)))))"
proof -
  let ?q = "queue (chan s)" and ?t = "exec (Send QUIT) s"
  have room: "queue (chan ?t) = ?q @ [QUIT]" "answers_of ?t = answers_of s"
    using assms(2,3) by (simp_all add: chan_Send_def QUEUE_CAPACITY_def answers_of_def)
  obtain es rest where es: "?q @ [QUIT] = es @ QUIT # rest" "QUIT \<notin> set es"
    using split_list_first [of QUIT "?q @ [QUIT]"] by auto
  let ?n = "length es" and ?u = "exec (Loop E (length es)) ?t"
  note d = Loop_deals [of ?t es "QUIT # rest" E]
  have before: "deals (concat (map asked es)) (QUIT # rest) ?t ?u" "result_of (Loop E ?n) ?t"
    using d es room(1) by simp_all
  obtain new where u: "queue (chan ?u) = QUIT # rest @ new"
    using before(1) by (auto simp: deals_def)
  have out: "\<not> result_of (Loop E (?n + 1)) ?t" "exec (Loop E (?n + 1)) ?t = exec (work E) ?u"
    using before(2) work_deals(2) [OF u, of E] by (simp_all only: Loop_add) simp_all
  have w: "deals [] (rest @ new) ?u (exec (work E) ?u)"
    using work_deals(1) [OF u, of E] by simp
  let ?v = "exec (StopWorker E (?n + 1)) s"
  have v: "result_of (StopWorker E (?n + 1)) s" "\<not> workerStarted ?v"
    "answers_of ?v = answers_of (exec (work E) ?u)"
    using assms(1) out by (simp_all add: StopWorker_def del: Loop.simps) (simp_all add: answers_of_def)
  have "es = ?q" if "QUIT \<notin> set ?q"
    using es that by (auto simp: append_eq_append_conv2 append_eq_Cons_conv Cons_eq_append_conv)
  then have "\<exists>rs. answers_of ?v = answers_of s @ rs \<and> map promise_of rs = concat (map asked ?q)" if "QUIT \<notin> set ?q"
    using that before(1) w v(3) room(2) by (auto simp: deals_def)
  moreover have "?n + 1 \<le> Suc (length ?q)"
    using arg_cong [OF es(1), of length] by simp
  ultimately show ?thesis
    using v(1,2) by blast
qed

theorem stop_worker_joins_witness:
  "\<exists>n \<le> Suc (Suc 0). result_of (StopWorker ideal_env n) (open_plugin [NOOP])
     \<and> \<not> workerStarted (exec (StopWorker ideal_env n) (open_plugin [NOOP]))
     \<and> answers_of (exec (StopWorker ideal_env n) (open_plugin [NOOP])) = answers_of (open_plugin [NOOP])"
  using stop_worker_joins [of "open_plugin [NOOP]" ideal_env]
  by (simp add: open_plugin_def new_plugin_def del: Loop.simps)

text \<open>The worker works through what waits, whatever comes in behind it.\<close>

lemma Loop_works_off:
  assumes "QUIT \<notin> set (queue (chan s))"
  shows "\<exists>rs new. queue (chan (exec (Loop E n) s)) = drop n (queue (chan s)) @ new
     \<and> answers_of (exec (Loop E n) s) = answers_of s @ rs
     \<and> map promise_of rs = concat (map asked (take n (queue (chan s))))"
proof -
  let ?q = "queue (chan s)"
  have first: "deals (concat (map asked (take n ?q))) (drop n ?q) s (exec (Loop E (length (take n ?q))) s)
      \<and> result_of (Loop E (length (take n ?q))) s"
    using assms by (intro Loop_deals) (auto dest: in_set_takeD)
  show ?thesis
  proof (cases "n \<le> length ?q")
    case True
    then have "length (take n ?q) = n"
      by simp
    then show ?thesis
      using first by (auto simp: deals_def simp del: Loop.simps length_take)
  next
    case False
    let ?u = "exec (Loop E (length ?q)) s"
    obtain rs es where u: "answers_of ?u = answers_of s @ rs" "map promise_of rs = concat (map asked ?q)"
      "queue (chan ?u) = es" "list_all harmless es"
      using first False by (auto simp: deals_def simp del: Loop.simps)
    have quiet: "QUIT \<notin> set (queue (chan ?u))" "concat (map asked (queue (chan ?u))) = []"
      using u(3,4) by (auto simp: harmless_def list_all_iff)
    obtain rs' where rest: "answers_of (exec (Loop E (n - length ?q)) ?u) = answers_of ?u @ rs'"
      "promise_of ` set rs' \<subseteq> set (concat (map asked (queue (chan ?u))))"
      using Loop_any [OF quiet(1), of E "n - length ?q"] by blast
    have "rs' = []"
      using rest(2) quiet(2) by simp
    moreover have "exec (Loop E n) s = exec (Loop E (n - length ?q)) ?u"
      using Loop_add [of E "length ?q" "n - length ?q" s] first False by (simp del: Loop.simps)
    ultimately show ?thesis
      using rest(1) u(1,2) False by (simp del: Loop.simps)
  qed
qed

text \<open>
  C40. A full channel, in which nobody has yet asked for the end, hangs its callers: \<open>Start\<close> then waits for an answer that nobody gives,
  and destroying the plugin waits for a worker that never leaves its loop, however many turns it
  takes. The worker is not dead: meanwhile each turn takes the next of the events that stood in the
  way, and their callers, if they wait, are answered in order.
\<close>

theorem full_channel_hangs:
  fixes E pid ud nid dev uid pr n s
  defines "u \<equiv> exec (do { coop_Start pid ud nid dev uid pr; Loop E n }) s"
  assumes "1024 \<le> length (queue (chan s))" "QUIT \<notin> set (queue (chan s))"
    and "pr \<notin> set (concat (map asked (queue (chan s))))" "awaited pr (trace s) = None"
  shows "awaited pr (trace u) = None
    \<and> (workerStarted s \<longrightarrow> \<not> result_of (StopWorker E n) s)
    \<and> (\<exists>rs new. queue (chan u) = drop n (queue (chan s)) @ new \<and> answers_of u = answers_of s @ rs
         \<and> map promise_of rs = concat (map asked (take n (queue (chan s)))))"
proof (intro conjI)
  have full: "exec (Send e) s = s" for e
    using assms(2) by (cases "chan s") (simp add: chan_Send_def QUEUE_CAPACITY_def)
  note a = Loop_any [OF assms(3), of E n]
  obtain rs where rs: "answers_of (exec (Loop E n) s) = answers_of s @ rs" "pr \<notin> promise_of ` set rs"
    using a assms(4) by blast
  have u: "u = exec (Loop E n) s"
    using full by (simp add: u_def coop_Start_def)
  show "awaited pr (trace u) = None"
    using rs awaited_None [OF rs(2)] assms(5) by (simp add: u awaited_answers awaited_append)
  show "workerStarted s \<longrightarrow> \<not> result_of (StopWorker E n) s"
    using a full by (simp add: StopWorker_def del: Loop.simps)
  show "\<exists>rs new. queue (chan u) = drop n (queue (chan s)) @ new \<and> answers_of u = answers_of s @ rs
         \<and> map promise_of rs = concat (map asked (take n (queue (chan s))))"
    unfolding u by (rule Loop_works_off [OF assms(3)])
qed

theorem full_channel_hangs_witness:
  fixes u
  defines "u \<equiv> exec (do { coop_Start 1 2 ''peer'' 3 0 7; Loop ideal_env 9 }) (open_plugin (replicate 1024 NOOP))"
  shows "awaited 7 (trace u) = None \<and> 1015 \<le> length (queue (chan u))
   \<and> \<not> result_of (StopWorker ideal_env 9) (open_plugin (replicate 1024 NOOP))"
  using full_channel_hangs [of "open_plugin (replicate 1024 NOOP)" 7 1 2 "''peer''" 3 0 ideal_env 9]
  by (auto simp: u_def open_plugin_def new_plugin_def simp del: Loop.simps)

end
