(* ===== verification/Plugin_Runs.thy ===== *)
theory Plugin_Runs
  imports Cooperate
begin

text \<open>
  Whole runs of the plugin: the worker's turns, the calls of its clients and the callbacks of
  the services it watches, in any order, and what holds along every run.
\<close>

section \<open>Runs\<close>

text \<open>
  \<open>Raise\<close> is a call of the interface, or of an observer, that puts an event into the channel;
  \<open>Turn\<close> is one turn of the worker. The others are the callbacks: input monitors, interceptor,
  remote input, timers, screen and device listeners, the application observer.
\<close>

datatype (plugins only: code size) happening =
    Raise CooperateEvent
  | Turn
  | MessageArrives net_id net_packet
  | InputArrives net_id net_packet
  | PointerMonitored pointer_event
  | KeyPreMonitored key_event
  | PointerIntercepted pointer_event
  | KeyIntercepted key_event
  | BuilderTimer
  | InterceptorTimer
  | ScreenTimer
  | CommonEvent string
  | DeviceAdded i32
  | DeviceRemoved i32
  | ProcessDied i32

primrec happens :: "env \<Rightarrow> happening \<Rightarrow> ('s machine_scheme, unit) state" where
  "happens E (Raise e) = do { Send e; skip }"
| "happens E Turn = do { work E; skip }"
| "happens E (MessageArrives nid pkt) = do { OnPacket E nid pkt; skip }"
| "happens E (InputArrives nid pkt) = do { ib_OnPacket E nid pkt; skip }"
| "happens E (PointerMonitored p) = monitor_OnPointerEvent E p"
| "happens E (KeyPreMonitored k) = preMonitor_OnKeyEvent E k"
| "happens E (PointerIntercepted p) = ii_OnPointerEvent E p"
| "happens E (KeyIntercepted k) = ii_OnKeyEvent E k"
| "happens E BuilderTimer = ib_timer_fired E"
| "happens E InterceptorTimer = ii_timer_fired E"
| "happens E ScreenTimer = screen_timer_fired"
| "happens E (CommonEvent ev) = OnCommonEvent E ev"
| "happens E (DeviceAdded d) = devAddedCallback E d"
| "happens E (DeviceRemoved d) = devRemovedCallback d"
| "happens E (ProcessDied pid) = OnProcessDied pid"

section \<open>The control part along a run\<close>

lemma callback_core:
  "unchanged core (monitor_OnPointerEvent E p)" "unchanged core (preMonitor_OnKeyEvent E k)"
  "unchanged core screen_timer_fired" "unchanged core (OnCommonEvent E ev)"
  "unchanged core (devAddedCallback E d)" "unchanged core (devRemovedCallback d)"
  "unchanged core (OnProcessDied pid)"
  unfolding monitor_OnPointerEvent_def preMonitor_OnKeyEvent_def screen_timer_fired_def OnCommonEvent_def
    devAddedCallback_def devRemovedCallback_def OnProcessDied_def CheckIsVirtualTrackpad_def ResetCooperate_def
    AddTimer_def
  by (intro core_frame; simp add: core_def)+

lemma machine_ok_core: "core s' = core s \<Longrightarrow> machine_ok s \<Longrightarrow> machine_ok s'"
  by (simp add: machine_ok_def core_def)

lemma phase_of_core: "core s' = core s \<Longrightarrow> phase_of s' = phase_of s"
  by (cases "sm_current s") (simp_all add: phase_of_def core_def)

lemma Handle_step:
  assumes "machine_ok s"
  shows "machine_ok (exec (Handle E e) s)" "phase_step (phase_of s) e (phase_of (exec (Handle E e) s))"
proof -
  note step = OnEvent_step [OF assms refl, where E = E and e = e]
  have damp: "core (exec (SetDamplingCoefficient dir c) s) = core s" for dir c
    by (rule unchangedD) (intro core_frame)
  show "machine_ok (exec (Handle E e) s)"
    using step(2) machine_ok_core [OF damp assms] assms by (cases e) (simp_all del: OnEvent.simps)
  show "phase_step (phase_of s) e (phase_of (exec (Handle E e) s))"
    using step(1) phase_of_core [OF damp] by (cases e) (simp_all del: OnEvent.simps add: phase_step.stay)
qed

lemma happens_ok: "keeps_inv machine_ok (happens E h)"
proof (cases "h = Turn")
  case True
  show ?thesis
  proof (rule keeps_invI)
    fix s :: "'s machine_scheme"
    assume ok: "machine_ok s"
    show "machine_ok (exec (happens E h) s)"
    proof (cases "queue (chan s)")
      case Nil
      then show ?thesis
        using ok True by (simp add: work_def chan_Receive_def)
    next
      case (Cons e q)
      have "machine_ok (s\<lparr>chan := (chan s)\<lparr>queue := q\<rparr>\<rparr>)"
        by (rule machine_ok_core [OF _ ok]) (simp add: core_def)
      then show ?thesis
        using Handle_step(1) True Cons by (simp add: work_def chan_Receive_def)
    qed
  qed
next
  case False
  then have "unchanged core (happens E h :: ('s machine_scheme, unit) state)"
    by (cases h; simp only: happens.simps callback_core; (intro core_frame)?)
  then show ?thesis
    using machine_ok_core by (auto simp: keeps_inv_def unchanged_def)
qed

text \<open>
  C1. Handling an event refines the abstract machine: in a consistent state every event moves
  the phase of the cooperation along a transition of \<open>phase_step\<close> and ends in a consistent state,
  and only switching cooperation on or off changes the switch. Consistent means: the peer's
  input is let in exactly in the state IN, local input is intercepted at most in the state OUT,
  the relay step exists only in IN, IN only while cooperation is on, and the input monitors are
  gone while it is off.
\<close>

theorem event_refines_phases:
  assumes "machine_ok s" "s' = exec (OnEvent E e) s"
  shows "machine_ok s' \<and> phase_step (phase_of s) e (phase_of s')
    \<and> isCooperateEnable s' = (case e of ENABLE _ \<Rightarrow> True | DISABLE _ \<Rightarrow> False | _ \<Rightarrow> isCooperateEnable s)"
proof -
  note step = OnEvent_step [OF assms]
  have "isCooperateEnable s' = (case e of ENABLE _ \<Rightarrow> True | DISABLE _ \<Rightarrow> False | _ \<Rightarrow> isCooperateEnable s)"
    using step(3) by (cases e) (simp_all add: core_def)
  then show ?thesis
    using step by blast
qed

lemma new_plugin_ok: "machine_ok (new_plugin p k)"
  by (simp add: machine_ok_def new_plugin_def)

lemma open_plugin_ok: "machine_ok (open_plugin es)"
  by (simp add: machine_ok_def open_plugin_def new_plugin_def)

theorem event_refines_phases_witness:
  "phase_step (phase_of (open_plugin [])) (REMOTE_START default_start)
     (phase_of (exec (OnEvent ideal_env (REMOTE_START default_start)) (open_plugin [])))"
  using event_refines_phases [OF open_plugin_ok refl, where e = "REMOTE_START default_start"] by blast

text \<open>
  C2. From the constructor on, the plugin is consistent along every run: whatever calls its
  clients make, whatever messages and input arrive, whatever callbacks the services it watches
  make, in whatever order with the turns of the worker.
\<close>

theorem run_consistent:
  "machine_ok (exec (do { coop_create E; for_each hs (happens E) }) (new_plugin p k))"
proof -
  have c: "unchanged core (coop_create E)"
    unfolding coop_create_def StartWorker_def LoadMotionDrag_def
    by (intro core_frame; simp add: core_def)
  have "machine_ok (exec (coop_create E) (new_plugin p k))"
    by (rule machine_ok_core [OF unchangedD [OF c] new_plugin_ok])
  from keeps_invD [OF keeps_inv_for_each [OF happens_ok] this] show ?thesis
    by simp
qed

text \<open>
  C5. Nothing of a cooperation survives its end: after a stop, after switching cooperation off
  and after the death of a client the plugin is in the state FREE, lets no input of a peer in
  and takes no local input away, whichever state it was in; after switching off, the input
  monitors are removed as well.
\<close>

theorem stop_ends_cooperation:
  assumes "machine_ok s" "must_stop e" "s' = exec (OnEvent E e) s"
  shows "sm_current s' = COOPERATE_STATE_FREE \<and> in_step s' = InInitial \<and> \<not> ib_enable s'
    \<and> \<not> lt32 0 (ii_interceptorId s')
    \<and> (\<forall>rl. e = DISABLE rl \<longrightarrow> \<not> isCooperateEnable s' \<and> \<not> le32 0 (monitorId s') \<and> \<not> le32 0 (preMonitorId s'))"
proof -
  note step = OnEvent_step [OF assms(1,3)]
  have idle: "phase_of s' = Idle"
    using step(1) assms(2) not_must_stop [of e] by (auto elim!: phase_stepE)
  then have free: "sm_current s' = COOPERATE_STATE_FREE"
    by (cases "sm_current s'") (auto simp: phase_of_def split: InStep.splits)
  moreover have "in_step s' = InInitial"
    using step(2) free by (cases "in_step s'") (auto simp: machine_ok_def)
  moreover have "\<forall>rl. e = DISABLE rl \<longrightarrow> \<not> isCooperateEnable s' \<and> \<not> le32 0 (monitorId s') \<and> \<not> le32 0 (preMonitorId s')"
    using step(3) by (auto simp: core_def)
  ultimately show ?thesis
    using step(2) by (auto simp: machine_ok_def)
qed

theorem stop_ends_cooperation_witness:
  "sm_current (exec (OnEvent ideal_env (APP_CLOSED 5)) (open_plugin [])) = COOPERATE_STATE_FREE"
  using stop_ends_cooperation [OF open_plugin_ok _ refl, where e = "APP_CLOSED 5"] by simp

text \<open>The two events by which a peer asks to start, with the account it names.\<close>

fun remote_start_of :: "CooperateEvent \<Rightarrow> (net_id \<times> i32 \<times> string) option" where
  "remote_start_of (REMOTE_START ev) = Some (sc_originNetworkId ev, sc_userId ev, sc_accountId ev)"
| "remote_start_of (REMOTE_WITH_OPTIONS ev) = Some (co_originNetworkId ev, co_userId ev, co_accountId ev)"
| "remote_start_of _ = None"

text \<open>
  C6. A peer that asks to start, plainly or with options, cannot take control of a device on which
  cooperation is switched off, nor of one that is logged in to another account: the request is
  answered by ending whatever cooperation there was, and no input of a peer is let in.
\<close>

theorem remote_start_refused:
  assumes "machine_ok s" "remote_start_of e = Some (nid, user, account)"
    and "\<not> isCooperateEnable s
      \<or> \<not> (if lt32 0 user then SinkIsSameAccount E (tick s) nid user account else SameAccountToLocal E (tick s) nid)"
    and "s' = exec (OnEvent E e) s"
  shows "sm_current s' = COOPERATE_STATE_FREE \<and> \<not> ib_enable s' \<and> \<not> lt32 0 (ii_interceptorId s')"
proof -
  let ?same = "CheckSameAccount E nid user account"
  let ?t = "exec ?same s"
  have t: "core ?t = core s"
    by (rule watch_core(4) [THEN unchangedD])
  have same: "result_of ?same s = (if lt32 0 user then SinkIsSameAccount E (tick s) nid user account
      else SameAccountToLocal E (tick s) nid)"
    by (simp add: CheckSameAccount_def)
  consider ev where "e = REMOTE_START ev" "nid = sc_originNetworkId ev" "user = sc_userId ev" "account = sc_accountId ev"
    | ev where "e = REMOTE_WITH_OPTIONS ev" "nid = co_originNetworkId ev" "user = co_userId ev" "account = co_accountId ev"
    using assms(2) by (cases e) auto
  then have s': "s' = exec (Transfer E (STOP (stop_event True))) ?t"
    using assms(3,4) same core_fields [OF t] core_fields [OF refl, of s]
    by cases (auto simp: sm_OnRemoteStart_def sm_OnRemoteStartWithOptions_def split: if_splits)
  have ph: "in_phase (phase_of s) (isCooperateEnable s) (le32 0 (monitorId s)) (le32 0 (preMonitorId s)) (core s)"
    using assms(1) by (simp add: machine_ok_phase)
  have "goes (phase_of s) (isCooperateEnable s) (le32 0 (monitorId s)) (le32 0 (preMonitorId s))
      (STOP (stop_event True)) (core s')"
    unfolding s' by (rule flowD [OF Transfer_flow [OF ph] t])
  then have "core s' = idle (isCooperateEnable s) (le32 0 (monitorId s)) (le32 0 (preMonitorId s))"
    by (auto elim: phase_stepE simp: in_phase_simps)
  then show ?thesis
    by (simp add: core_def idle_def)
qed

theorem remote_start_refused_witness:
  "sm_current (exec (OnEvent ideal_env (REMOTE_START default_start)) (open_plugin [])) = COOPERATE_STATE_FREE"
  using remote_start_refused [OF open_plugin_ok _ _ refl, where e = "REMOTE_START default_start"]
  by (simp add: open_plugin_def new_plugin_def del: OnEvent.simps)

section \<open>Two ends that are left loose\<close>

text \<open>
  A relay with options loses them: the device asks its peer to hand the control on with the
  plain relay message, so the peer decodes a plain relay, and waits with a timer for the answer
  to a relay with options.
\<close>

theorem relay_drops_options:
  assumes "\<forall>t n. OpenSession_ret E t n = RET_OK" "\<forall>t n p. SendPacket_ret E t n p = RET_OK"
    and "plain (in_processPeer s)" "\<forall>t. plain (AccountId E t)"
  shows "\<exists>rc. issued (relay_OnProgressWithOptions E ev) s =
      [SoftbusOpen (in_processPeer s), SoftbusHeartBeat (in_processPeer s),
       SoftbusSend (ctx_remoteNetworkId s) (relay_packet rc),
       TimerAdd DEFAULT_TIMEOUT REPEAT_ONCE (RELAY_WITHOPTIONS_FINISHED
         (default_relay\<lparr>rc_networkId := ctx_remoteNetworkId s, rc_normal := False\<rparr>))]
    \<and> (\<forall>me. decode me (relay_packet rc) = Some (Some (Some (RELAY (rc\<lparr>rc_networkId := me, rc_normal := True\<rparr>)))))"
proof -
  have ok: "\<not> ChkRWError (relay_packet rc)" "decode me (relay_packet rc)
      = Some (Some (Some (RELAY (rc\<lparr>rc_networkId := me, rc_normal := True\<rparr>))))"
    if "plain (rc_targetNetworkId rc)" "plain (rc_accountId rc)" for rc me
    using that plainD(2) [OF that(1)] plainD(2) [OF that(2)] decode_relay_packet [OF that]
    by (simp_all add: relay_packet_def decode_def decode_packets)
  show ?thesis
    using assms
    by (simp add: relay_OnProgressWithOptions_def OpenSession_def Peer_def GetPointerSpeed_def GetTouchPadSpeed_def
        ds_RelayCooperate_def ds_post_def ds_send_def SoftbusSendPacket_def AddTimer_def issued_def ok Let_def)
      (rule exI, rule conjI [OF refl], simp add: ok assms default_relay_def)
qed

theorem relay_drops_options_witness:
  "\<exists>rc. issued (relay_OnProgressWithOptions ideal_env default_with_options) (open_plugin []) =
      [SoftbusOpen [], SoftbusHeartBeat [], SoftbusSend [] (relay_packet rc),
       TimerAdd DEFAULT_TIMEOUT REPEAT_ONCE (RELAY_WITHOPTIONS_FINISHED
         (default_relay\<lparr>rc_networkId := [], rc_normal := False\<rparr>))]"
  using relay_drops_options [of ideal_env "open_plugin []" default_with_options]
  by (auto simp: ideal_env_def open_plugin_def new_plugin_def plain_def)

text \<open>
  A screen that is switched off and then locked starts two timers that end the cooperation
  for good, and unlocking it stops only the second: the first still fires, after the user is
  back.
\<close>

theorem screen_timer_left_behind:
  assumes "COMMON_EVENT_SCREEN_OFF E \<noteq> COMMON_EVENT_SCREEN_ON E" "COMMON_EVENT_SCREEN_OFF E \<noteq> COMMON_EVENT_SCREEN_UNLOCKED E"
    and "COMMON_EVENT_SCREEN_LOCKED E \<noteq> COMMON_EVENT_SCREEN_ON E"
    and "COMMON_EVENT_SCREEN_LOCKED E \<noteq> COMMON_EVENT_SCREEN_UNLOCKED E"
    and "COMMON_EVENT_SCREEN_UNLOCKED E \<noteq> COMMON_EVENT_SCREEN_OFF E"
    and "AddTimer_ret E (tick s) = first" "AddTimer_ret E (Suc (tick s)) = second" "first \<noteq> second"
    and "le32 0 second" "\<forall>t i. TimerExists E t i"
  shows "issued (do { OnCommonEvent E (COMMON_EVENT_SCREEN_OFF E); OnCommonEvent E (COMMON_EVENT_SCREEN_LOCKED E);
        OnCommonEvent E (COMMON_EVENT_SCREEN_UNLOCKED E) }) s
    = [TimerAdd SCREEN_LOCKED_TIMEOUT REPEAT_ONCE (STOP (stop_event True)),
       TimerAdd SCREEN_LOCKED_TIMEOUT REPEAT_ONCE (STOP (stop_event True)), TimerRemove second]
    \<and> screenEventTimer (exec (do { OnCommonEvent E (COMMON_EVENT_SCREEN_OFF E);
        OnCommonEvent E (COMMON_EVENT_SCREEN_LOCKED E) }) s) \<noteq> first"
  using assms by (simp add: issued_def OnCommonEvent_def AddTimer_def SetStopByScreenOffOrLock_def)

theorem screen_timer_left_behind_witness:
  "issued (do { OnCommonEvent (ideal_env\<lparr>AddTimer_ret := word_of_nat\<rparr>) ''off'';
       OnCommonEvent (ideal_env\<lparr>AddTimer_ret := word_of_nat\<rparr>) ''locked'';
       OnCommonEvent (ideal_env\<lparr>AddTimer_ret := word_of_nat\<rparr>) ''unlocked'' }) (open_plugin [])
    = [TimerAdd SCREEN_LOCKED_TIMEOUT REPEAT_ONCE (STOP (stop_event True)),
       TimerAdd SCREEN_LOCKED_TIMEOUT REPEAT_ONCE (STOP (stop_event True)), TimerRemove 1]"
  using screen_timer_left_behind [of "ideal_env\<lparr>AddTimer_ret := word_of_nat\<rparr>" "open_plugin []" 0 1]
  by (simp add: ideal_env_def open_plugin_def new_plugin_def)

end
