(* ===== verification/Task_Scheduler.thy ===== *)
theory Task_Scheduler
  imports Effects
begin

text \<open>
  src/intention/scheduler/task_scheduler/src/task_scheduler.cpp and src/utils/common/include/
  id_factory.h: functions that other threads hand to the worker thread of the service. What a
  function does is the argument \<open>run\<close>. A caller that waits for the result is a number, the
  promise of its task; it leaves with the result or when its three seconds are over, and since
  the worker is a thread of its own that may happen between any two steps, even between the
  run of the function and the delivery of its result.
\<close>

section \<open>State\<close>

record 'f task =
  tk_id :: i32
  tk_fun :: 'f
  tk_promise :: "nat option"
  tk_hasWaited :: bool

text \<open>
  \<open>ts_popped\<close> is the local variable of \<open>ProcessTasks\<close>, \<open>ts_active\<close> the task whose function has run
  and whose result has not been delivered, \<open>ts_promises\<close> the number of promises so far,
  \<open>ts_waiting\<close> the callers that wait, \<open>ts_results\<close> the values of the promises.
\<close>

record 'f scheduler =
  ts_tick :: nat
  ts_seed :: i32
  ts_ids :: "i32 list"
  ts_tasks :: "'f task list"
  ts_popped :: "'f task list"
  ts_active :: "('f task \<times> i32) option"
  ts_promises :: nat
  ts_waiting :: "nat list"
  ts_results :: "(nat \<times> i32) list"

section \<open>IdFactory\<close>

definition GenerateId :: "(('f, 's) scheduler_scheme, i32) state" where
  "GenerateId = do {
     ids \<leftarrow> gets ts_ids;
     case ids of
       [] \<Rightarrow> do {
         seed \<leftarrow> gets ts_seed;
         if seed = 2147483647 then pure 0
         else do { modify (\<lambda>s. s\<lparr>ts_seed := seed + 1\<rparr>); pure seed } }
     | i # is \<Rightarrow> do { modify (\<lambda>s. s\<lparr>ts_ids := is\<rparr>); pure i } }"

definition RecoveryId :: "i32 \<Rightarrow> (('f, 's) scheduler_scheme, unit) state" where
  "RecoveryId i = do {
     seed \<leftarrow> gets ts_seed;
     if lt32 seed i then skip
     else modify (\<lambda>s. s\<lparr>ts_ids := oset_insert sint i (ts_ids s)\<rparr>) }"

section \<open>Posting\<close>

text \<open>
  The environment: whether the write to the pipe that wakes the worker succeeds, at each
  question, and the offsets of the error codes, which the platform defines.
\<close>

record task_env =
  pipe_write_ok :: "nat \<Rightarrow> bool"
  SERVICE_ERR_OFFSET :: i32

definition ETASKS_WAIT_TIMEOUT :: "('e) task_env_scheme \<Rightarrow> i32" where
  "ETASKS_WAIT_TIMEOUT E = SERVICE_ERR_OFFSET E + 7"

definition ETASKS_POST_SYNCTASK_FAIL :: "('e) task_env_scheme \<Rightarrow> i32" where
  "ETASKS_POST_SYNCTASK_FAIL E = SERVICE_ERR_OFFSET E + 9"

definition ETASKS_POST_ASYNCTASK_FAIL :: "('e) task_env_scheme \<Rightarrow> i32" where
  "ETASKS_POST_ASYNCTASK_FAIL E = SERVICE_ERR_OFFSET E + 10"

definition maxTasksLimit :: nat where "maxTasksLimit = 1000"
definition onceProcessTaskLimit :: nat where "onceProcessTaskLimit = 10"

definition PostTask ::
    "'e task_env_scheme \<Rightarrow> 'f \<Rightarrow> nat option \<Rightarrow> (('f, 's) scheduler_scheme, i32 option) state" where
  "PostTask E f pr = do {
     q \<leftarrow> gets ts_tasks;
     if maxTasksLimit < length q then pure None
     else do {
       i \<leftarrow> GenerateId;
       t \<leftarrow> gets ts_tick;
       modify (\<lambda>s. s\<lparr>ts_tick := Suc t\<rparr>);
       if \<not> pipe_write_ok E t then do { RecoveryId i; pure None }
       else do {
         modify (\<lambda>s. s\<lparr>ts_tasks := ts_tasks s
           @ [\<lparr>tk_id = i, tk_fun = f, tk_promise = pr, tk_hasWaited = False\<rparr>]\<rparr>);
         pure (Some i) } } }"

definition PostAsyncTask :: "'e task_env_scheme \<Rightarrow> 'f \<Rightarrow> (('f, 's) scheduler_scheme, i32) state" where
  "PostAsyncTask E f = do {
     task \<leftarrow> PostTask E f None;
     pure (case task of None \<Rightarrow> ETASKS_POST_ASYNCTASK_FAIL E | Some _ \<Rightarrow> RET_OK) }"

text \<open>
  \<open>PostSyncTask\<close> returns at once on the worker thread, whose calls run the function, and when the
  task is not accepted; otherwise the caller blocks, until \<open>wait_ends\<close>.
\<close>

datatype sync_call = Returned i32 | Blocked nat

definition PostSyncTask ::
    "'e task_env_scheme \<Rightarrow> ('f \<Rightarrow> (('f, 's) scheduler_scheme, i32) state) \<Rightarrow> bool \<Rightarrow> 'f
       \<Rightarrow> (('f, 's) scheduler_scheme, sync_call) state" where
  "PostSyncTask E run isWorker f =
     (if isWorker then do { ret \<leftarrow> run f; pure (Returned ret) }
      else do {
        pr \<leftarrow> gets ts_promises;
        modify (\<lambda>s. s\<lparr>ts_promises := Suc pr\<rparr>);
        task \<leftarrow> PostTask E f (Some pr);
        case task of
          None \<Rightarrow> pure (Returned (ETASKS_POST_SYNCTASK_FAIL E))
        | Some _ \<Rightarrow> do {
            modify (\<lambda>s. s\<lparr>ts_waiting := ts_waiting s @ [pr]\<rparr>);
            pure (Blocked pr) } })"

definition give_up :: "nat \<Rightarrow> 'f task \<Rightarrow> 'f task" where
  "give_up pr t = (if tk_promise t = Some pr then t\<lparr>tk_hasWaited := True\<rparr> else t)"

definition wait_ends :: "'e task_env_scheme \<Rightarrow> nat \<Rightarrow> (('f, 's) scheduler_scheme, i32) state" where
  "wait_ends E pr = do {
     modify (\<lambda>s. s\<lparr>ts_tasks := map (give_up pr) (ts_tasks s), ts_popped := map (give_up pr) (ts_popped s),
       ts_active := map_option (apfst (give_up pr)) (ts_active s),
       ts_waiting := removeAll pr (ts_waiting s)\<rparr>);
     rs \<leftarrow> gets ts_results;
     pure (case map_of rs pr of None \<Rightarrow> ETASKS_WAIT_TIMEOUT E | Some r \<Rightarrow> r) }"

section \<open>The worker\<close>

primrec pop_tasks :: "nat \<Rightarrow> (('f, 's) scheduler_scheme, unit) state" where
  "pop_tasks 0 = skip"
| "pop_tasks (Suc n) = do {
     q \<leftarrow> gets ts_tasks;
     case q of
       [] \<Rightarrow> skip
     | t # ts \<Rightarrow> do {
         RecoveryId (tk_id t);
         modify (\<lambda>s. s\<lparr>ts_popped := ts_popped s @ [t], ts_tasks := ts\<rparr>);
         pop_tasks n } }"

definition PopPendingTaskList :: "(('f, 's) scheduler_scheme, unit) state" where
  "PopPendingTaskList = pop_tasks onceProcessTaskLimit"

text \<open>\<open>Task::ProcessTask\<close> in two halves: up to the run of the function, and from there on.\<close>

definition task_start ::
    "('f \<Rightarrow> (('f, 's) scheduler_scheme, i32) state) \<Rightarrow> 'f task \<Rightarrow> (('f, 's) scheduler_scheme, unit) state" where
  "task_start run t =
     (if tk_hasWaited t then skip
      else do {
        ret \<leftarrow> run (tk_fun t);
        modify (\<lambda>s. s\<lparr>ts_active := Some (t, ret)\<rparr>) })"

definition task_finish :: "(('f, 's) scheduler_scheme, unit) state" where
  "task_finish = do {
     act \<leftarrow> gets ts_active;
     modify (\<lambda>s. s\<lparr>ts_active := None\<rparr>);
     case act of
       None \<Rightarrow> skip
     | Some (t, ret) \<Rightarrow>
         if tk_hasWaited t then skip
         else (case tk_promise t of
             None \<Rightarrow> skip
           | Some pr \<Rightarrow> modify (\<lambda>s. s\<lparr>ts_results := (pr, ret) # ts_results s\<rparr>)) }"

definition ProcessTask ::
    "('f \<Rightarrow> (('f, 's) scheduler_scheme, i32) state) \<Rightarrow> 'f task \<Rightarrow> (('f, 's) scheduler_scheme, unit) state" where
  "ProcessTask run t = do { task_start run t; task_finish }"

text \<open>The next thing that \<open>ProcessTasks\<close> does, wherever it is.\<close>

definition worker_turn ::
    "('f \<Rightarrow> (('f, 's) scheduler_scheme, i32) state) \<Rightarrow> (('f, 's) scheduler_scheme, unit) state" where
  "worker_turn run = do {
     act \<leftarrow> gets ts_active;
     todo \<leftarrow> gets ts_popped;
     if act \<noteq> None then task_finish
     else case todo of
       [] \<Rightarrow> PopPendingTaskList
     | t # ts \<Rightarrow> do { modify (\<lambda>s. s\<lparr>ts_popped := ts\<rparr>); task_start run t } }"

primrec worker_turns ::
    "('f \<Rightarrow> (('f, 's) scheduler_scheme, i32) state) \<Rightarrow> nat \<Rightarrow> (('f, 's) scheduler_scheme, unit) state" where
  "worker_turns run 0 = skip"
| "worker_turns run (Suc n) = do { worker_turn run; worker_turns run n }"

definition new_scheduler :: "'f scheduler" where
  "new_scheduler = \<lparr>ts_tick = 0, ts_seed = 1, ts_ids = [], ts_tasks = [], ts_popped = [], ts_active = None,
     ts_promises = 0, ts_waiting = [], ts_results = []\<rparr>"

section \<open>Runs\<close>

datatype 'f sched_event = CallSync bool 'f | CallAsync 'f | WaitEnds nat | WorkerTurn

primrec sched_step ::
    "'e task_env_scheme \<Rightarrow> ('f \<Rightarrow> (('f, 's) scheduler_scheme, i32) state) \<Rightarrow> 'f sched_event
       \<Rightarrow> (('f, 's) scheduler_scheme, unit) state" where
  "sched_step E run (CallSync isWorker f) = do { PostSyncTask E run isWorker f; skip }"
| "sched_step E run (CallAsync f) = do { PostAsyncTask E f; skip }"
| "sched_step E run (WaitEnds pr) = do { wait_ends E pr; skip }"
| "sched_step E run WorkerTurn = worker_turn run"

text \<open>
  \<open>pending\<close>: the tasks the scheduler still has. \<open>worker_ok\<close>: every promise belongs to one task at
  most, a promise with a value to none; a task whose caller has left is marked, one whose caller
  waits is not; and for every caller that waits there is a task or a value.
\<close>

definition pending :: "('f, 's) scheduler_scheme \<Rightarrow> 'f task list" where
  "pending s = (case ts_active s of None \<Rightarrow> [] | Some (t, _) \<Rightarrow> [t]) @ ts_popped s @ ts_tasks s"

definition promises :: "'f task list \<Rightarrow> nat list" where
  "promises ts = List.map_filter tk_promise ts"

definition books_ok :: "'f task list \<Rightarrow> (nat \<times> i32) list \<Rightarrow> nat \<Rightarrow> nat list \<Rightarrow> bool" where
  "books_ok ts rs n ws \<longleftrightarrow> distinct (promises ts @ map fst rs)
     \<and> (\<forall>p \<in> set (promises ts) \<union> fst ` set rs \<union> set ws. p < n)
     \<and> (\<forall>t \<in> set ts. \<forall>p. tk_promise t = Some p \<longrightarrow> (tk_hasWaited t \<longleftrightarrow> p \<notin> set ws))
     \<and> set ws \<subseteq> set (promises ts) \<union> fst ` set rs"

definition worker_ok :: "('f, 's) scheduler_scheme \<Rightarrow> bool" where
  "worker_ok s \<longleftrightarrow> books_ok (pending s) (ts_results s) (ts_promises s) (ts_waiting s)"

lemma promises_simps [simp]:
  "promises [] = []" "promises (ts @ us) = promises ts @ promises us"
  "promises (t # ts) = (case tk_promise t of None \<Rightarrow> promises ts | Some p \<Rightarrow> p # promises ts)"
  by (simp_all add: promises_def map_filter_def split: option.splits)

lemma set_promises: "p \<in> set (promises ts) \<longleftrightarrow> (\<exists>t \<in> set ts. tk_promise t = Some p)"
  by (induction ts) (auto split: option.splits)

lemma promises_give_up [simp]: "promises (map (give_up p) ts) = promises ts"
  by (induction ts) (simp_all add: give_up_def split: option.splits)

lemma books_post:
  assumes "books_ok ts rs n ws" "promises new = []"
  shows "books_ok (ts @ new) rs n ws"
proof -
  have "tk_promise t = None" if "t \<in> set new" for t
    using that set_promises [of _ new] assms(2) by (cases "tk_promise t") auto
  then show ?thesis
    using assms by (auto simp: books_ok_def)
qed

lemma books_call:
  assumes "books_ok ts rs n ws" "tk_promise t = Some n" "\<not> tk_hasWaited t"
  shows "books_ok (ts @ [t]) rs (Suc n) (ws @ [n])"
proof -
  have "n \<notin> set (promises ts)" "n \<notin> fst ` set rs" "n \<notin> set ws"
    using assms(1) by (auto simp: books_ok_def)
  moreover from this(1) have "tk_promise u \<noteq> Some n" if "u \<in> set ts" for u
    using that set_promises [of n ts] by blast
  ultimately show ?thesis
    using assms by (auto simp: books_ok_def less_Suc_eq)
qed

lemma books_fail: "books_ok ts rs n ws \<Longrightarrow> books_ok ts rs (Suc n) ws"
  by (auto simp: books_ok_def less_Suc_eq)

lemma books_drop:
  assumes "books_ok (t # ts) rs n ws" "tk_hasWaited t \<or> tk_promise t = None"
  shows "books_ok ts rs n ws"
  using assms by (auto simp: books_ok_def split: option.splits)

lemma books_answer:
  assumes "books_ok (t # ts) rs n ws" "tk_promise t = Some p"
  shows "books_ok ts ((p, r) # rs) n ws"
  using assms by (auto simp: books_ok_def)

lemma give_up_simps [simp]:
  "tk_promise (give_up p t) = tk_promise t"
  "tk_hasWaited (give_up p t) = (tk_hasWaited t \<or> tk_promise t = Some p)"
  by (simp_all add: give_up_def)

lemma books_give_up:
  assumes "books_ok ts rs n ws"
  shows "books_ok (map (give_up p) ts) rs n (removeAll p ws)"
  unfolding books_ok_def
proof (intro conjI)
  note b = assms [unfolded books_ok_def]
  show "distinct (promises (map (give_up p) ts) @ map fst rs)"
    using b by simp
  show "\<forall>q \<in> set (promises (map (give_up p) ts)) \<union> fst ` set rs \<union> set (removeAll p ws). q < n"
    using b by (metis DiffD1 Un_iff promises_give_up set_removeAll)
  show "\<forall>t \<in> set (map (give_up p) ts). \<forall>q. tk_promise t = Some q \<longrightarrow> (tk_hasWaited t \<longleftrightarrow> q \<notin> set (removeAll p ws))"
    using b by auto
  show "set (removeAll p ws) \<subseteq> set (promises (map (give_up p) ts)) \<union> fst ` set rs"
    using b by auto
qed

lemma GenerateId_exec:
  "exec GenerateId s = s\<lparr>ts_seed := ts_seed (exec GenerateId s), ts_ids := ts_ids (exec GenerateId s)\<rparr>"
  by (cases s; cases "ts_ids s") (simp_all add: GenerateId_def)

lemma RecoveryId_exec: "exec (RecoveryId i) s = s\<lparr>ts_ids := ts_ids (exec (RecoveryId i) s)\<rparr>"
  by (cases s) (simp add: RecoveryId_def)

text \<open>The part of the state that \<open>worker_ok\<close> looks at, but for the queue.\<close>

abbreviation books :: "('f, 's) scheduler_scheme \<Rightarrow> 'f task list \<times> ('f task \<times> i32) option \<times> nat \<times> nat list \<times> (nat \<times> i32) list" where
  "books s \<equiv> (ts_popped s, ts_active s, ts_promises s, ts_waiting s, ts_results s)"

lemma id_books [simp]:
  "ts_tasks (exec GenerateId s) = ts_tasks s" "ts_popped (exec GenerateId s) = ts_popped s" "ts_active (exec GenerateId s) = ts_active s"
  "ts_promises (exec GenerateId s) = ts_promises s" "ts_waiting (exec GenerateId s) = ts_waiting s" "ts_results (exec GenerateId s) = ts_results s"
  "ts_tasks (exec (RecoveryId i) s) = ts_tasks s" "ts_popped (exec (RecoveryId i) s) = ts_popped s" "ts_active (exec (RecoveryId i) s) = ts_active s"
  "ts_promises (exec (RecoveryId i) s) = ts_promises s" "ts_waiting (exec (RecoveryId i) s) = ts_waiting s" "ts_results (exec (RecoveryId i) s) = ts_results s"
  by (subst GenerateId_exec RecoveryId_exec, simp)+

lemma PostTask_exec:
  "books (exec (PostTask E f pr) s) = books s
   \<and> (case result_of (PostTask E f pr) s of
        None \<Rightarrow> ts_tasks (exec (PostTask E f pr) s) = ts_tasks s
      | Some i \<Rightarrow> ts_tasks (exec (PostTask E f pr) s)
          = ts_tasks s @ [\<lparr>tk_id = i, tk_fun = f, tk_promise = pr, tk_hasWaited = False\<rparr>])"
  by (simp add: PostTask_def)

lemma pending_append:
  "books t = books s \<Longrightarrow> ts_tasks t = ts_tasks s @ new \<Longrightarrow> pending t = pending s @ new"
  by (simp add: pending_def split: option.splits)

lemma worker_ok_post:
  "worker_ok s \<Longrightarrow> books t = books s \<Longrightarrow> ts_tasks t = ts_tasks s @ new \<Longrightarrow> promises new = [] \<Longrightarrow> worker_ok t"
  using books_post [of "pending s" "ts_results s" "ts_promises s" "ts_waiting s" new]
    pending_append [of t s new] by (simp add: worker_ok_def)

lemma PostAsyncTask_ok: "keeps_inv worker_ok (PostAsyncTask E f :: (('f, 's) scheduler_scheme, i32) state)"
proof (rule keeps_invI)
  fix s :: "('f, 's) scheduler_scheme"
  assume ok: "worker_ok s"
  let ?t = "exec (PostTask E f None) s"
  have "\<exists>new. ts_tasks ?t = ts_tasks s @ new \<and> promises new = []"
    using PostTask_exec [of E f None s] by (auto split: option.splits)
  then have "worker_ok ?t"
    using worker_ok_post [OF ok] PostTask_exec [of E f None s] by blast
  then show "worker_ok (exec (PostAsyncTask E f) s)"
    by (simp add: PostAsyncTask_def)
qed

lemma wait_ends_ok: "keeps_inv worker_ok (wait_ends E pr :: (('f, 's) scheduler_scheme, i32) state)"
proof (rule keeps_invI)
  fix s :: "('f, 's) scheduler_scheme"
  assume ok: "worker_ok s"
  have "pending (exec (wait_ends E pr) s) = map (give_up pr) (pending s)"
    by (simp add: wait_ends_def pending_def apfst_def map_prod_def split: option.splits)
  then show "worker_ok (exec (wait_ends E pr) s)"
    using books_give_up ok by (simp add: worker_ok_def wait_ends_def)
qed

lemma pop_tasks_ok: "ts_active s = None \<Longrightarrow> worker_ok s \<Longrightarrow> worker_ok (exec (pop_tasks n) s)"
proof (induction n arbitrary: s)
  case 0
  then show ?case by simp
next
  case (Suc n)
  show ?case
  proof (cases "ts_tasks s")
    case Nil
    then show ?thesis using Suc.prems by simp
  next
    case (Cons t ts)
    let ?r = "exec (RecoveryId (tk_id t)) s"
    let ?u = "?r\<lparr>ts_popped := ts_popped s @ [t], ts_tasks := ts\<rparr>"
    have "worker_ok ?u"
      using Suc.prems Cons by (simp add: worker_ok_def pending_def)
    then show ?thesis
      using Suc.IH [of ?u] Suc.prems(1) Cons by simp
  qed
qed

lemma task_finish_ok: "keeps_inv worker_ok (task_finish :: (('f, 's) scheduler_scheme, unit) state)"
proof (rule keeps_invI)
  fix s :: "('f, 's) scheduler_scheme"
  assume ok: "worker_ok s"
  show "worker_ok (exec task_finish s)"
  proof (cases "ts_active s")
    case None
    then show ?thesis using ok by (simp add: task_finish_def worker_ok_def pending_def)
  next
    case (Some a)
    obtain t ret where a: "a = (t, ret)"
      by force
    have b: "books_ok (t # (ts_popped s @ ts_tasks s)) (ts_results s) (ts_promises s) (ts_waiting s)"
      using ok Some a by (simp add: worker_ok_def pending_def)
    show ?thesis
      using books_drop [OF b] books_answer [OF b, of _ ret] Some a
      by (cases "tk_promise t") (simp_all add: task_finish_def worker_ok_def pending_def)
  qed
qed

lemma pop_tasks_pending:
  "ts_active (exec (pop_tasks n) s) = ts_active s" "ts_waiting (exec (pop_tasks n) s) = ts_waiting s"
  "ts_results (exec (pop_tasks n) s) = ts_results s" "ts_promises (exec (pop_tasks n) s) = ts_promises s"
  "ts_popped (exec (pop_tasks n) s) @ ts_tasks (exec (pop_tasks n) s) = ts_popped s @ ts_tasks s"
  by (induction n arbitrary: s) (simp_all split: list.splits)

lemma pop_tasks_prefix: "\<exists>us. ts_popped (exec (pop_tasks n) s) = ts_popped s @ us"
proof (induction n arbitrary: s)
  case (Suc n)
  show ?case
  proof (cases "ts_tasks s")
    case (Cons t ts)
    let ?u = "(exec (RecoveryId (tk_id t)) s)\<lparr>ts_popped := ts_popped s @ [t], ts_tasks := ts\<rparr>"
    show ?thesis
      using Suc.IH [of ?u] Cons by auto
  qed simp
qed simp

lemma pop_pending_not_Nil:
  assumes "ts_tasks s = t # ts" "ts_popped s = []"
  shows "\<exists>us. ts_popped (exec PopPendingTaskList s) = t # us"
proof -
  let ?u = "(exec (RecoveryId (tk_id t)) s)\<lparr>ts_popped := ts_popped s @ [t], ts_tasks := ts\<rparr>"
  have "exec (pop_tasks (Suc n)) s = exec (pop_tasks n) ?u" for n
    using assms(1) by simp
  from this [of 9] have "exec PopPendingTaskList s = exec (pop_tasks 9) ?u"
    by (simp add: PopPendingTaskList_def onceProcessTaskLimit_def del: pop_tasks.simps)
  then show ?thesis
    using pop_tasks_prefix [of 9 ?u] assms(2) by auto
qed

lemma worker_turns_add:
  "exec (worker_turns run (m + n)) s = exec (worker_turns run n) (exec (worker_turns run m) s)"
  by (induction m arbitrary: s) simp_all

section \<open>What the functions must keep\<close>

text \<open>
  The functions that are run may post further tasks (they run on the worker thread, so nobody
  waits for these) and touch nothing else of the scheduler.
\<close>

definition mannered :: "(('f, 's) scheduler_scheme, 'a) state \<Rightarrow> bool" where
  "mannered m \<longleftrightarrow> (\<forall>s. (\<exists>new. ts_tasks (exec m s) = ts_tasks s @ new \<and> promises new = [])
     \<and> books (exec m s) = books s)"

named_theorems manners \<open>operations that touch nothing of the scheduler but the end of its queue\<close>

lemma mannered_plain [manners]:
  "mannered (State_Monad.return a)" "mannered skip" "mannered (gets g)"
  by (simp_all add: mannered_def)

lemma mannered_modify [manners]:
  "(\<And>s. books (g s) = books s) \<Longrightarrow> (\<And>s. ts_tasks (g s) = ts_tasks s) \<Longrightarrow> mannered (modify g)"
  by (simp add: mannered_def)

lemma mannered_bind [manners]:
  assumes "mannered m" "\<And>a. mannered (k a)"
  shows "mannered (State_Monad.bind m k)"
  unfolding mannered_def
proof
  fix s :: "('a, 'b) scheduler_scheme"
  let ?t = "exec m s" and ?k = "k (result_of m s)"
  obtain new new' where "ts_tasks ?t = ts_tasks s @ new" "promises new = []"
      "ts_tasks (exec ?k ?t) = ts_tasks ?t @ new'" "promises new' = []"
    using assms unfolding mannered_def by blast
  then have "\<exists>u. ts_tasks (exec ?k ?t) = ts_tasks s @ u \<and> promises u = []"
    by (intro exI [of _ "new @ new'"]) simp
  then show "(\<exists>u. ts_tasks (exec (State_Monad.bind m k) s) = ts_tasks s @ u \<and> promises u = [])
      \<and> books (exec (State_Monad.bind m k) s) = books s"
    using assms by (simp add: mannered_def)
qed

lemma mannered_branches [manners]:
  "mannered m \<Longrightarrow> mannered n \<Longrightarrow> mannered (if b then m else n)"
  "mannered u \<Longrightarrow> mannered (only_if b u)"
  "(\<And>x. mannered (h x)) \<Longrightarrow> mannered (Let v h)"
  "mannered m \<Longrightarrow> (\<And>x. mannered (p x)) \<Longrightarrow> mannered (case x of None \<Rightarrow> m | Some y \<Rightarrow> p y)"
  "mannered m \<Longrightarrow> (\<And>z zs. mannered (l z zs)) \<Longrightarrow> mannered (case y of [] \<Rightarrow> m | z # zs \<Rightarrow> l z zs)"
  "(\<And>c d. mannered (r c d)) \<Longrightarrow> mannered (case w of (c, d) \<Rightarrow> r c d)"
  by (simp_all add: only_if_def mannered_plain split: option.split list.split prod.split)

lemma mannered_for_each [manners]: "(\<And>x. mannered (k x)) \<Longrightarrow> mannered (for_each xs k)"
  by (induction xs) (simp_all add: mannered_plain mannered_bind)

lemma PostAsyncTask_mannered [manners]:
  "mannered (PostAsyncTask E f :: (('f, 's) scheduler_scheme, i32) state)"
  unfolding mannered_def
proof
  fix s :: "('f, 's) scheduler_scheme"
  show "(\<exists>new. ts_tasks (exec (PostAsyncTask E f) s) = ts_tasks s @ new \<and> promises new = [])
      \<and> books (exec (PostAsyncTask E f) s) = books s"
    using PostTask_exec [of E f None s] by (auto simp: PostAsyncTask_def split: option.splits)
qed

locale task_runner =
  fixes run :: "'f \<Rightarrow> (('f, 's) scheduler_scheme, i32) state"
  assumes run_mannered: "mannered (run f)"
begin

lemma posts: "\<exists>new. ts_tasks (exec (run f) s) = ts_tasks s @ new \<and> promises new = []"
  and leaves: "books (exec (run f) s) = books s"
  using run_mannered by (simp_all add: mannered_def)

lemma run_ok: "keeps_inv worker_ok (run f)"
proof (rule keeps_invI)
  fix s :: "('f, 's) scheduler_scheme"
  assume "worker_ok s"
  then show "worker_ok (exec (run f) s)"
    using posts [of f s] worker_ok_post [OF _ leaves] by blast
qed

lemma PostSyncTask_ok: "keeps_inv worker_ok (PostSyncTask E run w f)"
proof (rule keeps_invI)
  fix s :: "('f, 's) scheduler_scheme"
  assume ok: "worker_ok s"
  let ?n = "ts_promises s"
  let ?s = "s\<lparr>ts_promises := Suc ?n\<rparr>"
  let ?t = "exec (PostTask E f (Some ?n)) ?s"
  note post = PostTask_exec [of E f "Some ?n" ?s]
  have "worker_ok (exec (PostSyncTask E run False f) s)"
  proof (cases "result_of (PostTask E f (Some ?n)) ?s")
    case None
    then have "pending ?t = pending s @ []"
      using post by (simp add: pending_def split: option.splits)
    then show ?thesis
      using ok None post books_fail by (simp add: PostSyncTask_def worker_ok_def)
  next
    case (Some i)
    let ?task = "\<lparr>tk_id = i, tk_fun = f, tk_promise = Some ?n, tk_hasWaited = False\<rparr>"
    have "pending (?t\<lparr>ts_waiting := ts_waiting ?t @ [?n]\<rparr>) = pending s @ [?task]"
      using Some post by (simp add: pending_def split: option.splits)
    then show ?thesis
      using books_call [OF ok [unfolded worker_ok_def], of ?task] Some post
      by (simp add: PostSyncTask_def worker_ok_def)
  qed
  then show "worker_ok (exec (PostSyncTask E run w f) s)"
    using keeps_invD [OF run_ok ok, of f] by (cases w) (simp_all add: PostSyncTask_def)
qed

lemma task_start_ok:
  assumes "ts_active s = None" "ts_popped s = t # ts" "worker_ok s"
  shows "worker_ok (exec (task_start run t) (s\<lparr>ts_popped := ts\<rparr>))"
proof (cases "tk_hasWaited t")
  case True
  have "books_ok (t # (ts @ ts_tasks s)) (ts_results s) (ts_promises s) (ts_waiting s)"
    using assms by (simp add: worker_ok_def pending_def)
  from books_drop [OF this] show ?thesis
    using True assms(1) by (simp add: task_start_def worker_ok_def pending_def)
next
  case False
  let ?s = "s\<lparr>ts_popped := ts\<rparr>"
  let ?u = "exec (run (tk_fun t)) ?s"
  obtain new where new: "ts_tasks ?u = ts_tasks s @ new" "promises new = []"
    using posts [of "tk_fun t" ?s] by auto
  have "pending (?u\<lparr>ts_active := Some (t, r)\<rparr>) = pending s @ new" for r
    using assms(1,2) leaves [of "tk_fun t" ?s] new(1) by (simp add: pending_def)
  then show ?thesis
    using False books_post [OF assms(3) [unfolded worker_ok_def] new(2)] leaves [of "tk_fun t" ?s]
    by (simp add: task_start_def worker_ok_def)
qed

lemma worker_turn_ok: "keeps_inv worker_ok (worker_turn run)"
proof (rule keeps_invI)
  fix s :: "('f, 's) scheduler_scheme"
  assume ok: "worker_ok s"
  show "worker_ok (exec (worker_turn run) s)"
  proof (cases "ts_active s")
    case None
    then show ?thesis
      using task_start_ok [OF None _ ok] pop_tasks_ok [OF None ok]
      by (cases "ts_popped s") (simp_all add: worker_turn_def PopPendingTaskList_def)
  next
    case Some
    then show ?thesis
      using keeps_invD [OF task_finish_ok ok] by (simp add: worker_turn_def)
  qed
qed

lemma sched_step_ok: "keeps_inv worker_ok (sched_step E run st)"
  using PostAsyncTask_ok wait_ends_ok PostSyncTask_ok worker_turn_ok
  by (cases st) (simp_all add: keeps_inv_def)

lemma runs_ok: "keeps_inv worker_ok (for_each sts (sched_step E run))"
  by (intro keeps_inv_for_each sched_step_ok)

text \<open>
  One task ahead of the others is dealt with in at most three turns: it is taken out of the queue,
  its function runs, its result is delivered.
\<close>

definition served :: "'f task \<Rightarrow> 'f task list \<Rightarrow> ('f, 's) scheduler_scheme \<Rightarrow> ('f, 's) scheduler_scheme \<Rightarrow> bool" where
  "served t ts s s' \<longleftrightarrow> (\<exists>new. pending s' = ts @ new) \<and> ts_waiting s' = ts_waiting s
     \<and> set (map fst (ts_results s)) \<subseteq> set (map fst (ts_results s'))
     \<and> (\<forall>p. tk_promise t = Some p \<longrightarrow> \<not> tk_hasWaited t \<longrightarrow> p \<in> set (map fst (ts_results s')))"

lemma finish_served:
  assumes "ts_active s = Some (t, ret)"
  shows "served t (ts_popped s @ ts_tasks s) s (exec (worker_turn run) s)"
  using assms by (auto simp: served_def worker_turn_def task_finish_def pending_def split: option.splits)

lemma start_served:
  assumes "ts_active s = None" "ts_popped s = t # ts"
  shows "\<exists>n \<le> 2. served t (ts @ ts_tasks s) s (exec (worker_turns run n) s)"
proof (cases "tk_hasWaited t")
  case True
  then have "served t (ts @ ts_tasks s) s (exec (worker_turns run 1) s)"
    using assms by (simp add: served_def worker_turn_def task_start_def pending_def)
  then show ?thesis
    by (intro exI [of _ 1]) simp
next
  case False
  let ?s = "s\<lparr>ts_popped := ts\<rparr>"
  let ?u = "exec (run (tk_fun t)) ?s"
  let ?v = "?u\<lparr>ts_active := Some (t, result_of (run (tk_fun t)) ?s)\<rparr>"
  obtain new where new: "ts_tasks ?u = ts_tasks s @ new"
    using posts [of "tk_fun t" ?s] by auto
  have v: "exec (worker_turn run) s = ?v"
    using assms False by (simp add: worker_turn_def task_start_def)
  have "served t ((ts @ ts_tasks s) @ new) ?v (exec (worker_turn run) ?v)"
    using finish_served [of ?v t] leaves [of "tk_fun t" ?s] new by simp
  then have "served t (ts @ ts_tasks s) s (exec (worker_turns run 2) s)"
    using leaves [of "tk_fun t" ?s] v by (auto simp: served_def numeral_2_eq_2)
  then show ?thesis
    by blast
qed

lemma head_served:
  assumes "pending s = t # ts"
  shows "\<exists>n \<le> 3. served t ts s (exec (worker_turns run n) s)"
proof (cases "ts_active s")
  case (Some a)
  then have "served t ts s (exec (worker_turns run 1) s)"
    using finish_served [of s t "snd a"] assms by (cases a) (simp add: pending_def)
  then show ?thesis
    by (intro exI [of _ 1]) simp
next
  case None
  show ?thesis
  proof (cases "ts_popped s")
    case (Cons u us)
    then have "u = t" "us @ ts_tasks s = ts"
      using assms None by (simp_all add: pending_def)
    moreover obtain n where "n \<le> 2" "served u (us @ ts_tasks s) s (exec (worker_turns run n) s)"
      using start_served [OF None Cons] by blast
    ultimately show ?thesis
      by (intro exI [of _ n]) simp
  next
    case Nil
    then have q: "ts_tasks s = t # ts"
      using assms None by (simp add: pending_def)
    let ?u = "exec PopPendingTaskList s"
    obtain us where us: "ts_popped ?u = t # us"
      using pop_pending_not_Nil [OF q Nil] by blast
    have u: "ts_active ?u = None" "us @ ts_tasks ?u = ts" "ts_waiting ?u = ts_waiting s" "ts_results ?u = ts_results s"
      using pop_tasks_pending [of onceProcessTaskLimit s] us q Nil None by (simp_all add: PopPendingTaskList_def)
    obtain n where n: "n \<le> 2" "served t ts ?u (exec (worker_turns run n) ?u)"
      using start_served [OF u(1) us] u(2) by auto
    have "exec (worker_turns run (Suc n)) s = exec (worker_turns run n) ?u"
      using None Nil by (simp add: worker_turn_def)
    then have "served t ts s (exec (worker_turns run (Suc n)) s)"
      using n(2) u(3,4) by (simp add: served_def)
    then show ?thesis
      using n(1) by (intro exI [of _ "Suc n"]) simp
  qed
qed

lemma all_served:
  assumes "pending s = us @ t # ts" "tk_promise t = Some p" "\<not> tk_hasWaited t"
  shows "\<exists>n \<le> 3 * Suc (length us). p \<in> set (map fst (ts_results (exec (worker_turns run n) s)))"
  using assms(1)
proof (induction us arbitrary: s ts)
  case Nil
  then show ?case
    using head_served [of s t ts] assms(2,3) by (auto simp: served_def)
next
  case (Cons u us)
  obtain m where m: "m \<le> 3" "served u (us @ t # ts) s (exec (worker_turns run m) s)"
    using head_served [of s u "us @ t # ts"] Cons.prems by auto
  obtain new where "pending (exec (worker_turns run m) s) = us @ t # (ts @ new)"
    using m(2) by (auto simp: served_def)
  from Cons.IH [OF this] obtain n where n: "n \<le> 3 * Suc (length us)"
      "p \<in> set (map fst (ts_results (exec (worker_turns run n) (exec (worker_turns run m) s))))"
    by blast
  then show ?case
    using m(1) by (intro exI [of _ "m + n"]) (simp add: worker_turns_add)
qed

lemma callers_served:
  assumes "worker_ok s" "p \<in> set (ts_waiting s)"
  shows "\<exists>n \<le> 3 * length (pending s). p \<in> set (map fst (ts_results (exec (worker_turns run n) s)))"
proof (cases "p \<in> fst ` set (ts_results s)")
  case True
  then show ?thesis
    by (intro exI [of _ 0]) simp
next
  case False
  then obtain t where t: "t \<in> set (pending s)" "tk_promise t = Some p"
    using assms set_promises [of p "pending s"] by (auto simp: worker_ok_def books_ok_def)
  then obtain us ts where s: "pending s = us @ t # ts"
    using split_list by metis
  have "\<not> tk_hasWaited t"
    using t assms by (auto simp: worker_ok_def books_ok_def)
  then obtain n where "n \<le> 3 * Suc (length us)" "p \<in> set (map fst (ts_results (exec (worker_turns run n) s)))"
    using all_served [OF s t(2)] by blast
  then show ?thesis
    using s by (intro exI [of _ n]) simp
qed

end

end
