(* ===== verification/Timers.thy ===== *)
theory Timers
  imports Task_Scheduler "HOL-Library.Multiset"
begin

text \<open>
  src/intention/scheduler/timer_manager/src/timer_manager.cpp: timers, kept in a list ordered by
  the time of their next call and served by the worker thread, and the calls of other threads,
  which are tasks of Task_Scheduler. A callback is a number; what it asks of the timer manager
  when it runs is a part of the environment, like the clock and the timer of the kernel. Times
  are integers; \<open>AddInt64\<close> has the bounds of \<open>int64_t\<close>.
\<close>

section \<open>State and environment\<close>

definition MIN_DELAY :: int where "MIN_DELAY = - 1"
definition NONEXISTENT_ID :: i32 where "NONEXISTENT_ID = - 1"
definition MIN_INTERVAL :: i32 where "MIN_INTERVAL = 50"
definition TIME_CONVERSION :: int where "TIME_CONVERSION = 1000"
definition MAX_INTERVAL_MS :: i32 where "MAX_INTERVAL_MS = 600000"
definition MAX_TIMER_COUNT :: nat where "MAX_TIMER_COUNT = 64"

record TimerItem =
  t_id :: i32
  t_intervalMs :: i32
  t_callbackCount :: i32
  t_repeatCount :: i32
  t_nextCallTime :: int
  t_callback :: nat

datatype timer_request =
    AddReq i32 i32 "nat option"
  | RemoveReq i32
  | ResetReq i32

datatype timer_task = Request timer_request | Existence i32 | Process | Initialise

text \<open>
  \<open>tm_found\<close>: the values given to the futures of the callers of \<open>IsExist\<close>. What a callback does: a call that takes effect at once, or one that posts a task.
\<close>

datatype timer_call = SyncCall timer_request | AsyncCall timer_request

datatype timer_cmd = SetTime int int | Fired nat

record timer_mgr = "timer_task scheduler" +
  tm_timerFd :: i32
  tm_timers :: "TimerItem list"
  tm_found :: "(i32 \<times> bool) list"
  tm_log :: "timer_cmd list"

record timer_env = task_env +
  GetMillisTime :: "nat \<Rightarrow> int"
  timerfd_create_ret :: "nat \<Rightarrow> i32"
  timerfd_settime_ret :: "nat \<Rightarrow> i32"
  callback_does :: "nat \<Rightarrow> nat \<Rightarrow> timer_call list"

definition asks :: "(nat \<Rightarrow> 'a) \<Rightarrow> (('f, 's) scheduler_scheme, 'a) state" where
  "asks q = do {
     t \<leftarrow> gets ts_tick;
     modify (\<lambda>s. s\<lparr>ts_tick := Suc t\<rparr>);
     pure (q t) }"

definition logs :: "timer_cmd \<Rightarrow> ('s timer_mgr_scheme, unit) state" where
  "logs c = modify (\<lambda>s. s\<lparr>tm_log := tm_log s @ [c]\<rparr>)"

section \<open>Arithmetic of times\<close>

definition INT64_MAX :: int where "INT64_MAX = 9223372036854775807"
definition INT64_MIN :: int where "INT64_MIN = - 9223372036854775808"

definition AddInt64 :: "int \<Rightarrow> int \<Rightarrow> int option" where
  "AddInt64 a b =
     (if 0 \<le> a then (if INT64_MAX - a < b then None else Some (a + b))
      else (if b < INT64_MIN - a then None else Some (a + b)))"

section \<open>The list of timers\<close>

definition timer_slots :: "TimerItem list \<Rightarrow> 64 word" where
  "timer_slots ts = fold (\<lambda>t slots. or slots (push_bit (unat (t_id t)) 1)) ts 0"

definition TakeNextTimerId :: "TimerItem list \<Rightarrow> i32" where
  "TakeNextTimerId ts =
     (case List.find (\<lambda>k. and (timer_slots ts) (push_bit k 1) = 0) [0..<MAX_TIMER_COUNT] of
        Some k \<Rightarrow> word_of_nat k
      | None \<Rightarrow> NONEXISTENT_ID)"

fun InsertTimerInternal :: "TimerItem \<Rightarrow> TimerItem list \<Rightarrow> TimerItem list" where
  "InsertTimerInternal t [] = [t]"
| "InsertTimerInternal t (u # us) =
     (if t_nextCallTime t < t_nextCallTime u then t # u # us else u # InsertTimerInternal t us)"

text \<open>The first timer with an id, and the list without it.\<close>

fun take_timer :: "i32 \<Rightarrow> TimerItem list \<Rightarrow> (TimerItem \<times> TimerItem list) option" where
  "take_timer i [] = None"
| "take_timer i (t # ts) =
     (if t_id t = i then Some (t, ts) else map_option (apsnd (Cons t)) (take_timer i ts))"

section \<open>Operations of the worker thread\<close>

definition CalcNextDelayInternal :: "'e timer_env_scheme \<Rightarrow> ('s timer_mgr_scheme, int) state" where
  "CalcNextDelayInternal E = do {
     ts \<leftarrow> gets tm_timers;
     case ts of
       [] \<Rightarrow> pure MIN_DELAY
     | t # _ \<Rightarrow> do {
         nowTime \<leftarrow> asks (GetMillisTime E);
         pure (if t_nextCallTime t \<le> nowTime then 0 else t_nextCallTime t - nowTime) } }"

definition ArmTimer :: "'e timer_env_scheme \<Rightarrow> ('s timer_mgr_scheme, i32) state" where
  "ArmTimer E = do {
     fd \<leftarrow> gets tm_timerFd;
     if lt32 fd 0 then pure RET_ERR
     else do {
       delay \<leftarrow> CalcNextDelayInternal E;
       let expire = (if delay = 0 then 1 else delay);
       logs (if 0 < expire
             then SetTime (expire div TIME_CONVERSION) (expire mod TIME_CONVERSION * TIME_CONVERSION * TIME_CONVERSION)
             else SetTime 0 0);
       ret \<leftarrow> asks (timerfd_settime_ret E);
       pure (if ret \<noteq> 0 then RET_ERR else RET_OK) } }"

definition clamp_interval :: "i32 \<Rightarrow> i32" where
  "clamp_interval intervalMs =
     (if lt32 intervalMs MIN_INTERVAL then MIN_INTERVAL
      else if lt32 MAX_INTERVAL_MS intervalMs then MAX_INTERVAL_MS else intervalMs)"

definition AddTimerInternal ::
    "'e timer_env_scheme \<Rightarrow> i32 \<Rightarrow> i32 \<Rightarrow> nat option \<Rightarrow> ('s timer_mgr_scheme, i32) state" where
  "AddTimerInternal E intervalMs repeatCount callback = do {
     let intervalMs = clamp_interval intervalMs;
     case callback of
       None \<Rightarrow> pure NONEXISTENT_ID
     | Some cb \<Rightarrow> do {
         nextTimerId \<leftarrow> gets (\<lambda>s. TakeNextTimerId (tm_timers s));
         if lt32 nextTimerId 0 then pure NONEXISTENT_ID
         else do {
           nowTime \<leftarrow> asks (GetMillisTime E);
           case AddInt64 nowTime (sint intervalMs) of
             None \<Rightarrow> pure NONEXISTENT_ID
           | Some next \<Rightarrow> do {
               modify (\<lambda>s. s\<lparr>tm_timers := InsertTimerInternal
                 \<lparr>t_id = nextTimerId, t_intervalMs = intervalMs, t_callbackCount = 0, t_repeatCount = repeatCount,
                  t_nextCallTime = next, t_callback = cb\<rparr> (tm_timers s)\<rparr>);
               pure nextTimerId } } } }"

definition RemoveTimerInternal :: "i32 \<Rightarrow> ('s timer_mgr_scheme, i32) state" where
  "RemoveTimerInternal i = do {
     ts \<leftarrow> gets tm_timers;
     case take_timer i ts of
       None \<Rightarrow> pure RET_ERR
     | Some (_, rest) \<Rightarrow> do { modify (\<lambda>s. s\<lparr>tm_timers := rest\<rparr>); pure RET_OK } }"

definition ResetTimerInternal :: "'e timer_env_scheme \<Rightarrow> i32 \<Rightarrow> ('s timer_mgr_scheme, i32) state" where
  "ResetTimerInternal E i = do {
     ts \<leftarrow> gets tm_timers;
     case take_timer i ts of
       None \<Rightarrow> pure RET_ERR
     | Some (t, rest) \<Rightarrow> do {
         modify (\<lambda>s. s\<lparr>tm_timers := rest\<rparr>);
         nowTime \<leftarrow> asks (GetMillisTime E);
         case AddInt64 nowTime (sint (t_intervalMs t)) of
           None \<Rightarrow> pure RET_ERR
         | Some next \<Rightarrow> do {
             modify (\<lambda>s. s\<lparr>tm_timers := InsertTimerInternal
               (t\<lparr>t_nextCallTime := next, t_callbackCount := 0\<rparr>) (tm_timers s)\<rparr>);
             pure RET_OK } } }"

definition OnAddTimer ::
    "'e timer_env_scheme \<Rightarrow> i32 \<Rightarrow> i32 \<Rightarrow> nat option \<Rightarrow> ('s timer_mgr_scheme, i32) state" where
  "OnAddTimer E intervalMs repeatCount callback = do {
     timerId \<leftarrow> AddTimerInternal E intervalMs repeatCount callback;
     ArmTimer E;
     pure timerId }"

definition OnRemoveTimer :: "'e timer_env_scheme \<Rightarrow> i32 \<Rightarrow> ('s timer_mgr_scheme, i32) state" where
  "OnRemoveTimer E i = do {
     ret \<leftarrow> RemoveTimerInternal i;
     only_if (ret = RET_OK) (do { ArmTimer E; skip });
     pure ret }"

definition OnResetTimer :: "'e timer_env_scheme \<Rightarrow> i32 \<Rightarrow> ('s timer_mgr_scheme, i32) state" where
  "OnResetTimer E i = do {
     ret \<leftarrow> ResetTimerInternal E i;
     ArmTimer E;
     pure ret }"

definition OnIsExist :: "i32 \<Rightarrow> ('s timer_mgr_scheme, bool) state" where
  "OnIsExist i = gets (\<lambda>s. List.find (\<lambda>t. t_id t = i) (tm_timers s) \<noteq> None)"

definition tm_OnInit :: "'e timer_env_scheme \<Rightarrow> ('s timer_mgr_scheme, i32) state" where
  "tm_OnInit E = do {
     fd \<leftarrow> asks (timerfd_create_ret E);
     modify (\<lambda>s. s\<lparr>tm_timerFd := fd\<rparr>);
     pure (if lt32 fd 0 then RET_ERR else RET_OK) }"

fun serve :: "'e timer_env_scheme \<Rightarrow> timer_request \<Rightarrow> ('s timer_mgr_scheme, i32) state" where
  "serve E (AddReq intervalMs repeatCount callback) = OnAddTimer E intervalMs repeatCount callback"
| "serve E (RemoveReq i) = OnRemoveTimer E i"
| "serve E (ResetReq i) = OnResetTimer E i"

section \<open>Due timers\<close>

fun callback_call :: "'e timer_env_scheme \<Rightarrow> timer_call \<Rightarrow> ('s timer_mgr_scheme, unit) state" where
  "callback_call E (SyncCall r) = do { serve E r; skip }"
| "callback_call E (AsyncCall r) = do { PostAsyncTask E (Request r); skip }"

definition run_callback :: "'e timer_env_scheme \<Rightarrow> nat \<Rightarrow> ('s timer_mgr_scheme, unit) state" where
  "run_callback E cb = do {
     logs (Fired cb);
     calls \<leftarrow> asks (\<lambda>t. callback_does E t cb);
     for_each calls (callback_call E) }"

text \<open>The loop, for at most \<open>n\<close> rounds; the result tells whether it has ended.\<close>

primrec process_loop :: "'e timer_env_scheme \<Rightarrow> int \<Rightarrow> nat \<Rightarrow> ('s timer_mgr_scheme, bool) state" where
  "process_loop E presentTime 0 = pure False"
| "process_loop E presentTime (Suc n) = do {
     ts \<leftarrow> gets tm_timers;
     case ts of
       [] \<Rightarrow> pure True
     | t # rest \<Rightarrow>
         if presentTime < t_nextCallTime t then pure True
         else do {
           modify (\<lambda>s. s\<lparr>tm_timers := rest\<rparr>);
           let count = t_callbackCount t + 1;
           if le32 1 (t_repeatCount t) \<and> le32 (t_repeatCount t) count then do {
             run_callback E (t_callback t);
             process_loop E presentTime n }
           else (case AddInt64 (t_nextCallTime t) (sint (t_intervalMs t)) of
               None \<Rightarrow> pure True
             | Some next \<Rightarrow> do {
                 modify (\<lambda>s. s\<lparr>tm_timers := InsertTimerInternal
                   (t\<lparr>t_callbackCount := count, t_nextCallTime := next\<rparr>) (tm_timers s)\<rparr>);
                 run_callback E (t_callback t);
                 process_loop E presentTime n }) } }"

definition ProcessTimersInternal :: "'e timer_env_scheme \<Rightarrow> nat \<Rightarrow> ('s timer_mgr_scheme, bool) state" where
  "ProcessTimersInternal E n = do {
     ts \<leftarrow> gets tm_timers;
     if ts = [] then pure True
     else do {
       presentTime \<leftarrow> asks (GetMillisTime E);
       process_loop E presentTime n } }"

definition OnProcessTimers :: "'e timer_env_scheme \<Rightarrow> nat \<Rightarrow> ('s timer_mgr_scheme, i32) state" where
  "OnProcessTimers E n = do {
     ProcessTimersInternal E n;
     ArmTimer E;
     pure RET_OK }"

section \<open>The calls of other threads\<close>

fun run_timer_task :: "'e timer_env_scheme \<Rightarrow> nat \<Rightarrow> timer_task \<Rightarrow> ('s timer_mgr_scheme, i32) state" where
  "run_timer_task E n (Request r) = serve E r"
| "run_timer_task E n (Existence i) = do {
     found \<leftarrow> OnIsExist i;
     modify (\<lambda>s. s\<lparr>tm_found := tm_found s @ [(i, found)]\<rparr>);
     pure RET_OK }"
| "run_timer_task E n Process = OnProcessTimers E n"
| "run_timer_task E n Initialise = tm_OnInit E"

definition tm_Init :: "'e timer_env_scheme \<Rightarrow> nat \<Rightarrow> bool \<Rightarrow> ('s timer_mgr_scheme, sync_call) state" where
  "tm_Init E n isWorker = PostSyncTask E (run_timer_task E n) isWorker Initialise"

definition tm_AddTimer ::
    "'e timer_env_scheme \<Rightarrow> nat \<Rightarrow> bool \<Rightarrow> i32 \<Rightarrow> i32 \<Rightarrow> nat option \<Rightarrow> ('s timer_mgr_scheme, sync_call) state" where
  "tm_AddTimer E n isWorker intervalMs repeatCount callback =
     PostSyncTask E (run_timer_task E n) isWorker (Request (AddReq intervalMs repeatCount callback))"

definition tm_AddTimerAsync ::
    "'e timer_env_scheme \<Rightarrow> i32 \<Rightarrow> i32 \<Rightarrow> nat option \<Rightarrow> ('s timer_mgr_scheme, i32) state" where
  "tm_AddTimerAsync E intervalMs repeatCount callback =
     PostAsyncTask E (Request (AddReq intervalMs repeatCount callback))"

definition tm_RemoveTimer :: "'e timer_env_scheme \<Rightarrow> nat \<Rightarrow> bool \<Rightarrow> i32 \<Rightarrow> ('s timer_mgr_scheme, sync_call) state" where
  "tm_RemoveTimer E n isWorker i = PostSyncTask E (run_timer_task E n) isWorker (Request (RemoveReq i))"

definition tm_RemoveTimerAsync :: "'e timer_env_scheme \<Rightarrow> i32 \<Rightarrow> ('s timer_mgr_scheme, i32) state" where
  "tm_RemoveTimerAsync E i = PostAsyncTask E (Request (RemoveReq i))"

definition tm_ResetTimer :: "'e timer_env_scheme \<Rightarrow> nat \<Rightarrow> bool \<Rightarrow> i32 \<Rightarrow> ('s timer_mgr_scheme, sync_call) state" where
  "tm_ResetTimer E n isWorker i = PostSyncTask E (run_timer_task E n) isWorker (Request (ResetReq i))"

text \<open>\<open>IsExist\<close>: the answer, unless the caller has to wait for it.\<close>

definition tm_IsExist :: "'e timer_env_scheme \<Rightarrow> nat \<Rightarrow> bool \<Rightarrow> i32 \<Rightarrow> ('s timer_mgr_scheme, bool option) state" where
  "tm_IsExist E n isWorker i = do {
     ret \<leftarrow> PostSyncTask E (run_timer_task E n) isWorker (Existence i);
     case ret of
       Returned r \<Rightarrow> if r \<noteq> RET_OK then pure (Some False) else gets (\<lambda>s. Some (snd (last (tm_found s))))
     | Blocked _ \<Rightarrow> pure None }"

definition ProcessTimers :: "'e timer_env_scheme \<Rightarrow> ('s timer_mgr_scheme, i32) state" where
  "ProcessTimers E = PostAsyncTask E Process"

definition new_timer_mgr :: timer_mgr where
  "new_timer_mgr = scheduler.extend new_scheduler (timer_mgr.fields (- 1) [] [] [])"

section \<open>The tasks of the timer manager as tasks of the scheduler\<close>

lemma helper_manners [manners]: "mannered (asks q)" "mannered (logs c)"
  unfolding asks_def logs_def by (intro manners; simp)+

lemma arm_manners [manners]: "mannered (ArmTimer E)"
  unfolding ArmTimer_def CalcNextDelayInternal_def by (intro manners)

lemma internal_manners [manners]:
  "mannered (AddTimerInternal E a b c)" "mannered (RemoveTimerInternal i)" "mannered (ResetTimerInternal E i)"
  unfolding AddTimerInternal_def RemoveTimerInternal_def ResetTimerInternal_def
  by (intro manners; simp)+

lemma request_manners [manners]:
  "mannered (OnAddTimer E a b c)" "mannered (OnRemoveTimer E i)" "mannered (OnResetTimer E i)" "mannered (OnIsExist i)"
  "mannered (tm_OnInit E)"
  unfolding OnAddTimer_def OnRemoveTimer_def OnResetTimer_def OnIsExist_def tm_OnInit_def
  by (intro manners; simp)+

lemma serve_manners [manners]: "mannered (serve E r)"
  by (cases r) (simp_all add: manners)

lemma callback_manners [manners]: "mannered (callback_call E c)" "mannered (run_callback E cb)"
proof -
  show call: "mannered (callback_call E c)" for c
    by (cases c) (simp_all add: manners)
  show "mannered (run_callback E cb)"
    unfolding run_callback_def by (intro manners call)
qed

lemma loop_manners [manners]: "mannered (process_loop E p n)"
proof (induction n)
  case (Suc n)
  show ?case
    unfolding process_loop.simps by (intro manners Suc; simp)
qed (simp add: manners)

interpretation tms: task_runner "run_timer_task E n" for E n
proof
  show "mannered (run_timer_task E n f)" for f
    unfolding OnProcessTimers_def ProcessTimersInternal_def
    by (cases f; simp only: run_timer_task.simps OnProcessTimers_def ProcessTimersInternal_def; intro manners; simp)
qed

section \<open>Well-formed lists of timers\<close>

text \<open>
  A timer has a slot of the id word, an interval within the bounds, a time that fits its type, and
  calls to come; the list is ordered by the time of the next call, and no id is used twice.
\<close>

definition timer_ok :: "TimerItem \<Rightarrow> bool" where
  "timer_ok t \<longleftrightarrow> 0 \<le> sint (t_id t) \<and> sint (t_id t) < 64
     \<and> 50 \<le> sint (t_intervalMs t) \<and> sint (t_intervalMs t) \<le> 600000
     \<and> INT64_MIN \<le> t_nextCallTime t \<and> t_nextCallTime t \<le> INT64_MAX
     \<and> (1 \<le> sint (t_repeatCount t) \<longrightarrow> 0 \<le> sint (t_callbackCount t) \<and> sint (t_callbackCount t) < sint (t_repeatCount t))"

definition timers_ok :: "TimerItem list \<Rightarrow> bool" where
  "timers_ok ts \<longleftrightarrow> sorted (map t_nextCallTime ts) \<and> distinct (map t_id ts) \<and> list_all timer_ok ts"

lemma mset_Insert [simp]: "mset (InsertTimerInternal t ts) = add_mset t (mset ts)"
  by (induction ts) simp_all

lemma set_Insert [simp]: "set (InsertTimerInternal t ts) = insert t (set ts)"
  using mset_Insert [of t ts] by (metis set_mset_add_mset_insert set_mset_mset)

lemma distinct_Insert [simp]:
  "distinct (map t_id (InsertTimerInternal t ts)) \<longleftrightarrow> t_id t \<notin> t_id ` set ts \<and> distinct (map t_id ts)"
  by (induction ts) auto

lemma sorted_Insert: "sorted (map t_nextCallTime ts) \<Longrightarrow> sorted (map t_nextCallTime (InsertTimerInternal t ts))"
  by (induction ts) auto

lemma timers_ok_Insert:
  "timers_ok ts \<Longrightarrow> timer_ok t \<Longrightarrow> t_id t \<notin> t_id ` set ts \<Longrightarrow> timers_ok (InsertTimerInternal t ts)"
  using sorted_Insert by (auto simp: timers_ok_def list_all_iff)

lemma timers_ok_Cons:
  "timers_ok (t # ts) \<longleftrightarrow> timer_ok t \<and> t_id t \<notin> t_id ` set ts
     \<and> (\<forall>u \<in> set ts. t_nextCallTime t \<le> t_nextCallTime u) \<and> timers_ok ts"
  by (auto simp: timers_ok_def)

lemma take_timer_Some:
  "take_timer i ts = Some (t, rest) \<Longrightarrow> \<exists>us vs. ts = us @ t # vs \<and> rest = us @ vs \<and> t_id t = i"
proof (induction ts arbitrary: rest)
  case (Cons u us)
  show ?case
  proof (cases "t_id u = i")
    case True
    then show ?thesis using Cons.prems by force
  next
    case False
    then obtain r where r: "take_timer i us = Some (t, r)" "rest = u # r"
      using Cons.prems by auto
    then show ?thesis
      using Cons.IH [OF r(1)] by (metis append_Cons)
  qed
qed simp

lemma take_timer_None: "take_timer i ts = None \<longleftrightarrow> i \<notin> t_id ` set ts"
  by (induction ts) auto

lemma timers_ok_take:
  assumes "timers_ok ts" "take_timer i ts = Some (t, rest)"
  shows "timers_ok rest" "timer_ok t" "t_id t \<notin> t_id ` set rest"
  using assms(1) take_timer_Some [OF assms(2)] by (auto simp: timers_ok_def sorted_append)

lemma bit_timer_slots:
  assumes "k < 64"
  shows "bit (timer_slots ts) k \<longleftrightarrow> (\<exists>t \<in> set ts. unat (t_id t) = k)"
proof -
  have "bit (fold (\<lambda>t slots. or slots (push_bit (unat (t_id t)) 1)) ts a) k
      \<longleftrightarrow> bit a k \<or> (\<exists>t \<in> set ts. unat (t_id t) = k)" for a :: "64 word"
    using assms by (induction ts arbitrary: a) (auto simp: bit_simps)
  then show ?thesis
    by (simp add: timer_slots_def)
qed

lemma slot_id:
  assumes "k < 64"
  shows "unat (word_of_nat k :: i32) = k" "sint (word_of_nat k :: i32) = int k"
proof -
  show "unat (word_of_nat k :: i32) = k"
    using assms by (simp add: unat_of_nat)
  have "signed_take_bit 31 (int k) = int k"
    using assms by (intro signed_take_bit_int_eq_self) simp_all
  then show "sint (word_of_nat k :: i32) = int k"
    by (simp add: signed_of_nat)
qed

lemma TakeNextTimerId_cases:
  obtains (free) k where "k < 64" "TakeNextTimerId ts = word_of_nat k" "word_of_nat k \<notin> t_id ` set ts"
      "\<And>j. j < k \<Longrightarrow> word_of_nat j \<in> t_id ` set ts"
    | (full) "TakeNextTimerId ts = NONEXISTENT_ID" "\<And>k. k < 64 \<Longrightarrow> word_of_nat k \<in> t_id ` set ts"
proof -
  have used: "and (timer_slots ts) (push_bit k 1) = 0 \<longleftrightarrow> word_of_nat k \<notin> t_id ` set ts" if "k < 64" for k
  proof -
    have "unat (t_id t) = k \<longleftrightarrow> t_id t = word_of_nat k" for t :: TimerItem
      using slot_id(1) [OF that] by (simp add: word_unat_eq_iff)
    then have "bit (timer_slots ts) k \<longleftrightarrow> word_of_nat k \<in> t_id ` set ts"
      using bit_timer_slots [OF that, of ts] by (metis image_iff)
    then show ?thesis
      using and_exp_eq_0_iff_not_bit [of "timer_slots ts" k] by simp
  qed
  let ?find = "List.find (\<lambda>k. and (timer_slots ts) (push_bit k 1) = 0) [0..<64]"
  have next_id: "TakeNextTimerId ts = (case ?find of Some k \<Rightarrow> word_of_nat k | None \<Rightarrow> NONEXISTENT_ID)"
    unfolding TakeNextTimerId_def MAX_TIMER_COUNT_def ..
  show thesis
  proof (cases ?find)
    case None
    then have "word_of_nat k \<in> t_id ` set ts" if "k < 64" for k
      using used [OF that] that by (auto simp: find_None_iff)
    then show thesis
      using full None next_id by simp
  next
    case (Some k)
    then have k: "k < 64" "and (timer_slots ts) (push_bit k 1) = 0"
        "\<And>j. j < k \<Longrightarrow> and (timer_slots ts) (push_bit j 1) \<noteq> 0"
      by (auto simp: find_Some_iff)
    then have "word_of_nat j \<in> t_id ` set ts" if "j < k" for j
      using used [of j] that by auto
    then show thesis
      using used [OF k(1)] k free [of k] Some next_id by simp
  qed
qed

section \<open>Every operation keeps the list well formed\<close>

abbreviation mgr_ok :: "'s timer_mgr_scheme \<Rightarrow> bool" where
  "mgr_ok s \<equiv> timers_ok (tm_timers s)"

lemma asks_simps [simp]:
  "result_of (asks q) s = q (ts_tick s)" "exec (asks q) s = s\<lparr>ts_tick := Suc (ts_tick s)\<rparr>"
  by (simp_all add: asks_def)

lemma logs_simps [simp]: "exec (logs c) s = s\<lparr>tm_log := tm_log s @ [c]\<rparr>"
  by (simp add: logs_def)

lemma scheduler_timers [simp]:
  "tm_timers (exec GenerateId s) = tm_timers s" "tm_timers (exec (RecoveryId i) s) = tm_timers s"
  "tm_log (exec GenerateId s) = tm_log s" "tm_log (exec (RecoveryId i) s) = tm_log s"
  "ts_tick (exec GenerateId s) = ts_tick s" "ts_tick (exec (RecoveryId i) s) = ts_tick s"
  by (subst GenerateId_exec RecoveryId_exec, simp)+

text \<open>Operations that ask the clock, arm the timer or post tasks leave the list alone.\<close>

lemma ArmTimer_exec:
  "tm_timers (exec (ArmTimer E) s) = tm_timers s" "ts_tick s \<le> ts_tick (exec (ArmTimer E) s)"
  by (simp_all add: ArmTimer_def CalcNextDelayInternal_def Let_def split: list.split)

lemma ArmTimer_tick: "u \<le> ts_tick s \<Longrightarrow> u \<le> ts_tick (exec (ArmTimer E) s)"
  using ArmTimer_exec(2) order_trans by blast

lemma PostAsyncTask_exec:
  "tm_timers (exec (PostAsyncTask E f) s) = tm_timers s" "ts_tick s \<le> ts_tick (exec (PostAsyncTask E f) s)"
  by (simp_all add: PostAsyncTask_def PostTask_def)

lemma AddInt64_Some:
  assumes "AddInt64 a b = Some c"
  shows "c = a + b" "0 \<le> b \<Longrightarrow> INT64_MIN \<le> c" "b \<le> 600000 \<Longrightarrow> c \<le> INT64_MAX"
  using assms by (auto simp: AddInt64_def INT64_MIN_def INT64_MAX_def split: if_splits)

lemma clamp_interval_bounds: "50 \<le> sint (clamp_interval i)" "sint (clamp_interval i) \<le> 600000"
  by (auto simp: clamp_interval_def MIN_INTERVAL_def MAX_INTERVAL_MS_def)

lemma new_timer_ok:
  assumes "\<not> lt32 (TakeNextTimerId ts) 0" "50 \<le> sint iv" "sint iv \<le> 600000" "AddInt64 a (sint iv) = Some nx"
  shows "timer_ok \<lparr>t_id = TakeNextTimerId ts, t_intervalMs = iv, t_callbackCount = 0, t_repeatCount = r,
      t_nextCallTime = nx, t_callback = cb\<rparr>" "TakeNextTimerId ts \<notin> t_id ` set ts"
proof -
  obtain k where "k < 64" "TakeNextTimerId ts = word_of_nat k" "word_of_nat k \<notin> t_id ` set ts"
    using assms(1) by (cases ts rule: TakeNextTimerId_cases) (auto simp: NONEXISTENT_ID_def)
  then show "timer_ok \<lparr>t_id = TakeNextTimerId ts, t_intervalMs = iv, t_callbackCount = 0, t_repeatCount = r,
      t_nextCallTime = nx, t_callback = cb\<rparr>" "TakeNextTimerId ts \<notin> t_id ` set ts"
    using assms(2,3) AddInt64_Some [OF assms(4)] slot_id(2) [of k] by (simp_all add: timer_ok_def)
qed

text \<open>
  What a request may do to the list, starting when the clock has been asked \<open>u\<close> times: take one
  timer out, and put one in that is due an interval from now.
\<close>

definition takes_one :: "TimerItem list \<Rightarrow> TimerItem list \<Rightarrow> bool" where
  "takes_one ts kept \<longleftrightarrow> kept = ts \<or> (\<exists>i t. take_timer i ts = Some (t, kept))"

definition puts_one :: "'e timer_env_scheme \<Rightarrow> nat \<Rightarrow> TimerItem list \<Rightarrow> TimerItem list \<Rightarrow> bool" where
  "puts_one E u kept ts \<longleftrightarrow> ts = kept \<or> (\<exists>t. ts = InsertTimerInternal t kept \<and> timer_ok t
     \<and> t_id t \<notin> t_id ` set kept \<and> (\<exists>v \<ge> u. t_nextCallTime t = GetMillisTime E v + sint (t_intervalMs t)))"

lemma takes_none [simp]: "takes_one ts ts"
  by (simp add: takes_one_def)

lemma puts_none [simp]: "puts_one E u ts ts"
  by (simp add: puts_one_def)

lemma puts_oneI:
  "timer_ok t \<Longrightarrow> t_id t \<notin> t_id ` set kept \<Longrightarrow> AddInt64 (GetMillisTime E u) (sint (t_intervalMs t)) = Some (t_nextCallTime t)
     \<Longrightarrow> puts_one E u kept (InsertTimerInternal t kept)"
  using AddInt64_Some(1) [of "GetMillisTime E u"] unfolding puts_one_def
  by (intro disjI2 exI [of _ t]) auto

lemma Add_list:
  "puts_one E (ts_tick s) (tm_timers s) (tm_timers (exec (AddTimerInternal E i r c) s))"
  "ts_tick s \<le> ts_tick (exec (AddTimerInternal E i r c) s)"
proof -
  note new = new_timer_ok [OF _ clamp_interval_bounds, of "tm_timers s"]
  show "puts_one E (ts_tick s) (tm_timers s) (tm_timers (exec (AddTimerInternal E i r c) s))"
    using new by (auto simp: AddTimerInternal_def Let_def intro!: puts_oneI split: option.split)
  show "ts_tick s \<le> ts_tick (exec (AddTimerInternal E i r c) s)"
    by (simp add: AddTimerInternal_def Let_def split: option.split)
qed

lemma Reset_list:
  assumes "mgr_ok s"
  shows "\<exists>kept. takes_one (tm_timers s) kept
      \<and> puts_one E (ts_tick s) kept (tm_timers (exec (ResetTimerInternal E i) s))"
    "ts_tick s \<le> ts_tick (exec (ResetTimerInternal E i) s)"
proof -
  show "\<exists>kept. takes_one (tm_timers s) kept
      \<and> puts_one E (ts_tick s) kept (tm_timers (exec (ResetTimerInternal E i) s))"
  proof (cases "take_timer i (tm_timers s)")
    case None
    then show ?thesis
      by (intro exI [of _ "tm_timers s"]) (simp add: ResetTimerInternal_def)
  next
    case (Some a)
    obtain t kept where a: "a = (t, kept)"
      by force
    note t = timers_ok_take [OF assms Some [unfolded a]]
    have "timer_ok (t\<lparr>t_nextCallTime := nx, t_callbackCount := 0\<rparr>)"
      if "AddInt64 now (sint (t_intervalMs t)) = Some nx" for now nx
      using t(2) AddInt64_Some [OF that] by (simp add: timer_ok_def)
    then show ?thesis
      using Some a t(3)
      by (intro exI [of _ kept])
        (auto simp: ResetTimerInternal_def takes_one_def intro!: puts_oneI split: option.split)
  qed
  show "ts_tick s \<le> ts_tick (exec (ResetTimerInternal E i) s)"
    by (simp add: ResetTimerInternal_def split: option.split)
qed

lemma RemoveTimerInternal_list:
  "takes_one (tm_timers s) (tm_timers (exec (RemoveTimerInternal i) s))"
  "ts_tick (exec (RemoveTimerInternal i) s) = ts_tick s"
  by (auto simp: RemoveTimerInternal_def takes_one_def split: option.split)

lemma serve_list:
  assumes "mgr_ok s"
  shows "\<exists>kept. takes_one (tm_timers s) kept \<and> puts_one E (ts_tick s) kept (tm_timers (exec (serve E r) s))"
    "ts_tick s \<le> ts_tick (exec (serve E r) s)"
proof -
  show "\<exists>kept. takes_one (tm_timers s) kept \<and> puts_one E (ts_tick s) kept (tm_timers (exec (serve E r) s))"
  proof (cases r)
    case AddReq
    then show ?thesis
      using Add_list(1) by (intro exI [of _ "tm_timers s"]) (simp add: OnAddTimer_def ArmTimer_exec)
  next
    case (RemoveReq i)
    then show ?thesis
      using RemoveTimerInternal_list(1) [of s i]
      by (intro exI [of _ "tm_timers (exec (RemoveTimerInternal i) s)"]) (simp add: OnRemoveTimer_def ArmTimer_exec)
  next
    case ResetReq
    then show ?thesis
      using Reset_list(1) [OF assms] by (simp add: OnResetTimer_def ArmTimer_exec)
  qed
  show "ts_tick s \<le> ts_tick (exec (serve E r) s)"
    by (cases r) (simp_all add: Add_list(2) Reset_list(2) [OF assms] RemoveTimerInternal_list(2) OnAddTimer_def OnRemoveTimer_def OnResetTimer_def ArmTimer_tick)
qed

lemma timers_ok_takes_one: "timers_ok ts \<Longrightarrow> takes_one ts kept \<Longrightarrow> timers_ok kept"
  using timers_ok_take(1) by (auto simp: takes_one_def)

lemma timers_ok_puts_one: "timers_ok kept \<Longrightarrow> puts_one E u kept ts \<Longrightarrow> timers_ok ts"
  using timers_ok_Insert by (auto simp: puts_one_def)

lemma serve_ok: "mgr_ok s \<Longrightarrow> mgr_ok (exec (serve E r) s)"
  using serve_list(1) timers_ok_takes_one timers_ok_puts_one by blast

section \<open>The loop over the due timers ends\<close>

text \<open>
  \<open>rounds p t\<close>: how often a timer can come up while the loop works off what is due at time \<open>p\<close>;
  \<open>lateness\<close> is the sum over the list.
\<close>

definition rounds :: "int \<Rightarrow> TimerItem \<Rightarrow> nat" where
  "rounds p t = (if p < t_nextCallTime t then 0 else nat ((p - t_nextCallTime t) div 50) + 1)"

definition lateness :: "int \<Rightarrow> TimerItem list \<Rightarrow> nat" where
  "lateness p ts = sum_list (map (rounds p) ts)"

lemma lateness_simps [simp]:
  "lateness p [] = 0" "lateness p (t # ts) = rounds p t + lateness p ts"
  "lateness p (ts @ us) = lateness p ts + lateness p us"
  "lateness p (InsertTimerInternal t ts) = rounds p t + lateness p ts"
proof -
  show "lateness p (InsertTimerInternal t ts) = rounds p t + lateness p ts"
    by (induction ts) (simp_all add: lateness_def)
qed (simp_all add: lateness_def)

lemma lateness_takes_one: "takes_one ts kept \<Longrightarrow> lateness p kept \<le> lateness p ts"
  using take_timer_Some by (fastforce simp: takes_one_def)

lemma lateness_puts_one:
  assumes "\<forall>v \<ge> u. p \<le> GetMillisTime E v" "puts_one E u kept ts"
  shows "lateness p ts = lateness p kept"
proof -
  have "rounds p t = 0" if "timer_ok t" "u \<le> v" "t_nextCallTime t = GetMillisTime E v + sint (t_intervalMs t)" for t v
    using that assms(1) by (auto simp: rounds_def timer_ok_def)
  then show ?thesis
    using assms(2) by (auto simp: puts_one_def)
qed

text \<open>Callbacks never make more work for the loop that runs them, as the clock does not go back.\<close>

definition calm :: "int \<Rightarrow> nat \<Rightarrow> nat \<Rightarrow> 's timer_mgr_scheme \<Rightarrow> bool" where
  "calm p u n s \<longleftrightarrow> mgr_ok s \<and> u \<le> ts_tick s \<and> lateness p (tm_timers s) \<le> n"

lemma serve_calm:
  assumes "\<forall>v \<ge> u. p \<le> GetMillisTime E v" "calm p u n s"
  shows "calm p u n (exec (serve E r) s)"
proof -
  have ok: "mgr_ok s" and u: "u \<le> ts_tick s" and n: "lateness p (tm_timers s) \<le> n"
    using assms(2) by (simp_all add: calm_def)
  obtain kept where kept: "takes_one (tm_timers s) kept" "puts_one E (ts_tick s) kept (tm_timers (exec (serve E r) s))"
    using serve_list(1) [OF ok] by blast
  have "lateness p (tm_timers (exec (serve E r) s)) = lateness p kept"
    using lateness_puts_one [OF _ kept(2)] assms(1) u by auto
  then show ?thesis
    using serve_ok [OF ok] serve_list(2) [OF ok, of E r] lateness_takes_one [OF kept(1), of p] u n
    by (simp add: calm_def)
qed

lemma run_callback_calm:
  assumes "\<forall>v \<ge> u. p \<le> GetMillisTime E v"
  shows "keeps_inv (calm p u n) (run_callback E cb :: ('s timer_mgr_scheme, unit) state)"
proof -
  have "keeps_inv (calm p u n) (callback_call E c :: ('s timer_mgr_scheme, unit) state)" for c
  proof (cases c)
    case (SyncCall r)
    then show ?thesis
      by (simp add: keeps_inv_def serve_calm [OF assms])
  next
    case (AsyncCall r)
    then show ?thesis
      by (simp add: keeps_inv_def calm_def PostAsyncTask_exec(1))
        (meson PostAsyncTask_exec(2) order_trans)
  qed
  moreover have "keeps_inv (calm p u n) (logs c :: ('s timer_mgr_scheme, unit) state)"
    "keeps_inv (calm p u n) (asks q :: ('s timer_mgr_scheme, 'b) state)" for c and q :: "nat \<Rightarrow> 'b"
    by (auto simp: keeps_inv_def calm_def)
  ultimately show ?thesis
    unfolding run_callback_def by (intro keeps)
qed

lemma count_Suc:
  assumes "timer_ok t" "1 \<le> sint (t_repeatCount t)"
  shows "sint (t_callbackCount t + 1) = sint (t_callbackCount t) + 1"
proof -
  have "sint (t_repeatCount t) < 2147483648"
    using sint_lt [of "t_repeatCount t"] by simp
  then have "signed_take_bit 31 (sint (t_callbackCount t) + 1) = sint (t_callbackCount t) + 1"
    using assms by (intro signed_take_bit_int_eq_self) (simp_all add: timer_ok_def)
  then show ?thesis
    by (simp add: sint_word_ariths)
qed

lemma next_round_ok:
  assumes "timer_ok t" "\<not> (le32 1 (t_repeatCount t) \<and> le32 (t_repeatCount t) (t_callbackCount t + 1))"
    and "AddInt64 (t_nextCallTime t) (sint (t_intervalMs t)) = Some nx"
  shows "timer_ok (t\<lparr>t_callbackCount := t_callbackCount t + 1, t_nextCallTime := nx\<rparr>)"
    "nx = t_nextCallTime t + sint (t_intervalMs t)"
  using assms count_Suc [OF assms(1)] AddInt64_Some [OF assms(3)] by (auto simp: timer_ok_def)

lemma rounds_next:
  assumes "timer_ok t" "t_nextCallTime t \<le> p"
    and "t_nextCallTime t' = t_nextCallTime t + sint (t_intervalMs t)"
  shows "rounds p t' < rounds p t"
proof (cases "p < t_nextCallTime t'")
  case True
  then show ?thesis using assms(2) by (simp add: rounds_def)
next
  case False
  have "(p - t_nextCallTime t') div 50 \<le> (p - t_nextCallTime t - 50) div 50"
    using assms(1,3) by (intro zdiv_mono1) (simp_all add: timer_ok_def)
  also have "\<dots> = (p - t_nextCallTime t) div 50 - 1"
    by simp
  finally show ?thesis
    using False assms(2,3) by (simp add: rounds_def)
qed

lemma AddInt64_in_time:
  assumes "timer_ok t" "t_nextCallTime t \<le> p" "p + 600000 \<le> INT64_MAX"
  shows "AddInt64 (t_nextCallTime t) (sint (t_intervalMs t)) \<noteq> None"
  using assms by (auto simp: AddInt64_def timer_ok_def)

text \<open>The end state: nothing is due any more, unless a time has left the range of its type.\<close>

definition worked_off :: "int \<Rightarrow> 's timer_mgr_scheme \<Rightarrow> bool" where
  "worked_off p s \<longleftrightarrow> mgr_ok s \<and> (p + 600000 \<le> INT64_MAX \<longrightarrow> (\<forall>t \<in> set (tm_timers s). p < t_nextCallTime t))"

lemma process_loop_ends:
  assumes "\<forall>v \<ge> u. p \<le> GetMillisTime E v" "calm p u n s"
  shows "result_of (process_loop E p (Suc n)) s \<and> worked_off p (exec (process_loop E p (Suc n)) s)"
  using assms(2)
proof (induction n arbitrary: s rule: less_induct)
  case (less n)
  have ok: "mgr_ok s" and u: "u \<le> ts_tick s" and n: "lateness p (tm_timers s) \<le> n"
    using less.prems by (simp_all add: calm_def)
  show ?case
  proof (cases "tm_timers s")
    case Nil
    then show ?thesis using ok by (simp add: worked_off_def)
  next
    case (Cons t rest)
    have t: "timer_ok t" "t_id t \<notin> t_id ` set rest" "\<forall>v \<in> set rest. t_nextCallTime t \<le> t_nextCallTime v" "timers_ok rest"
      using ok Cons by (simp_all add: timers_ok_Cons)
    show ?thesis
    proof (cases "p < t_nextCallTime t")
      case True
      then show ?thesis using ok t(3) Cons by (auto simp: worked_off_def)
    next
      case False
      then have due: "t_nextCallTime t \<le> p" "0 < rounds p t"
        by (simp_all add: rounds_def)
      then obtain m where m: "n = Suc m" "lateness p rest + (rounds p t - 1) \<le> m"
        using n Cons by (cases n) simp_all
      note step = process_loop.simps(2) [of E p n]
      note cb = keeps_invD [OF run_callback_calm [OF assms(1)], of m _ "t_callback t"]
      show ?thesis
      proof (cases "le32 1 (t_repeatCount t) \<and> le32 (t_repeatCount t) (t_callbackCount t + 1)")
        case True
        let ?s = "exec (run_callback E (t_callback t)) (s\<lparr>tm_timers := rest\<rparr>)"
        have "calm p u m ?s"
          using t(4) u m(2) by (intro cb) (simp add: calm_def)
        with less.IH [of m] have "result_of (process_loop E p n) ?s \<and> worked_off p (exec (process_loop E p n) ?s)"
          by (simp only: m(1) lessI)
        then show ?thesis
          using Cons False True by (simp add: step Let_def del: process_loop.simps)
      next
        case more: False
        show ?thesis
        proof (cases "AddInt64 (t_nextCallTime t) (sint (t_intervalMs t))")
          case None
          then show ?thesis
            using Cons False more t(4) AddInt64_in_time [OF t(1) due(1)]
            by (auto simp: Let_def worked_off_def)
        next
          case (Some nx)
          let ?t = "t\<lparr>t_callbackCount := t_callbackCount t + 1, t_nextCallTime := nx\<rparr>"
          let ?s = "exec (run_callback E (t_callback t)) (s\<lparr>tm_timers := InsertTimerInternal ?t rest\<rparr>)"
          note nx = next_round_ok [OF t(1) more Some]
          have "rounds p ?t < rounds p t"
            using rounds_next [OF t(1) due(1)] nx(2) by simp
          then have "calm p u m ?s"
            using timers_ok_Insert [OF t(4) nx(1)] t(2) u m(2) by (intro cb) (simp add: calm_def)
          with less.IH [of m] have "result_of (process_loop E p n) ?s \<and> worked_off p (exec (process_loop E p n) ?s)"
            by (simp only: m(1) lessI)
          then show ?thesis
            using Cons False more Some by (auto simp add: step Let_def simp del: process_loop.simps)
        qed
      qed
    qed
  qed
qed

section \<open>The list along every run\<close>

lemma scheduler_keeps_timers:
  "tm_timers (exec (PostTask E f pr) s) = tm_timers s" "tm_timers (exec (wait_ends E q) s) = tm_timers s"
  "tm_timers (exec (pop_tasks n) s) = tm_timers s" "tm_timers (exec task_finish s) = tm_timers s"
  by (simp_all add: PostTask_def wait_ends_def task_finish_def split: option.split)
    (induction n arbitrary: s; simp split: list.split)

lemma callback_ok: "keeps_inv mgr_ok (run_callback E cb :: ('s timer_mgr_scheme, unit) state)"
proof -
  have "keeps_inv mgr_ok (callback_call E c :: ('s timer_mgr_scheme, unit) state)" for c
    by (cases c) (simp_all add: keeps_inv_def serve_ok PostAsyncTask_exec)
  moreover have "keeps_inv mgr_ok (logs c :: ('s timer_mgr_scheme, unit) state)"
    "keeps_inv mgr_ok (asks q :: ('s timer_mgr_scheme, 'b) state)" for c and q :: "nat \<Rightarrow> 'b"
    by (auto simp: keeps_inv_def)
  ultimately show ?thesis
    unfolding run_callback_def by (intro keeps)
qed

lemma loop_ok: "keeps_inv mgr_ok (process_loop E p n :: ('s timer_mgr_scheme, bool) state)"
proof (induction n)
  case (Suc n)
  show ?case
  proof (rule keeps_invI)
    fix s :: "'s timer_mgr_scheme"
    assume ok: "mgr_ok s"
    show "mgr_ok (exec (process_loop E p (Suc n)) s)"
    proof (cases "tm_timers s")
      case Nil
      then show ?thesis using ok by simp
    next
      case (Cons t rest)
      have t: "timer_ok t" "t_id t \<notin> t_id ` set rest" "timers_ok rest"
        using ok Cons by (simp_all add: timers_ok_Cons)
      note go = keeps_invD [OF Suc] keeps_invD [OF callback_ok]
      have "timers_ok (InsertTimerInternal (t\<lparr>t_callbackCount := t_callbackCount t + 1, t_nextCallTime := nx\<rparr>) rest)"
        if "\<not> (le32 1 (t_repeatCount t) \<and> le32 (t_repeatCount t) (t_callbackCount t + 1))"
          "AddInt64 (t_nextCallTime t) (sint (t_intervalMs t)) = Some nx" for nx
        using timers_ok_Insert [OF t(3) next_round_ok(1) [OF t(1) that]] t(2) by simp
      then show ?thesis
        using ok Cons t(3) by (auto simp: Let_def intro!: go split: option.split)
    qed
  qed
qed (simp add: keeps)

lemma tasks_ok: "keeps_inv mgr_ok (run_timer_task E n f :: ('s timer_mgr_scheme, i32) state)"
proof (cases f)
  case (Request r)
  then show ?thesis by (simp add: keeps_inv_def serve_ok)
next
  case Process
  have "keeps_inv mgr_ok (ProcessTimersInternal E n :: ('s timer_mgr_scheme, bool) state)"
    unfolding ProcessTimersInternal_def by (intro keeps loop_ok) (simp add: keeps_inv_def)
  then show ?thesis
    using Process by (simp add: keeps_inv_def OnProcessTimers_def ArmTimer_exec)
qed (simp_all add: keeps_inv_def OnIsExist_def tm_OnInit_def)

lemmas task_ok = keeps_invD [OF tasks_ok]

lemma sched_step_timers: "keeps_inv mgr_ok (sched_step E (run_timer_task E n) st :: ('s timer_mgr_scheme, unit) state)"
proof (rule keeps_invI)
  fix s :: "'s timer_mgr_scheme"
  assume ok: "mgr_ok s"
  show "mgr_ok (exec (sched_step E (run_timer_task E n) st) s)"
  proof (cases st)
    case (CallSync w f)
    then show ?thesis
      using ok by (simp add: PostSyncTask_def scheduler_keeps_timers task_ok split: option.split)
  next
    case WorkerTurn
    then show ?thesis
      using ok by (auto simp: task_ok worker_turn_def scheduler_keeps_timers task_start_def PopPendingTaskList_def split: list.split)
  qed (simp_all add: ok PostAsyncTask_exec scheduler_keeps_timers)
qed

lemma timers_ok_length:
  assumes "timers_ok ts"
  shows "length ts \<le> 64"
proof -
  have inj: "inj_on (\<lambda>i. sint i) (t_id ` set ts)"
    by (auto simp: inj_on_def sint_eq_iff)
  have "length ts = card (t_id ` set ts)"
    using assms distinct_card [of "map t_id ts"] by (simp add: timers_ok_def)
  also have "\<dots> = card (sint ` t_id ` set ts)"
    using card_image [OF inj] by simp
  also have "\<dots> \<le> card {0..<64 :: int}"
    using assms by (intro card_mono) (auto simp: timers_ok_def list_all_iff timer_ok_def)
  finally show ?thesis
    by simp
qed

section \<open>Properties\<close>

lemma new_timer_mgr_ok: "worker_ok new_timer_mgr" "mgr_ok new_timer_mgr"
  by (simp_all add: new_timer_mgr_def new_scheduler_def scheduler.defs timer_mgr.defs worker_ok_def books_ok_def
      pending_def timers_ok_def)

lemma timer_run_ok:
  "worker_ok (exec (for_each sts (sched_step E (run_timer_task E n))) new_timer_mgr)"
  "mgr_ok (exec (for_each sts (sched_step E (run_timer_task E n))) new_timer_mgr)"
  using keeps_invD [OF tms.runs_ok new_timer_mgr_ok(1)]
    keeps_invD [OF keeps_inv_for_each [OF sched_step_timers] new_timer_mgr_ok(2)] by auto

text \<open>
  C26. Along every run, whatever other threads call, whenever their patience ends, whatever the
  callbacks ask for and whatever the clock shows: the list of timers is ordered by the time of
  the next call, no id is used twice, there are at most 64 timers, and every caller that waits
  has a task in the scheduler or its result, of which there is one at most.
\<close>

theorem timers_well_formed:
  "let s = exec (for_each sts (sched_step E (run_timer_task E n))) new_timer_mgr in
     sorted (map t_nextCallTime (tm_timers s)) \<and> distinct (map t_id (tm_timers s)) \<and> length (tm_timers s) \<le> 64
     \<and> distinct (map fst (ts_results s))
     \<and> set (ts_waiting s) \<subseteq> set (promises (pending s)) \<union> fst ` set (ts_results s)"
  using timer_run_ok [of sts E n] timers_ok_length
  by (auto simp: Let_def timers_ok_def worker_ok_def books_ok_def)

text \<open>
  C25. Nobody waits for the worker in vain: from any state of any run, a caller that waits has its
  result after at most three turns of the worker per task, its own included, that is ahead of it.
\<close>

theorem waiting_callers_served:
  fixes s :: timer_mgr
  assumes "s = exec (for_each sts (sched_step E (run_timer_task E n))) new_timer_mgr" "p \<in> set (ts_waiting s)"
  shows "\<exists>k \<le> 3 * length (pending s).
    \<exists>r. map_of (ts_results (exec (worker_turns (run_timer_task E n) k) s)) p = Some r"
proof -
  have "worker_ok s"
    using timer_run_ok(1) assms(1) by simp
  from tms.callers_served [OF this assms(2), of E n] show ?thesis
    by (metis (no_types, lifting) list.set_map map_of_eq_None_iff not_None_eq)
qed

definition sample_timer_env :: timer_env where
  "sample_timer_env = \<lparr>pipe_write_ok = (\<lambda>_. True), SERVICE_ERR_OFFSET = 100, GetMillisTime = (\<lambda>i. 1000 + 10 * int i),
     timerfd_create_ret = (\<lambda>_. 5), timerfd_settime_ret = (\<lambda>_. 0), callback_does = (\<lambda>_ _. [])\<rparr>"

definition sample_timer_mgr :: timer_mgr where
  "sample_timer_mgr = new_timer_mgr\<lparr>tm_timers :=
     [\<lparr>t_id = 3, t_intervalMs = 50, t_callbackCount = 0, t_repeatCount = 0, t_nextCallTime = 900, t_callback = 7\<rparr>]\<rparr>"

lemma sample_timer_simps [simp]:
  "ts_tick sample_timer_mgr = 0" "GetMillisTime sample_timer_env i = 1000 + 10 * int i"
  "callback_does sample_timer_env i c = []"
  "tm_timers sample_timer_mgr =
     [\<lparr>t_id = 3, t_intervalMs = 50, t_callbackCount = 0, t_repeatCount = 0, t_nextCallTime = 900, t_callback = 7\<rparr>]"
  by (simp_all add: sample_timer_mgr_def sample_timer_env_def new_timer_mgr_def new_scheduler_def scheduler.defs
      timer_mgr.defs)

theorem waiting_callers_served_witness:
  "\<exists>k r. map_of (ts_results (exec (worker_turns (run_timer_task sample_timer_env 1) k)
      (exec (for_each [CallSync False (Request (AddReq 100 1 (Some 7)))]
        (sched_step sample_timer_env (run_timer_task sample_timer_env 1))) new_timer_mgr))) 0 = Some r"
proof -
  have "0 \<in> set (ts_waiting (exec (for_each [CallSync False (Request (AddReq 100 1 (Some 7)))]
      (sched_step sample_timer_env (run_timer_task sample_timer_env 1))) new_timer_mgr))"
    by (simp add: PostSyncTask_def PostTask_def GenerateId_def maxTasksLimit_def sample_timer_env_def
        new_timer_mgr_def new_scheduler_def scheduler.defs timer_mgr.defs)
  from waiting_callers_served [OF refl this] show ?thesis
    by blast
qed

text \<open>
  C23. A round over the due timers ends, whatever the callbacks add, remove and reset, as long as the
  clock does not go back and is ten minutes short of the end of its 64 bits; and then no timer in the list is due any more. It takes no more turns
  than, for each due timer, one and one more for every 50 ms (the shortest interval there is) that
  it is late, whatever its own interval.
\<close>

theorem due_timers_worked_off:
  assumes "timers_ok (tm_timers s)" "\<forall>i j. i \<le> j \<longrightarrow> GetMillisTime E i \<le> GetMillisTime E j"
    and "present = GetMillisTime E (ts_tick s)" "present + 600000 \<le> 9223372036854775807"
    and "lateness present (tm_timers s) < n" "s' = exec (ProcessTimersInternal E n) s"
  shows "result_of (ProcessTimersInternal E n) s \<and> (\<forall>t \<in> set (tm_timers s'). present < t_nextCallTime t)"
proof -
  obtain m where m: "n = Suc m" "lateness present (tm_timers s) \<le> m"
    using assms(5) by (cases n) auto
  let ?s = "s\<lparr>ts_tick := Suc (ts_tick s)\<rparr>"
  have clock: "\<forall>v \<ge> Suc (ts_tick s). present \<le> GetMillisTime E v"
    using assms(2,3) by auto
  have calm: "calm present (Suc (ts_tick s)) m ?s"
    using assms(1) m(2) by (simp add: calm_def)
  show ?thesis
    using process_loop_ends [OF clock calm] assms(3,4,6) m(1)
    by (auto simp: ProcessTimersInternal_def worked_off_def INT64_MAX_def simp del: process_loop.simps)
qed

theorem due_timers_worked_off_witness:
  "result_of (ProcessTimersInternal sample_timer_env 9) sample_timer_mgr
   \<and> list_all (\<lambda>t. 1000 < t_nextCallTime t) (tm_timers (exec (ProcessTimersInternal sample_timer_env 9) sample_timer_mgr))"
  unfolding list_all_iff
  by (rule due_timers_worked_off)
    (simp_all add: timers_ok_def timer_ok_def INT64_MIN_def INT64_MAX_def lateness_def rounds_def)

section \<open>How often a timer fires\<close>

text \<open>The calls of a timer that have come up at time \<open>p\<close>, and whether these are all it has left.\<close>

definition due :: "int \<Rightarrow> TimerItem \<Rightarrow> nat" where
  "due p t =
     (if p < t_nextCallTime t then 0
      else let k = nat ((p - t_nextCallTime t) div sint (t_intervalMs t)) + 1 in
        if 1 \<le> sint (t_repeatCount t) then min k (nat (sint (t_repeatCount t) - sint (t_callbackCount t))) else k)"

definition spent :: "int \<Rightarrow> TimerItem \<Rightarrow> bool" where
  "spent p t \<longleftrightarrow> 1 \<le> sint (t_repeatCount t) \<and> sint (t_repeatCount t) - sint (t_callbackCount t) \<le> int (due p t)"

lemma due_last:
  assumes "timer_ok t" "t_nextCallTime t \<le> p" "le32 1 (t_repeatCount t)" "le32 (t_repeatCount t) (t_callbackCount t + 1)"
  shows "due p t = 1" "spent p t"
proof -
  have left: "sint (t_repeatCount t) - sint (t_callbackCount t) = 1"
    using assms count_Suc [OF assms(1)] by (simp add: timer_ok_def)
  have "0 \<le> (p - t_nextCallTime t) div sint (t_intervalMs t)"
    using assms(1,2) by (intro pos_imp_zdiv_nonneg_iff [THEN iffD2]) (simp_all add: timer_ok_def)
  then show "due p t = 1"
    using left assms(2,3) by (simp add: due_def Let_def)
  then show "spent p t"
    using left assms(3) by (simp add: spent_def)
qed

lemma due_more:
  assumes "timer_ok t" "t_nextCallTime t \<le> p" "\<not> (le32 1 (t_repeatCount t) \<and> le32 (t_repeatCount t) (t_callbackCount t + 1))"
    and "t' = t\<lparr>t_callbackCount := t_callbackCount t + 1, t_nextCallTime := t_nextCallTime t + sint (t_intervalMs t)\<rparr>"
  shows "due p t = Suc (due p t')" "spent p t' = spent p t"
proof -
  let ?d = "p - t_nextCallTime t" and ?i = "sint (t_intervalMs t)"
  have i: "0 < ?i"
    using assms(1) by (simp add: timer_ok_def)
  have step: "(if p < t_nextCallTime t' then 0 else nat ((p - t_nextCallTime t') div ?i) + 1) = nat (?d div ?i)"
  proof (cases "?d < ?i")
    case True
    then show ?thesis using assms(2,4) by simp
  next
    case False
    have "(?d - ?i) div ?i = ?d div ?i - 1"
      using i div_add_self2 [of ?i "?d - ?i"] by simp
    moreover have "1 \<le> ?d div ?i"
      using False i by (simp add: pos_imp_zdiv_pos_iff int_one_le_iff_zero_less)
    ultimately show ?thesis
      using False assms(4) by (simp add: algebra_simps)
  qed
  have left: "nat (sint (t_repeatCount t) - sint (t_callbackCount t))
      = Suc (nat (sint (t_repeatCount t) - sint (t_callbackCount t')))"
    if "1 \<le> sint (t_repeatCount t)"
    using assms count_Suc [OF assms(1) that] that by (simp add: timer_ok_def)
  show due: "due p t = Suc (due p t')"
    using step left assms(2,4) by (auto simp: due_def Let_def split: if_splits)
  show "spent p t' = spent p t"
    using due assms(3,4) count_Suc [OF assms(1)] by (auto simp: spent_def)
qed

lemma due_none: "p < t_nextCallTime t \<Longrightarrow> timer_ok t \<Longrightarrow> due p t = 0 \<and> \<not> spent p t"
  by (auto simp: due_def spent_def timer_ok_def)

text \<open>The calls of a callback that are due, over a list of timers, and the timers with calls left.\<close>

definition due_calls :: "int \<Rightarrow> nat \<Rightarrow> TimerItem list \<Rightarrow> nat" where
  "due_calls p c ts = sum_list (map (\<lambda>t. if t_callback t = c then due p t else 0) ts)"

definition left_over :: "int \<Rightarrow> TimerItem list \<Rightarrow> i32 set" where
  "left_over p ts = {t_id t |t. t \<in> set ts \<and> \<not> spent p t}"

lemma due_calls_simps [simp]:
  "due_calls p c [] = 0"
  "due_calls p c (t # ts) = (if t_callback t = c then due p t else 0) + due_calls p c ts"
  "due_calls p c (InsertTimerInternal t ts) = (if t_callback t = c then due p t else 0) + due_calls p c ts"
proof -
  show "due_calls p c (InsertTimerInternal t ts) = (if t_callback t = c then due p t else 0) + due_calls p c ts"
    by (induction ts) (simp_all add: due_calls_def)
qed (simp_all add: due_calls_def)

lemma left_over_simps [simp]:
  "left_over p [] = {}"
  "left_over p (t # ts) = (if spent p t then left_over p ts else insert (t_id t) (left_over p ts))"
  "left_over p (InsertTimerInternal t ts) = left_over p (t # ts)"
  by (auto simp: left_over_def)

lemma nothing_due:
  assumes "\<forall>t \<in> set ts. p < t_nextCallTime t" "list_all timer_ok ts"
  shows "due_calls p c ts = 0" "left_over p ts = t_id ` set ts"
  using assms due_none by (induction ts) auto

lemma process_loop_fires:
  fixes s :: "'s timer_mgr_scheme"
  assumes "\<forall>i c. callback_does E i c = []" "p + 600000 \<le> INT64_MAX"
    and "mgr_ok s" "lateness p (tm_timers s) \<le> n"
  shows "\<exists>fs. tm_log (exec (process_loop E p (Suc n)) s) = tm_log s @ map Fired fs
      \<and> (\<forall>c. count_list fs c = due_calls p c (tm_timers s))
      \<and> t_id ` set (tm_timers (exec (process_loop E p (Suc n)) s)) = left_over p (tm_timers s)"
  using assms(3,4)
proof (induction n arbitrary: s rule: less_induct)
  case (less n)
  have cb: "exec (run_callback E c) u = u\<lparr>tm_log := tm_log u @ [Fired c], ts_tick := Suc (ts_tick u)\<rparr>"
    for c and u :: "'s timer_mgr_scheme"
    using assms(1) by (simp add: run_callback_def)
  show ?case
  proof (cases "tm_timers s")
    case Nil
    then show ?thesis by simp
  next
    case (Cons t rest)
    have t: "timer_ok t" "t_id t \<notin> t_id ` set rest" "\<forall>v \<in> set rest. t_nextCallTime t \<le> t_nextCallTime v" "timers_ok rest"
      using less.prems(1) Cons by (simp_all add: timers_ok_Cons)
    show ?thesis
    proof (cases "p < t_nextCallTime t")
      case True
      then have "\<forall>v \<in> set (tm_timers s). p < t_nextCallTime v"
        using t(3) Cons by auto
      then show ?thesis
        using nothing_due [of "tm_timers s" p] less.prems(1) True Cons
        by (auto simp: timers_ok_def intro!: exI [of _ "[]"])
    next
      case False
      then have due: "t_nextCallTime t \<le> p" "0 < rounds p t"
        by (simp_all add: rounds_def)
      then obtain m where m: "n = Suc m" "lateness p rest + (rounds p t - 1) \<le> m"
        using less.prems(2) Cons by (cases n) simp_all
      note step = process_loop.simps(2) [of E p n]
      show ?thesis
      proof (cases "le32 1 (t_repeatCount t) \<and> le32 (t_repeatCount t) (t_callbackCount t + 1)")
        case True
        let ?u = "s\<lparr>tm_timers := rest, tm_log := tm_log s @ [Fired (t_callback t)], ts_tick := Suc (ts_tick s)\<rparr>"
        note last = due_last [OF t(1) due(1)]
        have "exec (process_loop E p (Suc n)) s = exec (process_loop E p n) ?u"
          using Cons False True cb by (simp add: step Let_def del: process_loop.simps)
        moreover obtain fs where "tm_log (exec (process_loop E p n) ?u) = tm_log ?u @ map Fired fs"
            "\<forall>c. count_list fs c = due_calls p c rest"
            "t_id ` set (tm_timers (exec (process_loop E p n) ?u)) = left_over p rest"
          using less.IH [of m ?u] t(4) m by (auto simp del: process_loop.simps)
        ultimately show ?thesis
          using Cons last True by (intro exI [of _ "t_callback t # fs"]) (simp del: process_loop.simps)
      next
        case more: False
        obtain nx where nx: "AddInt64 (t_nextCallTime t) (sint (t_intervalMs t)) = Some nx"
          using AddInt64_in_time [OF t(1) due(1) assms(2)] by auto
        let ?t = "t\<lparr>t_callbackCount := t_callbackCount t + 1, t_nextCallTime := nx\<rparr>"
        let ?u = "s\<lparr>tm_timers := InsertTimerInternal ?t rest, tm_log := tm_log s @ [Fired (t_callback t)],
            ts_tick := Suc (ts_tick s)\<rparr>"
        note next_ok = next_round_ok [OF t(1) more nx]
        note again = due_more [OF t(1) due(1) more, of ?t]
        have "rounds p ?t < rounds p t"
          using rounds_next [OF t(1) due(1)] next_ok(2) by simp
        then have "lateness p (tm_timers ?u) \<le> m"
          using m(2) by simp
        moreover have "exec (process_loop E p (Suc n)) s = exec (process_loop E p n) ?u"
          using Cons False more nx cb by (auto simp: step Let_def simp del: process_loop.simps)
        moreover have "timers_ok (InsertTimerInternal ?t rest)"
          using timers_ok_Insert [OF t(4) next_ok(1)] t(2) by simp
        ultimately obtain fs where "tm_log (exec (process_loop E p (Suc n)) s) = tm_log ?u @ map Fired fs"
            "\<forall>c. count_list fs c = due_calls p c (InsertTimerInternal ?t rest)"
            "t_id ` set (tm_timers (exec (process_loop E p (Suc n)) s)) = left_over p (InsertTimerInternal ?t rest)"
          using less.IH [of m ?u] m by (auto simp del: process_loop.simps)
        then show ?thesis
          using Cons again next_ok(2) by (intro exI [of _ "t_callback t # fs"]) (auto simp del: process_loop.simps)
      qed
    qed
  qed
qed

text \<open>
  C24. Timers fire as often as they are due: a round over the due timers, with callbacks that ask
  nothing of the timer manager, runs each callback once for every interval that has passed since
  its timer's next call was due, late calls made up for, but never more often than the repeat
  count allows; the timers that are left are those with calls to come.
\<close>

theorem timers_fire_as_due:
  assumes "timers_ok (tm_timers s)" "\<forall>i c. callback_does E i c = []" "present = GetMillisTime E (ts_tick s)"
    and "present + 600000 \<le> 9223372036854775807" "lateness present (tm_timers s) < n"
    and "s' = exec (ProcessTimersInternal E n) s"
  shows "\<exists>fs. tm_log s' = tm_log s @ map Fired fs
    \<and> (\<forall>c. count_list fs c = (\<Sum>t\<leftarrow>tm_timers s. if t_callback t = c then due present t else 0))
    \<and> t_id ` set (tm_timers s') = {t_id t |t. t \<in> set (tm_timers s) \<and> \<not> spent present t}"
proof -
  obtain m where m: "n = Suc m" "lateness present (tm_timers s) \<le> m"
    using assms(5) by (cases n) auto
  have "\<exists>fs. tm_log s' = tm_log s @ map Fired fs \<and> (\<forall>c. count_list fs c = due_calls present c (tm_timers s))
      \<and> t_id ` set (tm_timers s') = left_over present (tm_timers s)"
    using process_loop_fires [OF assms(2), of present "s\<lparr>ts_tick := Suc (ts_tick s)\<rparr>" m] assms m
    by (auto simp: ProcessTimersInternal_def INT64_MAX_def simp del: process_loop.simps)
  then show ?thesis
    by (simp add: due_calls_def left_over_def)
qed

theorem timers_fire_as_due_witness:
  "\<exists>fs. tm_log (exec (ProcessTimersInternal sample_timer_env 9) sample_timer_mgr) = tm_log sample_timer_mgr @ map Fired fs
    \<and> count_list fs 7 = 3"
  using timers_fire_as_due [of sample_timer_mgr sample_timer_env 1000 9]
  by (fastforce simp: timers_ok_def timer_ok_def INT64_MIN_def INT64_MAX_def lateness_def rounds_def due_def)

end
