(* ===== verification/Service_World.thy ===== *)
theory Service_World
  imports Effects Stream_Buffer Coop_Events
begin

text \<open>
  What is outside the drag service and the socket sessions: the kernel's sockets, the input
  service, the display manager, the timers and the task queue of the process, the cryptographic
  library, the system parameters, the access tokens, and the renderer of the drag window
  (drag_drawing.cpp), of which only the flag \<open>isRunning\<close> is modelled. Their answers are the
  functions of the record \<open>senv\<close>, which depend on a clock that every question advances; what
  the service tells them is the list of commands \<open>sv_log\<close>.
\<close>

section \<open>Answers of the kernel and kinds of callers\<close>

datatype send_answer = SentBytes nat | TryAgain | SendError

datatype recv_answer = Received nat | RecvInterrupted | RecvWouldBlock | RecvFailed | RecvEof

datatype token_kind = KIND_HAP | KIND_NATIVE | KIND_SHELL | KIND_OTHER

section \<open>Data handed to the input service\<close>

record ExtraData =
  xd_buffer :: "8 word list"
  xd_sourceType :: i32
  xd_pointerId :: i32
  xd_appended :: bool
  xd_pullId :: i32
  xd_drawCursor :: bool
  xd_eventId :: i32

text \<open>The part of a pointer event and of a key event that the drag service reads.\<close>

record pull_event =
  pe_action :: i32
  pe_sourceType :: i32
  pe_pointerId :: i32
  pe_displayX :: i32
  pe_displayY :: i32
  pe_fixedDisplayX :: i32
  pe_fixedDisplayY :: i32
  pe_fixedAuto :: bool
  pe_targetDisplayId :: i32
  pe_actionTime :: int

record pull_key =
  pk_keyCode :: i32
  pk_items :: "(i32 \<times> bool) list"

section \<open>Commands\<close>

datatype (plugins only: code size) drawing =
    DrawAt i32 i32 i32 bool bool
  | DrawInit bool
  | DrawStyle i32
  | DrawMove i32 i32 i32 int
  | DrawDetach i32
  | DrawWindowDisplay i32
  | DrawShadow
  | DrawSuccess
  | DrawFail bool
  | DrawDestopAnimation i32 string
  | DrawDestroyWindow
  | DrawEraseMouse
  | DrawWindowState bool bool
  | DrawRsScreen u64
  | DrawRTL bool
  | DrawDragState DragState
  | DrawStartExt
  | DrawStopVSync
  | DrawLongPressZoom
  | DrawPreview
  | DrawPreviewAnimated
  | DrawTextEditor bool
  | DrawMultiSelected bool
  | DrawAddPixelMap
  | DrawRotateSync
  | DrawRotateAsync i32
  | DrawScreenRotate i32 i32
  | DrawSetRotation u64 i32
  | DrawRemoveDisplay u64

datatype (plugins only: code size) svc_cmd =
    CloseFd i32
  | SetSockBuf i32 nat
  | EpollOpen
  | EpollClose
  | EpollAdd i32
  | EpollRemove i32
  | SendBytes i32 "char list"
  | TimerSet i32 i32
  | TimerCleared i32
  | MonitorAdded i32
  | MonitorRemoved i32
  | ExtraDataAppended ExtraData
  | PointerVisible bool
  | InputSimulated pull_event
  | NonceDelivered string
  | PrivilegeAdded string i32
  | WindowRaised i32
  | StateCallback DragState
  | PullUpCallback bool
  | CrossDragCallback bool
  | CommonEventSubscribed
  | AbilitySubscribed string
  | Drawing drawing

section \<open>The environment\<close>

record senv =
  SocketPair :: "nat \<Rightarrow> (i32 \<times> i32) option"
  SetSockOpt_ok :: "nat \<Rightarrow> i32 \<Rightarrow> bool"
  EpollOpen_ok :: "nat \<Rightarrow> bool"
  EpollAdd_ok :: "nat \<Rightarrow> i32 \<Rightarrow> bool"
  SendCall :: "nat \<Rightarrow> i32 \<Rightarrow> char list \<Rightarrow> send_answer"
  NewTimer :: "nat \<Rightarrow> i32"
  PostAsync :: "nat \<Rightarrow> i32"
  PostSync :: "nat \<Rightarrow> i32"
  NewMonitor :: "nat \<Rightarrow> i32"
  AppendExtraData_ret :: "nat \<Rightarrow> i32"
  DeliverNonce_ret :: "nat \<Rightarrow> string \<Rightarrow> i32"
  HasLocalPointer :: "nat \<Rightarrow> bool"
  InputHasPointer :: "nat \<Rightarrow> bool"
  AddPrivilege_ret :: "nat \<Rightarrow> string \<Rightarrow> i32 \<Rightarrow> i32"
  RandBytes :: "nat \<Rightarrow> char list option"
  SteadyMs :: "nat \<Rightarrow> u64"
  HMAC_SHA384 :: "char list \<Rightarrow> char list \<Rightarrow> char list"
  EncodeBlock :: "char list \<Rightarrow> string"
  DecodeBase64 :: "string \<Rightarrow> char list"
  FormatDouble :: "u64 \<Rightarrow> string"
  FloatEq :: "u32 \<Rightarrow> u32 \<Rightarrow> bool"
  FloatClose :: "u32 \<Rightarrow> u32 \<Rightarrow> bool"
  DisplayOf :: "nat \<Rightarrow> i32 \<Rightarrow> (string \<times> u64) option"
  Foldable :: "nat \<Rightarrow> bool"
  SystemParameter :: "nat \<Rightarrow> string \<Rightarrow> string"
  PixelMapSize :: "nat \<Rightarrow> i32 \<times> i32"
  DrawInit_ret :: "nat \<Rightarrow> i32"
  Draw_ret :: "nat \<Rightarrow> drawing \<Rightarrow> i32"
  AllowDrag :: "nat \<Rightarrow> bool"
  RotationOf :: "nat \<Rightarrow> u64 \<Rightarrow> i32"
  TokenFlag :: "nat \<Rightarrow> i32 \<Rightarrow> token_kind"
  HapBundleName :: "nat \<Rightarrow> i32 \<Rightarrow> string option"
  NativeProcessName :: "nat \<Rightarrow> i32 \<Rightarrow> string option"
  SystemApp :: "nat \<Rightarrow> u64 \<Rightarrow> bool"
  CollaborationName :: string
  MSG_SEND_FAIL :: i32
  SamgrPresent :: "nat \<Rightarrow> bool"
  MOUSE :: i32
  TOUCHSCREEN :: i32
  ACTION_MOVE :: i32
  ACTION_PULL_MOVE :: i32
  ACTION_PULL_UP :: i32
  ACTION_PULL_CANCEL :: i32
  ACTION_PULL_IN_WINDOW :: i32
  KEY_ESCAPE :: i32
  KEY_CTRL_LEFT :: i32
  KEY_CTRL_RIGHT :: i32

section \<open>The shared part of the state\<close>

record svc =
  sv_clock :: nat
  sv_log :: "svc_cmd list"

definition inquire :: "(nat \<Rightarrow> 'a) \<Rightarrow> ('s svc_scheme, 'a) state" where
  "inquire q = do { t \<leftarrow> gets sv_clock; modify (\<lambda>s. s\<lparr>sv_clock := Suc t\<rparr>); pure (q t) }"

definition tell :: "svc_cmd \<Rightarrow> ('s svc_scheme, unit) state" where
  "tell c = modify (\<lambda>s. s\<lparr>sv_log := sv_log s @ [c]\<rparr>)"

lemma inquire_simps [simp]:
  "result_of (inquire q) s = q (sv_clock s)"
  "exec (inquire q) s = s\<lparr>sv_clock := Suc (sv_clock s)\<rparr>"
  by (simp_all add: inquire_def)

lemma tell_simps [simp]: "exec (tell c) s = s\<lparr>sv_log := sv_log s @ [c]\<rparr>"
  by (simp add: tell_def)

text \<open>
  Views that ignore the clock, and the commands that a predicate does not select.
\<close>

definition timeless :: "('s svc_scheme \<Rightarrow> 'v) \<Rightarrow> bool" where
  "timeless f \<longleftrightarrow> (\<forall>s x. f (s\<lparr>sv_clock := x\<rparr>) = f s)"

definition deaf :: "(svc_cmd \<Rightarrow> bool) \<Rightarrow> ('s svc_scheme \<Rightarrow> 'v) \<Rightarrow> bool" where
  "deaf P f \<longleftrightarrow> (\<forall>s c. P c \<longrightarrow> f (s\<lparr>sv_log := sv_log s @ [c]\<rparr>) = f s)"

lemma inquire_frame [frame]: "timeless f \<Longrightarrow> unchanged f (inquire q)"
  by (simp add: unchanged_def timeless_def)

lemma tell_frame [frame]: "deaf P f \<Longrightarrow> P c \<Longrightarrow> unchanged f (tell c)"
  by (simp add: unchanged_def deaf_def)

end
