(* ===== verification/Sessions.thy ===== *)
theory Sessions
  imports Service_World
begin

text \<open>
  src/intention/ipc/socket/src/socket_session.cpp and socket_session_manager.cpp: the sockets
  over which clients are notified. A \<open>SocketSession\<close> owns its descriptor until it is destroyed,
  so the descriptor names the object: \<open>sm_objects\<close> maps it to the object's fields, and whoever
  holds a pointer to a session holds the descriptor. \<open>sessions_\<close> is the ordered list of the
  descriptors in the table, \<open>callbacks_\<close> the list of the watched processes; the callback is the
  same for all of them (only the drag manager registers one) and is the argument \<open>lost\<close> of the
  operations that report a lost session. Every operation holds the recursive mutex throughout
  and so is one step.
\<close>

section \<open>A session\<close>

record socket_session =
  ses_pid :: i32
  ses_uid :: i32
  ses_tokenType :: i32
  ses_programName :: string

definition SEND_RETRY_LIMIT :: nat where "SEND_RETRY_LIMIT = 32"

definition MAX_PACKET_BUF_SIZE :: nat where "MAX_PACKET_BUF_SIZE = MAX_STREAM_BUF_SIZE"

text \<open>
  The loop of \<open>SendMsg\<close>, by the number of calls it may still make: it ends with success only if
  the rest is empty while there are calls left.
\<close>

primrec send_rest :: "senv \<Rightarrow> i32 \<Rightarrow> nat \<Rightarrow> char list \<Rightarrow> ('s svc_scheme, bool) state" where
  "send_rest E fd 0 rest = pure False"
| "send_rest E fd (Suc k) rest =
     (if rest = [] then pure True
      else do {
        a \<leftarrow> inquire (\<lambda>t. SendCall E t fd rest);
        case a of
          SendError \<Rightarrow> pure False
        | TryAgain \<Rightarrow> send_rest E fd k rest
        | SentBytes n \<Rightarrow> do {
            tell (SendBytes fd (take n rest));
            send_rest E fd k (drop n rest) } })"

definition SendBuffer :: "senv \<Rightarrow> i32 \<Rightarrow> char list \<Rightarrow> ('s svc_scheme, bool) state" where
  "SendBuffer E fd buf =
     (if buf = [] \<or> MAX_PACKET_BUF_SIZE < length buf then pure False
      else if sint fd < 0 then pure False
      else send_rest E fd SEND_RETRY_LIMIT buf)"

definition SendMsg :: "senv \<Rightarrow> i32 \<Rightarrow> net_packet \<Rightarrow> ('s svc_scheme, bool) state" where
  "SendMsg E fd pkt =
     (if ChkRWError pkt then pure False
      else let (made, buf) = MakeData pkt new_stream_buffer in
        if \<not> made then pure False
        else SendBuffer E fd (take (sb_Size buf) (szBuff buf)))"

section \<open>The table of sessions\<close>

record sessions = svc +
  sm_objects :: "i32 \<Rightarrow> socket_session"
  sm_sessions :: "i32 list"
  sm_callbacks :: "i32 list"

definition MAX_SESSION_ALARM :: nat where "MAX_SESSION_ALARM = 100"
definition SESSION_BUFFER_SIZE :: nat where "SESSION_BUFFER_SIZE = 32 * 1024"
definition NATIVE_BUFFER_SIZE :: nat where "NATIVE_BUFFER_SIZE = 64 * 1024"

abbreviation pid_of :: "'s sessions_scheme \<Rightarrow> i32 \<Rightarrow> i32" where
  "pid_of s fd \<equiv> ses_pid (sm_objects s fd)"

definition find_pid :: "i32 \<Rightarrow> 's sessions_scheme \<Rightarrow> i32 option" where
  "find_pid pid s = List.find (\<lambda>fd. pid_of s fd = pid) (sm_sessions s)"

definition FindSessionByPid :: "i32 \<Rightarrow> ('s sessions_scheme, i32 option) state" where
  "FindSessionByPid pid = gets (find_pid pid)"

definition GetProgramName :: "i32 \<Rightarrow> ('s sessions_scheme, string) state" where
  "GetProgramName fd = gets (\<lambda>s. ses_programName (sm_objects s fd))"

definition SetProgramName :: "i32 \<Rightarrow> string \<Rightarrow> ('s sessions_scheme, unit) state" where
  "SetProgramName fd name =
     modify (\<lambda>s. s\<lparr>sm_objects := (sm_objects s)(fd := (sm_objects s fd)\<lparr>ses_programName := name\<rparr>)\<rparr>)"

definition AddSessionDeletedCallback :: "i32 \<Rightarrow> ('s sessions_scheme, unit) state" where
  "AddSessionDeletedCallback pid =
     modify (\<lambda>s. s\<lparr>sm_callbacks := oset_insert sint pid (sm_callbacks s)\<rparr>)"

definition RemoveSessionDeletedCallback :: "i32 \<Rightarrow> ('s sessions_scheme, unit) state" where
  "RemoveSessionDeletedCallback pid =
     modify (\<lambda>s. s\<lparr>sm_callbacks := filter (\<lambda>p. p \<noteq> pid) (sm_callbacks s)\<rparr>)"

definition NotifySessionDeleted ::
    "(i32 \<Rightarrow> ('s sessions_scheme, unit) state) \<Rightarrow> i32 \<Rightarrow> ('s sessions_scheme, unit) state" where
  "NotifySessionDeleted lost fd = do {
     pid \<leftarrow> gets (\<lambda>s. pid_of s fd);
     watched \<leftarrow> gets (\<lambda>s. pid \<in> set (sm_callbacks s));
     only_if watched (do {
       lost fd;
       RemoveSessionDeletedCallback pid }) }"

definition erase_session :: "i32 \<Rightarrow> ('s sessions_scheme, unit) state" where
  "erase_session fd = modify (\<lambda>s. s\<lparr>sm_sessions := filter (\<lambda>x. x \<noteq> fd) (sm_sessions s)\<rparr>)"

definition drop_session ::
    "(i32 \<Rightarrow> ('s sessions_scheme, unit) state) \<Rightarrow> i32 \<Rightarrow> ('s sessions_scheme, unit) state" where
  "drop_session lost fd = do {
     tell (EpollRemove fd);
     NotifySessionDeleted lost fd;
     erase_session fd }"

definition ReleaseSession ::
    "(i32 \<Rightarrow> ('s sessions_scheme, unit) state) \<Rightarrow> i32 \<Rightarrow> ('s sessions_scheme, unit) state" where
  "ReleaseSession lost fd = do {
     present \<leftarrow> gets (\<lambda>s. fd \<in> set (sm_sessions s));
     only_if present (drop_session lost fd) }"

definition ReleaseSessionByPid ::
    "(i32 \<Rightarrow> ('s sessions_scheme, unit) state) \<Rightarrow> i32 \<Rightarrow> ('s sessions_scheme, unit) state" where
  "ReleaseSessionByPid lost pid = do {
     found \<leftarrow> FindSessionByPid pid;
     case found of None \<Rightarrow> skip | Some fd \<Rightarrow> drop_session lost fd }"

definition DeleteCollaborationServiceByName ::
    "(i32 \<Rightarrow> ('s sessions_scheme, unit) state) \<Rightarrow> ('s sessions_scheme, unit) state" where
  "DeleteCollaborationServiceByName lost = do {
     found \<leftarrow> gets (\<lambda>s. List.find (\<lambda>fd. ses_programName (sm_objects s fd) = ''collaboration_service'')
                              (sm_sessions s));
     case found of None \<Rightarrow> skip | Some fd \<Rightarrow> drop_session lost fd }"

definition Enable :: "senv \<Rightarrow> ('s sessions_scheme, i32) state" where
  "Enable E = do {
     ok \<leftarrow> inquire (EpollOpen_ok E);
     only_if ok (tell EpollOpen);
     pure (if ok then RET_OK else RET_ERR) }"

definition Disable ::
    "(i32 \<Rightarrow> ('s sessions_scheme, unit) state) \<Rightarrow> ('s sessions_scheme, unit) state" where
  "Disable lost = do {
     tell EpollClose;
     fds \<leftarrow> gets sm_sessions;
     for_each fds (NotifySessionDeleted lost);
     modify (\<lambda>s. s\<lparr>sm_sessions := []\<rparr>) }"

section \<open>A new client\<close>

text \<open>
  \<open>AddSession\<close> takes the session that was just made for \<open>fd\<close>; when it fails the caller's pointer
  is the only one, so the object is destroyed when \<open>AllocSocketFd\<close> returns.
\<close>

definition AddSession :: "senv \<Rightarrow> i32 \<Rightarrow> ('s sessions_scheme, bool) state" where
  "AddSession E fd = do {
     fds \<leftarrow> gets sm_sessions;
     if MAX_SESSION_ALARM \<le> length fds then pure False
     else if fd \<in> set fds then pure False
     else do {
       modify (\<lambda>s. s\<lparr>sm_sessions := oset_insert sint fd (sm_sessions s)\<rparr>);
       ok \<leftarrow> inquire (\<lambda>t. EpollAdd_ok E t fd);
       if \<not> ok then do { erase_session fd; pure False }
       else do { tell (EpollAdd fd); pure True } } }"

definition SetBufferSize :: "senv \<Rightarrow> i32 \<Rightarrow> nat \<Rightarrow> ('s sessions_scheme, bool) state" where
  "SetBufferSize E fd n = do {
     snd_ok \<leftarrow> inquire (\<lambda>t. SetSockOpt_ok E t fd);
     if \<not> snd_ok then pure False
     else do {
       tell (SetSockBuf fd n);
       inquire (\<lambda>t. SetSockOpt_ok E t fd) } }"

definition close_positive :: "i32 \<Rightarrow> ('s sessions_scheme, unit) state" where
  "close_positive fd = only_if (lt32 0 fd) (tell (CloseFd fd))"

definition destroy_session :: "i32 \<Rightarrow> ('s sessions_scheme, unit) state" where
  "destroy_session fd = only_if (0 \<le> sint fd) (tell (CloseFd fd))"

abbreviation (input) TOKEN_NATIVE_TYPE :: i32 where "TOKEN_NATIVE_TYPE \<equiv> 1"

text \<open>The result is the client's end, or nothing for \<open>RET_ERR\<close>.\<close>

definition AllocSocketFd ::
    "senv \<Rightarrow> string \<Rightarrow> i32 \<Rightarrow> i32 \<Rightarrow> i32 \<Rightarrow> ('s sessions_scheme, i32 option) state" where
  "AllocSocketFd E programName tokenType uid pid = do {
     known \<leftarrow> FindSessionByPid pid;
     if known \<noteq> None then pure None
     else do {
       pair \<leftarrow> inquire (SocketPair E);
       case pair of
         None \<Rightarrow> pure None
       | Some socks \<Rightarrow> do {
           server \<leftarrow> SetBufferSize E (fst socks) SESSION_BUFFER_SIZE;
           client \<leftarrow> (if server then SetBufferSize E (snd socks)
              (if tokenType = TOKEN_NATIVE_TYPE then NATIVE_BUFFER_SIZE else SESSION_BUFFER_SIZE)
              else pure False);
           if \<not> client then do {
             tell (CloseFd (fst socks));
             tell (CloseFd (snd socks));
             pure None }
           else do {
             modify (\<lambda>s. s\<lparr>sm_objects := (sm_objects s)(fst socks :=
               \<lparr>ses_pid = pid, ses_uid = uid, ses_tokenType = tokenType, ses_programName = programName\<rparr>)\<rparr>);
             added \<leftarrow> AddSession E (fst socks);
             if \<not> added then do {
               close_positive (fst socks);
               close_positive (snd socks);
               destroy_session (fst socks);
               pure None }
             else pure (Some (snd socks)) } } } }"

section \<open>Input from clients\<close>

text \<open>
  \<open>OnEpollIn\<close> reads until a read is not a full buffer; the data are not used. The answers of the
  kernel are an argument, one per call of \<open>recv\<close>. After an interrupted call the \<open>continue\<close> goes to
  the condition of the loop, which then fails.
\<close>

fun OnEpollIn ::
    "(i32 \<Rightarrow> ('s sessions_scheme, unit) state) \<Rightarrow> recv_answer list \<Rightarrow> i32 \<Rightarrow> ('s sessions_scheme, unit) state" where
  "OnEpollIn lost [] fd = skip"
| "OnEpollIn lost (Received n # as) fd =
     (if n = MAX_PACKET_BUF_SIZE then OnEpollIn lost as fd else skip)"
| "OnEpollIn lost (RecvInterrupted # as) fd = skip"
| "OnEpollIn lost (RecvWouldBlock # as) fd = skip"
| "OnEpollIn lost (RecvFailed # as) fd = skip"
| "OnEpollIn lost (RecvEof # as) fd = ReleaseSession lost fd"

text \<open>An event of the epoll descriptor: input with the answers to its reads, or a hang-up.\<close>

datatype epoll_event = EpollIn "recv_answer list" | EpollHup | EpollOther

definition DispatchOne ::
    "(i32 \<Rightarrow> ('s sessions_scheme, unit) state) \<Rightarrow> (i32 \<times> epoll_event) list \<Rightarrow> ('s sessions_scheme, unit) state" where
  "DispatchOne lost evs = for_each evs (\<lambda>ev.
     case snd ev of
       EpollIn as \<Rightarrow> OnEpollIn lost as (fst ev)
     | EpollHup \<Rightarrow> ReleaseSession lost (fst ev)
     | EpollOther \<Rightarrow> skip)"

end
