(* ===== verification/Session_Properties.thy ===== *)
theory Session_Properties
  imports Sessions
begin

text \<open>
  What the sockets to the clients guarantee: a message arrives whole or as a prefix, the table of
  sessions names each process once, and a client that watches its sessions through the callback of
  the table never holds a session that is gone. The client is an interface here, the locale
  \<open>session_clients\<close>; the drag manager implements it.
\<close>

section \<open>What is on the wire\<close>

fun wire :: "i32 \<Rightarrow> svc_cmd list \<Rightarrow> char list" where
  "wire fd [] = []"
| "wire fd (SendBytes f b # cs) = (if f = fd then b else []) @ wire fd cs"
| "wire fd (_ # cs) = wire fd cs"

lemma wire_append [simp]: "wire fd (cs @ ds) = wire fd cs @ wire fd ds"
  by (induction fd cs rule: wire.induct) simp_all

definition frame_of :: "net_packet \<Rightarrow> char list" where
  "frame_of pkt = (let buf = snd (MakeData pkt new_stream_buffer) in take (sb_Size buf) (szBuff buf))"

lemma send_rest_wire:
  "\<exists>n. wire fd (sv_log (exec (send_rest E fd k rest) s)) = wire fd (sv_log s) @ take n rest
     \<and> (result_of (send_rest E fd k rest) s \<longrightarrow> n = length rest)"
proof (induction k arbitrary: rest s)
  case 0
  show ?case
    by (intro exI [of _ 0]) simp
next
  case (Suc k)
  let ?s = "s\<lparr>sv_clock := Suc (sv_clock s)\<rparr>"
  show ?case
  proof (cases "rest = []")
    case False
    show ?thesis
    proof (cases "SendCall E (sv_clock s) fd rest")
      case (SentBytes m)
      obtain n where n: "wire fd (sv_log (exec (send_rest E fd k (drop m rest)) (exec (tell (SendBytes fd (take m rest))) ?s)))
            = wire fd (sv_log ?s) @ take m rest @ take n (drop m rest)"
          "result_of (send_rest E fd k (drop m rest)) (exec (tell (SendBytes fd (take m rest))) ?s)
             \<longrightarrow> n = length (drop m rest)"
        using Suc.IH [of "drop m rest" "exec (tell (SendBytes fd (take m rest))) ?s"] by auto
      have "take (min m (length rest) + n) rest = take m rest @ take n (drop m rest)"
        by (simp add: take_add min_def)
      with n False SentBytes show ?thesis
        by (intro exI [of _ "min m (length rest) + n"]) auto
    next
      case TryAgain
      then show ?thesis
        using False Suc.IH [of rest ?s] by simp
    next
      case SendError
      then show ?thesis
        using False by (intro exI [of _ 0]) simp
    qed
  qed simp
qed

lemma SendBuffer_wire:
  "\<exists>n. wire fd (sv_log (exec (SendBuffer E fd buf) s)) = wire fd (sv_log s) @ take n buf
     \<and> (result_of (SendBuffer E fd buf) s \<longrightarrow> n = length buf)"
  using send_rest_wire [of fd E SEND_RETRY_LIMIT buf s] unfolding SendBuffer_def
  by (auto intro: exI [of _ 0])

lemma SendMsg_wire:
  fixes s :: "'s svc_scheme"
  shows "\<exists>n. wire fd (sv_log (exec (SendMsg E fd pkt) s)) = wire fd (sv_log s) @ take n (frame_of pkt)
     \<and> (result_of (SendMsg E fd pkt) s \<longrightarrow> n = length (frame_of pkt))"
proof (cases "ChkRWError pkt \<or> \<not> fst (MakeData pkt new_stream_buffer)")
  case True
  then show ?thesis
    by (intro exI [of _ 0]) (auto simp: SendMsg_def Let_def split: prod.split)
next
  case False
  then have "(SendMsg E fd pkt :: ('s svc_scheme, bool) state) = SendBuffer E fd (frame_of pkt)"
    by (cases "MakeData pkt new_stream_buffer") (simp add: SendMsg_def frame_of_def)
  then show ?thesis
    using SendBuffer_wire [of fd E "frame_of pkt" s] by (simp only:)
qed

text \<open>
  C20. Sending a message puts its whole frame on the wire if the call reports success; if it does
  not, a prefix of the frame is there, in order and without a gap, however the kernel splits,
  delays or refuses the bytes.
\<close>

theorem message_whole_or_prefix:
  "if result_of (SendMsg E fd pkt) s
   then wire fd (sv_log (exec (SendMsg E fd pkt) s)) = wire fd (sv_log s) @ frame_of pkt
   else \<exists>n. wire fd (sv_log (exec (SendMsg E fd pkt) s)) = wire fd (sv_log s) @ take n (frame_of pkt)"
  using SendMsg_wire [of fd E pkt s] by auto

lemma send_rest_bytes:
  assumes "\<forall>t f b. SendCall E t f b = SentBytes 1"
  shows "length rest \<le> k \<Longrightarrow> result_of (send_rest E fd k rest) s = (length rest < k)
    \<and> wire fd (sv_log (exec (send_rest E fd k rest) s)) = wire fd (sv_log s) @ rest"
proof (induction k arbitrary: rest s)
  case (Suc k)
  show ?case
  proof (cases rest)
    case (Cons c cs)
    then show ?thesis
      using Suc.IH [of cs] Suc.prems assms by simp
  qed simp
qed simp

text \<open>
  The last of the 32 calls counts as a failure even when it completes the message: to a client
  whose socket takes one byte at a time a message of up to 31 bytes is reported as sent, one of
  32 bytes is reported as lost although all of it has arrived.
\<close>

theorem last_send_is_failure:
  assumes "\<forall>t f b. SendCall E t f b = SentBytes 1" "buf \<noteq> []" "length buf \<le> 32" "0 \<le> sint fd"
  shows "result_of (SendBuffer E fd buf) s = (length buf < 32)
    \<and> wire fd (sv_log (exec (SendBuffer E fd buf) s)) = wire fd (sv_log s) @ buf"
  using assms send_rest_bytes [OF assms(1), of buf SEND_RETRY_LIMIT fd s]
  by (simp add: SendBuffer_def SEND_RETRY_LIMIT_def MAX_PACKET_BUF_SIZE_def MAX_STREAM_BUF_SIZE_def)

section \<open>A new connection\<close>

text \<open>
  When the table is full, the hundred-and-first client's connection is closed as it should, but
  the server's end twice: \<open>AllocSocketFd\<close> closes the descriptor and then the session that owns it
  is destroyed. In between another thread may have been given the same number.
\<close>

theorem full_table_closes_twice:
  assumes "MAX_SESSION_ALARM \<le> length (sm_sessions s)" "find_pid pid s = None"
    and "SocketPair E (sv_clock s) = Some (a, b)" "\<forall>t f. SetSockOpt_ok E t f" "lt32 0 a" "lt32 0 b" "a \<noteq> b"
  shows "result_of (AllocSocketFd E name tokenType uid pid) s = None
    \<and> filter (\<lambda>c. c = CloseFd a \<or> c = CloseFd b) (sv_log (exec (AllocSocketFd E name tokenType uid pid) s))
      = filter (\<lambda>c. c = CloseFd a \<or> c = CloseFd b) (sv_log s) @ [CloseFd a, CloseFd b, CloseFd a]"
  using assms by (simp add: AllocSocketFd_def FindSessionByPid_def SetBufferSize_def AddSession_def
    close_positive_def destroy_session_def)

section \<open>Clients that watch their sessions\<close>

text \<open>
  The table is sound: ordered by descriptor, at most one session to a process, and not too long. A
  client's list of sessions is watched: one to a process, all in the table, and the table knows
  that it must tell of their loss.
\<close>

definition table_ok :: "'s sessions_scheme \<Rightarrow> bool" where
  "table_ok s \<longleftrightarrow> oset_ok sint (sm_sessions s) \<and> distinct (map (pid_of s) (sm_sessions s))
     \<and> length (sm_sessions s) \<le> MAX_SESSION_ALARM"

lemma table_ok_simps [simp]:
  "table_ok (s\<lparr>sv_clock := a\<rparr>) = table_ok s" "table_ok (s\<lparr>sv_log := b\<rparr>) = table_ok s"
  "table_ok (s\<lparr>sm_callbacks := c\<rparr>) = table_ok s"
  by (simp_all add: table_ok_def)

definition watched :: "('s sessions_scheme \<Rightarrow> i32 list) \<Rightarrow> 's sessions_scheme \<Rightarrow> bool" where
  "watched clients s \<longleftrightarrow> table_ok s \<and> distinct (map (pid_of s) (clients s))
     \<and> (\<forall>fd \<in> set (clients s). fd \<in> set (sm_sessions s) \<and> pid_of s fd \<in> set (sm_callbacks s))"

lemma sint_eq [simp]: "sint x = sint y \<longleftrightarrow> x = (y :: i32)"
  by (auto intro: signed_word_eqI)

lemma set_oset_insert_sint: "set (oset_insert sint (x :: i32) xs) = insert x (set xs)"
  by (induction xs) auto

lemma erase_insert_sint:
  "(fd :: i32) \<notin> set xs \<Longrightarrow> filter (\<lambda>x. x \<noteq> fd) (oset_insert sint fd xs) = xs"
proof (induction xs)
  case (Cons y ys)
  then have "filter (\<lambda>x. x \<noteq> fd) ys = ys"
    by (auto simp: filter_id_conv)
  with Cons show ?case
    by auto
qed simp

lemma pids_insert:
  assumes "distinct (map pid fds)" "pid fd \<notin> pid ` set fds"
  shows "distinct (map pid (oset_insert sint (fd :: i32) fds))"
  using assms
proof (induction fds)
  case (Cons x xs)
  have "pid ` set (oset_insert sint fd xs) = insert (pid fd) (pid ` set xs)"
    by (simp add: set_oset_insert_sint)
  with Cons show ?case
    by auto
qed simp

lemma SetBufferSize_state: "\<exists>n l. exec (SetBufferSize E fd k) s = s\<lparr>sv_clock := n, sv_log := l\<rparr>"
  by (rule exI [of _ "sv_clock (exec (SetBufferSize E fd k) s)"],
      rule exI [of _ "sv_log (exec (SetBufferSize E fd k) s)"]) (simp add: SetBufferSize_def)

definition table_view :: "'s sessions_scheme \<Rightarrow> _" where
  "table_view s = (sm_objects s, sm_sessions s, sm_callbacks s)"

text \<open>
  The interface between the table and a client that holds sessions: the client's list is its own
  (no operation of the table touches it), and when it is told that a session is lost it drops the
  sessions of that process and leaves the table alone.
\<close>

locale session_clients =
  fixes lost :: "i32 \<Rightarrow> ('s sessions_scheme, unit) state"
    and clients :: "'s sessions_scheme \<Rightarrow> i32 list"
  assumes clients_own:
      "\<And>s a. clients (s\<lparr>sv_clock := a\<rparr>) = clients s" "\<And>s b. clients (s\<lparr>sv_log := b\<rparr>) = clients s"
      "\<And>s c. clients (s\<lparr>sm_sessions := c\<rparr>) = clients s" "\<And>s d. clients (s\<lparr>sm_callbacks := d\<rparr>) = clients s"
      "\<And>s e. clients (s\<lparr>sm_objects := e\<rparr>) = clients s"
    and lost_table: "\<And>fd. unchanged table_view (lost fd)"
    and lost_forgets: "\<And>s fd. watched clients s \<Longrightarrow> fd \<in> set (sm_sessions s) \<Longrightarrow>
      clients (exec (lost fd) s) = filter (\<lambda>x. pid_of s x \<noteq> pid_of s fd) (clients s)"
begin

lemma lost_fields:
  "sm_objects (exec (lost fd) s) = sm_objects s" "sm_sessions (exec (lost fd) s) = sm_sessions s"
  "sm_callbacks (exec (lost fd) s) = sm_callbacks s"
  using unchangedD [OF lost_table, of fd s] by (simp_all add: table_view_def)

lemma watched_simps:
  "watched clients (s\<lparr>sv_clock := a\<rparr>) = watched clients s"
  "watched clients (s\<lparr>sv_log := b\<rparr>) = watched clients s"
  by (simp_all add: watched_def table_ok_def clients_own)

lemma told_of_loss:
  assumes "watched clients s" "fd \<in> set (sm_sessions s)"
  shows "watched clients (exec (NotifySessionDeleted lost fd) s)"
    "clients (exec (NotifySessionDeleted lost fd) s) = filter (\<lambda>x. pid_of s x \<noteq> pid_of s fd) (clients s)"
    "sm_sessions (exec (NotifySessionDeleted lost fd) s) = sm_sessions s"
    "sm_objects (exec (NotifySessionDeleted lost fd) s) = sm_objects s"
proof -
  let ?t = "exec (NotifySessionDeleted lost fd) s"
  show table: "sm_sessions ?t = sm_sessions s" "sm_objects ?t = sm_objects s"
    by (simp_all add: NotifySessionDeleted_def RemoveSessionDeletedCallback_def lost_fields)
  have callbacks: "set (sm_callbacks ?t) = set (sm_callbacks s) - {pid_of s fd}"
    by (auto simp: NotifySessionDeleted_def RemoveSessionDeletedCallback_def lost_fields)
  show forgets: "clients ?t = filter (\<lambda>x. pid_of s x \<noteq> pid_of s fd) (clients s)"
  proof (cases "pid_of s fd \<in> set (sm_callbacks s)")
    case True
    then show ?thesis
      using lost_forgets [OF assms]
      by (simp add: NotifySessionDeleted_def RemoveSessionDeletedCallback_def clients_own)
  next
    case False
    then have "\<forall>x \<in> set (clients s). pid_of s x \<noteq> pid_of s fd"
      using assms(1) by (auto simp: watched_def)
    then show ?thesis
      using False by (simp add: NotifySessionDeleted_def)
  qed
  show "watched clients ?t"
    using assms(1) by (auto simp: watched_def table_ok_def table callbacks forgets distinct_map inj_on_def)
qed

lemma drop_keeps:
  assumes "watched clients s" "fd \<in> set (sm_sessions s)"
  shows "watched clients (exec (drop_session lost fd) s)"
proof -
  let ?s = "exec (tell (EpollRemove fd)) s"
  have s: "watched clients ?s" "fd \<in> set (sm_sessions ?s)"
    using assms by (simp_all add: watched_simps)
  note told = told_of_loss [OF s]
  have "x \<noteq> fd" if "x \<in> set (clients (exec (NotifySessionDeleted lost fd) ?s))" for x
    using that unfolding told(2) by auto
  then have "watched clients (exec (erase_session fd) (exec (NotifySessionDeleted lost fd) ?s))"
    using told(1) by (auto simp: watched_def table_ok_def erase_session_def clients_own distinct_map
      inj_on_def intro: sorted_wrt_filter le_trans [OF length_filter_le])
  then show ?thesis
    by (simp add: drop_session_def)
qed

lemma ReleaseSession_keeps [keeps]: "keeps_inv (watched clients) (ReleaseSession lost fd)"
  by (rule keeps_invI) (simp add: ReleaseSession_def drop_keeps)

lemma ReleaseSessionByPid_keeps [keeps]: "keeps_inv (watched clients) (ReleaseSessionByPid lost pid)"
  by (rule keeps_invI)
    (auto simp: ReleaseSessionByPid_def FindSessionByPid_def find_pid_def find_Some_iff drop_keeps split: option.split)

lemma DeleteCollaboration_keeps [keeps]: "keeps_inv (watched clients) (DeleteCollaborationServiceByName lost)"
  by (rule keeps_invI)
    (auto simp: DeleteCollaborationServiceByName_def find_Some_iff drop_keeps split: option.split)

lemma OnEpollIn_keeps [keeps]: "keeps_inv (watched clients) (OnEpollIn lost as fd)"
proof (induction as)
  case (Cons a as)
  then show ?case
    by (cases a) (simp_all add: ReleaseSession_keeps keeps_inv_skip)
qed (simp add: keeps_inv_skip)

lemma DispatchOne_keeps [keeps]: "keeps_inv (watched clients) (DispatchOne lost evs)"
  unfolding DispatchOne_def by (intro keeps; simp split: epoll_event.split; intro conjI allI impI keeps)

text \<open>Shutting down tells every client of every session.\<close>

lemma Disable_forgets:
  assumes "watched clients s"
  shows "clients (exec (Disable lost) s) = []"
proof -
  have "clients (exec (for_each fds (NotifySessionDeleted lost)) t)
      = filter (\<lambda>x. pid_of t x \<notin> pid_of t ` set fds) (clients t)"
    if "watched clients t" "set fds \<subseteq> set (sm_sessions t)" for fds t
    using that
  proof (induction fds arbitrary: t)
    case (Cons fd fds)
    note told = told_of_loss [of t fd]
    show ?case
      using Cons.IH [of "exec (NotifySessionDeleted lost fd) t"] Cons.prems told
      by (auto intro: filter_cong)
  qed simp
  from this [of "s\<lparr>sv_log := sv_log s @ [EpollClose]\<rparr>" "sm_sessions s"] assms show ?thesis
    by (auto simp: Disable_def clients_own watched_simps watched_def filter_empty_conv)
qed

text \<open>A new connection, as long as the kernel hands out a descriptor that no session owns.\<close>

lemma watched_object:
  assumes "watched clients s" "fd \<notin> set (sm_sessions s)"
  shows "watched clients (s\<lparr>sm_objects := (sm_objects s)(fd := x)\<rparr>)"
proof -
  let ?t = "s\<lparr>sm_objects := (sm_objects s)(fd := x)\<rparr>"
  have same: "pid_of ?t y = pid_of s y" if "y \<in> set (sm_sessions s)" for y
    using that assms(2) by auto
  have maps: "map (pid_of ?t) (sm_sessions ?t) = map (pid_of s) (sm_sessions s)"
    "map (pid_of ?t) (clients ?t) = map (pid_of s) (clients s)"
    using same assms(1) by (auto simp: watched_def clients_own)
  show ?thesis
    using assms(1) same unfolding watched_def table_ok_def maps by (simp add: clients_own)
qed

lemma AddSession_keeps:
  assumes "watched clients s" "fd \<notin> set (sm_sessions s)" "pid_of s fd \<notin> pid_of s ` set (sm_sessions s)"
  shows "watched clients (exec (AddSession E fd) s)"
proof -
  have "oset_ok sint (oset_insert sint fd (sm_sessions s))"
    "distinct (map (pid_of s) (oset_insert sint fd (sm_sessions s)))"
    using assms by (auto simp: watched_def table_ok_def intro: pids_insert)
  moreover have "watched clients (s\<lparr>sm_sessions := sm_sessions s\<rparr>)"
    using assms(1) by simp
  ultimately show ?thesis
    using assms(1,2) length_oset_insert_le [of sint fd "sm_sessions s"]
    by (auto simp: AddSession_def erase_session_def erase_insert_sint watched_def table_ok_def clients_own
      set_oset_insert_sint)
qed

lemma close_watched:
  "watched clients (exec (close_positive fd) t) = watched clients t"
  "watched clients (exec (destroy_session fd) t) = watched clients t"
  by (simp_all add: close_positive_def destroy_session_def watched_simps)

lemma AllocSocketFd_keeps:
  assumes s: "watched clients s"
    and fresh: "find_pid pid s = None \<Longrightarrow> \<forall>p. SocketPair E (sv_clock s) = Some p \<longrightarrow> fst p \<notin> set (sm_sessions s)"
  shows "watched clients (exec (AllocSocketFd E name tokenType uid pid) s)"
proof (cases "find_pid pid s = None")
  case True
  then have new: "pid \<notin> pid_of s ` set (sm_sessions s)"
    by (auto simp: find_pid_def find_None_iff)
  have added: "watched clients (exec (AddSession E a) (s\<lparr>sv_clock := n, sv_log := l, sm_objects := (sm_objects s)(a := x)\<rparr>))"
    if "a \<notin> set (sm_sessions s)" "ses_pid x = pid" for a x n l
  proof (rule AddSession_keeps)
    have "watched clients (s\<lparr>sv_clock := n, sv_log := l\<rparr>)"
      using s by (simp add: watched_simps)
    from watched_object [OF this, of a x] that(1)
    show "watched clients (s\<lparr>sv_clock := n, sv_log := l, sm_objects := (sm_objects s)(a := x)\<rparr>)"
      by simp
    show "a \<notin> set (sm_sessions (s\<lparr>sv_clock := n, sv_log := l, sm_objects := (sm_objects s)(a := x)\<rparr>))"
      using that(1) by simp
    have "ses_pid (((sm_objects s)(a := x)) y) \<noteq> pid" if "y \<in> set (sm_sessions s)" for y
      using that \<open>a \<notin> set (sm_sessions s)\<close> new by (metis fun_upd_apply imageI)
    then show "pid_of (s\<lparr>sv_clock := n, sv_log := l, sm_objects := (sm_objects s)(a := x)\<rparr>) a
        \<notin> pid_of (s\<lparr>sv_clock := n, sv_log := l, sm_objects := (sm_objects s)(a := x)\<rparr>)
          ` set (sm_sessions (s\<lparr>sv_clock := n, sv_log := l, sm_objects := (sm_objects s)(a := x)\<rparr>))"
      using that(2) by (simp add: image_iff del: fun_upd_apply) (metis fun_upd_same)
  qed
  show ?thesis
  proof (cases "SocketPair E (sv_clock s)")
    case None
    then show ?thesis
      using s True by (simp add: AllocSocketFd_def FindSessionByPid_def watched_simps)
  next
    case (Some socks)
    let ?buf = "\<lambda>fd k. SetBufferSize E fd k"
    obtain n l where first: "exec (?buf (fst socks) SESSION_BUFFER_SIZE) (s\<lparr>sv_clock := Suc (sv_clock s)\<rparr>)
        = s\<lparr>sv_clock := n, sv_log := l\<rparr>"
      using SetBufferSize_state [of E "fst socks" _ "s\<lparr>sv_clock := Suc (sv_clock s)\<rparr>"] by force
    let ?k = "if tokenType = TOKEN_NATIVE_TYPE then NATIVE_BUFFER_SIZE else SESSION_BUFFER_SIZE"
    obtain n' l' where second: "exec (?buf (snd socks) ?k) (s\<lparr>sv_clock := n, sv_log := l\<rparr>)
        = s\<lparr>sv_clock := n', sv_log := l'\<rparr>"
      using SetBufferSize_state [of E "snd socks" ?k "s\<lparr>sv_clock := n, sv_log := l\<rparr>"] by force
    have a: "fst socks \<notin> set (sm_sessions s)"
      using fresh [OF True] Some by simp
    let ?x = "\<lparr>ses_pid = pid, ses_uid = uid, ses_tokenType = tokenType, ses_programName = name\<rparr>"
    have third: "watched clients (exec (AddSession E (fst socks))
        (s\<lparr>sv_clock := n', sv_log := l', sm_objects := (sm_objects s)(fst socks := ?x)\<rparr>))"
      using added [OF a, where x = ?x and n = n' and l = l'] by simp
    show ?thesis
      using s third
      by (simp add: AllocSocketFd_def FindSessionByPid_def True Some first second watched_simps close_watched
        del: fun_upd_apply)
  qed
next
  case False
  then have "exec (AllocSocketFd E name tokenType uid pid) s = s"
    by (simp add: AllocSocketFd_def FindSessionByPid_def)
  then show ?thesis
    using s by simp
qed

end

end
