(* ===== verification/Drag_Data.thy ===== *)
theory Drag_Data
  imports Sessions
begin

text \<open>
  src/interfaces/innerkits/interaction/include/drag_data.h, src/services/interaction/drag/src/
  drag_data_manager.cpp and state_change_notify.cpp: the data of a drag, the singleton that keeps
  them, and the clients that are told of changes. Results, styles and behaviours come from
  clients as integers and are kept as such. Fields of \<open>DragData\<close> that only the renderer reads are
  left out; a pixel map is its address, a \<open>float\<close> or \<open>double\<close> the word of its bits.
\<close>

section \<open>Enumerations\<close>

abbreviation (input) DRAG_SUCCESS :: i32 where "DRAG_SUCCESS \<equiv> 0"
abbreviation (input) DRAG_FAIL :: i32 where "DRAG_FAIL \<equiv> 1"
abbreviation (input) RESULT_CANCEL :: i32 where "RESULT_CANCEL \<equiv> 2"
abbreviation (input) DRAG_EXCEPTION :: i32 where "DRAG_EXCEPTION \<equiv> 3"

abbreviation (input) BEHAVIOR_UNKNOWN :: i32 where "BEHAVIOR_UNKNOWN \<equiv> - 1"
abbreviation (input) BEHAVIOR_COPY :: i32 where "BEHAVIOR_COPY \<equiv> 0"
abbreviation (input) BEHAVIOR_MOVE :: i32 where "BEHAVIOR_MOVE \<equiv> 1"

abbreviation (input) STYLE_DEFAULT :: i32 where "STYLE_DEFAULT \<equiv> 0"
abbreviation (input) STYLE_FORBIDDEN :: i32 where "STYLE_FORBIDDEN \<equiv> 1"
abbreviation (input) STYLE_COPY :: i32 where "STYLE_COPY \<equiv> 2"
abbreviation (input) STYLE_MOVE :: i32 where "STYLE_MOVE \<equiv> 3"

abbreviation (input) FOLLOW_HAND_MORPH :: i32 where "FOLLOW_HAND_MORPH \<equiv> 1"

datatype DragAction = DRAG_ACTION_INVALID | DRAG_ACTION_MOVE | DRAG_ACTION_COPY

fun drag_state_code :: "DragState \<Rightarrow> i32" where
  "drag_state_code DRAG_ERROR = 0"
| "drag_state_code DRAG_START = 1"
| "drag_state_code DRAG_STOP = 2"
| "drag_state_code DRAG_CANCEL = 3"
| "drag_state_code MOTION_DRAGGING = 4"

text \<open>Message identifiers, by their position in \<open>MessageId\<close> of devicestatus_proto.h.\<close>

abbreviation (input) DRAG_NOTIFY_RESULT :: i32 where "DRAG_NOTIFY_RESULT \<equiv> 20"
abbreviation (input) DRAG_STATE_LISTENER :: i32 where "DRAG_STATE_LISTENER \<equiv> 21"
abbreviation (input) DRAG_NOTIFY_HIDE_ICON :: i32 where "DRAG_NOTIFY_HIDE_ICON \<equiv> 22"
abbreviation (input) DRAG_STYLE_LISTENER :: i32 where "DRAG_STYLE_LISTENER \<equiv> 23"
abbreviation (input) ADD_SELECTED_PIXELMAP_RESULT :: i32 where "ADD_SELECTED_PIXELMAP_RESULT \<equiv> 27"

section \<open>Data of a drag\<close>

record ShadowInfo =
  sh_pixelMap :: "nat option"
  sh_x :: i32
  sh_y :: i32

record ShadowOffset =
  so_offsetX :: i32
  so_offsetY :: i32
  so_width :: i32
  so_height :: i32

record DragSummaryInfo =
  ds_summarys :: "(string \<times> int) list"
  ds_detailedSummarys :: "(string \<times> int) list"
  ds_summaryFormat :: "(string \<times> i32 list) list"
  ds_version :: i32
  ds_totalSize :: int

record DragData =
  dd_shadowInfos :: "ShadowInfo list"
  dd_buffer :: "8 word list"
  dd_udKey :: string
  dd_extraInfo :: string
  dd_sourceType :: i32
  dd_dragNum :: i32
  dd_pointerId :: i32
  dd_displayX :: i32
  dd_displayY :: i32
  dd_displayId :: i32
  dd_mainWindow :: i32
  dd_hasCoordinateCorrected :: bool
  dd_summarys :: "(string \<times> int) list"
  dd_detailedSummarys :: "(string \<times> int) list"
  dd_summaryFormat :: "(string \<times> i32 list) list"
  dd_summaryVersion :: i32
  dd_summaryTotalSize :: int
  dd_summaryTag :: string
  dd_dragAnimationType :: i32
  dd_appCaller :: string

definition new_DragData :: DragData where
  "new_DragData = \<lparr>dd_shadowInfos = [], dd_buffer = [], dd_udKey = [], dd_extraInfo = [],
     dd_sourceType = - 1, dd_dragNum = - 1, dd_pointerId = - 1, dd_displayX = - 1, dd_displayY = - 1,
     dd_displayId = - 1, dd_mainWindow = - 1, dd_hasCoordinateCorrected = False, dd_summarys = [],
     dd_detailedSummarys = [], dd_summaryFormat = [], dd_summaryVersion = 0, dd_summaryTotalSize = - 1,
     dd_summaryTag = [], dd_dragAnimationType = - 1, dd_appCaller = []\<rparr>"

record DragDropResult =
  dr_result :: i32
  dr_hasCustomAnimation :: bool
  dr_mainWindow :: i32
  dr_dragBehavior :: i32
  dr_dragAnimationInfo :: string

text \<open>The results that the manager itself stops a drag with.\<close>

definition drop_result :: "i32 \<Rightarrow> DragDropResult" where
  "drop_result r = \<lparr>dr_result = r, dr_hasCustomAnimation = False, dr_mainWindow = - 1,
     dr_dragBehavior = BEHAVIOR_UNKNOWN, dr_dragAnimationInfo = []\<rparr>"

record PreviewStyle =
  pv_types :: "i32 list"
  pv_foregroundColor :: u32
  pv_opacity :: i32
  pv_radius :: u32
  pv_scale :: u32

text \<open>\<open>-1.0F\<close> is \<open>0xBF800000\<close>.\<close>

definition new_PreviewStyle :: PreviewStyle where
  "new_PreviewStyle = \<lparr>pv_types = [], pv_foregroundColor = 0, pv_opacity = - 1,
     pv_radius = 0xBF800000, pv_scale = 0xBF800000\<rparr>"

definition same_preview :: "senv \<Rightarrow> PreviewStyle \<Rightarrow> PreviewStyle \<Rightarrow> bool" where
  "same_preview E a b \<longleftrightarrow> pv_types a = pv_types b \<and> pv_foregroundColor a = pv_foregroundColor b
     \<and> pv_opacity a = pv_opacity b \<and> FloatEq E (pv_radius a) (pv_radius b)
     \<and> FloatClose E (pv_scale a) (pv_scale b)"

section \<open>DragDataManager\<close>

record data_mgr = sessions +
  dm_dragData :: DragData
  dm_dragStyle :: i32
  dm_visible :: bool
  dm_targetTid :: i32
  dm_targetPid :: i32
  dm_eventId :: i32
  dm_textEditorAreaFlag :: bool
  dm_dragOriginDpi :: u32
  dm_previewStyle :: PreviewStyle

definition dm_Init :: "DragData \<Rightarrow> string \<Rightarrow> ('s data_mgr_scheme, unit) state" where
  "dm_Init d appCaller = modify (\<lambda>s. s\<lparr>
     dm_dragData := d\<lparr>dd_displayId := (if lt32 (dd_displayId d) 0 then 0 else dd_displayId d),
                      dd_appCaller := appCaller\<rparr>,
     dm_targetTid := - 1,
     dm_targetPid := - 1\<rparr>)"

definition SetShadowInfos :: "ShadowInfo list \<Rightarrow> ('s data_mgr_scheme, unit) state" where
  "SetShadowInfos xs = modify (\<lambda>s. s\<lparr>dm_dragData := (dm_dragData s)\<lparr>dd_shadowInfos := xs\<rparr>\<rparr>)"

definition UpdateShadowInfos :: "nat option \<Rightarrow> ('s data_mgr_scheme, unit) state" where
  "UpdateShadowInfos pixelMap = modify (\<lambda>s. s\<lparr>dm_dragData := (dm_dragData s)\<lparr>
     dd_shadowInfos := dd_shadowInfos (dm_dragData s) @ [\<lparr>sh_pixelMap = pixelMap, sh_x = - 1, sh_y = - 1\<rparr>],
     dd_dragNum := dd_dragNum (dm_dragData s) + 1\<rparr>\<rparr>)"

definition SetDragStyle :: "i32 \<Rightarrow> ('s data_mgr_scheme, unit) state" where
  "SetDragStyle style = modify (\<lambda>s. s\<lparr>dm_dragStyle := style\<rparr>)"

definition SetDragWindowVisible :: "bool \<Rightarrow> ('s data_mgr_scheme, unit) state" where
  "SetDragWindowVisible b = modify (\<lambda>s. s\<lparr>dm_visible := b\<rparr>)"

definition SetTargetTid :: "i32 \<Rightarrow> ('s data_mgr_scheme, unit) state" where
  "SetTargetTid tid = modify (\<lambda>s. s\<lparr>dm_targetTid := tid\<rparr>)"

definition SetTargetPid :: "i32 \<Rightarrow> ('s data_mgr_scheme, unit) state" where
  "SetTargetPid pid = modify (\<lambda>s. s\<lparr>dm_targetPid := pid\<rparr>)"

definition SetEventId :: "i32 \<Rightarrow> ('s data_mgr_scheme, unit) state" where
  "SetEventId i = modify (\<lambda>s. s\<lparr>dm_eventId := i\<rparr>)"

definition SetPreviewStyle :: "PreviewStyle \<Rightarrow> ('s data_mgr_scheme, unit) state" where
  "SetPreviewStyle p = modify (\<lambda>s. s\<lparr>dm_previewStyle := p\<rparr>)"

definition dm_SetDragOriginDpi :: "u32 \<Rightarrow> ('s data_mgr_scheme, unit) state" where
  "dm_SetDragOriginDpi dpi = modify (\<lambda>s. s\<lparr>dm_dragOriginDpi := dpi\<rparr>)"

text \<open>The offset of the first shadow; \<open>Inl\<close> is the code returned.\<close>

definition GetShadowOffset :: "senv \<Rightarrow> ('s data_mgr_scheme, i32 + ShadowOffset) state" where
  "GetShadowOffset E = do {
     d \<leftarrow> gets dm_dragData;
     case dd_shadowInfos d of
       [] \<Rightarrow> pure (Inl RET_ERR)
     | sh # _ \<Rightarrow>
         (case sh_pixelMap sh of
            None \<Rightarrow> pure (Inl RET_ERR)
          | Some a \<Rightarrow> pure (Inr \<lparr>so_offsetX = sh_x sh, so_offsetY = sh_y sh,
              so_width = fst (PixelMapSize E a), so_height = snd (PixelMapSize E a)\<rparr>)) }"

definition ResetDragData :: "('s data_mgr_scheme, unit) state" where
  "ResetDragData = modify (\<lambda>s. s\<lparr>
     dm_dragData := new_DragData,
     dm_dragStyle := STYLE_DEFAULT,
     dm_visible := False,
     dm_targetTid := - 1,
     dm_targetPid := - 1,
     dm_eventId := - 1,
     dm_textEditorAreaFlag := False,
     dm_dragOriginDpi := 0,
     dm_previewStyle := new_PreviewStyle\<rparr>)"

definition GetSummaryInfo :: "DragData \<Rightarrow> DragSummaryInfo" where
  "GetSummaryInfo d = \<lparr>ds_summarys = dd_summarys d, ds_detailedSummarys = dd_detailedSummarys d,
     ds_summaryFormat = dd_summaryFormat d, ds_version = dd_summaryVersion d,
     ds_totalSize = dd_summaryTotalSize d\<rparr>"

section \<open>StateChangeNotify\<close>

text \<open>
  Two lists, one for each type of message; a message info is the session it goes to, and the
  message id is that of its list.
\<close>

record notify = data_mgr +
  sn_state :: "i32 list"
  sn_style :: "i32 list"

definition same_client :: "'s sessions_scheme \<Rightarrow> i32 \<Rightarrow> i32 \<Rightarrow> bool" where
  "same_client s info fd \<longleftrightarrow> pid_of s fd = pid_of s info"

fun put_info :: "(i32 \<Rightarrow> bool) \<Rightarrow> i32 \<Rightarrow> i32 list \<Rightarrow> i32 list" where
  "put_info same info [] = [info]"
| "put_info same info (x # xs) = (if same x then info # xs else x # put_info same info xs)"

fun erase_info :: "(i32 \<Rightarrow> bool) \<Rightarrow> i32 list \<Rightarrow> i32 list" where
  "erase_info same [] = []"
| "erase_info same (x # xs) = (if same x then xs else x # erase_info same xs)"

definition AddStateMsg :: "i32 \<Rightarrow> ('s notify_scheme, unit) state" where
  "AddStateMsg fd = modify (\<lambda>s. s\<lparr>sn_state := put_info (same_client s fd) fd (sn_state s)\<rparr>)"

definition AddStyleMsg :: "i32 \<Rightarrow> ('s notify_scheme, unit) state" where
  "AddStyleMsg fd = modify (\<lambda>s. s\<lparr>sn_style := put_info (same_client s fd) fd (sn_style s)\<rparr>)"

definition RemoveStateMsg :: "i32 \<Rightarrow> ('s notify_scheme, unit) state" where
  "RemoveStateMsg fd = modify (\<lambda>s. s\<lparr>sn_state := erase_info (same_client s fd) (sn_state s)\<rparr>)"

definition RemoveStyleMsg :: "i32 \<Rightarrow> ('s notify_scheme, unit) state" where
  "RemoveStyleMsg fd = modify (\<lambda>s. s\<lparr>sn_style := erase_info (same_client s fd) (sn_style s)\<rparr>)"

definition info_packet :: "i32 \<Rightarrow> i32 \<Rightarrow> net_packet" where
  "info_packet mid v = put (i32_bytes v) (NetPacket mid)"

definition OnDragInfoNotify :: "senv \<Rightarrow> i32 \<Rightarrow> i32 \<Rightarrow> i32 \<Rightarrow> ('s notify_scheme, unit) state" where
  "OnDragInfoNotify E fd mid v =
     only_if (\<not> ChkRWError (info_packet mid v)) (do { SendMsg E fd (info_packet mid v); skip })"

definition sn_StyleChangedNotify :: "senv \<Rightarrow> i32 \<Rightarrow> ('s notify_scheme, i32) state" where
  "sn_StyleChangedNotify E style = do {
     fds \<leftarrow> gets sn_style;
     if fds = [] then pure RET_ERR
     else do {
       for_each fds (\<lambda>fd. OnDragInfoNotify E fd DRAG_STYLE_LISTENER style);
       pure RET_OK } }"

definition sn_StateChangedNotify :: "senv \<Rightarrow> DragState \<Rightarrow> ('s notify_scheme, i32) state" where
  "sn_StateChangedNotify E st = do {
     fds \<leftarrow> gets sn_state;
     if fds = [] then pure RET_ERR
     else do {
       for_each fds (\<lambda>fd. OnDragInfoNotify E fd DRAG_STATE_LISTENER (drag_state_code st));
       pure RET_OK } }"

end
