(* ===== verification/Drag_Auth.thy ===== *)
theory Drag_Auth
  imports Drag_Data
begin

text \<open>
  src/services/drag_auth/src/drag_auth.cpp and drag_security_manager.cpp: who may read the key of
  the dragged data. Each drag makes a nonce and gives it to the input service; a target shows
  that it holds a real drop event by a signature under that nonce. The random source, the clock,
  HMAC-SHA384, Base64 and the formatting of a \<open>double\<close> are the environment.
\<close>

section \<open>DragAuth\<close>

record DragEventData =
  ev_timestampMs :: u64
  ev_coordinateX :: u64
  ev_coordinateY :: u64

record auth = notify +
  da_nonceBin :: "char list"
  da_nonceB64 :: string
  sec_securityPid :: i32

definition NONCE_SIZE :: nat where "NONCE_SIZE = 32"
definition NONCE_TIMEOUT_MS :: nat where "NONCE_TIMEOUT_MS = 3000"
definition MAX_BASE64_LENGTH :: nat where "MAX_BASE64_LENGTH = 1024"
definition HMAC_SHA384_SIZE :: nat where "HMAC_SHA384_SIZE = 48"

fun decimal :: "nat \<Rightarrow> string" where
  "decimal n = (if n < 10 then [char_of (48 + n)] else decimal (n div 10) @ [char_of (48 + n mod 10)])"

declare decimal.simps [simp del]

definition ResetNonce :: "('s auth_scheme, unit) state" where
  "ResetNonce = modify (\<lambda>s. s\<lparr>da_nonceBin := [], da_nonceB64 := []\<rparr>)"

definition Base64Encode :: "senv \<Rightarrow> char list \<Rightarrow> string" where
  "Base64Encode E bytes = (if bytes = [] then [] else EncodeBlock E bytes)"

definition Base64Decode :: "senv \<Rightarrow> string \<Rightarrow> char list" where
  "Base64Decode E b64 = (if b64 = [] \<or> MAX_BASE64_LENGTH < length b64 then [] else DecodeBase64 E b64)"

definition GenerateNonce :: "senv \<Rightarrow> ('s auth_scheme, string) state" where
  "GenerateNonce E = do {
     r \<leftarrow> inquire (RandBytes E);
     case r of
       None \<Rightarrow> do { ResetNonce; pure [] }
     | Some bytes \<Rightarrow> do {
         modify (\<lambda>s. s\<lparr>da_nonceBin := bytes\<rparr>);
         modify (\<lambda>s. s\<lparr>da_nonceB64 := Base64Encode E bytes\<rparr>);
         gets da_nonceB64 } }"

definition SerializeDragEventData :: "senv \<Rightarrow> DragEventData \<Rightarrow> string" where
  "SerializeDragEventData E d = decimal (unat (ev_timestampMs d)) @ ''|'' @
     FormatDouble E (ev_coordinateX d) @ ''|'' @ FormatDouble E (ev_coordinateY d)"

definition GenerateSignature :: "senv \<Rightarrow> char list \<Rightarrow> DragEventData \<Rightarrow> char list" where
  "GenerateSignature E nonce d =
     (if nonce = [] then []
      else let dataStr = SerializeDragEventData E d in
        if dataStr = [] then [] else HMAC_SHA384 E nonce dataStr)"

definition VerifyDragEventInterval :: "senv \<Rightarrow> DragEventData \<Rightarrow> ('s auth_scheme, bool) state" where
  "VerifyDragEventInterval E d = do {
     now \<leftarrow> inquire (SteadyMs E);
     if now < ev_timestampMs d then pure False
     else if NONCE_TIMEOUT_MS < unat (now - ev_timestampMs d) then pure False
     else pure True }"

definition ConstantTimeCompare :: "char list \<Rightarrow> char list \<Rightarrow> bool" where
  "ConstantTimeCompare a b \<longleftrightarrow> a = b"

definition VerifySignature :: "senv \<Rightarrow> DragEventData \<Rightarrow> string \<Rightarrow> ('s auth_scheme, bool) state" where
  "VerifySignature E d signature =
     (if signature = [] then pure False
      else do {
        inTime \<leftarrow> VerifyDragEventInterval E d;
        if \<not> inTime then pure False
        else do {
          nonce \<leftarrow> gets da_nonceBin;
          let externalSignature = Base64Decode E signature;
          let expectedSignature = GenerateSignature E nonce d;
          if length externalSignature \<noteq> HMAC_SHA384_SIZE then pure False
          else if expectedSignature = [] \<or> length expectedSignature \<noteq> HMAC_SHA384_SIZE then pure False
          else pure (ConstantTimeCompare externalSignature expectedSignature) } })"

section \<open>DragSecurityManager\<close>

definition VerifyAndResetNonce :: "senv \<Rightarrow> DragEventData \<Rightarrow> string \<Rightarrow> ('s auth_scheme, bool) state" where
  "VerifyAndResetNonce E d signature = do {
     ok \<leftarrow> VerifySignature E d signature;
     only_if ok ResetNonce;
     pure ok }"

definition DeliverNonceToInput :: "senv \<Rightarrow> ('s auth_scheme, i32) state" where
  "DeliverNonceToInput E = do {
     nonce \<leftarrow> GenerateNonce E;
     if nonce = [] then pure RET_ERR
     else do {
       tell (NonceDelivered nonce);
       r \<leftarrow> inquire (\<lambda>t. DeliverNonce_ret E t nonce);
       pure (if r = RET_ERR then RET_ERR else RET_OK) } }"

definition StoreSecurityPid :: "i32 \<Rightarrow> ('s auth_scheme, unit) state" where
  "StoreSecurityPid pid = modify (\<lambda>s. s\<lparr>sec_securityPid := pid\<rparr>)"

definition VerifySecurityPid :: "i32 \<Rightarrow> ('s auth_scheme, bool) state" where
  "VerifySecurityPid pid = gets (\<lambda>s. pid = sec_securityPid s)"

definition ResetSecurityPid :: "('s auth_scheme, unit) state" where
  "ResetSecurityPid = modify (\<lambda>s. s\<lparr>sec_securityPid := - 1\<rparr>)"

end
