(* ===== verification/Drag_Manager.thy ===== *)
theory Drag_Manager
  imports Drag_Auth
begin

text \<open>
  src/services/interaction/drag/src/drag_manager.cpp, as it is built by default: with the input
  monitor, without interceptor, drop animations, pull-throw, Anco and the PC product. The
  context is set (\<open>Init\<close> has run). Radar reports and the dump are left out. Of the renderer only
  \<open>isRunning\<close> is state; what it is asked to draw are commands, what it answers is the environment.
  A function that \<open>dq_PostAsyncTask\<close> takes is a value of \<open>drag_task\<close>, a timer's callback one of
  \<open>drag_timer_call\<close>.
\<close>

section \<open>State\<close>

datatype drag_task =
    TaskDragUp pull_event
  | TaskPullInWindow pull_event i32
  | TaskLongPress i32 i32
  | TaskMultiSelected bool
  | TaskRotateSync
  | TaskDrawStyle i32
  | TaskNotifyStyle i32
  | TaskAppendExtraData
  | TaskRotateWindow u64 i32
  | TaskScreenRotate i32 i32
  | TaskLocaleChanged
  | TaskScreenLocked

datatype drag_timer_call = StopDragCall | MonitorCall | SubscribeCall

record drag_monitors = auth +
  mo_pointerEventMonitorId :: i32
  mo_keyEventMonitorId :: i32
  mo_mouseTimerId :: i32
  mo_mouseDisplayId :: i32
  mo_mouseDisplayX :: i32
  mo_mouseDisplayY :: i32
  mo_mouseState :: bool
  mo_existMouseMove :: bool

record drag_queue = drag_monitors +
  dq_tasks :: "drag_task list"
  dq_timers :: "(i32 \<times> drag_timer_call) list"
  dq_isRunning :: bool

record drag_manager = drag_queue +
  dg_dragState :: DragState
  dg_dragResult :: i32
  dg_appCallee :: string
  dg_dragAction :: DragAction
  dg_timerId :: i32
  dg_controlVisible :: bool
  dg_crossDragging :: bool
  dg_collaborationService :: bool
  dg_pullId :: i32
  dg_idSeed :: i32
  dg_dragOutSession :: "i32 option"
  dg_stateCallback :: bool
  dg_pullUpCallback :: bool
  dg_crossCallback :: bool
  dg_isRTL :: bool
  dg_displayId :: u64
  dg_screenId :: u64
  dg_lastEventId :: i32
  dg_lastDisplayId :: i32
  dg_peerNetId :: net_id
  dg_isLongPressDrag :: bool
  dg_needLongPressAnimation :: bool
  dg_appCaller :: string
  dg_animationType :: i32
  dg_animationInfo :: string
  dg_currentPointerEvent :: "pull_event option"
  dg_filterTime :: int

abbreviation (input) TIMEOUT_MS :: i32 where "TIMEOUT_MS \<equiv> 3000"
abbreviation (input) INTERVAL_MS :: i32 where "INTERVAL_MS \<equiv> 500"
abbreviation (input) INIT_FAIL :: i32 where "INIT_FAIL \<equiv> - 1"
abbreviation (input) INIT_SUCCESS :: i32 where "INIT_SUCCESS \<equiv> 0"
abbreviation (input) INIT_CANCEL :: i32 where "INIT_CANCEL \<equiv> 1"

definition NEED_FETCH :: string where "NEED_FETCH = ''NEED_FETCH''"

section \<open>Calls to the timers, the queue and the renderer\<close>

definition dq_AddTimer :: "senv \<Rightarrow> i32 \<Rightarrow> drag_timer_call \<Rightarrow> ('s drag_queue_scheme, i32) state" where
  "dq_AddTimer E ms call = do {
     r \<leftarrow> inquire (NewTimer E);
     tell (TimerSet r ms);
     only_if (0 \<le> sint r) (modify (\<lambda>s. s\<lparr>dq_timers := dq_timers s @ [(r, call)]\<rparr>));
     pure r }"

definition dq_RemoveTimer :: "i32 \<Rightarrow> ('s drag_queue_scheme, unit) state" where
  "dq_RemoveTimer i = do {
     tell (TimerCleared i);
     modify (\<lambda>s. s\<lparr>dq_timers := filter (\<lambda>t. fst t \<noteq> i) (dq_timers s)\<rparr>) }"

definition dq_PostAsyncTask :: "senv \<Rightarrow> drag_task \<Rightarrow> ('s drag_queue_scheme, i32) state" where
  "dq_PostAsyncTask E t = do {
     r \<leftarrow> inquire (PostAsync E);
     only_if (r = RET_OK) (modify (\<lambda>s. s\<lparr>dq_tasks := dq_tasks s @ [t]\<rparr>));
     pure r }"

definition draw :: "drawing \<Rightarrow> ('s svc_scheme, unit) state" where
  "draw d = tell (Drawing d)"

definition draw_ret :: "senv \<Rightarrow> drawing \<Rightarrow> ('s svc_scheme, i32) state" where
  "draw_ret E d = do { draw d; inquire (\<lambda>t. Draw_ret E t d) }"

definition IsDrawing :: "('s drag_queue_scheme, bool) state" where
  "IsDrawing = gets dq_isRunning"

definition UpdateDrawingState :: "('s drag_queue_scheme, unit) state" where
  "UpdateDrawingState = modify (\<lambda>s. s\<lparr>dq_isRunning := False\<rparr>)"

definition close_window :: "('s drag_queue_scheme, unit) state" where
  "close_window = do { draw DrawDestroyWindow; UpdateDrawingState }"

definition CheckDragData :: "senv \<Rightarrow> DragData \<Rightarrow> bool \<Rightarrow> i32" where
  "CheckDragData E d isRunning =
     (if isRunning then INIT_CANCEL
      else if dd_shadowInfos d = [] then INIT_FAIL
      else if list_ex (\<lambda>sh. sh_pixelMap sh = None) (dd_shadowInfos d) then INIT_FAIL
      else if dd_sourceType d \<noteq> MOUSE E \<and> dd_sourceType d \<noteq> TOUCHSCREEN E then INIT_FAIL
      else if lt32 (dd_dragNum d) 0 then INIT_FAIL
      else INIT_SUCCESS)"

text \<open>The renderer's \<open>Init\<close>: past the check of the data it runs, whether or not the rest succeeds.\<close>

definition drawing_Init :: "senv \<Rightarrow> DragData \<Rightarrow> bool \<Rightarrow> ('s drag_queue_scheme, i32) state" where
  "drawing_Init E d isLongPressDrag = do {
     running \<leftarrow> gets dq_isRunning;
     let checked = CheckDragData E d running;
     if checked \<noteq> INIT_SUCCESS then pure checked
     else do {
       modify (\<lambda>s. s\<lparr>dq_isRunning := True\<rparr>);
       draw (DrawInit isLongPressDrag);
       inquire (DrawInit_ret E) } }"

section \<open>Listeners and callbacks\<close>

text \<open>
  \<open>OnSessionLost\<close> gets the session that is about to leave the table; \<open>RemoveListener\<close> looks it up
  again by its process.
\<close>

definition RemoveListener :: "i32 \<Rightarrow> ('s notify_scheme, i32) state" where
  "RemoveListener pid = do {
     session \<leftarrow> FindSessionByPid pid;
     case session of
       None \<Rightarrow> pure RET_ERR
     | Some fd \<Rightarrow> do { RemoveStateMsg fd; pure RET_OK } }"

definition OnSessionLost :: "i32 \<Rightarrow> ('s notify_scheme, unit) state" where
  "OnSessionLost fd = do {
     pid \<leftarrow> gets (\<lambda>s. pid_of s fd);
     RemoveListener pid;
     skip }"

definition AddListener :: "i32 \<Rightarrow> ('s notify_scheme, i32) state" where
  "AddListener pid = do {
     session \<leftarrow> FindSessionByPid pid;
     case session of
       None \<Rightarrow> pure RET_ERR
     | Some fd \<Rightarrow> do {
         AddStateMsg fd;
         AddSessionDeletedCallback pid;
         pure RET_OK } }"

definition AddSubscriptListener :: "i32 \<Rightarrow> ('s notify_scheme, i32) state" where
  "AddSubscriptListener pid = do {
     session \<leftarrow> FindSessionByPid pid;
     case session of
       None \<Rightarrow> pure RET_ERR
     | Some fd \<Rightarrow> do { AddStyleMsg fd; pure RET_OK } }"

definition RemoveSubscriptListener :: "i32 \<Rightarrow> ('s notify_scheme, i32) state" where
  "RemoveSubscriptListener pid = do {
     session \<leftarrow> FindSessionByPid pid;
     case session of
       None \<Rightarrow> pure RET_ERR
     | Some fd \<Rightarrow> do { RemoveStyleMsg fd; pure RET_OK } }"

definition RegisterStateChange :: "bool \<Rightarrow> ('s drag_manager_scheme, unit) state" where
  "RegisterStateChange callback = only_if callback (modify (\<lambda>s. s\<lparr>dg_stateCallback := True\<rparr>))"

definition UnregisterStateChange :: "('s drag_manager_scheme, unit) state" where
  "UnregisterStateChange = modify (\<lambda>s. s\<lparr>dg_stateCallback := False\<rparr>)"

definition RegisterNotifyPullUp :: "bool \<Rightarrow> ('s drag_manager_scheme, unit) state" where
  "RegisterNotifyPullUp callback = only_if callback (modify (\<lambda>s. s\<lparr>dg_pullUpCallback := True\<rparr>))"

definition UnregisterNotifyPullUp :: "('s drag_manager_scheme, unit) state" where
  "UnregisterNotifyPullUp = modify (\<lambda>s. s\<lparr>dg_pullUpCallback := False\<rparr>)"

definition RegisterCrossDrag :: "bool \<Rightarrow> ('s drag_manager_scheme, unit) state" where
  "RegisterCrossDrag callback = modify (\<lambda>s. s\<lparr>dg_crossCallback := callback\<rparr>)"

definition UnregisterCrossDrag :: "('s drag_manager_scheme, unit) state" where
  "UnregisterCrossDrag = modify (\<lambda>s. s\<lparr>dg_crossCallback := False\<rparr>)"

definition dg_NotifyCrossDrag :: "bool \<Rightarrow> ('s drag_manager_scheme, unit) state" where
  "dg_NotifyCrossDrag isButtonDown = do {
     callback \<leftarrow> gets dg_crossCallback;
     only_if callback (tell (CrossDragCallback isButtonDown)) }"

definition dg_StateChangedNotify :: "DragState \<Rightarrow> ('s drag_manager_scheme, unit) state" where
  "dg_StateChangedNotify st = do {
     callback \<leftarrow> gets dg_stateCallback;
     current \<leftarrow> gets dg_dragState;
     only_if callback (
       if st = DRAG_STOP then tell (StateCallback st)
       else only_if (current \<noteq> MOTION_DRAGGING) (tell (StateCallback st))) }"

section \<open>Monitors of the input service\<close>

definition AddKeyEventMonitor :: "senv \<Rightarrow> ('s drag_monitors_scheme, i32) state" where
  "AddKeyEventMonitor E = do {
     current \<leftarrow> gets mo_keyEventMonitorId;
     if le32 current 0 then do {
       r \<leftarrow> inquire (NewMonitor E);
       only_if (lt32 0 r) (tell (MonitorAdded r));
       modify (\<lambda>s. s\<lparr>mo_keyEventMonitorId := r\<rparr>);
       pure (if le32 r 0 then RET_ERR else RET_OK) }
     else pure RET_ERR }"

definition AddPointerEventHandler :: "senv \<Rightarrow> ('s drag_monitors_scheme, i32) state" where
  "AddPointerEventHandler E = do {
     current \<leftarrow> gets mo_pointerEventMonitorId;
     if le32 current 0 then do {
       r \<leftarrow> inquire (NewMonitor E);
       only_if (lt32 0 r) (tell (MonitorAdded r));
       modify (\<lambda>s. s\<lparr>mo_pointerEventMonitorId := r\<rparr>);
       pure (if le32 r 0 then RET_ERR else RET_OK) }
     else pure RET_ERR }"

definition AddDragEventHandler :: "senv \<Rightarrow> ('s drag_monitors_scheme, i32) state" where
  "AddDragEventHandler E = do {
     k \<leftarrow> AddKeyEventMonitor E;
     if k \<noteq> RET_OK then pure RET_ERR
     else do {
       p \<leftarrow> AddPointerEventHandler E;
       if p \<noteq> RET_OK then pure RET_ERR else pure RET_OK } }"

definition RemovePointerEventHandler :: "('s drag_monitors_scheme, i32) state" where
  "RemovePointerEventHandler = do {
     current \<leftarrow> gets mo_pointerEventMonitorId;
     if le32 current 0 then pure RET_ERR
     else do {
       tell (MonitorRemoved current);
       modify (\<lambda>s. s\<lparr>mo_pointerEventMonitorId := - 1\<rparr>);
       pure RET_OK } }"

definition RemoveKeyEventMonitor :: "('s drag_monitors_scheme, i32) state" where
  "RemoveKeyEventMonitor = do {
     current \<leftarrow> gets mo_keyEventMonitorId;
     if le32 current 0 then pure RET_ERR
     else do {
       tell (MonitorRemoved current);
       modify (\<lambda>s. s\<lparr>mo_keyEventMonitorId := - 1\<rparr>);
       pure RET_OK } }"

definition RemoveDragEventHandler :: "('s drag_monitors_scheme, i32) state" where
  "RemoveDragEventHandler = do {
     k \<leftarrow> RemoveKeyEventMonitor;
     if k \<noteq> RET_OK then pure RET_ERR
     else do {
       p \<leftarrow> RemovePointerEventHandler;
       if p \<noteq> RET_OK then pure RET_ERR else pure RET_OK } }"

definition ResetMouseDragMonitorTimerId :: "senv \<Rightarrow> DragData \<Rightarrow> ('s drag_queue_scheme, unit) state" where
  "ResetMouseDragMonitorTimerId E d = do {
     i \<leftarrow> gets mo_mouseTimerId;
     only_if (0 \<le> sint i \<and> dd_sourceType d = MOUSE E) (do {
       dq_RemoveTimer i;
       modify (\<lambda>s. s\<lparr>mo_mouseTimerId := - 1\<rparr>) }) }"

definition forget_mouse_location :: "('s drag_monitors_scheme, unit) state" where
  "forget_mouse_location = modify (\<lambda>s. s\<lparr>mo_mouseDisplayId := - 1, mo_mouseDisplayX := - 1,
     mo_mouseDisplayY := - 1\<rparr>)"

definition ResetMouseDragMonitorInfo :: "('s drag_queue_scheme, unit) state" where
  "ResetMouseDragMonitorInfo = do {
     RemoveDragEventHandler;
     forget_mouse_location;
     modify (\<lambda>s. s\<lparr>mo_existMouseMove := False\<rparr>);
     modify (\<lambda>s. s\<lparr>mo_mouseState := False\<rparr>);
     SetEventId (- 1);
     i \<leftarrow> gets mo_mouseTimerId;
     only_if (0 \<le> sint i) (do {
       dq_RemoveTimer i;
       modify (\<lambda>s. s\<lparr>mo_mouseTimerId := - 1\<rparr>) }) }"

definition SetMouseDragMonitorState :: "senv \<Rightarrow> bool \<Rightarrow> ('s drag_queue_scheme, i32) state" where
  "SetMouseDragMonitorState E b =
     (if b then do {
        r \<leftarrow> AddDragEventHandler E;
        if r \<noteq> RET_OK then pure RET_ERR
        else do {
          i \<leftarrow> dq_AddTimer E TIMEOUT_MS MonitorCall;
          modify (\<lambda>s. s\<lparr>mo_mouseTimerId := i\<rparr>);
          modify (\<lambda>s. s\<lparr>mo_mouseState := b\<rparr>);
          pure RET_OK } }
      else do {
        ResetMouseDragMonitorInfo;
        modify (\<lambda>s. s\<lparr>mo_mouseState := b\<rparr>);
        pure RET_OK })"

section \<open>Styles, behaviour and data for the input service\<close>

definition ProcessExceptionDragStyle :: "i32 \<Rightarrow> ('s drag_manager_scheme, i32) state" where
  "ProcessExceptionDragStyle style = gets (\<lambda>s.
     if style = STYLE_COPY \<and> (dg_crossDragging s \<or> dg_collaborationService s)
       \<and> dd_summaryTag (dm_dragData s) = NEED_FETCH then STYLE_MOVE else style)"

definition GetRealDragStyle :: "DragAction \<Rightarrow> i32 \<Rightarrow> i32" where
  "GetRealDragStyle act style = (if act = DRAG_ACTION_COPY \<and> style = STYLE_MOVE then STYLE_COPY else style)"

definition OnUpdateDragStyle :: "senv \<Rightarrow> i32 \<Rightarrow> ('s drag_manager_scheme, i32) state" where
  "OnUpdateDragStyle E style = do {
     act \<leftarrow> gets dg_dragAction;
     let updateStyle = GetRealDragStyle act style;
     sn_StyleChangedNotify E updateStyle;
     r \<leftarrow> draw_ret E (DrawStyle updateStyle);
     pure (if r \<noteq> RET_OK then RET_ERR else RET_OK) }"

definition UpdateDragStyleCross :: "senv \<Rightarrow> ('s drag_manager_scheme, unit) state" where
  "UpdateDragStyleCross E = do {
     style \<leftarrow> gets dm_dragStyle;
     OnUpdateDragStyle E style;
     skip }"

definition GetDragBehavior :: "DragDropResult \<Rightarrow> i32 \<Rightarrow> DragAction \<Rightarrow> i32 \<Rightarrow> i32 \<Rightarrow> i32" where
  "GetDragBehavior dropResult style act sourceWindow dragBehavior =
     (if dr_result dropResult \<noteq> DRAG_SUCCESS then BEHAVIOR_UNKNOWN
      else if dragBehavior = BEHAVIOR_UNKNOWN then
        if style = STYLE_COPY then BEHAVIOR_COPY
        else if act = DRAG_ACTION_COPY then BEHAVIOR_COPY
        else if dr_mainWindow dropResult = sourceWindow then BEHAVIOR_MOVE
        else BEHAVIOR_COPY
      else dragBehavior)"

definition CreateExtraData :: "bool \<Rightarrow> bool \<Rightarrow> ('s drag_manager_scheme, ExtraData) state" where
  "CreateExtraData appended drawCursor = gets (\<lambda>s.
     \<lparr>xd_buffer = dd_buffer (dm_dragData s), xd_sourceType = dd_sourceType (dm_dragData s),
      xd_pointerId = dd_pointerId (dm_dragData s), xd_appended = appended, xd_pullId = dg_pullId s,
      xd_drawCursor = drawCursor, xd_eventId = dm_eventId s\<rparr>)"

definition AppendExtraData :: "senv \<Rightarrow> ExtraData \<Rightarrow> ('s svc_scheme, i32) state" where
  "AppendExtraData E x = do { tell (ExtraDataAppended x); inquire (AppendExtraData_ret E) }"

section \<open>Starting a drag\<close>

definition LONG_PRESS_DRAG :: string where "LONG_PRESS_DRAG = ''Long-press drag''"
definition CROSS_DEVICE_DRAG :: string where "CROSS_DEVICE_DRAG = ''Cross-device drag''"

definition dg_GetPackageName :: "i32 \<Rightarrow> ('s drag_manager_scheme, string) state" where
  "dg_GetPackageName pid = do {
     longPress \<leftarrow> gets dg_isLongPressDrag;
     if pid = - 1 then pure (if longPress then LONG_PRESS_DRAG else CROSS_DEVICE_DRAG)
     else do {
       AddSessionDeletedCallback pid;
       session \<leftarrow> FindSessionByPid pid;
       modify (\<lambda>s. s\<lparr>dg_dragOutSession := session\<rparr>);
       case session of None \<Rightarrow> pure [] | Some fd \<Rightarrow> GetProgramName fd } }"

definition SetCrossDragging :: "i32 \<Rightarrow> ('s drag_manager_scheme, unit) state" where
  "SetCrossDragging pid = modify (\<lambda>s. s\<lparr>dg_crossDragging := (pid = - 1 \<and> \<not> dg_isLongPressDrag s)\<rparr>)"

text \<open>The name that \<open>GetDragRadarPackageName\<close> puts into \<open>appCaller\<close>.\<close>

definition radar_appCaller :: "i32 \<Rightarrow> string \<Rightarrow> string \<Rightarrow> bool \<Rightarrow> string" where
  "radar_appCaller pid packageName appCaller isLongPressDrag =
     (if pid = - 1 \<and> \<not> isLongPressDrag then appCaller else packageName)"

definition InitDataManager :: "DragData \<Rightarrow> string \<Rightarrow> ('s data_mgr_scheme, i32) state" where
  "InitDataManager d appCaller = do { dm_Init d appCaller; pure RET_OK }"

definition dg_GenerateId :: "('s drag_manager_scheme, i32) state" where
  "dg_GenerateId = do {
     i \<leftarrow> gets dg_idSeed;
     if i = 2147483647 then pure 0
     else do { modify (\<lambda>s. s\<lparr>dg_idSeed := i + 1\<rparr>); pure i } }"

definition SetControlCollaborationVisible :: "bool \<Rightarrow> ('s drag_manager_scheme, unit) state" where
  "SetControlCollaborationVisible b = modify (\<lambda>s. s\<lparr>dg_controlVisible := b\<rparr>)"

text \<open>\<open>tolower\<close> on the letters of ASCII.\<close>

definition to_lower :: "string \<Rightarrow> string" where
  "to_lower = map (\<lambda>c. let n = of_char c :: nat in if 65 \<le> n \<and> n \<le> 90 then char_of (n + 32) else c)"

definition rtl_languages :: "string list" where
  "rtl_languages = [''ar'', ''fa'', ''ur'', ''he'', ''ug'']"

definition UpdateDragStylePositon :: "senv \<Rightarrow> ('s drag_manager_scheme, unit) state" where
  "UpdateDragStylePositon E = do {
     chosen \<leftarrow> inquire (\<lambda>t. SystemParameter E t ''persist.global.language'');
     language \<leftarrow> (if chosen = [] then inquire (\<lambda>t. SystemParameter E t ''const.global.language'')
                  else pure chosen);
     only_if (language \<noteq> []) (do {
       let isCurrentRTL = (to_lower language \<in> set rtl_languages);
       isRTL \<leftarrow> gets dg_isRTL;
       only_if (isRTL \<noteq> isCurrentRTL) (do {
         modify (\<lambda>s. s\<lparr>dg_isRTL := isCurrentRTL\<rparr>);
         draw (DrawRTL isCurrentRTL);
         style \<leftarrow> gets dm_dragStyle;
         draw_ret E (DrawStyle style);
         skip }) }) }"

definition select_screen :: "senv \<Rightarrow> i32 \<Rightarrow> ('s drag_manager_scheme, unit) state" where
  "select_screen E disp = do {
     display \<leftarrow> inquire (\<lambda>t. DisplayOf E t disp);
     let isHicarOrSuperLauncher = (case display of None \<Rightarrow> False
           | Some d \<Rightarrow> fst d = ''HiCar'' \<or> fst d = ''SuperLauncher'');
     draw (DrawRsScreen (case display of None \<Rightarrow> 0 | Some d \<Rightarrow> snd d));
     foldable \<leftarrow> inquire (Foldable E);
     ids \<leftarrow> gets (\<lambda>s. (dg_displayId s, dg_screenId s));
     only_if (foldable \<and> \<not> isHicarOrSuperLauncher \<and> scast disp = fst ids)
       (draw (DrawRsScreen (snd ids))) }"

definition AddDragEvent :: "senv \<Rightarrow> ('s drag_manager_scheme, i32) state" where
  "AddDragEvent E = do {
     extraData \<leftarrow> CreateExtraData True False;
     r \<leftarrow> AppendExtraData E extraData;
     if r \<noteq> RET_OK then do { close_window; pure RET_ERR }
     else do {
       current \<leftarrow> gets mo_pointerEventMonitorId;
       if le32 current 0 then do {
         h \<leftarrow> AddDragEventHandler E;
         if h \<noteq> RET_OK then do { close_window; pure RET_ERR } else pure RET_OK }
       else pure RET_OK } }"

definition first_drawing :: "DragData \<Rightarrow> ('s drag_manager_scheme, unit) state" where
  "first_drawing d = do {
     known \<leftarrow> gets (\<lambda>s. mo_mouseState s \<and> mo_existMouseMove s);
     x \<leftarrow> gets mo_mouseDisplayX;
     y \<leftarrow> gets mo_mouseDisplayY;
     i \<leftarrow> gets mo_mouseDisplayId;
     last \<leftarrow> gets dg_lastDisplayId;
     if \<not> known then draw (DrawAt (dd_displayId d) (dd_displayX d) (dd_displayY d) True False)
     else only_if (x \<noteq> - 1 \<and> y \<noteq> - 1 \<and> i \<noteq> - 1) (do {
       draw (DrawAt i x y True False);
       only_if (last \<noteq> i) (draw (DrawWindowDisplay i)) }) }"

definition OnStartDrag :: "senv \<Rightarrow> ('s drag_manager_scheme, i32) state" where
  "OnStartDrag E = do {
     i \<leftarrow> dg_GenerateId;
     modify (\<lambda>s. s\<lparr>dg_pullId := i\<rparr>);
     control \<leftarrow> gets dg_controlVisible;
     only_if control (SetControlCollaborationVisible False);
     d \<leftarrow> gets dm_dragData;
     select_screen E (dd_displayId d);
     UpdateDragStylePositon E;
     longPress \<leftarrow> gets dg_isLongPressDrag;
     ret \<leftarrow> drawing_Init E d longPress;
     if ret = INIT_FAIL then do { close_window; pure RET_ERR }
     else if ret = INIT_CANCEL then pure RET_ERR
     else do {
       first_drawing d;
       r \<leftarrow> AddDragEvent E;
       if r \<noteq> RET_OK then pure RET_ERR
       else do {
         modify (\<lambda>s. s\<lparr>dg_dragAction := DRAG_ACTION_MOVE\<rparr>);
         pure RET_OK } } }"

definition SetDragState :: "senv \<Rightarrow> DragState \<Rightarrow> ('s drag_manager_scheme, unit) state" where
  "SetDragState E st = do {
     current \<leftarrow> gets dg_dragState;
     only_if (\<not> (current = DRAG_STOP \<and> st = MOTION_DRAGGING)) (do {
       modify (\<lambda>s. s\<lparr>dg_dragState := st\<rparr>);
       draw (DrawDragState st);
       only_if (st = DRAG_START) (UpdateDragStyleCross E) }) }"

text \<open>What a start records about the drag before anything can fail.\<close>

definition note_drag ::
    "senv \<Rightarrow> DragData \<Rightarrow> i32 \<Rightarrow> net_id \<Rightarrow> bool \<Rightarrow> string \<Rightarrow> ('s drag_manager_scheme, i32) state" where
  "note_drag E d pid peerNetId isLongPressDrag appCaller = do {
     modify (\<lambda>s. s\<lparr>dg_isLongPressDrag := isLongPressDrag\<rparr>);
     SetCrossDragging pid;
     modify (\<lambda>s. s\<lparr>dg_peerNetId := peerNetId\<rparr>);
     modify (\<lambda>s. s\<lparr>dg_lastDisplayId := dd_displayId d\<rparr>);
     packageName \<leftarrow> dg_GetPackageName pid;
     only_if (packageName = CollaborationName E) (modify (\<lambda>s. s\<lparr>dg_collaborationService := True\<rparr>));
     let caller = radar_appCaller pid packageName appCaller isLongPressDrag;
     modify (\<lambda>s. s\<lparr>dg_appCaller := caller\<rparr>);
     InitDataManager d caller }"

definition StartDrag ::
    "senv \<Rightarrow> DragData \<Rightarrow> i32 \<Rightarrow> net_id \<Rightarrow> bool \<Rightarrow> string \<Rightarrow> ('s drag_manager_scheme, i32) state" where
  "StartDrag E d pid peerNetId isLongPressDrag appCaller = do {
     ResetMouseDragMonitorTimerId E d;
     st \<leftarrow> gets dg_dragState;
     drawing \<leftarrow> IsDrawing;
     if st = DRAG_START \<or> st = MOTION_DRAGGING \<or> drawing then pure RET_ERR
     else do {
       noted \<leftarrow> note_drag E d pid peerNetId isLongPressDrag appCaller;
       if noted \<noteq> RET_OK then do { ResetMouseDragMonitorInfo; pure RET_ERR }
       else do {
         started \<leftarrow> OnStartDrag E;
         if started \<noteq> RET_OK then do { ResetMouseDragMonitorInfo; pure RET_ERR }
         else do {
           pullUp \<leftarrow> gets dg_pullUpCallback;
           only_if pullUp (tell (PullUpCallback False));
           delivered \<leftarrow> DeliverNonceToInput E;
           if delivered = RET_ERR then pure RET_ERR
           else do {
             modify (\<lambda>s. s\<lparr>dg_animationType := dd_dragAnimationType d\<rparr>);
             SetDragState E DRAG_START;
             draw DrawStartExt;
             sn_StateChangedNotify E DRAG_START;
             dg_StateChangedNotify DRAG_START;
             pure RET_OK } } } } }"

section \<open>Stopping a drag\<close>

definition NotifyDragResult :: "senv \<Rightarrow> i32 \<Rightarrow> i32 \<Rightarrow> ('s drag_manager_scheme, i32) state" where
  "NotifyDragResult E result dragBehavior = do {
     d \<leftarrow> gets dm_dragData;
     targetPid \<leftarrow> gets dm_targetPid;
     animation \<leftarrow> gets dg_animationType;
     if lt32 result DRAG_SUCCESS \<or> lt32 DRAG_EXCEPTION result then pure RET_ERR
     else do {
       let pkt = puts [i32_bytes (dd_displayX d), i32_bytes (dd_displayY d), i32_bytes result,
         i32_bytes targetPid, i32_bytes dragBehavior, i32_bytes animation] (NetPacket DRAG_NOTIFY_RESULT);
       session \<leftarrow> gets dg_dragOutSession;
       if ChkRWError pkt then pure RET_ERR
       else case session of
         None \<Rightarrow> pure RET_ERR
       | Some fd \<Rightarrow> do {
           sent \<leftarrow> SendMsg E fd pkt;
           pure (if sent then RET_OK else MSG_SEND_FAIL E) } } }"

definition HandleDragSuccess :: "bool \<Rightarrow> ('s drag_manager_scheme, i32) state" where
  "HandleDragSuccess hasCustomAnimation = do {
     (if hasCustomAnimation then close_window else draw DrawSuccess);
     pure RET_OK }"

definition HandleDragResult :: "senv \<Rightarrow> i32 \<Rightarrow> bool \<Rightarrow> i32 \<Rightarrow> ('s drag_manager_scheme, i32) state" where
  "HandleDragResult E result hasCustomAnimation pid = do {
     animation \<leftarrow> gets dg_animationType;
     info \<leftarrow> gets dg_animationInfo;
     longPress \<leftarrow> gets dg_isLongPressDrag;
     if animation = FOLLOW_HAND_MORPH then do {
       r \<leftarrow> draw_ret E (DrawDestopAnimation pid info);
       only_if (r \<noteq> RET_OK) close_window;
       pure RET_OK }
     else if result = DRAG_SUCCESS then do {
       r \<leftarrow> HandleDragSuccess hasCustomAnimation;
       pure r }
     else if result = DRAG_FAIL \<or> result = RESULT_CANCEL then do {
       (if hasCustomAnimation then close_window else draw (DrawFail longPress));
       pure RET_OK }
     else if result = DRAG_EXCEPTION then do { close_window; pure RET_OK }
     else pure RET_OK }"

definition remove_monitors :: "('s drag_monitors_scheme, unit) state" where
  "remove_monitors = do {
     r \<leftarrow> RemovePointerEventHandler;
     only_if (r = RET_OK) (do { RemoveKeyEventMonitor; skip }) }"

definition show_pointer :: "senv \<Rightarrow> bool \<Rightarrow> ('s drag_manager_scheme, unit) state" where
  "show_pointer E isStopCooperate =
     (if isStopCooperate then do {
        hasLocal \<leftarrow> inquire (HasLocalPointer E);
        hasInput \<leftarrow> (if hasLocal then pure True else inquire (InputHasPointer E));
        tell (PointerVisible hasInput) }
      else tell (PointerVisible True))"

definition OnStopDrag :: "senv \<Rightarrow> i32 \<Rightarrow> bool \<Rightarrow> i32 \<Rightarrow> bool \<Rightarrow> ('s drag_manager_scheme, i32) state" where
  "OnStopDrag E result hasCustomAnimation pid isStopCooperate = do {
     d \<leftarrow> gets dm_dragData;
     remove_monitors;
     modify (\<lambda>s. s\<lparr>dg_dragAction := DRAG_ACTION_MOVE\<rparr>);
     extraData \<leftarrow> CreateExtraData False False;
     AppendExtraData E extraData;
     st \<leftarrow> gets dg_dragState;
     only_if (dd_sourceType d = MOUSE E) (do {
       draw DrawEraseMouse;
       only_if (st \<noteq> MOTION_DRAGGING) (show_pointer E isStopCooperate) });
     modify (\<lambda>s. s\<lparr>dg_pullId := - 1\<rparr>);
     HandleDragResult E result hasCustomAnimation pid }"

definition clear_drag :: "i32 \<Rightarrow> string \<Rightarrow> ('s drag_manager_scheme, unit) state" where
  "clear_drag result appCallee = do {
     modify (\<lambda>s. s\<lparr>dg_lastDisplayId := - 1\<rparr>);
     modify (\<lambda>s. s\<lparr>dg_lastEventId := - 1\<rparr>);
     forget_mouse_location;
     modify (\<lambda>s. s\<lparr>mo_mouseState := False\<rparr>);
     modify (\<lambda>s. s\<lparr>mo_existMouseMove := False\<rparr>);
     modify (\<lambda>s. s\<lparr>dg_needLongPressAnimation := True\<rparr>);
     modify (\<lambda>s. s\<lparr>dg_isLongPressDrag := False\<rparr>);
     modify (\<lambda>s. s\<lparr>dg_currentPointerEvent := None\<rparr>);
     modify (\<lambda>s. s\<lparr>dg_isRTL := False\<rparr>);
     modify (\<lambda>s. s\<lparr>dg_dragResult := result\<rparr>);
     modify (\<lambda>s. s\<lparr>dg_appCallee := appCallee\<rparr>) }"

definition report_stop :: "senv \<Rightarrow> DragDropResult \<Rightarrow> ('s drag_manager_scheme, unit) state" where
  "report_stop E dropResult = do {
     only_if (dr_result dropResult = DRAG_SUCCESS \<and> lt32 0 (dr_mainWindow dropResult))
       (tell (WindowRaised (dr_mainWindow dropResult)));
     sn_StateChangedNotify E DRAG_STOP;
     style \<leftarrow> gets dm_dragStyle;
     act \<leftarrow> gets dg_dragAction;
     d \<leftarrow> gets dm_dragData;
     NotifyDragResult E (dr_result dropResult)
       (GetDragBehavior dropResult style act (dd_mainWindow d) (dr_dragBehavior dropResult));
     skip }"

definition end_drag :: "senv \<Rightarrow> ('s drag_manager_scheme, unit) state" where
  "end_drag E = do {
     dg_StateChangedNotify DRAG_STOP;
     ResetDragData;
     modify (\<lambda>s. s\<lparr>dg_appCaller := []\<rparr>);
     SetDragState E DRAG_STOP;
     control \<leftarrow> gets dg_controlVisible;
     only_if control (SetControlCollaborationVisible False);
     ResetSecurityPid;
     modify (\<lambda>s. s\<lparr>dg_dragOutSession := None\<rparr>);
     modify (\<lambda>s. s\<lparr>dg_peerNetId := []\<rparr>) }"

text \<open>\<open>inAppCallee\<close> is the field of \<open>inPackageName\<close> that is used.\<close>

definition StopDrag ::
    "senv \<Rightarrow> DragDropResult \<Rightarrow> string \<Rightarrow> i32 \<Rightarrow> bool \<Rightarrow> string \<Rightarrow> ('s drag_manager_scheme, i32) state" where
  "StopDrag E dropResult packageName pid isStopCooperate inAppCallee = do {
     modify (\<lambda>s. s\<lparr>dg_crossDragging := False\<rparr>);
     modify (\<lambda>s. s\<lparr>dg_collaborationService := False\<rparr>);
     longPress \<leftarrow> gets dg_isLongPressDrag;
     let appCallee = (if pid = - 1 \<and> \<not> longPress then inAppCallee else packageName);
     st \<leftarrow> gets dg_dragState;
     if st = DRAG_STOP then pure RET_ERR
     else do {
       timer \<leftarrow> gets dg_timerId;
       only_if (dr_result dropResult \<noteq> DRAG_EXCEPTION \<and> 0 \<le> sint timer) (do {
         dq_RemoveTimer timer;
         modify (\<lambda>s. s\<lparr>dg_timerId := - 1\<rparr>) });
       modify (\<lambda>s. s\<lparr>dg_animationInfo := dr_dragAnimationInfo dropResult\<rparr>);
       r \<leftarrow> OnStopDrag E (dr_result dropResult) (dr_hasCustomAnimation dropResult) pid isStopCooperate;
       let ret = (if r \<noteq> RET_OK then RET_ERR else RET_OK);
       report_stop E dropResult;
       clear_drag (dr_result dropResult) appCallee;
       end_drag E;
       pure ret } }"

end
