(* ===== verification/Drag_Clients.thy ===== *)
theory Drag_Clients
  imports Drag_Manager
begin

text \<open>
  What clients ask of a drag in progress: the updates and queries of drag_manager.cpp. A query
  with an out parameter returns \<open>Inl\<close> of its error code or \<open>Inr\<close> of the value.
\<close>

definition is_running :: "DragState \<Rightarrow> bool" where
  "is_running st \<longleftrightarrow> st = DRAG_START \<or> st = MOTION_DRAGGING"

section \<open>Updates by clients\<close>

definition UpdateDragStyle :: "senv \<Rightarrow> i32 \<Rightarrow> i32 \<Rightarrow> i32 \<Rightarrow> i32 \<Rightarrow> ('s drag_manager_scheme, i32) state" where
  "UpdateDragStyle E asked targetPid targetTid eventId = do {
     lastEvent \<leftarrow> gets dg_lastEventId;
     if eventId \<noteq> - 1 \<and> lt32 eventId lastEvent then pure RET_ERR
     else do {
       style \<leftarrow> ProcessExceptionDragStyle asked;
       modify (\<lambda>s. s\<lparr>dg_lastEventId := eventId\<rparr>);
       lastTargetPid \<leftarrow> gets dm_targetPid;
       SetTargetPid targetPid;
       SetTargetTid targetTid;
       current \<leftarrow> gets dm_dragStyle;
       act \<leftarrow> gets dg_dragAction;
       if style = current then do {
         only_if (targetPid \<noteq> lastTargetPid)
           (do { sn_StyleChangedNotify E (GetRealDragStyle act style); skip });
         pure RET_OK }
       else do {
         SetDragStyle style;
         st \<leftarrow> gets dg_dragState;
         if st \<noteq> DRAG_START then pure RET_ERR
         else if lt32 style STYLE_DEFAULT \<or> lt32 STYLE_MOVE style then pure RET_ERR
         else do {
           r \<leftarrow> OnUpdateDragStyle E style;
           pure (if r \<noteq> RET_OK then RET_ERR else RET_OK) } } } }"

definition UpdateShadowPic :: "senv \<Rightarrow> ShadowInfo \<Rightarrow> ('s drag_manager_scheme, i32) state" where
  "UpdateShadowPic E sh = do {
     st \<leftarrow> gets dg_dragState;
     if st \<noteq> DRAG_START then pure RET_ERR
     else do { SetShadowInfos [sh]; draw_ret E DrawShadow } }"

definition UpdatePreviewStyle :: "senv \<Rightarrow> PreviewStyle \<Rightarrow> ('s drag_manager_scheme, i32) state" where
  "UpdatePreviewStyle E p = do {
     st \<leftarrow> gets dg_dragState;
     current \<leftarrow> gets dm_previewStyle;
     if \<not> is_running st then pure RET_ERR
     else if same_preview E p current then pure RET_OK
     else do { SetPreviewStyle p; draw_ret E DrawPreview } }"

definition UpdatePreviewStyleWithAnimation :: "senv \<Rightarrow> PreviewStyle \<Rightarrow> ('s drag_manager_scheme, i32) state" where
  "UpdatePreviewStyleWithAnimation E p = do {
     st \<leftarrow> gets dg_dragState;
     current \<leftarrow> gets dm_previewStyle;
     if \<not> is_running st then pure RET_ERR
     else if same_preview E p current then pure RET_OK
     else do { SetPreviewStyle p; draw_ret E DrawPreviewAnimated } }"

definition OnSetDragWindowVisible ::
    "senv \<Rightarrow> bool \<Rightarrow> bool \<Rightarrow> bool \<Rightarrow> bool \<Rightarrow> ('s drag_manager_scheme, i32) state" where
  "OnSetDragWindowVisible E visible isForce isZoomInAndAlphaChanged hasTransaction = do {
     st \<leftarrow> gets dg_dragState;
     animation \<leftarrow> gets dg_animationType;
     control \<leftarrow> gets dg_controlVisible;
     if st = MOTION_DRAGGING then pure RET_OK
     else if st = DRAG_STOP \<and> animation \<noteq> FOLLOW_HAND_MORPH then pure RET_ERR
     else if \<not> isForce \<and> control \<and> \<not> hasTransaction then pure RET_OK
     else do {
       SetDragWindowVisible visible;
       draw (DrawWindowState visible isZoomInAndAlphaChanged);
       d \<leftarrow> gets dm_dragData;
       only_if (dd_sourceType d = MOUSE E \<and> visible) (tell (PointerVisible False));
       only_if isForce (SetControlCollaborationVisible isForce);
       pure RET_OK } }"

definition MoveTo :: "i32 \<Rightarrow> i32 \<Rightarrow> bool \<Rightarrow> ('s drag_manager_scheme, unit) state" where
  "MoveTo x y isMultiSelectedAnimation = do {
     st \<leftarrow> gets dg_dragState;
     d \<leftarrow> gets dm_dragData;
     only_if (is_running st) (draw (DrawAt (dd_displayId d) x y True isMultiSelectedAnimation)) }"

definition SetMultiSelectedAnimationFlag :: "senv \<Rightarrow> bool \<Rightarrow> ('s drag_manager_scheme, unit) state" where
  "SetMultiSelectedAnimationFlag E need = do { dq_PostAsyncTask E (TaskMultiSelected need); skip }"

definition EnterTextEditorArea :: "senv \<Rightarrow> bool \<Rightarrow> ('s drag_manager_scheme, i32) state" where
  "EnterTextEditorArea E enable = do {
     st \<leftarrow> gets dg_dragState;
     flag \<leftarrow> gets dm_textEditorAreaFlag;
     d \<leftarrow> gets dm_dragData;
     if st \<noteq> DRAG_START then pure RET_ERR
     else if flag = enable then pure RET_ERR
     else if dd_hasCoordinateCorrected d then pure RET_ERR
     else draw_ret E (DrawTextEditor enable) }"

definition EraseMouseIcon :: "('s drag_manager_scheme, i32) state" where
  "EraseMouseIcon = do {
     st \<leftarrow> gets dg_dragState;
     if \<not> is_running st then pure RET_ERR
     else do { draw DrawEraseMouse; pure RET_OK } }"

definition SendDragData :: "senv \<Rightarrow> i32 \<Rightarrow> string \<Rightarrow> ('s svc_scheme, i32) state" where
  "SendDragData E targetTid udKey = do {
     tell (PrivilegeAdded udKey targetTid);
     r \<leftarrow> inquire (\<lambda>t. AddPrivilege_ret E t udKey targetTid);
     pure (if r \<noteq> RET_OK then RET_ERR else RET_OK) }"

definition AddPrivilege ::
    "senv \<Rightarrow> i32 \<Rightarrow> i32 \<Rightarrow> string \<Rightarrow> DragEventData \<Rightarrow> ('s drag_manager_scheme, i32) state" where
  "AddPrivilege E tokenId pid signature ev = do {
     st \<leftarrow> gets dg_dragState;
     d \<leftarrow> gets dm_dragData;
     if \<not> is_running st then pure RET_ERR
     else do {
       verified \<leftarrow> VerifyAndResetNonce E ev signature;
       if \<not> verified then pure RET_ERR
       else do {
         StoreSecurityPid pid;
         SendDragData E tokenId (dd_udKey d) } } }"

definition NotifyAddSelectedPixelMapResult :: "senv \<Rightarrow> bool \<Rightarrow> ('s drag_manager_scheme, i32) state" where
  "NotifyAddSelectedPixelMapResult E b = do {
     let pkt = put (bool_bytes b) (NetPacket ADD_SELECTED_PIXELMAP_RESULT);
     session \<leftarrow> gets dg_dragOutSession;
     if ChkRWError pkt then pure RET_ERR
     else case session of
       None \<Rightarrow> pure RET_ERR
     | Some fd \<Rightarrow> do {
         sent \<leftarrow> SendMsg E fd pkt;
         pure (if sent then RET_OK else MSG_SEND_FAIL E) } }"

definition AddSelectedPixelMap :: "senv \<Rightarrow> nat option \<Rightarrow> ('s drag_manager_scheme, i32) state" where
  "AddSelectedPixelMap E pixelMap = do {
     st \<leftarrow> gets dg_dragState;
     if st \<noteq> DRAG_START then do { NotifyAddSelectedPixelMapResult E False; pure RET_ERR }
     else do {
       r \<leftarrow> draw_ret E DrawAddPixelMap;
       if r \<noteq> RET_OK then do { NotifyAddSelectedPixelMapResult E False; pure RET_ERR }
       else do {
         UpdateShadowInfos pixelMap;
         NotifyAddSelectedPixelMapResult E True;
         pure RET_OK } } }"

definition NotifyHideIcon :: "senv \<Rightarrow> ('s drag_manager_scheme, i32) state" where
  "NotifyHideIcon E = do {
     let pkt = NetPacket DRAG_NOTIFY_HIDE_ICON;
     session \<leftarrow> gets dg_dragOutSession;
     if ChkRWError pkt then pure RET_ERR
     else case session of
       None \<Rightarrow> pure RET_ERR
     | Some fd \<Rightarrow> do {
         sent \<leftarrow> SendMsg E fd pkt;
         pure (if sent then RET_OK else MSG_SEND_FAIL E) } }"

definition SetDragOriginDpi :: "u32 \<Rightarrow> ('s data_mgr_scheme, unit) state" where
  "SetDragOriginDpi dpi = dm_SetDragOriginDpi dpi"

definition SetPointerEventFilterTime :: "int \<Rightarrow> ('s drag_manager_scheme, unit) state" where
  "SetPointerEventFilterTime time = modify (\<lambda>s. s\<lparr>dg_filterTime := time\<rparr>)"

definition SetDragWindowScreenId :: "u64 \<Rightarrow> u64 \<Rightarrow> ('s drag_manager_scheme, unit) state" where
  "SetDragWindowScreenId disp screen =
     modify (\<lambda>s. s\<lparr>dg_displayId := disp, dg_screenId := screen\<rparr>)"

section \<open>Rotation\<close>

definition post_sync :: "senv \<Rightarrow> ('s svc_scheme, unit) state \<Rightarrow> ('s svc_scheme, unit) state" where
  "post_sync E m = do {
     r \<leftarrow> inquire (PostSync E);
     only_if (r = RET_OK) m }"

definition SetRotation :: "senv \<Rightarrow> u64 \<Rightarrow> i32 \<Rightarrow> ('s svc_scheme, unit) state" where
  "SetRotation E disp rotation = post_sync E (draw (DrawSetRotation disp rotation))"

definition GetRotation :: "senv \<Rightarrow> u64 \<Rightarrow> ('s svc_scheme, i32) state" where
  "GetRotation E disp = do {
     r \<leftarrow> inquire (PostSync E);
     if r = RET_OK then inquire (\<lambda>t. RotationOf E t disp) else pure 0 }"

definition RemoveDisplayIdFromMap :: "senv \<Rightarrow> u64 \<Rightarrow> ('s svc_scheme, unit) state" where
  "RemoveDisplayIdFromMap E disp = post_sync E (draw (DrawRemoveDisplay disp))"

definition RotateDragWindow :: "senv \<Rightarrow> u64 \<Rightarrow> i32 \<Rightarrow> ('s drag_manager_scheme, i32) state" where
  "RotateDragWindow E disp rotation = do {
     r \<leftarrow> dq_PostAsyncTask E (TaskRotateWindow disp rotation);
     pure (if r \<noteq> RET_OK then r else RET_OK) }"

definition RotateDragWindowSync :: "senv \<Rightarrow> ('s drag_manager_scheme, i32) state" where
  "RotateDragWindowSync E = do {
     r \<leftarrow> dq_PostAsyncTask E TaskRotateSync;
     pure (if r \<noteq> RET_OK then r else RET_OK) }"

definition ScreenRotate :: "senv \<Rightarrow> i32 \<Rightarrow> i32 \<Rightarrow> ('s drag_manager_scheme, i32) state" where
  "ScreenRotate E rotation lastRotation = do {
     d \<leftarrow> gets dm_dragData;
     if dd_sourceType d \<noteq> MOUSE E then pure RET_OK
     else do {
       r \<leftarrow> dq_PostAsyncTask E (TaskScreenRotate rotation lastRotation);
       pure (if r \<noteq> RET_OK then r else RET_OK) } }"

section \<open>Queries\<close>

definition must_fetch :: "'s drag_manager_scheme \<Rightarrow> bool" where
  "must_fetch s \<longleftrightarrow> (dg_crossDragging s \<or> dg_collaborationService s)
     \<and> dd_summaryTag (dm_dragData s) = NEED_FETCH"

definition GetUdKey :: "i32 \<Rightarrow> bool \<Rightarrow> ('s drag_manager_scheme, i32 + string) state" where
  "GetUdKey pid isSystemService = do {
     verified \<leftarrow> (if isSystemService then pure True else VerifySecurityPid pid);
     d \<leftarrow> gets dm_dragData;
     fetch \<leftarrow> gets must_fetch;
     if \<not> verified then pure (Inl RET_ERR)
     else if fetch then pure (Inr [])
     else if dd_udKey d = [] then pure (Inl RET_ERR)
     else pure (Inr (dd_udKey d)) }"

definition GetDragTargetPid :: "('s drag_manager_scheme, i32) state" where
  "GetDragTargetPid = gets dm_targetPid"

definition GetDragData :: "('s drag_manager_scheme, i32 + DragData) state" where
  "GetDragData = gets (\<lambda>s. if is_running (dg_dragState s) then Inr (dm_dragData s) else Inl RET_ERR)"

definition GetDragState :: "('s drag_manager_scheme, i32 \<times> DragState) state" where
  "GetDragState = gets (\<lambda>s.
     (if dg_dragState s = DRAG_ERROR then RET_ERR else RET_OK, dg_dragState s))"

definition GetAllowDragState :: "senv \<Rightarrow> bool \<Rightarrow> ('s drag_manager_scheme, bool) state" where
  "GetAllowDragState E isAllowDrag = do {
     st \<leftarrow> gets dg_dragState;
     if st \<noteq> DRAG_START then pure isAllowDrag else inquire (AllowDrag E) }"

definition OnGetShadowOffset :: "senv \<Rightarrow> ('s data_mgr_scheme, i32 + ShadowOffset) state" where
  "OnGetShadowOffset E = GetShadowOffset E"

definition GetDragSummary :: "('s drag_manager_scheme, (string \<times> int) list) state" where
  "GetDragSummary = gets (\<lambda>s. let d = dm_dragData s in
     if must_fetch s then []
     else if dd_detailedSummarys d = [] then dd_summarys d else dd_detailedSummarys d)"

definition GetDragSummaryInfo :: "('s drag_manager_scheme, i32 + DragSummaryInfo) state" where
  "GetDragSummaryInfo = gets (\<lambda>s. let info = GetSummaryInfo (dm_dragData s) in
     if \<not> is_running (dg_dragState s) then Inl RET_ERR
     else if must_fetch s then Inr (info\<lparr>ds_summarys := [], ds_detailedSummarys := [], ds_summaryFormat := []\<rparr>)
     else Inr info)"

definition GetDragAction :: "('s drag_manager_scheme, i32 + DragAction) state" where
  "GetDragAction = gets (\<lambda>s. if dg_dragState s \<noteq> DRAG_START then Inl RET_ERR else Inr (dg_dragAction s))"

definition GetExtraInfo :: "('s drag_manager_scheme, i32 + string) state" where
  "GetExtraInfo = gets (\<lambda>s. let x = dd_extraInfo (dm_dragData s) in if x = [] then Inl RET_ERR else Inr x)"

definition GetDragBundleInfo :: "('s drag_manager_scheme, i32 + (string \<times> bool)) state" where
  "GetDragBundleInfo = gets (\<lambda>s. if \<not> is_running (dg_dragState s) then Inl RET_ERR
     else Inr (dg_appCaller s, dg_crossDragging s))"

definition IsDragStart :: "('s drag_manager_scheme, bool) state" where
  "IsDragStart = gets (\<lambda>s. dg_dragState s = DRAG_START)"

definition GetDragAnimationType :: "('s drag_manager_scheme, i32 + i32) state" where
  "GetDragAnimationType = gets (\<lambda>s. if \<not> is_running (dg_dragState s) then Inl RET_ERR
     else Inr (dg_animationType s))"

definition GetExtraData :: "bool \<Rightarrow> ('s drag_manager_scheme, ExtraData) state" where
  "GetExtraData appended = CreateExtraData appended False"

end
