(* ===== verification/Drag_Events.thy ===== *)
theory Drag_Events
  imports Drag_Clients
begin

text \<open>
  What happens to a drag: the events of the input monitors and of the system (drag_manager.cpp,
  event_hub.cpp), the tasks that the delegated-task worker runs and the calls of the timers.
\<close>

section \<open>Pointer events of the monitor\<close>

definition event_position :: "pull_event \<Rightarrow> i32 \<times> i32" where
  "event_position e = (if pe_fixedAuto e then (pe_fixedDisplayX e, pe_fixedDisplayY e)
     else (pe_displayX e, pe_displayY e))"

definition change_display :: "pull_event \<Rightarrow> i32 \<Rightarrow> ('s svc_scheme, unit) state" where
  "change_display e disp = do {
     let pos = event_position e;
     draw (DrawDetach disp);
     draw (DrawAt disp (fst pos) (snd pos) True False);
     draw (DrawWindowDisplay disp);
     draw (DrawMove disp (fst pos) (snd pos) (pe_actionTime e)) }"

definition DealPullInWindowEvent :: "pull_event \<Rightarrow> i32 \<Rightarrow> ('s svc_scheme, i32) state" where
  "DealPullInWindowEvent e disp = do { change_display e disp; pure RET_OK }"

definition DoLongPressDragZoomOutAnimation ::
    "senv \<Rightarrow> i32 \<Rightarrow> i32 \<Rightarrow> ('s drag_manager_scheme, unit) state" where
  "DoLongPressDragZoomOutAnimation E x y = do {
     longPress \<leftarrow> gets dg_isLongPressDrag;
     only_if longPress (do { dq_PostAsyncTask E (TaskLongPress x y); skip }) }"

definition LongPressDragZoomOutAnimation :: "i32 \<Rightarrow> i32 \<Rightarrow> ('s drag_manager_scheme, unit) state" where
  "LongPressDragZoomOutAnimation x y = do {
     need \<leftarrow> gets dg_needLongPressAnimation;
     d \<leftarrow> gets dm_dragData;
     let deltaX = sint (x - dd_displayX d);
     let deltaY = sint (y - dd_displayY d);
     only_if (need \<and> 100 < deltaX * deltaX + deltaY * deltaY) (do {
       draw DrawLongPressZoom;
       modify (\<lambda>s. s\<lparr>dg_needLongPressAnimation := False\<rparr>) }) }"

definition OnDragMove :: "senv \<Rightarrow> pull_event \<Rightarrow> ('s drag_manager_scheme, unit) state" where
  "OnDragMove E e = do {
     d \<leftarrow> gets dm_dragData;
     only_if (pe_sourceType e = dd_sourceType d) (do {
       let pos = event_position e;
       DoLongPressDragZoomOutAnimation E (fst pos) (snd pos);
       let disp = pe_targetDisplayId e;
       last \<leftarrow> gets dg_lastDisplayId;
       if last = - 1 then do {
         modify (\<lambda>s. s\<lparr>dg_lastDisplayId := disp\<rparr>);
         draw (DrawMove disp (fst pos) (snd pos) (pe_actionTime e)) }
       else if last \<noteq> disp then do {
         change_display e disp;
         modify (\<lambda>s. s\<lparr>dg_lastDisplayId := disp\<rparr>) }
       else draw (DrawMove disp (fst pos) (snd pos) (pe_actionTime e)) }) }"

definition OnDragCancel :: "senv \<Rightarrow> ('s drag_manager_scheme, unit) state" where
  "OnDragCancel E = do {
     st \<leftarrow> gets dg_dragState;
     only_if (st = DRAG_START) (do {
       d \<leftarrow> gets dm_dragData;
       only_if (dd_sourceType d = MOUSE E) (do {
         draw DrawEraseMouse;
         tell (PointerVisible True) });
       StopDrag E (drop_result RESULT_CANCEL) [] (- 1) False [];
       skip }) }"

definition OnDragUp :: "senv \<Rightarrow> pull_event \<Rightarrow> ('s drag_manager_scheme, i32) state" where
  "OnDragUp E e = do {
     pullUp \<leftarrow> gets dg_pullUpCallback;
     only_if pullUp (tell (PullUpCallback True));
     st \<leftarrow> gets dg_dragState;
     if st \<noteq> DRAG_START then pure RET_ERR
     else do {
       d \<leftarrow> gets dm_dragData;
       only_if (dd_sourceType d = MOUSE E) (do {
         draw DrawEraseMouse;
         tell (PointerVisible True) });
       i \<leftarrow> dq_AddTimer E TIMEOUT_MS StopDragCall;
       modify (\<lambda>s. s\<lparr>dg_timerId := i\<rparr>);
       pure RET_OK } }"

definition DragUpCallback :: "senv \<Rightarrow> pull_event \<Rightarrow> ('s drag_manager_scheme, unit) state" where
  "DragUpCallback E e = do {
     draw DrawStopVSync;
     forget_mouse_location;
     dq_PostAsyncTask E (TaskDragUp e);
     skip }"

definition note_mouse_location :: "senv \<Rightarrow> pull_event \<Rightarrow> ('s drag_manager_scheme, unit) state" where
  "note_mouse_location E e = do {
     monitored \<leftarrow> gets mo_mouseState;
     only_if (pe_sourceType e = MOUSE E \<and> pe_action e = ACTION_MOVE E \<and> monitored)
       (modify (\<lambda>s. s\<lparr>mo_mouseDisplayId := pe_targetDisplayId e, mo_mouseDisplayX := pe_displayX e,
          mo_mouseDisplayY := pe_displayY e, mo_existMouseMove := True\<rparr>)) }"

definition pull_in_window :: "senv \<Rightarrow> pull_event \<Rightarrow> ('s drag_manager_scheme, unit) state" where
  "pull_in_window E e = do {
     let disp = pe_targetDisplayId e;
     last \<leftarrow> gets dg_lastDisplayId;
     if last = - 1 then modify (\<lambda>s. s\<lparr>dg_lastDisplayId := disp\<rparr>)
     else only_if (last \<noteq> disp) (do {
       dq_PostAsyncTask E (TaskPullInWindow e disp);
       modify (\<lambda>s. s\<lparr>dg_lastDisplayId := disp\<rparr>) }) }"

definition DragCallback :: "senv \<Rightarrow> pull_event \<Rightarrow> ('s drag_manager_scheme, unit) state" where
  "DragCallback E e = do {
     note_mouse_location E e;
     if pe_action e = ACTION_PULL_MOVE E then do {
       forget_mouse_location;
       OnDragMove E e }
     else if pe_action e = ACTION_PULL_UP E \<or> pe_action e = ACTION_PULL_CANCEL E then
       DragUpCallback E e
     else only_if (pe_sourceType e = MOUSE E \<and> pe_action e = ACTION_PULL_IN_WINDOW E)
       (pull_in_window E e) }"

text \<open>\<open>MonitorConsumer::OnInputEvent\<close>.\<close>

definition monitor_OnInputEvent :: "senv \<Rightarrow> pull_event \<Rightarrow> ('s drag_manager_scheme, unit) state" where
  "monitor_OnInputEvent E e = do {
     DragCallback E e;
     only_if (pe_action e = ACTION_PULL_UP E) (do { dq_PostAsyncTask E TaskAppendExtraData; skip }) }"

section \<open>Key events of the monitor\<close>

definition SimulatePullCancelEvent :: "senv \<Rightarrow> ('s drag_manager_scheme, unit) state" where
  "SimulatePullCancelEvent E = do {
     current \<leftarrow> gets dg_currentPointerEvent;
     case current of
       None \<Rightarrow> skip
     | Some e \<Rightarrow> do {
         modify (\<lambda>s. s\<lparr>dg_currentPointerEvent := Some (e\<lparr>pe_action := ACTION_PULL_CANCEL E\<rparr>)\<rparr>);
         tell (InputSimulated (e\<lparr>pe_action := ACTION_PULL_CANCEL E\<rparr>)) } }"

definition CtrlKeyStyleChangedNotify ::
    "senv \<Rightarrow> i32 \<Rightarrow> DragAction \<Rightarrow> ('s drag_manager_scheme, unit) state" where
  "CtrlKeyStyleChangedNotify E style act = do {
     current \<leftarrow> gets dg_dragAction;
     only_if (act \<noteq> current) (do { dq_PostAsyncTask E (TaskNotifyStyle style); skip }) }"

definition HandleCtrlKeyEvent :: "senv \<Rightarrow> i32 \<Rightarrow> DragAction \<Rightarrow> ('s drag_manager_scheme, unit) state" where
  "HandleCtrlKeyEvent E style act = do {
     current \<leftarrow> gets dg_dragAction;
     only_if (act \<noteq> current) (do { dq_PostAsyncTask E (TaskDrawStyle style); skip }) }"

definition set_action :: "DragAction \<Rightarrow> ('s drag_manager_scheme, unit) state" where
  "set_action act = modify (\<lambda>s. s\<lparr>dg_dragAction := act\<rparr>)"

definition ctrl_item :: "senv \<Rightarrow> pull_key \<Rightarrow> (i32 \<times> bool) option" where
  "ctrl_item E k = List.find (\<lambda>it. fst it = KEY_CTRL_LEFT E \<or> fst it = KEY_CTRL_RIGHT E) (pk_items k)"

definition DragKeyEventCallback :: "senv \<Rightarrow> pull_key \<Rightarrow> ('s drag_manager_scheme, unit) state" where
  "DragKeyEventCallback E k = do {
     style \<leftarrow> gets dm_dragStyle;
     if pk_keyCode k = KEY_ESCAPE E then SimulatePullCancelEvent E
     else case ctrl_item E k of
       None \<Rightarrow> set_action DRAG_ACTION_MOVE
     | Some it \<Rightarrow>
         if style = STYLE_DEFAULT \<or> style = STYLE_FORBIDDEN then set_action DRAG_ACTION_MOVE
         else if \<not> snd it then do {
           CtrlKeyStyleChangedNotify E style DRAG_ACTION_MOVE;
           HandleCtrlKeyEvent E style DRAG_ACTION_MOVE;
           set_action DRAG_ACTION_MOVE }
         else only_if (style \<noteq> STYLE_COPY) (do {
           CtrlKeyStyleChangedNotify E STYLE_COPY DRAG_ACTION_COPY;
           HandleCtrlKeyEvent E STYLE_COPY DRAG_ACTION_COPY;
           set_action DRAG_ACTION_COPY }) }"

section \<open>Tasks, timers and system events\<close>

text \<open>The functions posted to the worker.\<close>

definition run_task :: "senv \<Rightarrow> drag_task \<Rightarrow> ('s drag_manager_scheme, unit) state" where
  "run_task E t = (case t of
       TaskDragUp e \<Rightarrow> do { OnDragUp E e; skip }
     | TaskPullInWindow e disp \<Rightarrow> do { DealPullInWindowEvent e disp; skip }
     | TaskLongPress x y \<Rightarrow> LongPressDragZoomOutAnimation x y
     | TaskMultiSelected b \<Rightarrow> draw (DrawMultiSelected b)
     | TaskRotateSync \<Rightarrow> draw DrawRotateSync
     | TaskDrawStyle style \<Rightarrow> do { draw_ret E (DrawStyle style); skip }
     | TaskNotifyStyle style \<Rightarrow> do { sn_StyleChangedNotify E style; skip }
     | TaskAppendExtraData \<Rightarrow> do {
         x \<leftarrow> CreateExtraData False False;
         AppendExtraData E x;
         skip }
     | TaskRotateWindow disp rotation \<Rightarrow> do {
         SetRotation E disp rotation;
         st \<leftarrow> gets dg_dragState;
         last \<leftarrow> gets dg_lastDisplayId;
         only_if (is_running st \<and> ucast disp = last) (draw (DrawRotateAsync rotation)) }
     | TaskScreenRotate rotation lastRotation \<Rightarrow> do {
         st \<leftarrow> gets dg_dragState;
         only_if (is_running st) (draw (DrawScreenRotate rotation lastRotation)) }
     | TaskLocaleChanged \<Rightarrow> do {
         st \<leftarrow> gets dg_dragState;
         only_if (is_running st) (UpdateDragStylePositon E) }
     | TaskScreenLocked \<Rightarrow> do {
         st \<leftarrow> gets dg_dragState;
         only_if (st = DRAG_START) (SimulatePullCancelEvent E) })"

definition RunTask :: "senv \<Rightarrow> ('s drag_manager_scheme, unit) state" where
  "RunTask E = do {
     ts \<leftarrow> gets dq_tasks;
     case ts of
       [] \<Rightarrow> skip
     | t # rest \<Rightarrow> do {
         modify (\<lambda>s. s\<lparr>dq_tasks := rest\<rparr>);
         run_task E t } }"

text \<open>The subscriptions that \<open>Init\<close> delays by half a second.\<close>

definition SubscribeAbilities :: "senv \<Rightarrow> ('s svc_scheme, unit) state" where
  "SubscribeAbilities E = do {
     present \<leftarrow> inquire (SamgrPresent E);
     only_if present (do {
       tell (AbilitySubscribed ''COMMON_EVENT_SERVICE_ID'');
       tell (AbilitySubscribed ''DISPLAY_MANAGER_SERVICE_SA_ID'');
       tell (AbilitySubscribed ''APP_MGR_SERVICE_ID'');
       tell (AbilitySubscribed ''DEVICE_COLLABORATION_SA_ID'') }) }"

definition run_timer :: "senv \<Rightarrow> drag_timer_call \<Rightarrow> ('s drag_manager_scheme, unit) state" where
  "run_timer E c = (case c of
       StopDragCall \<Rightarrow> do { StopDrag E (drop_result DRAG_EXCEPTION) [] (- 1) False []; skip }
     | MonitorCall \<Rightarrow> ResetMouseDragMonitorInfo
     | SubscribeCall \<Rightarrow> SubscribeAbilities E)"

text \<open>A timer of one shot: it is gone once its call has been made.\<close>

definition FireTimer :: "senv \<Rightarrow> i32 \<Rightarrow> ('s drag_manager_scheme, unit) state" where
  "FireTimer E i = do {
     pending \<leftarrow> gets (\<lambda>s. map_of (dq_timers s) i);
     case pending of
       None \<Rightarrow> skip
     | Some c \<Rightarrow> do {
         modify (\<lambda>s. s\<lparr>dq_timers := filter (\<lambda>t. fst t \<noteq> i) (dq_timers s)\<rparr>);
         run_timer E c } }"

definition dg_Init :: "senv \<Rightarrow> ('s drag_manager_scheme, i32) state" where
  "dg_Init E = do { dq_AddTimer E INTERVAL_MS SubscribeCall; pure RET_OK }"

text \<open>The end of an animation of the renderer (or its own timeout).\<close>

definition ResetAnimationFlag :: "('s drag_queue_scheme, unit) state" where
  "ResetAnimationFlag = close_window"

datatype EventId = EVENT_SCREEN_ON | EVENT_SCREEN_OFF | EVENT_SCREEN_LOCK | EVENT_SCREEN_UNLOCK
  | EVENT_BATTERY_LOW | EVENT_BATTERY_OKAY | EVENT_LOCALE_CHANGED

text \<open>\<open>EventHub::OnReceiveEvent\<close>, for the actions it subscribes to.\<close>

definition OnReceiveEvent :: "senv \<Rightarrow> EventId \<Rightarrow> ('s drag_manager_scheme, unit) state" where
  "OnReceiveEvent E i = do {
     only_if (i = EVENT_LOCALE_CHANGED) (do { dq_PostAsyncTask E TaskLocaleChanged; skip });
     only_if (i = EVENT_SCREEN_LOCK) (do { dq_PostAsyncTask E TaskScreenLocked; skip }) }"

end
