(* ===== verification/Drag_Server.thy ===== *)
theory Drag_Server
  imports Drag_Events
begin

text \<open>
  src/intention/drag/server/src/drag_server.cpp: the calls that reach the drag manager over IPC
  and the permissions they need, as built by default (without universal drag). The context of a
  call holds the process and the tokens of the caller; which kind a token is of, the environment
  answers.
\<close>

record CallingContext =
  cc_pid :: i32
  cc_tokenId :: i32
  cc_fullTokenId :: u64

abbreviation (input) COMMON_NOT_SYSTEM_APP :: i32 where "COMMON_NOT_SYSTEM_APP \<equiv> 202"
abbreviation (input) COMMON_CAPABILITY_NOT_SUPPORT :: i32 where "COMMON_CAPABILITY_NOT_SUPPORT \<equiv> 801"

definition sv_GetPackageName :: "senv \<Rightarrow> i32 \<Rightarrow> ('s svc_scheme, string) state" where
  "sv_GetPackageName E tokenId = do {
     kind \<leftarrow> inquire (\<lambda>t. TokenFlag E t tokenId);
     case kind of
       KIND_HAP \<Rightarrow> do {
         name \<leftarrow> inquire (\<lambda>t. HapBundleName E t tokenId);
         pure (case name of None \<Rightarrow> [] | Some n \<Rightarrow> n) }
     | KIND_OTHER \<Rightarrow> pure []
     | _ \<Rightarrow> do {
         name \<leftarrow> inquire (\<lambda>t. NativeProcessName E t tokenId);
         pure (case name of None \<Rightarrow> [] | Some n \<Rightarrow> n) } }"

definition IsSystemServiceCalling :: "senv \<Rightarrow> CallingContext \<Rightarrow> ('s svc_scheme, bool) state" where
  "IsSystemServiceCalling E c = do {
     kind \<leftarrow> inquire (\<lambda>t. TokenFlag E t (cc_tokenId c));
     pure (kind = KIND_NATIVE \<or> kind = KIND_SHELL) }"

definition IsSystemHAPCalling :: "senv \<Rightarrow> CallingContext \<Rightarrow> ('s svc_scheme, bool) state" where
  "IsSystemHAPCalling E c = do {
     service \<leftarrow> IsSystemServiceCalling E c;
     if service then pure True else inquire (\<lambda>t. SystemApp E t (cc_fullTokenId c)) }"

text \<open>A call for system applications only, and one whose answer is a value.\<close>

definition system_only :: "senv \<Rightarrow> CallingContext \<Rightarrow> ('s svc_scheme, i32) state \<Rightarrow> ('s svc_scheme, i32) state" where
  "system_only E c m = do {
     ok \<leftarrow> IsSystemHAPCalling E c;
     if \<not> ok then pure COMMON_NOT_SYSTEM_APP else m }"

definition system_query ::
    "senv \<Rightarrow> CallingContext \<Rightarrow> ('s svc_scheme, i32 + 'a) state \<Rightarrow> ('s svc_scheme, i32 + 'a) state" where
  "system_query E c m = do {
     ok \<leftarrow> IsSystemHAPCalling E c;
     if \<not> ok then pure (Inl COMMON_NOT_SYSTEM_APP) else m }"

section \<open>Starting and stopping\<close>

definition sv_StartDrag :: "senv \<Rightarrow> CallingContext \<Rightarrow> DragData \<Rightarrow> ('s drag_manager_scheme, i32) state" where
  "sv_StartDrag E c d = do {
     session \<leftarrow> FindSessionByPid (cc_pid c);
     case session of
       None \<Rightarrow> pure RET_ERR
     | Some fd \<Rightarrow> do {
         name \<leftarrow> sv_GetPackageName E (cc_tokenId c);
         SetProgramName fd name;
         StartDrag E d (cc_pid c) [] False [] } }"

definition sv_StopDrag :: "senv \<Rightarrow> CallingContext \<Rightarrow> DragDropResult \<Rightarrow> ('s drag_manager_scheme, i32) state" where
  "sv_StopDrag E c dropResult = do {
     name \<leftarrow> sv_GetPackageName E (cc_tokenId c);
     StopDrag E dropResult name (cc_pid c) False [] }"

definition sv_EnableInternalDropAnimation :: "('s svc_scheme, i32) state" where
  "sv_EnableInternalDropAnimation = pure COMMON_CAPABILITY_NOT_SUPPORT"

section \<open>Listeners\<close>

definition sv_AddDraglistener :: "senv \<Rightarrow> CallingContext \<Rightarrow> ('s drag_manager_scheme, i32) state" where
  "sv_AddDraglistener E c = system_only E c (AddListener (cc_pid c))"

definition sv_RemoveDraglistener :: "senv \<Rightarrow> CallingContext \<Rightarrow> ('s drag_manager_scheme, i32) state" where
  "sv_RemoveDraglistener E c = system_only E c (RemoveListener (cc_pid c))"

definition sv_AddSubscriptListener :: "senv \<Rightarrow> CallingContext \<Rightarrow> ('s drag_manager_scheme, i32) state" where
  "sv_AddSubscriptListener E c = system_only E c (AddSubscriptListener (cc_pid c))"

definition sv_RemoveSubscriptListener :: "senv \<Rightarrow> CallingContext \<Rightarrow> ('s drag_manager_scheme, i32) state" where
  "sv_RemoveSubscriptListener E c = system_only E c (RemoveSubscriptListener (cc_pid c))"

section \<open>Updates\<close>

definition sv_SetDragWindowVisible :: "senv \<Rightarrow> bool \<Rightarrow> bool \<Rightarrow> bool \<Rightarrow> ('s drag_manager_scheme, i32) state" where
  "sv_SetDragWindowVisible E visible isForce hasTransaction =
     OnSetDragWindowVisible E visible isForce False hasTransaction"

definition sv_UpdateDragStyle :: "senv \<Rightarrow> CallingContext \<Rightarrow> i32 \<Rightarrow> i32 \<Rightarrow> ('s drag_manager_scheme, i32) state" where
  "sv_UpdateDragStyle E c style eventId = UpdateDragStyle E style (cc_pid c) (cc_tokenId c) eventId"

definition sv_UpdateShadowPic :: "senv \<Rightarrow> ShadowInfo \<Rightarrow> ('s drag_manager_scheme, i32) state" where
  "sv_UpdateShadowPic E sh = UpdateShadowPic E sh"

definition sv_UpdatePreviewStyle :: "senv \<Rightarrow> PreviewStyle \<Rightarrow> ('s drag_manager_scheme, i32) state" where
  "sv_UpdatePreviewStyle E p = UpdatePreviewStyle E p"

definition sv_UpdatePreviewStyleWithAnimation :: "senv \<Rightarrow> PreviewStyle \<Rightarrow> ('s drag_manager_scheme, i32) state" where
  "sv_UpdatePreviewStyleWithAnimation E p = UpdatePreviewStyleWithAnimation E p"

definition sv_RotateDragWindowSync :: "senv \<Rightarrow> CallingContext \<Rightarrow> ('s drag_manager_scheme, i32) state" where
  "sv_RotateDragWindowSync E c = system_only E c (RotateDragWindowSync E)"

definition sv_SetDragWindowScreenId :: "senv \<Rightarrow> CallingContext \<Rightarrow> u64 \<Rightarrow> u64 \<Rightarrow> ('s drag_manager_scheme, i32) state" where
  "sv_SetDragWindowScreenId E c disp screen =
     system_only E c (do { SetDragWindowScreenId disp screen; pure RET_OK })"

definition sv_EnableUpperCenterMode :: "senv \<Rightarrow> bool \<Rightarrow> ('s drag_manager_scheme, i32) state" where
  "sv_EnableUpperCenterMode E enable = EnterTextEditorArea E enable"

definition sv_AddPrivilege ::
    "senv \<Rightarrow> CallingContext \<Rightarrow> string \<Rightarrow> DragEventData \<Rightarrow> ('s drag_manager_scheme, i32) state" where
  "sv_AddPrivilege E c signature ev = AddPrivilege E (cc_tokenId c) (cc_pid c) signature ev"

definition sv_EraseMouseIcon :: "senv \<Rightarrow> CallingContext \<Rightarrow> ('s drag_manager_scheme, i32) state" where
  "sv_EraseMouseIcon E c = system_only E c EraseMouseIcon"

definition sv_SetMouseDragMonitorState :: "senv \<Rightarrow> bool \<Rightarrow> ('s drag_manager_scheme, i32) state" where
  "sv_SetMouseDragMonitorState E b = SetMouseDragMonitorState E b"

definition sv_SetDraggableState :: "bool \<Rightarrow> ('s svc_scheme, i32) state" where
  "sv_SetDraggableState b = pure RET_OK"

definition sv_SetDraggableStateAsync :: "bool \<Rightarrow> int \<Rightarrow> ('s svc_scheme, i32) state" where
  "sv_SetDraggableStateAsync b downTime = pure RET_OK"

section \<open>Queries\<close>

definition sv_GetDragTargetPid :: "senv \<Rightarrow> CallingContext \<Rightarrow> ('s drag_manager_scheme, i32 + i32) state" where
  "sv_GetDragTargetPid E c = system_query E c (do { p \<leftarrow> GetDragTargetPid; pure (Inr p) })"

definition sv_GetUdKey :: "senv \<Rightarrow> CallingContext \<Rightarrow> ('s drag_manager_scheme, i32 + string) state" where
  "sv_GetUdKey E c = do {
     isSystemService \<leftarrow> IsSystemServiceCalling E c;
     GetUdKey (cc_pid c) isSystemService }"

definition sv_GetShadowOffset :: "senv \<Rightarrow> ('s drag_manager_scheme, i32 + ShadowOffset) state" where
  "sv_GetShadowOffset E = OnGetShadowOffset E"

definition sv_GetDragData :: "senv \<Rightarrow> CallingContext \<Rightarrow> ('s drag_manager_scheme, i32 + DragData) state" where
  "sv_GetDragData E c = system_query E c GetDragData"

definition sv_GetDragSummary ::
    "senv \<Rightarrow> CallingContext \<Rightarrow> bool \<Rightarrow> ('s drag_manager_scheme, i32 + (string \<times> int) list) state" where
  "sv_GetDragSummary E c isJsCaller = do {
     allowed \<leftarrow> (if isJsCaller then IsSystemHAPCalling E c else pure True);
     if \<not> allowed then pure (Inl COMMON_NOT_SYSTEM_APP)
     else do { x \<leftarrow> GetDragSummary; pure (Inr x) } }"

definition sv_GetDragState :: "senv \<Rightarrow> CallingContext \<Rightarrow> ('s drag_manager_scheme, i32 + DragState) state" where
  "sv_GetDragState E c = system_query E c (do {
     x \<leftarrow> GetDragState;
     pure (if fst x \<noteq> RET_OK then Inl (fst x) else Inr (snd x)) })"

definition sv_GetDragAction :: "('s drag_manager_scheme, i32 + DragAction) state" where
  "sv_GetDragAction = GetDragAction"

definition sv_GetExtraInfo :: "('s drag_manager_scheme, i32 + string) state" where
  "sv_GetExtraInfo = GetExtraInfo"

definition sv_GetAppDragSwitchState :: "('s svc_scheme, i32 \<times> bool) state" where
  "sv_GetAppDragSwitchState = pure (RET_OK, False)"

definition sv_GetDragBundleInfo :: "('s drag_manager_scheme, i32 + (string \<times> bool)) state" where
  "sv_GetDragBundleInfo = GetDragBundleInfo"

definition sv_IsDragStart :: "('s drag_manager_scheme, bool) state" where
  "sv_IsDragStart = IsDragStart"

definition sv_GetDragSummaryInfo :: "('s drag_manager_scheme, i32 + DragSummaryInfo) state" where
  "sv_GetDragSummaryInfo = GetDragSummaryInfo"

definition sv_GetDragAnimationType :: "('s drag_manager_scheme, i32 + i32) state" where
  "sv_GetDragAnimationType = GetDragAnimationType"

end
