(* ===== verification/Drag_Frames.thy ===== *)
theory Drag_Frames
  imports Drag_Server
begin

text \<open>
  The part of the state that the properties of the drag service speak about (\<open>drag_core\<close>), the
  operations that leave it alone, and the sequences of events that make a run.
\<close>

declare unchanged_modify [frame del] inquire_frame [frame del] tell_frame [frame del]

section \<open>What the log says\<close>

text \<open>
  How often a monitor was added and not removed again, the states told to the callback, the
  pointer events simulated.
\<close>

fun monitors_open :: "svc_cmd list \<Rightarrow> i32 \<Rightarrow> int" where
  "monitors_open [] i = 0"
| "monitors_open (MonitorAdded j # cs) i = (if i = j then 1 else 0) + monitors_open cs i"
| "monitors_open (MonitorRemoved j # cs) i = (if i = j then - 1 else 0) + monitors_open cs i"
| "monitors_open (_ # cs) i = monitors_open cs i"

fun states_told :: "svc_cmd list \<Rightarrow> DragState list" where
  "states_told [] = []"
| "states_told (StateCallback st # cs) = st # states_told cs"
| "states_told (_ # cs) = states_told cs"

fun simulated :: "svc_cmd list \<Rightarrow> pull_event list" where
  "simulated [] = []"
| "simulated (InputSimulated e # cs) = e # simulated cs"
| "simulated (_ # cs) = simulated cs"

fun notable :: "svc_cmd \<Rightarrow> bool" where
  "notable (MonitorAdded _) = True"
| "notable (MonitorRemoved _) = True"
| "notable (StateCallback _) = True"
| "notable (InputSimulated _) = True"
| "notable _ = False"

lemma monitors_open_append [simp]: "monitors_open (cs @ ds) i = monitors_open cs i + monitors_open ds i"
  by (induction cs i rule: monitors_open.induct) simp_all

lemma states_told_append [simp]: "states_told (cs @ ds) = states_told cs @ states_told ds"
  by (induction cs rule: states_told.induct) simp_all

lemma simulated_append [simp]: "simulated (cs @ ds) = simulated cs @ simulated ds"
  by (induction cs rule: simulated.induct) simp_all

lemma not_notable [simp]:
  assumes "\<not> notable c"
  shows "monitors_open [c] i = 0" "states_told [c] = []" "simulated [c] = []"
  using assms by (cases c; simp)+

lemma quiet_commands:
  "\<not> notable (Drawing d)" "\<not> notable (SendBytes a b)" "\<not> notable (TimerSet i n)"
  "\<not> notable (TimerCleared i)" "\<not> notable (ExtraDataAppended x)" "\<not> notable (PointerVisible v)"
  "\<not> notable (NonceDelivered q)" "\<not> notable (PrivilegeAdded k t)" "\<not> notable (WindowRaised w)"
  "\<not> notable (PullUpCallback u)" "\<not> notable (CrossDragCallback u)" "\<not> notable (AbilitySubscribed y)"
  "\<not> notable (CloseFd i)" "\<not> notable (SetSockBuf i m)" "\<not> notable EpollOpen" "\<not> notable EpollClose"
  "\<not> notable (EpollAdd i)" "\<not> notable (EpollRemove i)"
  by simp_all

section \<open>The core\<close>

text \<open>Who is in the session table and who listens, by process.\<close>

definition directory :: "'s drag_manager_scheme \<Rightarrow> (i32 \<Rightarrow> i32) \<times> i32 list \<times> i32 list \<times> i32 list" where
  "directory s = (pid_of s, sm_sessions s, sm_callbacks s, sn_state s)"

definition drag_core :: "'s drag_manager_scheme \<Rightarrow> _" where
  "drag_core s = ((dg_dragState s, dg_stateCallback s, states_told (sv_log s)),
     (mo_pointerEventMonitorId s, mo_keyEventMonitorId s, monitors_open (sv_log s)),
     (sec_securityPid s, da_nonceBin s),
     (dg_currentPointerEvent s, simulated (sv_log s)),
     directory s)"

lemma unchanged_tell: "(\<And>s. f (s\<lparr>sv_log := sv_log s @ [c]\<rparr>) = f s) \<Longrightarrow> unchanged f (tell c)"
  by (simp add: unchanged_def)

lemma unchanged_inquire: "(\<And>s n. f (s\<lparr>sv_clock := n\<rparr>) = f s) \<Longrightarrow> unchanged f (inquire q)"
  by (simp add: unchanged_def)

lemma core_tell: "\<not> notable c \<Longrightarrow> unchanged drag_core (tell c)"
  by (rule unchanged_tell) (simp add: drag_core_def directory_def fun_eq_iff)

lemmas core_tells [frame] = quiet_commands [THEN core_tell]

lemma core_inquire [frame]: "unchanged drag_core (inquire q)"
  by (rule unchanged_inquire) (simp add: drag_core_def directory_def)

text \<open>Sending is quiet for every view that is blind to the clock and to what sockets carry.\<close>

lemma send_rest_frame [frame]:
  assumes "\<And>q. unchanged f (inquire q :: ('s svc_scheme, send_answer) state)" "\<And>b. unchanged f (tell (SendBytes fd b))"
  shows "unchanged f (send_rest E fd k rest)"
proof (induction k arbitrary: rest)
  case (Suc k)
  have "unchanged f (case a of SendError \<Rightarrow> pure False | TryAgain \<Rightarrow> send_rest E fd k rest
      | SentBytes n \<Rightarrow> do { tell (SendBytes fd (take n rest)); send_rest E fd k (drop n rest) })" for a
    using Suc assms by (cases a) (auto intro!: unchanged_bind unchanged_return)
  then show ?case
    using assms by (auto intro!: unchanged_bind unchanged_return)
qed (simp add: unchanged_return)

lemma SendMsg_frame:
  assumes "\<And>q. unchanged f (inquire q :: ('s svc_scheme, send_answer) state)" "\<And>b. unchanged f (tell (SendBytes fd b))"
  shows "unchanged f (SendMsg E fd pkt)"
  unfolding SendMsg_def SendBuffer_def Let_def
  by (intro unchanged_if unchanged_return unchanged_case_prod send_rest_frame assms)

lemma core_SendMsg [frame]: "unchanged drag_core (SendMsg E fd pkt)"
  by (intro SendMsg_frame frame)

lemma core_OnDragInfoNotify [frame]: "unchanged drag_core (OnDragInfoNotify E fd mid v)"
  unfolding OnDragInfoNotify_def by (intro frame)

lemma core_StyleChangedNotify [frame]: "unchanged drag_core (sn_StyleChangedNotify E style)"
  unfolding sn_StyleChangedNotify_def by (intro frame)

lemma core_sn_StateChangedNotify [frame]: "unchanged drag_core (sn_StateChangedNotify E st)"
  unfolding sn_StateChangedNotify_def by (intro frame)

lemma core_draw [frame]: "unchanged drag_core (draw d)" "unchanged drag_core (draw_ret E d)"
  unfolding draw_ret_def draw_def by (intro frame)+

text \<open>Updates of fields outside the core.\<close>

lemma core_update [frame]:
  "unchanged drag_core (modify (\<lambda>s. s\<lparr>dq_tasks := tasks s\<rparr>))"
  "unchanged drag_core (modify (\<lambda>s. s\<lparr>dq_timers := timers s\<rparr>))"
  "unchanged drag_core (modify (\<lambda>s. s\<lparr>dq_isRunning := run s\<rparr>))"
  "unchanged drag_core (modify (\<lambda>s. s\<lparr>dg_dragAction := act s\<rparr>))"
  "unchanged drag_core (modify (\<lambda>s. s\<lparr>dg_timerId := i s\<rparr>))"
  "unchanged drag_core (modify (\<lambda>s. s\<lparr>dg_lastDisplayId := disp s\<rparr>))"
  "unchanged drag_core (modify (\<lambda>s. s\<lparr>dg_lastEventId := ev s\<rparr>))"
  "unchanged drag_core (modify (\<lambda>s. s\<lparr>dg_isRTL := rtl s\<rparr>))"
  "unchanged drag_core (modify (\<lambda>s. s\<lparr>dg_needLongPressAnimation := need s\<rparr>))"
  "unchanged drag_core (modify (\<lambda>s. s\<lparr>dg_isLongPressDrag := lp s\<rparr>))"
  "unchanged drag_core (modify (\<lambda>s. s\<lparr>dg_crossDragging := cross s\<rparr>))"
  "unchanged drag_core (modify (\<lambda>s. s\<lparr>dg_collaborationService := col s\<rparr>))"
  "unchanged drag_core (modify (\<lambda>s. s\<lparr>dg_peerNetId := peer s\<rparr>))"
  "unchanged drag_core (modify (\<lambda>s. s\<lparr>dg_appCaller := caller s\<rparr>))"
  "unchanged drag_core (modify (\<lambda>s. s\<lparr>dg_appCallee := callee s\<rparr>))"
  "unchanged drag_core (modify (\<lambda>s. s\<lparr>dg_dragResult := res s\<rparr>))"
  "unchanged drag_core (modify (\<lambda>s. s\<lparr>dg_pullId := pull s\<rparr>))"
  "unchanged drag_core (modify (\<lambda>s. s\<lparr>dg_idSeed := seed s\<rparr>))"
  "unchanged drag_core (modify (\<lambda>s. s\<lparr>dg_controlVisible := ctl s\<rparr>))"
  "unchanged drag_core (modify (\<lambda>s. s\<lparr>dg_animationType := aty s\<rparr>))"
  "unchanged drag_core (modify (\<lambda>s. s\<lparr>dg_animationInfo := ainf s\<rparr>))"
  "unchanged drag_core (modify (\<lambda>s. s\<lparr>dg_dragOutSession := ses s\<rparr>))"
  "unchanged drag_core (modify (\<lambda>s. s\<lparr>dg_pullUpCallback := pu s\<rparr>))"
  "unchanged drag_core (modify (\<lambda>s. s\<lparr>dg_crossCallback := cc s\<rparr>))"
  "unchanged drag_core (modify (\<lambda>s. s\<lparr>dg_filterTime := ft s\<rparr>))"
  "unchanged drag_core (modify (\<lambda>s. s\<lparr>dg_displayId := di s, dg_screenId := sc s\<rparr>))"
  "unchanged drag_core (modify (\<lambda>s. s\<lparr>mo_mouseTimerId := mt s\<rparr>))"
  "unchanged drag_core (modify (\<lambda>s. s\<lparr>mo_mouseState := mst s\<rparr>))"
  "unchanged drag_core (modify (\<lambda>s. s\<lparr>mo_existMouseMove := mm s\<rparr>))"
  "unchanged drag_core (modify (\<lambda>s. s\<lparr>mo_mouseDisplayId := x1 s, mo_mouseDisplayX := x2 s,
     mo_mouseDisplayY := x3 s, mo_existMouseMove := x4 s\<rparr>))"
  "unchanged drag_core (modify (\<lambda>s. s\<lparr>mo_mouseDisplayId := x1 s, mo_mouseDisplayX := x2 s,
     mo_mouseDisplayY := x3 s\<rparr>))"
  "unchanged drag_core (modify (\<lambda>s. s\<lparr>sn_style := sty s\<rparr>))"
  by (simp_all add: unchanged_def drag_core_def directory_def)

lemma core_data [frame]:
  "unchanged drag_core (dm_Init d caller)"
  "unchanged drag_core (SetShadowInfos xs)"
  "unchanged drag_core (UpdateShadowInfos pm)"
  "unchanged drag_core (SetDragStyle style)"
  "unchanged drag_core (SetDragWindowVisible b)"
  "unchanged drag_core (SetTargetTid tid)"
  "unchanged drag_core (SetTargetPid pid)"
  "unchanged drag_core (SetEventId i)"
  "unchanged drag_core (SetPreviewStyle p)"
  "unchanged drag_core (dm_SetDragOriginDpi dpi)"
  "unchanged drag_core ResetDragData"
  by (simp_all add: unchanged_def drag_core_def directory_def dm_Init_def SetShadowInfos_def UpdateShadowInfos_def
    SetDragStyle_def SetDragWindowVisible_def SetTargetTid_def SetTargetPid_def SetEventId_def
    SetPreviewStyle_def dm_SetDragOriginDpi_def ResetDragData_def)

section \<open>Operations outside the core\<close>

lemma core_timers [frame]:
  "unchanged drag_core (dq_AddTimer E ms call)"
  "unchanged drag_core (dq_RemoveTimer i)"
  "unchanged drag_core (dq_PostAsyncTask E t)"
  unfolding dq_AddTimer_def dq_RemoveTimer_def dq_PostAsyncTask_def by (intro frame)+

lemma core_windows [frame]:
  "unchanged drag_core UpdateDrawingState"
  "unchanged drag_core close_window"
  "unchanged drag_core (drawing_Init E d lp)"
  unfolding UpdateDrawingState_def close_window_def drawing_Init_def Let_def by (intro frame)+

lemma core_gets [frame]:
  "unchanged drag_core IsDrawing"
  "unchanged drag_core (FindSessionByPid pid)"
  "unchanged drag_core (GetProgramName fd)"
  "unchanged drag_core (ProcessExceptionDragStyle style)"
  "unchanged drag_core (CreateExtraData appended drawCursor)"
  "unchanged drag_core (AppendExtraData E x)"
  unfolding IsDrawing_def FindSessionByPid_def GetProgramName_def ProcessExceptionDragStyle_def
    CreateExtraData_def AppendExtraData_def by (intro frame)+

lemma core_mouse [frame]:
  "unchanged drag_core (ResetMouseDragMonitorTimerId E d)"
  "unchanged drag_core forget_mouse_location"
  unfolding ResetMouseDragMonitorTimerId_def forget_mouse_location_def by (intro frame)+

lemma core_style [frame]:
  "unchanged drag_core (OnUpdateDragStyle E style)"
  "unchanged drag_core (UpdateDragStyleCross E)"
  "unchanged drag_core (UpdateDragStylePositon E)"
  unfolding OnUpdateDragStyle_def UpdateDragStyleCross_def UpdateDragStylePositon_def Let_def
  by (intro frame)+

lemma core_start_parts [frame]:
  "unchanged drag_core dg_GenerateId"
  "unchanged drag_core (SetCrossDragging pid)"
  "unchanged drag_core (InitDataManager d caller)"
  "unchanged drag_core (SetControlCollaborationVisible b)"
  "unchanged drag_core (select_screen E disp)"
  "unchanged drag_core (first_drawing d)"
  unfolding dg_GenerateId_def SetCrossDragging_def InitDataManager_def SetControlCollaborationVisible_def
    select_screen_def first_drawing_def Let_def
  by (intro frame)+

lemma core_stop_parts [frame]:
  "unchanged drag_core (NotifyDragResult E result behavior)"
  "unchanged drag_core (HandleDragSuccess custom)"
  "unchanged drag_core (HandleDragResult E result custom pid)"
  "unchanged drag_core (show_pointer E b)"
  "unchanged drag_core (report_stop E dropResult)"
  unfolding NotifyDragResult_def HandleDragSuccess_def HandleDragResult_def show_pointer_def
    report_stop_def Let_def
  by (intro frame)+

lemma core_updates [frame]:
  "unchanged drag_core (UpdateDragStyle E asked targetPid targetTid eventId)"
  "unchanged drag_core (UpdateShadowPic E sh)"
  "unchanged drag_core (UpdatePreviewStyle E p)"
  "unchanged drag_core (UpdatePreviewStyleWithAnimation E p)"
  "unchanged drag_core (OnSetDragWindowVisible E visible isForce zoom tr)"
  "unchanged drag_core (MoveTo x y ms)"
  "unchanged drag_core (SetMultiSelectedAnimationFlag E need)"
  "unchanged drag_core (EnterTextEditorArea E enable)"
  "unchanged drag_core EraseMouseIcon"
  "unchanged drag_core (SendDragData E tid key)"
  "unchanged drag_core (NotifyAddSelectedPixelMapResult E b)"
  "unchanged drag_core (AddSelectedPixelMap E pm)"
  "unchanged drag_core (NotifyHideIcon E)"
  "unchanged drag_core (SetDragOriginDpi dpi)"
  "unchanged drag_core (SetPointerEventFilterTime time)"
  "unchanged drag_core (SetDragWindowScreenId disp screen)"
  unfolding UpdateDragStyle_def UpdateShadowPic_def UpdatePreviewStyle_def
    UpdatePreviewStyleWithAnimation_def OnSetDragWindowVisible_def MoveTo_def
    SetMultiSelectedAnimationFlag_def EnterTextEditorArea_def EraseMouseIcon_def SendDragData_def
    NotifyAddSelectedPixelMapResult_def AddSelectedPixelMap_def NotifyHideIcon_def SetDragOriginDpi_def
    SetPointerEventFilterTime_def SetDragWindowScreenId_def Let_def
  by (intro frame)+

lemma core_rotation [frame]:
  "unchanged drag_core (SetRotation E disp rotation)"
  "unchanged drag_core (GetRotation E disp)"
  "unchanged drag_core (RemoveDisplayIdFromMap E disp)"
  "unchanged drag_core (RotateDragWindow E disp rotation)"
  "unchanged drag_core (RotateDragWindowSync E)"
  "unchanged drag_core (ScreenRotate E rotation lastRotation)"
  unfolding SetRotation_def GetRotation_def RemoveDisplayIdFromMap_def RotateDragWindow_def
    RotateDragWindowSync_def ScreenRotate_def post_sync_def
  by (intro frame)+

lemma core_pointer [frame]:
  "unchanged drag_core (change_display e disp)"
  "unchanged drag_core (DealPullInWindowEvent e disp)"
  "unchanged drag_core (DoLongPressDragZoomOutAnimation E x y)"
  "unchanged drag_core (LongPressDragZoomOutAnimation x y)"
  "unchanged drag_core (OnDragMove E e)"
  "unchanged drag_core (OnDragUp E e)"
  "unchanged drag_core (DragUpCallback E e)"
  "unchanged drag_core (note_mouse_location E e)"
  "unchanged drag_core (pull_in_window E e)"
  "unchanged drag_core (DragCallback E e)"
  "unchanged drag_core (monitor_OnInputEvent E e)"
  unfolding change_display_def DealPullInWindowEvent_def DoLongPressDragZoomOutAnimation_def
    LongPressDragZoomOutAnimation_def OnDragMove_def OnDragUp_def DragUpCallback_def
    note_mouse_location_def pull_in_window_def DragCallback_def monitor_OnInputEvent_def Let_def
  by (intro frame)+

lemma core_keys [frame]:
  "unchanged drag_core (CtrlKeyStyleChangedNotify E style act)"
  "unchanged drag_core (HandleCtrlKeyEvent E style act)"
  "unchanged drag_core (set_action act)"
  unfolding CtrlKeyStyleChangedNotify_def HandleCtrlKeyEvent_def set_action_def by (intro frame)+

lemma core_callbacks [frame]:
  "unchanged drag_core (RegisterNotifyPullUp b)"
  "unchanged drag_core UnregisterNotifyPullUp"
  "unchanged drag_core (RegisterCrossDrag b)"
  "unchanged drag_core UnregisterCrossDrag"
  "unchanged drag_core (dg_NotifyCrossDrag b)"
  "unchanged drag_core (OnReceiveEvent E i)"
  "unchanged drag_core (dg_Init E)"
  "unchanged drag_core ResetAnimationFlag"
  "unchanged drag_core (SubscribeAbilities E)"
  unfolding RegisterNotifyPullUp_def UnregisterNotifyPullUp_def RegisterCrossDrag_def UnregisterCrossDrag_def
    dg_NotifyCrossDrag_def OnReceiveEvent_def dg_Init_def ResetAnimationFlag_def SubscribeAbilities_def
  by (intro frame)+

lemma core_server_parts [frame]:
  "unchanged drag_core (sv_GetPackageName E tid)"
  "unchanged drag_core (IsSystemServiceCalling E c)"
  "unchanged drag_core (IsSystemHAPCalling E c)"
  unfolding sv_GetPackageName_def IsSystemServiceCalling_def IsSystemHAPCalling_def
  by (intro frame) (auto split: token_kind.splits intro!: frame)

lemma core_system_only [frame]: "unchanged drag_core m \<Longrightarrow> unchanged drag_core (system_only E c m)"
  unfolding system_only_def by (intro frame)

end
