(* ===== verification/Drag_Runs.thy ===== *)
theory Drag_Runs
  imports Drag_Frames
begin

text \<open>
  Runs of the drag service: any sequence of requests of clients, events of the input monitors and
  of the system, connections that come and go, tasks, timers, ends of animations, and calls of
  other components of the process.
\<close>

section \<open>Events\<close>

datatype request =
    ReqStartDrag CallingContext DragData
  | ReqStopDrag CallingContext DragDropResult
  | ReqAddListener CallingContext
  | ReqRemoveListener CallingContext
  | ReqAddSubscript CallingContext
  | ReqRemoveSubscript CallingContext
  | ReqWindowVisible bool bool bool
  | ReqUpdateStyle CallingContext i32 i32
  | ReqShadowPic ShadowInfo
  | ReqPreview PreviewStyle
  | ReqPreviewAnimated PreviewStyle
  | ReqRotateSync CallingContext
  | ReqScreenId CallingContext u64 u64
  | ReqUpperCenter bool
  | ReqPrivilege CallingContext string DragEventData
  | ReqEraseMouse CallingContext
  | ReqMouseMonitor bool
  | ReqGetUdKey CallingContext
  | ReqGetDragData CallingContext
  | ReqGetSummary CallingContext bool

text \<open>Calls of other components: the plugin for dragging by motion and the display listener.\<close>

datatype component_call =
    CallStartDrag DragData i32 net_id bool string
  | CallStopDrag DragDropResult string i32 bool string
  | CallSetDragState DragState
  | CallRegisterStateChange bool
  | CallUnregisterStateChange
  | CallRegisterNotifyPullUp bool
  | CallUnregisterNotifyPullUp
  | CallRegisterCrossDrag bool
  | CallNotifyCrossDrag bool
  | CallMoveTo i32 i32 bool
  | CallAddSelectedPixelMap "nat option"
  | CallRotateWindow u64 i32
  | CallScreenRotate i32 i32

datatype drag_event =
    Request request
  | Component component_call
  | Connect string i32 i32 i32
  | SocketEvents "(i32 \<times> epoll_event) list"
  | ProcessDied i32
  | CollaborationGone
  | PointerMonitored pull_event
  | KeyMonitored pull_key
  | SystemEvent EventId
  | WorkerTurn
  | TimerFires i32
  | AnimationEnds

definition void :: "('s, 'a) state \<Rightarrow> ('s, unit) state" where
  "void m = do { m; skip }"

definition serve_request :: "senv \<Rightarrow> request \<Rightarrow> ('s drag_manager_scheme, unit) state" where
  "serve_request E r = (case r of
       ReqStartDrag c d \<Rightarrow> void (sv_StartDrag E c d)
     | ReqStopDrag c x \<Rightarrow> void (sv_StopDrag E c x)
     | ReqAddListener c \<Rightarrow> void (sv_AddDraglistener E c)
     | ReqRemoveListener c \<Rightarrow> void (sv_RemoveDraglistener E c)
     | ReqAddSubscript c \<Rightarrow> void (sv_AddSubscriptListener E c)
     | ReqRemoveSubscript c \<Rightarrow> void (sv_RemoveSubscriptListener E c)
     | ReqWindowVisible v f t \<Rightarrow> void (sv_SetDragWindowVisible E v f t)
     | ReqUpdateStyle c style i \<Rightarrow> void (sv_UpdateDragStyle E c style i)
     | ReqShadowPic sh \<Rightarrow> void (sv_UpdateShadowPic E sh)
     | ReqPreview p \<Rightarrow> void (sv_UpdatePreviewStyle E p)
     | ReqPreviewAnimated p \<Rightarrow> void (sv_UpdatePreviewStyleWithAnimation E p)
     | ReqRotateSync c \<Rightarrow> void (sv_RotateDragWindowSync E c)
     | ReqScreenId c a b \<Rightarrow> void (sv_SetDragWindowScreenId E c a b)
     | ReqUpperCenter b \<Rightarrow> void (sv_EnableUpperCenterMode E b)
     | ReqPrivilege c sig ev \<Rightarrow> void (sv_AddPrivilege E c sig ev)
     | ReqEraseMouse c \<Rightarrow> void (sv_EraseMouseIcon E c)
     | ReqMouseMonitor b \<Rightarrow> void (sv_SetMouseDragMonitorState E b)
     | ReqGetUdKey c \<Rightarrow> void (sv_GetUdKey E c)
     | ReqGetDragData c \<Rightarrow> void (sv_GetDragData E c)
     | ReqGetSummary c js \<Rightarrow> void (sv_GetDragSummary E c js))"

definition call :: "senv \<Rightarrow> component_call \<Rightarrow> ('s drag_manager_scheme, unit) state" where
  "call E c = (case c of
       CallStartDrag d pid peer longPress appCaller \<Rightarrow> void (StartDrag E d pid peer longPress appCaller)
     | CallStopDrag x name pid stopCooperate callee \<Rightarrow> void (StopDrag E x name pid stopCooperate callee)
     | CallSetDragState st \<Rightarrow> SetDragState E st
     | CallRegisterStateChange b \<Rightarrow> RegisterStateChange b
     | CallUnregisterStateChange \<Rightarrow> UnregisterStateChange
     | CallRegisterNotifyPullUp b \<Rightarrow> RegisterNotifyPullUp b
     | CallUnregisterNotifyPullUp \<Rightarrow> UnregisterNotifyPullUp
     | CallRegisterCrossDrag b \<Rightarrow> RegisterCrossDrag b
     | CallNotifyCrossDrag b \<Rightarrow> dg_NotifyCrossDrag b
     | CallMoveTo x y b \<Rightarrow> MoveTo x y b
     | CallAddSelectedPixelMap p \<Rightarrow> void (AddSelectedPixelMap E p)
     | CallRotateWindow disp rotation \<Rightarrow> void (RotateDragWindow E disp rotation)
     | CallScreenRotate rotation lastRotation \<Rightarrow> void (ScreenRotate E rotation lastRotation))"

definition handle :: "senv \<Rightarrow> drag_event \<Rightarrow> ('s drag_manager_scheme, unit) state" where
  "handle E e = (case e of
       Request r \<Rightarrow> serve_request E r
     | Component c \<Rightarrow> call E c
     | Connect name tokenType uid pid \<Rightarrow> void (AllocSocketFd E name tokenType uid pid)
     | SocketEvents evs \<Rightarrow> DispatchOne OnSessionLost evs
     | ProcessDied pid \<Rightarrow> ReleaseSessionByPid OnSessionLost pid
     | CollaborationGone \<Rightarrow> DeleteCollaborationServiceByName OnSessionLost
     | PointerMonitored p \<Rightarrow> monitor_OnInputEvent E p
     | KeyMonitored k \<Rightarrow> DragKeyEventCallback E k
     | SystemEvent i \<Rightarrow> OnReceiveEvent E i
     | WorkerTurn \<Rightarrow> RunTask E
     | TimerFires i \<Rightarrow> FireTimer E i
     | AnimationEnds \<Rightarrow> ResetAnimationFlag)"

primrec run :: "senv \<Rightarrow> drag_event list \<Rightarrow> 's drag_manager_scheme \<Rightarrow> 's drag_manager_scheme" where
  "run E [] s = s"
| "run E (e # es) s = run E es (exec (handle E e) s)"

text \<open>The service as it is constructed.\<close>

definition no_session :: socket_session where
  "no_session = \<lparr>ses_pid = 0, ses_uid = 0, ses_tokenType = - 1, ses_programName = []\<rparr>"

definition new_drag_manager :: drag_manager where
  "new_drag_manager =
     \<lparr>sv_clock = 0, sv_log = [],
      sm_objects = (\<lambda>_. no_session), sm_sessions = [], sm_callbacks = [],
      dm_dragData = new_DragData, dm_dragStyle = STYLE_DEFAULT, dm_visible = False, dm_targetTid = - 1,
      dm_targetPid = - 1, dm_eventId = - 1, dm_textEditorAreaFlag = False, dm_dragOriginDpi = 0,
      dm_previewStyle = new_PreviewStyle,
      sn_state = [], sn_style = [],
      da_nonceBin = [], da_nonceB64 = [], sec_securityPid = - 1,
      mo_pointerEventMonitorId = - 1, mo_keyEventMonitorId = - 1, mo_mouseTimerId = - 1,
      mo_mouseDisplayId = - 1, mo_mouseDisplayX = - 1, mo_mouseDisplayY = - 1, mo_mouseState = False,
      mo_existMouseMove = False,
      dq_tasks = [], dq_timers = [], dq_isRunning = False,
      dg_dragState = DRAG_STOP, dg_dragResult = DRAG_FAIL, dg_appCallee = [], dg_dragAction = DRAG_ACTION_MOVE,
      dg_timerId = - 1, dg_controlVisible = False, dg_crossDragging = False, dg_collaborationService = False,
      dg_pullId = - 1, dg_idSeed = 1, dg_dragOutSession = None, dg_stateCallback = False,
      dg_pullUpCallback = False, dg_crossCallback = False, dg_isRTL = False, dg_displayId = 0, dg_screenId = 0,
      dg_lastEventId = - 1, dg_lastDisplayId = - 1, dg_peerNetId = [], dg_isLongPressDrag = False,
      dg_needLongPressAnimation = True, dg_appCaller = [], dg_animationType = 0, dg_animationInfo = [],
      dg_currentPointerEvent = None, dg_filterTime = - 1\<rparr>"

lemma run_append [simp]: "run E (es @ fs) s = run E fs (run E es s)"
  by (induction es arbitrary: s) simp_all

lemma run_keeps:
  assumes "\<And>e. e \<in> set es \<Longrightarrow> keeps_inv I (handle E e)" "I s"
  shows "I (run E es s)"
  using assms by (induction es arbitrary: s) (auto dest: keeps_invD)

section \<open>Views of the core\<close>

definition phase_view :: "'s drag_manager_scheme \<Rightarrow> _" where
  "phase_view s = (dg_dragState s, dg_stateCallback s, states_told (sv_log s))"

definition monitor_view :: "'s drag_manager_scheme \<Rightarrow> _" where
  "monitor_view s = (mo_pointerEventMonitorId s, mo_keyEventMonitorId s, monitors_open (sv_log s))"

definition auth_view :: "'s drag_manager_scheme \<Rightarrow> _" where
  "auth_view s = (sec_securityPid s, da_nonceBin s)"

definition event_view :: "'s drag_manager_scheme \<Rightarrow> _" where
  "event_view s = (dg_currentPointerEvent s, simulated (sv_log s))"

lemmas view_defs = phase_view_def monitor_view_def auth_view_def event_view_def directory_def

lemma view_of_core:
  fixes m :: "('s drag_manager_scheme, 'a) state"
  assumes "unchanged drag_core m"
  shows "unchanged phase_view m" "unchanged monitor_view m" "unchanged auth_view m"
    "unchanged event_view m" "unchanged directory m"
  using assms by (simp_all add: unchanged_def drag_core_def view_defs)

lemmas core_frames = core_tells core_inquire core_SendMsg core_OnDragInfoNotify core_StyleChangedNotify
  core_sn_StateChangedNotify core_draw core_update core_data core_timers core_windows core_gets core_mouse
  core_style core_start_parts core_stop_parts core_updates core_rotation core_pointer core_keys
  core_callbacks core_server_parts

lemmas phase_frames [frame] = core_frames [THEN view_of_core(1)]
lemmas monitor_frames [frame] = core_frames [THEN view_of_core(2)]
lemmas auth_frames [frame] = core_frames [THEN view_of_core(3)]
lemmas event_frames [frame] = core_frames [THEN view_of_core(4)]
lemmas directory_frames [frame] = core_frames [THEN view_of_core(5)]

lemma unchanged_void [frame]: "unchanged f m \<Longrightarrow> unchanged f (void m)"
  unfolding void_def by (intro frame)

lemma keeps_inv_void [keeps]: "keeps_inv I m \<Longrightarrow> keeps_inv I (void m)"
  unfolding void_def by (intro keeps)

lemma exec_void [simp]: "exec (void m) s = exec m s"
  by (simp add: void_def)

section \<open>Which operation touches which view\<close>

text \<open>The directory: sessions, watched processes, listeners.\<close>

lemma session_updates [frame]:
  fixes x :: "'s drag_manager_scheme \<Rightarrow> i32 list"
  shows
  "unchanged phase_view (modify (\<lambda>s. s\<lparr>sm_callbacks := x s\<rparr>))"
  "unchanged monitor_view (modify (\<lambda>s. s\<lparr>sm_callbacks := x s\<rparr>))"
  "unchanged auth_view (modify (\<lambda>s. s\<lparr>sm_callbacks := x s\<rparr>))"
  "unchanged event_view (modify (\<lambda>s. s\<lparr>sm_callbacks := x s\<rparr>))"
  "unchanged phase_view (modify (\<lambda>s. s\<lparr>sm_sessions := x s\<rparr>))"
  "unchanged monitor_view (modify (\<lambda>s. s\<lparr>sm_sessions := x s\<rparr>))"
  "unchanged auth_view (modify (\<lambda>s. s\<lparr>sm_sessions := x s\<rparr>))"
  "unchanged event_view (modify (\<lambda>s. s\<lparr>sm_sessions := x s\<rparr>))"
  "unchanged phase_view (modify (\<lambda>s. s\<lparr>sn_state := x s\<rparr>))"
  "unchanged monitor_view (modify (\<lambda>s. s\<lparr>sn_state := x s\<rparr>))"
  "unchanged auth_view (modify (\<lambda>s. s\<lparr>sn_state := x s\<rparr>))"
  "unchanged event_view (modify (\<lambda>s. s\<lparr>sn_state := x s\<rparr>))"
  by (simp_all add: unchanged_def view_defs)

lemma object_updates [frame]:
  fixes x :: "'s drag_manager_scheme \<Rightarrow> i32 \<Rightarrow> socket_session"
  shows
  "unchanged phase_view (modify (\<lambda>s. s\<lparr>sm_objects := x s\<rparr>))"
  "unchanged monitor_view (modify (\<lambda>s. s\<lparr>sm_objects := x s\<rparr>))"
  "unchanged auth_view (modify (\<lambda>s. s\<lparr>sm_objects := x s\<rparr>))"
  "unchanged event_view (modify (\<lambda>s. s\<lparr>sm_objects := x s\<rparr>))"
  by (simp_all add: unchanged_def view_defs)

text \<open>
  A view that is blind to the session table and the listeners is blind to everything that
  happens to sessions. The three premises are proved for each view by the rules above.
\<close>

definition blind :: "('s drag_manager_scheme \<Rightarrow> 'v) \<Rightarrow> bool" where
  "blind f \<longleftrightarrow>
     (\<forall>x. unchanged f (modify (\<lambda>s. s\<lparr>sm_callbacks := x s\<rparr>)))
   \<and> (\<forall>x. unchanged f (modify (\<lambda>s. s\<lparr>sm_sessions := x s\<rparr>)))
   \<and> (\<forall>x. unchanged f (modify (\<lambda>s. s\<lparr>sn_state := x s\<rparr>)))
   \<and> (\<forall>x. unchanged f (modify (\<lambda>s. s\<lparr>sm_objects := x s\<rparr>)))
   \<and> (\<forall>c. \<not> notable c \<longrightarrow> unchanged f (tell c))
   \<and> (\<forall>q. unchanged f (inquire q :: ('s drag_manager_scheme, bool) state))
   \<and> (\<forall>q. unchanged f (inquire q :: ('s drag_manager_scheme, (i32 \<times> i32) option) state))"

lemma blind_views [frame]: "blind phase_view" "blind monitor_view" "blind auth_view" "blind event_view"
  unfolding blind_def
  by (intro conjI allI impI frame view_of_core [OF core_tell]; assumption)+

lemma blind_sessions [frame]:
  assumes "blind f"
  shows "unchanged f (AddSessionDeletedCallback pid)"
    "unchanged f (RemoveSessionDeletedCallback pid)"
    "unchanged f (erase_session fd)"
    "unchanged f (SetProgramName fd name)"
    "unchanged f (AddStateMsg fd)"
    "unchanged f (RemoveStateMsg fd)"
    "unchanged f (FindSessionByPid pid)"
  unfolding AddSessionDeletedCallback_def RemoveSessionDeletedCallback_def erase_session_def
    SetProgramName_def AddStateMsg_def RemoveStateMsg_def FindSessionByPid_def
  using assms by (auto simp: blind_def intro: unchanged_gets)

lemma blind_listeners [frame]:
  assumes "blind f"
  shows "unchanged f (RemoveListener pid)" "unchanged f (OnSessionLost fd)" "unchanged f (AddListener pid)"
  unfolding RemoveListener_def OnSessionLost_def AddListener_def
  by (intro frame assms)+

lemma blind_tell: "blind f \<Longrightarrow> \<not> notable c \<Longrightarrow> unchanged f (tell c)"
  by (simp add: blind_def)

lemma blind_release [frame]:
  assumes "blind f"
  shows "unchanged f (NotifySessionDeleted OnSessionLost fd)"
    "unchanged f (drop_session OnSessionLost fd)"
    "unchanged f (ReleaseSession OnSessionLost fd)"
    "unchanged f (ReleaseSessionByPid OnSessionLost pid)"
    "unchanged f (DeleteCollaborationServiceByName OnSessionLost)"
  unfolding NotifySessionDeleted_def drop_session_def ReleaseSession_def ReleaseSessionByPid_def
    DeleteCollaborationServiceByName_def
  by (intro frame assms blind_tell [OF assms] quiet_commands)+

lemma blind_epoll [frame]:
  assumes "blind f"
  shows "unchanged f (OnEpollIn OnSessionLost as fd)"
proof (induction "OnSessionLost :: i32 \<Rightarrow> ('s drag_manager_scheme, unit) state" as fd rule: OnEpollIn.induct)
qed (auto intro!: frame assms)

lemma blind_dispatch [frame]:
  assumes "blind f"
  shows "unchanged f (DispatchOne OnSessionLost evs)"
  unfolding DispatchOne_def
proof (intro unchanged_for_each)
  show "unchanged f (case snd ev of EpollIn as \<Rightarrow> OnEpollIn OnSessionLost as (fst ev)
      | EpollHup \<Rightarrow> ReleaseSession OnSessionLost (fst ev) | EpollOther \<Rightarrow> skip)" for ev
    by (cases "snd ev") (auto intro!: frame assms)
qed

lemma blind_alloc [frame]:
  fixes f :: "'s drag_manager_scheme \<Rightarrow> 'v"
  assumes "blind f"
  shows "unchanged f (AllocSocketFd E name tokenType uid pid)"
proof -
  have ask: "unchanged f (inquire q :: ('s drag_manager_scheme, bool) state)"
    "unchanged f (inquire q' :: ('s drag_manager_scheme, (i32 \<times> i32) option) state)" for q q'
    using assms by (simp_all add: blind_def)
  have upd: "unchanged f (modify (\<lambda>s. s\<lparr>sm_sessions := x s\<rparr>))" "unchanged f (modify (\<lambda>s. s\<lparr>sm_objects := y s\<rparr>))" for x y
    using assms by (simp_all add: blind_def)
  show ?thesis
    unfolding AllocSocketFd_def AddSession_def SetBufferSize_def close_positive_def destroy_session_def
    by (intro ask upd frame blind_tell [OF assms] quiet_commands assms)
qed

text \<open>Monitors touch their own view only, and so do the nonce, the drag state and the last event.\<close>

lemma monitor_updates [frame]:
  fixes x :: "'s drag_manager_scheme \<Rightarrow> i32"
  shows
  "unchanged phase_view (modify (\<lambda>s. s\<lparr>mo_keyEventMonitorId := x s\<rparr>))"
  "unchanged auth_view (modify (\<lambda>s. s\<lparr>mo_keyEventMonitorId := x s\<rparr>))"
  "unchanged event_view (modify (\<lambda>s. s\<lparr>mo_keyEventMonitorId := x s\<rparr>))"
  "unchanged directory (modify (\<lambda>s. s\<lparr>mo_keyEventMonitorId := x s\<rparr>))"
  "unchanged phase_view (modify (\<lambda>s. s\<lparr>mo_pointerEventMonitorId := x s\<rparr>))"
  "unchanged auth_view (modify (\<lambda>s. s\<lparr>mo_pointerEventMonitorId := x s\<rparr>))"
  "unchanged event_view (modify (\<lambda>s. s\<lparr>mo_pointerEventMonitorId := x s\<rparr>))"
  "unchanged directory (modify (\<lambda>s. s\<lparr>mo_pointerEventMonitorId := x s\<rparr>))"
  by (simp_all add: unchanged_def view_defs)

lemma tell_monitor [frame]:
  "unchanged phase_view (tell (MonitorAdded i))" "unchanged phase_view (tell (MonitorRemoved i))"
  "unchanged auth_view (tell c)" "unchanged directory (tell c)"
  "unchanged event_view (tell (MonitorAdded i))" "unchanged event_view (tell (MonitorRemoved i))"
  "unchanged event_view (tell (StateCallback st))" "unchanged monitor_view (tell (StateCallback st))"
  "unchanged phase_view (tell (InputSimulated e))" "unchanged monitor_view (tell (InputSimulated e))"
  by (rule unchanged_tell; simp add: view_defs fun_eq_iff)+

lemma monitor_operations [frame]:
  "unchanged phase_view (AddKeyEventMonitor E)" "unchanged auth_view (AddKeyEventMonitor E)"
  "unchanged event_view (AddKeyEventMonitor E)" "unchanged directory (AddKeyEventMonitor E)"
  "unchanged phase_view (AddPointerEventHandler E)" "unchanged auth_view (AddPointerEventHandler E)"
  "unchanged event_view (AddPointerEventHandler E)" "unchanged directory (AddPointerEventHandler E)"
  "unchanged phase_view RemoveKeyEventMonitor" "unchanged auth_view RemoveKeyEventMonitor"
  "unchanged event_view RemoveKeyEventMonitor" "unchanged directory RemoveKeyEventMonitor"
  "unchanged phase_view RemovePointerEventHandler" "unchanged auth_view RemovePointerEventHandler"
  "unchanged event_view RemovePointerEventHandler" "unchanged directory RemovePointerEventHandler"
  unfolding AddKeyEventMonitor_def AddPointerEventHandler_def RemoveKeyEventMonitor_def
    RemovePointerEventHandler_def
  by (intro frame)+

lemma monitor_compounds [frame]:
  "unchanged phase_view (AddDragEventHandler E)" "unchanged auth_view (AddDragEventHandler E)"
  "unchanged event_view (AddDragEventHandler E)" "unchanged directory (AddDragEventHandler E)"
  "unchanged phase_view RemoveDragEventHandler" "unchanged auth_view RemoveDragEventHandler"
  "unchanged event_view RemoveDragEventHandler" "unchanged directory RemoveDragEventHandler"
  "unchanged phase_view remove_monitors" "unchanged auth_view remove_monitors"
  "unchanged event_view remove_monitors" "unchanged directory remove_monitors"
  "unchanged phase_view (AddDragEvent E)" "unchanged auth_view (AddDragEvent E)"
  "unchanged event_view (AddDragEvent E)" "unchanged directory (AddDragEvent E)"
  unfolding AddDragEventHandler_def RemoveDragEventHandler_def remove_monitors_def AddDragEvent_def
  by (intro frame)+

lemma monitor_resets [frame]:
  "unchanged phase_view ResetMouseDragMonitorInfo" "unchanged auth_view ResetMouseDragMonitorInfo"
  "unchanged event_view ResetMouseDragMonitorInfo" "unchanged directory ResetMouseDragMonitorInfo"
  "unchanged phase_view (SetMouseDragMonitorState E b)" "unchanged auth_view (SetMouseDragMonitorState E b)"
  "unchanged event_view (SetMouseDragMonitorState E b)" "unchanged directory (SetMouseDragMonitorState E b)"
  "unchanged phase_view (OnStartDrag E)" "unchanged auth_view (OnStartDrag E)"
  "unchanged event_view (OnStartDrag E)" "unchanged directory (OnStartDrag E)"
  "unchanged phase_view (OnStopDrag E result custom pid sc)" "unchanged auth_view (OnStopDrag E result custom pid sc)"
  "unchanged event_view (OnStopDrag E result custom pid sc)" "unchanged directory (OnStopDrag E result custom pid sc)"
  unfolding ResetMouseDragMonitorInfo_def SetMouseDragMonitorState_def OnStartDrag_def OnStopDrag_def
  by (intro frame)+

lemma auth_updates [frame]:
  fixes x :: "'s drag_manager_scheme \<Rightarrow> i32" and y :: "'s drag_manager_scheme \<Rightarrow> char list"
  shows
  "unchanged phase_view (modify (\<lambda>s. s\<lparr>sec_securityPid := x s\<rparr>))"
  "unchanged monitor_view (modify (\<lambda>s. s\<lparr>sec_securityPid := x s\<rparr>))"
  "unchanged event_view (modify (\<lambda>s. s\<lparr>sec_securityPid := x s\<rparr>))"
  "unchanged directory (modify (\<lambda>s. s\<lparr>sec_securityPid := x s\<rparr>))"
  "unchanged phase_view (modify (\<lambda>s. s\<lparr>da_nonceBin := y s\<rparr>))"
  "unchanged monitor_view (modify (\<lambda>s. s\<lparr>da_nonceBin := y s\<rparr>))"
  "unchanged event_view (modify (\<lambda>s. s\<lparr>da_nonceBin := y s\<rparr>))"
  "unchanged directory (modify (\<lambda>s. s\<lparr>da_nonceBin := y s\<rparr>))"
  "unchanged phase_view (modify (\<lambda>s. s\<lparr>da_nonceB64 := y s\<rparr>))"
  "unchanged monitor_view (modify (\<lambda>s. s\<lparr>da_nonceB64 := y s\<rparr>))"
  "unchanged event_view (modify (\<lambda>s. s\<lparr>da_nonceB64 := y s\<rparr>))"
  "unchanged directory (modify (\<lambda>s. s\<lparr>da_nonceB64 := y s\<rparr>))"
  "unchanged phase_view ResetNonce" "unchanged monitor_view ResetNonce"
  "unchanged event_view ResetNonce" "unchanged directory ResetNonce"
  by (simp_all add: unchanged_def view_defs ResetNonce_def)

lemma auth_operations [frame]:
  "unchanged phase_view (DeliverNonceToInput E)" "unchanged monitor_view (DeliverNonceToInput E)"
  "unchanged event_view (DeliverNonceToInput E)" "unchanged directory (DeliverNonceToInput E)"
  "unchanged phase_view (VerifyAndResetNonce E ev sig)" "unchanged monitor_view (VerifyAndResetNonce E ev sig)"
  "unchanged event_view (VerifyAndResetNonce E ev sig)" "unchanged directory (VerifyAndResetNonce E ev sig)"
  "unchanged phase_view (StoreSecurityPid pid)" "unchanged monitor_view (StoreSecurityPid pid)"
  "unchanged event_view (StoreSecurityPid pid)" "unchanged directory (StoreSecurityPid pid)"
  "unchanged phase_view ResetSecurityPid" "unchanged monitor_view ResetSecurityPid"
  "unchanged event_view ResetSecurityPid" "unchanged directory ResetSecurityPid"
  unfolding DeliverNonceToInput_def GenerateNonce_def VerifyAndResetNonce_def VerifySignature_def
    VerifyDragEventInterval_def StoreSecurityPid_def ResetSecurityPid_def Let_def
  by (intro frame)+

lemma AddPrivilege_frames [frame]:
  "unchanged phase_view (AddPrivilege E tid pid sig ev)" "unchanged monitor_view (AddPrivilege E tid pid sig ev)"
  "unchanged event_view (AddPrivilege E tid pid sig ev)" "unchanged directory (AddPrivilege E tid pid sig ev)"
  unfolding AddPrivilege_def by (intro frame)+

lemma phase_updates [frame]:
  fixes x :: "'s drag_manager_scheme \<Rightarrow> DragState" and y :: "'s drag_manager_scheme \<Rightarrow> bool"
  shows
  "unchanged monitor_view (modify (\<lambda>s. s\<lparr>dg_dragState := x s\<rparr>))"
  "unchanged auth_view (modify (\<lambda>s. s\<lparr>dg_dragState := x s\<rparr>))"
  "unchanged event_view (modify (\<lambda>s. s\<lparr>dg_dragState := x s\<rparr>))"
  "unchanged directory (modify (\<lambda>s. s\<lparr>dg_dragState := x s\<rparr>))"
  "unchanged monitor_view (modify (\<lambda>s. s\<lparr>dg_stateCallback := y s\<rparr>))"
  "unchanged auth_view (modify (\<lambda>s. s\<lparr>dg_stateCallback := y s\<rparr>))"
  "unchanged event_view (modify (\<lambda>s. s\<lparr>dg_stateCallback := y s\<rparr>))"
  "unchanged directory (modify (\<lambda>s. s\<lparr>dg_stateCallback := y s\<rparr>))"
  by (simp_all add: unchanged_def view_defs)

lemma phase_operations [frame]:
  "unchanged monitor_view (SetDragState E st)" "unchanged auth_view (SetDragState E st)"
  "unchanged event_view (SetDragState E st)" "unchanged directory (SetDragState E st)"
  "unchanged monitor_view (dg_StateChangedNotify st)" "unchanged auth_view (dg_StateChangedNotify st)"
  "unchanged event_view (dg_StateChangedNotify st)" "unchanged directory (dg_StateChangedNotify st)"
  "unchanged monitor_view (RegisterStateChange b)" "unchanged auth_view (RegisterStateChange b)"
  "unchanged event_view (RegisterStateChange b)" "unchanged directory (RegisterStateChange b)"
  "unchanged monitor_view UnregisterStateChange" "unchanged auth_view UnregisterStateChange"
  "unchanged event_view UnregisterStateChange" "unchanged directory UnregisterStateChange"
  unfolding SetDragState_def dg_StateChangedNotify_def RegisterStateChange_def UnregisterStateChange_def
  by (intro frame)+

lemma event_updates [frame]:
  fixes x :: "'s drag_manager_scheme \<Rightarrow> pull_event option"
  shows
  "unchanged phase_view (modify (\<lambda>s. s\<lparr>dg_currentPointerEvent := x s\<rparr>))"
  "unchanged monitor_view (modify (\<lambda>s. s\<lparr>dg_currentPointerEvent := x s\<rparr>))"
  "unchanged auth_view (modify (\<lambda>s. s\<lparr>dg_currentPointerEvent := x s\<rparr>))"
  "unchanged directory (modify (\<lambda>s. s\<lparr>dg_currentPointerEvent := x s\<rparr>))"
  by (simp_all add: unchanged_def view_defs)

lemma event_operations [frame]:
  "unchanged phase_view (SimulatePullCancelEvent E)" "unchanged monitor_view (SimulatePullCancelEvent E)"
  "unchanged auth_view (SimulatePullCancelEvent E)" "unchanged directory (SimulatePullCancelEvent E)"
  "unchanged phase_view (clear_drag result callee)" "unchanged monitor_view (clear_drag result callee)"
  "unchanged auth_view (clear_drag result callee)" "unchanged directory (clear_drag result callee)"
  unfolding SimulatePullCancelEvent_def clear_drag_def by (intro frame)+

lemma key_frames [frame]:
  "unchanged phase_view (DragKeyEventCallback E k)" "unchanged monitor_view (DragKeyEventCallback E k)"
  "unchanged auth_view (DragKeyEventCallback E k)" "unchanged directory (DragKeyEventCallback E k)"
  unfolding DragKeyEventCallback_def by (intro frame)+

text \<open>Starting and stopping: what each leaves alone.\<close>

lemma note_drag_frames [frame]:
  "unchanged phase_view (note_drag E d pid peer lp caller)" "unchanged monitor_view (note_drag E d pid peer lp caller)"
  "unchanged auth_view (note_drag E d pid peer lp caller)" "unchanged event_view (note_drag E d pid peer lp caller)"
  unfolding note_drag_def dg_GetPackageName_def Let_def by (intro frame)+

lemma StartDrag_frames [frame]:
  "unchanged event_view (StartDrag E d pid peer lp caller)"
  unfolding StartDrag_def by (intro frame)+

lemma end_drag_frames [frame]:
  "unchanged monitor_view (end_drag E)" "unchanged event_view (end_drag E)" "unchanged directory (end_drag E)"
  unfolding end_drag_def by (intro frame)+

lemma StopDrag_frames [frame]:
  "unchanged directory (StopDrag E x name pid sc callee)"
  unfolding StopDrag_def Let_def by (intro frame)+

end
