(* ===== verification/Drag_Example.thy ===== *)
theory Drag_Example
  imports Drag_Runs
begin

text \<open>
  A concrete environment in which everything the drag service asks for succeeds, and a drag of one
  picture by a touch screen: the inputs at which the properties are applied.
\<close>

definition calm_env :: senv where
  "calm_env = \<lparr>SocketPair = (\<lambda>_. Some (10, 11)), SetSockOpt_ok = (\<lambda>_ _. True), EpollOpen_ok = (\<lambda>_. True),
     EpollAdd_ok = (\<lambda>_ _. True), SendCall = (\<lambda>_ _ b. SentBytes (length b)), NewTimer = (\<lambda>_. 5), PostAsync = (\<lambda>_. RET_OK),
     PostSync = (\<lambda>_. RET_OK), NewMonitor = (\<lambda>t. if even t then 7 else 9), AppendExtraData_ret = (\<lambda>_. RET_OK),
     DeliverNonce_ret = (\<lambda>_ _. RET_OK), HasLocalPointer = (\<lambda>_. True), InputHasPointer = (\<lambda>_. True),
     AddPrivilege_ret = (\<lambda>_ _ _. RET_OK), RandBytes = (\<lambda>_. Some (replicate 32 CHR ''n'')), SteadyMs = (\<lambda>_. 1000),
     HMAC_SHA384 = (\<lambda>_ _. replicate 48 CHR ''h''), EncodeBlock = (\<lambda>b. b), DecodeBase64 = (\<lambda>_. replicate 48 CHR ''h''),
     FormatDouble = (\<lambda>_. ''0''), FloatEq = (=), FloatClose = (=), DisplayOf = (\<lambda>_ _. None), Foldable = (\<lambda>_. False),
     SystemParameter = (\<lambda>_ _. []), PixelMapSize = (\<lambda>_. (100, 100)), DrawInit_ret = (\<lambda>_. INIT_SUCCESS),
     Draw_ret = (\<lambda>_ _. RET_OK), AllowDrag = (\<lambda>_. True), RotationOf = (\<lambda>_ _. 0), TokenFlag = (\<lambda>_ _. KIND_HAP),
     HapBundleName = (\<lambda>_ _. Some ''app''), NativeProcessName = (\<lambda>_ _. None), SystemApp = (\<lambda>_ _. True),
     CollaborationName = ''collaboration'', MSG_SEND_FAIL = - 2, SamgrPresent = (\<lambda>_. True), MOUSE = 1, TOUCHSCREEN = 2,
     ACTION_MOVE = 3, ACTION_PULL_MOVE = 15, ACTION_PULL_UP = 16, ACTION_PULL_CANCEL = 17, ACTION_PULL_IN_WINDOW = 18,
     KEY_ESCAPE = 2070, KEY_CTRL_LEFT = 2072, KEY_CTRL_RIGHT = 2073\<rparr>"

definition picture :: DragData where
  "picture = new_DragData\<lparr>dd_shadowInfos := [\<lparr>sh_pixelMap = Some 1, sh_x = 0, sh_y = 0\<rparr>], dd_sourceType := 2,
     dd_dragNum := 1, dd_displayId := 0, dd_udKey := ''key''\<rparr>"

definition picture_drag :: drag_event where
  "picture_drag = Component (CallStartDrag picture 7 [] False [])"

definition drop_signature :: drag_event where
  "drop_signature = Request (ReqPrivilege \<lparr>cc_pid = 9, cc_tokenId = 0, cc_fullTokenId = 0\<rparr> ''sig''
     \<lparr>ev_timestampMs = 500, ev_coordinateX = 0, ev_coordinateY = 0\<rparr>)"

text \<open>The target is an application, in an environment in which none is part of the system.\<close>

definition drop_target :: CallingContext where
  "drop_target = \<lparr>cc_pid = 9, cc_tokenId = 0, cc_fullTokenId = 0\<rparr>"

definition app_env :: senv where
  "app_env = calm_env\<lparr>SystemApp := (\<lambda>_ _. False)\<rparr>"

definition released_event :: pull_event where
  "released_event = \<lparr>pe_action = 16, pe_sourceType = 2, pe_pointerId = 0, pe_displayX = 3, pe_displayY = 4,
     pe_fixedDisplayX = 3, pe_fixedDisplayY = 4, pe_fixedAuto = False, pe_targetDisplayId = 0, pe_actionTime = 10\<rparr>"

definition release :: drag_event where
  "release = PointerMonitored released_event"

definition drop_picture :: drag_event where
  "drop_picture = Component (CallStopDrag (drop_result DRAG_SUCCESS) [] 9 False [])"

text \<open>The plugin that ends the drag, the renderer that is done with it, and a second drag.\<close>

definition again :: "drag_event list" where
  "again = [Component (CallSetDragState DRAG_STOP), AnimationEnds, picture_drag]"

text \<open>The events, evaluated.\<close>

definition summary :: "'s drag_manager_scheme \<Rightarrow> _" where
  "summary s = (dg_dragState s, da_nonceBin s, mo_keyEventMonitorId s, mo_pointerEventMonitorId s,
     length (dq_tasks s), length (dq_timers s))"

lemma first_drag:
  "summary (run calm_env [picture_drag] new_drag_manager) = (DRAG_START, replicate 32 CHR ''n'', 7, 9, 0, 0)"
  by code_simp

lemma second_drag:
  "summary (run calm_env (drop_signature # again) (run calm_env [picture_drag] new_drag_manager))
     = (DRAG_START, replicate 32 CHR ''n'', 7, 9, 0, 0)"
  by code_simp

lemmas picture_drag_runs = first_drag [unfolded summary_def prod.inject]
lemmas second_drag_runs = second_drag [unfolded summary_def prod.inject]

lemma key_is_read:
  "result_of (GetUdKey 9 False) (run calm_env [picture_drag, drop_signature] new_drag_manager) = Inr ''key''"
  by code_simp

lemma release_is_posted:
  "dg_dragState (run calm_env [picture_drag, release] new_drag_manager) = DRAG_START"
  "dq_tasks (run calm_env [picture_drag, release] new_drag_manager) = [TaskDragUp released_event, TaskAppendExtraData]"
  "dq_timers (run calm_env [picture_drag, release] new_drag_manager) = []"
proof -
  define s where "s = run calm_env [picture_drag] new_drag_manager"
  have s: "run calm_env [picture_drag, release] new_drag_manager = exec (monitor_OnInputEvent calm_env released_event) s"
    by (simp add: s_def) (simp add: release_def handle_def)
  have "dg_dragState s = DRAG_START" "dq_tasks s = []" "dq_timers s = []"
    using picture_drag_runs by (simp_all only: s_def length_0_conv)
  then show "dg_dragState (run calm_env [picture_drag, release] new_drag_manager) = DRAG_START"
    "dq_tasks (run calm_env [picture_drag, release] new_drag_manager) = [TaskDragUp released_event, TaskAppendExtraData]"
    "dq_timers (run calm_env [picture_drag, release] new_drag_manager) = []"
    unfolding s
    by (simp_all add: monitor_OnInputEvent_def DragCallback_def note_mouse_location_def DragUpCallback_def
      forget_mouse_location_def dq_PostAsyncTask_def draw_def released_event_def calm_env_def)
qed

end
