(* ===== verification/Drag_Properties.thy ===== *)
theory Drag_Properties
  imports Drag_Example
begin

text \<open>
  What holds along the runs of the drag service, and what does not: its state machine, its
  monitors, the notifications of its state, the signatures that open the key of the data, and
  the ways in which a drag gets stuck or is ended by the remains of an earlier one.
\<close>

declare keeps_inv_modify [keeps del]

section \<open>How operations change the views\<close>

text \<open>The frames as rewrite rules: components of a view after an operation that leaves it alone.\<close>

lemmas phase_simps = phase_frames [THEN unchangedD, unfolded phase_view_def prod.inject]
  session_updates(1,5,9) [THEN unchangedD, unfolded phase_view_def prod.inject]
  monitor_operations(1,5,9,13) [THEN unchangedD, unfolded phase_view_def prod.inject]
  monitor_compounds(1,5,9,13) [THEN unchangedD, unfolded phase_view_def prod.inject]
  monitor_resets(1,5,9,13) [THEN unchangedD, unfolded phase_view_def prod.inject]
  auth_operations(1,5,9,13) [THEN unchangedD, unfolded phase_view_def prod.inject]
  event_operations(1,5) [THEN unchangedD, unfolded phase_view_def prod.inject]
  note_drag_frames(1) [THEN unchangedD, unfolded phase_view_def prod.inject]

lemma UpdateDragStyleCross_phase:
  "dg_dragState (exec (UpdateDragStyleCross E) s) = dg_dragState s"
  by (simp add: phase_simps)

lemma SetDragState_phase:
  "phase_view (exec (SetDragState E st) s)
     = (if dg_dragState s = DRAG_STOP \<and> st = MOTION_DRAGGING then phase_view s
        else (st, dg_stateCallback s, states_told (sv_log s)))"
  by (simp add: SetDragState_def phase_view_def phase_simps)

lemma StateChangedNotify_phase:
  "phase_view (exec (dg_StateChangedNotify st) s)
     = (dg_dragState s, dg_stateCallback s, states_told (sv_log s) @
         (if dg_stateCallback s \<and> (st = DRAG_STOP \<or> dg_dragState s \<noteq> MOTION_DRAGGING) then [st] else []))"
  by (simp add: dg_StateChangedNotify_def phase_view_def)

lemma end_drag_phase:
  "phase_view (exec (end_drag E) s)
     = (DRAG_STOP, dg_stateCallback s, states_told (sv_log s) @ (if dg_stateCallback s then [DRAG_STOP] else []))"
  using StateChangedNotify_phase [of DRAG_STOP s]
  by (simp add: end_drag_def phase_view_def phase_simps SetDragState_def)

lemma StopDrag_phase:
  "phase_view (exec (StopDrag E x name pid sc callee) s)
     = (if dg_dragState s = DRAG_STOP then phase_view s
        else (DRAG_STOP, dg_stateCallback s,
              states_told (sv_log s) @ (if dg_stateCallback s then [DRAG_STOP] else [])))"
  by (simp add: StopDrag_def Let_def end_drag_phase phase_simps) (simp add: phase_view_def)

lemma StartDrag_phase:
  "phase_view (exec (StartDrag E d pid peer lp caller) s)
     = (if result_of (StartDrag E d pid peer lp caller) s = RET_OK
        then (DRAG_START, dg_stateCallback s,
              states_told (sv_log s) @ (if dg_stateCallback s then [DRAG_START] else []))
        else phase_view s)"
  by (simp add: StartDrag_def phase_view_def phase_simps SetDragState_def dg_StateChangedNotify_def)

lemma StartDrag_refused:
  "is_running (dg_dragState s) \<or> dq_isRunning s \<Longrightarrow>
     result_of (StartDrag E d pid peer lp caller) s = RET_ERR"
  by (auto simp: StartDrag_def is_running_def IsDrawing_def ResetMouseDragMonitorTimerId_def dq_RemoveTimer_def)

section \<open>Kinds of events\<close>

fun starts_drag :: "drag_event \<Rightarrow> bool" where
  "starts_drag (Request (ReqStartDrag c d)) = True"
| "starts_drag (Component (CallStartDrag d pid peer lp caller)) = True"
| "starts_drag _ = False"

fun stops_drag :: "drag_event \<Rightarrow> bool" where
  "stops_drag (Request (ReqStopDrag c x)) = True"
| "stops_drag (Component (CallStopDrag x name pid sc callee)) = True"
| "stops_drag (TimerFires i) = True"
| "stops_drag _ = False"

fun sets_state :: "drag_event \<Rightarrow> bool" where
  "sets_state (Component (CallSetDragState st)) = True"
| "sets_state _ = False"

fun changes_callback :: "drag_event \<Rightarrow> bool" where
  "changes_callback (Component (CallRegisterStateChange b)) = True"
| "changes_callback (Component CallUnregisterStateChange) = True"
| "changes_callback _ = False"

fun signs :: "drag_event \<Rightarrow> bool" where
  "signs (Request (ReqPrivilege c sig ev)) = True"
| "signs _ = False"

lemma starts_drag_iff:
  "starts_drag e \<longleftrightarrow> (\<exists>c d. e = Request (ReqStartDrag c d))
     \<or> (\<exists>d pid peer lp caller. e = Component (CallStartDrag d pid peer lp caller))"
  by (cases e rule: starts_drag.cases) simp_all

lemma stops_drag_iff:
  "stops_drag e \<longleftrightarrow> (\<exists>c x. e = Request (ReqStopDrag c x)) \<or> (\<exists>i. e = TimerFires i)
     \<or> (\<exists>x name pid sc callee. e = Component (CallStopDrag x name pid sc callee))"
  by (cases e rule: stops_drag.cases) simp_all

lemma sets_state_iff: "sets_state e \<longleftrightarrow> (\<exists>st. e = Component (CallSetDragState st))"
  by (cases e rule: sets_state.cases) simp_all

lemma changes_callback_iff:
  "changes_callback e \<longleftrightarrow> (\<exists>b. e = Component (CallRegisterStateChange b)) \<or> e = Component CallUnregisterStateChange"
  by (cases e rule: changes_callback.cases) simp_all

lemma signs_iff: "signs e \<longleftrightarrow> (\<exists>c sig ev. e = Request (ReqPrivilege c sig ev))"
  by (cases e rule: signs.cases) simp_all

lemmas kind_iffs = starts_drag_iff stops_drag_iff sets_state_iff changes_callback_iff signs_iff

lemmas serve_defs = serve_request_def sv_AddDraglistener_def sv_RemoveDraglistener_def
  sv_AddSubscriptListener_def sv_RemoveSubscriptListener_def sv_SetDragWindowVisible_def
  sv_UpdateDragStyle_def sv_UpdateShadowPic_def sv_UpdatePreviewStyle_def
  sv_UpdatePreviewStyleWithAnimation_def sv_RotateDragWindowSync_def sv_SetDragWindowScreenId_def
  sv_EnableUpperCenterMode_def sv_AddPrivilege_def sv_EraseMouseIcon_def sv_SetMouseDragMonitorState_def
  sv_GetUdKey_def sv_GetDragData_def sv_GetDragSummary_def AddSubscriptListener_def
  RemoveSubscriptListener_def AddStyleMsg_def RemoveStyleMsg_def
  system_query_def

lemma queries_frame [frame]:
  "unchanged f (VerifySecurityPid pid)" "unchanged f (GetUdKey pid b)" "unchanged f GetDragData"
  "unchanged f GetDragSummary"
  unfolding VerifySecurityPid_def GetUdKey_def GetDragData_def GetDragSummary_def by (intro frame)+

lemma system_only_frame [frame]:
  "unchanged f m \<Longrightarrow> unchanged f (IsSystemHAPCalling E c) \<Longrightarrow> unchanged f (system_only E c m)"
  unfolding system_only_def by (intro frame)

text \<open>Each view changes only with the events of its kinds.\<close>

lemma run_task_frames [frame]:
  "unchanged phase_view (run_task E t)" "unchanged monitor_view (run_task E t)"
  "unchanged auth_view (run_task E t)" "unchanged directory (run_task E t)"
  by (cases t; simp add: run_task_def; intro frame)+

lemma RunTask_frames [frame]:
  "unchanged phase_view (RunTask E)" "unchanged monitor_view (RunTask E)"
  "unchanged auth_view (RunTask E)" "unchanged directory (RunTask E)"
  unfolding RunTask_def by (intro unchanged_bind frame; simp split: list.split; intro allI impI conjI frame)+

lemma serve_phase:
  assumes "\<not> starts_drag (Request r)" "\<not> stops_drag (Request r)"
  shows "unchanged phase_view (serve_request E r)"
  using assms by (cases r; simp add: serve_defs; (intro conjI impI frame)?)

lemma call_phase:
  assumes "\<not> starts_drag (Component c)" "\<not> stops_drag (Component c)" "\<not> sets_state (Component c)"
    "\<not> changes_callback (Component c)"
  shows "unchanged phase_view (call E c)"
  using assms by (cases c; simp add: call_def; (intro frame)?)

lemma handle_phase:
  assumes "\<not> starts_drag e" "\<not> stops_drag e" "\<not> sets_state e" "\<not> changes_callback e"
  shows "unchanged phase_view (handle E e)"
  using assms by (cases e; simp add: handle_def serve_phase call_phase; (intro frame)?)

lemma serve_monitor:
  assumes "\<not> starts_drag (Request r)" "\<not> stops_drag (Request r)" "\<forall>b. r \<noteq> ReqMouseMonitor b"
  shows "unchanged monitor_view (serve_request E r)"
  using assms by (cases r; simp add: serve_defs; (intro conjI impI frame)?)

lemma serve_auth:
  assumes "\<not> starts_drag (Request r)" "\<not> stops_drag (Request r)" "\<not> signs (Request r)"
  shows "unchanged auth_view (serve_request E r)"
  using assms by (cases r; simp add: serve_defs; (intro conjI impI frame)?)

lemma serve_event:
  assumes "\<not> stops_drag (Request r)"
  shows "unchanged event_view (serve_request E r)"
  using assms by (cases r; simp add: serve_defs sv_StartDrag_def; (intro conjI impI frame)?)

lemma call_monitor:
  assumes "\<not> starts_drag (Component c)" "\<not> stops_drag (Component c)"
  shows "unchanged monitor_view (call E c)"
  using assms by (cases c; simp add: call_def; intro frame)

lemma call_auth:
  assumes "\<not> starts_drag (Component c)" "\<not> stops_drag (Component c)"
  shows "unchanged auth_view (call E c)"
  using assms by (cases c; simp add: call_def; intro frame)

lemma call_event:
  assumes "\<not> stops_drag (Component c)"
  shows "unchanged event_view (call E c)"
  using assms by (cases c; simp add: call_def; intro frame)

section \<open>The state machine of a drag\<close>

text \<open>
  What may happen to the state of a drag, by the event: a start only from a state that is not
  running, a stop from anywhere, and whatever the plugin for dragging by motion sets, except that
  it cannot set a stopped drag to dragging by motion.
\<close>

inductive drag_step :: "drag_event \<Rightarrow> DragState \<Rightarrow> DragState \<Rightarrow> bool" where
  stay: "drag_step e st st"
| take_up: "starts_drag e \<Longrightarrow> \<not> is_running st \<Longrightarrow> drag_step e st DRAG_START"
| stop: "stops_drag e \<Longrightarrow> drag_step e st DRAG_STOP"
| set_by_plugin: "\<not> (st = DRAG_STOP \<and> st' = MOTION_DRAGGING) \<Longrightarrow>
    drag_step (Component (CallSetDragState st')) st st'"

lemma StartDrag_step:
  assumes "starts_drag e"
  shows "drag_step e (dg_dragState s) (dg_dragState (exec (StartDrag E d pid peer lp caller) s))"
proof (cases "result_of (StartDrag E d pid peer lp caller) s = RET_OK")
  case True
  then have "\<not> is_running (dg_dragState s)"
    using StartDrag_refused [of s E d pid peer lp caller] by auto
  then show ?thesis
    using StartDrag_phase [of E d pid peer lp caller s] True assms
    by (simp add: phase_view_def drag_step.take_up)
next
  case False
  then show ?thesis
    using StartDrag_phase [of E d pid peer lp caller s] by (simp add: phase_view_def drag_step.stay)
qed

lemma StopDrag_step:
  "stops_drag e \<Longrightarrow> drag_step e (dg_dragState s) (dg_dragState (exec (StopDrag E x name pid sc callee) s))"
  using StopDrag_phase [of E x name pid sc callee s]
  by (auto simp: phase_view_def intro: drag_step.intros split: if_splits)

lemmas server_phase = phase_simps
  blind_sessions(4) [OF blind_views(1), THEN unchangedD, unfolded phase_view_def prod.inject]

lemma sv_StartDrag_step:
  "drag_step (Request (ReqStartDrag c d)) (dg_dragState s) (dg_dragState (exec (sv_StartDrag E c d) s))"
proof (cases "find_pid (cc_pid c) s")
  case (Some fd)
  define t where "t = exec (SetProgramName fd (result_of (sv_GetPackageName E (cc_tokenId c)) s))
    (exec (sv_GetPackageName E (cc_tokenId c)) s)"
  have "dg_dragState t = dg_dragState s"
    by (simp add: t_def server_phase)
  moreover have "exec (sv_StartDrag E c d) s = exec (StartDrag E d (cc_pid c) [] False []) t"
    using Some by (simp add: sv_StartDrag_def FindSessionByPid_def t_def)
  ultimately show ?thesis
    using StartDrag_step [of "Request (ReqStartDrag c d)" t] by simp
qed (simp add: sv_StartDrag_def FindSessionByPid_def drag_step.stay)

lemma sv_StopDrag_step:
  "drag_step (Request (ReqStopDrag c x)) (dg_dragState s) (dg_dragState (exec (sv_StopDrag E c x) s))"
  using StopDrag_step [of "Request (ReqStopDrag c x)" "exec (sv_GetPackageName E (cc_tokenId c)) s"]
  by (simp add: sv_StopDrag_def server_phase)

lemma FireTimer_step:
  "drag_step (TimerFires i) (dg_dragState s) (dg_dragState (exec (FireTimer E i) s))"
proof (cases "map_of (dq_timers s) i")
  case (Some c)
  let ?t = "s\<lparr>dq_timers := filter (\<lambda>t. fst t \<noteq> i) (dq_timers s)\<rparr>"
  have eq: "exec (FireTimer E i) s = exec (run_timer E c) ?t"
    using Some by (simp add: FireTimer_def)
  show ?thesis
    using StopDrag_step [of "TimerFires i" ?t] unfolding eq
    by (cases c) (simp_all add: run_timer_def phase_simps drag_step.stay)
qed (simp add: FireTimer_def drag_step.stay)

lemma handle_step:
  fixes s :: "'s drag_manager_scheme"
  shows "drag_step e (dg_dragState s) (dg_dragState (exec (handle E e) s))"
proof -
  have quiet: "drag_step e (dg_dragState s) (dg_dragState (exec (handle E e) s))"
    if "unchanged phase_view (handle E e :: ('s drag_manager_scheme, unit) state)"
    using unchangedD [OF that, of s] by (simp add: phase_view_def drag_step.stay)
  show ?thesis
  proof (cases "starts_drag e \<or> stops_drag e \<or> sets_state e \<or> changes_callback e")
    case False
    then show ?thesis
      using quiet handle_phase by blast
  next
    case True
    then consider (starts) "starts_drag e" | (stops) "stops_drag e" | (sets) "sets_state e"
      | (callback) "changes_callback e"
      by blast
    then show ?thesis
    proof cases
      case starts
      then show ?thesis
        by (auto simp: starts_drag_iff handle_def serve_request_def call_def sv_StartDrag_step StartDrag_step)
    next
      case stops
      then show ?thesis
        by (auto simp: stops_drag_iff handle_def serve_request_def call_def sv_StopDrag_step StopDrag_step FireTimer_step)
    next
      case sets
      then show ?thesis
        by (auto simp: sets_state_iff handle_def call_def SetDragState_def phase_simps intro: drag_step.intros)
    next
      case callback
      then show ?thesis
        by (auto simp: changes_callback_iff handle_def call_def RegisterStateChange_def
          UnregisterStateChange_def intro: drag_step.intros)
    qed
  qed
qed

text \<open>
  C3. The drag service refines a small state machine, whatever clients, input service, renderer
  and plugins do. Apart from the calls by which the plugin for dragging by motion sets the state, a
  drag begins only with a call of \<open>StartDrag\<close> while none is running, ends only with a stop or a
  timer, and no other event touches its state. The plugin may set any state, \<open>DRAG_START\<close> of a stopped
  drag included; only from stopped to \<open>MOTION_DRAGGING\<close> it cannot go.
\<close>

theorem drag_refines_machine:
  "drag_step e (dg_dragState s) (dg_dragState (exec (handle E e) s))"
  by (rule handle_step)

section \<open>Monitors\<close>

text \<open>
  The two ids account for every monitor at the input service, and there is none for pointer
  events without one for keys.
\<close>

definition monitors_ok :: "'s drag_manager_scheme \<Rightarrow> bool" where
  "monitors_ok s \<longleftrightarrow>
     (lt32 0 (mo_pointerEventMonitorId s) \<longrightarrow> lt32 0 (mo_keyEventMonitorId s))
   \<and> (\<forall>i. monitors_open (sv_log s) i =
       (if lt32 0 i \<and> i = mo_pointerEventMonitorId s then 1 else 0)
     + (if lt32 0 i \<and> i = mo_keyEventMonitorId s then 1 else 0))"

lemma monitors_ok_frame: "unchanged monitor_view m \<Longrightarrow> keeps_inv monitors_ok m"
  by (simp add: unchanged_def keeps_inv_def monitor_view_def monitors_ok_def)

lemma monitors_ok_iff:
  "monitors_ok s \<longleftrightarrow>
     (lt32 0 (mo_pointerEventMonitorId s) \<longrightarrow> lt32 0 (mo_keyEventMonitorId s))
   \<and> monitors_open (sv_log s) = (\<lambda>i. of_bool (lt32 0 i \<and> i = mo_pointerEventMonitorId s)
        + of_bool (lt32 0 i \<and> i = mo_keyEventMonitorId s))"
  by (simp add: monitors_ok_def fun_eq_iff of_bool_def)

lemma AddDragEventHandler_monitors [keeps]: "keeps_inv monitors_ok (AddDragEventHandler E)"
  by (rule keeps_invI) (auto simp: monitors_ok_iff AddDragEventHandler_def AddKeyEventMonitor_def
      AddPointerEventHandler_def fun_eq_iff)

lemma RemoveDragEventHandler_monitors [keeps]: "keeps_inv monitors_ok RemoveDragEventHandler"
  by (rule keeps_invI) (auto simp: monitors_ok_iff RemoveDragEventHandler_def RemoveKeyEventMonitor_def
      RemovePointerEventHandler_def fun_eq_iff)

lemma remove_monitors_monitors [keeps]: "keeps_inv monitors_ok remove_monitors"
  by (rule keeps_invI) (auto simp: monitors_ok_iff remove_monitors_def RemoveKeyEventMonitor_def
      RemovePointerEventHandler_def fun_eq_iff)

lemma monitor_compound_keeps [keeps]:
  "keeps_inv monitors_ok ResetMouseDragMonitorInfo"
  "keeps_inv monitors_ok (SetMouseDragMonitorState E b)"
  "keeps_inv monitors_ok (AddDragEvent E)"
  "keeps_inv monitors_ok (OnStartDrag E)"
  "keeps_inv monitors_ok (OnStopDrag E result custom pid sc)"
  unfolding ResetMouseDragMonitorInfo_def SetMouseDragMonitorState_def AddDragEvent_def OnStartDrag_def
    OnStopDrag_def
  by (intro keeps; (rule monitors_ok_frame, intro frame)?)+

lemma monitor_drag_keeps [keeps]:
  "keeps_inv monitors_ok (StartDrag E d pid peer lp caller)"
  "keeps_inv monitors_ok (StopDrag E x name psid sc callee)"
  unfolding StartDrag_def StopDrag_def
  by (intro keeps; (rule monitors_ok_frame, intro frame)?)+

lemma run_timer_monitors [keeps]: "keeps_inv monitors_ok (run_timer E c)"
  by (cases c; simp add: run_timer_def; (intro keeps)?; (rule monitors_ok_frame, intro frame)?)

lemma FireTimer_monitors [keeps]: "keeps_inv monitors_ok (FireTimer E i)"
  unfolding FireTimer_def by (intro keeps; (rule monitors_ok_frame, intro frame)?)

lemma server_monitors [keeps]:
  "keeps_inv monitors_ok (sv_StartDrag E c d)"
  "keeps_inv monitors_ok (sv_StopDrag E c x)"
  unfolding sv_StartDrag_def sv_StopDrag_def
  by (intro keeps; (rule monitors_ok_frame, intro frame)?)+

lemma handle_monitors: "keeps_inv monitors_ok (handle E e)"
proof (cases e)
  case (Request r)
  have "keeps_inv monitors_ok (serve_request E r)"
  proof (cases "starts_drag (Request r) \<or> stops_drag (Request r) \<or> (\<exists>b. r = ReqMouseMonitor b)")
    case True
    then show ?thesis
      by (auto simp: starts_drag_iff stops_drag_iff serve_request_def sv_SetMouseDragMonitorState_def intro!: keeps)
  qed (intro monitors_ok_frame serve_monitor; blast)
  then show ?thesis
    by (simp add: Request handle_def)
next
  case (Component c)
  have "keeps_inv monitors_ok (call E c)"
  proof (cases "starts_drag (Component c) \<or> stops_drag (Component c)")
    case True
    then show ?thesis
      by (auto simp: starts_drag_iff stops_drag_iff call_def intro!: keeps)
  qed (intro monitors_ok_frame call_monitor; blast)
  then show ?thesis
    by (simp add: Component handle_def)
qed (simp add: handle_def; (intro keeps)?; (rule monitors_ok_frame, intro frame)?)+

text \<open>
  C8. No monitor leaks. Along every run each monitor that was added to the input service and not
  removed is one of the two the manager holds, none was removed twice, and pointer events are
  never watched without key events: a monitor that the manager has given up is never called.
\<close>

theorem monitors_balanced:
  "let s = run E es new_drag_manager in
     (lt32 0 (mo_pointerEventMonitorId s) \<longrightarrow> lt32 0 (mo_keyEventMonitorId s))
   \<and> (\<forall>i. monitors_open (sv_log s) i =
       (if lt32 0 i \<and> i = mo_pointerEventMonitorId s then 1 else 0)
     + (if lt32 0 i \<and> i = mo_keyEventMonitorId s then 1 else 0))"
proof -
  have "monitors_ok (run E es new_drag_manager)"
    by (rule run_keeps, rule handle_monitors) (auto simp: monitors_ok_def new_drag_manager_def)
  then show ?thesis
    by (simp add: monitors_ok_def Let_def)
qed

theorem monitors_balanced_witness:
  "let s = run calm_env [picture_drag] new_drag_manager in
     monitors_open (sv_log s) (mo_keyEventMonitorId s) = 1"
  using monitors_balanced [of calm_env "[picture_drag]"] picture_drag_runs unfolding Let_def by simp

section \<open>What the state callback is told\<close>

text \<open>START, STOP, START, and so on.\<close>

definition alternation :: "nat \<Rightarrow> DragState list" where
  "alternation n = map (\<lambda>i. if even i then DRAG_START else DRAG_STOP) [0..<n]"

definition told_ok :: "'s drag_manager_scheme \<Rightarrow> bool" where
  "told_ok s \<longleftrightarrow> dg_stateCallback s \<and> (\<exists>n. states_told (sv_log s) = alternation n
     \<and> dg_dragState s = (if even n then DRAG_STOP else DRAG_START))"

lemma alternation_Suc [simp]:
  "alternation (Suc n) = alternation n @ [if even n then DRAG_START else DRAG_STOP]"
  by (simp add: alternation_def)

lemma told_ok_frame: "unchanged phase_view m \<Longrightarrow> keeps_inv told_ok m"
  by (simp add: unchanged_def keeps_inv_def phase_view_def told_ok_def)

lemma told_ok_phase:
  "told_ok t \<Longrightarrow> phase_view s = phase_view t \<Longrightarrow> told_ok s"
  by (simp add: told_ok_def phase_view_def)

lemma StopDrag_told [keeps]: "keeps_inv told_ok (StopDrag E x name pid sc callee)"
proof (rule keeps_invI)
  fix s assume ok: "told_ok s"
  show "told_ok (exec (StopDrag E x name pid sc callee) s)"
  proof (cases "dg_dragState s = DRAG_STOP")
    case True
    then show ?thesis
      using told_ok_phase [OF ok] StopDrag_phase [of E x name pid sc callee s] by simp
  next
    case False
    then obtain n where n: "states_told (sv_log s) = alternation n" "odd n" "dg_stateCallback s"
      using ok by (auto simp: told_ok_def split: if_splits)
    then show ?thesis
      using StopDrag_phase [of E x name pid sc callee s] False
      by (auto simp: told_ok_def phase_view_def intro!: exI [of _ "Suc n"])
  qed
qed

lemma StartDrag_told [keeps]: "keeps_inv told_ok (StartDrag E d pid peer lp caller)"
proof (rule keeps_invI)
  fix s assume ok: "told_ok s"
  show "told_ok (exec (StartDrag E d pid peer lp caller) s)"
  proof (cases "result_of (StartDrag E d pid peer lp caller) s = RET_OK")
    case False
    then show ?thesis
      using told_ok_phase [OF ok] StartDrag_phase [of E d pid peer lp caller s] by simp
  next
    case True
    then have "\<not> is_running (dg_dragState s)"
      using StartDrag_refused [of s E d pid peer lp caller] by auto
    then obtain n where n: "states_told (sv_log s) = alternation n" "even n" "dg_stateCallback s"
      using ok by (auto simp: told_ok_def is_running_def split: if_splits)
    then show ?thesis
      using StartDrag_phase [of E d pid peer lp caller s] True
      by (auto simp: told_ok_def phase_view_def intro!: exI [of _ "Suc n"])
  qed
qed

lemma server_told [keeps]:
  "keeps_inv told_ok (sv_StartDrag E c d)" "keeps_inv told_ok (sv_StopDrag E c x)"
  unfolding sv_StartDrag_def sv_StopDrag_def
  by (intro keeps; (rule told_ok_frame, intro frame)?)+

lemma run_timer_told [keeps]: "keeps_inv told_ok (run_timer E c)"
  by (cases c; simp add: run_timer_def; (intro keeps)?; (rule told_ok_frame, intro frame)?)

lemma FireTimer_told [keeps]: "keeps_inv told_ok (FireTimer E i)"
  unfolding FireTimer_def by (intro keeps; (rule told_ok_frame, intro frame)?)

lemma handle_told:
  assumes "\<not> sets_state e" "\<not> changes_callback e"
  shows "keeps_inv told_ok (handle E e)"
proof (cases "starts_drag e \<or> stops_drag e")
  case True
  then show ?thesis
    by (auto simp: starts_drag_iff stops_drag_iff handle_def serve_request_def call_def intro!: keeps)
next
  case False
  then show ?thesis
    using assms handle_phase told_ok_frame by blast
qed

text \<open>
  C13. The observer of the drag state sees every drag once: while it stays registered and no
  plugin sets the state, it is told START and STOP in turn, beginning with START, and what it was
  told last is the state the drag is in. So a start that fails is never announced, a stop that is
  refused is not announced again, and no two drags overlap.
\<close>

theorem state_callback_alternates:
  assumes "dg_dragState s = DRAG_STOP" "dg_stateCallback s" "states_told (sv_log s) = []"
    and "\<forall>e \<in> set es. \<not> sets_state e \<and> \<not> changes_callback e"
  shows "\<exists>n. states_told (sv_log (run E es s)) = alternation n
    \<and> dg_dragState (run E es s) = (if even n then DRAG_STOP else DRAG_START)"
proof -
  have "told_ok s"
    using assms(1-3) unfolding told_ok_def by (intro conjI exI [of _ 0]) (simp_all add: alternation_def)
  with assms(4) have "told_ok (run E es s)"
    by (auto intro: run_keeps [where I = told_ok] handle_told)
  then show ?thesis
    by (auto simp: told_ok_def)
qed

theorem state_callback_alternates_witness:
  "\<exists>n. states_told (sv_log (run calm_env [picture_drag, drop_picture]
       (new_drag_manager\<lparr>dg_stateCallback := True\<rparr>))) = alternation n
    \<and> dg_dragState (run calm_env [picture_drag, drop_picture] (new_drag_manager\<lparr>dg_stateCallback := True\<rparr>))
      = (if even n then DRAG_STOP else DRAG_START)"
  by (rule state_callback_alternates)
    (simp_all add: new_drag_manager_def picture_drag_def drop_picture_def)

section \<open>Escape and the lock of the screen\<close>

definition no_event :: "'s drag_manager_scheme \<Rightarrow> bool" where
  "no_event s \<longleftrightarrow> dg_currentPointerEvent s = None \<and> simulated (sv_log s) = []"

lemma no_event_frame: "unchanged event_view m \<Longrightarrow> keeps_inv no_event m"
  by (simp add: unchanged_def keeps_inv_def event_view_def no_event_def)

lemma no_event_leaf [keeps]:
  "keeps_inv no_event (SimulatePullCancelEvent E)"
  "keeps_inv no_event (modify (\<lambda>s. s\<lparr>dg_currentPointerEvent := None\<rparr>))"
  by (simp_all add: keeps_inv_def no_event_def SimulatePullCancelEvent_def)

lemma no_event_keeps [keeps]:
  "keeps_inv no_event (DragKeyEventCallback E k)"
  "keeps_inv no_event (clear_drag result callee)"
  unfolding DragKeyEventCallback_def clear_drag_def
  by (intro keeps; (rule no_event_frame, intro frame)?)+

lemma StopDrag_no_event [keeps]: "keeps_inv no_event (StopDrag E x name pid sc callee)"
  unfolding StopDrag_def by (intro keeps; (rule no_event_frame, intro frame)?)

lemma sv_StopDrag_no_event [keeps]: "keeps_inv no_event (sv_StopDrag E c x)"
  unfolding sv_StopDrag_def by (intro keeps; (rule no_event_frame, intro frame)?)

lemma run_task_no_event [keeps]: "keeps_inv no_event (run_task E t)"
  by (cases t; simp add: run_task_def; (intro keeps)?; (rule no_event_frame, intro frame)?)

lemma RunTask_no_event [keeps]: "keeps_inv no_event (RunTask E)"
  unfolding RunTask_def
  by (intro keeps; simp split: list.split; intro allI impI conjI keeps; (rule no_event_frame, intro frame)?)

lemma run_timer_no_event [keeps]: "keeps_inv no_event (run_timer E c)"
  by (cases c; simp add: run_timer_def; (intro keeps)?; (rule no_event_frame, intro frame)?)

lemma FireTimer_no_event [keeps]: "keeps_inv no_event (FireTimer E i)"
  unfolding FireTimer_def by (intro keeps; (rule no_event_frame, intro frame)?)

lemma handle_no_event: "keeps_inv no_event (handle E e)"
proof (cases e)
  case (Request r)
  have "keeps_inv no_event (serve_request E r)"
  proof (cases "stops_drag (Request r)")
    case True
    then show ?thesis
      by (auto simp: stops_drag_iff serve_request_def intro!: keeps)
  qed (intro no_event_frame serve_event)
  then show ?thesis
    by (simp add: Request handle_def)
next
  case (Component c)
  have "keeps_inv no_event (call E c)"
  proof (cases "stops_drag (Component c)")
    case True
    then show ?thesis
      by (auto simp: stops_drag_iff call_def intro!: keeps)
  qed (intro no_event_frame call_event)
  then show ?thesis
    by (simp add: Component handle_def)
qed (simp add: handle_def; (intro keeps)?; (rule no_event_frame, intro frame)?)+

text \<open>
  C37. Neither the escape key nor locking the screen ends a drag: both go through
  \<open>SimulatePullCancelEvent\<close>, which needs the last pointer event, and that is recorded only in builds
  with pull-throw. Along every run of the default build no event is ever simulated.
\<close>

theorem escape_ignored:
  "simulated (sv_log (run E es new_drag_manager)) = []"
proof -
  have "no_event (run E es new_drag_manager)"
    by (rule run_keeps, rule handle_no_event) (simp add: no_event_def new_drag_manager_def)
  then show ?thesis
    by (simp add: no_event_def)
qed

end
