(* ===== verification/Drag_Keys.thy ===== *)
theory Drag_Keys
  imports Drag_Properties
begin

text \<open>
  Who reads the key of the dragged data (drag_auth.cpp, drag_security_manager.cpp and their calls
  in drag_manager.cpp): what a signature has to be, what an accepted one grants, and for how long.
\<close>

section \<open>Signatures\<close>

text \<open>
  What a signature means, without the order of the tests and without machine arithmetic: the
  event lies in the last three seconds, a nonce is out, and the signature is that of the event
  under the nonce.
\<close>

definition genuine :: "senv \<Rightarrow> 's auth_scheme \<Rightarrow> DragEventData \<Rightarrow> string \<Rightarrow> bool" where
  "genuine E s ev sig \<longleftrightarrow>
     sig \<noteq> [] \<and> length sig \<le> 1024 \<and> da_nonceBin s \<noteq> []
   \<and> unat (ev_timestampMs ev) \<le> unat (SteadyMs E (sv_clock s))
   \<and> unat (SteadyMs E (sv_clock s)) \<le> unat (ev_timestampMs ev) + 3000
   \<and> DecodeBase64 E sig = HMAC_SHA384 E (da_nonceBin s) (SerializeDragEventData E ev)
   \<and> length (DecodeBase64 E sig) = 48"

lemma interval_iff:
  fixes now stamp :: u64
  shows "\<not> now < stamp \<and> \<not> 3000 < unat (now - stamp)
     \<longleftrightarrow> unat stamp \<le> unat now \<and> unat now \<le> unat stamp + 3000"
  by (auto simp: not_less word_le_nat_alt unat_sub)

lemma Serialize_not_empty [simp]: "SerializeDragEventData E ev \<noteq> []"
  by (simp add: SerializeDragEventData_def)

lemma VerifyDragEventInterval_result:
  "result_of (VerifyDragEventInterval E ev) s
     = (unat (ev_timestampMs ev) \<le> unat (SteadyMs E (sv_clock s))
        \<and> unat (SteadyMs E (sv_clock s)) \<le> unat (ev_timestampMs ev) + 3000)"
  using interval_iff [of "SteadyMs E (sv_clock s)" "ev_timestampMs ev"]
  by (auto simp: VerifyDragEventInterval_def NONCE_TIMEOUT_MS_def)

lemma VerifyDragEventInterval_exec:
  "exec (VerifyDragEventInterval E ev) s = s\<lparr>sv_clock := Suc (sv_clock s)\<rparr>"
  by (simp add: VerifyDragEventInterval_def)

lemma VerifySignature_result: "result_of (VerifySignature E ev sig) s = genuine E s ev sig"
  by (auto simp: VerifySignature_def genuine_def VerifyDragEventInterval_result VerifyDragEventInterval_exec
    Base64Decode_def GenerateSignature_def MAX_BASE64_LENGTH_def HMAC_SHA384_SIZE_def ConstantTimeCompare_def Let_def)

lemma VerifySignature_exec:
  "exec (VerifySignature E ev sig) s = (if sig = [] then s else s\<lparr>sv_clock := Suc (sv_clock s)\<rparr>)"
  by (simp add: VerifySignature_def VerifyDragEventInterval_exec Let_def)

text \<open>
  C11. The test of a signature, with its Base64 buffer, its length tests and its 64-bit clock
  arithmetic, is the plain specification \<open>genuine\<close>: it accepts exactly the events of the last three
  seconds, none from the future and none by an underflow of the clock, that are signed under the
  nonce that is out. It uses up the nonce if it accepts, and keeps it otherwise.
\<close>

theorem signature_accepted_iff:
  "result_of (VerifyAndResetNonce E ev sig) s = genuine E s ev sig
 \<and> da_nonceBin (exec (VerifyAndResetNonce E ev sig) s) = (if genuine E s ev sig then [] else da_nonceBin s)
 \<and> sec_securityPid (exec (VerifyAndResetNonce E ev sig) s) = sec_securityPid s"
  by (simp add: VerifyAndResetNonce_def VerifySignature_result VerifySignature_exec ResetNonce_def)

section \<open>What changes who may read the key\<close>

lemmas auth_simps = auth_frames [THEN unchangedD, unfolded auth_view_def prod.inject]
  session_updates(3,7,11) [THEN unchangedD, unfolded auth_view_def prod.inject]
  monitor_operations(2,6,10,14) [THEN unchangedD, unfolded auth_view_def prod.inject]
  monitor_compounds(2,6,10,14) [THEN unchangedD, unfolded auth_view_def prod.inject]
  monitor_resets(2,6,10,14) [THEN unchangedD, unfolded auth_view_def prod.inject]
  phase_operations(2,6) [THEN unchangedD, unfolded auth_view_def prod.inject]
  event_operations(3,7) [THEN unchangedD, unfolded auth_view_def prod.inject]
  note_drag_frames(3) [THEN unchangedD, unfolded auth_view_def prod.inject]

lemma end_drag_auth: "auth_view (exec (end_drag E) s) = (- 1, da_nonceBin s)"
  by (simp add: end_drag_def auth_view_def auth_simps ResetSecurityPid_def)

lemma StopDrag_auth:
  "auth_view (exec (StopDrag E x name pid sc callee) s)
     = (if dg_dragState s = DRAG_STOP then auth_view s else (- 1, da_nonceBin s))"
  by (simp add: StopDrag_def Let_def end_drag_auth auth_simps) (simp add: auth_view_def)

lemma DeliverNonce_sec: "sec_securityPid (exec (DeliverNonceToInput E) s) = sec_securityPid s"
  by (simp add: DeliverNonceToInput_def GenerateNonce_def ResetNonce_def split: option.split)

lemma StartDrag_sec:
  "sec_securityPid (exec (StartDrag E d pid peer lp caller) s) = sec_securityPid s"
  by (simp add: StartDrag_def auth_simps DeliverNonce_sec)

lemma AddPrivilege_auth:
  "auth_view (exec (AddPrivilege E tid pid sig ev) s)
     = (if is_running (dg_dragState s) \<and> genuine E s ev sig then (pid, []) else auth_view s)"
  by (simp add: AddPrivilege_def auth_view_def auth_simps VerifyAndResetNonce_def VerifySignature_result
    VerifySignature_exec ResetNonce_def StoreSecurityPid_def)

text \<open>
  An event may end a grant, keep it while the drag runs, or make one.
\<close>

definition accepts :: "senv \<Rightarrow> 's drag_manager_scheme \<Rightarrow> drag_event \<Rightarrow> i32 \<Rightarrow> bool" where
  "accepts E s e pid \<longleftrightarrow> is_running (dg_dragState s)
     \<and> (\<exists>c sig ev. e = Request (ReqPrivilege c sig ev) \<and> cc_pid c = pid \<and> genuine E s ev sig)"

lemma step_running:
  "drag_step e st st' \<Longrightarrow> \<not> stops_drag e \<Longrightarrow> \<not> sets_state e \<Longrightarrow> is_running st \<Longrightarrow> is_running st'"
  by (erule drag_step.cases) (auto simp: is_running_def)

lemma sv_StartDrag_sec: "sec_securityPid (exec (sv_StartDrag E c d) s) = sec_securityPid s"
  by (simp add: sv_StartDrag_def FindSessionByPid_def StartDrag_sec auth_simps split: option.split)
    (simp add: SetProgramName_def auth_simps)

lemma stop_auth:
  assumes "stops_drag e"
  shows "auth_view (exec (handle E e) s) = auth_view s \<and> dg_dragState (exec (handle E e) s) = dg_dragState s
    \<or> sec_securityPid (exec (handle E e) s) = - 1"
proof -
  have stop: "auth_view (exec (StopDrag E x name pid sc callee) t) = auth_view t
      \<and> dg_dragState (exec (StopDrag E x name pid sc callee) t) = dg_dragState t
    \<or> sec_securityPid (exec (StopDrag E x name pid sc callee) t) = - 1" for x name pid sc callee t
    using StopDrag_auth [of E x name pid sc callee t] StopDrag_phase [of E x name pid sc callee t]
    by (auto simp: auth_view_def phase_view_def split: if_splits)
  consider (request) c x where "e = Request (ReqStopDrag c x)"
    | (component) x name pid sc callee where "e = Component (CallStopDrag x name pid sc callee)"
    | (timer) i where "e = TimerFires i"
    using assms by (auto simp: stops_drag_iff)
  then show ?thesis
  proof cases
    case request
    then show ?thesis
      using stop [of x "result_of (sv_GetPackageName E (cc_tokenId c)) s" "cc_pid c" False "[]"
          "exec (sv_GetPackageName E (cc_tokenId c)) s"]
      by (simp add: handle_def serve_request_def sv_StopDrag_def auth_simps server_phase auth_view_def)
  next
    case component
    then show ?thesis
      using stop by (simp add: handle_def call_def)
  next
    case timer
    then show ?thesis
      using stop [of "drop_result DRAG_EXCEPTION" "[]" "- 1" False "[]"
          "s\<lparr>dq_timers := filter (\<lambda>t. fst t \<noteq> i) (dq_timers s)\<rparr>"]
      by (simp add: handle_def FireTimer_def run_timer_def auth_view_def auth_simps phase_simps
        split: option.split drag_timer_call.split)
  qed
qed

lemma quiet_auth:
  assumes "\<not> starts_drag e" "\<not> stops_drag e" "\<not> signs e"
  shows "unchanged auth_view (handle E e)"
  using assms by (cases e; simp add: handle_def serve_auth call_auth; (intro frame)?)

lemma handle_auth:
  fixes s :: "'s drag_manager_scheme"
  assumes "\<not> sets_state e"
  shows "sec_securityPid (exec (handle E e) s) = - 1
    \<or> sec_securityPid (exec (handle E e) s) = sec_securityPid s
      \<and> (is_running (dg_dragState s) \<longrightarrow> is_running (dg_dragState (exec (handle E e) s)))
    \<or> accepts E s e (sec_securityPid (exec (handle E e) s)) \<and> is_running (dg_dragState (exec (handle E e) s))"
proof (cases "stops_drag e")
  case True
  then show ?thesis
    using stop_auth [OF True, of E s] by (auto simp: auth_view_def)
next
  case False
  then have run: "is_running (dg_dragState s) \<longrightarrow> is_running (dg_dragState (exec (handle E e) s))"
    using step_running [OF handle_step False assms] by blast
  show ?thesis
  proof (cases "signs e")
    case True
    then obtain c sig ev where e: "e = Request (ReqPrivilege c sig ev)"
      by (auto simp: signs_iff)
    then have "exec (handle E e) s = exec (AddPrivilege E (cc_tokenId c) (cc_pid c) sig ev) s"
      by (simp add: handle_def serve_request_def sv_AddPrivilege_def)
    then show ?thesis
      using run e AddPrivilege_auth [of E "cc_tokenId c" "cc_pid c" sig ev s]
      by (auto simp: auth_view_def accepts_def split: if_splits)
  next
    case unsigned: False
    have "sec_securityPid (exec (handle E e) s) = sec_securityPid s"
    proof (cases "starts_drag e")
      case True
      then show ?thesis
        by (auto simp: starts_drag_iff handle_def serve_request_def call_def StartDrag_sec sv_StartDrag_sec)
    next
      case False
      then show ?thesis
        using unchangedD [OF quiet_auth [OF False \<open>\<not> stops_drag e\<close> unsigned], of E s] by (simp add: auth_view_def)
    qed
    then show ?thesis
      using run by blast
  qed
qed

section \<open>Who reads the key\<close>

text \<open>
  The grant a process holds after a run: it was made by its own signature and the drag has run
  ever since.
\<close>

definition granted :: "senv \<Rightarrow> drag_event list \<Rightarrow> i32 \<Rightarrow> bool" where
  "granted E es pid \<longleftrightarrow> (\<exists>es1 c sig ev es2. es = es1 @ Request (ReqPrivilege c sig ev) # es2 \<and> cc_pid c = pid
     \<and> genuine E (run E es1 new_drag_manager) ev sig
     \<and> list_all (\<lambda>n. is_running (dg_dragState (run E (take n es) new_drag_manager))) [length es1..<Suc (length es)])"

lemma take_snoc_upt:
  "list_all (\<lambda>n. P (take n (es @ [e]))) [a..<Suc (length es)] = list_all (\<lambda>n. P (take n es)) [a..<Suc (length es)]"
  by (auto simp: list_all_iff simp del: upt_Suc)

lemma granted_snoc:
  assumes "granted E es pid" "is_running (dg_dragState (run E (es @ [e]) new_drag_manager))"
  shows "granted E (es @ [e]) pid"
proof -
  obtain es1 c sig ev es2 where g: "es = es1 @ Request (ReqPrivilege c sig ev) # es2" "cc_pid c = pid"
      "genuine E (run E es1 new_drag_manager) ev sig"
      "list_all (\<lambda>n. is_running (dg_dragState (run E (take n es) new_drag_manager))) [length es1..<Suc (length es)]"
    using assms(1) unfolding granted_def by blast
  have "list_all (\<lambda>n. is_running (dg_dragState (run E (take n (es @ [e])) new_drag_manager)))
      [length es1..<Suc (length (es @ [e]))]"
    using g(1,4) assms(2)
      take_snoc_upt [of "\<lambda>t. is_running (dg_dragState (run E t new_drag_manager))" es e "length es1"]
    by simp
  moreover have "es @ [e] = es1 @ Request (ReqPrivilege c sig ev) # (es2 @ [e])"
    using g(1) by simp
  ultimately show ?thesis
    unfolding granted_def using g(2,3) by blast
qed

lemma granted_now:
  assumes "accepts E (run E es new_drag_manager) e pid"
    "is_running (dg_dragState (run E (es @ [e]) new_drag_manager))"
  shows "granted E (es @ [e]) pid"
proof -
  obtain c sig ev where e: "e = Request (ReqPrivilege c sig ev)" "cc_pid c = pid"
      "genuine E (run E es new_drag_manager) ev sig" "is_running (dg_dragState (run E es new_drag_manager))"
    using assms(1) by (auto simp: accepts_def)
  have "list_all (\<lambda>n. is_running (dg_dragState (run E (take n (es @ [e])) new_drag_manager)))
      [length es..<Suc (length (es @ [e]))]"
    using assms(2) e(4) by simp
  then show ?thesis
    unfolding granted_def using e(1-3) by (intro exI [of _ es] exI [of _ c] exI [of _ sig] exI [of _ ev] exI [of _ "[]"]) simp
qed

lemma grants:
  assumes "list_all (\<lambda>e. \<not> sets_state e) es" "sec_securityPid (run E es new_drag_manager) \<noteq> - 1"
  shows "granted E es (sec_securityPid (run E es new_drag_manager))"
  using assms
proof (induction es rule: rev_induct)
  case (snoc e es)
  let ?s = "run E es new_drag_manager" and ?t = "run E (es @ [e]) new_drag_manager"
  have t: "?t = exec (handle E e) ?s"
    by simp
  have "\<not> sets_state e"
    using snoc.prems by simp
  then consider (kept) "sec_securityPid ?t = sec_securityPid ?s" "is_running (dg_dragState ?s) \<longrightarrow> is_running (dg_dragState ?t)"
    | (made) "accepts E ?s e (sec_securityPid ?t)" "is_running (dg_dragState ?t)"
    using handle_auth [of e E ?s] snoc.prems(2) unfolding t by blast
  then show ?case
  proof cases
    case kept
    then have "granted E es (sec_securityPid ?t)"
      using snoc.IH snoc.prems by simp
    moreover from this have "is_running (dg_dragState ?s)"
      by (auto simp: granted_def list_all_iff)
    ultimately show ?thesis
      using granted_snoc kept(2) by blast
  next
    case made
    then show ?thesis
      by (rule granted_now)
  qed
qed (simp add: new_drag_manager_def)

lemma GetUdKey_sec: "result_of (GetUdKey pid False) s = Inr key \<Longrightarrow> sec_securityPid s = pid"
  by (auto simp: GetUdKey_def VerifySecurityPid_def split: if_splits)

text \<open>The two calls of the server whose answer contains the key of the data.\<close>

definition reads_key :: "senv \<Rightarrow> CallingContext \<Rightarrow> string \<Rightarrow> 's drag_manager_scheme \<Rightarrow> bool" where
  "reads_key E c key s \<longleftrightarrow> result_of (sv_GetUdKey E c) s = Inr key
     \<or> (case result_of (sv_GetDragData E c) s of Inl r \<Rightarrow> False | Inr d \<Rightarrow> dd_udKey d = key)"

lemma reads_key_GetUdKey:
  assumes "\<not> result_of (IsSystemHAPCalling E c) s" "reads_key E c key s"
  shows "sec_securityPid s = cc_pid c"
proof -
  have plain: "\<not> result_of (IsSystemServiceCalling E c) s"
    using assms(1) by (auto simp: IsSystemHAPCalling_def)
  have "result_of (sv_GetDragData E c) s = Inl COMMON_NOT_SYSTEM_APP"
    using assms(1) by (simp add: sv_GetDragData_def system_query_def)
  then have "result_of (GetUdKey (cc_pid c) False) (exec (IsSystemServiceCalling E c) s) = Inr key"
    using assms(2) plain by (simp add: reads_key_def sv_GetUdKey_def)
  then have "sec_securityPid (exec (IsSystemServiceCalling E c) s) = cc_pid c"
    by (rule GetUdKey_sec)
  then show ?thesis
    by (simp add: IsSystemServiceCalling_def)
qed

text \<open>
  C9. No application reads the key of the dragged data without a signature, neither by asking for the
  key nor with the data of the drag. Along every run in which no plugin sets the state, a caller
  that is neither a system service nor a system application (nor has the process id -1) and gets the key by one of these calls
  had itself sent a genuine signature under the nonce that was out at the time, and the drag has
  run without interruption from then on: a grant does not outlive its drag. System applications are
  handed the data with the key unasked, which the property excludes.
\<close>

theorem key_needs_signature:
  assumes "list_all (\<lambda>e. \<not> sets_state e) es" "cc_pid caller \<noteq> - 1"
    and "\<not> result_of (IsSystemHAPCalling E caller) (run E es new_drag_manager)"
    and "reads_key E caller key (run E es new_drag_manager)"
  shows "\<exists>es1 c sig ev es2. es = es1 @ Request (ReqPrivilege c sig ev) # es2 \<and> cc_pid c = cc_pid caller
     \<and> genuine E (run E es1 new_drag_manager) ev sig
     \<and> list_all (\<lambda>n. is_running (dg_dragState (run E (take n es) new_drag_manager))) [length es1..<Suc (length es)]"
proof -
  have "sec_securityPid (run E es new_drag_manager) = cc_pid caller"
    using assms(3,4) by (rule reads_key_GetUdKey)
  then have "granted E es (cc_pid caller)"
    using grants [OF assms(1), of E] assms(2) by simp
  then show ?thesis
    unfolding granted_def .
qed

lemma app_reads_key:
  "reads_key app_env drop_target ''key'' (run app_env [picture_drag, drop_signature] new_drag_manager)"
  unfolding reads_key_def by (rule disjI1) code_simp

theorem key_needs_signature_witness:
  "\<exists>es1 c sig ev es2. [picture_drag, drop_signature] = es1 @ Request (ReqPrivilege c sig ev) # es2 \<and> cc_pid c = 9
     \<and> genuine app_env (run app_env es1 new_drag_manager) ev sig
     \<and> list_all (\<lambda>n. is_running (dg_dragState (run app_env (take n [picture_drag, drop_signature]) new_drag_manager)))
         [length es1..<Suc (length [picture_drag, drop_signature])]"
  using key_needs_signature [OF _ _ _ app_reads_key]
  by (simp add: picture_drag_def drop_signature_def drop_target_def IsSystemHAPCalling_def IsSystemServiceCalling_def
    app_env_def calm_env_def)

section \<open>A signature works once\<close>

lemma nonce_spent:
  assumes "\<not> starts_drag e"
  shows "keeps_inv (\<lambda>s. da_nonceBin s = []) (handle E e)"
proof (rule keeps_invI)
  fix s :: "'s drag_manager_scheme"
  assume none: "da_nonceBin s = []"
  consider (stops) "stops_drag e" | (signs) "signs e" | (quiet) "\<not> stops_drag e" "\<not> signs e"
    by blast
  then show "da_nonceBin (exec (handle E e) s) = []"
  proof cases
    case stops
    have stop: "da_nonceBin t = [] \<Longrightarrow> da_nonceBin (exec (StopDrag E x name pid sc callee) t) = []"
      for x name pid sc callee and t :: "'s drag_manager_scheme"
      using StopDrag_auth [of E x name pid sc callee t] by (auto simp: auth_view_def split: if_splits)
    show ?thesis
      using stops none
      by (auto simp: stops_drag_iff handle_def serve_request_def call_def sv_StopDrag_def FireTimer_def run_timer_def
        auth_simps stop split: option.split drag_timer_call.split)
  next
    case signs
    have "da_nonceBin (exec (AddPrivilege E tid pid sig ev) s) = []" for tid pid sig ev
      using none AddPrivilege_auth [of E tid pid sig ev s] by (simp add: auth_view_def split: if_splits)
    with signs show ?thesis
      by (auto simp: signs_iff handle_def serve_request_def sv_AddPrivilege_def)
  next
    case quiet
    then show ?thesis
      using none unchangedD [OF quiet_auth [OF assms quiet], of E s] by (simp add: auth_view_def)
  qed
qed

lemma accepted_spends:
  assumes "accepts E s e pid"
  shows "da_nonceBin (exec (handle E e) s) = []"
proof -
  obtain c sig ev where e: "e = Request (ReqPrivilege c sig ev)" "is_running (dg_dragState s)" "genuine E s ev sig"
    using assms by (auto simp: accepts_def)
  then show ?thesis
    using AddPrivilege_auth [of E "cc_tokenId c" "cc_pid c" sig ev s]
    by (simp add: handle_def serve_request_def sv_AddPrivilege_def auth_view_def)
qed

text \<open>
  C10. A nonce opens the data once: between two accepted signatures, of whatever processes, there is
  a new start of a drag. A signature that leaks cannot be replayed.
\<close>

theorem nonce_used_once:
  assumes "accepts E s e pid" "accepts E (run E (e # es) s) e' pid'"
  shows "list_ex starts_drag es"
proof (rule ccontr)
  assume "\<not> list_ex starts_drag es"
  then have "da_nonceBin (run E es (exec (handle E e) s)) = []"
    using accepted_spends [OF assms(1)]
    by (intro run_keeps [where I = "\<lambda>s. da_nonceBin s = []"] nonce_spent) (auto simp: list_ex_iff)
  then show False
    using assms(2) by (auto simp: accepts_def genuine_def)
qed

lemma example_accepted:
  assumes "is_running (dg_dragState s)" "da_nonceBin s = replicate 32 CHR ''n''"
  shows "accepts calm_env s drop_signature 9"
  using assms by (simp add: accepts_def drop_signature_def genuine_def calm_env_def)

theorem nonce_used_once_witness: "list_ex starts_drag again"
proof (rule nonce_used_once)
  show "accepts calm_env (run calm_env [picture_drag] new_drag_manager) drop_signature 9"
    using picture_drag_runs by (intro example_accepted) (simp_all only: is_running_def simp_thms)
  show "accepts calm_env (run calm_env (drop_signature # again) (run calm_env [picture_drag] new_drag_manager))
      drop_signature 9"
    using second_drag_runs by (intro example_accepted) (simp_all only: is_running_def simp_thms)
qed

end
