(* ===== verification/Drag_Endings.thy ===== *)
theory Drag_Endings
  imports Drag_Keys
begin

text \<open>
  How a drag begins and ends: what a start needs and leaves behind, what a stop clears, the timer
  that ends a drag whose target does not answer, and the start that fails half-way.
\<close>

section \<open>Stopping\<close>

lemma HandleDragResult_ok [simp]: "result_of (HandleDragResult E result custom pid) s = RET_OK"
  by (simp add: HandleDragResult_def HandleDragSuccess_def)

lemma OnStopDrag_ok [simp]: "result_of (OnStopDrag E result custom pid sc) s = RET_OK"
  by (simp add: OnStopDrag_def)

lemma StopDrag_refused:
  "dg_dragState s = DRAG_STOP \<Longrightarrow> result_of (StopDrag E x name pid sc callee) s = RET_ERR"
  by (simp add: StopDrag_def Let_def)

lemma end_drag_fields:
  "dg_dragState (exec (end_drag E) s) = DRAG_STOP"
  "dm_dragData (exec (end_drag E) s) = new_DragData"
  "dm_dragStyle (exec (end_drag E) s) = STYLE_DEFAULT"
  "dm_targetPid (exec (end_drag E) s) = - 1"
  "sec_securityPid (exec (end_drag E) s) = - 1"
  "dg_dragOutSession (exec (end_drag E) s) = None"
  "dg_peerNetId (exec (end_drag E) s) = []"
  "dg_appCaller (exec (end_drag E) s) = []"
  by (simp_all add: end_drag_def SetDragState_def ResetDragData_def ResetSecurityPid_def draw_def
    SetControlCollaborationVisible_def)

lemma remove_monitors_pointer: "sint (mo_pointerEventMonitorId (exec remove_monitors s)) \<le> 0"
  by (simp add: remove_monitors_def RemovePointerEventHandler_def RemoveKeyEventMonitor_def)

lemmas monitor_simps = monitor_frames [THEN unchangedD, unfolded monitor_view_def prod.inject]
  event_operations(6) [THEN unchangedD, unfolded monitor_view_def prod.inject]
  end_drag_frames(1) [THEN unchangedD, unfolded monitor_view_def prod.inject]

lemma OnStopDrag_pointer: "sint (mo_pointerEventMonitorId (exec (OnStopDrag E result custom pid sc) s)) \<le> 0"
  by (simp add: OnStopDrag_def monitor_simps remove_monitors_pointer)

lemma StopDrag_pointer:
  assumes "dg_dragState s \<noteq> DRAG_STOP"
  shows "sint (mo_pointerEventMonitorId (exec (StopDrag E x name pid sc callee) s)) \<le> 0"
  using assms by (simp add: StopDrag_def Let_def monitor_simps OnStopDrag_pointer)

lemma must_fetch_reset: "dm_dragData s = new_DragData \<Longrightarrow> \<not> must_fetch s"
  by (simp add: must_fetch_def new_DragData_def NEED_FETCH_def)

text \<open>
  C21. A stop always succeeds while a drag is on, whoever asks and whatever the outcome, and leaves
  nothing of the drag: its data, style, target and source are gone, the pointer is no longer
  watched, the key is refused to everybody, system services included, and so are the data and a
  second stop. Only with no drag on is a stop refused.
\<close>

theorem stop_clears:
  "if dg_dragState s = DRAG_STOP then result_of (StopDrag E x name pid sc callee) s = RET_ERR
   else let t = exec (StopDrag E x name pid sc callee) s in
     result_of (StopDrag E x name pid sc callee) s = RET_OK
   \<and> dg_dragState t = DRAG_STOP \<and> dm_dragData t = new_DragData \<and> dm_dragStyle t = STYLE_DEFAULT
   \<and> dm_targetPid t = - 1 \<and> dg_dragOutSession t = None \<and> dg_appCaller t = []
   \<and> sint (mo_pointerEventMonitorId t) \<le> 0
   \<and> (\<forall>q system. result_of (GetUdKey q system) t = Inl RET_ERR)
   \<and> result_of GetDragData t = Inl RET_ERR
   \<and> (\<forall>y n p b c. result_of (StopDrag E y n p b c) t = RET_ERR)"
proof (cases "dg_dragState s = DRAG_STOP")
  case False
  have gone: "dm_dragData (exec (StopDrag E x name pid sc callee) s) = new_DragData"
    "dg_dragState (exec (StopDrag E x name pid sc callee) s) = DRAG_STOP"
    "dm_dragStyle (exec (StopDrag E x name pid sc callee) s) = STYLE_DEFAULT"
    "dm_targetPid (exec (StopDrag E x name pid sc callee) s) = - 1"
    "dg_dragOutSession (exec (StopDrag E x name pid sc callee) s) = None"
    "dg_appCaller (exec (StopDrag E x name pid sc callee) s) = []"
    "result_of (StopDrag E x name pid sc callee) s = RET_OK"
    using False by (simp_all add: StopDrag_def Let_def end_drag_fields)
  with gone False StopDrag_pointer [OF False] must_fetch_reset [OF gone(1)] show ?thesis
    by (simp add: GetUdKey_def GetDragData_def is_running_def StopDrag_refused VerifySecurityPid_def)
      (simp add: new_DragData_def)
qed (simp add: StopDrag_refused)

section \<open>Starting\<close>

definition prep_view :: "'s drag_manager_scheme \<Rightarrow> _" where
  "prep_view s = (dm_dragData s, dq_isRunning s, mo_pointerEventMonitorId s, mo_keyEventMonitorId s)"

lemma prep_leaves [frame]:
  "unchanged prep_view (tell c)" "unchanged prep_view (inquire q)" "unchanged prep_view (draw d)"
  "unchanged prep_view (draw_ret E d)" "unchanged prep_view dg_GenerateId"
  "unchanged prep_view (modify (\<lambda>s. s\<lparr>dg_isRTL := rtl s\<rparr>))"
  "unchanged prep_view (SetControlCollaborationVisible b)" "unchanged prep_view (DeliverNonceToInput E)"
  by (simp_all add: unchanged_def prep_view_def draw_def draw_ret_def dg_GenerateId_def
    SetControlCollaborationVisible_def DeliverNonceToInput_def GenerateNonce_def ResetNonce_def split: option.split)

lemma prep_parts [frame]:
  "unchanged prep_view (select_screen E disp)" "unchanged prep_view (UpdateDragStylePositon E)"
  "unchanged prep_view (first_drawing d)"
  unfolding select_screen_def UpdateDragStylePositon_def first_drawing_def Let_def by (intro frame)+

lemmas prep_simps = prep_leaves [THEN unchangedD, unfolded prep_view_def prod.inject]
  prep_parts [THEN unchangedD, unfolded prep_view_def prod.inject]

text \<open>
  What a start of the drag \<open>d\<close> needs of the service and of the input service and the renderer:
  nothing runs, the data are sound, the window can be made, and the input service takes the extra
  data and the two monitors, unless they are there already.
\<close>

definition ready :: "senv \<Rightarrow> DragData \<Rightarrow> 's drag_manager_scheme \<Rightarrow> bool" where
  "ready E d s \<longleftrightarrow> \<not> is_running (dg_dragState s) \<and> \<not> dq_isRunning s \<and> CheckDragData E d False = INIT_SUCCESS
   \<and> (\<forall>t. DrawInit_ret E t = INIT_SUCCESS) \<and> (\<forall>t. AppendExtraData_ret E t = RET_OK)
   \<and> (le32 (mo_pointerEventMonitorId s) 0 \<longrightarrow>
        le32 (mo_keyEventMonitorId s) 0 \<and> (\<forall>t. lt32 0 (NewMonitor E t)))"

definition nonce_works :: "senv \<Rightarrow> bool" where
  "nonce_works E \<longleftrightarrow> (\<forall>t. \<exists>b. RandBytes E t = Some b \<and> b \<noteq> [] \<and> EncodeBlock E b \<noteq> [])
     \<and> (\<forall>t n. DeliverNonce_ret E t n \<noteq> RET_ERR)"

lemma AddDragEventHandler_ok:
  assumes "sint (mo_keyEventMonitorId s) \<le> 0" "sint (mo_pointerEventMonitorId s) \<le> 0" "\<forall>t. 0 < sint (NewMonitor E t)"
  shows "result_of (AddDragEventHandler E) s = RET_OK"
    "0 < sint (mo_pointerEventMonitorId (exec (AddDragEventHandler E) s))"
    "dq_isRunning (exec (AddDragEventHandler E) s) = dq_isRunning s"
  using assms by (simp_all add: AddDragEventHandler_def AddKeyEventMonitor_def AddPointerEventHandler_def not_le [symmetric])

lemma AddDragEvent_ok:
  assumes "\<forall>t. AppendExtraData_ret E t = RET_OK" "dq_isRunning s"
    "sint (mo_pointerEventMonitorId s) \<le> 0 \<longrightarrow> sint (mo_keyEventMonitorId s) \<le> 0 \<and> (\<forall>t. 0 < sint (NewMonitor E t))"
  shows "result_of (AddDragEvent E) s = RET_OK" "dq_isRunning (exec (AddDragEvent E) s)"
    "0 < sint (mo_pointerEventMonitorId (exec (AddDragEvent E) s))"
  using assms
  by (cases "sint (mo_pointerEventMonitorId s) \<le> 0";
      simp add: AddDragEvent_def AppendExtraData_def CreateExtraData_def AddDragEventHandler_ok)+

lemma OnStartDrag_ok:
  assumes "CheckDragData E (dm_dragData s) False = INIT_SUCCESS" "\<not> dq_isRunning s"
    "\<forall>t. DrawInit_ret E t = INIT_SUCCESS" "\<forall>t. AppendExtraData_ret E t = RET_OK"
    "sint (mo_pointerEventMonitorId s) \<le> 0 \<longrightarrow> sint (mo_keyEventMonitorId s) \<le> 0 \<and> (\<forall>t. 0 < sint (NewMonitor E t))"
  shows "result_of (OnStartDrag E) s = RET_OK" "dq_isRunning (exec (OnStartDrag E) s)"
    "0 < sint (mo_pointerEventMonitorId (exec (OnStartDrag E) s))"
  using assms by (simp_all add: OnStartDrag_def drawing_Init_def prep_simps AddDragEvent_ok Let_def)

lemma note_drag_prep:
  "result_of (note_drag E d pid peer lp caller) s = RET_OK"
  "dq_isRunning (exec (note_drag E d pid peer lp caller) s) = dq_isRunning s"
  "mo_pointerEventMonitorId (exec (note_drag E d pid peer lp caller) s) = mo_pointerEventMonitorId s"
  "mo_keyEventMonitorId (exec (note_drag E d pid peer lp caller) s) = mo_keyEventMonitorId s"
  "CheckDragData E (dm_dragData (exec (note_drag E d pid peer lp caller) s)) b = CheckDragData E d b"
  by (simp_all add: note_drag_def SetCrossDragging_def dg_GetPackageName_def InitDataManager_def dm_Init_def Let_def
    AddSessionDeletedCallback_def FindSessionByPid_def GetProgramName_def CheckDragData_def split: option.split)

lemma ready_started:
  assumes "ready E d s"
    and t_def: "t = exec (note_drag E d pid peer lp caller) (exec (ResetMouseDragMonitorTimerId E d) s)"
  shows "result_of (OnStartDrag E) t = RET_OK" "dq_isRunning (exec (OnStartDrag E) t)"
    "0 < sint (mo_pointerEventMonitorId (exec (OnStartDrag E) t))"
proof -
  have "CheckDragData E (dm_dragData t) False = INIT_SUCCESS"
    using assms(1) by (simp add: ready_def t_def note_drag_prep)
  moreover have "dq_isRunning t = dq_isRunning s" "mo_pointerEventMonitorId t = mo_pointerEventMonitorId s"
    "mo_keyEventMonitorId t = mo_keyEventMonitorId s"
    by (simp_all add: t_def note_drag_prep ResetMouseDragMonitorTimerId_def dq_RemoveTimer_def)
  ultimately show "result_of (OnStartDrag E) t = RET_OK" "dq_isRunning (exec (OnStartDrag E) t)"
    "0 < sint (mo_pointerEventMonitorId (exec (OnStartDrag E) t))"
    using assms(1) OnStartDrag_ok [of E t] by (simp_all add: ready_def)
qed

lemma prep_notify [frame]:
  "unchanged prep_view (SendMsg E fd pkt)" "unchanged prep_view (OnDragInfoNotify E fd mid v)"
  "unchanged prep_view (sn_StyleChangedNotify E style)" "unchanged prep_view (sn_StateChangedNotify E st)"
  unfolding OnDragInfoNotify_def sn_StyleChangedNotify_def sn_StateChangedNotify_def
  by (intro SendMsg_frame frame)+

lemma prep_state [frame]:
  "unchanged prep_view (modify (\<lambda>s. s\<lparr>dg_dragState := x s\<rparr>))"
  "unchanged prep_view (modify (\<lambda>s. s\<lparr>dg_animationType := y s\<rparr>))"
  by (simp_all add: unchanged_def prep_view_def)

lemma prep_started [frame]:
  "unchanged prep_view (UpdateDragStyleCross E)" "unchanged prep_view (SetDragState E st)"
  "unchanged prep_view (dg_StateChangedNotify st)"
  unfolding UpdateDragStyleCross_def OnUpdateDragStyle_def SetDragState_def dg_StateChangedNotify_def Let_def
  by (intro frame)+

lemmas started_simps = prep_simps prep_notify [THEN unchangedD, unfolded prep_view_def prod.inject]
  prep_started [THEN unchangedD, unfolded prep_view_def prod.inject]

lemma DeliverNonce_ok:
  assumes "nonce_works E"
  shows "result_of (DeliverNonceToInput E) s = RET_OK" "da_nonceBin (exec (DeliverNonceToInput E) s) \<noteq> []"
proof -
  obtain b where b: "RandBytes E (sv_clock s) = Some b" "b \<noteq> []" "EncodeBlock E b \<noteq> []"
    "\<forall>t n. DeliverNonce_ret E t n \<noteq> RET_ERR"
    using assms unfolding nonce_works_def by blast
  then show "result_of (DeliverNonceToInput E) s = RET_OK" "da_nonceBin (exec (DeliverNonceToInput E) s) \<noteq> []"
    by (simp_all add: DeliverNonceToInput_def GenerateNonce_def Base64Encode_def)
qed

lemma not_running_iff: "\<not> is_running st \<longleftrightarrow> st \<noteq> DRAG_START \<and> st \<noteq> MOTION_DRAGGING"
  by (simp add: is_running_def)

text \<open>The state in which a start delivers its nonce.\<close>

lemma StartDrag_split:
  assumes "ready E d s"
  obtains u where "dq_isRunning u" "0 < sint (mo_pointerEventMonitorId u)" "dg_dragState u = dg_dragState s"
    "result_of (StartDrag E d pid peer lp caller) s =
       (if result_of (DeliverNonceToInput E) u = RET_ERR then RET_ERR else RET_OK)"
    "exec (StartDrag E d pid peer lp caller) s =
       (if result_of (DeliverNonceToInput E) u = RET_ERR then exec (DeliverNonceToInput E) u
        else exec (do {
            modify (\<lambda>s. s\<lparr>dg_animationType := dd_dragAnimationType d\<rparr>);
            SetDragState E DRAG_START;
            draw DrawStartExt;
            sn_StateChangedNotify E DRAG_START;
            dg_StateChangedNotify DRAG_START }) (exec (DeliverNonceToInput E) u))"
proof -
  define t where "t = exec (note_drag E d pid peer lp caller) (exec (ResetMouseDragMonitorTimerId E d) s)"
  define v where "v = exec (OnStartDrag E) t"
  define u where "u = exec (only_if (dg_pullUpCallback v) (tell (PullUpCallback False))) v"
  note started = ready_started [OF assms t_def]
  have quiet: "dg_dragState (exec (ResetMouseDragMonitorTimerId E d) s) = dg_dragState s"
    "dq_isRunning (exec (ResetMouseDragMonitorTimerId E d) s) = dq_isRunning s"
    by (simp_all add: ResetMouseDragMonitorTimerId_def dq_RemoveTimer_def)
  have idle: "dg_dragState s \<noteq> DRAG_START" "dg_dragState s \<noteq> MOTION_DRAGGING" "\<not> dq_isRunning s"
    using assms by (simp_all add: ready_def is_running_def)
  show thesis
  proof (rule that [of u])
    show "dq_isRunning u" "0 < sint (mo_pointerEventMonitorId u)"
      using started by (simp_all add: u_def v_def)
    show "dg_dragState u = dg_dragState s"
      by (simp add: u_def v_def t_def phase_simps)
  qed (simp_all add: StartDrag_def quiet idle IsDrawing_def note_drag_prep u_def v_def started
      t_def [symmetric])
qed

text \<open>
  C22. A start succeeds when it can: with no drag on, a renderer that is not still running (as it is
  after a start whose nonce was not taken), the two monitors both to be added or the pointer's there
  already, sound data, and an input service and a renderer that answer, the drag is on afterwards,
  its pointer is watched, its nonce is out, and a second start is refused.
\<close>

theorem start_succeeds:
  assumes "ready E d s" "nonce_works E"
  shows "let t = exec (StartDrag E d pid peer lp caller) s in
     result_of (StartDrag E d pid peer lp caller) s = RET_OK
   \<and> dg_dragState t = DRAG_START \<and> dq_isRunning t \<and> 0 < sint (mo_pointerEventMonitorId t)
   \<and> da_nonceBin t \<noteq> [] \<and> result_of (StartDrag E d' pid' peer' lp' caller') t = RET_ERR"
proof -
  obtain u where u: "dq_isRunning u" "0 < sint (mo_pointerEventMonitorId u)" "dg_dragState u = dg_dragState s"
    "result_of (StartDrag E d pid peer lp caller) s =
       (if result_of (DeliverNonceToInput E) u = RET_ERR then RET_ERR else RET_OK)"
    "exec (StartDrag E d pid peer lp caller) s =
       (if result_of (DeliverNonceToInput E) u = RET_ERR then exec (DeliverNonceToInput E) u
        else exec (do {
            modify (\<lambda>s. s\<lparr>dg_animationType := dd_dragAnimationType d\<rparr>);
            SetDragState E DRAG_START;
            draw DrawStartExt;
            sn_StateChangedNotify E DRAG_START;
            dg_StateChangedNotify DRAG_START }) (exec (DeliverNonceToInput E) u))"
    by (rule StartDrag_split [OF assms(1)])
  let ?t = "exec (StartDrag E d pid peer lp caller) s"
  have ok: "result_of (StartDrag E d pid peer lp caller) s = RET_OK"
    using u(4) DeliverNonce_ok(1) [OF assms(2), of u] by simp
  have fields: "dq_isRunning ?t" "0 < sint (mo_pointerEventMonitorId ?t)"
    using u(1,2,5) DeliverNonce_ok(1) [OF assms(2), of u] by (simp_all add: started_simps)
  have nonce: "da_nonceBin ?t \<noteq> []"
    using u(5) DeliverNonce_ok [OF assms(2), of u] by (simp add: auth_simps)
  have "dg_dragState ?t = DRAG_START"
    using StartDrag_phase [of E d pid peer lp caller s] ok by (simp add: phase_view_def)
  then show ?thesis
    using ok fields nonce StartDrag_refused [of ?t] by simp
qed

lemma example_ready: "ready calm_env picture new_drag_manager"
  by (simp add: ready_def calm_env_def picture_def new_drag_manager_def new_DragData_def is_running_def CheckDragData_def)

theorem start_succeeds_witness:
  "let t = exec (StartDrag calm_env picture 7 [] False []) new_drag_manager in
     result_of (StartDrag calm_env picture 7 [] False []) new_drag_manager = RET_OK
   \<and> dg_dragState t = DRAG_START \<and> dq_isRunning t \<and> 0 < sint (mo_pointerEventMonitorId t)
   \<and> da_nonceBin t \<noteq> [] \<and> result_of (StartDrag calm_env picture 8 [] False []) t = RET_ERR"
  by (rule start_succeeds [OF example_ready]) (simp add: nonce_works_def calm_env_def)

section \<open>A start that fails half-way\<close>

text \<open>The state says that no drag is on, the renderer that one is.\<close>

definition stranded :: "'s drag_manager_scheme \<Rightarrow> bool" where
  "stranded s \<longleftrightarrow> dg_dragState s = DRAG_STOP \<and> dq_isRunning s"

lemma stranded_StartDrag:
  assumes "stranded s"
  shows "result_of (StartDrag E d pid peer lp caller) s = RET_ERR"
    "stranded (exec (StartDrag E d pid peer lp caller) s)"
  using assms by (simp_all add: stranded_def StartDrag_def ResetMouseDragMonitorTimerId_def dq_RemoveTimer_def IsDrawing_def)

lemma stranded_StopDrag: "stranded s \<Longrightarrow> stranded (exec (StopDrag E x name pid sc callee) s)"
  by (simp add: stranded_def StopDrag_def Let_def)

lemma stranded_view: "unchanged prep_view m \<Longrightarrow> unchanged phase_view m \<Longrightarrow> keeps_inv stranded m"
  by (simp add: unchanged_def keeps_inv_def prep_view_def phase_view_def stranded_def)

lemma sv_GetPackageName_prep [frame]: "unchanged prep_view (sv_GetPackageName E tid)"
  unfolding sv_GetPackageName_def by (intro frame) (auto split: token_kind.splits intro!: frame)

lemma stranded_monitor: "stranded s \<Longrightarrow> stranded (exec ResetMouseDragMonitorInfo s)"
  by (simp add: stranded_def ResetMouseDragMonitorInfo_def RemoveDragEventHandler_def RemoveKeyEventMonitor_def
    RemovePointerEventHandler_def forget_mouse_location_def SetEventId_def dq_RemoveTimer_def)

lemma SubscribeAbilities_prep [frame]: "unchanged prep_view (SubscribeAbilities E)"
  unfolding SubscribeAbilities_def by (intro frame)

lemma stranded_timer: "stranded s \<Longrightarrow> stranded (exec (run_timer E c) s)"
  by (cases c) (simp_all add: run_timer_def stranded_StopDrag stranded_monitor
    keeps_invD [OF stranded_view [OF SubscribeAbilities_prep]] frame)

lemma stranded_kept:
  assumes "starts_drag e \<or> stops_drag e"
  shows "keeps_inv stranded (handle E e)"
proof (rule keeps_invI)
  fix s :: "'s drag_manager_scheme"
  assume stuck: "stranded s"
  have named: "stranded (exec (sv_GetPackageName E tid) s)" for tid
    using stuck by (intro keeps_invD [OF stranded_view] frame)
  consider (start) c d where "e = Request (ReqStartDrag c d)"
    | (start_call) d pid peer lp caller where "e = Component (CallStartDrag d pid peer lp caller)"
    | (stop) c x where "e = Request (ReqStopDrag c x)"
    | (stop_call) x name pid sc callee where "e = Component (CallStopDrag x name pid sc callee)"
    | (timer) i where "e = TimerFires i"
    using assms by (auto simp: starts_drag_iff stops_drag_iff)
  then show "stranded (exec (handle E e) s)"
  proof cases
    case start
    have "stranded (exec (SetProgramName fd name) (exec (sv_GetPackageName E tid) s))" for fd name tid
      using named [of tid] by (simp add: stranded_def SetProgramName_def)
    then show ?thesis
      using start stuck
      by (simp add: handle_def serve_request_def sv_StartDrag_def FindSessionByPid_def stranded_StartDrag
        split: option.split)
  next
    case timer
    have "stranded (s\<lparr>dq_timers := ts\<rparr>)" for ts
      using stuck by (simp add: stranded_def)
    then show ?thesis
      using timer stuck by (simp add: handle_def FireTimer_def stranded_timer split: option.split)
  qed (use stuck named in \<open>simp_all add: handle_def serve_request_def call_def sv_StopDrag_def
      stranded_StartDrag stranded_StopDrag\<close>)
qed

text \<open>
  C36. A start that could succeed but for the nonce, which the input service does not take, fails, but leaves
  the renderer running and the pointer watched while the state says that no drag is on. From then on every start is
  refused, because the renderer runs, and every stop, because no drag is on: whatever starts, stops
  and timers follow, the service stays stranded.
\<close>

theorem failed_nonce_strands:
  assumes "ready E d s" "dg_dragState s = DRAG_STOP" "\<forall>t n. DeliverNonce_ret E t n = RET_ERR"
    and "list_all (\<lambda>e. starts_drag e \<or> stops_drag e) es"
  shows "result_of (StartDrag E d pid peer lp caller) s = RET_ERR
    \<and> 0 < sint (mo_pointerEventMonitorId (exec (StartDrag E d pid peer lp caller) s))
    \<and> (let t = run E es (exec (StartDrag E d pid peer lp caller) s) in
         dg_dragState t = DRAG_STOP \<and> dq_isRunning t
       \<and> result_of (StartDrag E d' pid' peer' lp' caller') t = RET_ERR
       \<and> result_of (StopDrag E x name pid'' sc callee) t = RET_ERR)"
proof -
  obtain u where u: "dq_isRunning u" "0 < sint (mo_pointerEventMonitorId u)" "dg_dragState u = dg_dragState s"
    "result_of (StartDrag E d pid peer lp caller) s =
       (if result_of (DeliverNonceToInput E) u = RET_ERR then RET_ERR else RET_OK)"
    "exec (StartDrag E d pid peer lp caller) s =
       (if result_of (DeliverNonceToInput E) u = RET_ERR then exec (DeliverNonceToInput E) u
        else exec (do {
            modify (\<lambda>s. s\<lparr>dg_animationType := dd_dragAnimationType d\<rparr>);
            SetDragState E DRAG_START;
            draw DrawStartExt;
            sn_StateChangedNotify E DRAG_START;
            dg_StateChangedNotify DRAG_START }) (exec (DeliverNonceToInput E) u))"
    by (rule StartDrag_split [OF assms(1)])
  have "result_of (DeliverNonceToInput E) u = RET_ERR"
    using assms(3) by (simp add: DeliverNonceToInput_def)
  then have failed: "result_of (StartDrag E d pid peer lp caller) s = RET_ERR"
    "stranded (exec (StartDrag E d pid peer lp caller) s)"
    "0 < sint (mo_pointerEventMonitorId (exec (StartDrag E d pid peer lp caller) s))"
    using u assms(2) by (simp_all add: stranded_def prep_simps phase_simps)
  have "stranded (run E es (exec (StartDrag E d pid peer lp caller) s))"
    using assms(4) failed(2) by (intro run_keeps [where I = stranded] stranded_kept) (auto simp: list_all_iff)
  then show ?thesis
    using failed(1,3) by (simp add: Let_def stranded_StartDrag StopDrag_refused) (simp add: stranded_def StopDrag_refused)
qed

theorem failed_nonce_strands_witness:
  "0 < sint (mo_pointerEventMonitorId (exec (StartDrag (calm_env\<lparr>DeliverNonce_ret := (\<lambda>_ _. RET_ERR)\<rparr>) picture 7 [] False [])
     new_drag_manager))
   \<and> (let E = calm_env\<lparr>DeliverNonce_ret := (\<lambda>_ _. RET_ERR)\<rparr>;
       t = run E [picture_drag, drop_picture, TimerFires 5] (exec (StartDrag E picture 7 [] False []) new_drag_manager) in
     dg_dragState t = DRAG_STOP \<and> dq_isRunning t
   \<and> result_of (StartDrag E picture 7 [] False []) t = RET_ERR
   \<and> result_of (StopDrag E (drop_result DRAG_SUCCESS) [] 9 False []) t = RET_ERR)"
proof -
  let ?E = "calm_env\<lparr>DeliverNonce_ret := (\<lambda>_ _. RET_ERR)\<rparr>"
  have "ready ?E picture new_drag_manager"
    by (simp add: ready_def calm_env_def picture_def new_drag_manager_def new_DragData_def is_running_def CheckDragData_def)
  then show ?thesis
    using failed_nonce_strands [of ?E picture new_drag_manager "[picture_drag, drop_picture, TimerFires 5]"
        7 "[]" False "[]" picture 7 "[]" False "[]" "drop_result DRAG_SUCCESS" "[]" 9 False "[]"]
    by (simp add: picture_drag_def drop_picture_def new_drag_manager_def Let_def)
qed

section \<open>The timer of a released drag\<close>

definition timer_view :: "'s drag_manager_scheme \<Rightarrow> _" where
  "timer_view s = (dg_dragState s, dq_timers s)"

lemma timer_leaves [frame]:
  "unchanged timer_view (tell c)" "unchanged timer_view (inquire q)" "unchanged timer_view (draw d)"
  "unchanged timer_view (draw_ret E d)" "unchanged timer_view (dq_PostAsyncTask E t)"
  "unchanged timer_view (modify (\<lambda>s. s\<lparr>dg_lastDisplayId := a s\<rparr>))"
  "unchanged timer_view (modify (\<lambda>s. s\<lparr>dg_dragAction := b s\<rparr>))"
  "unchanged timer_view (modify (\<lambda>s. s\<lparr>dg_currentPointerEvent := p s\<rparr>))"
  "unchanged timer_view (modify (\<lambda>s. s\<lparr>mo_mouseDisplayId := x1 s, mo_mouseDisplayX := x2 s,
     mo_mouseDisplayY := x3 s, mo_existMouseMove := x4 s\<rparr>))"
  "unchanged timer_view forget_mouse_location" "unchanged timer_view close_window"
  "unchanged timer_view (modify (\<lambda>s. s\<lparr>sm_callbacks := c1 s\<rparr>))"
  "unchanged timer_view (modify (\<lambda>s. s\<lparr>sm_sessions := c2 s\<rparr>))"
  "unchanged timer_view (modify (\<lambda>s. s\<lparr>sn_state := c3 s\<rparr>))"
  "unchanged timer_view (modify (\<lambda>s. s\<lparr>sm_objects := c4 s\<rparr>))"
  by (simp_all add: unchanged_def timer_view_def draw_def draw_ret_def dq_PostAsyncTask_def forget_mouse_location_def
    close_window_def UpdateDrawingState_def)

lemma timer_blind [frame]: "blind timer_view"
  unfolding blind_def by (intro conjI allI impI frame)

lemma timer_pointer [frame]:
  "unchanged timer_view (monitor_OnInputEvent E e)"
  unfolding monitor_OnInputEvent_def DragCallback_def note_mouse_location_def OnDragMove_def
    DoLongPressDragZoomOutAnimation_def change_display_def DragUpCallback_def pull_in_window_def Let_def
  by (intro frame)

lemma timer_keys [frame]: "unchanged timer_view (DragKeyEventCallback E k)"
  unfolding DragKeyEventCallback_def SimulatePullCancelEvent_def CtrlKeyStyleChangedNotify_def
    HandleCtrlKeyEvent_def set_action_def
  by (intro frame)

lemma timer_system [frame]: "unchanged timer_view (OnReceiveEvent E i)" "unchanged timer_view ResetAnimationFlag"
  unfolding OnReceiveEvent_def ResetAnimationFlag_def by (intro frame)+

text \<open>What may happen while the target of a released drag does not answer.\<close>

fun bystander :: "drag_event \<Rightarrow> bool" where
  "bystander (Connect name tokenType uid pid) = True"
| "bystander (SocketEvents evs) = True"
| "bystander (ProcessDied pid) = True"
| "bystander CollaborationGone = True"
| "bystander (PointerMonitored p) = True"
| "bystander (KeyMonitored k) = True"
| "bystander (SystemEvent i) = True"
| "bystander AnimationEnds = True"
| "bystander WorkerTurn = True"
| "bystander _ = False"

lemma bystander_timers: "bystander e \<Longrightarrow> e \<noteq> WorkerTurn \<Longrightarrow> unchanged timer_view (handle E e)"
  by (cases e; simp add: handle_def; intro frame)

text \<open>A drag that waits for its timer. The tasks of the worker may add timers, but none removes one.\<close>

definition waits :: "i32 \<Rightarrow> 's drag_manager_scheme \<Rightarrow> bool" where
  "waits i s \<longleftrightarrow> dg_dragState s = DRAG_START \<and> map_of (dq_timers s) i = Some StopDragCall"

lemma waits_view: "unchanged timer_view m \<Longrightarrow> keeps_inv (waits i) m"
  by (simp add: unchanged_def keeps_inv_def timer_view_def waits_def)

lemma timer_rtl [frame]: "unchanged timer_view (modify (\<lambda>s. s\<lparr>dg_isRTL := rtl s\<rparr>))"
  "unchanged timer_view (modify (\<lambda>s. s\<lparr>dg_needLongPressAnimation := need s\<rparr>))"
  by (simp_all add: unchanged_def timer_view_def)

lemma timer_tasks [frame]:
  "unchanged timer_view (DealPullInWindowEvent e disp)" "unchanged timer_view (LongPressDragZoomOutAnimation x y)"
  "unchanged timer_view (sn_StyleChangedNotify E style)" "unchanged timer_view (CreateExtraData b1 b2)"
  "unchanged timer_view (AppendExtraData E x')" "unchanged timer_view (SetRotation E d' r)"
  "unchanged timer_view (UpdateDragStylePositon E)" "unchanged timer_view (SimulatePullCancelEvent E)"
  unfolding DealPullInWindowEvent_def LongPressDragZoomOutAnimation_def change_display_def sn_StyleChangedNotify_def
    OnDragInfoNotify_def CreateExtraData_def AppendExtraData_def SetRotation_def post_sync_def UpdateDragStylePositon_def
    SimulatePullCancelEvent_def Let_def
  by (intro SendMsg_frame frame)+

lemma OnDragUp_waits: "keeps_inv (waits i) (OnDragUp E e)"
  by (rule keeps_invI) (simp add: OnDragUp_def dq_AddTimer_def draw_def waits_def map_add_def)

lemma run_task_waits: "keeps_inv (waits i) (run_task E t)"
proof (cases t)
  case (TaskDragUp e)
  then show ?thesis
    by (simp add: run_task_def) (intro keeps_inv_bind keeps_inv_skip OnDragUp_waits)
qed (simp add: run_task_def; rule waits_view; intro frame)+

lemma bystander_waits:
  assumes "bystander e"
  shows "keeps_inv (waits i) (handle E e)"
proof (cases "e = WorkerTurn")
  case True
  have "waits i (exec (run_task E t) (s\<lparr>dq_tasks := ts\<rparr>))" if "waits i s" for t ts and s :: "'a drag_manager_scheme"
    using that by (intro keeps_invD [OF run_task_waits]) (simp add: waits_def)
  then show ?thesis
    using True by (auto simp: keeps_inv_def handle_def RunTask_def split: list.split)
next
  case False
  then show ?thesis
    using bystander_timers [OF assms] by (intro waits_view)
qed

text \<open>
  C12. A drag that is on (\<open>DRAG_START\<close>, not dragging by motion) and released ends even if its target never
  answers, if the timer service hands out a timer with an id of its own: the worker that handles
  the release sets a timer of three seconds, nothing that happens to the sessions, the pointer, the
  keys or the screen takes it away, nor does any task of the worker that follows from it, and when
  it fires the drag is stopped and its data are gone.
\<close>

theorem released_drag_ends:
  assumes "dg_dragState s = DRAG_START" "dq_tasks s = TaskDragUp e # rest"
    and "0 \<le> sint (NewTimer E (sv_clock s))"
    and "list_all (\<lambda>t. fst t \<noteq> NewTimer E (sv_clock s)) (dq_timers s)"
    and "list_all bystander es"
  shows "let i = NewTimer E (sv_clock s); t = run E (WorkerTurn # es @ [TimerFires i]) s in
     TimerSet i TIMEOUT_MS \<in> set (sv_log (run E [WorkerTurn] s))
   \<and> dg_dragState (run E (WorkerTurn # es) s) = DRAG_START
   \<and> dg_dragState t = DRAG_STOP \<and> dm_dragData t = new_DragData"
proof -
  define i where "i = NewTimer E (sv_clock s)"
  define u where "u = exec (handle E WorkerTurn) s"
  have u: "dg_dragState u = DRAG_START" "dq_timers u = dq_timers s @ [(i, StopDragCall)]"
      "TimerSet i TIMEOUT_MS \<in> set (sv_log u)"
    using assms(1-3) by (simp_all add: u_def i_def handle_def RunTask_def run_task_def OnDragUp_def dq_AddTimer_def draw_def)
  have "map_of (dq_timers s) i = None"
    using assms(4) by (auto simp: map_of_eq_None_iff list_all_iff i_def)
  then have pending: "map_of (dq_timers u) i = Some StopDragCall"
    by (simp add: u(2) map_add_def)
  have "waits i (run E es u)"
    using assms(5) u(1) pending
    by (intro run_keeps [where I = "waits i"] bystander_waits) (simp_all add: list_all_iff waits_def)
  then have waited: "dg_dragState (run E es u) = DRAG_START" "map_of (dq_timers (run E es u)) i = Some StopDragCall"
    by (simp_all add: waits_def)
  have "dg_dragState (exec (FireTimer E i) (run E es u)) = DRAG_STOP"
    "dm_dragData (exec (FireTimer E i) (run E es u)) = new_DragData"
    using waited by (simp_all add: FireTimer_def run_timer_def StopDrag_def Let_def end_drag_fields)
  moreover have "run E (WorkerTurn # es @ [TimerFires i]) s = exec (FireTimer E i) (run E es u)"
    by (simp add: u_def) (simp add: handle_def)
  ultimately show ?thesis
    using u(3) waited(1) by (simp add: Let_def i_def [symmetric] u_def)
qed

theorem released_drag_ends_witness:
  "let s = run calm_env [picture_drag, release] new_drag_manager; i = NewTimer calm_env (sv_clock s);
       t = run calm_env (WorkerTurn # [release, WorkerTurn] @ [TimerFires i]) s in
     TimerSet i TIMEOUT_MS \<in> set (sv_log (run calm_env [WorkerTurn] s))
   \<and> dg_dragState (run calm_env (WorkerTurn # [release, WorkerTurn]) s) = DRAG_START
   \<and> dg_dragState t = DRAG_STOP \<and> dm_dragData t = new_DragData"
  using released_drag_ends [OF release_is_posted(1,2), of calm_env "[release, WorkerTurn]"] release_is_posted(3)
  unfolding Let_def by (simp add: calm_env_def release_def del: run.simps)

end
