(* ===== verification/Drag_Listeners.thy ===== *)
theory Drag_Listeners
  imports Session_Properties Drag_Properties
begin

text \<open>
  The drag manager as a client of the table of sessions: those who listen to the state of drags
  are forgotten when their connection is lost, those who listen to its style are not.
\<close>

declare keeps_inv_modify [keeps del]

section \<open>The list of listeners\<close>

lemma erase_info_filter:
  "distinct (map p xs) \<Longrightarrow> erase_info (\<lambda>x. p x = k) xs = filter (\<lambda>x. p x \<noteq> k) xs"
proof (induction xs)
  case (Cons x xs)
  then have "filter (\<lambda>y. p y \<noteq> p x) xs = xs"
    by (auto simp: filter_id_conv) (metis image_eqI)
  with Cons show ?case
    by auto
qed simp

lemma same_client_eq: "same_client s fd = (\<lambda>x. pid_of s x = pid_of s fd)"
  by (simp add: fun_eq_iff same_client_def)

lemma put_info_set: "set (put_info same fd xs) \<subseteq> insert fd (set xs)"
  by (induction xs) auto

lemma put_info_keys:
  "p ` set (put_info (\<lambda>x. p x = p fd) fd xs) = insert (p fd) (p ` set xs)"
  by (induction xs) auto

lemma put_info_distinct:
  "distinct (map p xs) \<Longrightarrow> distinct (map p (put_info (\<lambda>x. p x = p fd) fd xs))"
proof (induction xs)
  case (Cons x xs)
  have "p ` set (put_info (\<lambda>x. p x = p fd) fd xs) = insert (p fd) (p ` set xs)"
    by (rule put_info_keys)
  with Cons show ?case
    by auto
qed simp

lemma find_pid_SomeD: "find_pid pid s = Some fd \<Longrightarrow> fd \<in> set (sm_sessions s) \<and> pid_of s fd = pid"
  by (auto simp: find_pid_def find_Some_iff)

lemma find_pid_present:
  assumes "fd \<in> set (sm_sessions s)"
  obtains fd' where "find_pid (pid_of s fd) s = Some fd'" "pid_of s fd' = pid_of s fd"
proof (cases "find_pid (pid_of s fd) s")
  case None
  then show ?thesis
    using assms by (auto simp: find_pid_def find_None_iff)
next
  case (Some fd')
  then show ?thesis
    using find_pid_SomeD [OF Some] that by blast
qed

section \<open>The drag manager keeps the contract\<close>

interpretation listeners: session_clients OnSessionLost sn_state
proof
  fix s :: "'s notify_scheme" and fd
  assume w: "watched sn_state s" and present: "fd \<in> set (sm_sessions s)"
  obtain fd' where "find_pid (pid_of s fd) s = Some fd'" "pid_of s fd' = pid_of s fd"
    using find_pid_present [OF present] .
  moreover have "distinct (map (pid_of s) (sn_state s))"
    using w by (simp add: watched_def)
  ultimately show "sn_state (exec (OnSessionLost fd) s) = filter (\<lambda>x. pid_of s x \<noteq> pid_of s fd) (sn_state s)"
    by (simp add: OnSessionLost_def RemoveListener_def FindSessionByPid_def RemoveStateMsg_def
      same_client_eq erase_info_filter)
next
  fix fd
  show "unchanged table_view (OnSessionLost fd :: ('s notify_scheme, unit) state)"
    by (simp add: unchanged_def table_view_def OnSessionLost_def RemoveListener_def FindSessionByPid_def
      RemoveStateMsg_def split: option.split)
qed simp_all

abbreviation listeners_watched :: "'s notify_scheme \<Rightarrow> bool" where
  "listeners_watched \<equiv> watched sn_state"

lemma AddListener_keeps [keeps]: "keeps_inv listeners_watched (AddListener pid)"
proof (rule keeps_invI)
  fix s :: "'s notify_scheme"
  assume w: "listeners_watched s"
  show "listeners_watched (exec (AddListener pid) s)"
  proof (cases "find_pid pid s")
    case (Some fd)
    have "distinct (map (pid_of s) (put_info (same_client s fd) fd (sn_state s)))"
      using w put_info_distinct [of "pid_of s" "sn_state s" fd] by (simp add: watched_def same_client_eq)
    with w find_pid_SomeD [OF Some] put_info_set [of "same_client s fd" fd "sn_state s"] show ?thesis
      by (auto simp: AddListener_def FindSessionByPid_def Some AddStateMsg_def AddSessionDeletedCallback_def
        watched_def table_ok_def set_oset_insert_sint)
  qed (simp add: AddListener_def FindSessionByPid_def w)
qed

lemma RemoveListener_keeps [keeps]: "keeps_inv listeners_watched (RemoveListener pid)"
proof (rule keeps_invI)
  fix s :: "'s notify_scheme"
  assume w: "listeners_watched s"
  then have "erase_info (same_client s fd) (sn_state s)
      = filter (\<lambda>x. pid_of s x \<noteq> pid_of s fd) (sn_state s)" for fd
    by (simp add: watched_def same_client_eq erase_info_filter)
  with w show "listeners_watched (exec (RemoveListener pid) s)"
    by (auto simp: RemoveListener_def FindSessionByPid_def RemoveStateMsg_def watched_def table_ok_def
      distinct_map_filter split: option.split)
qed

lemma callback_keeps [keeps]: "keeps_inv listeners_watched (AddSessionDeletedCallback pid)"
  by (rule keeps_invI)
    (auto simp: AddSessionDeletedCallback_def watched_def table_ok_def set_oset_insert_sint)

lemma listeners_frame:
  fixes m :: "('s drag_manager_scheme, 'a) state"
  assumes "unchanged directory m"
  shows "keeps_inv listeners_watched m"
proof (rule keeps_invI)
  fix s :: "'s drag_manager_scheme"
  assume w: "listeners_watched s"
  have d: "directory (exec m s) = directory s"
    using assms by (rule unchangedD)
  have "pid_of (exec m s) x = pid_of s x" for x
    using d by (simp add: directory_def fun_eq_iff)
  with d w show "listeners_watched (exec m s)"
    by (simp add: watched_def table_ok_def directory_def)
qed

section \<open>Every event keeps it\<close>

lemma SetProgramName_directory [frame]: "unchanged directory (SetProgramName fd name)"
  by (simp add: unchanged_def directory_def SetProgramName_def fun_eq_iff)

lemma style_directory [frame]:
  "unchanged directory (AddSubscriptListener pid)" "unchanged directory (RemoveSubscriptListener pid)"
  by (simp_all add: unchanged_def directory_def AddSubscriptListener_def RemoveSubscriptListener_def
    FindSessionByPid_def AddStyleMsg_def RemoveStyleMsg_def split: option.split)

lemma note_drag_listeners [keeps]: "keeps_inv listeners_watched (note_drag E d pid peer lp caller)"
  unfolding note_drag_def dg_GetPackageName_def Let_def
  by (intro keeps; (rule listeners_frame, intro frame)?)+

lemma StartDrag_listeners [keeps]: "keeps_inv listeners_watched (StartDrag E d pid peer lp caller)"
  unfolding StartDrag_def by (intro keeps; (rule listeners_frame, intro frame)?)+

lemma sv_StartDrag_listeners [keeps]: "keeps_inv listeners_watched (sv_StartDrag E c d)"
  unfolding sv_StartDrag_def by (intro keeps; (rule listeners_frame, intro frame)?)+

lemma system_only_keeps:
  fixes m :: "('s drag_manager_scheme, i32) state"
  assumes "keeps_inv listeners_watched m"
  shows "keeps_inv listeners_watched (system_only E c m)"
  unfolding system_only_def by (intro keeps assms; (rule listeners_frame, intro frame)?)+

lemma serve_listeners: "keeps_inv listeners_watched (serve_request E r)"
proof (cases "starts_drag (Request r) \<or> (\<exists>c. r = ReqAddListener c \<or> r = ReqRemoveListener c)")
  case True
  then show ?thesis
    by (auto simp: starts_drag_iff serve_request_def sv_AddDraglistener_def sv_RemoveDraglistener_def
      intro!: keeps system_only_keeps)
next
  case False
  then have "unchanged directory (serve_request E r)"
    by (cases r; simp add: serve_defs sv_StopDrag_def; (intro conjI impI frame)?)
  then show ?thesis
    by (rule listeners_frame)
qed

lemma call_listeners: "keeps_inv listeners_watched (call E c)"
proof (cases "starts_drag (Component c)")
  case True
  then show ?thesis
    by (auto simp: starts_drag_iff call_def intro!: keeps)
next
  case False
  then have "unchanged directory (call E c)"
    by (cases c; simp add: call_def; intro frame)
  then show ?thesis
    by (rule listeners_frame)
qed

lemma run_timer_directory [frame]: "unchanged directory (run_timer E t)"
  by (cases t; simp add: run_timer_def; intro frame)

lemma FireTimer_directory [frame]: "unchanged directory (FireTimer E i)"
  unfolding FireTimer_def by (intro frame)

lemma handle_listeners:
  assumes "listeners_watched s"
    and "\<And>name tokenType uid pid. e = Connect name tokenType uid pid \<Longrightarrow> find_pid pid s = None \<Longrightarrow>
      \<forall>p. SocketPair E (sv_clock s) = Some p \<longrightarrow> fst p \<notin> set (sm_sessions s)"
  shows "listeners_watched (exec (handle E e) s)"
proof (cases "\<exists>name tokenType uid pid. e = Connect name tokenType uid pid")
  case True
  then show ?thesis
    using assms by (auto simp: handle_def intro!: listeners.AllocSocketFd_keeps)
next
  case False
  have "keeps_inv listeners_watched (handle E e)"
  proof (cases e)
    case (Connect name tokenType uid pid)
    then show ?thesis
      using False by blast
  qed (simp add: handle_def serve_listeners call_listeners; (intro keeps)?; (rule listeners_frame, intro frame)?)+
  then show ?thesis
    using assms(1) by (rule keeps_invD)
qed

section \<open>Runs\<close>

text \<open>
  The kernel gives a new connection a descriptor that is not in use: each time \<open>AllocSocketFd\<close> asks
  for a pair of sockets, the server's end owns no session of the table.
\<close>

primrec fresh_sockets :: "senv \<Rightarrow> drag_event list \<Rightarrow> 's drag_manager_scheme \<Rightarrow> bool" where
  "fresh_sockets E [] s = True"
| "fresh_sockets E (e # es) s =
     ((case e of
         Connect name tokenType uid pid \<Rightarrow>
           find_pid pid s \<noteq> None \<or> (case SocketPair E (sv_clock s) of
             None \<Rightarrow> True | Some p \<Rightarrow> fst p \<notin> set (sm_sessions s))
       | _ \<Rightarrow> True) \<and> fresh_sockets E es (exec (handle E e) s))"

lemma run_listeners:
  "listeners_watched s \<Longrightarrow> fresh_sockets E es s \<Longrightarrow> listeners_watched (run E es s)"
proof (induction es arbitrary: s)
  case (Cons e es)
  then have "listeners_watched (exec (handle E e) s)"
    by (intro handle_listeners) (auto split: option.splits)
  with Cons show ?case
    by simp
qed simp

lemma new_listeners: "listeners_watched new_drag_manager"
  by (simp add: watched_def table_ok_def new_drag_manager_def)

text \<open>A client that connects, listens to the state and the style of drags, and dies.\<close>

definition listener :: CallingContext where
  "listener = \<lparr>cc_pid = 7, cc_tokenId = 1, cc_fullTokenId = 1\<rparr>"

definition joins :: "drag_event list" where
  "joins = [Connect ''app'' 0 0 7, Request (ReqAddListener listener), Request (ReqAddSubscript listener)]"

lemmas session_defs = AllocSocketFd_def FindSessionByPid_def find_pid_def SetBufferSize_def AddSession_def
  AddListener_def AddStateMsg_def AddSessionDeletedCallback_def AddSubscriptListener_def AddStyleMsg_def

lemma connected:
  "sm_sessions (exec (handle calm_env (Connect ''app'' 0 0 7)) new_drag_manager) = [10]"
  "pid_of (exec (handle calm_env (Connect ''app'' 0 0 7)) new_drag_manager) 10 = 7"
  "sn_state (exec (handle calm_env (Connect ''app'' 0 0 7)) new_drag_manager) = []"
  "sn_style (exec (handle calm_env (Connect ''app'' 0 0 7)) new_drag_manager) = []"
  by (simp_all add: handle_def session_defs calm_env_def new_drag_manager_def MAX_SESSION_ALARM_def)

lemma served: "\<exists>n. exec (system_only calm_env c m) s = exec m (s\<lparr>sv_clock := n\<rparr>)"
  by (rule exI [of _ "sv_clock (exec (IsSystemHAPCalling calm_env c) s)"])
    (simp add: system_only_def IsSystemHAPCalling_def IsSystemServiceCalling_def calm_env_def)

lemma joined:
  "sm_sessions (run calm_env joins new_drag_manager) = [10]"
  "pid_of (run calm_env joins new_drag_manager) 10 = 7"
  "sn_state (run calm_env joins new_drag_manager) = [10]"
  "sn_style (run calm_env joins new_drag_manager) = [10]"
proof -
  define s where "s = exec (handle calm_env (Connect ''app'' 0 0 7)) new_drag_manager"
  have run: "run calm_env joins new_drag_manager
      = exec (handle calm_env (Request (ReqAddSubscript listener))) (exec (handle calm_env (Request (ReqAddListener listener))) s)"
    by (simp add: joins_def s_def)
  note s = connected [folded s_def]
  obtain m where first: "exec (handle calm_env (Request (ReqAddListener listener))) s = exec (AddListener 7) (s\<lparr>sv_clock := m\<rparr>)"
    using served [of listener "AddListener 7" s]
    by (auto simp: handle_def serve_request_def sv_AddDraglistener_def listener_def)
  obtain n where second: "exec (handle calm_env (Request (ReqAddSubscript listener))) (exec (AddListener 7) (s\<lparr>sv_clock := m\<rparr>))
      = exec (AddSubscriptListener 7) ((exec (AddListener 7) (s\<lparr>sv_clock := m\<rparr>))\<lparr>sv_clock := n\<rparr>)"
    using served [of listener "AddSubscriptListener 7" "exec (AddListener 7) (s\<lparr>sv_clock := m\<rparr>)"]
    by (auto simp: handle_def serve_request_def sv_AddSubscriptListener_def listener_def)
  show "sm_sessions (run calm_env joins new_drag_manager) = [10]"
    "pid_of (run calm_env joins new_drag_manager) 10 = 7"
    "sn_state (run calm_env joins new_drag_manager) = [10]"
    "sn_style (run calm_env joins new_drag_manager) = [10]"
    using s unfolding run first second by (simp_all add: session_defs)
qed

lemma joining: "fresh_sockets calm_env joins new_drag_manager"
  by (simp add: joins_def) (simp add: new_drag_manager_def calm_env_def)

text \<open>
  C19. The table of sessions is well typed along every run: ordered by descriptor without
  repetitions, at most a hundred sessions, at most one to a process; so looking a process up finds
  its session, and only that. This needs a kernel that does not hand out a descriptor in use.
\<close>

theorem session_table_sound:
  assumes "fresh_sockets E es new_drag_manager"
  shows "let s = run E es new_drag_manager in
      oset_ok sint (sm_sessions s) \<and> length (sm_sessions s) \<le> 100
    \<and> (find_pid pid s = Some fd) = (fd \<in> set (sm_sessions s) \<and> pid_of s fd = pid)"
proof -
  let ?s = "run E es new_drag_manager"
  have t: "table_ok ?s"
    using run_listeners [OF new_listeners assms] by (simp add: watched_def)
  have "find_pid pid ?s = Some fd" if here: "fd \<in> set (sm_sessions ?s)" "pid_of ?s fd = pid"
  proof -
    obtain fd' where fd': "find_pid (pid_of ?s fd) ?s = Some fd'" "pid_of ?s fd' = pid_of ?s fd"
      using here(1) by (rule find_pid_present)
    moreover have "inj_on (pid_of ?s) (set (sm_sessions ?s))"
      using t by (simp add: table_ok_def distinct_map)
    ultimately have "fd' = fd"
      using find_pid_SomeD [OF fd'(1)] here(1) by (blast dest: inj_onD)
    with fd' here(2) show ?thesis
      by simp
  qed
  then show ?thesis
    using t find_pid_SomeD [of pid ?s fd] by (auto simp: Let_def table_ok_def MAX_SESSION_ALARM_def)
qed

theorem session_table_sound_witness:
  "oset_ok sint (sm_sessions (run calm_env joins new_drag_manager))"
  using session_table_sound [OF joining] by (simp only: Let_def)

text \<open>
  C18. No dead listener: along every run each client that listens to the state of drags has a live
  session of its own in the table, one to a process, and the table is bound to tell the drag
  manager when it is lost. A change of state is never sent to a session that is gone.
\<close>

theorem listeners_live:
  assumes "fresh_sockets E es new_drag_manager"
  shows "let s = run E es new_drag_manager in
      set (sn_state s) \<subseteq> set (sm_sessions s)
    \<and> pid_of s ` set (sn_state s) \<subseteq> set (sm_callbacks s)
    \<and> distinct (map (pid_of s) (sn_state s))"
  using run_listeners [OF new_listeners assms] by (auto simp: watched_def Let_def)

theorem listeners_live_witness:
  "(10 :: i32) \<in> set (sm_sessions (run calm_env joins new_drag_manager))"
  using listeners_live [OF joining] joined(3) by (simp add: Let_def)

text \<open>
  A client that listens to the style of drags is not forgotten when it dies: its session leaves
  the table but stays in the list, style changes are still sent to it, and no request can remove
  it, since the process is not found any more.
\<close>

theorem style_listener_left_behind:
  assumes "find_pid pid s = Some fd" "distinct (map (pid_of s) (sm_sessions s))" "fd \<in> set (sn_style s)"
  shows "let t = exec (handle E (ProcessDied pid)) s in
      fd \<notin> set (sm_sessions t) \<and> fd \<in> set (sn_style t)
    \<and> result_of (RemoveSubscriptListener pid) t = RET_ERR
    \<and> sn_style (exec (RemoveSubscriptListener pid) t) = sn_style t"
proof -
  let ?t = "exec (handle E (ProcessDied pid)) s"
  have t: "sm_sessions ?t = filter (\<lambda>x. x \<noteq> fd) (sm_sessions s)" "sm_objects ?t = sm_objects s" "sn_style ?t = sn_style s"
    using assms(1)
    by (simp_all add: handle_def ReleaseSessionByPid_def FindSessionByPid_def drop_session_def erase_session_def
      NotifySessionDeleted_def OnSessionLost_def RemoveListener_def RemoveStateMsg_def RemoveSessionDeletedCallback_def
      split: option.split)
  have "pid_of ?t x \<noteq> pid" if "x \<in> set (sm_sessions ?t)" for x
    using that find_pid_SomeD [OF assms(1)] assms(2) unfolding t
    by (auto simp: distinct_map dest: inj_onD)
  then have "find_pid pid ?t = None"
    by (auto simp: find_pid_def find_None_iff)
  then show ?thesis
    using assms(3) by (simp add: Let_def t RemoveSubscriptListener_def FindSessionByPid_def)
qed

theorem style_listener_left_behind_witness:
  "(10 :: i32) \<in> set (sn_style (exec (handle calm_env (ProcessDied 7)) (run calm_env joins new_drag_manager)))"
  using style_listener_left_behind [of 7 "run calm_env joins new_drag_manager" 10 calm_env] joined
  by (simp add: Let_def find_pid_def)

end
