(* ===== verification/Status_World.thy ===== *)
theory Status_World
  imports Effects
begin

text \<open>
  What is outside the device status stack (the sensor algorithms under src/libs and the services
  that use them): the sensor service, the dynamic loader, the clock and files of the mock, the
  remote objects of clients, and \<open>atan2\<close>. Their answers are the functions of the record
  \<open>status_env\<close>, which depend on a clock that every question advances; what the stack tells
  them is the list of commands \<open>st_log\<close>. Samples are exact rationals: the rounding of \<open>float\<close> and
  \<open>double\<close> arithmetic is left out.
\<close>

section \<open>Enumerations of stationary_data.h\<close>

abbreviation (input) TYPE_INVALID :: i32 where "TYPE_INVALID \<equiv> - 1"
abbreviation (input) TYPE_ABSOLUTE_STILL :: i32 where "TYPE_ABSOLUTE_STILL \<equiv> 0"
abbreviation (input) TYPE_HORIZONTAL_POSITION :: i32 where "TYPE_HORIZONTAL_POSITION \<equiv> 1"
abbreviation (input) TYPE_VERTICAL_POSITION :: i32 where "TYPE_VERTICAL_POSITION \<equiv> 2"
abbreviation (input) TYPE_STILL :: i32 where "TYPE_STILL \<equiv> 3"
abbreviation (input) TYPE_RELATIVE_STILL :: i32 where "TYPE_RELATIVE_STILL \<equiv> 4"
abbreviation (input) TYPE_CAR_BLUETOOTH :: i32 where "TYPE_CAR_BLUETOOTH \<equiv> 5"
abbreviation (input) TYPE_LID_OPEN :: i32 where "TYPE_LID_OPEN \<equiv> 6"
abbreviation (input) TYPE_STAND :: i32 where "TYPE_STAND \<equiv> 7"
abbreviation (input) TYPE_MAX :: i32 where "TYPE_MAX \<equiv> 8"

abbreviation (input) VALUE_INVALID :: i32 where "VALUE_INVALID \<equiv> - 1"
abbreviation (input) VALUE_ENTER :: i32 where "VALUE_ENTER \<equiv> 1"
abbreviation (input) VALUE_EXIT :: i32 where "VALUE_EXIT \<equiv> 2"

abbreviation (input) ENTER :: i32 where "ENTER \<equiv> 1"
abbreviation (input) EXIT :: i32 where "EXIT \<equiv> 2"
abbreviation (input) ENTER_EXIT :: i32 where "ENTER_EXIT \<equiv> 3"

text \<open>The names of \<open>DeviceStatusJson\<close>; the entry after \<open>LID_OPEN\<close> is \<open>MAX\<close>, \<open>TYPE_STAND\<close> has none.\<close>

definition DeviceStatusJson :: "string list" where
  "DeviceStatusJson = [''absoluteStill'', ''horizontalPosition'', ''verticalPosition'', ''still'',
     ''relativeStill'', ''carBluetooth'', ''LID_OPEN'', ''MAX'']"

section \<open>Samples, libraries, the file of the mock\<close>

record AccelData =
  ac_x :: rat
  ac_y :: rat
  ac_z :: rat

datatype library = AlgoLibrary | MockLibrary

text \<open>What \<open>realpath\<close>, \<open>dlopen\<close> and \<open>dlsym\<close> make of a library.\<close>

datatype lib_answer = NoSuchPath | CannotLoad | NoSymbols | Loaded

text \<open>
  What reading and parsing the file of the mock gives: nothing, an array at the top, or an object
  whose items are arrays of numbers (an element that is no number is None) or something else.
\<close>

datatype mock_answer = FileMissing | TopArray | TopObject "string \<Rightarrow> i32 option list option"

datatype status_cmd =
    SensorSubscribed i32
  | SensorBatched i32
  | SensorActivated i32
  | SensorDeactivated i32
  | SensorUnsubscribed i32
  | LibraryOpened library
  | LibraryClosed library
  | UseAfterFree i32
  | Deadlock library
  | FdOpened i32
  | FdClosed i32
  | StatusTold nat i32 i32
  | DeathWatched nat
  | DeathUnwatched nat

record status_env =
  ACCELEROMETER :: i32
  AllSensors :: "nat \<Rightarrow> i32 list option"
  SubscribeSensor_ret :: "nat \<Rightarrow> i32 \<Rightarrow> i32"
  SetBatch_ret :: "nat \<Rightarrow> i32 \<Rightarrow> i32"
  ActivateSensor_ret :: "nat \<Rightarrow> i32 \<Rightarrow> i32"
  DeactivateSensor_ret :: "nat \<Rightarrow> i32 \<Rightarrow> i32"
  UnsubscribeSensor_ret :: "nat \<Rightarrow> i32 \<Rightarrow> i32"
  Atan2 :: "rat \<Rightarrow> rat \<Rightarrow> rat"
  OpenLibrary :: "nat \<Rightarrow> library \<Rightarrow> lib_answer"
  NewEpoll :: "nat \<Rightarrow> i32"
  NewTimerFd :: "nat \<Rightarrow> i32"
  ReadTimer_ok :: "nat \<Rightarrow> bool"
  MockFile :: "nat \<Rightarrow> mock_answer"
  SystemCaller :: "nat \<Rightarrow> i32 \<Rightarrow> u64 \<Rightarrow> bool"

section \<open>The shared part of the state\<close>

record status_svc =
  st_clock :: nat
  st_log :: "status_cmd list"

definition consult :: "(nat \<Rightarrow> 'a) \<Rightarrow> ('s status_svc_scheme, 'a) state" where
  "consult q = do { t \<leftarrow> gets st_clock; modify (\<lambda>s. s\<lparr>st_clock := Suc t\<rparr>); pure (q t) }"

definition command :: "status_cmd \<Rightarrow> ('s status_svc_scheme, unit) state" where
  "command c = modify (\<lambda>s. s\<lparr>st_log := st_log s @ [c]\<rparr>)"

lemma consult_simps [simp]:
  "result_of (consult q) s = q (st_clock s)"
  "exec (consult q) s = s\<lparr>st_clock := Suc (st_clock s)\<rparr>"
  by (simp_all add: consult_def)

lemma command_simps [simp]: "exec (command c) s = s\<lparr>st_log := st_log s @ [c]\<rparr>"
  by (simp add: command_def)

text \<open>An environment in which everything succeeds; its \<open>atan2\<close> only knows the axis of gravity.\<close>

definition sample_status_env :: status_env where
  "sample_status_env = \<lparr>ACCELEROMETER = 1, AllSensors = (\<lambda>_. Some [1, 2]), SubscribeSensor_ret = (\<lambda>_ _. 0),
     SetBatch_ret = (\<lambda>_ _. 0), ActivateSensor_ret = (\<lambda>_ _. 0), DeactivateSensor_ret = (\<lambda>_ _. 0),
     UnsubscribeSensor_ret = (\<lambda>_ _. 0), Atan2 = (\<lambda>y x. if x < 0 then 3 else 0), OpenLibrary = (\<lambda>_ _. Loaded),
     NewEpoll = (\<lambda>_. 20), NewTimerFd = (\<lambda>_. 21), ReadTimer_ok = (\<lambda>_. True),
     MockFile = (\<lambda>_. TopObject (\<lambda>_. Some [Some 1, Some 2])), SystemCaller = (\<lambda>_ _ _. True)\<rparr>"

end
