(* ===== verification/Sensor_Algorithms.thy ===== *)
theory Sensor_Algorithms
  imports Status_World
begin

text \<open>
  src/libs/src/algorithm (algo_base.cpp, algo_absolute_still.cpp, algo_horizontal.cpp,
  algo_vertical.cpp): the classifiers of accelerometer samples. An algorithm is a value; a step
  returns it updated, with the report it makes to its callback, if any. All three are debounced
  the same way, which the locale \<open>debouncer\<close> states and the closed form \<open>debounced_verdict\<close> specifies.
\<close>

section \<open>AlgoBase\<close>

datatype algo_state = UNKNOWN | STILL | UNSTILL | HORIZONTAL | NON_HORIZONTAL | VERTICAL | NON_VERTICAL

definition COUNTER_THRESHOLD :: i32 where "COUNTER_THRESHOLD = of_int (500 div 100)"

record algo =
  al_x :: rat
  al_y :: rat
  al_z :: rat
  al_pitch :: rat
  al_roll :: rat
  al_state :: algo_state
  al_counter :: i32
  al_callback :: bool

definition new_algo :: algo where
  "new_algo = \<lparr>al_x = 0, al_y = 0, al_z = 0, al_pitch = 0, al_roll = 0, al_state = UNKNOWN,
     al_counter = COUNTER_THRESHOLD, al_callback = False\<rparr>"

type_synonym report = "(i32 \<times> i32) option"

definition ACC_VALID_THRHD :: rat where "ACC_VALID_THRHD = 160"

definition acc_valid :: "AccelData \<Rightarrow> bool" where
  "acc_valid d \<longleftrightarrow> \<not> (\<bar>ac_x d\<bar> > ACC_VALID_THRHD \<or> \<bar>ac_y d\<bar> > ACC_VALID_THRHD \<or> \<bar>ac_z d\<bar> > ACC_VALID_THRHD)"

definition SetData :: "status_env \<Rightarrow> i32 \<Rightarrow> AccelData \<Rightarrow> algo \<Rightarrow> bool \<times> algo" where
  "SetData E sensorTypeId d a =
     (if sensorTypeId \<noteq> ACCELEROMETER E then (False, a)
      else if \<not> acc_valid d then (False, a)
      else (True, a\<lparr>al_x := ac_y d, al_y := ac_x d, al_z := - ac_z d\<rparr>))"

definition al_RegisterCallback :: "bool \<Rightarrow> algo \<Rightarrow> algo" where
  "al_RegisterCallback callback a = a\<lparr>al_callback := callback\<rparr>"

definition UpdateStateAndReport :: "i32 \<Rightarrow> algo_state \<Rightarrow> i32 \<Rightarrow> algo \<Rightarrow> algo \<times> report" where
  "UpdateStateAndReport value st ty a =
     (if \<not> al_callback a then (a, None) else (a\<lparr>al_state := st\<rparr>, Some (ty, value)))"

section \<open>AlgoAbsoluteStill\<close>

definition RESULTANT_ACC_LOW_THRHD :: rat where "RESULTANT_ACC_LOW_THRHD = 7"
definition RESULTANT_ACC_UP_THRHD :: rat where "RESULTANT_ACC_UP_THRHD = 11"

text \<open>The resultant is compared by its square, which orders as \<open>sqrt\<close> does.\<close>

definition still_ExecuteOperation :: "algo \<Rightarrow> algo \<times> report" where
  "still_ExecuteOperation a = (
     let square = al_x a * al_x a + al_y a * al_y a + al_z a * al_z a in
     if square > RESULTANT_ACC_LOW_THRHD\<^sup>2 \<and> square < RESULTANT_ACC_UP_THRHD\<^sup>2 then
       if al_state a = STILL then (a, None)
       else let a = a\<lparr>al_counter := al_counter a - 1\<rparr> in
         if al_counter a = 0 then
           let a = a\<lparr>al_counter := COUNTER_THRESHOLD\<rparr> in
             UpdateStateAndReport VALUE_ENTER STILL TYPE_ABSOLUTE_STILL a
         else (a, None)
     else let a = a\<lparr>al_counter := COUNTER_THRESHOLD\<rparr> in
       if al_state a = UNSTILL then (a, None)
       else UpdateStateAndReport VALUE_EXIT UNSTILL TYPE_ABSOLUTE_STILL a)"

definition still_StartAlgorithm :: "status_env \<Rightarrow> i32 \<Rightarrow> AccelData \<Rightarrow> algo \<Rightarrow> algo \<times> report" where
  "still_StartAlgorithm E sensorTypeId d a =
     (case SetData E sensorTypeId d a of (ok, a) \<Rightarrow> if \<not> ok then (a, None) else still_ExecuteOperation a)"

section \<open>AlgoHorizontal\<close>

definition ANGLE_180_DEGREE :: rat where "ANGLE_180_DEGREE = 180"
definition PI :: rat where "PI = 3141592653589793 / 1000000000000000"
definition ANGLE_HOR_UP_THRHD :: rat where "ANGLE_HOR_UP_THRHD = 1801 / 10"
definition ANGLE_HOR_LOW_THRHD :: rat where "ANGLE_HOR_LOW_THRHD = 160"
definition ANGLE_HOR_FLIPPED_THRHD :: rat where "ANGLE_HOR_FLIPPED_THRHD = 5"
definition ANGLE_VER_UP_THRHD :: rat where "ANGLE_VER_UP_THRHD = 110"
definition ANGLE_VER_LOW_THRHD :: rat where "ANGLE_VER_LOW_THRHD = 80"
definition ANGLE_VER_FLIPPED_THRHD :: rat where "ANGLE_VER_FLIPPED_THRHD = 5"

definition set_angles :: "status_env \<Rightarrow> algo \<Rightarrow> algo" where
  "set_angles E a = a\<lparr>al_pitch := - Atan2 E (al_y a) (al_z a) * (ANGLE_180_DEGREE / PI),
     al_roll := Atan2 E (al_x a) (al_z a) * (ANGLE_180_DEGREE / PI)\<rparr>"

definition horizontal_ExecuteOperation :: "status_env \<Rightarrow> algo \<Rightarrow> algo \<times> report" where
  "horizontal_ExecuteOperation E a = (
     let a = set_angles E a in
     if (\<bar>al_pitch a\<bar> > ANGLE_HOR_LOW_THRHD \<and> \<bar>al_pitch a\<bar> < ANGLE_HOR_UP_THRHD
           \<and> \<bar>al_roll a\<bar> > ANGLE_HOR_LOW_THRHD \<and> \<bar>al_roll a\<bar> < ANGLE_HOR_UP_THRHD)
        \<or> (\<bar>al_pitch a\<bar> > 0 \<and> \<bar>al_pitch a\<bar> < ANGLE_HOR_FLIPPED_THRHD
           \<and> \<bar>al_roll a\<bar> > 0 \<and> \<bar>al_roll a\<bar> < ANGLE_VER_FLIPPED_THRHD) then
       if al_state a = HORIZONTAL then (a, None)
       else let a = a\<lparr>al_counter := al_counter a - 1\<rparr> in
         if al_counter a = 0 then
           let a = a\<lparr>al_counter := COUNTER_THRESHOLD\<rparr> in
             UpdateStateAndReport VALUE_ENTER HORIZONTAL TYPE_HORIZONTAL_POSITION a
         else (a, None)
     else let a = a\<lparr>al_counter := COUNTER_THRESHOLD\<rparr> in
       if al_state a = NON_HORIZONTAL then (a, None)
       else UpdateStateAndReport VALUE_EXIT NON_HORIZONTAL TYPE_HORIZONTAL_POSITION a)"

definition horizontal_StartAlgorithm :: "status_env \<Rightarrow> i32 \<Rightarrow> AccelData \<Rightarrow> algo \<Rightarrow> algo \<times> report" where
  "horizontal_StartAlgorithm E sensorTypeId d a =
     (case SetData E sensorTypeId d a of (ok, a) \<Rightarrow> if \<not> ok then (a, None) else horizontal_ExecuteOperation E a)"

section \<open>AlgoVertical\<close>

definition JUDGE_FLOAT :: rat where "JUDGE_FLOAT = 1 / 1000000"

definition vertical_ExecuteOperation :: "status_env \<Rightarrow> algo \<Rightarrow> algo \<times> report" where
  "vertical_ExecuteOperation E a = (
     if \<bar>al_y a\<bar> \<le> JUDGE_FLOAT \<and> \<bar>al_z a\<bar> \<le> JUDGE_FLOAT then (a, None)
     else let a = set_angles E a in
     if (\<bar>al_pitch a\<bar> > ANGLE_VER_LOW_THRHD \<and> \<bar>al_pitch a\<bar> < ANGLE_VER_UP_THRHD)
        \<or> (\<bar>al_roll a\<bar> > ANGLE_VER_LOW_THRHD \<and> \<bar>al_roll a\<bar> < ANGLE_VER_UP_THRHD) then
       if al_state a = VERTICAL then (a, None)
       else let a = a\<lparr>al_counter := al_counter a - 1\<rparr> in
         if al_counter a = 0 then
           let a = a\<lparr>al_counter := COUNTER_THRESHOLD\<rparr> in
             UpdateStateAndReport VALUE_ENTER VERTICAL TYPE_VERTICAL_POSITION a
         else (a, None)
     else let a = a\<lparr>al_counter := COUNTER_THRESHOLD\<rparr> in
       if al_state a = NON_VERTICAL then (a, None)
       else UpdateStateAndReport VALUE_EXIT NON_VERTICAL TYPE_VERTICAL_POSITION a)"

definition vertical_StartAlgorithm :: "status_env \<Rightarrow> i32 \<Rightarrow> AccelData \<Rightarrow> algo \<Rightarrow> algo \<times> report" where
  "vertical_StartAlgorithm E sensorTypeId d a =
     (case SetData E sensorTypeId d a of (ok, a) \<Rightarrow> if \<not> ok then (a, None) else vertical_ExecuteOperation E a)"

text \<open>The algorithm of a type, as \<open>AlgoMgr\<close> creates it.\<close>

definition StartAlgorithm :: "status_env \<Rightarrow> i32 \<Rightarrow> i32 \<Rightarrow> AccelData \<Rightarrow> algo \<Rightarrow> algo \<times> report" where
  "StartAlgorithm E ty sensorTypeId d a =
     (if ty = TYPE_ABSOLUTE_STILL then still_StartAlgorithm E sensorTypeId d a
      else if ty = TYPE_HORIZONTAL_POSITION then horizontal_StartAlgorithm E sensorTypeId d a
      else vertical_StartAlgorithm E sensorTypeId d a)"

section \<open>The specification\<close>

text \<open>
  What a sequence of judged samples amounts to, oldest first: the good state once the last five
  or more samples are good, the bad one as soon as there was a bad sample since, nothing before.
\<close>

definition trailing :: "bool list \<Rightarrow> nat" where
  "trailing bs = length (takeWhile id (rev bs))"

definition debounced_verdict :: "algo_state \<Rightarrow> algo_state \<Rightarrow> bool list \<Rightarrow> algo_state" where
  "debounced_verdict good bad bs =
     (if 5 \<le> trailing bs then good else if list_all id bs then UNKNOWN else bad)"

text \<open>A report is due at each sample that changes the verdict.\<close>

definition report_due :: "algo_state \<Rightarrow> algo_state \<Rightarrow> i32 \<Rightarrow> bool list \<Rightarrow> bool \<Rightarrow> (i32 \<times> i32) list" where
  "report_due good bad ty bs b =
     (if debounced_verdict good bad (bs @ [b]) = debounced_verdict good bad bs then []
      else [(ty, if b then VALUE_ENTER else VALUE_EXIT)])"

fun reports_due :: "algo_state \<Rightarrow> algo_state \<Rightarrow> i32 \<Rightarrow> bool list \<Rightarrow> bool list \<Rightarrow> (i32 \<times> i32) list" where
  "reports_due good bad ty seen [] = []"
| "reports_due good bad ty seen (b # bs) = report_due good bad ty seen b @ reports_due good bad ty (seen @ [b]) bs"

text \<open>Feeding samples to an algorithm.\<close>

fun feed :: "(AccelData \<Rightarrow> algo \<Rightarrow> algo \<times> report) \<Rightarrow> AccelData list \<Rightarrow> algo \<Rightarrow> algo \<times> (i32 \<times> i32) list" where
  "feed step [] a = (a, [])"
| "feed step (d # ds) a = (let r = step d a; rest = feed step ds (fst r) in
     (fst rest, (case snd r of None \<Rightarrow> [] | Some x \<Rightarrow> [x]) @ snd rest))"

section \<open>Debouncing, once for all algorithms\<close>

lemma trailing_simps [simp]:
  "trailing [] = 0" "trailing (bs @ [b]) = (if b then Suc (trailing bs) else 0)"
  by (simp_all add: trailing_def)

lemma trailing_le: "trailing bs \<le> length bs"
  by (simp add: trailing_def length_takeWhile_le [of id "rev bs", simplified])

lemma counter_steps:
  assumes "n < 5"
  shows "(5 - of_nat n = (1 :: i32)) = (n = 4)" "(5 - of_nat n - 1 :: i32) = 5 - of_nat (Suc n)"
proof -
  from assms consider "n = 0" | "n = 1" | "n = 2" | "n = 3" | "n = 4"
    by linarith
  then show "(5 - of_nat n = (1 :: i32)) = (n = 4)"
    by cases simp_all
qed simp

definition settled :: "algo_state \<Rightarrow> algo_state \<Rightarrow> bool list \<Rightarrow> algo \<Rightarrow> bool" where
  "settled good bad bs a \<longleftrightarrow> al_callback a \<and> al_state a = debounced_verdict good bad bs
     \<and> al_counter a = (if 5 \<le> trailing bs then 5 else 5 - of_nat (trailing bs))"

locale debouncer =
  fixes step :: "AccelData \<Rightarrow> algo \<Rightarrow> algo \<times> report"
    and judged classify :: "AccelData \<Rightarrow> bool"
    and good bad :: algo_state
    and ty :: i32
  assumes states: "good \<noteq> bad" "good \<noteq> UNKNOWN" "bad \<noteq> UNKNOWN"
    and skips: "\<And>d a. \<not> judged d \<Longrightarrow> al_callback a \<Longrightarrow>
      al_callback (fst (step d a)) \<and> al_state (fst (step d a)) = al_state a
      \<and> al_counter (fst (step d a)) = al_counter a \<and> snd (step d a) = None"
    and accepts: "\<And>d a. judged d \<Longrightarrow> classify d \<Longrightarrow> al_callback a \<Longrightarrow> al_callback (fst (step d a)) \<and>
      (if al_state a = good then al_state (fst (step d a)) = good \<and> al_counter (fst (step d a)) = al_counter a
           \<and> snd (step d a) = None
       else if al_counter a = 1 then al_state (fst (step d a)) = good \<and> al_counter (fst (step d a)) = 5
           \<and> snd (step d a) = Some (ty, VALUE_ENTER)
       else al_state (fst (step d a)) = al_state a \<and> al_counter (fst (step d a)) = al_counter a - 1
           \<and> snd (step d a) = None)"
    and rejects: "\<And>d a. judged d \<Longrightarrow> \<not> classify d \<Longrightarrow> al_callback a \<Longrightarrow> al_callback (fst (step d a))
      \<and> al_state (fst (step d a)) = bad \<and> al_counter (fst (step d a)) = 5
      \<and> snd (step d a) = (if al_state a = bad then None else Some (ty, VALUE_EXIT))"
begin

lemma settled_step:
  assumes "settled good bad bs a" "judged d"
  shows "settled good bad (bs @ [classify d]) (fst (step d a))"
    "(case snd (step d a) of None \<Rightarrow> [] | Some x \<Rightarrow> [x]) = report_due good bad ty bs (classify d)"
proof -
  have a: "al_callback a" "al_state a = debounced_verdict good bad bs"
    "al_counter a = (if 5 \<le> trailing bs then 5 else 5 - of_nat (trailing bs))"
    using assms(1) by (simp_all add: settled_def)
  have "settled good bad (bs @ [classify d]) (fst (step d a))
    \<and> (case snd (step d a) of None \<Rightarrow> [] | Some x \<Rightarrow> [x]) = report_due good bad ty bs (classify d)"
  proof (cases "classify d")
    case True
    show ?thesis
    proof (cases "5 \<le> trailing bs")
      case long: True
      then show ?thesis
        using accepts [OF assms(2) True a(1)] a(2,3) True
        by (simp add: settled_def debounced_verdict_def report_due_def)
    next
      case False
      then have "debounced_verdict good bad bs \<noteq> good" and n: "trailing bs < 5"
        using states by (auto simp: debounced_verdict_def)
      then show ?thesis
        using accepts [OF assms(2) True a(1)] a(2,3) True counter_steps [OF n] states
        by (auto simp: settled_def debounced_verdict_def report_due_def)
    qed
  next
    case False
    then show ?thesis
      using rejects [OF assms(2) False a(1)] a(2) states
      by (auto simp: settled_def debounced_verdict_def report_due_def)
  qed
  then show "settled good bad (bs @ [classify d]) (fst (step d a))"
    "(case snd (step d a) of None \<Rightarrow> [] | Some x \<Rightarrow> [x]) = report_due good bad ty bs (classify d)"
    by simp_all
qed

lemma settled_feed:
  "settled good bad bs a \<Longrightarrow>
     settled good bad (bs @ map classify (filter judged ds)) (fst (feed step ds a))
   \<and> snd (feed step ds a) = reports_due good bad ty bs (map classify (filter judged ds))"
proof (induction ds arbitrary: bs a)
  case (Cons d ds)
  show ?case
  proof (cases "judged d")
    case True
    note step = settled_step [OF Cons.prems True]
    show ?thesis
      using Cons.IH [OF step(1)] True step(2) by (simp add: Let_def)
  next
    case False
    have "settled good bad bs (fst (step d a))" "snd (step d a) = None"
      using skips [OF False, of a] Cons.prems by (simp_all add: settled_def)
    then show ?thesis
      using Cons.IH [of bs "fst (step d a)"] False by (simp add: Let_def)
  qed
qed simp

end

section \<open>The three algorithms are debouncers\<close>

definition readable :: "status_env \<Rightarrow> i32 \<Rightarrow> AccelData \<Rightarrow> bool" where
  "readable E sensorTypeId d \<longleftrightarrow> sensorTypeId = ACCELEROMETER E \<and> acc_valid d"

definition still_sample :: "AccelData \<Rightarrow> bool" where
  "still_sample d \<longleftrightarrow> 49 < (ac_x d)\<^sup>2 + (ac_y d)\<^sup>2 + (ac_z d)\<^sup>2 \<and> (ac_x d)\<^sup>2 + (ac_y d)\<^sup>2 + (ac_z d)\<^sup>2 < 121"

definition degrees :: "rat \<Rightarrow> rat" where
  "degrees r = \<bar>r\<bar> * (180 / PI)"

definition horizontal_sample :: "status_env \<Rightarrow> AccelData \<Rightarrow> bool" where
  "horizontal_sample E d \<longleftrightarrow> (
     let pitch = degrees (Atan2 E (ac_x d) (- ac_z d)); roll = degrees (Atan2 E (ac_y d) (- ac_z d)) in
     (pitch \<in> {160<..<1801/10} \<and> roll \<in> {160<..<1801/10}) \<or> (pitch \<in> {0<..<5} \<and> roll \<in> {0<..<5}))"

definition vertical_sample :: "status_env \<Rightarrow> AccelData \<Rightarrow> bool" where
  "vertical_sample E d \<longleftrightarrow> (
     let pitch = degrees (Atan2 E (ac_x d) (- ac_z d)); roll = degrees (Atan2 E (ac_y d) (- ac_z d)) in
     pitch \<in> {80<..<110} \<or> roll \<in> {80<..<110})"

lemma counter_gone: "(w - 1 = (0 :: i32)) = (w = 1)"
  by (metis diff_eq_eq add_0)

lemma PI_pos: "PI > 0"
  by (simp add: PI_def)

lemmas threshold_defs = ANGLE_HOR_UP_THRHD_def ANGLE_HOR_LOW_THRHD_def ANGLE_HOR_FLIPPED_THRHD_def
  ANGLE_VER_UP_THRHD_def ANGLE_VER_LOW_THRHD_def ANGLE_VER_FLIPPED_THRHD_def

lemmas update_defs = UpdateStateAndReport_def COUNTER_THRESHOLD_def counter_gone

interpretation still: debouncer "still_StartAlgorithm E (ACCELEROMETER E)"
  "readable E (ACCELEROMETER E)" still_sample STILL UNSTILL TYPE_ABSOLUTE_STILL
  by unfold_locales
    (auto simp: still_StartAlgorithm_def SetData_def readable_def still_sample_def still_ExecuteOperation_def Let_def
      update_defs RESULTANT_ACC_LOW_THRHD_def RESULTANT_ACC_UP_THRHD_def power2_eq_square algebra_simps)

lemma set_angles_simps [simp]:
  "al_x (set_angles E a) = al_x a" "al_y (set_angles E a) = al_y a" "al_z (set_angles E a) = al_z a"
  "al_state (set_angles E a) = al_state a" "al_counter (set_angles E a) = al_counter a"
  "al_callback (set_angles E a) = al_callback a"
  "\<bar>al_pitch (set_angles E a)\<bar> = degrees (Atan2 E (al_y a) (al_z a))"
  "\<bar>al_roll (set_angles E a)\<bar> = degrees (Atan2 E (al_x a) (al_z a))"
  using PI_pos by (simp_all add: set_angles_def degrees_def ANGLE_180_DEGREE_def abs_mult)

interpretation horizontal: debouncer "horizontal_StartAlgorithm E (ACCELEROMETER E)"
  "readable E (ACCELEROMETER E)" "horizontal_sample E" HORIZONTAL NON_HORIZONTAL TYPE_HORIZONTAL_POSITION
  by unfold_locales
    (auto simp: horizontal_StartAlgorithm_def SetData_def readable_def horizontal_sample_def
      horizontal_ExecuteOperation_def Let_def update_defs threshold_defs simp del: zero_less_abs_iff)

interpretation vertical: debouncer "vertical_StartAlgorithm E (ACCELEROMETER E)"
  "\<lambda>d. readable E (ACCELEROMETER E) d \<and> \<not> (\<bar>ac_x d\<bar> \<le> JUDGE_FLOAT \<and> \<bar>ac_z d\<bar> \<le> JUDGE_FLOAT)" "vertical_sample E"
  VERTICAL NON_VERTICAL TYPE_VERTICAL_POSITION
  by unfold_locales
    (auto simp: vertical_StartAlgorithm_def SetData_def readable_def vertical_sample_def
      vertical_ExecuteOperation_def Let_def update_defs threshold_defs)

section \<open>What is reported\<close>

definition judged_sample :: "status_env \<Rightarrow> i32 \<Rightarrow> AccelData \<Rightarrow> bool" where
  "judged_sample E ty d \<longleftrightarrow> acc_valid d
     \<and> \<not> (ty = TYPE_VERTICAL_POSITION \<and> \<bar>ac_x d\<bar> \<le> JUDGE_FLOAT \<and> \<bar>ac_z d\<bar> \<le> JUDGE_FLOAT)"

definition good_sample :: "status_env \<Rightarrow> i32 \<Rightarrow> AccelData \<Rightarrow> bool" where
  "good_sample E ty d =
     (if ty = TYPE_ABSOLUTE_STILL then still_sample d
      else if ty = TYPE_HORIZONTAL_POSITION then horizontal_sample E d else vertical_sample E d)"

definition good_state :: "i32 \<Rightarrow> algo_state" where
  "good_state ty = (if ty = TYPE_ABSOLUTE_STILL then STILL else if ty = TYPE_HORIZONTAL_POSITION then HORIZONTAL else VERTICAL)"

definition bad_state :: "i32 \<Rightarrow> algo_state" where
  "bad_state ty = (if ty = TYPE_ABSOLUTE_STILL then UNSTILL else if ty = TYPE_HORIZONTAL_POSITION then NON_HORIZONTAL
     else NON_VERTICAL)"

lemma settled_new: "settled good bad [] (al_RegisterCallback True new_algo)"
  by (simp add: settled_def debounced_verdict_def new_algo_def al_RegisterCallback_def COUNTER_THRESHOLD_def)

lemma debounced:
  assumes "ty \<in> {TYPE_ABSOLUTE_STILL, TYPE_HORIZONTAL_POSITION, TYPE_VERTICAL_POSITION}"
  shows "let bs = map (good_sample E ty) (filter (judged_sample E ty) ds);
             r = feed (StartAlgorithm E ty (ACCELEROMETER E)) ds (al_RegisterCallback True new_algo) in
      al_state (fst r) = debounced_verdict (good_state ty) (bad_state ty) bs
    \<and> snd r = reports_due (good_state ty) (bad_state ty) ty [] bs"
proof -
  consider "ty = TYPE_ABSOLUTE_STILL" | "ty = TYPE_HORIZONTAL_POSITION" | "ty = TYPE_VERTICAL_POSITION"
    using assms by blast
  then show ?thesis
  proof cases
    case 1
    have "StartAlgorithm E ty (ACCELEROMETER E) = still_StartAlgorithm E (ACCELEROMETER E)"
      "judged_sample E ty = readable E (ACCELEROMETER E)" "good_sample E ty = still_sample"
      using 1 by (simp_all add: fun_eq_iff StartAlgorithm_def judged_sample_def readable_def good_sample_def)
    then show ?thesis
      using still.settled_feed [OF settled_new, of E ds] 1
      by (simp add: settled_def good_state_def bad_state_def)
  next
    case 2
    have "StartAlgorithm E ty (ACCELEROMETER E) = horizontal_StartAlgorithm E (ACCELEROMETER E)"
      "judged_sample E ty = readable E (ACCELEROMETER E)" "good_sample E ty = horizontal_sample E"
      using 2 by (simp_all add: fun_eq_iff StartAlgorithm_def judged_sample_def readable_def good_sample_def)
    then show ?thesis
      using horizontal.settled_feed [OF settled_new, of E ds] 2
      by (simp add: settled_def good_state_def bad_state_def)
  next
    case 3
    have "StartAlgorithm E ty (ACCELEROMETER E) = vertical_StartAlgorithm E (ACCELEROMETER E)"
      "judged_sample E ty = (\<lambda>d. readable E (ACCELEROMETER E) d \<and> \<not> (\<bar>ac_x d\<bar> \<le> JUDGE_FLOAT \<and> \<bar>ac_z d\<bar> \<le> JUDGE_FLOAT))"
      "good_sample E ty = vertical_sample E"
      using 3 by (auto simp: fun_eq_iff StartAlgorithm_def judged_sample_def readable_def good_sample_def)
    then show ?thesis
      using vertical.settled_feed [OF settled_new, of E ds] 3
      by (simp add: settled_def good_state_def bad_state_def)
  qed
qed

text \<open>
  C15. The three algorithms are one debouncer each: fed any samples, an algorithm that has its
  callback holds the verdict of the samples it can judge (good after five good samples in a row,
  bad from the first bad one) and has reported exactly the changes of that verdict, in order.
\<close>

theorem reports_are_debounced:
  assumes "ty \<in> {TYPE_ABSOLUTE_STILL, TYPE_HORIZONTAL_POSITION, TYPE_VERTICAL_POSITION}"
  shows "let bs = map (good_sample E ty) (filter (judged_sample E ty) ds);
             r = feed (StartAlgorithm E ty (ACCELEROMETER E)) ds (al_RegisterCallback True new_algo) in
      al_state (fst r) = debounced_verdict (good_state ty) (bad_state ty) bs
    \<and> snd r = reports_due (good_state ty) (bad_state ty) ty [] bs"
  using assms by (rule debounced)

definition at_rest :: AccelData where
  "at_rest = \<lparr>ac_x = 0, ac_y = 0, ac_z = 49/5\<rparr>"

theorem reports_are_debounced_witness:
  "snd (feed (StartAlgorithm sample_status_env TYPE_ABSOLUTE_STILL (ACCELEROMETER sample_status_env)) (replicate 5 at_rest)
     (al_RegisterCallback True new_algo)) = [(TYPE_ABSOLUTE_STILL, VALUE_ENTER)]"
  using reports_are_debounced [of TYPE_ABSOLUTE_STILL sample_status_env "replicate 5 at_rest"]
  by (simp add: Let_def numeral_eq_Suc judged_sample_def good_sample_def at_rest_def acc_valid_def
    ACC_VALID_THRHD_def still_sample_def report_due_def debounced_verdict_def trailing_def good_state_def bad_state_def)

end
