(* ===== verification/Sensor_Manager.thy ===== *)
theory Sensor_Manager
  imports Sensor_Algorithms
begin

text \<open>
  src/libs/src/datahub/sensor_data_callback.cpp and src/libs/src/devicestatus_algorithm_manager.cpp:
  the queue between the sensor service and the algorithms, and the manager of the algorithms
  (the object behind the library's \<open>Create\<close>). What an algorithm reports goes to the operation
  \<open>on_result\<close>, an argument. The semaphore counts the samples, so that a turn of the algorithm
  thread that finds no sample has no effect; each operation is atomic under its mutex.
\<close>

section \<open>SensorDataCallback\<close>

text \<open>
  \<open>sd_algoMap\<close> has the keys of \<open>algoMap_\<close>; the function behind a key captures the algorithm of that
  type, the object \<open>am_algos\<close> of the manager: one of \<open>still_\<close>, \<open>horizontalPosition_\<close> and
  \<open>verticalPosition_\<close>.
\<close>

record sensors = status_svc +
  sd_user :: bool
  sd_thread :: bool
  sd_alive :: bool
  sd_data :: "AccelData list"
  sd_algoMap :: "i32 list"
  am_algos :: "i32 \<Rightarrow> algo option"
  am_calls :: "i32 \<Rightarrow> i32 option"
  am_algoType :: i32

definition sd_Init :: "('s sensors_scheme, unit) state" where
  "sd_Init = modify (\<lambda>s. s\<lparr>sd_thread := True\<rparr>)"

definition RegisterCallbackSensor :: "status_env \<Rightarrow> i32 \<Rightarrow> ('s sensors_scheme, bool) state" where
  "RegisterCallbackSensor E t = do {
     modify (\<lambda>s. s\<lparr>sd_user := True\<rparr>);
     subscribed \<leftarrow> consult (\<lambda>c. SubscribeSensor_ret E c t);
     if subscribed \<noteq> 0 then pure False
     else do {
       command (SensorSubscribed t);
       batched \<leftarrow> consult (\<lambda>c. SetBatch_ret E c t);
       if batched \<noteq> 0 then pure False
       else do {
         command (SensorBatched t);
         activated \<leftarrow> consult (\<lambda>c. ActivateSensor_ret E c t);
         if activated \<noteq> 0 then pure False
         else do { command (SensorActivated t); pure True } } } }"

definition UnregisterCallbackSensor :: "status_env \<Rightarrow> i32 \<Rightarrow> ('s sensors_scheme, bool) state" where
  "UnregisterCallbackSensor E t = do {
     user \<leftarrow> gets sd_user;
     if \<not> user then pure False
     else do {
       deactivated \<leftarrow> consult (\<lambda>c. DeactivateSensor_ret E c t);
       if deactivated \<noteq> 0 then pure False
       else do {
         command (SensorDeactivated t);
         unsubscribed \<leftarrow> consult (\<lambda>c. UnsubscribeSensor_ret E c t);
         if unsubscribed \<noteq> 0 then pure False
         else do { command (SensorUnsubscribed t); pure True } } } }"

definition SubscribeSensorEvent :: "i32 \<Rightarrow> ('s sensors_scheme, bool) state" where
  "SubscribeSensorEvent ty = do {
     known \<leftarrow> gets (\<lambda>s. ty \<in> set (sd_algoMap s));
     if known then pure False
     else do {
       modify (\<lambda>s. s\<lparr>sd_algoMap := oset_insert sint ty (sd_algoMap s)\<rparr>);
       pure True } }"

definition UnsubscribeSensorEvent :: "i32 \<Rightarrow> ('s sensors_scheme, bool) state" where
  "UnsubscribeSensorEvent ty = do {
     modify (\<lambda>s. s\<lparr>sd_algoMap := filter (\<lambda>k. k \<noteq> ty) (sd_algoMap s)\<rparr>);
     pure True }"

definition PushData :: "AccelData \<Rightarrow> ('s sensors_scheme, bool) state" where
  "PushData d =
     (if \<not> acc_valid d then pure False
      else do { modify (\<lambda>s. s\<lparr>sd_data := sd_data s @ [d]\<rparr>); pure True })"

definition PopData :: "status_env \<Rightarrow> i32 \<Rightarrow> ('s sensors_scheme, AccelData option) state" where
  "PopData E t =
     (if t \<noteq> ACCELEROMETER E then pure None
      else do {
        ds \<leftarrow> gets sd_data;
        case ds of
          [] \<Rightarrow> pure None
        | d # rest \<Rightarrow> do { modify (\<lambda>s. s\<lparr>sd_data := rest\<rparr>); pure (Some d) } })"

text \<open>A function whose algorithm is gone would be called on freed memory.\<close>

definition call_algorithm ::
    "status_env \<Rightarrow> (i32 \<Rightarrow> i32 \<Rightarrow> ('s sensors_scheme, unit) state) \<Rightarrow> i32 \<Rightarrow> AccelData \<Rightarrow> i32
       \<Rightarrow> ('s sensors_scheme, unit) state" where
  "call_algorithm E on_result t d ty = do {
     found \<leftarrow> gets (\<lambda>s. am_algos s ty);
     case found of
       None \<Rightarrow> command (UseAfterFree ty)
     | Some a \<Rightarrow> do {
         let r = StartAlgorithm E ty t d a;
         modify (\<lambda>s. s\<lparr>am_algos := (am_algos s)(ty := Some (fst r))\<rparr>);
         case snd r of
           None \<Rightarrow> skip
         | Some x \<Rightarrow> on_result (fst x) (snd x) } }"

definition NotifyCallback ::
    "status_env \<Rightarrow> (i32 \<Rightarrow> i32 \<Rightarrow> ('s sensors_scheme, unit) state) \<Rightarrow> i32 \<Rightarrow> AccelData
       \<Rightarrow> ('s sensors_scheme, unit) state" where
  "NotifyCallback E on_result t d = do {
     types \<leftarrow> gets sd_algoMap;
     for_each types (call_algorithm E on_result t d) }"

definition HandleSensorEvent ::
    "status_env \<Rightarrow> (i32 \<Rightarrow> i32 \<Rightarrow> ('s sensors_scheme, unit) state) \<Rightarrow> ('s sensors_scheme, unit) state" where
  "HandleSensorEvent E on_result = do {
     popped \<leftarrow> PopData E (ACCELEROMETER E);
     case popped of
       None \<Rightarrow> skip
     | Some d \<Rightarrow> NotifyCallback E on_result (ACCELEROMETER E) d }"

text \<open>One turn of \<open>AlgorithmLoop\<close>.\<close>

definition AlgorithmLoop_turn ::
    "status_env \<Rightarrow> (i32 \<Rightarrow> i32 \<Rightarrow> ('s sensors_scheme, unit) state) \<Rightarrow> ('s sensors_scheme, unit) state" where
  "AlgorithmLoop_turn E on_result = do {
     thread \<leftarrow> gets sd_thread;
     alive \<leftarrow> gets sd_alive;
     only_if (thread \<and> alive) (HandleSensorEvent E on_result) }"

section \<open>AlgoMgr\<close>

definition new_AlgoMgr :: "('s sensors_scheme, unit) state" where
  "new_AlgoMgr = modify (\<lambda>s. s\<lparr>am_algos := (\<lambda>_. None), am_calls := (\<lambda>_. None), am_algoType := TYPE_INVALID\<rparr>)"

definition GetSensorTypeId :: "status_env \<Rightarrow> i32 \<Rightarrow> i32" where
  "GetSensorTypeId E ty =
     (if ty = TYPE_ABSOLUTE_STILL then ACCELEROMETER E
      else if ty = TYPE_HORIZONTAL_POSITION then ACCELEROMETER E
      else if ty = TYPE_VERTICAL_POSITION then ACCELEROMETER E
      else RET_ERR)"

definition CheckSensorTypeId :: "status_env \<Rightarrow> i32 \<Rightarrow> ('s sensors_scheme, bool) state" where
  "CheckSensorTypeId E t = do {
     sensors \<leftarrow> consult (AllSensors E);
     pure (case sensors of None \<Rightarrow> False | Some ids \<Rightarrow> t \<in> set ids) }"

definition StartSensor :: "status_env \<Rightarrow> i32 \<Rightarrow> ('s sensors_scheme, bool) state" where
  "StartSensor E ty = do {
     let t = GetSensorTypeId E ty;
     if t = RET_ERR then pure False
     else do {
       present \<leftarrow> CheckSensorTypeId E t;
       if \<not> present then pure False
       else do { sd_Init; RegisterCallbackSensor E t } } }"

definition am_RegisterCallback :: "('s sensors_scheme, i32) state" where
  "am_RegisterCallback = do {
     ty \<leftarrow> gets am_algoType;
     if ty = TYPE_ABSOLUTE_STILL \<or> ty = TYPE_HORIZONTAL_POSITION \<or> ty = TYPE_VERTICAL_POSITION then do {
       modify (\<lambda>s. s\<lparr>am_algos := (am_algos s)(ty := map_option (al_RegisterCallback True) (am_algos s ty))\<rparr>);
       pure RET_OK }
     else pure RET_ERR }"

definition count_call :: "i32 \<Rightarrow> i32 \<Rightarrow> ('s sensors_scheme, unit) state" where
  "count_call ty n = modify (\<lambda>s. s\<lparr>am_calls := (am_calls s)(ty \<mapsto> (case am_calls s ty of None \<Rightarrow> 0 | Some k \<Rightarrow> k) + n)\<rparr>)"

definition am_Enable :: "status_env \<Rightarrow> i32 \<Rightarrow> ('s sensors_scheme, i32) state" where
  "am_Enable E ty = do {
     started \<leftarrow> StartSensor E ty;
     if \<not> started then pure RET_ERR
     else if ty = TYPE_ABSOLUTE_STILL \<or> ty = TYPE_HORIZONTAL_POSITION \<or> ty = TYPE_VERTICAL_POSITION then do {
       found \<leftarrow> gets (\<lambda>s. am_algos s ty);
       only_if (found = None) (do {
         modify (\<lambda>s. s\<lparr>am_algos := (am_algos s)(ty \<mapsto> new_algo)\<rparr>);
         SubscribeSensorEvent ty;
         modify (\<lambda>s. s\<lparr>am_calls := (am_calls s)(ty \<mapsto> 0)\<rparr>) });
       count_call ty 1;
       modify (\<lambda>s. s\<lparr>am_algoType := ty\<rparr>);
       pure RET_OK }
     else pure RET_ERR }"

text \<open>The result is a \<open>bool\<close> that the only caller ignores.\<close>

definition UnregisterSensor :: "status_env \<Rightarrow> i32 \<Rightarrow> ('s sensors_scheme, unit) state" where
  "UnregisterSensor E ty = do {
     let t = GetSensorTypeId E ty;
     only_if (t \<noteq> RET_ERR) (do { UnregisterCallbackSensor E t; skip }) }"

definition am_Disable :: "status_env \<Rightarrow> i32 \<Rightarrow> ('s sensors_scheme, i32) state" where
  "am_Disable E ty = do {
     count_call ty (- 1);
     calls \<leftarrow> gets (\<lambda>s. am_calls s ty);
     if calls \<noteq> Some 0 then pure RET_ERR
     else do {
       found \<leftarrow> gets (\<lambda>s. am_algos s ty);
       only_if (found \<noteq> None) (do {
         UnsubscribeSensorEvent ty;
         modify (\<lambda>s. s\<lparr>am_algos := (am_algos s)(ty := None)\<rparr>) });
       modify (\<lambda>s. s\<lparr>am_calls := (am_calls s)(ty := None)\<rparr>);
       UnregisterSensor E ty;
       pure RET_OK } }"

end
