(* ===== verification/Msdp_Client.thy ===== *)
theory Msdp_Client
  imports Sensor_Manager "HOL-Library.AList"
begin

text \<open>
  src/services/native/src/devicestatus_msdp_client_impl.cpp, with the mock it may load,
  src/libs/src/devicestatus_msdp_mock.cpp and devicestatus_data_parse.cpp: which library serves a
  type, how often it was asked for, and what is remembered of its reports. The algorithm library
  is \<open>AlgoMgr\<close> of Sensor_Manager. What the manager is told goes to the operation \<open>notify\<close>, an
  argument. The build has sensors (\<open>DEVICE_STATUS_SENSOR_ENABLE\<close>).
\<close>

section \<open>State\<close>

record mock = sensors +
  mk_epFd :: i32
  mk_timerFd :: i32
  mk_alive :: bool
  mk_looping :: bool
  mk_callbacks :: "i32 list"
  mk_callback :: bool
  mk_tempcount :: "i32 \<Rightarrow> nat"

record msdp = mock +
  ci_algoHandle :: bool
  ci_algoInst :: bool
  ci_iAlgo :: bool
  ci_mockHandle :: bool
  ci_mockInst :: bool
  ci_iMock :: bool
  ci_algoCallCounts :: "(i32 \<times> u32) list"
  ci_mockCallCounts :: "(i32 \<times> u32) list"
  ci_deviceStatusDatas :: "(i32 \<times> i32) list"
  ci_callBacksMgr :: bool
  ci_notifyManagerFlag :: bool

section \<open>DeviceStatusDataParse\<close>

text \<open>The value that the file has next for a type; the result is what \<open>data.value\<close> is set to.\<close>

definition DeviceStatusDataInit :: "mock_answer \<Rightarrow> i32 \<Rightarrow> ('s mock_scheme, i32) state" where
  "DeviceStatusDataInit file ty =
     (case file of
        FileMissing \<Rightarrow> pure VALUE_INVALID
      | TopArray \<Rightarrow> pure VALUE_INVALID
      | TopObject item \<Rightarrow>
          if lt32 ty TYPE_ABSOLUTE_STILL \<or> le32 TYPE_MAX ty then pure VALUE_INVALID
          else (case item (DeviceStatusJson ! unat ty) of
            None \<Rightarrow> pure VALUE_INVALID
          | Some values \<Rightarrow>
              if length values = 0 then pure VALUE_INVALID
              else do {
                modify (\<lambda>s. s\<lparr>mk_tempcount := (mk_tempcount s)(ty := mk_tempcount s ty mod length values)\<rparr>);
                i \<leftarrow> gets (\<lambda>s. mk_tempcount s ty);
                modify (\<lambda>s. s\<lparr>mk_tempcount := (mk_tempcount s)(ty := i + 1)\<rparr>);
                pure (case values ! i of None \<Rightarrow> VALUE_INVALID | Some v \<Rightarrow> v) }))"

definition ParseDeviceStatusData :: "status_env \<Rightarrow> i32 \<Rightarrow> ('s mock_scheme, i32) state" where
  "ParseDeviceStatusData E ty = do {
     file \<leftarrow> consult (MockFile E);
     case file of FileMissing \<Rightarrow> pure VALUE_INVALID | _ \<Rightarrow> DeviceStatusDataInit file ty }"

definition dp_DisableCount :: "i32 \<Rightarrow> ('s mock_scheme, bool) state" where
  "dp_DisableCount ty =
     (if 8 \<le> unat ty then pure False
      else do { modify (\<lambda>s. s\<lparr>mk_tempcount := (mk_tempcount s)(ty := 0)\<rparr>); pure True })"

section \<open>DeviceStatusMsdpMock\<close>

definition mk_RegisterCallback :: "bool \<Rightarrow> ('s mock_scheme, i32) state" where
  "mk_RegisterCallback callback = do { modify (\<lambda>s. s\<lparr>mk_callback := callback\<rparr>); pure RET_OK }"

definition InitTimer :: "status_env \<Rightarrow> ('s mock_scheme, unit) state" where
  "InitTimer E = do {
     ep \<leftarrow> consult (NewEpoll E);
     modify (\<lambda>s. s\<lparr>mk_epFd := ep\<rparr>);
     only_if (ep \<noteq> - 1) (do {
       command (FdOpened ep);
       fd \<leftarrow> consult (NewTimerFd E);
       modify (\<lambda>s. s\<lparr>mk_timerFd := fd\<rparr>);
       if fd = - 1 then do {
         command (FdClosed ep);
         modify (\<lambda>s. s\<lparr>mk_epFd := - 1\<rparr>) }
       else do {
         command (FdOpened fd);
         modify (\<lambda>s. s\<lparr>mk_callbacks := oset_insert sint fd (mk_callbacks s)\<rparr>) } }) }"

text \<open>The thread's loop gives up at once when there is nothing to wait for.\<close>

definition StartThread :: "('s mock_scheme, unit) state" where
  "StartThread = do {
     alive \<leftarrow> gets mk_alive;
     only_if (\<not> alive) (modify (\<lambda>s. s\<lparr>mk_alive := True, mk_looping := (mk_callbacks s \<noteq> [])\<rparr>)) }"

definition mk_Enable :: "status_env \<Rightarrow> i32 \<Rightarrow> ('s mock_scheme, i32) state" where
  "mk_Enable E ty = do { InitTimer E; StartThread; pure RET_OK }"

definition CloseTimer :: "('s mock_scheme, unit) state" where
  "CloseTimer = do {
     fd \<leftarrow> gets mk_timerFd;
     only_if (\<not> lt32 fd 0) (do {
       command (FdClosed fd);
       modify (\<lambda>s. s\<lparr>mk_timerFd := - 1\<rparr>) }) }"

definition mk_Disable :: "i32 \<Rightarrow> ('s mock_scheme, i32) state" where
  "mk_Disable ty = do {
     modify (\<lambda>s. s\<lparr>mk_alive := False\<rparr>);
     CloseTimer;
     modify (\<lambda>s. s\<lparr>mk_looping := False\<rparr>);
     pure RET_OK }"

definition mk_DisableCount :: "i32 \<Rightarrow> ('s mock_scheme, i32) state" where
  "mk_DisableCount ty = do { dp_DisableCount ty; pure RET_OK }"

definition NotifyMsdpImpl ::
    "(i32 \<Rightarrow> i32 \<Rightarrow> ('s mock_scheme, unit) state) \<Rightarrow> i32 \<Rightarrow> i32 \<Rightarrow> ('s mock_scheme, unit) state" where
  "NotifyMsdpImpl on_result ty v = do {
     callback \<leftarrow> gets mk_callback;
     only_if callback (on_result ty v) }"

definition GetDeviceStatusData ::
    "status_env \<Rightarrow> (i32 \<Rightarrow> i32 \<Rightarrow> ('s mock_scheme, unit) state) \<Rightarrow> ('s mock_scheme, unit) state" where
  "GetDeviceStatusData E on_result =
     for_each [TYPE_STILL, TYPE_RELATIVE_STILL, TYPE_CAR_BLUETOOTH] (\<lambda>ty. do {
       v \<leftarrow> ParseDeviceStatusData E ty;
       NotifyMsdpImpl on_result ty v })"

text \<open>The timer has expired and the thread, if it runs, wakes up.\<close>

definition TimerCallback ::
    "status_env \<Rightarrow> (i32 \<Rightarrow> i32 \<Rightarrow> ('s mock_scheme, unit) state) \<Rightarrow> ('s mock_scheme, unit) state" where
  "TimerCallback E on_result = do {
     ok \<leftarrow> consult (ReadTimer_ok E);
     only_if ok (GetDeviceStatusData E on_result) }"

definition mock_tick ::
    "status_env \<Rightarrow> (i32 \<Rightarrow> i32 \<Rightarrow> ('s mock_scheme, unit) state) \<Rightarrow> ('s mock_scheme, unit) state" where
  "mock_tick E on_result = do {
     awake \<leftarrow> gets (\<lambda>s. mk_alive s \<and> mk_looping s \<and> \<not> lt32 (mk_timerFd s) 0);
     only_if awake (TimerCallback E on_result) }"

text \<open>\<open>Create\<close> makes a new mock; the counters are static. The destructor stops thread and timer.\<close>

definition new_mock :: "('s mock_scheme, unit) state" where
  "new_mock = modify (\<lambda>s. s\<lparr>mk_epFd := - 1, mk_timerFd := - 1, mk_alive := False, mk_looping := False,
     mk_callbacks := [], mk_callback := False\<rparr>)"

definition destroy_mock :: "('s mock_scheme, unit) state" where
  "destroy_mock = do {
     modify (\<lambda>s. s\<lparr>mk_callbacks := []\<rparr>);
     modify (\<lambda>s. s\<lparr>mk_alive := False\<rparr>);
     CloseTimer;
     modify (\<lambda>s. s\<lparr>mk_looping := False\<rparr>) }"

section \<open>Loading the libraries\<close>

text \<open>Without the symbols the handle is closed and cleared, and the call succeeds all the same.\<close>

definition LoadAlgoLibrary :: "status_env \<Rightarrow> ('s msdp_scheme, i32) state" where
  "LoadAlgoLibrary E = do {
     open \<leftarrow> gets ci_algoHandle;
     if open then pure RET_OK
     else do {
       a \<leftarrow> consult (\<lambda>c. OpenLibrary E c AlgoLibrary);
       case a of
         NoSuchPath \<Rightarrow> pure RET_ERR
       | CannotLoad \<Rightarrow> pure RET_ERR
       | NoSymbols \<Rightarrow> do {
           command (LibraryOpened AlgoLibrary);
           command (LibraryClosed AlgoLibrary);
           pure RET_OK }
       | Loaded \<Rightarrow> do {
           command (LibraryOpened AlgoLibrary);
           modify (\<lambda>s. s\<lparr>ci_algoHandle := True\<rparr>);
           pure RET_OK } } }"

definition LoadMockLibrary :: "status_env \<Rightarrow> ('s msdp_scheme, i32) state" where
  "LoadMockLibrary E = do {
     open \<leftarrow> gets ci_mockHandle;
     if open then pure RET_OK
     else do {
       a \<leftarrow> consult (\<lambda>c. OpenLibrary E c MockLibrary);
       case a of
         NoSuchPath \<Rightarrow> pure RET_ERR
       | CannotLoad \<Rightarrow> pure RET_ERR
       | NoSymbols \<Rightarrow> do {
           command (LibraryOpened MockLibrary);
           command (LibraryClosed MockLibrary);
           pure RET_OK }
       | Loaded \<Rightarrow> do {
           command (LibraryOpened MockLibrary);
           modify (\<lambda>s. s\<lparr>ci_mockHandle := True\<rparr>);
           pure RET_OK } } }"

text \<open>
  Unloading destroys the library's object; the algorithms go with \<open>AlgoMgr\<close>, the functions that
  call them stay in \<open>algoMap_\<close>.
\<close>

definition UnloadAlgoLibrary :: "('s msdp_scheme, i32) state" where
  "UnloadAlgoLibrary = do {
     open \<leftarrow> gets ci_algoHandle;
     if \<not> open then pure RET_ERR
     else do {
       inst \<leftarrow> gets ci_algoInst;
       only_if inst (modify (\<lambda>s. s\<lparr>am_algos := (\<lambda>_. None)\<rparr>));
       command (LibraryClosed AlgoLibrary);
       modify (\<lambda>s. s\<lparr>ci_algoHandle := False, ci_algoInst := False\<rparr>);
       pure RET_OK } }"

definition UnloadMockLibrary :: "('s msdp_scheme, i32) state" where
  "UnloadMockLibrary = do {
     open \<leftarrow> gets ci_mockHandle;
     if \<not> open then pure RET_ERR
     else do {
       inst \<leftarrow> gets ci_mockInst;
       only_if inst destroy_mock;
       command (LibraryClosed MockLibrary);
       modify (\<lambda>s. s\<lparr>ci_mockHandle := False, ci_mockInst := False\<rparr>);
       pure RET_OK } }"

text \<open>The result tells whether the pointer is set.\<close>

definition GetAlgoInst :: "('s msdp_scheme, bool) state" where
  "GetAlgoInst = do {
     open \<leftarrow> gets ci_algoHandle;
     if \<not> open then pure False
     else do {
       inst \<leftarrow> gets ci_algoInst;
       only_if (\<not> inst) (do { new_AlgoMgr; modify (\<lambda>s. s\<lparr>ci_algoInst := True\<rparr>) });
       pure True } }"

definition GetMockInst :: "i32 \<Rightarrow> ('s msdp_scheme, bool) state" where
  "GetMockInst ty = do {
     open \<leftarrow> gets ci_mockHandle;
     if \<not> open then pure False
     else if lt32 TYPE_MAX ty \<or> lt32 ty TYPE_INVALID then pure False
     else do {
       inst \<leftarrow> gets ci_mockInst;
       only_if (\<not> inst) (do {
         new_mock;
         modify (\<lambda>s. s\<lparr>ci_mockInst := True\<rparr>);
         modify (\<lambda>s. s\<lparr>ci_mockCallCounts := AList.update ty 0 (ci_mockCallCounts s)\<rparr>) });
       pure True } }"

definition StartAlgo :: "status_env \<Rightarrow> ('s msdp_scheme, i32) state" where
  "StartAlgo E = do {
     r \<leftarrow> LoadAlgoLibrary E;
     if r = RET_ERR then pure RET_ERR
     else do {
       i \<leftarrow> GetAlgoInst;
       modify (\<lambda>s. s\<lparr>ci_iAlgo := i\<rparr>);
       pure (if i then RET_OK else RET_ERR) } }"

definition StartMock :: "status_env \<Rightarrow> i32 \<Rightarrow> ('s msdp_scheme, i32) state" where
  "StartMock E ty = do {
     r \<leftarrow> LoadMockLibrary E;
     if r = RET_ERR then pure RET_ERR
     else do {
       i \<leftarrow> GetMockInst ty;
       modify (\<lambda>s. s\<lparr>ci_iMock := i\<rparr>);
       pure (if i then RET_OK else RET_ERR) } }"

section \<open>Enabling a type\<close>

definition GetSensorHdi :: "i32 \<Rightarrow> i32" where "GetSensorHdi ty = RET_ERR"

definition GetAlgoAbility :: "i32 \<Rightarrow> i32" where
  "GetAlgoAbility ty = (if ty = TYPE_ABSOLUTE_STILL \<or> ty = TYPE_HORIZONTAL_POSITION \<or> ty = TYPE_VERTICAL_POSITION
     then RET_OK else RET_ERR)"

text \<open>A counter that is not there is put in as 0.\<close>

definition counted :: "i32 \<Rightarrow> (i32 \<times> u32) list \<Rightarrow> (i32 \<times> u32) list" where
  "counted ty counts = AList.update ty (case map_of counts ty of None \<Rightarrow> 0 | Some n \<Rightarrow> n + 1) counts"

definition AlgoHandle :: "status_env \<Rightarrow> i32 \<Rightarrow> ('s msdp_scheme, i32) state" where
  "AlgoHandle E ty =
     (if GetAlgoAbility ty = RET_ERR then pure RET_ERR
      else do {
        started \<leftarrow> StartAlgo E;
        if started = RET_ERR then pure RET_ERR
        else do {
          enabled \<leftarrow> am_Enable E ty;
          if enabled = RET_ERR then pure RET_ERR
          else do {
            modify (\<lambda>s. s\<lparr>ci_algoCallCounts := counted ty (ci_algoCallCounts s)\<rparr>);
            am_RegisterCallback;
            pure RET_OK } } })"

definition MockHandle :: "status_env \<Rightarrow> i32 \<Rightarrow> ('s msdp_scheme, i32) state" where
  "MockHandle E ty =
     (if lt32 TYPE_MAX ty \<or> lt32 ty TYPE_INVALID then pure RET_ERR
      else do {
        started \<leftarrow> StartMock E ty;
        if started = RET_ERR then pure RET_ERR
        else do {
          mk_Enable E ty;
          modify (\<lambda>s. s\<lparr>ci_mockCallCounts := counted ty (ci_mockCallCounts s)\<rparr>);
          mk_RegisterCallback True;
          pure RET_OK } })"

definition InitMsdpImpl :: "status_env \<Rightarrow> i32 \<Rightarrow> ('s msdp_scheme, i32) state" where
  "InitMsdpImpl E ty =
     (if GetSensorHdi ty = RET_OK then pure RET_OK
      else do {
        algo \<leftarrow> AlgoHandle E ty;
        if algo = RET_OK then pure RET_OK
        else do {
          mock \<leftarrow> MockHandle E ty;
          pure (if mock = RET_OK then RET_OK else RET_ERR) } })"

section \<open>Disabling a type\<close>

text \<open>The last log statement of \<open>AlgoDisable\<close> reads \<open>algoCallCounts_[type]\<close>, which inserts the type again.\<close>

definition AlgoDisable :: "status_env \<Rightarrow> i32 \<Rightarrow> ('s msdp_scheme, i32) state" where
  "AlgoDisable E ty = do {
     i \<leftarrow> gets ci_iAlgo;
     if \<not> i then pure RET_ERR
     else do {
       found \<leftarrow> gets (\<lambda>s. map_of (ci_algoCallCounts s) ty);
       case found of
         None \<Rightarrow> pure RET_ERR
       | Some n \<Rightarrow> do {
           only_if (n \<noteq> 0) (do { am_Disable E ty; skip });
           modify (\<lambda>s. s\<lparr>ci_algoCallCounts := AList.delete ty (ci_algoCallCounts s)\<rparr>);
           empty \<leftarrow> gets (\<lambda>s. ci_algoCallCounts s = []);
           unloaded \<leftarrow> (if empty then UnloadAlgoLibrary else pure RET_OK);
           if unloaded = RET_ERR then pure RET_ERR
           else do {
             only_if empty (modify (\<lambda>s. s\<lparr>ci_iAlgo := False, ci_callBacksMgr := False\<rparr>));
             modify (\<lambda>s. s\<lparr>ci_algoCallCounts := AList.update ty 0 (ci_algoCallCounts s)\<rparr>);
             pure RET_OK } } } }"

text \<open>
  A count of 0 is erased and then decremented through the dangling iterator. With no count left the
  library is to be unloaded, under the mutex that is held already: the thread would stop there.
\<close>

definition MockDisable :: "i32 \<Rightarrow> ('s msdp_scheme, i32) state" where
  "MockDisable ty = do {
     i \<leftarrow> gets ci_iMock;
     if \<not> i then pure RET_ERR
     else do {
       found \<leftarrow> gets (\<lambda>s. map_of (ci_mockCallCounts s) ty);
       case found of
         None \<Rightarrow> pure RET_ERR
       | Some n \<Rightarrow> do {
           (if n = 0 then do {
              modify (\<lambda>s. s\<lparr>ci_mockCallCounts := AList.delete ty (ci_mockCallCounts s)\<rparr>);
              command (UseAfterFree ty) }
            else do {
              mk_DisableCount ty;
              mk_Disable ty;
              mk_RegisterCallback False;
              modify (\<lambda>s. s\<lparr>ci_mockCallCounts := AList.update ty (n - 1) (ci_mockCallCounts s)\<rparr>) });
           empty \<leftarrow> gets (\<lambda>s. ci_mockCallCounts s = []);
           if empty then do { command (Deadlock MockLibrary); pure RET_ERR }
           else pure RET_OK } } }"

definition ci_Disable :: "status_env \<Rightarrow> i32 \<Rightarrow> ('s msdp_scheme, i32) state" where
  "ci_Disable E ty = do {
     algo \<leftarrow> AlgoDisable E ty;
     if algo = RET_OK then pure RET_OK
     else do {
       mock \<leftarrow> MockDisable ty;
       pure (if mock = RET_OK then RET_OK else RET_ERR) } }"

section \<open>Reports\<close>

definition RegisterImpl :: "('s msdp_scheme, i32) state" where
  "RegisterImpl = do { modify (\<lambda>s. s\<lparr>ci_callBacksMgr := True\<rparr>); pure RET_OK }"

definition ImplCallback ::
    "(i32 \<Rightarrow> i32 \<Rightarrow> ('s msdp_scheme, unit) state) \<Rightarrow> i32 \<Rightarrow> i32 \<Rightarrow> ('s msdp_scheme, unit) state" where
  "ImplCallback notify ty v = do {
     callback \<leftarrow> gets ci_callBacksMgr;
     only_if callback (notify ty v) }"

definition SaveObserverData :: "i32 \<Rightarrow> i32 \<Rightarrow> ('s msdp_scheme, unit) state" where
  "SaveObserverData ty v = modify (\<lambda>s. s\<lparr>ci_deviceStatusDatas := AList.update ty v (ci_deviceStatusDatas s),
     ci_notifyManagerFlag := True\<rparr>)"

definition MsdpCallback ::
    "(i32 \<Rightarrow> i32 \<Rightarrow> ('s msdp_scheme, unit) state) \<Rightarrow> i32 \<Rightarrow> i32 \<Rightarrow> ('s msdp_scheme, unit) state" where
  "MsdpCallback notify ty v = do {
     SaveObserverData ty v;
     flag \<leftarrow> gets ci_notifyManagerFlag;
     only_if flag (do {
       ImplCallback notify ty v;
       modify (\<lambda>s. s\<lparr>ci_notifyManagerFlag := False\<rparr>) }) }"

definition OnResult ::
    "(i32 \<Rightarrow> i32 \<Rightarrow> ('s msdp_scheme, unit) state) \<Rightarrow> i32 \<Rightarrow> i32 \<Rightarrow> ('s msdp_scheme, unit) state" where
  "OnResult notify ty v = MsdpCallback notify ty v"

end
