(* ===== verification/Status_Manager.thy ===== *)
theory Status_Manager
  imports Msdp_Client
begin

text \<open>
  src/services/native/src/devicestatus_manager.cpp, the subscriptions to device states, and the
  calls of src/intention/stationary/server/src/stationary_server.cpp that lead to it, on a build
  without \<open>MOTION_ENABLE\<close>. Reports of the dumper and to hisysevent are left out, as is the posture of
  the device (trigonometry of one sensor sample). So is the metadata binding of
  the manager, whose server has a manager of its own.
\<close>

section \<open>State\<close>

text \<open>
  A callback of a client is its remote object, a number here by which the set is ordered; a
  pointer to a callback may be null, and a callback may have no remote object.
\<close>

datatype dev_callback = NullCallback | NoObject | Callback nat

record status_manager = msdp +
  dv_impl :: bool
  dv_listeners :: "(i32 \<times> nat list) list"
  dv_type :: i32
  dv_event :: i32
  dv_arrs :: "i32 \<Rightarrow> i32"

definition dv_Init :: "('s status_manager_scheme, bool) state" where
  "dv_Init = do {
     modify (\<lambda>s. s\<lparr>dv_impl := True\<rparr>);
     modify (\<lambda>s. s\<lparr>ci_algoCallCounts := map (\<lambda>ty. (word_of_int ty, 0)) [0..7],
       ci_mockCallCounts := map (\<lambda>ty. (word_of_int ty, 0)) [0..7]\<rparr>);
     pure True }"

section \<open>Telling the subscribers\<close>

text \<open>The loop over the copied set; an unknown event ends it.\<close>

fun tell_listeners :: "i32 \<Rightarrow> i32 \<Rightarrow> i32 \<Rightarrow> nat list \<Rightarrow> ('s status_svc_scheme, i32) state" where
  "tell_listeners ty v event [] = pure RET_OK"
| "tell_listeners ty v event (cb # cbs) =
     (if event = ENTER then do { only_if (v = VALUE_ENTER) (command (StatusTold cb ty v)); tell_listeners ty v event cbs }
      else if event = EXIT then do { only_if (v = VALUE_EXIT) (command (StatusTold cb ty v)); tell_listeners ty v event cbs }
      else if event = ENTER_EXIT then do { command (StatusTold cb ty v); tell_listeners ty v event cbs }
      else pure RET_ERR)"

definition valid_type :: "i32 \<Rightarrow> bool" where
  "valid_type ty \<longleftrightarrow> lt32 TYPE_INVALID ty \<and> lt32 ty TYPE_MAX"

definition NotifyDeviceStatusChange :: "i32 \<Rightarrow> i32 \<Rightarrow> ('s status_manager_scheme, i32) state" where
  "NotifyDeviceStatusChange ty v = do {
     found \<leftarrow> gets (\<lambda>s. map_of (dv_listeners s) ty);
     case found of
       None \<Rightarrow> pure RET_ERR
     | Some cbs \<Rightarrow>
         if \<not> valid_type ty then pure RET_ERR
         else do {
           event \<leftarrow> gets (\<lambda>s. dv_arrs s ty);
           tell_listeners ty v event cbs } }"

definition MsdpDataCallback :: "i32 \<Rightarrow> i32 \<Rightarrow> ('s status_manager_scheme, unit) state" where
  "MsdpDataCallback ty v = do { NotifyDeviceStatusChange ty v; skip }"

text \<open>The callback that the algorithms and the mock are given.\<close>

definition dv_on_result :: "i32 \<Rightarrow> i32 \<Rightarrow> ('s status_manager_scheme, unit) state" where
  "dv_on_result = OnResult MsdpDataCallback"

definition GetLatestDeviceStatusData :: "i32 \<Rightarrow> ('s status_manager_scheme, i32) state" where
  "GetLatestDeviceStatusData ty =
     (if \<not> valid_type ty then pure VALUE_INVALID
      else do {
        impl \<leftarrow> gets dv_impl;
        datas \<leftarrow> gets ci_deviceStatusDatas;
        pure (if \<not> impl then VALUE_INVALID
              else case map_of datas ty of None \<Rightarrow> VALUE_INVALID | Some v \<Rightarrow> v) })"

section \<open>Switching a type on and off\<close>

definition InitAlgoMngrInterface :: "status_env \<Rightarrow> i32 \<Rightarrow> ('s status_manager_scheme, bool) state" where
  "InitAlgoMngrInterface E ty = do {
     impl \<leftarrow> gets dv_impl;
     if \<not> impl then pure False
     else do {
       r \<leftarrow> InitMsdpImpl E ty;
       pure (r = RET_OK) } }"

definition InitDataCallback :: "('s status_manager_scheme, bool) state" where
  "InitDataCallback = do {
     impl \<leftarrow> gets dv_impl;
     if \<not> impl then pure False
     else do { RegisterImpl; pure True } }"

definition dv_Enable :: "status_env \<Rightarrow> i32 \<Rightarrow> ('s status_manager_scheme, bool) state" where
  "dv_Enable E ty =
     (if \<not> valid_type ty then pure False
      else do {
        ready \<leftarrow> InitAlgoMngrInterface E ty;
        if \<not> ready then pure False else InitDataCallback })"

definition dv_Disable :: "status_env \<Rightarrow> i32 \<Rightarrow> ('s status_manager_scheme, bool) state" where
  "dv_Disable E ty = do {
     impl \<leftarrow> gets dv_impl;
     if \<not> impl then pure False
     else do {
       r \<leftarrow> ci_Disable E ty;
       pure (r = RET_OK) } }"

section \<open>Subscriptions\<close>

definition put_listeners :: "i32 \<Rightarrow> nat list \<Rightarrow> ('s status_manager_scheme, unit) state" where
  "put_listeners ty cbs = modify (\<lambda>s. s\<lparr>dv_listeners := AList.update ty cbs (dv_listeners s)\<rparr>)"

definition valid_event :: "i32 \<Rightarrow> bool" where
  "valid_event event \<longleftrightarrow> le32 ENTER event \<and> le32 event ENTER_EXIT"

definition dv_Subscribe :: "status_env \<Rightarrow> i32 \<Rightarrow> i32 \<Rightarrow> dev_callback \<Rightarrow> ('s status_manager_scheme, unit) state" where
  "dv_Subscribe E ty event callback =
     (if callback = NullCallback then skip
      else if \<not> valid_type ty then skip
      else if \<not> valid_event event then skip
      else do {
        modify (\<lambda>s. s\<lparr>dv_event := event\<rparr>);
        modify (\<lambda>s. s\<lparr>dv_type := ty\<rparr>);
        modify (\<lambda>s. s\<lparr>dv_arrs := (dv_arrs s)(ty := event)\<rparr>);
        case callback of
          Callback object \<Rightarrow> do {
            found \<leftarrow> gets (\<lambda>s. map_of (dv_listeners s) ty);
            case found of
              None \<Rightarrow> do {
                command (DeathWatched object);
                put_listeners ty [object];
                dv_Enable E ty;
                skip }
            | Some cbs \<Rightarrow>
                only_if (object \<notin> set cbs) (do {
                  put_listeners ty (oset_insert id object cbs);
                  command (DeathWatched object);
                  dv_Enable E ty;
                  skip }) }
        | _ \<Rightarrow> skip })"

definition dv_Unsubscribe :: "status_env \<Rightarrow> i32 \<Rightarrow> i32 \<Rightarrow> dev_callback \<Rightarrow> ('s status_manager_scheme, unit) state" where
  "dv_Unsubscribe E ty event callback =
     (if callback = NullCallback then skip
      else if \<not> valid_type ty then skip
      else if \<not> valid_event event then skip
      else case callback of
        Callback object \<Rightarrow> do {
          found \<leftarrow> gets (\<lambda>s. map_of (dv_listeners s) ty);
          case found of
            None \<Rightarrow> skip
          | Some cbs \<Rightarrow> do {
              only_if (object \<in> set cbs) (do {
                put_listeners ty (filter (\<lambda>x. x \<noteq> object) cbs);
                command (DeathUnwatched object);
                only_if (filter (\<lambda>x. x \<noteq> object) cbs = [])
                  (modify (\<lambda>s. s\<lparr>dv_listeners := AList.delete ty (dv_listeners s)\<rparr>)) });
              none_left \<leftarrow> gets (\<lambda>s. dv_listeners s = []);
              only_if none_left (do { dv_Disable E ty; skip }) } }
      | _ \<Rightarrow> skip)"

text \<open>The death of a client is noted in the log only.\<close>

definition OnRemoteDied :: "nat \<Rightarrow> ('s status_manager_scheme, unit) state" where
  "OnRemoteDied object = skip"

section \<open>StationaryServer\<close>

abbreviation (input) RET_NO_SUPPORT :: i32 where "RET_NO_SUPPORT \<equiv> 801"

definition SubscribeStationaryCallback ::
    "status_env \<Rightarrow> i32 \<Rightarrow> i32 \<Rightarrow> dev_callback \<Rightarrow> ('s status_manager_scheme, i32) state" where
  "SubscribeStationaryCallback E ty event callback =
     (if ty = TYPE_STAND then pure RET_NO_SUPPORT
      else do { dv_Subscribe E ty event callback; pure RET_OK })"

definition UnsubscribeStationaryCallback ::
    "status_env \<Rightarrow> i32 \<Rightarrow> i32 \<Rightarrow> dev_callback \<Rightarrow> ('s status_manager_scheme, i32) state" where
  "UnsubscribeStationaryCallback E ty event callback =
     (if ty = TYPE_STAND then pure RET_NO_SUPPORT
      else do { dv_Unsubscribe E ty event callback; pure RET_OK })"

definition st_GetDeviceStatusData :: "i32 \<Rightarrow> ('s status_manager_scheme, i32 \<times> i32) state" where
  "st_GetDeviceStatusData ty = do { v \<leftarrow> GetLatestDeviceStatusData ty; pure (ty, v) }"

section \<open>Runs\<close>

text \<open>
  What happens to the stack: calls of clients and their deaths, samples of the sensor service,
  turns of the algorithm thread, expiries of the timer of the mock.
\<close>

datatype status_event =
    ClientSubscribes i32 i32 dev_callback
  | ClientUnsubscribes i32 i32 dev_callback
  | ClientDies nat
  | SampleArrives AccelData
  | AlgorithmTurn
  | MockTick

definition status_handle :: "status_env \<Rightarrow> status_event \<Rightarrow> ('s status_manager_scheme, unit) state" where
  "status_handle E e = (case e of
       ClientSubscribes ty event cb \<Rightarrow> do { SubscribeStationaryCallback E ty event cb; skip }
     | ClientUnsubscribes ty event cb \<Rightarrow> do { UnsubscribeStationaryCallback E ty event cb; skip }
     | ClientDies object \<Rightarrow> OnRemoteDied object
     | SampleArrives d \<Rightarrow> do { PushData d; skip }
     | AlgorithmTurn \<Rightarrow> AlgorithmLoop_turn E dv_on_result
     | MockTick \<Rightarrow> mock_tick E dv_on_result)"

primrec status_run :: "status_env \<Rightarrow> status_event list \<Rightarrow> 's status_manager_scheme \<Rightarrow> 's status_manager_scheme" where
  "status_run E [] s = s"
| "status_run E (e # es) s = status_run E es (exec (status_handle E e) s)"

definition before_init :: status_manager where
  "before_init = \<lparr>st_clock = 0, st_log = [], sd_user = False, sd_thread = False, sd_alive = True, sd_data = [],
     sd_algoMap = [], am_algos = (\<lambda>_. None), am_calls = (\<lambda>_. None), am_algoType = TYPE_INVALID,
     mk_epFd = - 1, mk_timerFd = - 1, mk_alive = False, mk_looping = False, mk_callbacks = [], mk_callback = False,
     mk_tempcount = (\<lambda>_. 0),
     ci_algoHandle = False, ci_algoInst = False, ci_iAlgo = False, ci_mockHandle = False, ci_mockInst = False,
     ci_iMock = False, ci_algoCallCounts = [], ci_mockCallCounts = [], ci_deviceStatusDatas = [],
     ci_callBacksMgr = False, ci_notifyManagerFlag = False,
     dv_impl = False, dv_listeners = [], dv_type = - 1, dv_event = - 1, dv_arrs = (\<lambda>_. 0)\<rparr>"

definition new_status_manager :: status_manager where
  "new_status_manager = exec dv_Init before_init"

lemma status_run_append [simp]: "status_run E (es @ fs) s = status_run E fs (status_run E es s)"
  by (induction es arbitrary: s) simp_all

lemma status_run_keeps:
  assumes "\<And>e. keeps_inv I (status_handle E e)" "I s"
  shows "I (status_run E es s)"
  using assms by (induction es arbitrary: s) (auto dest: keeps_invD)

end
