(* ===== verification/Status_Properties.thy ===== *)
theory Status_Properties
  imports Status_Manager
begin

text \<open>
  What subscribers of device states can rely on, and where the stack does something else than it
  means to: who is told what, what five samples at rest lead to, and what stays behind when the
  subscribers have left.
\<close>

section \<open>What is told\<close>

fun told :: "status_cmd list \<Rightarrow> (nat \<times> i32 \<times> i32) list" where
  "told [] = []"
| "told (StatusTold cb ty v # cs) = (cb, ty, v) # told cs"
| "told (_ # cs) = told cs"

lemma told_append [simp]: "told (cs @ ds) = told cs @ told ds"
  by (induction cs rule: told.induct) simp_all

definition subscribers :: "'s status_manager_scheme \<Rightarrow> i32 \<Rightarrow> nat list" where
  "subscribers s ty = (case map_of (dv_listeners s) ty of None \<Rightarrow> [] | Some cbs \<Rightarrow> cbs)"

definition wanted :: "i32 \<Rightarrow> i32 \<Rightarrow> bool" where
  "wanted event v \<longleftrightarrow> (event = ENTER \<and> v = VALUE_ENTER) \<or> (event = EXIT \<and> v = VALUE_EXIT) \<or> event = ENTER_EXIT"

lemma tell_listeners_told:
  "told (st_log (exec (tell_listeners ty v event cbs) s))
     = told (st_log s) @ (if wanted event v then map (\<lambda>cb. (cb, ty, v)) cbs else [])"
  by (induction cbs arbitrary: s) (auto simp: wanted_def)

lemma NotifyDeviceStatusChange_told:
  "told (st_log (exec (NotifyDeviceStatusChange ty v) s))
     = told (st_log s) @ (if valid_type ty \<and> wanted (dv_arrs s ty) v then map (\<lambda>cb. (cb, ty, v)) (subscribers s ty) else [])"
  by (simp add: NotifyDeviceStatusChange_def subscribers_def tell_listeners_told split: option.split)

lemma report_told:
  "told (st_log (exec (dv_on_result ty v) s)) = told (st_log s) @
     (if ci_callBacksMgr s \<and> valid_type ty \<and> wanted (dv_arrs s ty) v
      then map (\<lambda>cb. (cb, ty, v)) (subscribers s ty) else [])"
  by (simp add: dv_on_result_def OnResult_def MsdpCallback_def SaveObserverData_def ImplCallback_def
    MsdpDataCallback_def NotifyDeviceStatusChange_told subscribers_def)

text \<open>
  A report reaches every subscriber of its type once, in the order of the set, if the event the
  type was last subscribed with asks for the value, and nobody else.
\<close>

theorem report_told_once:
  "told (st_log (exec (dv_on_result ty v) s)) = told (st_log s) @
     (if ci_callBacksMgr s \<and> valid_type ty \<and> wanted (dv_arrs s ty) v
      then map (\<lambda>cb. (cb, ty, v)) (subscribers s ty) else [])"
  by (rule report_told)

section \<open>From samples to subscribers\<close>

text \<open>Sensors and libraries that work.\<close>

definition healthy :: "status_env \<Rightarrow> bool" where
  "healthy E \<longleftrightarrow> ACCELEROMETER E \<noteq> RET_ERR
     \<and> (\<forall>t. \<exists>ids. AllSensors E t = Some ids \<and> ACCELEROMETER E \<in> set ids)
     \<and> (\<forall>t i. SubscribeSensor_ret E t i = 0 \<and> SetBatch_ret E t i = 0 \<and> ActivateSensor_ret E t i = 0
          \<and> DeactivateSensor_ret E t i = 0 \<and> UnsubscribeSensor_ret E t i = 0)
     \<and> (\<forall>t l. OpenLibrary E t l = Loaded)"

abbreviation algo_type :: "i32 \<Rightarrow> bool" where
  "algo_type ty \<equiv> ty = TYPE_ABSOLUTE_STILL \<or> ty = TYPE_HORIZONTAL_POSITION \<or> ty = TYPE_VERTICAL_POSITION"

text \<open>One subscriber to one type, the algorithm in the middle of its samples, the mock never used.\<close>

definition watching :: "i32 \<Rightarrow> nat \<Rightarrow> i32 \<Rightarrow> algo \<Rightarrow> 's status_manager_scheme \<Rightarrow> bool" where
  "watching ty a event alg s \<longleftrightarrow> sd_thread s \<and> sd_alive s \<and> \<not> mk_alive s \<and> sd_algoMap s = [ty]
     \<and> am_algos s ty = Some alg \<and> ci_callBacksMgr s \<and> map_of (dv_listeners s) ty = Some [a] \<and> dv_arrs s ty = event"

lemma healthy_starts:
  fixes s :: "'s sensors_scheme"
  assumes "healthy E" "algo_type ty"
  shows "result_of (StartSensor E ty) s = True"
    "exec (StartSensor E ty) s = s\<lparr>st_clock := Suc (Suc (Suc (Suc (st_clock s)))), st_log := st_log s @ [SensorSubscribed (ACCELEROMETER E),
       SensorBatched (ACCELEROMETER E), SensorActivated (ACCELEROMETER E)], sd_user := True, sd_thread := True\<rparr>"
proof -
  obtain ids where "AllSensors E (st_clock s) = Some ids" "ACCELEROMETER E \<in> set ids"
    using assms(1) by (meson healthy_def)
  with assms show "result_of (StartSensor E ty) s = True"
    "exec (StartSensor E ty) s = s\<lparr>st_clock := Suc (Suc (Suc (Suc (st_clock s)))), st_log := st_log s @ [SensorSubscribed (ACCELEROMETER E),
       SensorBatched (ACCELEROMETER E), SensorActivated (ACCELEROMETER E)], sd_user := True, sd_thread := True\<rparr>"
    by (auto simp: healthy_def StartSensor_def GetSensorTypeId_def CheckSensorTypeId_def sd_Init_def
      RegisterCallbackSensor_def Let_def)
qed

text \<open>The first subscription of a type, before any library is loaded.\<close>

lemma healthy_enables:
  fixes s :: "'s status_manager_scheme"
  assumes "healthy E" "algo_type ty" "dv_impl s" "\<not> ci_algoHandle s" "\<not> ci_algoInst s" "sd_algoMap s = []"
  shows "exec (dv_Enable E ty) s = s\<lparr>st_clock := Suc (Suc (Suc (Suc (Suc (st_clock s))))), st_log := st_log s @ [LibraryOpened AlgoLibrary,
       SensorSubscribed (ACCELEROMETER E), SensorBatched (ACCELEROMETER E), SensorActivated (ACCELEROMETER E)],
     sd_user := True, sd_thread := True, sd_algoMap := [ty], am_algos := [ty \<mapsto> al_RegisterCallback True new_algo],
     am_calls := [ty \<mapsto> 1], am_algoType := ty, ci_algoHandle := True, ci_algoInst := True, ci_iAlgo := True,
     ci_algoCallCounts := counted ty (ci_algoCallCounts s), ci_callBacksMgr := True\<rparr>"
proof -
  define t where "t = s\<lparr>st_clock := Suc (st_clock s), st_log := st_log s @ [LibraryOpened AlgoLibrary],
    ci_algoHandle := True, am_algos := (\<lambda>_. None), am_calls := (\<lambda>_. None), am_algoType := TYPE_INVALID,
    ci_algoInst := True, ci_iAlgo := True\<rparr>"
  note started = healthy_starts [OF assms(1,2), of t]
  have "exec (StartAlgo E) s = t" "result_of (StartAlgo E) s = RET_OK"
    using assms by (simp_all add: StartAlgo_def LoadAlgoLibrary_def GetAlgoInst_def new_AlgoMgr_def healthy_def t_def)
  moreover have "valid_type ty" "GetAlgoAbility ty = RET_OK"
    using assms(2) by (auto simp: valid_type_def GetAlgoAbility_def)
  ultimately show ?thesis
    using assms started
    by (simp add: dv_Enable_def InitAlgoMngrInterface_def InitMsdpImpl_def GetSensorHdi_def
      AlgoHandle_def am_Enable_def SubscribeSensorEvent_def count_call_def am_RegisterCallback_def InitDataCallback_def
      RegisterImpl_def t_def)
qed

lemma watching_subscribed:
  assumes "healthy E" "algo_type ty" "valid_event event"
  shows "watching ty a event (al_RegisterCallback True new_algo)
      (exec (status_handle E (ClientSubscribes ty event (Callback a))) new_status_manager)"
    "told (st_log (exec (status_handle E (ClientSubscribes ty event (Callback a))) new_status_manager)) = []"
    "sd_data (exec (status_handle E (ClientSubscribes ty event (Callback a))) new_status_manager) = []"
proof -
  let ?s = "new_status_manager\<lparr>dv_event := event, dv_type := ty, dv_arrs := (dv_arrs new_status_manager)(ty := event),
     st_log := [DeathWatched a], dv_listeners := [(ty, [a])]\<rparr>"
  have ty: "valid_type ty" "ty \<noteq> TYPE_STAND"
    using assms(2) by (auto simp: valid_type_def)
  have "exec (status_handle E (ClientSubscribes ty event (Callback a))) new_status_manager = exec (dv_Enable E ty) ?s"
    using ty assms(3)
    by (simp add: status_handle_def SubscribeStationaryCallback_def dv_Subscribe_def put_listeners_def
      new_status_manager_def dv_Init_def before_init_def)
  moreover have "watching ty a event (al_RegisterCallback True new_algo) (exec (dv_Enable E ty) ?s)
      \<and> told (st_log (exec (dv_Enable E ty) ?s)) = [] \<and> sd_data (exec (dv_Enable E ty) ?s) = []"
  proof -
    have "dv_impl ?s" "\<not> ci_algoHandle ?s" "\<not> ci_algoInst ?s" "sd_algoMap ?s = []"
      by (simp_all add: new_status_manager_def dv_Init_def before_init_def)
    from healthy_enables [OF assms(1,2) this] show ?thesis
      by (simp add: new_status_manager_def dv_Init_def before_init_def watching_def)
  qed
  ultimately show "watching ty a event (al_RegisterCallback True new_algo)
      (exec (status_handle E (ClientSubscribes ty event (Callback a))) new_status_manager)"
    "told (st_log (exec (status_handle E (ClientSubscribes ty event (Callback a))) new_status_manager)) = []"
    "sd_data (exec (status_handle E (ClientSubscribes ty event (Callback a))) new_status_manager) = []"
    by simp_all
qed

lemma StartAlgorithm_type:
  "algo_type ty \<Longrightarrow> snd (StartAlgorithm E ty t d alg) = Some (ty', v) \<Longrightarrow> ty' = ty"
  by (auto simp: StartAlgorithm_def still_StartAlgorithm_def still_ExecuteOperation_def
    horizontal_StartAlgorithm_def horizontal_ExecuteOperation_def vertical_StartAlgorithm_def
    vertical_ExecuteOperation_def UpdateStateAndReport_def Let_def split: if_splits prod.splits)

lemma StartAlgorithm_invalid: "\<not> acc_valid d \<Longrightarrow> StartAlgorithm E ty t d alg = (alg, None)"
  by (simp add: StartAlgorithm_def still_StartAlgorithm_def horizontal_StartAlgorithm_def
    vertical_StartAlgorithm_def SetData_def)

lemma tell_listeners_state: "\<exists>l. exec (tell_listeners ty v event cbs) s = s\<lparr>st_log := l\<rparr>"
proof (induction cbs arbitrary: s)
  case (Cons cb cbs)
  have "\<exists>l. exec (tell_listeners ty v event cbs) (s\<lparr>st_log := m\<rparr>) = s\<lparr>st_log := l\<rparr>" for m
    using Cons.IH [of "s\<lparr>st_log := m\<rparr>"] by simp
  then show ?case
    using Cons.IH [of s] by (auto intro: exI [of _ "st_log s"])
next
  case Nil
  show ?case
    by (rule exI [of _ "st_log s"]) simp
qed

lemma on_result_state:
  "\<exists>l ds. exec (dv_on_result ty v) s = s\<lparr>st_log := l, ci_deviceStatusDatas := ds, ci_notifyManagerFlag := False\<rparr>"
proof -
  have "\<exists>l. exec (NotifyDeviceStatusChange ty v) t = t\<lparr>st_log := l\<rparr>" for t :: "'a status_manager_scheme"
    using tell_listeners_state [of ty v "dv_arrs t ty" _ t]
    by (auto simp: NotifyDeviceStatusChange_def intro: exI [of _ "st_log t"] split: option.split)
  then obtain l where l: "exec (NotifyDeviceStatusChange ty v) t = t\<lparr>st_log := l t\<rparr>" for t :: "'a status_manager_scheme"
    by metis
  let ?ds = "AList.update ty v (ci_deviceStatusDatas s)"
  note defs = dv_on_result_def OnResult_def MsdpCallback_def SaveObserverData_def ImplCallback_def MsdpDataCallback_def
  show ?thesis
  proof (cases "ci_callBacksMgr s")
    case True
    then show ?thesis
      by (intro exI [of _ "l (s\<lparr>ci_deviceStatusDatas := ?ds, ci_notifyManagerFlag := True\<rparr>)"] exI [of _ ?ds])
        (simp add: defs l)
  next
    case False
    then show ?thesis
      by (intro exI [of _ "st_log s"] exI [of _ ?ds]) (simp add: defs)
  qed
qed

lemma on_result_watching:
  "watching ty a event alg (exec (dv_on_result ty' v) s) = watching ty a event alg s"
  "sd_data (exec (dv_on_result ty' v) s) = sd_data s"
proof -
  obtain l ds where "exec (dv_on_result ty' v) s = s\<lparr>st_log := l, ci_deviceStatusDatas := ds, ci_notifyManagerFlag := False\<rparr>"
    using on_result_state by blast
  then show "watching ty a event alg (exec (dv_on_result ty' v) s) = watching ty a event alg s"
    "sd_data (exec (dv_on_result ty' v) s) = sd_data s"
    by (simp_all add: watching_def)
qed

text \<open>The events that are no calls of clients, and the samples among them.\<close>

fun quiet :: "status_event \<Rightarrow> bool" where
  "quiet (ClientSubscribes ty event cb) = False"
| "quiet (ClientUnsubscribes ty event cb) = False"
| "quiet _ = True"

fun samples :: "status_event list \<Rightarrow> AccelData list" where
  "samples [] = []"
| "samples (SampleArrives d # es) = d # samples es"
| "samples (_ # es) = samples es"

lemma samples_append [simp]: "samples (es @ fs) = samples es @ samples fs"
  by (induction es rule: samples.induct) simp_all

lemma samples_turns [simp]: "samples (replicate n AlgorithmTurn) = []"
  by (induction n) simp_all

definition tells :: "nat \<Rightarrow> i32 \<Rightarrow> (i32 \<times> i32) list \<Rightarrow> (nat \<times> i32 \<times> i32) list" where
  "tells a event rs = map (\<lambda>r. (a, r)) (filter (\<lambda>r. wanted event (snd r)) rs)"

lemma tells_append [simp]: "tells a event (rs @ rs') = tells a event rs @ tells a event rs'"
  by (simp add: tells_def)

text \<open>A turn that finds a sample takes it to the algorithm.\<close>

lemma turn_watched:
  fixes E d
  assumes "watching ty a event alg s" "algo_type ty" "sd_data s = d # q"
  defines "r \<equiv> StartAlgorithm E ty (ACCELEROMETER E) d alg"
  shows "watching ty a event (fst r) (exec (status_handle E AlgorithmTurn) s)"
    "sd_data (exec (status_handle E AlgorithmTurn) s) = q"
    "told (st_log (exec (status_handle E AlgorithmTurn) s))
       = told (st_log s) @ tells a event (case snd r of None \<Rightarrow> [] | Some x \<Rightarrow> [x])"
proof -
  note w = assms(1) [unfolded watching_def]
  have ty: "valid_type ty"
    using assms(2) by (auto simp: valid_type_def)
  let ?t = "s\<lparr>sd_data := q, am_algos := (am_algos s)(ty := Some (fst r))\<rparr>"
  have run: "exec (status_handle E AlgorithmTurn) s
      = (case snd r of None \<Rightarrow> ?t | Some x \<Rightarrow> exec (dv_on_result (fst x) (snd x)) ?t)"
    using w assms(3)
    by (simp add: status_handle_def AlgorithmLoop_turn_def HandleSensorEvent_def
      PopData_def NotifyCallback_def call_algorithm_def r_def [symmetric] split: option.split)
  have t: "watching ty a event (fst r) ?t"
    using w by (simp add: watching_def)
  have "watching ty a event (fst r) (exec (status_handle E AlgorithmTurn) s)
    \<and> sd_data (exec (status_handle E AlgorithmTurn) s) = q
    \<and> told (st_log (exec (status_handle E AlgorithmTurn) s))
       = told (st_log s) @ tells a event (case snd r of None \<Rightarrow> [] | Some x \<Rightarrow> [x])"
  proof (cases "snd r")
    case None
    then show ?thesis
      using t run by (simp add: tells_def)
  next
    case (Some x)
    then have "fst x = ty"
      using StartAlgorithm_type [OF assms(2), of E "ACCELEROMETER E" d alg "fst x" "snd x"] by (simp add: r_def)
    then show ?thesis
      using t run Some w ty on_result_watching(1) [of ty a event "fst r" ty "snd x" ?t]
        on_result_watching(2) [of ty "snd x" ?t]
      by (cases x) (simp add: tells_def report_told subscribers_def)
  qed
  then show "watching ty a event (fst r) (exec (status_handle E AlgorithmTurn) s)"
    "sd_data (exec (status_handle E AlgorithmTurn) s) = q"
    "told (st_log (exec (status_handle E AlgorithmTurn) s))
       = told (st_log s) @ tells a event (case snd r of None \<Rightarrow> [] | Some x \<Rightarrow> [x])"
    by simp_all
qed

lemma quiet_watched:
  assumes "watching ty a event alg s" "quiet e" "e \<noteq> AlgorithmTurn \<or> sd_data s = []"
  shows "watching ty a event alg (exec (status_handle E e) s)"
    "sd_data (exec (status_handle E e) s) = sd_data s @ filter acc_valid (samples [e])"
    "told (st_log (exec (status_handle E e) s)) = told (st_log s)"
  using assms
  by (cases e; simp add: watching_def status_handle_def OnRemoteDied_def PushData_def mock_tick_def
    AlgorithmLoop_turn_def HandleSensorEvent_def PopData_def)+

lemma events_watched:
  assumes "algo_type ty"
  shows "watching ty a event alg s \<Longrightarrow> list_all quiet es \<Longrightarrow>
    \<exists>taken alg'. sd_data s @ filter acc_valid (samples es) = taken @ sd_data (status_run E es s)
      \<and> watching ty a event alg' (status_run E es s)
      \<and> told (st_log (status_run E es s))
          = told (st_log s) @ tells a event (snd (feed (StartAlgorithm E ty (ACCELEROMETER E)) taken alg))"
proof (induction es arbitrary: alg s)
  case Nil
  then show ?case
    by (auto simp: tells_def)
next
  case (Cons e es)
  let ?s = "exec (status_handle E e) s"
  let ?f = "feed (StartAlgorithm E ty (ACCELEROMETER E))"
  have quiet: "quiet e" "list_all quiet es"
    using Cons.prems(2) by simp_all
  have split: "samples (e # es) = samples [e] @ samples es"
    by (cases e) simp_all
  show ?case
  proof (cases "e \<noteq> AlgorithmTurn \<or> sd_data s = []")
    case True
    note step = quiet_watched [OF Cons.prems(1) quiet(1) True, of E]
    show ?thesis
      using Cons.IH [OF step(1) quiet(2)] by (simp add: split step(2,3))
  next
    case False
    then obtain d q where q: "sd_data s = d # q" and e: "e = AlgorithmTurn"
      by (cases "sd_data s") auto
    note step = turn_watched [OF Cons.prems(1) assms q, of E]
    obtain taken alg' where taken: "q @ filter acc_valid (samples es) = taken @ sd_data (status_run E es ?s)"
      "watching ty a event alg' (status_run E es ?s)"
      "told (st_log (status_run E es ?s)) = told (st_log ?s)
         @ tells a event (snd (?f taken (fst (StartAlgorithm E ty (ACCELEROMETER E) d alg))))"
      using Cons.IH [OF step(1) quiet(2)] step(2) unfolding e by auto
    have "sd_data s @ filter acc_valid (samples (e # es)) = (d # taken) @ sd_data (status_run E (e # es) s)"
      using taken(1) by (simp add: q e)
    moreover have "told (st_log (status_run E (e # es) s)) = told (st_log s) @ tells a event (snd (?f (d # taken) alg))"
      using taken(3) step(3) by (simp add: e Let_def)
    ultimately show ?thesis
      using taken(2) by (intro exI [of _ "d # taken"] exI [of _ alg']) (simp only: status_run.simps simp_thms)
  qed
qed

lemma turns_empty:
  assumes "algo_type ty"
  shows "watching ty a event alg s \<Longrightarrow>
    length (sd_data (status_run E (replicate n AlgorithmTurn) s)) = length (sd_data s) - n"
proof (induction n arbitrary: alg s)
  case (Suc n)
  show ?case
  proof (cases "sd_data s")
    case Nil
    then have "e \<noteq> AlgorithmTurn \<or> sd_data s = []" for e
      by simp
    note step = quiet_watched [OF Suc.prems _ this, of AlgorithmTurn E]
    show ?thesis
      using Suc.IH [OF step(1)] step(2) Nil by simp
  next
    case (Cons d q)
    note step = turn_watched [OF Suc.prems assms Cons, of E]
    show ?thesis
      using Suc.IH [OF step(1)] step(2) Cons by simp
  qed
qed simp

text \<open>
  C14. From the sensor to the client: let a client subscribe, for enter, exit or both, to one of the three
  states that have an algorithm, the first and only call to a new manager whose sensor and library work. In whatever
  order samples then arrive, the algorithm thread takes its turns, the mock's timer ticks and
  clients die, the client is told exactly the changes of the debounced verdict of the samples taken
  so far, in order, restricted to the event it asked for. The samples are taken in the order of
  their arrival, the valid ones that are not taken are the queue, and with as many turns at the end
  as samples arrived, every one is taken.
\<close>

theorem subscriber_told_changes:
  fixes E es n ty event a
  defines "s \<equiv> status_run E (ClientSubscribes ty event (Callback a) # es @ replicate n AlgorithmTurn) new_status_manager"
  assumes "healthy E" "ty \<in> {TYPE_ABSOLUTE_STILL, TYPE_HORIZONTAL_POSITION, TYPE_VERTICAL_POSITION}" "valid_event event"
    and "list_all quiet es"
  shows "\<exists>taken. filter acc_valid (samples es) = taken @ sd_data s
     \<and> told (st_log s) = tells a event (reports_due (good_state ty) (bad_state ty) ty []
         (map (good_sample E ty) (filter (judged_sample E ty) taken)))
     \<and> (length (samples es) \<le> n \<longrightarrow> sd_data s = [])"
proof -
  have ty: "algo_type ty"
    using assms(3) by blast
  let ?s = "exec (status_handle E (ClientSubscribes ty event (Callback a))) new_status_manager"
  note first = watching_subscribed [OF assms(2) ty assms(4), of a]
  have "list_all quiet (replicate n AlgorithmTurn)"
    by (induction n) simp_all
  then have "list_all quiet (es @ replicate n AlgorithmTurn)"
    using assms(5) by simp
  from events_watched [OF ty first(1) this, of E] obtain taken
    where taken: "filter acc_valid (samples es) = taken @ sd_data s"
      "told (st_log s) = tells a event (snd (feed (StartAlgorithm E ty (ACCELEROMETER E)) taken (al_RegisterCallback True new_algo)))"
    by (auto simp: s_def first(2,3))
  obtain queue alg' where after: "filter acc_valid (samples es) = queue @ sd_data (status_run E es ?s)"
    "watching ty a event alg' (status_run E es ?s)"
    using events_watched [OF ty first(1) assms(5), of E] by (auto simp: first(3))
  have "length (filter acc_valid (samples es)) \<le> length (samples es)"
    by (rule length_filter_le)
  then have "sd_data s = []" if "length (samples es) \<le> n"
    using that turns_empty [OF ty after(2), of E n] arg_cong [OF after(1), of length] by (simp add: s_def)
  then show ?thesis
    using taken debounced [OF assms(3), of E taken] by (auto simp: Let_def)
qed

lemma sample_env_healthy: "healthy sample_status_env"
  by (simp add: healthy_def sample_status_env_def)

theorem subscriber_told_changes_witness:
  "told (st_log (status_run sample_status_env (ClientSubscribes TYPE_ABSOLUTE_STILL ENTER_EXIT (Callback 4)
      # ([AlgorithmTurn, MockTick] @ map SampleArrives (replicate 5 at_rest)) @ replicate 5 AlgorithmTurn) new_status_manager))
   = [(4, TYPE_ABSOLUTE_STILL, VALUE_ENTER)]"
proof -
  let ?es = "[AlgorithmTurn, MockTick] @ map SampleArrives (replicate 5 at_rest)"
  have es: "samples ?es = replicate 5 at_rest" "list_all quiet ?es" "valid_event ENTER_EXIT"
    by (simp_all add: numeral_eq_Suc valid_event_def)
  have valid: "filter acc_valid (replicate 5 at_rest) = replicate 5 at_rest"
    by (simp add: at_rest_def acc_valid_def ACC_VALID_THRHD_def)
  let ?s = "status_run sample_status_env (ClientSubscribes TYPE_ABSOLUTE_STILL ENTER_EXIT (Callback 4)
      # ?es @ replicate 5 AlgorithmTurn) new_status_manager"
  have due: "reports_due (good_state 0) (bad_state 0) 0 [] (map (good_sample sample_status_env 0)
      (filter (judged_sample sample_status_env 0) (replicate 5 at_rest))) = [(0, VALUE_ENTER)]"
    by (simp add: numeral_eq_Suc judged_sample_def good_sample_def at_rest_def acc_valid_def
      ACC_VALID_THRHD_def still_sample_def report_due_def debounced_verdict_def trailing_def good_state_def bad_state_def)
  obtain taken where taken: "filter acc_valid (replicate 5 at_rest) = taken @ sd_data ?s"
    "told (st_log ?s) = tells 4 ENTER_EXIT (reports_due (good_state 0) (bad_state 0) 0 []
       (map (good_sample sample_status_env 0) (filter (judged_sample sample_status_env 0) taken)))"
    "length (replicate 5 at_rest) \<le> 5 \<longrightarrow> sd_data ?s = []"
    using subscriber_told_changes [OF sample_env_healthy insertI1 es(3,2), where n = 5 and a = 4, unfolded es(1)]
    by (elim exE conjE) (rule that)
  then have "taken = replicate 5 at_rest"
    unfolding valid by (simp only: length_replicate order_refl simp_thms append_Nil2)
  then show ?thesis
    unfolding taken(2) by (simp only: due) (simp add: tells_def wanted_def)
qed

section \<open>What stays behind\<close>

lemma healthy_enables_again:
  fixes s :: "'s status_manager_scheme"
  assumes "healthy E" "algo_type ty" "dv_impl s" "ci_algoHandle s" "ci_algoInst s"
    "am_algos s ty = Some alg" "am_calls s ty = Some n"
  shows "exec (dv_Enable E ty) s = s\<lparr>st_clock := Suc (Suc (Suc (Suc (st_clock s)))), st_log := st_log s @ [
       SensorSubscribed (ACCELEROMETER E), SensorBatched (ACCELEROMETER E), SensorActivated (ACCELEROMETER E)],
     sd_user := True, sd_thread := True, am_algos := (am_algos s)(ty \<mapsto> al_RegisterCallback True alg),
     am_calls := (am_calls s)(ty \<mapsto> n + 1), am_algoType := ty, ci_iAlgo := True,
     ci_algoCallCounts := counted ty (ci_algoCallCounts s), ci_callBacksMgr := True\<rparr>"
proof -
  let ?t = "s\<lparr>ci_iAlgo := True\<rparr>"
  note started = healthy_starts [OF assms(1,2), of ?t]
  have "exec (StartAlgo E) s = ?t" "result_of (StartAlgo E) s = RET_OK"
    using assms by (simp_all add: StartAlgo_def LoadAlgoLibrary_def GetAlgoInst_def)
  moreover have "valid_type ty" "GetAlgoAbility ty = RET_OK"
    using assms(2) by (auto simp: valid_type_def GetAlgoAbility_def)
  ultimately show ?thesis
    using assms started
    by (simp add: dv_Enable_def InitAlgoMngrInterface_def InitMsdpImpl_def GetSensorHdi_def
      AlgoHandle_def am_Enable_def count_call_def am_RegisterCallback_def InitDataCallback_def RegisterImpl_def)
qed

end
