(* ===== verification/Status_Endings.thy ===== *)
theory Status_Endings
  imports Status_Properties
begin

text \<open>
  What happens to sensors, libraries, the mock and the subscribers' death watches when subscribers
  leave or die.
\<close>

section \<open>The sensor\<close>

fun sensor_off :: "status_cmd list \<Rightarrow> nat" where
  "sensor_off [] = 0"
| "sensor_off (SensorDeactivated t # cs) = Suc (sensor_off cs)"
| "sensor_off (_ # cs) = sensor_off cs"

lemma sensor_off_append [simp]: "sensor_off (cs @ ds) = sensor_off cs + sensor_off ds"
  by (induction cs rule: sensor_off.induct) simp_all

text \<open>Every type keeps its counter: the table of counters is never empty.\<close>

definition all_counted :: "(i32 \<times> u32) list \<Rightarrow> bool" where
  "all_counted counts \<longleftrightarrow> list_all (\<lambda>k. map_of counts k \<noteq> None) [0, 1, 2, 3, 4, 5, 6, 7]"

lemma all_counted_update: "all_counted counts \<Longrightarrow> all_counted (AList.update ty n counts)"
  by (auto simp: all_counted_def update_conv')

lemma all_counted_put_back: "all_counted counts \<Longrightarrow> all_counted (AList.update ty n (AList.delete ty counts))"
  by (auto simp: all_counted_def update_conv' delete_conv')

lemma all_counted_delete:
  assumes "all_counted counts"
  shows "AList.delete ty counts \<noteq> []"
proof
  assume empty: "AList.delete ty counts = []"
  define k where "k = (if ty = 0 then 1 else 0 :: i32)"
  have "map_of (AList.delete ty counts) k = map_of counts k"
    by (simp add: k_def delete_conv')
  moreover have "map_of counts k \<noteq> None"
    using assms by (simp add: all_counted_def k_def)
  ultimately show False
    by (simp add: empty)
qed

lemma all_counted_counted: "all_counted counts \<Longrightarrow> all_counted (counted ty counts)"
  by (simp add: counted_def all_counted_update)

lemma all_counted_new: "all_counted (ci_algoCallCounts new_status_manager)"
  by (simp add: all_counted_def new_status_manager_def dv_Init_def before_init_def upto.simps)

text \<open>A type in use by the clients \<open>cbs\<close>, after \<open>n\<close> calls that enabled it.\<close>

definition serving :: "i32 \<Rightarrow> i32 \<Rightarrow> nat list \<Rightarrow> 's status_manager_scheme \<Rightarrow> bool" where
  "serving ty n cbs s \<longleftrightarrow> dv_impl s \<and> ci_algoHandle s \<and> ci_algoInst s \<and> ci_iAlgo s
     \<and> am_algos s ty \<noteq> None \<and> am_calls s ty = Some n \<and> map_of (ci_algoCallCounts s) ty = Some n
     \<and> all_counted (ci_algoCallCounts s) \<and> dv_listeners s = [(ty, cbs)] \<and> sensor_off (st_log s) = 0"

lemma map_of_counted:
  "map_of (counted ty counts) ty = Some (case map_of counts ty of None \<Rightarrow> 0 | Some n \<Rightarrow> n + 1)"
  by (simp add: counted_def update_conv')

lemma first_serving:
  assumes "healthy E" "algo_type ty" "valid_event event"
  shows "serving ty 1 [a] (exec (status_handle E (ClientSubscribes ty event (Callback a))) new_status_manager)"
proof -
  let ?s = "new_status_manager\<lparr>dv_event := event, dv_type := ty, dv_arrs := (dv_arrs new_status_manager)(ty := event),
     st_log := [DeathWatched a], dv_listeners := [(ty, [a])]\<rparr>"
  have ty: "valid_type ty" "ty \<noteq> TYPE_STAND"
    using assms(2) by (auto simp: valid_type_def)
  have "exec (status_handle E (ClientSubscribes ty event (Callback a))) new_status_manager = exec (dv_Enable E ty) ?s"
    using ty assms(3)
    by (simp add: status_handle_def SubscribeStationaryCallback_def dv_Subscribe_def put_listeners_def
      new_status_manager_def dv_Init_def before_init_def)
  moreover have pre: "dv_impl ?s" "\<not> ci_algoHandle ?s" "\<not> ci_algoInst ?s" "sd_algoMap ?s = []"
    by (simp_all add: new_status_manager_def dv_Init_def before_init_def)
  moreover have "map_of (ci_algoCallCounts new_status_manager) ty = Some 0"
    using assms(2) by (auto simp: new_status_manager_def dv_Init_def before_init_def upto.simps)
  ultimately show ?thesis
    by (simp add: healthy_enables [OF assms(1,2) pre] serving_def map_of_counted all_counted_counted all_counted_new)
qed

lemma next_serving:
  assumes "healthy E" "algo_type ty" "valid_event event" "serving ty n cbs s" "a \<notin> set cbs"
  shows "serving ty (n + 1) (oset_insert id a cbs) (exec (status_handle E (ClientSubscribes ty event (Callback a))) s)"
proof -
  let ?s = "s\<lparr>dv_event := event, dv_type := ty, dv_arrs := (dv_arrs s)(ty := event),
     dv_listeners := [(ty, oset_insert id a cbs)], st_log := st_log s @ [DeathWatched a]\<rparr>"
  note w = assms(4) [unfolded serving_def]
  obtain alg where alg: "am_algos s ty = Some alg"
    using w by blast
  have ty: "valid_type ty" "ty \<noteq> TYPE_STAND"
    using assms(2) by (auto simp: valid_type_def)
  have "exec (status_handle E (ClientSubscribes ty event (Callback a))) s = exec (dv_Enable E ty) ?s"
    using ty assms(3,5) w
    by (simp add: status_handle_def SubscribeStationaryCallback_def dv_Subscribe_def put_listeners_def)
  moreover have pre: "dv_impl ?s" "ci_algoHandle ?s" "ci_algoInst ?s" "am_algos ?s ty = Some alg" "am_calls ?s ty = Some n"
    using w alg by simp_all
  ultimately show ?thesis
    using w by (simp add: healthy_enables_again [OF assms(1,2) pre] serving_def map_of_counted all_counted_counted)
qed

lemma fewer_serving:
  assumes "algo_type ty" "valid_event event" "serving ty n cbs s" "filter (\<lambda>x. x \<noteq> a) cbs \<noteq> []"
  shows "serving ty n (filter (\<lambda>x. x \<noteq> a) cbs) (exec (status_handle E (ClientUnsubscribes ty event (Callback a))) s)"
proof -
  have ty: "valid_type ty" "ty \<noteq> TYPE_STAND"
    using assms(1) by (auto simp: valid_type_def)
  have "filter (\<lambda>x. x \<noteq> a) cbs = cbs" if "a \<notin> set cbs"
    using that by (auto simp: filter_id_conv)
  then show ?thesis
    using ty assms(2-4)
    by (cases "a \<in> set cbs") (simp_all add: serving_def status_handle_def UnsubscribeStationaryCallback_def dv_Unsubscribe_def
      put_listeners_def)
qed

lemma last_leaves:
  fixes E
  assumes "algo_type ty" "valid_event event" "serving ty n [a] s" "n \<noteq> 0" "n \<noteq> 1"
  defines "t \<equiv> exec (status_handle E (ClientUnsubscribes ty event (Callback a))) s"
  shows "dv_listeners t = []" "am_algos t ty \<noteq> None" "am_calls t ty = Some (n - 1)" "sensor_off (st_log t) = 0"
proof -
  note w = assms(3) [unfolded serving_def]
  have ty: "valid_type ty" "ty \<noteq> TYPE_STAND"
    using assms(1) by (auto simp: valid_type_def)
  let ?s = "s\<lparr>st_log := st_log s @ [DeathUnwatched a], dv_listeners := []\<rparr>"
  have t: "t = exec (dv_Disable E ty) ?s"
    using ty assms(2) w
    by (simp add: t_def status_handle_def UnsubscribeStationaryCallback_def dv_Unsubscribe_def put_listeners_def)
  show "dv_listeners t = []" "am_algos t ty \<noteq> None" "am_calls t ty = Some (n - 1)" "sensor_off (st_log t) = 0"
    using w assms(4,5) all_counted_delete [of "ci_algoCallCounts s" ty] unfolding t
    by (auto simp: dv_Disable_def ci_Disable_def AlgoDisable_def am_Disable_def count_call_def UnloadAlgoLibrary_def
      split: if_splits)
qed

lemma more_serving:
  assumes "healthy E" "algo_type ty" "valid_event event"
  shows "serving ty n cbs s \<Longrightarrow> oset_ok id cbs \<Longrightarrow> distinct others \<Longrightarrow> set others \<inter> set cbs = {} \<Longrightarrow>
    \<exists>all. serving ty (n + of_nat (length others)) all (status_run E (map (\<lambda>a. ClientSubscribes ty event (Callback a)) others) s)
      \<and> oset_ok id all \<and> set all = set cbs \<union> set others"
proof (induction others arbitrary: n cbs s)
  case (Cons a others)
  have step: "serving ty (n + 1) (oset_insert id a cbs) (exec (status_handle E (ClientSubscribes ty event (Callback a))) s)"
    using next_serving [OF assms Cons.prems(1)] Cons.prems(4) by simp
  have ok: "oset_ok id (oset_insert id a cbs)"
    by (rule oset_ok_insert [OF Cons.prems(2)])
  have disjoint: "set others \<inter> set (oset_insert id a cbs) = {}"
    using Cons.prems by (simp add: oset_insert_id_set)
  obtain all where "serving ty (n + 1 + of_nat (length others)) all
      (status_run E (map (\<lambda>a. ClientSubscribes ty event (Callback a)) others)
        (exec (status_handle E (ClientSubscribes ty event (Callback a))) s))"
    "oset_ok id all" "set all = set (oset_insert id a cbs) \<union> set others"
    using Cons.IH [OF step ok _ disjoint] Cons.prems(3) by auto
  then show ?case
    by (intro exI [of _ all]) (simp add: oset_insert_id_set add.assoc)
qed auto

lemma all_leave:
  assumes "algo_type ty" "valid_event event" "n \<noteq> 0" "n \<noteq> 1"
  shows "serving ty n all s \<Longrightarrow> oset_ok id all \<Longrightarrow> set all = set cbs \<Longrightarrow> distinct cbs \<Longrightarrow> cbs \<noteq> [] \<Longrightarrow>
    dv_listeners (status_run E (map (\<lambda>a. ClientUnsubscribes ty event (Callback a)) cbs) s) = []
    \<and> am_algos (status_run E (map (\<lambda>a. ClientUnsubscribes ty event (Callback a)) cbs) s) ty \<noteq> None
    \<and> sensor_off (st_log (status_run E (map (\<lambda>a. ClientUnsubscribes ty event (Callback a)) cbs) s)) = 0"
proof (induction cbs arbitrary: all s)
  case (Cons a cbs)
  show ?case
  proof (cases "cbs = []")
    case True
    have "distinct all"
      using oset_ok_distinct [OF Cons.prems(2)] by simp
    moreover have "set all = {a}"
      using Cons.prems(3) True by simp
    ultimately have "all = [a]"
      by (cases all; cases "tl all") auto
    then show ?thesis
      using last_leaves [OF assms(1,2) _ assms(3,4), of a s E] Cons.prems(1) True by simp
  next
    case False
    let ?rest = "filter (\<lambda>x. x \<noteq> a) all"
    have set: "set ?rest = set cbs"
      using Cons.prems(3,4) by auto
    then have "?rest \<noteq> []"
      using False by (metis set_empty)
    then have "serving ty n ?rest (exec (status_handle E (ClientUnsubscribes ty event (Callback a))) s)"
      by (rule fewer_serving [OF assms(1,2) Cons.prems(1)])
    moreover have "oset_ok id ?rest"
      using Cons.prems(2) by (simp add: sorted_wrt_filter)
    ultimately show ?thesis
      using Cons.IH [OF _ _ set] Cons.prems(4) False by simp
  qed
qed simp

lemma of_nat_not_small:
  assumes "2 \<le> n" "n < 2 ^ 32"
  shows "(of_nat n :: i32) \<noteq> 0" "(of_nat n :: i32) \<noteq> 1"
proof -
  have "unat (of_nat n :: i32) = n"
    using assms(2) by (simp add: unat_of_nat)
  then show "(of_nat n :: i32) \<noteq> 0" "(of_nat n :: i32) \<noteq> 1"
    using assms(1) by auto
qed

text \<open>
  C38. A second subscriber leaves the sensor running for good: each subscription enables the type once
  more, but only the departure of the last subscriber of all disables it, once. When two or more
  different clients (fewer than 2^32) of a new manager, whose sensor service and library work, have all subscribed to one of the
  three types that have an algorithm and then all left, nobody is subscribed, but the algorithm
  still runs and the sensor was never switched off.
\<close>

theorem second_subscriber_leaks_sensor:
  assumes "healthy E" "ty \<in> {TYPE_ABSOLUTE_STILL, TYPE_HORIZONTAL_POSITION, TYPE_VERTICAL_POSITION}" "valid_event event"
    and "distinct cbs" "2 \<le> length cbs" "length cbs < 2 ^ 32"
  shows "let s = status_run E (map (\<lambda>a. ClientSubscribes ty event (Callback a)) cbs
                @ map (\<lambda>a. ClientUnsubscribes ty event (Callback a)) cbs) new_status_manager in
     dv_listeners s = [] \<and> am_algos s ty \<noteq> None \<and> sensor_off (st_log s) = 0"
proof -
  have ty: "algo_type ty"
    using assms(2) by blast
  obtain a others where cbs: "cbs = a # others"
    using assms(5) by (cases cbs) auto
  have "serving ty 1 [a] (exec (status_handle E (ClientSubscribes ty event (Callback a))) new_status_manager)"
    using first_serving [OF assms(1) ty assms(3)] .
  then obtain all where all: "serving ty (1 + of_nat (length others)) all
      (status_run E (map (\<lambda>a. ClientSubscribes ty event (Callback a)) cbs) new_status_manager)"
      "oset_ok id all" "set all = set cbs"
    using more_serving [OF assms(1) ty assms(3), of 1 "[a]" _ others] assms(4) unfolding cbs by fastforce
  moreover have "(1 + of_nat (length others) :: i32) = of_nat (length cbs)"
    by (simp add: cbs)
  ultimately have served: "serving ty (of_nat (length cbs)) all
      (status_run E (map (\<lambda>a. ClientSubscribes ty event (Callback a)) cbs) new_status_manager)"
    by (simp only:)
  have "cbs \<noteq> []"
    by (simp add: cbs)
  from all_leave [OF ty assms(3) of_nat_not_small [OF assms(5,6)] served all(2,3) assms(4) this, of E] show ?thesis
    unfolding Let_def status_run_append .
qed

theorem second_subscriber_leaks_sensor_witness:
  "am_algos (status_run sample_status_env (map (\<lambda>a. ClientSubscribes TYPE_ABSOLUTE_STILL ENTER (Callback a)) [4, 5]
     @ map (\<lambda>a. ClientUnsubscribes TYPE_ABSOLUTE_STILL ENTER (Callback a)) [4, 5]) new_status_manager) TYPE_ABSOLUTE_STILL
   \<noteq> None"
  using second_subscriber_leaks_sensor [OF sample_env_healthy, of TYPE_ABSOLUTE_STILL ENTER "[4, 5]"]
  by (simp add: Let_def valid_event_def)

end
