(* ===== verification/Status_Runs.thy ===== *)
theory Status_Runs
  imports Status_Endings
begin

text \<open>
  What holds along every run of the device status stack: the algorithm library is never unloaded,
  nobody is told who has not subscribed, and the death watches match the subscriptions.
\<close>

section \<open>Views\<close>

fun watches :: "nat \<Rightarrow> status_cmd list \<Rightarrow> int" where
  "watches a [] = 0"
| "watches a (DeathWatched b # cs) = (if b = a then 1 else 0) + watches a cs"
| "watches a (DeathUnwatched b # cs) = (if b = a then - 1 else 0) + watches a cs"
| "watches a (_ # cs) = watches a cs"

lemma watches_append [simp]: "watches a (cs @ ds) = watches a cs + watches a ds"
  by (induction a cs rule: watches.induct) simp_all

definition lib_view :: "'s status_manager_scheme \<Rightarrow> _" where
  "lib_view s = (dv_impl s, ci_algoHandle s, ci_algoCallCounts s)"

definition told_view :: "'s status_svc_scheme \<Rightarrow> _" where
  "told_view s = told (st_log s)"

definition sub_view :: "'s status_manager_scheme \<Rightarrow> _" where
  "sub_view s = (dv_listeners s, dv_arrs s, (\<lambda>a. watches a (st_log s)))"

lemmas status_views = lib_view_def told_view_def sub_view_def

text \<open>Everything below the manager.\<close>

lemmas sensor_defs = sd_Init_def RegisterCallbackSensor_def UnregisterCallbackSensor_def SubscribeSensorEvent_def
  UnsubscribeSensorEvent_def new_AlgoMgr_def CheckSensorTypeId_def StartSensor_def am_RegisterCallback_def
  count_call_def am_Enable_def UnregisterSensor_def am_Disable_def

lemmas mock_defs = dp_DisableCount_def mk_RegisterCallback_def InitTimer_def StartThread_def mk_Enable_def
  CloseTimer_def mk_Disable_def mk_DisableCount_def new_mock_def destroy_mock_def

lemma told_consult [frame]: "unchanged told_view (consult q)"
  by (simp add: unchanged_def told_view_def)

lemma sensors_told [frame]:
  "unchanged told_view (am_Enable E ty)" "unchanged told_view (am_Disable E ty)"
  "unchanged told_view am_RegisterCallback" "unchanged told_view new_AlgoMgr"
  unfolding sensor_defs command_def by (intro frame; simp add: told_view_def)+

lemma mock_told [frame]:
  "unchanged told_view (mk_Enable E ty)" "unchanged told_view (mk_Disable ty)"
  "unchanged told_view (mk_DisableCount ty)" "unchanged told_view (mk_RegisterCallback b)"
  "unchanged told_view new_mock" "unchanged told_view destroy_mock"
  unfolding mock_defs command_def by (intro frame; simp add: told_view_def)+

lemma sensors_lib [frame]:
  "unchanged lib_view (am_Enable E ty)" "unchanged lib_view (am_Disable E ty)"
  "unchanged lib_view am_RegisterCallback" "unchanged lib_view new_AlgoMgr"
  "unchanged sub_view (am_Enable E ty)" "unchanged sub_view (am_Disable E ty)"
  "unchanged sub_view am_RegisterCallback" "unchanged sub_view new_AlgoMgr"
  unfolding sensor_defs command_def consult_def by (intro frame; simp add: status_views)+

lemma mock_lib [frame]:
  "unchanged lib_view (mk_Enable E ty)" "unchanged lib_view (mk_Disable ty)"
  "unchanged lib_view (mk_DisableCount ty)" "unchanged lib_view (mk_RegisterCallback b)"
  "unchanged lib_view new_mock" "unchanged lib_view destroy_mock"
  "unchanged sub_view (mk_Enable E ty)" "unchanged sub_view (mk_Disable ty)"
  "unchanged sub_view (mk_DisableCount ty)" "unchanged sub_view (mk_RegisterCallback b)"
  "unchanged sub_view new_mock" "unchanged sub_view destroy_mock"
  unfolding mock_defs command_def consult_def by (intro frame; simp add: status_views)+

lemma unchanged_case_lib_answer [frame]:
  "unchanged f m1 \<Longrightarrow> unchanged f m2 \<Longrightarrow> unchanged f m3 \<Longrightarrow> unchanged f m4 \<Longrightarrow>
     unchanged f (case x of NoSuchPath \<Rightarrow> m1 | CannotLoad \<Rightarrow> m2 | NoSymbols \<Rightarrow> m3 | Loaded \<Rightarrow> m4)"
  by (cases x) simp_all

lemmas client_defs = LoadAlgoLibrary_def LoadMockLibrary_def UnloadAlgoLibrary_def UnloadMockLibrary_def
  GetAlgoInst_def GetMockInst_def StartAlgo_def StartMock_def AlgoHandle_def MockHandle_def InitMsdpImpl_def
  AlgoDisable_def MockDisable_def ci_Disable_def RegisterImpl_def InitAlgoMngrInterface_def InitDataCallback_def
  dv_Enable_def dv_Disable_def

lemma client_told [frame]:
  "unchanged told_view (dv_Enable E ty)" "unchanged told_view (dv_Disable E ty)"
  unfolding client_defs command_def by (intro frame; simp add: told_view_def)+

lemma client_sub [frame]:
  "unchanged sub_view (dv_Enable E ty)" "unchanged sub_view (dv_Disable E ty)"
  unfolding client_defs command_def consult_def by (intro frame; simp add: sub_view_def)+

section \<open>Subscriptions and death watches\<close>

definition subs :: "nat \<Rightarrow> (i32 \<times> nat list) list \<Rightarrow> nat" where
  "subs a L = length (filter (\<lambda>p. a \<in> set (snd p)) L)"

definition subscriptions_ok :: "'s status_manager_scheme \<Rightarrow> bool" where
  "subscriptions_ok s \<longleftrightarrow> distinct (map fst (dv_listeners s))
     \<and> (\<forall>p \<in> set (dv_listeners s). valid_type (fst p) \<and> snd p \<noteq> [] \<and> oset_ok id (snd p))
     \<and> (\<forall>a. watches a (st_log s) = int (subs a (dv_listeners s)))"

lemma subscriptions_frame: "unchanged sub_view m \<Longrightarrow> keeps_inv subscriptions_ok m"
  by (simp add: unchanged_def keeps_inv_def sub_view_def subscriptions_ok_def fun_eq_iff)

lemma update_new: "map_of L k = None \<Longrightarrow> AList.update k v L = L @ [(k, v)]"
  by (induction L) auto

lemma subs_update:
  "distinct (map fst L) \<Longrightarrow> map_of L k = Some old \<Longrightarrow>
     int (subs a (AList.update k v L)) = int (subs a L) - of_bool (a \<in> set old) + of_bool (a \<in> set v)"
proof (induction L)
  case (Cons p L)
  show ?case
  proof (cases "fst p = k")
    case True
    then have "snd p = old"
      using Cons.prems(2) by (cases p) simp
    then show ?thesis
      using True by (cases p) (simp add: subs_def)
  next
    case False
    then show ?thesis
      using Cons by (cases p) (auto simp: subs_def)
  qed
qed simp

lemma subs_delete:
  "distinct (map fst L) \<Longrightarrow> map_of L k = Some old \<Longrightarrow>
     int (subs a (AList.delete k L)) = int (subs a L) - of_bool (a \<in> set old)"
proof (induction L)
  case (Cons p L)
  show ?case
  proof (cases "fst p = k")
    case True
    then have old: "snd p = old"
      using Cons.prems(2) by (cases p) simp
    have "AList.delete k L = L"
      using Cons.prems(1) True by (intro delete_id) auto
    then show ?thesis
      using True old by (cases p) (simp add: subs_def)
  next
    case False
    then show ?thesis
      using Cons by (cases p) (auto simp: subs_def)
  qed
qed simp

lemma set_update:
  "p \<in> set (AList.update k v L) \<Longrightarrow> p = (k, v) \<or> p \<in> set L"
  by (induction L) (auto split: if_splits)

lemma distinct_updated: "distinct (map fst L) \<Longrightarrow> distinct (map fst (AList.update k v L))"
  by (rule distinct_update)

lemma put_subscriptions:
  assumes "subscriptions_ok s" "valid_type ty" "map_of (dv_listeners s) ty = Some old" "new \<noteq> []" "oset_ok id new"
    and "\<And>b. watches b cs = of_bool (b \<in> set new) - of_bool (b \<in> set old)"
  shows "subscriptions_ok (s\<lparr>dv_listeners := AList.update ty new (dv_listeners s), st_log := st_log s @ cs\<rparr>)"
proof -
  let ?s = "s\<lparr>dv_listeners := AList.update ty new (dv_listeners s), st_log := st_log s @ cs\<rparr>"
  note ok = assms(1) [unfolded subscriptions_ok_def]
  have "distinct (map fst (dv_listeners ?s))"
    using ok by (simp add: distinct_updated)
  moreover have "\<forall>p \<in> set (dv_listeners ?s). valid_type (fst p) \<and> snd p \<noteq> [] \<and> oset_ok id (snd p)"
  proof
    fix p
    assume "p \<in> set (dv_listeners ?s)"
    then have "p = (ty, new) \<or> p \<in> set (dv_listeners s)"
      by (simp add: set_update)
    then show "valid_type (fst p) \<and> snd p \<noteq> [] \<and> oset_ok id (snd p)"
      using assms(2,4,5) ok by (elim disjE) simp_all
  qed
  moreover have "\<forall>b. watches b (st_log ?s) = int (subs b (dv_listeners ?s))"
    using ok assms(6) by (simp add: subs_update [OF _ assms(3)])
  ultimately show ?thesis
    unfolding subscriptions_ok_def by blast
qed

lemma Subscribe_subscriptions: "keeps_inv subscriptions_ok (dv_Subscribe E ty event callback)"
proof (rule keeps_invI)
  fix s :: "'s status_manager_scheme"
  assume ok: "subscriptions_ok s"
  let ?s = "s\<lparr>dv_event := event, dv_type := ty, dv_arrs := (dv_arrs s)(ty := event)\<rparr>"
  have s: "subscriptions_ok ?s"
    using ok by (simp add: subscriptions_ok_def)
  have enable: "subscriptions_ok (exec (dv_Enable E ty) t)" if "subscriptions_ok t" for t :: "'s status_manager_scheme"
    by (rule keeps_invD [OF subscriptions_frame that]) (rule client_sub)
  show "subscriptions_ok (exec (dv_Subscribe E ty event callback) s)"
  proof (cases "callback = NullCallback \<or> \<not> valid_type ty \<or> \<not> valid_event event")
    case True
    then show ?thesis
      using ok by (auto simp: dv_Subscribe_def)
  next
    case False
    show ?thesis
    proof (cases callback)
      case (Callback a)
      show ?thesis
      proof (cases "map_of (dv_listeners s) ty")
        case None
        have "subscriptions_ok (?s\<lparr>st_log := st_log s @ [DeathWatched a], dv_listeners := AList.update ty [a] (dv_listeners s)\<rparr>)"
          using s False None by (auto simp: subscriptions_ok_def update_new subs_def map_of_eq_None_iff)
        from enable [OF this] show ?thesis
          using False Callback None by (simp add: dv_Subscribe_def put_listeners_def)
      next
        case (Some cbs)
        show ?thesis
        proof (cases "a \<in> set cbs")
          case True
          then show ?thesis
            using s False Callback Some by (simp add: dv_Subscribe_def)
        next
          case new: False
          have old: "oset_ok id cbs"
            using ok map_of_SomeD [OF Some] by (force simp: subscriptions_ok_def)
          have set: "set (oset_insert id a cbs) = insert a (set cbs)"
            by (rule oset_insert_id_set)
          then have "oset_insert id a cbs \<noteq> []"
            by auto
          note added = put_subscriptions [OF s _ _ this oset_ok_insert [OF old], of ty cbs "[DeathWatched a]"]
          have watch: "watches b [DeathWatched a] = of_bool (b \<in> set (oset_insert id a cbs)) - of_bool (b \<in> set cbs)" for b
            using new unfolding set by auto
          have "subscriptions_ok (?s\<lparr>dv_listeners := AList.update ty (oset_insert id a cbs) (dv_listeners s),
              st_log := st_log s @ [DeathWatched a]\<rparr>)"
            using added [OF _ _ watch] False Some by (simp del: id_apply)
          from enable [OF this] show ?thesis
            using False Callback Some new by (simp add: dv_Subscribe_def put_listeners_def)
        qed
      qed
    qed (use s False in \<open>simp_all add: dv_Subscribe_def\<close>)
  qed
qed

lemma drop_subscriptions:
  assumes "subscriptions_ok s" "map_of (dv_listeners s) ty = Some old"
    and "\<And>b. watches b cs = - of_bool (b \<in> set old)"
  shows "subscriptions_ok (s\<lparr>st_log := st_log s @ cs, dv_listeners := AList.delete ty (dv_listeners s)\<rparr>)"
proof -
  let ?s = "s\<lparr>st_log := st_log s @ cs, dv_listeners := AList.delete ty (dv_listeners s)\<rparr>"
  note ok = assms(1) [unfolded subscriptions_ok_def]
  have "distinct (map fst (dv_listeners ?s))"
    using ok by (simp add: delete_keys distinct_removeAll)
  moreover have "\<forall>p \<in> set (dv_listeners ?s). valid_type (fst p) \<and> snd p \<noteq> [] \<and> oset_ok id (snd p)"
    using ok by (auto simp: AList.delete_eq)
  moreover have "\<forall>b. watches b (st_log ?s) = int (subs b (dv_listeners ?s))"
    using ok assms(3) by (simp add: subs_delete [OF _ assms(2)])
  ultimately show ?thesis
    unfolding subscriptions_ok_def by blast
qed

lemma Unsubscribe_exec:
  fixes a cbs
  assumes "valid_type ty" "valid_event event" "map_of (dv_listeners s) ty = Some cbs"
  defines "rest \<equiv> filter (\<lambda>x. x \<noteq> a) cbs"
  shows "a \<notin> set cbs \<Longrightarrow> exec (dv_Unsubscribe E ty event (Callback a)) s = s"
    "a \<in> set cbs \<Longrightarrow> rest \<noteq> [] \<Longrightarrow> exec (dv_Unsubscribe E ty event (Callback a)) s
       = s\<lparr>dv_listeners := AList.update ty rest (dv_listeners s), st_log := st_log s @ [DeathUnwatched a]\<rparr>"
    "a \<in> set cbs \<Longrightarrow> rest = [] \<Longrightarrow> exec (dv_Unsubscribe E ty event (Callback a)) s
       = (let t = s\<lparr>st_log := st_log s @ [DeathUnwatched a], dv_listeners := AList.delete ty (dv_listeners s)\<rparr>
          in if dv_listeners t = [] then exec (dv_Disable E ty) t else t)"
proof -
  have none: "dv_listeners s \<noteq> []"
    using assms(3) by auto
  have some: "AList.update ty rest (dv_listeners s) \<noteq> []"
    by (metis fun_upd_same map_of.simps(1) option.distinct(1) update_conv')
  note defs = dv_Unsubscribe_def put_listeners_def rest_def [symmetric]
  show "a \<notin> set cbs \<Longrightarrow> exec (dv_Unsubscribe E ty event (Callback a)) s = s"
    using assms(1,2) none by (simp add: defs assms(3))
  show "a \<in> set cbs \<Longrightarrow> rest \<noteq> [] \<Longrightarrow> exec (dv_Unsubscribe E ty event (Callback a)) s
       = s\<lparr>dv_listeners := AList.update ty rest (dv_listeners s), st_log := st_log s @ [DeathUnwatched a]\<rparr>"
    using assms(1,2) some by (simp add: defs assms(3))
  show "a \<in> set cbs \<Longrightarrow> rest = [] \<Longrightarrow> exec (dv_Unsubscribe E ty event (Callback a)) s
       = (let t = s\<lparr>st_log := st_log s @ [DeathUnwatched a], dv_listeners := AList.delete ty (dv_listeners s)\<rparr>
          in if dv_listeners t = [] then exec (dv_Disable E ty) t else t)"
    using assms(1,2) by (simp add: defs assms(3) delete_update_same Let_def)
qed

lemma Unsubscribe_subscriptions: "keeps_inv subscriptions_ok (dv_Unsubscribe E ty event callback)"
proof (rule keeps_invI)
  fix s :: "'s status_manager_scheme"
  assume ok: "subscriptions_ok s"
  have disable: "subscriptions_ok (exec (dv_Disable E ty) t)" if "subscriptions_ok t" for t :: "'s status_manager_scheme"
    by (rule keeps_invD [OF subscriptions_frame that]) (rule client_sub)
  show "subscriptions_ok (exec (dv_Unsubscribe E ty event callback) s)"
  proof (cases "callback = NullCallback \<or> \<not> valid_type ty \<or> \<not> valid_event event")
    case True
    then show ?thesis
      using ok by (auto simp: dv_Unsubscribe_def)
  next
    case False
    show ?thesis
    proof (cases callback)
      case (Callback a)
      show ?thesis
      proof (cases "map_of (dv_listeners s) ty")
        case None
        then show ?thesis
          using ok False Callback by (simp add: dv_Unsubscribe_def)
      next
        case (Some cbs)
        let ?rest = "filter (\<lambda>x. x \<noteq> a) cbs"
        have old: "oset_ok id cbs"
          using ok map_of_SomeD [OF Some] by (force simp: subscriptions_ok_def)
        have fewer: "subscriptions_ok (s\<lparr>dv_listeners := AList.update ty ?rest (dv_listeners s), st_log := st_log s @ [DeathUnwatched a]\<rparr>)"
          if "a \<in> set cbs" "?rest \<noteq> []"
        proof (rule put_subscriptions [OF ok _ Some that(2) sorted_wrt_filter [OF old]])
          show "valid_type ty"
            using False by simp
          show "watches b [DeathUnwatched a] = of_bool (b \<in> set ?rest) - of_bool (b \<in> set cbs)" for b
            using that(1) by auto
        qed
        have dropped: "subscriptions_ok (s\<lparr>st_log := st_log s @ [DeathUnwatched a], dv_listeners := AList.delete ty (dv_listeners s)\<rparr>)"
          if "a \<in> set cbs" "?rest = []"
        proof (rule drop_subscriptions [OF ok Some])
          have "set cbs = {a}"
            using that(1) that(2) [unfolded filter_empty_conv] by blast
          then show "watches b [DeathUnwatched a] = - of_bool (b \<in> set cbs)" for b
            by simp
        qed
        have "valid_type ty" "valid_event event"
          using False by simp_all
        note unsubscribed = Unsubscribe_exec [OF this Some, of a E]
        consider "a \<notin> set cbs" | "a \<in> set cbs" "?rest \<noteq> []" | "a \<in> set cbs" "?rest = []"
          by blast
        then show ?thesis
        proof cases
          case 1
          then show ?thesis
            unfolding Callback unsubscribed(1) [OF 1] by (intro ok)
        next
          case 2
          then show ?thesis
            unfolding Callback unsubscribed(2) [OF 2] by (intro fewer)
        next
          case 3
          show ?thesis
            unfolding Callback unsubscribed(3) [OF 3] Let_def by (simp only: dropped [OF 3] disable [OF dropped [OF 3]] simp_thms split: if_split)
        qed
      qed
    qed (use ok False in \<open>simp_all add: dv_Unsubscribe_def\<close>)
  qed
qed

section \<open>Turns of the threads\<close>

lemma keeps_inv_case_mock_answer [keeps]:
  "keeps_inv I m1 \<Longrightarrow> keeps_inv I m2 \<Longrightarrow> (\<And>item. keeps_inv I (m3 item)) \<Longrightarrow>
     keeps_inv I (case x of FileMissing \<Rightarrow> m1 | TopArray \<Rightarrow> m2 | TopObject item \<Rightarrow> m3 item)"
  by (cases x) simp_all

lemma keeps_inv_case_list [keeps]:
  "keeps_inv I m \<Longrightarrow> (\<And>x xs. keeps_inv I (k x xs)) \<Longrightarrow> keeps_inv I (case v of [] \<Rightarrow> m | x # xs \<Rightarrow> k x xs)"
  by (cases v) simp_all

lemma turn_keeps:
  assumes "\<And>ty v. keeps_inv I (on_result ty v)"
    and "\<And>s d. I s \<Longrightarrow> I (s\<lparr>sd_data := d\<rparr>)" "\<And>s a. I s \<Longrightarrow> I (s\<lparr>am_algos := a\<rparr>)"
    and "\<And>s ty. I s \<Longrightarrow> I (s\<lparr>st_log := st_log s @ [UseAfterFree ty]\<rparr>)"
  shows "keeps_inv I (AlgorithmLoop_turn E on_result)"
  unfolding AlgorithmLoop_turn_def HandleSensorEvent_def PopData_def NotifyCallback_def call_algorithm_def command_def
  by (intro keeps assms)

lemma tick_keeps:
  assumes "\<And>ty v. keeps_inv I (on_result ty v)"
    and "\<And>s c. I s \<Longrightarrow> I (s\<lparr>st_clock := c\<rparr>)" "\<And>s a. I s \<Longrightarrow> I (s\<lparr>mk_tempcount := a\<rparr>)"
  shows "keeps_inv I (mock_tick E on_result)"
  unfolding mock_tick_def TimerCallback_def GetDeviceStatusData_def ParseDeviceStatusData_def DeviceStatusDataInit_def
    NotifyMsdpImpl_def consult_def
  by (intro keeps assms)

lemma on_result_keeps:
  fixes I :: "'s status_manager_scheme \<Rightarrow> bool"
  assumes "\<And>s l ds. I s \<Longrightarrow> st_log (exec (dv_on_result ty v) s) = l \<Longrightarrow>
    I (s\<lparr>st_log := l, ci_deviceStatusDatas := ds, ci_notifyManagerFlag := False\<rparr>)"
  shows "keeps_inv I (dv_on_result ty v)"
proof (rule keeps_invI)
  fix s :: "'s status_manager_scheme"
  assume "I s"
  moreover obtain l ds where "exec (dv_on_result ty v) s = s\<lparr>st_log := l, ci_deviceStatusDatas := ds, ci_notifyManagerFlag := False\<rparr>"
    using on_result_state by blast
  ultimately show "I (exec (dv_on_result ty v) s)"
    using assms [of s l ds] by simp
qed

lemma keeps_inv_case_dev_callback [keeps]:
  "keeps_inv I m1 \<Longrightarrow> keeps_inv I m2 \<Longrightarrow> (\<And>a. keeps_inv I (m3 a)) \<Longrightarrow>
     keeps_inv I (case x of NullCallback \<Rightarrow> m1 | NoObject \<Rightarrow> m2 | Callback a \<Rightarrow> m3 a)"
  by (cases x) simp_all

lemma handle_keeps:
  assumes "\<And>ty event cb. keeps_inv I (dv_Subscribe E ty event cb)" "\<And>ty event cb. keeps_inv I (dv_Unsubscribe E ty event cb)"
    and "\<And>d. keeps_inv I (PushData d)" "keeps_inv I (AlgorithmLoop_turn E dv_on_result)" "keeps_inv I (mock_tick E dv_on_result)"
  shows "keeps_inv I (status_handle E e)"
  using assms
  by (cases e) (simp_all add: keeps_inv_def status_handle_def SubscribeStationaryCallback_def
    UnsubscribeStationaryCallback_def OnRemoteDied_def)

section \<open>The watches are the subscriptions\<close>

lemma told_only_watches: "watches a (st_log (exec (tell_listeners ty v event cbs) s)) = watches a (st_log s)"
  by (induction cbs arbitrary: s) auto

lemma on_result_watches: "watches a (st_log (exec (dv_on_result ty v) s)) = watches a (st_log s)"
  by (simp add: dv_on_result_def OnResult_def MsdpCallback_def SaveObserverData_def ImplCallback_def MsdpDataCallback_def
    NotifyDeviceStatusChange_def told_only_watches split: option.split)

lemma handle_subscriptions: "keeps_inv subscriptions_ok (status_handle E e)"
proof -
  have result: "keeps_inv subscriptions_ok (dv_on_result ty v)" for ty v
  proof (rule on_result_keeps)
    fix s :: "'s status_manager_scheme" and l ds
    assume "subscriptions_ok s" "st_log (exec (dv_on_result ty v) s) = l"
    moreover from this(2) have "watches a l = watches a (st_log s)" for a
      using on_result_watches [of a ty v s] by simp
    ultimately show "subscriptions_ok (s\<lparr>st_log := l, ci_deviceStatusDatas := ds, ci_notifyManagerFlag := False\<rparr>)"
      by (simp add: subscriptions_ok_def)
  qed
  have turn: "keeps_inv subscriptions_ok (AlgorithmLoop_turn E dv_on_result)"
    by (rule turn_keeps [OF result]) (simp_all add: subscriptions_ok_def)
  have tick: "keeps_inv subscriptions_ok (mock_tick E dv_on_result)"
    by (rule tick_keeps [OF result]) (simp_all add: subscriptions_ok_def)
  have push: "keeps_inv subscriptions_ok (PushData d)" for d
    unfolding PushData_def by (intro keeps) (simp add: subscriptions_ok_def)
  show ?thesis
    by (rule handle_keeps [OF Subscribe_subscriptions Unsubscribe_subscriptions push turn tick])
qed

lemma new_subscriptions: "subscriptions_ok new_status_manager"
  by (simp add: subscriptions_ok_def subs_def new_status_manager_def dv_Init_def before_init_def)

text \<open>
  C16. Whatever clients, sensor and threads do, no set of subscribers is empty or holds one twice,
  and a client's remote object is watched for its death exactly as often as the client is subscribed.
\<close>

theorem watch_balance: "subscriptions_ok (status_run E es new_status_manager)"
  by (rule status_run_keeps [OF handle_subscriptions new_subscriptions])

section \<open>Who is told\<close>

text \<open>
  What the calls so far say, read off the events alone. A call counts if the server and the manager
  let it pass; the last one that counts decides.
\<close>

definition call_passes :: "i32 \<Rightarrow> i32 \<Rightarrow> bool" where
  "call_passes ty event \<longleftrightarrow> ty \<noteq> TYPE_STAND \<and> valid_type ty \<and> valid_event event"

fun membership_call :: "nat \<Rightarrow> i32 \<Rightarrow> status_event \<Rightarrow> bool option" where
  "membership_call cb ty (ClientSubscribes ty' event (Callback c)) =
     (if c = cb \<and> ty' = ty \<and> call_passes ty event then Some True else None)"
| "membership_call cb ty (ClientUnsubscribes ty' event (Callback c)) =
     (if c = cb \<and> ty' = ty \<and> call_passes ty event then Some False else None)"
| "membership_call cb ty _ = None"

fun event_call :: "i32 \<Rightarrow> status_event \<Rightarrow> i32 option" where
  "event_call ty (ClientSubscribes ty' event cb) =
     (if ty' = ty \<and> cb \<noteq> NullCallback \<and> call_passes ty event then Some event else None)"
| "event_call ty _ = None"

primrec last_call :: "(status_event \<Rightarrow> 'a option) \<Rightarrow> status_event list \<Rightarrow> 'a option" where
  "last_call f [] = None"
| "last_call f (e # es) = (case last_call f es of None \<Rightarrow> f e | Some x \<Rightarrow> Some x)"

definition has_subscribed :: "status_event list \<Rightarrow> nat \<Rightarrow> i32 \<Rightarrow> bool" where
  "has_subscribed es cb ty \<longleftrightarrow> last_call (membership_call cb ty) es = Some True"

definition last_event :: "status_event list \<Rightarrow> i32 \<Rightarrow> i32" where
  "last_event es ty = (case last_call (event_call ty) es of None \<Rightarrow> 0 | Some event \<Rightarrow> event)"

lemma last_call_snoc: "last_call f (es @ [e]) = (case f e of None \<Rightarrow> last_call f es | Some x \<Rightarrow> Some x)"
  by (induction es) (auto split: option.split)

lemma sub_lists:
  "unchanged sub_view m \<Longrightarrow> unchanged dv_listeners m" "unchanged sub_view m \<Longrightarrow> unchanged dv_arrs m"
  by (simp_all add: unchanged_def sub_view_def)

lemmas client_lists = client_sub [THEN sub_lists(1)] client_sub [THEN sub_lists(2)]

lemmas lists_kept = client_lists [unfolded unchanged_def, rule_format]

lemma Subscribe_lists:
  assumes "callback \<noteq> NullCallback" "valid_type ty" "valid_event event"
  shows "dv_arrs (exec (dv_Subscribe E ty event callback) s) = (dv_arrs s)(ty := event)"
    "set (subscribers (exec (dv_Subscribe E ty event callback) s) ty') =
       set (subscribers s ty') \<union> {a. callback = Callback a \<and> ty' = ty}"
  using assms
  by (auto simp: dv_Subscribe_def put_listeners_def lists_kept subscribers_def update_conv' oset_insert_id_set
    split: dev_callback.splits option.splits if_splits)

lemma Unsubscribe_lists:
  "dv_arrs (exec (dv_Unsubscribe E ty event callback) s) = dv_arrs s"
  "valid_type ty \<Longrightarrow> valid_event event \<Longrightarrow>
     subscribers (exec (dv_Unsubscribe E ty event (Callback a)) s) ty' =
       (if ty' = ty then filter (\<lambda>x. x \<noteq> a) (subscribers s ty) else subscribers s ty')"
proof -
  show "dv_arrs (exec (dv_Unsubscribe E ty event callback) s) = dv_arrs s"
    by (cases callback) (auto simp: dv_Unsubscribe_def put_listeners_def lists_kept split: option.split)
  show "subscribers (exec (dv_Unsubscribe E ty event (Callback a)) s) ty' =
       (if ty' = ty then filter (\<lambda>x. x \<noteq> a) (subscribers s ty) else subscribers s ty')"
    if valid: "valid_type ty" "valid_event event"
  proof (cases "map_of (dv_listeners s) ty")
    case None
    then show ?thesis
      using valid by (simp add: dv_Unsubscribe_def subscribers_def lists_kept)
  next
    case (Some cbs)
    note left = Unsubscribe_exec [OF valid Some, of a E]
    have disabled: "dv_listeners (if dv_listeners t = [] then exec (dv_Disable E ty) t else t) = dv_listeners t"
      for t :: "'a status_manager_scheme"
      by (simp add: lists_kept)
    consider "a \<notin> set cbs" | "a \<in> set cbs" "filter (\<lambda>x. x \<noteq> a) cbs \<noteq> []" | "a \<in> set cbs" "filter (\<lambda>x. x \<noteq> a) cbs = []"
      by blast
    then show ?thesis
    proof cases
      case 1
      have "filter (\<lambda>x. x \<noteq> a) cbs = cbs"
        using 1 by (auto simp: filter_id_conv)
      then show ?thesis
        unfolding left(1) [OF 1] by (simp add: subscribers_def Some)
    next
      case 2
      show ?thesis
        unfolding left(2) [OF 2] by (simp add: subscribers_def Some update_conv')
    next
      case 3
      show ?thesis
        unfolding left(3) [OF 3] Let_def subscribers_def disabled by (simp add: Some 3(2) delete_conv')
    qed
  qed
qed

section \<open>Nobody else is told\<close>

definition told_of :: "'s status_manager_scheme \<Rightarrow> i32 \<Rightarrow> i32 \<Rightarrow> (nat \<times> i32 \<times> i32) list" where
  "told_of s ty v = (if wanted (dv_arrs s ty) v then map (\<lambda>cb. (cb, ty, v)) (subscribers s ty) else [])"

definition status_told_ok :: "'s status_manager_scheme \<Rightarrow> 's status_manager_scheme \<Rightarrow> bool" where
  "status_told_ok s t \<longleftrightarrow> dv_listeners t = dv_listeners s \<and> dv_arrs t = dv_arrs s
     \<and> (\<exists>reports. told (st_log t) = told (st_log s) @ concat (map (\<lambda>(ty, v). told_of s ty v) reports))"

lemma report_told_ok: "keeps_inv (status_told_ok s) (dv_on_result ty v)"
proof (rule on_result_keeps)
  fix t l ds
  assume t: "status_told_ok s t" and l: "st_log (exec (dv_on_result ty v) t) = l"
  obtain reports where reports: "told (st_log t) = told (st_log s) @ concat (map (\<lambda>(ty, v). told_of s ty v) reports)"
    using t by (auto simp: status_told_ok_def)
  have same: "told_of t ty v = told_of s ty v"
    using t by (simp add: told_of_def status_told_ok_def subscribers_def)
  have "told l = told (st_log t) @ (if ci_callBacksMgr t \<and> valid_type ty then told_of s ty v else [])"
    using report_told [of ty v t] unfolding l same [symmetric] by (simp add: told_of_def)
  then have "told l = told (st_log s) @ concat (map (\<lambda>(ty, v). told_of s ty v)
      (reports @ (if ci_callBacksMgr t \<and> valid_type ty then [(ty, v)] else [])))"
    by (cases "ci_callBacksMgr t \<and> valid_type ty") (simp_all only: reports simp_thms if_True if_False map_append concat_append
      list.map concat.simps prod.case append_Nil2 append_assoc)
  then show "status_told_ok s (t\<lparr>st_log := l, ci_deviceStatusDatas := ds, ci_notifyManagerFlag := False\<rparr>)"
    using t unfolding status_told_ok_def by (auto simp del: concat_append map_append)
qed

lemma subscribing_tells_none:
  "unchanged told_view (dv_Subscribe E ty event callback)" "unchanged told_view (dv_Unsubscribe E ty event callback)"
proof -
  have case_cb: "unchanged told_view (case x of NullCallback \<Rightarrow> m1 | NoObject \<Rightarrow> m2 | Callback a \<Rightarrow> m3 a)"
    if "unchanged told_view m1" "unchanged told_view m2" "\<And>a. unchanged told_view (m3 a)"
    for x and m1 m2 :: "('s status_manager_scheme, unit) state" and m3
    using that by (cases x) simp_all
  show "unchanged told_view (dv_Subscribe E ty event callback)"
    unfolding dv_Subscribe_def put_listeners_def command_def by (intro frame case_cb; simp add: told_view_def)
  show "unchanged told_view (dv_Unsubscribe E ty event callback)"
    unfolding dv_Unsubscribe_def put_listeners_def command_def by (intro frame case_cb; simp add: told_view_def)
qed

lemma step_told_ok:
  assumes "\<not> (\<exists>ty event cb. e = ClientSubscribes ty event cb \<or> e = ClientUnsubscribes ty event cb)"
  shows "status_told_ok s (exec (status_handle E e) s)"
proof -
  have s: "status_told_ok s s"
    by (simp add: status_told_ok_def exI [of _ "[]"])
  have "keeps_inv (status_told_ok s) (AlgorithmLoop_turn E dv_on_result)"
    by (rule turn_keeps [OF report_told_ok]) (simp_all add: status_told_ok_def)
  then have turn: "status_told_ok s (exec (AlgorithmLoop_turn E dv_on_result) s)"
    using s by (rule keeps_invD)
  have "keeps_inv (status_told_ok s) (mock_tick E dv_on_result)"
    by (rule tick_keeps [OF report_told_ok]) (simp_all add: status_told_ok_def)
  then have tick: "status_told_ok s (exec (mock_tick E dv_on_result) s)"
    using s by (rule keeps_invD)
  show ?thesis
    using turn tick s assms
    by (cases e) (simp_all add: status_handle_def OnRemoteDied_def PushData_def status_told_ok_def)
qed

lemma status_handle_told:
  "\<exists>reports. told (st_log (exec (status_handle E e) s))
     = told (st_log s) @ concat (map (\<lambda>(ty, v). told_of s ty v) reports)"
proof (cases "\<exists>ty event cb. e = ClientSubscribes ty event cb \<or> e = ClientUnsubscribes ty event cb")
  case True
  have calls: "told (st_log (exec (dv_Subscribe E ty event callback) s)) = told (st_log s)"
    "told (st_log (exec (dv_Unsubscribe E ty event callback) s)) = told (st_log s)" for ty event callback
    by (rule subscribing_tells_none [unfolded unchanged_def told_view_def, rule_format])+
  have "told (st_log (exec (status_handle E e) s)) = told (st_log s)"
    using True by (auto simp: status_handle_def SubscribeStationaryCallback_def UnsubscribeStationaryCallback_def calls)
  then show ?thesis
    by (auto intro: exI [of _ "[]"])
next
  case False
  then show ?thesis
    using step_told_ok [OF False, of s E] by (simp add: status_told_ok_def)
qed

text \<open>One step, as the events tell it.\<close>

lemma handle_lists:
  "a \<in> set (subscribers (exec (status_handle E e) s) ty) \<longleftrightarrow>
     (case membership_call a ty e of None \<Rightarrow> a \<in> set (subscribers s ty) | Some m \<Rightarrow> m)"
  "dv_arrs (exec (status_handle E e) s) ty = (case event_call ty e of None \<Rightarrow> dv_arrs s ty | Some event \<Rightarrow> event)"
proof -
  have "(a \<in> set (subscribers (exec (status_handle E e) s) ty) \<longleftrightarrow>
       (case membership_call a ty e of None \<Rightarrow> a \<in> set (subscribers s ty) | Some m \<Rightarrow> m))
    \<and> dv_arrs (exec (status_handle E e) s) ty = (case event_call ty e of None \<Rightarrow> dv_arrs s ty | Some event \<Rightarrow> event)"
  proof (cases e)
    case (ClientSubscribes t event cb)
    show ?thesis
    proof (cases "cb \<noteq> NullCallback \<and> call_passes t event")
      case True
      then have "cb \<noteq> NullCallback" "valid_type t" "valid_event event" "t \<noteq> TYPE_STAND"
        by (simp_all add: call_passes_def)
      note passes = this
      show ?thesis
        using passes True
        by (cases cb) (simp_all add: ClientSubscribes status_handle_def SubscribeStationaryCallback_def Subscribe_lists)
    next
      case False
      then have "exec (status_handle E e) s = s"
        by (auto simp: ClientSubscribes status_handle_def SubscribeStationaryCallback_def dv_Subscribe_def call_passes_def)
      then show ?thesis
        using False by (cases cb) (auto simp: ClientSubscribes)
    qed
  next
    case (ClientUnsubscribes t event cb)
    show ?thesis
    proof (cases "\<exists>b. cb = Callback b \<and> call_passes t event")
      case True
      then obtain b where b: "cb = Callback b" "call_passes t event"
        by blast
      then show ?thesis
        by (auto simp: ClientUnsubscribes status_handle_def UnsubscribeStationaryCallback_def Unsubscribe_lists call_passes_def)
    next
      case False
      then have "exec (status_handle E e) s = s"
        by (cases cb) (auto simp: ClientUnsubscribes status_handle_def UnsubscribeStationaryCallback_def dv_Unsubscribe_def
          call_passes_def)
      then show ?thesis
        using False by (cases cb) (auto simp: ClientUnsubscribes)
    qed
  qed (use step_told_ok [of e s E] in \<open>simp_all add: status_told_ok_def subscribers_def\<close>)
  then show "a \<in> set (subscribers (exec (status_handle E e) s) ty) \<longleftrightarrow>
       (case membership_call a ty e of None \<Rightarrow> a \<in> set (subscribers s ty) | Some m \<Rightarrow> m)"
    "dv_arrs (exec (status_handle E e) s) ty = (case event_call ty e of None \<Rightarrow> dv_arrs s ty | Some event \<Rightarrow> event)"
    by simp_all
qed

lemma run_lists:
  "a \<in> set (subscribers (status_run E es new_status_manager) ty) \<longleftrightarrow> has_subscribed es a ty"
  "dv_arrs (status_run E es new_status_manager) ty = last_event es ty"
proof (induction es rule: rev_induct)
  case Nil
  show "a \<in> set (subscribers (status_run E [] new_status_manager) ty) \<longleftrightarrow> has_subscribed [] a ty"
    "dv_arrs (status_run E [] new_status_manager) ty = last_event [] ty"
    by (simp_all add: has_subscribed_def last_event_def subscribers_def new_status_manager_def dv_Init_def before_init_def)
next
  case (snoc e es)
  show "a \<in> set (subscribers (status_run E (es @ [e]) new_status_manager) ty) \<longleftrightarrow> has_subscribed (es @ [e]) a ty"
    "dv_arrs (status_run E (es @ [e]) new_status_manager) ty = last_event (es @ [e]) ty"
    using snoc.IH
    by (simp_all add: handle_lists has_subscribed_def last_event_def last_call_snoc split: option.split)
qed

text \<open>The clients subscribed to a type, in the order of the set, and what each is told of a report.\<close>

definition clients :: "status_event list \<Rightarrow> i32 \<Rightarrow> nat list" where
  "clients es ty = sort (filter (\<lambda>cb. has_subscribed es cb ty)
     (remdups (concat (map (\<lambda>e. case e of ClientSubscribes t event (Callback cb) \<Rightarrow> [cb] | _ \<Rightarrow> []) es))))"

definition report_tells :: "status_event list \<Rightarrow> i32 \<times> i32 \<Rightarrow> (nat \<times> i32 \<times> i32) list" where
  "report_tells es r = (if wanted (last_event es (fst r)) (snd r) then map (\<lambda>cb. (cb, r)) (clients es (fst r)) else [])"

lemma membership_named:
  "last_call (membership_call cb ty) es = Some True \<Longrightarrow> \<exists>t event. ClientSubscribes t event (Callback cb) \<in> set es"
proof (induction es)
  case (Cons e es)
  show ?case
  proof (cases "last_call (membership_call cb ty) es")
    case None
    then have "membership_call cb ty e = Some True"
      using Cons.prems by simp
    then show ?thesis
      by (cases "(cb, ty, e)" rule: membership_call.cases) (auto split: if_splits)
  next
    case (Some m)
    then show ?thesis
      using Cons by auto
  qed
qed simp

lemma run_clients: "subscribers (status_run E es new_status_manager) ty = clients es ty"
proof (rule sorted_distinct_set_unique)
  let ?s = "status_run E es new_status_manager"
  have "subscriptions_ok ?s"
    by (rule status_run_keeps [OF handle_subscriptions new_subscriptions])
  then have ok: "oset_ok id (subscribers ?s ty)"
    by (auto simp: subscriptions_ok_def subscribers_def dest: map_of_SomeD split: option.split)
  show "sorted (subscribers ?s ty)"
    using ok by (simp add: strict_sorted_iff)
  show "distinct (subscribers ?s ty)"
    using ok by (simp add: strict_sorted_iff)
  show "set (subscribers ?s ty) = set (clients es ty)"
    using membership_named [of _ ty es]
    by (force simp: clients_def run_lists has_subscribed_def split: status_event.split dev_callback.split)
qed (simp_all add: clients_def)

text \<open>
  C17. After any history of calls, deaths, samples, turns and timer expiries, what the next event
  makes the manager tell is a sequence of reports, and of each report every client is told once that
  has subscribed to its type and not unsubscribed since, in the order of the set, if the event asked
  for in the last subscription to that type, whoever made it, wants the value, and else nobody. So
  an unsubscribed client hears nothing, and none of the subscribed ones misses what another hears.
\<close>

theorem only_subscribers_told:
  "\<exists>reports. told (st_log (status_run E (es @ [e]) new_status_manager))
     = told (st_log (status_run E es new_status_manager)) @ concat (map (report_tells es) reports)"
proof -
  obtain reports where "told (st_log (exec (status_handle E e) (status_run E es new_status_manager)))
      = told (st_log (status_run E es new_status_manager))
        @ concat (map (\<lambda>(ty, v). told_of (status_run E es new_status_manager) ty v) reports)"
    using status_handle_told by blast
  moreover have "(\<lambda>(ty, v). told_of (status_run E es new_status_manager) ty v) = report_tells es"
    by (auto simp: report_tells_def told_of_def run_lists run_clients fun_eq_iff)
  ultimately show ?thesis
    by auto
qed

section \<open>The algorithm library\<close>

text \<open>Once \<open>h\<close>, the library is loaded; once \<open>i\<close>, its object is in use.\<close>

definition lib_ok :: "bool \<Rightarrow> bool \<Rightarrow> 's status_manager_scheme \<Rightarrow> bool" where
  "lib_ok h i s \<longleftrightarrow> dv_impl s \<and> all_counted (ci_algoCallCounts s) \<and> (h \<longrightarrow> ci_algoHandle s) \<and> (i \<longrightarrow> ci_iAlgo s)
     \<and> (ci_iAlgo s \<longrightarrow> ci_algoHandle s)"

lemma lib_frame: "unchanged lib_view m \<Longrightarrow> unchanged ci_iAlgo m \<Longrightarrow> keeps_inv (lib_ok h i) m"
  by (simp add: unchanged_def keeps_inv_def lib_view_def lib_ok_def)

lemma sensors_iAlgo [frame]:
  "unchanged ci_iAlgo (am_Enable E ty)" "unchanged ci_iAlgo (am_Disable E ty)"
  "unchanged ci_iAlgo am_RegisterCallback" "unchanged ci_iAlgo new_AlgoMgr"
  unfolding sensor_defs command_def consult_def by (intro frame; simp)+

lemma mock_iAlgo [frame]:
  "unchanged ci_iAlgo (mk_Enable E ty)" "unchanged ci_iAlgo (mk_Disable ty)" "unchanged ci_iAlgo (mk_DisableCount ty)"
  "unchanged ci_iAlgo (mk_RegisterCallback b)" "unchanged ci_iAlgo new_mock" "unchanged ci_iAlgo destroy_mock"
  unfolding mock_defs command_def consult_def by (intro frame; simp)+

lemma mock_handle_lib: "keeps_inv (lib_ok h i) (MockHandle E ty)" "keeps_inv (lib_ok h i) (MockDisable ty)"
proof -
  note defs = MockHandle_def MockDisable_def StartMock_def LoadMockLibrary_def GetMockInst_def command_def consult_def
  show "keeps_inv (lib_ok h i) (MockHandle E ty)"
    unfolding defs by (rule lib_frame; intro frame; simp add: lib_view_def)
  show "keeps_inv (lib_ok h i) (MockDisable ty)"
    unfolding defs by (rule lib_frame; intro frame; simp add: lib_view_def)
qed

lemma StartAlgo_lib: "keeps_inv (lib_ok h i) (StartAlgo E)"
  by (rule keeps_invI) (auto simp: StartAlgo_def LoadAlgoLibrary_def GetAlgoInst_def new_AlgoMgr_def lib_ok_def
    split: lib_answer.split)

lemma AlgoHandle_lib: "keeps_inv (lib_ok h i) (AlgoHandle E ty)"
proof -
  have "keeps_inv (lib_ok h i) (modify (\<lambda>s. s\<lparr>ci_algoCallCounts := counted ty (ci_algoCallCounts s)\<rparr>))"
    by (rule keeps_inv_modify) (simp add: lib_ok_def all_counted_counted)
  moreover have "keeps_inv (lib_ok h i) (am_Enable E ty)" "keeps_inv (lib_ok h i) am_RegisterCallback"
    by (rule lib_frame; rule sensors_lib sensors_iAlgo)+
  ultimately show ?thesis
    unfolding AlgoHandle_def by (intro keeps_inv_if keeps_inv_bind keeps_inv_return StartAlgo_lib)
qed

lemma Enable_lib: "keeps_inv (lib_ok h i) (dv_Enable E ty)"
proof -
  have "keeps_inv (lib_ok h i) (InitMsdpImpl E ty)"
    unfolding InitMsdpImpl_def
    by (intro keeps_inv_if keeps_inv_bind keeps_inv_return AlgoHandle_lib mock_handle_lib)
  moreover have "keeps_inv (lib_ok h i) RegisterImpl"
    unfolding RegisterImpl_def by (rule lib_frame; intro frame; simp add: lib_view_def)
  ultimately show ?thesis
    unfolding dv_Enable_def InitAlgoMngrInterface_def InitDataCallback_def
    by (intro keeps_inv_if keeps_inv_bind keeps_inv_return keeps_inv_gets)
qed

lemma valid_types: "valid_type ty \<Longrightarrow> ty \<in> {0, 1, 2, 3, 4, 5, 6, 7}"
proof -
  assume "valid_type ty"
  then have "sint ty \<in> {0, 1, 2, 3, 4, 5, 6, 7}"
    by (auto simp: valid_type_def word_sless_alt)
  then have "word_of_int (sint ty) \<in> {0, 1, 2, 3, 4, 5, 6, 7 :: i32}"
    by (elim insertE emptyE) simp_all
  then show ?thesis
    by simp
qed

text \<open>Disabling: the type is erased from the counters and put back at the end.\<close>

lemma AlgoDisable_exec:
  assumes "lib_ok h True s" "valid_type ty"
  shows "result_of (AlgoDisable E ty) s = RET_OK"
    "\<exists>t. (t = s \<or> t = exec (am_Disable E ty) s) \<and> exec (AlgoDisable E ty) s
       = t\<lparr>ci_algoCallCounts := AList.update ty 0 (AList.delete ty (ci_algoCallCounts t))\<rparr>"
proof -
  note ok = assms(1) [unfolded lib_ok_def]
  have "map_of (ci_algoCallCounts s) ty \<noteq> None"
    using ok valid_types [OF assms(2)] by (auto simp: all_counted_def)
  then obtain n where n: "map_of (ci_algoCallCounts s) ty = Some n"
    by blast
  obtain t where t: "t = (if n \<noteq> 0 then exec (am_Disable E ty) s else s)"
    by simp
  have "lib_ok h True (exec (am_Disable E ty) s)"
    by (rule keeps_invD [OF lib_frame [OF sensors_lib(2) sensors_iAlgo(2)] assms(1)])
  then have "lib_ok h True t"
    using assms(1) by (simp add: t)
  then have "AList.delete ty (ci_algoCallCounts t) \<noteq> []"
    by (intro all_counted_delete) (simp add: lib_ok_def)
  then show "result_of (AlgoDisable E ty) s = RET_OK"
    "\<exists>t. (t = s \<or> t = exec (am_Disable E ty) s) \<and> exec (AlgoDisable E ty) s
       = t\<lparr>ci_algoCallCounts := AList.update ty 0 (AList.delete ty (ci_algoCallCounts t))\<rparr>"
    using ok n by (auto simp: AlgoDisable_def t)
qed

lemma AlgoDisable_lib: "keeps_inv (lib_ok h i) (AlgoDisable E ty)"
proof -
  have erase: "keeps_inv (lib_ok h i) (do {
         modify (\<lambda>s. s\<lparr>ci_algoCallCounts := AList.delete ty (ci_algoCallCounts s)\<rparr>);
         empty \<leftarrow> gets (\<lambda>s. ci_algoCallCounts s = []);
         unloaded \<leftarrow> (if empty then UnloadAlgoLibrary else pure RET_OK);
         if unloaded = RET_ERR then pure RET_ERR
         else do {
           only_if empty (modify (\<lambda>s. s\<lparr>ci_iAlgo := False, ci_callBacksMgr := False\<rparr>));
           modify (\<lambda>s. s\<lparr>ci_algoCallCounts := AList.update ty 0 (ci_algoCallCounts s)\<rparr>);
           pure RET_OK } })"
    by (rule keeps_invI) (simp add: lib_ok_def all_counted_delete all_counted_put_back)
  have "keeps_inv (lib_ok h i) (am_Disable E ty)"
    by (rule lib_frame; rule sensors_lib sensors_iAlgo)
  then show ?thesis
    unfolding AlgoDisable_def
    by (intro keeps_inv_if keeps_inv_bind keeps_inv_case_option keeps_inv_return keeps_inv_gets keeps_inv_only_if
      keeps_inv_skip erase)
qed

lemma Disable_lib: "keeps_inv (lib_ok h i) (dv_Disable E ty)"
  unfolding dv_Disable_def ci_Disable_def
  by (intro keeps_inv_if keeps_inv_bind keeps_inv_return keeps_inv_gets AlgoDisable_lib mock_handle_lib)

lemma handle_lib: "keeps_inv (lib_ok h i) (status_handle E e)"
proof -
  have result: "keeps_inv (lib_ok h i) (dv_on_result ty v)" for ty v
    by (rule on_result_keeps) (simp add: lib_ok_def)
  have turn: "keeps_inv (lib_ok h i) (AlgorithmLoop_turn E dv_on_result)"
    by (rule turn_keeps [OF result]) (simp_all add: lib_ok_def)
  have tick: "keeps_inv (lib_ok h i) (mock_tick E dv_on_result)"
    by (rule tick_keeps [OF result]) (simp_all add: lib_ok_def)
  have push: "keeps_inv (lib_ok h i) (PushData d)" for d
    unfolding PushData_def by (intro keeps) (simp add: lib_ok_def)
  have put: "keeps_inv (lib_ok h i) (put_listeners ty cbs)" for ty cbs
    unfolding put_listeners_def by (intro keeps) (simp add: lib_ok_def)
  have log: "keeps_inv (lib_ok h i) (command c)" for c
    unfolding command_def by (intro keeps) (simp add: lib_ok_def)
  have subscribe: "keeps_inv (lib_ok h i) (dv_Subscribe E ty event cb)" for ty event cb
    unfolding dv_Subscribe_def by (intro keeps put log Enable_lib) (simp_all add: lib_ok_def)
  have unsubscribe: "keeps_inv (lib_ok h i) (dv_Unsubscribe E ty event cb)" for ty event cb
    unfolding dv_Unsubscribe_def by (intro keeps put log Disable_lib) (simp_all add: lib_ok_def)
  show ?thesis
    by (rule handle_keeps [OF subscribe unsubscribe push turn tick])
qed

lemma run_lib: "lib_ok h i s \<Longrightarrow> lib_ok h i (status_run E es s)"
  by (rule status_run_keeps [OF handle_lib])

lemma new_lib: "lib_ok False False new_status_manager"
  using all_counted_new by (simp add: lib_ok_def) (simp add: new_status_manager_def dv_Init_def before_init_def)

text \<open>
  The algorithm library, once loaded, is never unloaded again, although every subscriber may leave:
  the log statement that reads the counter of the disabled type inserts the type again.
\<close>

theorem library_never_unloaded:
  assumes "ci_algoHandle (status_run E es new_status_manager)"
  shows "ci_algoHandle (status_run E (es @ fs) new_status_manager)"
proof -
  have "lib_ok True False (status_run E es new_status_manager)"
    using run_lib [OF new_lib, of E es] assms by (simp add: lib_ok_def)
  then have "lib_ok True False (status_run E fs (status_run E es new_status_manager))"
    by (rule run_lib)
  then show ?thesis
    by (simp add: lib_ok_def)
qed

theorem library_never_unloaded_witness:
  "ci_algoHandle (status_run sample_status_env [ClientSubscribes TYPE_ABSOLUTE_STILL ENTER (Callback 4),
     ClientUnsubscribes TYPE_ABSOLUTE_STILL ENTER (Callback 4)] new_status_manager)"
  using library_never_unloaded [of sample_status_env "[ClientSubscribes TYPE_ABSOLUTE_STILL ENTER (Callback 4)]"
      "[ClientUnsubscribes TYPE_ABSOLUTE_STILL ENTER (Callback 4)]"]
    first_serving [OF sample_env_healthy, of TYPE_ABSOLUTE_STILL ENTER 4]
  by (simp add: serving_def valid_event_def)

section \<open>The mock behind the algorithms\<close>

definition mock_view :: "'s mock_scheme \<Rightarrow> bool \<times> bool \<times> i32 \<times> bool" where
  "mock_view s = (mk_alive s, mk_looping s, mk_timerFd s, mk_callback s)"

lemma am_Disable_mock: "unchanged mock_view (am_Disable E ty)"
  unfolding sensor_defs command_def consult_def by (intro frame; simp add: mock_view_def)

lemma Disable_shadowed:
  assumes "lib_ok h True s" "valid_type ty"
  shows "mock_view (exec (dv_Disable E ty) s) = mock_view s"
proof -
  obtain t where t: "t = s \<or> t = exec (am_Disable E ty) s"
    "exec (AlgoDisable E ty) s = t\<lparr>ci_algoCallCounts := AList.update ty 0 (AList.delete ty (ci_algoCallCounts t))\<rparr>"
    using AlgoDisable_exec(2) [OF assms] by blast
  have "mock_view t = mock_view s"
    using t(1) am_Disable_mock [of E ty] by (auto simp: unchanged_def)
  then have "mock_view (exec (AlgoDisable E ty) s) = mock_view s"
    by (simp add: t(2) mock_view_def)
  then show ?thesis
    using AlgoDisable_exec(1) [OF assms] assms(1) by (simp add: dv_Disable_def ci_Disable_def lib_ok_def)
qed

text \<open>
  C39. A mock that runs is not stopped any more once the algorithm library has been in use: whoever
  unsubscribes, the algorithms claim to have disabled the type, and the timer of the mock keeps
  running and reporting.
\<close>

theorem algorithms_shadow_mock:
  fixes E es
  defines "s \<equiv> status_run E es new_status_manager"
  assumes "ci_iAlgo s"
  shows "let t = exec (status_handle E (ClientUnsubscribes ty event cb)) s in
     mk_alive t = mk_alive s \<and> mk_timerFd t = mk_timerFd s \<and> mk_callback t = mk_callback s"
proof -
  have ok: "lib_ok False True s"
    using run_lib [OF new_lib, of E es] assms(2) by (simp add: lib_ok_def s_def)
  have "mock_view (exec (dv_Unsubscribe E ty event cb) s) = mock_view s"
  proof (cases "\<exists>a cbs. cb = Callback a \<and> map_of (dv_listeners s) ty = Some cbs \<and> valid_type ty \<and> valid_event event")
    case True
    then obtain a cbs where cb: "cb = Callback a" "map_of (dv_listeners s) ty = Some cbs" "valid_type ty" "valid_event event"
      by blast
    note unsubscribed = Unsubscribe_exec [OF cb(3,4,2), of a E]
    let ?t = "s\<lparr>st_log := st_log s @ [DeathUnwatched a], dv_listeners := AList.delete ty (dv_listeners s)\<rparr>"
    have "lib_ok False True ?t"
      using ok by (simp add: lib_ok_def)
    then have disable: "mock_view (exec (dv_Disable E ty) ?t) = mock_view ?t"
      using cb(3) by (rule Disable_shadowed)
    have same: "mock_view ?t = mock_view s"
      by (simp add: mock_view_def)
    consider "a \<notin> set cbs" | "a \<in> set cbs" "filter (\<lambda>x. x \<noteq> a) cbs \<noteq> []" | "a \<in> set cbs" "filter (\<lambda>x. x \<noteq> a) cbs = []"
      by blast
    then show ?thesis
    proof cases
      case 1
      then show ?thesis
        by (simp add: cb(1) unsubscribed(1))
    next
      case 2
      then show ?thesis
        unfolding cb(1) unsubscribed(2) [OF 2] by (simp add: mock_view_def)
    next
      case 3
      show ?thesis
        unfolding cb(1) unsubscribed(3) [OF 3] Let_def by (simp only: disable same simp_thms split: if_split)
    qed
  next
    case False
    then show ?thesis
      by (cases cb) (auto simp: dv_Unsubscribe_def split: option.split)
  qed
  then show ?thesis
    by (simp add: Let_def mock_view_def status_handle_def UnsubscribeStationaryCallback_def)
qed

theorem algorithms_shadow_mock_witness:
  "mk_alive (status_run sample_status_env [ClientSubscribes TYPE_STILL ENTER (Callback 5),
     ClientSubscribes TYPE_ABSOLUTE_STILL ENTER (Callback 4), ClientUnsubscribes TYPE_ABSOLUTE_STILL ENTER (Callback 4),
     ClientUnsubscribes TYPE_STILL ENTER (Callback 5)] new_status_manager)"
proof -
  let ?es = "[ClientSubscribes TYPE_STILL ENTER (Callback 5), ClientSubscribes TYPE_ABSOLUTE_STILL ENTER (Callback 4),
    ClientUnsubscribes TYPE_ABSOLUTE_STILL ENTER (Callback 4)]"
  have s: "ci_iAlgo (status_run sample_status_env ?es new_status_manager)"
    "mk_alive (status_run sample_status_env ?es new_status_manager)"
    by code_simp+
  show ?thesis
    using algorithms_shadow_mock [OF s(1), of TYPE_STILL ENTER "Callback 5"] s(2) by (simp add: Let_def)
qed

end
