(* ===== verification/Spec2Isabelle.thy ===== *)
theory Spec2Isabelle
  imports Prelude Effects Stream_Buffer Channel Coop_Events World Registry Event_Mgr Hot_Area
    Mouse_Location Mouse_Subscriptions Input_Dev_Mgr DSoftbus Doubles Coop_Context Input_Serialization
    Input_Transmission Input_Crossing Coop_Machine Coop_Free Coop_Out Coop_In State_Machine Machine_Control Machine_Refinement
    Handler_Effects Cooperate Plugin_Runs Task_Scheduler Timers Session_Properties Drag_Endings
    Drag_Listeners Status_Runs
begin

text \<open>
  A verification library for msdp_device_status, the device status service of OpenHarmony. It
  covers three pieces of its logic. One is the cooperate plugin under
  src/intention/cooperate/plugin, with which a mouse and keyboard of one device control another,
  and the parts it is built on: the packets of src/utils/ipc, the event channel of
  src/intention/common/channel, the timers and the task scheduler of src/intention/scheduler. The
  second is the drag service under src/services/interaction/drag, src/services/drag_auth and
  src/intention/drag, with which content is dragged from one application to another, and the
  sockets over which clients are told, src/intention/ipc/socket. The third is the stack that tells
  clients how the device lies: the sensor algorithms under src/libs, and the manager and its client
  of them under src/services/native, behind src/intention/stationary.

  How the program works. Clients call the plugin's interface (\<open>Cooperate\<close>); each call puts an
  event into a bounded channel. One worker thread takes the events out and hands them to the
  \<open>StateMachine\<close>, which serves the events that concern the whole plugin itself and passes the
  rest on to one of three states: \<open>CooperateFree\<close>, \<open>CooperateOut\<close> (this device controls a peer)
  and \<open>CooperateIn\<close> (a peer controls this device), the last with the steps \<open>Initial\<close> and
  \<open>RelayConfirmation\<close>. The states share a \<open>Context\<close> with managers for the softbus messages, client
  notifications, hot areas, mouse locations, remote input devices, and the builder and
  interceptor of input events. Messages of peers, timers, input monitors and observers of the
  system raise further events, or work on the shared managers directly.

  The drag service is one singleton, \<open>DragManager\<close>, behind the calls of \<open>DragServer\<close>. A drag
  starts at the call of its source: monitors of pointer and keys are added to the input service,
  the renderer is started, a nonce is handed to the input service, the clients are told. Pointer
  events then move the window and, when the pointer is released, arm a timer within which the
  target must stop the drag with an outcome; the target may read the key of the data once it has
  shown a signature under the nonce. \<open>StopDrag\<close>, whoever calls it, undoes all that.

  Clients subscribe to a device state at \<open>StationaryServer\<close>. \<open>DeviceStatusManager\<close> keeps the subscribers
  of each type and enables the type at \<open>DeviceStatusMsdpClientImpl\<close>, which loads the library that
  serves it: the algorithms, fed by the sensor service through a queue and a thread, or a mock
  that reads a file when its timer expires. What they report goes back up to the subscribers.

  How it is modelled. All state is one record that grows theory by theory (\<open>world\<close> in World, with
  the channel, up to \<open>machine\<close> in Coop_Machine and \<open>plugin\<close> in Cooperate): a data member of a class
  is a field with the class's prefix (\<open>em_\<close>, \<open>ha_\<close>, \<open>ml_\<close>, \<open>ctx_\<close>, \<open>ib_\<close>, \<open>ii_\<close>, \<open>sm_\<close>).
  An operation is a state transformer of State_Monad, with its calls in the order of the source
  and its early returns as branches. 32-bit integers are words that wrap; \<open>double\<close> is an exact
  rational (Doubles says which rounding that leaves out). What the plugin asks of the system
  (display size, bus calls, accounts, drag state, timers, the constants of the input service) is
  a record \<open>env\<close> of functions, asked with a clock that advances with every question, so that
  no two answers need agree; what it tells the system is the list \<open>trace\<close> of commands. Every
  property holds for all environments unless it names an assumption about one.

  The theories, from the bottom up.

  \<^item> Prelude, Effects: machine integers, byte images, ordered sets; the primitive operations, and
    the two calculi the proofs use, \<open>unchanged f m\<close> (an operation leaves a view of the state
    alone; the collection \<open>frame\<close>) and \<open>keeps_inv\<close>.
  \<^item> Stream_Buffer (src/utils/ipc): \<open>StreamBuffer\<close>, \<open>CircleStreamBuffer\<close>, \<open>NetPacket\<close>,
    \<open>StreamSocket::OnReadPackets\<close>. Locale \<open>wire_codec\<close>: what is written is read back, whatever
    follows; instances for integers, booleans and strings.
  \<^item> Channel (channel.h): the queue of at most 1024 events. Locale \<open>bounded_queue\<close>.
  \<^item> Coop_Events (cooperate_events.h, i_cooperate.h, i_device.h, coordination_message.h): events and
    data. World: the environment and the commands.
  \<^item> Registry, Event_Mgr, Hot_Area, Mouse_Location (event_manager.cpp, hot_area.cpp,
    mouse_location.cpp): who is told what. Locale \<open>listener_registry\<close>: registering, unregistering
    and the death of a client, for lists and ordered sets alike. Mouse_Subscriptions: what peers have
    been told along a run of mouse locations, against the table of those who follow them.
  \<^item> Input_Dev_Mgr (input_device_mgr.cpp): devices of peers and the virtual devices for them,
    with the account of those added and removed.
  \<^item> DSoftbus (dsoftbus_handler.cpp): sessions, every message written and read.
  \<^item> Doubles, Coop_Context (cooperate_context.cpp): positions, speeds, flags, observers.
  \<^item> Input_Serialization (input_event_serialization.cpp, inner_pointer_item.cpp): events into packets
    and back. Locale \<open>field\<close>: fields of fixed length; \<open>yields\<close> follows a reader along the bytes it
    consumes, \<open>writes\<close> says what a writer appends. Input_Transmission (input_event_builder.cpp,
    input_event_interceptor.cpp): the local and the remote end of the input; Input_Crossing: both.
  \<^item> Coop_Machine (i_cooperate_state.cpp, the transitions of state_machine.cpp), Coop_Free,
    Coop_Out, Coop_In (cooperate_free.cpp, cooperate_out.cpp, cooperate_in.cpp), State_Machine
    (state_machine.cpp): all handlers.
  \<^item> Machine_Control, Machine_Refinement: the specification \<open>phase_step\<close> with the four phases Idle,
    Controlling, Controlled and Relaying, and that handling any event refines it.
  \<^item> Handler_Effects: the handlers raise only harmless events, answer no start but their own.
  \<^item> Cooperate (cooperate.cpp): the calls, the worker, construction and destruction.
  \<^item> Task_Scheduler (task_scheduler.cpp, id_factory.h): tasks that other threads hand to the worker
    of the service, and their callers that wait. Locale \<open>task_runner\<close>: what running a task may do.
    Timers (timer_manager.cpp): the list of timers, ordered by due time, and its operations, those
    of other threads as tasks.
  \<^item> Plugin_Runs: any interleaving of calls, turns of the worker and callbacks.
  \<^item> Service_World: the environment and the commands of the drag service and the sockets, on a
    state of their own. Sessions (socket_session.cpp, socket_session_manager.cpp) and
    Session_Properties. Locale \<open>session_clients\<close>: what the table of sessions owes to a client that
    holds sessions, and the client to it.
  \<^item> Drag_Data (drag_data.h, drag_data_manager.cpp, state_change_notify.cpp), Drag_Auth
    (drag_auth.cpp, drag_security_manager.cpp), Drag_Manager, Drag_Clients, Drag_Events
    (drag_manager.cpp, event_hub.cpp; fields with the prefixes \<open>dm_\<close>, \<open>sn_\<close>, \<open>da_\<close>, \<open>mo_\<close>, \<open>dg_\<close>),
    Drag_Server (drag_server.cpp).
  \<^item> Drag_Frames: which operation leaves which view of the state alone. Drag_Runs: any
    interleaving of calls, monitor events, system events, tasks and timers. Drag_Example: one
    drag, evaluated. Drag_Properties, Drag_Keys, Drag_Endings: the properties. Drag_Listeners: the
    drag manager as a client of the table of sessions.
  \<^item> Status_World: the environment and the commands of the device status stack, on a state of its
    own. Sensor_Algorithms (algo_base.cpp, algo_absolute_still.cpp, algo_horizontal.cpp,
    algo_vertical.cpp): locale \<open>debouncer\<close>, one algorithm, with the three as its instances.
    Sensor_Manager (sensor_data_callback.cpp, devicestatus_algorithm_manager.cpp), Msdp_Client
    (devicestatus_msdp_client_impl.cpp, devicestatus_msdp_mock.cpp, devicestatus_data_parse.cpp),
    Status_Manager (devicestatus_manager.cpp, stationary_server.cpp; fields with the prefixes
    \<open>al_\<close>, \<open>sd_\<close>, \<open>am_\<close>, \<open>mk_\<close>, \<open>ci_\<close>, \<open>dv_\<close>). Status_Properties, Status_Endings: from the samples to
    the subscribers, and when they leave; Status_Runs: any sequence of calls, samples and turns.

  What is shown. Round trips of packets, messages, device lists and virtual devices; the circular
  buffer and the channel as queues, packets delivered once and in order however they are cut up
  on the wire; tables of listeners, subscriptions and remote devices well formed after every
  operation, no peer left subscribed at without a follower, and no virtual device lost; every registered client told once, nobody after its death; pointer positions,
  damped movements and hot areas within their bounds; remote input released when it is switched
  off; the state machine consistent along every run, no remote control left after a stop,
  refused to devices of other accounts; every accepted start call answered once, and the
  destructor's join; timers fired when due, in order and as often as asked for, tasks carried out
  and their callers released; an input event of one device handed unchanged to the input service
  of the other. For the drag service: it refines a machine that is idle or dragging, whatever clients,
  input service, renderer and timers do; monitors are balanced; the observer of the state sees
  starts and stops in turn; to an application that is no system application the key of the
  data is only given after a signature, which is accepted exactly
  when it is the HMAC of the event under the current nonce, in time, and only once; a stop
  clears the drag, a start succeeds when it can, a released drag ends. Messages reach clients whole
  or as a prefix; the table of sessions is sound and no listener outlives its session, provided
  the kernel does not hand out a descriptor that is in use (\<open>fresh_sockets\<close>). For the device states: each
  algorithm reports exactly the changes of a debounced verdict, which is what the subscriber is told, if it is alone with its type;
  each report goes to those whose calls have subscribed them and to nobody else, and deaths are watched exactly for those subscribed. Where the code does
  something else than it means to, a theorem says so (the properties of kind error).

  Bounds. The worker's loop may run for ever, so \<open>Loop E n\<close> and \<open>StopWorker E n\<close> are given a number
  of turns; \<open>stop_worker_joins\<close> shows that one turn more than the events that wait is enough.
  \<open>process_loop\<close> of the timers is given a number of rounds too; \<open>due_timers_worked_off\<close> shows how many
  are enough, counting how late the due timers are. \<open>read_packets\<close> runs at most \<open>ONCE_PROCESS_NETPACKET_LIMIT\<close> times, as the source does. All other
  recursion is structural.

  Not modelled. Logging, telemetry (\<open>CooperateRadar\<close>), performance traces, dumps and
  anonymised strings have no effect on the state. Threads are interleaved at the granularity of
  whole handlers: races inside one are out of reach. The sampler (input_event_sampler.cpp) and the
  enhance data of input_event_serialization.cpp are behind build flags. The adapters and the
  device manager are the environment; so are, for the plugin, the timers, whose own model
  (Timers) is not composed with it: the plugin's callbacks are happenings of Plugin_Runs. The drag service
  is modelled as it is built by default: the interceptor, drop animations, pull-throw, Anco, the PC
  product and universal drag are behind build flags. Its renderer (drag_drawing.cpp) is graphics:
  what it is asked to draw are commands; only its data check and its running flag are modelled.
  Of the device status stack the posture of the device, the metadata binding of the manager, the
  dumper and builds with \<open>MOTION_ENABLE\<close> are left out; samples are rationals, so that neither rounding
  nor samples that are no number are covered; a thread of the mock whose epoll call fails is taken
  to go on; calls and threads are whole steps, so that the
  order in which it takes its mutexes is not modelled. The motion and on-screen services, the
  remaining IPC glue and the bindings are separate programs around these and are not part of this library.
\<close>

end
